(* ===== verification/Hookfly_Prelude.thy ===== *)
theory Hookfly_Prelude
  imports Main "HOL-Library.Multiset" "HOL-Library.List_Lexorder" "HOL-Library.Char_ord" "HOL-Library.Product_Lexorder"
begin

text \<open>
  Shared vocabulary of the development.

  \<^item> Types: Go strings and byte slices are \<open>string\<close> (a list of bytes); an instant is the number of
    nanoseconds since the Unix epoch (\<open>int\<close>), a duration a number of nanoseconds; a SQLite timestamp
    column holds milliseconds.
  \<^item> SQL: a table is the list of its rows in insertion order. \<open>sql_update\<close>, \<open>sql_affected\<close> and
    \<open>sql_first\<close> are the \<^verbatim>\<open>UPDATE ... WHERE\<close> statement, its \<^verbatim>\<open>RowsAffected\<close> count and
    \<^verbatim>\<open>QueryRow\<close>; \<open>sort_key\<close> and \<open>take\<close> are \<^verbatim>\<open>ORDER BY\<close> and \<^verbatim>\<open>LIMIT\<close>. SQLite compares
    TEXT columns bytewise, which is the lexicographic order on \<open>string\<close>.
  \<^item> The locale \<open>keyed_table\<close>: what a primary key promises. The tables of the schema interpret it in the theory
    \<open>Store_Schema\<close>.
  \<^item> Collections: \<open>sql_simps\<close> evaluates statements over tables, \<open>time_defs\<close> the units of time.
\<close>

named_theorems sql_simps
named_theorems time_defs

type_synonym bytes = string
type_synonym time = int
type_synonym duration = int
type_synonym millis = int

section \<open>Time\<close>

definition nanos_per_milli :: int where
  "nanos_per_milli = 1000000"

definition UnixMilli :: "time \<Rightarrow> millis" where
  "UnixMilli t = t div nanos_per_milli"

definition timeUnixMilli :: "millis \<Rightarrow> time" where
  "timeUnixMilli ms = ms * nanos_per_milli"

definition second :: duration where
  "second = 1000000000"

definition millisecond :: duration where
  "millisecond = nanos_per_milli"

definition minute :: duration where
  "minute = 60 * second"

declare nanos_per_milli_def [time_defs] second_def [time_defs] millisecond_def [time_defs] minute_def [time_defs]

lemma UnixMilli_timeUnixMilli [simp]: "UnixMilli (timeUnixMilli ms) = ms"
  by (simp add: UnixMilli_def timeUnixMilli_def nanos_per_milli_def)

lemma UnixMilli_mono: "s \<le> t \<Longrightarrow> UnixMilli s \<le> UnixMilli t"
  by (simp add: UnixMilli_def nanos_per_milli_def zdiv_mono1)

text \<open>Comparing an instant with a stored millisecond column is exact in one direction: the instant has
  passed the stored millisecond iff its own millisecond has.\<close>

lemma timeUnixMilli_le_iff: "timeUnixMilli ms \<le> t \<longleftrightarrow> ms \<le> UnixMilli t"
proof -
  have "ms * 1000000 \<le> t \<longleftrightarrow> ms \<le> t div 1000000" by linarith
  then show ?thesis
    by (simp add: timeUnixMilli_def UnixMilli_def nanos_per_milli_def)
qed

text \<open>An interval of at least one millisecond always moves the stored millisecond forward.\<close>

lemma UnixMilli_add_strict: "millisecond \<le> i \<Longrightarrow> UnixMilli t < UnixMilli (t + i)"
proof -
  assume "millisecond \<le> i"
  then have "t + 1000000 \<le> t + i" by (simp add: millisecond_def nanos_per_milli_def)
  then have "(t + 1000000) div 1000000 \<le> (t + i) div 1000000"
    by (rule zdiv_mono1) simp
  then show ?thesis by (simp add: UnixMilli_def nanos_per_milli_def)
qed

section \<open>Results\<close>

text \<open>\<open>'e + 'a\<close> is a Go result: \<open>Inl\<close> the error, \<open>Inr\<close> the value. An early return on error is a case
  split that hands the error on.\<close>

lemma result_bind_Inr [simp]:
  "(case x of Inl e \<Rightarrow> Inl e | Inr a \<Rightarrow> f a) = Inr b \<longleftrightarrow> (\<exists>a. x = Inr a \<and> f a = Inr b)"
  by (cases x) simp_all

lemma snd_if_same: "snd (if c then (x, y) else (z, y)) = y"
  by simp

section \<open>SQL statements over tables\<close>

definition sql_update :: "('r \<Rightarrow> bool) \<Rightarrow> ('r \<Rightarrow> 'r) \<Rightarrow> 'r list \<Rightarrow> 'r list" where
  "sql_update p f t = map (\<lambda>r. if p r then f r else r) t"

definition sql_affected :: "('r \<Rightarrow> bool) \<Rightarrow> 'r list \<Rightarrow> nat" where
  "sql_affected p t = length (filter p t)"

definition sql_first :: "'r list \<Rightarrow> 'r option" where
  "sql_first t = (case t of [] \<Rightarrow> None | r # _ \<Rightarrow> Some r)"

lemma sql_first_SomeD: "sql_first t = Some r \<Longrightarrow> r \<in> set t"
  by (auto simp: sql_first_def split: list.splits)

lemma sql_first_None [simp]: "sql_first t = None \<longleftrightarrow> t = []"
  by (cases t) (simp_all add: sql_first_def)

lemma sql_first_simps [simp]: "sql_first [] = None" "sql_first (r # t) = Some r"
  by (simp_all add: sql_first_def)

lemma sql_first_singleton: "r \<in> set t \<Longrightarrow> (\<And>x. x \<in> set t \<Longrightarrow> x = r) \<Longrightarrow> sql_first t = Some r"
  by (metis list.set_intros(1) neq_Nil_conv list.set(1) empty_iff sql_first_simps(2))

lemma set_sql_update [sql_simps]: "set (sql_update p f t) = (\<lambda>r. if p r then f r else r) ` set t"
  by (simp add: sql_update_def)

lemma length_sql_update [simp]: "length (sql_update p f t) = length t"
  by (simp add: sql_update_def)

lemma sql_update_cong:
  "(\<And>r. r \<in> set t \<Longrightarrow> p r = q r) \<Longrightarrow> (\<And>r. r \<in> set t \<Longrightarrow> q r \<Longrightarrow> f r = g r) \<Longrightarrow>
   sql_update p f t = sql_update q g t"
  unfolding sql_update_def by (rule map_cong) auto

lemma sql_update_None: "(\<And>r. r \<in> set t \<Longrightarrow> \<not> p r) \<Longrightarrow> sql_update p f t = t"
  by (simp add: sql_update_def map_idI)

lemma map_sql_update [sql_simps]:
  "(\<And>r. k (f r) = k r) \<Longrightarrow> map k (sql_update p f t) = map k t"
  by (simp add: sql_update_def)

lemma image_sql_update:
  "(\<And>r. k (f r) = k r) \<Longrightarrow> k ` set (sql_update p f t) = k ` set t"
  by (metis list.set_map map_sql_update)

lemma ball_sql_update:
  "(\<forall>r\<in>set (sql_update p f t). P r) \<longleftrightarrow> (\<forall>r\<in>set t. if p r then P (f r) else P r)"
  by (auto simp: sql_update_def)

lemma sql_affected_0: "sql_affected p t = 0 \<longleftrightarrow> (\<forall>r\<in>set t. \<not> p r)"
  by (simp add: sql_affected_def filter_empty_conv)

lemma sql_affected_pos: "sql_affected p t = Suc n \<Longrightarrow> \<exists>r\<in>set t. p r"
  using sql_affected_0 [of p t] by auto

section \<open>Sorting with a key\<close>

text \<open>\<^verbatim>\<open>ORDER BY\<close> with distinct keys has one result: every rearrangement of the rows sorts to the
  same list.\<close>

lemma sort_key_distinct_unique:
  assumes "mset xs = mset ys" and "distinct (map k xs)"
  shows "sort_key k xs = sort_key k ys"
proof -
  have m: "mset (sort_key k xs) = mset (sort_key k ys)" using assms(1) by simp
  have inj: "inj_on k (set (sort_key k xs))" using assms(2) by (simp add: distinct_map)
  have "sorted (map k (sort_key k xs))" "sorted (map k (sort_key k ys))" by simp_all
  moreover have "mset (map k (sort_key k xs)) = mset (map k (sort_key k ys))" using m by simp
  ultimately have "map k (sort_key k xs) = map k (sort_key k ys)"
    by (metis properties_for_sort)
  moreover have "set (sort_key k xs) = set (sort_key k ys)"
    using m by (metis mset_eq_setD)
  ultimately show ?thesis using inj by (metis map_inj_on sup.idem)
qed

lemma sql_first_sort_key_min:
  assumes "sql_first (sort_key k t) = Some r" and "x \<in> set t"
  shows "k r \<le> k x"
proof (cases "sort_key k t")
  case Nil
  then show ?thesis using assms by simp
next
  case (Cons y ys)
  have "sorted (map k (sort_key k t))" by simp
  moreover have "x \<in> set (y # ys)" using assms(2) Cons by (metis set_sort)
  ultimately show ?thesis using assms(1) Cons by auto
qed

lemma sql_first_sort_key_ex: "x \<in> set t \<Longrightarrow> \<exists>y. sql_first (sort_key k t) = Some y"
  by (metis empty_iff list.set(1) not_None_eq set_sort sql_first_None)

section \<open>Tables with a primary key\<close>

lemma keyed_unique:
  "distinct (map key t) \<Longrightarrow> r \<in> set t \<Longrightarrow> s \<in> set t \<Longrightarrow> key r = key s \<Longrightarrow> r = s"
  by (meson distinct_map inj_onD)

locale keyed_table =
  fixes rows :: "'s \<Rightarrow> 'r list" and key :: "'r \<Rightarrow> 'k" and ok :: "'s \<Rightarrow> bool"
  assumes distinct_keys: "ok s \<Longrightarrow> distinct (map key (rows s))"
begin

lemma unique: "ok s \<Longrightarrow> r \<in> set (rows s) \<Longrightarrow> r' \<in> set (rows s) \<Longrightarrow> key r = key r' \<Longrightarrow> r = r'"
  by (rule keyed_unique [OF distinct_keys])

end

lemma affected_one:
  assumes d: "distinct (map key t)" and r: "r \<in> set t" "p r"
    and u: "\<And>s. s \<in> set t \<Longrightarrow> p s \<Longrightarrow> key s = key r"
  shows "sql_affected p t = 1"
proof -
  have "set (filter p t) = {r}" using r u keyed_unique [OF d] by auto
  moreover have "distinct (filter p t)" using d by (simp add: distinct_map)
  ultimately have "length (filter p t) = card {r}" by (metis distinct_card)
  then show ?thesis by (simp add: sql_affected_def)
qed

end
