(* ===== verification/Documents.thy ===== *)
theory Documents
  imports Hookfly_Prelude
begin

text \<open>
  The JSON documents the program stores and reads back: target binding snapshots, rule snapshots and
  the envelope of a forwarded webhook. A column that holds such a document is kept as the value it
  decodes to, so that encoding and decoding it is the identity; what the decoder of the source can
  additionally meet (no bytes, bytes it rejects, a missing version) are constructors of their own.
\<close>

section \<open>JSON values\<close>

text \<open>A decoded value with \<^verbatim>\<open>UseNumber\<close>: a number keeps its literal. An object is the list of its members.\<close>

datatype json =
    JNull
  | JBool bool
  | JNumber string
  | JString string
  | JArray "json list"
  | JObject "(string \<times> json) list"

section \<open>Target snapshots (runtimecfg/generation.go, ssh.go)\<close>

record sshSnapshot =
  sh_ID :: string
  sh_Host :: string
  sh_Port :: int
  sh_User :: string

record connectionSnapshot =
  cs_ID :: string
  cs_BaseURL :: string

record httpBodySnapshot =
  hb_Type :: string
  hb_ContentType :: string
  hb_Value :: json

text \<open>Maps are association lists in key order, the order in which \<^verbatim>\<open>json.Marshal\<close> writes them.\<close>

record httpTargetSnapshot =
  ht_Method :: string
  ht_Path :: string
  ht_Query :: "(string \<times> string list) list"
  ht_Headers :: "(string \<times> string) list"
  ht_Body :: "httpBodySnapshot option"
  ht_SuccessStatuses :: "int list"

record forwardTargetSnapshot =
  ft_URL :: string
  ft_Host :: string
  ft_AllowPrivateNetwork :: bool

record targetSnapshot =
  ts_SSH :: "sshSnapshot option"
  ts_BindingVersion :: int
  ts_ID :: string
  ts_Type :: string
  ts_ResourceType :: string
  ts_ResourceID :: string
  ts_Connection :: connectionSnapshot
  ts_HTTP :: "httpTargetSnapshot option"
  ts_Forward :: "forwardTargetSnapshot option"

text \<open>Stored snapshot bytes as the binding check sees them: none, not decodable, decodable without a
  \<^verbatim>\<open>binding_version\<close> member, or complete.\<close>

datatype SnapshotDoc =
    SnapshotEmpty
  | SnapshotInvalid
  | SnapshotUnversioned targetSnapshot
  | SnapshotDoc targetSnapshot

section \<open>Rule snapshots\<close>

record canonicalRuleMatchSnapshot =
  crm_Source :: string
  crm_Repository :: string
  crm_Event :: string
  crm_Ref :: "string option"
  crm_Status :: "string option"
  crm_Revision :: "string option"
  crm_ExternalID :: "string option"
  crm_Trigger :: "string option"

record ruleActionSnapshot =
  ras_Type :: string
  ras_Targets :: "string list"

record canonicalRuleSnapshot =
  crs_ID :: string
  crs_Priority :: int
  crs_Match :: canonicalRuleMatchSnapshot
  crs_Action :: ruleActionSnapshot

section \<open>The forward envelope (publichook/handler.go, httptarget/forward.go)\<close>

type_synonym header = "(string \<times> string list) list"

record ForwardRequest =
  fr_Version :: int
  fr_Method :: string
  fr_RawQuery :: string
  fr_Host :: string
  fr_Headers :: header

end
