(* ===== verification/Domain.thy ===== *)
theory Domain
  imports Documents
begin

text \<open>
  The vocabulary of \<^verbatim>\<open>internal/domain\<close>: the transport and deployment status enums, the manual
  operations, the provider-independent event, and the routing decision. \<open>Active\<close> and
  \<open>AllowedOperations\<close> are the two functions every other component consults before it changes state.
\<close>

section \<open>Statuses (status.go)\<close>

datatype TransportStatus =
  TransportPending | TransportSending | TransportEnqueued | TransportFailed | TransportUnknown

datatype DeploymentStatus =
  DeploymentNotStarted | DeploymentLocating | DeploymentRunning | DeploymentUnrecognized
  | DeploymentDone | DeploymentError | DeploymentCancelled | DeploymentTimeout | DeploymentUnknown

text \<open>\<^verbatim>\<open>Operation\<close> is a string type with two constants; the management API hands over any string.\<close>

datatype Operation = OperationRetry | OperationRedeploy | OperationOther string

fun transportText :: "TransportStatus \<Rightarrow> string" where
  "transportText TransportPending = ''pending''"
| "transportText TransportSending = ''sending''"
| "transportText TransportEnqueued = ''enqueued''"
| "transportText TransportFailed = ''failed''"
| "transportText TransportUnknown = ''unknown''"

fun deploymentText :: "DeploymentStatus \<Rightarrow> string" where
  "deploymentText DeploymentNotStarted = ''not_started''"
| "deploymentText DeploymentLocating = ''locating''"
| "deploymentText DeploymentRunning = ''running''"
| "deploymentText DeploymentUnrecognized = ''unrecognized''"
| "deploymentText DeploymentDone = ''done''"
| "deploymentText DeploymentError = ''error''"
| "deploymentText DeploymentCancelled = ''cancelled''"
| "deploymentText DeploymentTimeout = ''timeout''"
| "deploymentText DeploymentUnknown = ''unknown''"

fun operationText :: "Operation \<Rightarrow> string" where
  "operationText OperationRetry = ''retry''"
| "operationText OperationRedeploy = ''redeploy''"
| "operationText (OperationOther s) = s"

definition Active :: "TransportStatus \<Rightarrow> DeploymentStatus \<Rightarrow> bool" where
  "Active transport deployment \<longleftrightarrow>
     transport = TransportPending \<or> transport = TransportSending \<or>
     deployment = DeploymentLocating \<or> deployment = DeploymentRunning \<or>
     deployment = DeploymentUnrecognized"

definition AllowedOperations :: "TransportStatus \<Rightarrow> DeploymentStatus \<Rightarrow> Operation list" where
  "AllowedOperations transport deployment =
     (if transport = TransportFailed \<or> transport = TransportUnknown then [OperationRetry]
      else if deployment = DeploymentError \<or> deployment = DeploymentCancelled \<or>
              deployment = DeploymentTimeout \<or> deployment = DeploymentUnknown
      then [OperationRedeploy]
      else [])"

section \<open>Events and decisions (event.go)\<close>

record CanonicalEvent =
  ce_Provider :: string
  ce_Source :: string
  ce_Repository :: string
  ce_Event :: string
  ce_Ref :: string
  ce_Status :: string
  ce_Revision :: string
  ce_CommitMessage :: string
  ce_ExternalID :: string
  ce_Trigger :: string

text \<open>\<^verbatim>\<open>RoutingResult\<close> is a string type; \<open>RoutingNone\<close> is its zero value, the empty string.\<close>

datatype RoutingResult =
  RoutingNone | RoutingUnmatched | RoutingRecordOnly | RoutingDeploy | RoutingDeferred
  | RoutingUnsupported

record NewDelivery =
  nd_TargetID :: string
  nd_TargetSnapshot :: SnapshotDoc
  nd_DispatchKey :: string

record RouteDecision =
  rd_RoutingResult :: RoutingResult
  rd_RuleID :: string
  rd_RuleSnapshot :: "canonicalRuleSnapshot option"
  rd_Deliveries :: "NewDelivery list"

text \<open>\<^verbatim>\<open>HeadersJSON\<close> is kept as what \<^verbatim>\<open>json.Unmarshal\<close> into \<^verbatim>\<open>map[string]json.RawMessage\<close> makes of it:
  no bytes, bytes it rejects, \<^verbatim>\<open>null\<close> (a nil map), or an object with its raw values.\<close>

datatype HeadersDoc =
  HeadersEmpty | HeadersInvalid | HeadersNull | HeadersObject "(string \<times> bytes) list"

record IngestCommand =
  ic_DeliveryID :: string
  ic_CanonicalEvent :: CanonicalEvent
  ic_ReceivedAt :: time
  ic_RoutingResult :: RoutingResult
  ic_RuleID :: string
  ic_RuleSnapshot :: "canonicalRuleSnapshot option"
  ic_ConfigDigest :: string
  ic_HeadersJSON :: HeadersDoc
  ic_PayloadJSON :: "bytes option"
  ic_RequestJSON :: "ForwardRequest option"
  ic_Deliveries :: "NewDelivery list"

record IngestResult =
  ir_EventID :: string
  ir_Duplicate :: bool

section \<open>Facts about the status functions\<close>

text \<open>The monitoring half of \<open>Active\<close>: the deployment is being watched by the poller. The SQL of the
  store spells it \<^verbatim>\<open>deployment_status IN ('locating', 'running', 'unrecognized')\<close>.\<close>

definition monitored :: "DeploymentStatus \<Rightarrow> bool" where
  "monitored deployment \<longleftrightarrow>
     deployment \<in> {DeploymentLocating, DeploymentRunning, DeploymentUnrecognized}"

lemma monitored_simps [simp]:
  "monitored DeploymentLocating" "monitored DeploymentRunning" "monitored DeploymentUnrecognized"
  "\<not> monitored DeploymentNotStarted" "\<not> monitored DeploymentDone" "\<not> monitored DeploymentError"
  "\<not> monitored DeploymentCancelled" "\<not> monitored DeploymentTimeout" "\<not> monitored DeploymentUnknown"
  by (simp_all add: monitored_def)

lemma Active_iff:
  "Active t d \<longleftrightarrow> t = TransportPending \<or> t = TransportSending \<or> monitored d"
  by (auto simp: Active_def monitored_def)

lemma deploymentText_inject: "deploymentText d = deploymentText d' \<longleftrightarrow> d = d'"
  by (cases d; cases d') simp_all

lemma AllowedOperations_cases:
  "op \<in> set (AllowedOperations t d) \<longleftrightarrow>
     (op = OperationRetry \<and> (t = TransportFailed \<or> t = TransportUnknown)) \<or>
     (op = OperationRedeploy \<and> t \<noteq> TransportFailed \<and> t \<noteq> TransportUnknown \<and>
      d \<in> {DeploymentError, DeploymentCancelled, DeploymentTimeout, DeploymentUnknown})"
  by (auto simp: AllowedOperations_def)

text \<open>The state pairs the program can store. Every write of the store keeps them (\<open>Store_Schema\<close>).\<close>

definition valid_status :: "TransportStatus \<Rightarrow> DeploymentStatus \<Rightarrow> bool" where
  "valid_status t d =
     (case t of
        TransportPending \<Rightarrow> d = DeploymentNotStarted
      | TransportSending \<Rightarrow> d = DeploymentNotStarted
      | TransportFailed \<Rightarrow> d = DeploymentNotStarted
      | TransportUnknown \<Rightarrow> d = DeploymentLocating \<or> d = DeploymentUnknown
      | TransportEnqueued \<Rightarrow> d \<noteq> DeploymentNotStarted)"

lemma valid_status_simps [simp]:
  "valid_status TransportPending d \<longleftrightarrow> d = DeploymentNotStarted"
  "valid_status TransportSending d \<longleftrightarrow> d = DeploymentNotStarted"
  "valid_status TransportFailed d \<longleftrightarrow> d = DeploymentNotStarted"
  "valid_status TransportUnknown d \<longleftrightarrow> d = DeploymentLocating \<or> d = DeploymentUnknown"
  "valid_status TransportEnqueued d \<longleftrightarrow> d \<noteq> DeploymentNotStarted"
  by (simp_all add: valid_status_def)

end
