(* ===== verification/Matcher.thy ===== *)
theory Matcher
  imports Domain
begin

text \<open>
  Route predicates: the configuration types of \<^verbatim>\<open>internal/config/types.go\<close> that describe a route,
  the matcher of \<^verbatim>\<open>internal/matcher/matcher.go\<close>, and the two private copies of the same predicates
  in \<^verbatim>\<open>internal/config/validate.go\<close> and \<^verbatim>\<open>internal/runtimecfg/generation.go\<close>. A \<^verbatim>\<open>*string\<close> is a
  \<open>string option\<close>, nil being \<open>None\<close>. The main fact: the syntactic overlap test decides exactly
  whether two predicates have a common event.
\<close>

section \<open>Configuration types of a route (types.go)\<close>

record SourceLocation =
  sl_Path :: string
  sl_Field :: string

record RouteMatch =
  rm_Source :: string
  rm_Repository :: string
  rm_Event :: string
  rm_Ref :: "string option"
  rm_Status :: "string option"
  rm_Revision :: "string option"
  rm_ExternalID :: "string option"
  rm_Trigger :: "string option"

record Action =
  ac_Type :: string
  ac_Targets :: "string list"

record Route =
  rt_ID :: string
  rt_Priority :: "int option"
  rt_Match :: RouteMatch
  rt_Action :: Action
  rt_Location :: SourceLocation

section \<open>matcher.go\<close>

definition matchesScalar :: "string option \<Rightarrow> string \<Rightarrow> bool" where
  "matchesScalar predicate v \<longleftrightarrow> predicate = None \<or> predicate = Some v"

definition routeMatches :: "RouteMatch \<Rightarrow> CanonicalEvent \<Rightarrow> bool" where
  "routeMatches m event \<longleftrightarrow>
     rm_Source m = ce_Source event \<and>
     rm_Repository m = ce_Repository event \<and>
     rm_Event m = ce_Event event \<and>
     matchesScalar (rm_Ref m) (ce_Ref event) \<and>
     matchesScalar (rm_Status m) (ce_Status event) \<and>
     matchesScalar (rm_Revision m) (ce_Revision event) \<and>
     matchesScalar (rm_ExternalID m) (ce_ExternalID event) \<and>
     matchesScalar (rm_Trigger m) (ce_Trigger event)"

fun FirstCanonical :: "Route list \<Rightarrow> CanonicalEvent \<Rightarrow> Route option" where
  "FirstCanonical [] event = None"
| "FirstCanonical (r # rs) event =
     (if routeMatches (rt_Match r) event then Some r else FirstCanonical rs event)"

definition scalarDomainsOverlap :: "string option \<Rightarrow> string option \<Rightarrow> bool" where
  "scalarDomainsOverlap left right \<longleftrightarrow> left = None \<or> right = None \<or> left = right"

definition Overlaps :: "RouteMatch \<Rightarrow> RouteMatch \<Rightarrow> bool" where
  "Overlaps left right \<longleftrightarrow>
     rm_Source left = rm_Source right \<and>
     rm_Repository left = rm_Repository right \<and>
     rm_Event left = rm_Event right \<and>
     scalarDomainsOverlap (rm_Ref left) (rm_Ref right) \<and>
     scalarDomainsOverlap (rm_Status left) (rm_Status right) \<and>
     scalarDomainsOverlap (rm_Revision left) (rm_Revision right) \<and>
     scalarDomainsOverlap (rm_ExternalID left) (rm_ExternalID right) \<and>
     scalarDomainsOverlap (rm_Trigger left) (rm_Trigger right)"

section \<open>The overlap test is exact\<close>

text \<open>A value that satisfies both predicates of one field, when there is one: the witness event of an
  overlap is built from these.\<close>

definition common_value :: "string option \<Rightarrow> string option \<Rightarrow> string" where
  "common_value left right =
     (case left of Some v \<Rightarrow> v | None \<Rightarrow> (case right of Some v \<Rightarrow> v | None \<Rightarrow> ''''))"

lemma scalarDomainsOverlap_common:
  "scalarDomainsOverlap l r \<Longrightarrow>
   matchesScalar l (common_value l r) \<and> matchesScalar r (common_value l r)"
  by (auto simp: scalarDomainsOverlap_def matchesScalar_def common_value_def split: option.splits)

lemma matchesScalar_overlap:
  "matchesScalar l v \<Longrightarrow> matchesScalar r v \<Longrightarrow> scalarDomainsOverlap l r"
  by (auto simp: scalarDomainsOverlap_def matchesScalar_def)

definition common_event :: "RouteMatch \<Rightarrow> RouteMatch \<Rightarrow> CanonicalEvent" where
  "common_event left right =
     \<lparr>ce_Provider = '''', ce_Source = rm_Source left, ce_Repository = rm_Repository left,
      ce_Event = rm_Event left, ce_Ref = common_value (rm_Ref left) (rm_Ref right),
      ce_Status = common_value (rm_Status left) (rm_Status right),
      ce_Revision = common_value (rm_Revision left) (rm_Revision right), ce_CommitMessage = '''',
      ce_ExternalID = common_value (rm_ExternalID left) (rm_ExternalID right),
      ce_Trigger = common_value (rm_Trigger left) (rm_Trigger right)\<rparr>"

lemma Overlaps_common_event:
  "Overlaps l r \<Longrightarrow> routeMatches l (common_event l r) \<and> routeMatches r (common_event l r)"
  by (simp add: Overlaps_def routeMatches_def common_event_def scalarDomainsOverlap_common)

lemma routeMatches_Overlaps: "routeMatches l e \<Longrightarrow> routeMatches r e \<Longrightarrow> Overlaps l r"
  by (auto simp: Overlaps_def routeMatches_def intro: matchesScalar_overlap)

text \<open>Two route predicates pass the overlap test exactly when some event matches both: the test
  neither misses a conflict nor reports one that cannot occur.\<close>

theorem Overlaps_iff_common_event:
  "Overlaps left right \<longleftrightarrow> (\<exists>event. routeMatches left event \<and> routeMatches right event)"
  using Overlaps_common_event routeMatches_Overlaps by blast

lemma Overlaps_sym: "Overlaps l r \<Longrightarrow> Overlaps r l"
  by (auto simp: Overlaps_def scalarDomainsOverlap_def)

section \<open>FirstCanonical\<close>

lemma FirstCanonical_SomeD:
  "FirstCanonical rs e = Some r \<Longrightarrow> r \<in> set rs \<and> routeMatches (rt_Match r) e"
  by (induction rs) (auto split: if_splits)

lemma FirstCanonical_None_iff:
  "FirstCanonical rs e = None \<longleftrightarrow> (\<forall>r\<in>set rs. \<not> routeMatches (rt_Match r) e)"
  by (induction rs) simp_all

lemma FirstCanonical_sorted_min:
  "FirstCanonical rs e = Some r \<Longrightarrow> sorted (map k rs) \<Longrightarrow> x \<in> set rs \<Longrightarrow>
   routeMatches (rt_Match x) e \<Longrightarrow> k r \<le> k x"
  by (induction rs) (auto split: if_splits)

end
