(* ===== verification/Framing.thy ===== *)
theory Framing
  imports Hookfly_Prelude
begin

text \<open>
  The length-prefixed framing that \<^verbatim>\<open>publichook.writeIdentityBytes\<close> and
  \<^verbatim>\<open>runtimecfg.bindingFingerprintFields\<close> feed to SHA-256, and the hexadecimal encoding of the digest.
  Each field is preceded by its length as a big-endian 64-bit integer, so that no two field lists have
  the same bytes; the hash function itself is a parameter of the definitions.
\<close>

section \<open>Big-endian integers\<close>

text \<open>\<open>be_bytes k n\<close>: the low \<open>k\<close> bytes of \<open>n\<close>, most significant first;
  \<^verbatim>\<open>binary.BigEndian.PutUint64\<close> is \<open>be_bytes 8\<close>.\<close>

fun be_bytes :: "nat \<Rightarrow> nat \<Rightarrow> string" where
  "be_bytes 0 n = []"
| "be_bytes (Suc k) n = be_bytes k (n div 256) @ [char_of (n mod 256)]"

definition PutUint64 :: "nat \<Rightarrow> string" where
  "PutUint64 n = be_bytes 8 n"

lemma length_be_bytes [simp]: "length (be_bytes k n) = k"
  by (induction k arbitrary: n) simp_all

lemma char_of_mod_inject: "(char_of (m mod 256) :: char) = char_of (n mod 256) \<longleftrightarrow> m mod 256 = n mod 256" for m n :: nat
  by (metis mod_mod_trivial of_char_of)

lemma be_bytes_inject: "m < 256 ^ k \<Longrightarrow> n < 256 ^ k \<Longrightarrow> be_bytes k m = be_bytes k n \<Longrightarrow> m = n"
proof (induction k arbitrary: m n)
  case 0
  then show ?case by simp
next
  case (Suc k)
  have "be_bytes k (m div 256) = be_bytes k (n div 256)" and c: "m mod 256 = n mod 256"
    using Suc.prems(3) char_of_mod_inject by simp_all
  moreover have "m div 256 < 256 ^ k" "n div 256 < 256 ^ k"
    using Suc.prems(1,2) by (simp_all add: div_less_iff_less_mult mult.commute)
  ultimately have "m div 256 = n div 256" using Suc.IH by blast
  then show ?case using c by (metis div_mult_mod_eq)
qed

lemma PutUint64_inject: "m < 2 ^ 64 \<Longrightarrow> n < 2 ^ 64 \<Longrightarrow> PutUint64 m = PutUint64 n \<Longrightarrow> m = n"
  unfolding PutUint64_def by (rule be_bytes_inject [of m 8 n]) simp_all

section \<open>Frames\<close>

definition frameField :: "string \<Rightarrow> string" where
  "frameField field = PutUint64 (length field) @ field"

definition frameFields :: "string list \<Rightarrow> string" where
  "frameFields fields = concat (map frameField fields)"

definition short_fields :: "string list \<Rightarrow> bool" where
  "short_fields fields \<longleftrightarrow> (\<forall>f\<in>set fields. length f < 2 ^ 64)"

lemma frameFields_Cons: "frameFields (f # fs) = PutUint64 (length f) @ f @ frameFields fs"
  by (simp add: frameFields_def frameField_def)

lemma length_PutUint64 [simp]: "length (PutUint64 n) = 8"
  by (simp add: PutUint64_def)

lemma PutUint64_not_Nil [simp]: "PutUint64 n \<noteq> []"
  using length_PutUint64 [of n] by (metis list.size(3) zero_neq_numeral)

lemma frameFields_inject:
  "short_fields xs \<Longrightarrow> short_fields ys \<Longrightarrow> frameFields xs = frameFields ys \<Longrightarrow> xs = ys"
proof (induction xs arbitrary: ys)
  case Nil
  show ?case
  proof (cases ys)
    case (Cons y ys')
    then show ?thesis using arg_cong [OF Nil.prems(3), of length]
      by (simp add: frameFields_Cons) (simp add: frameFields_def)
  qed simp
next
  case (Cons x xs)
  show ?case
  proof (cases ys)
    case Nil
    then show ?thesis using Cons.prems(3) arg_cong [OF Cons.prems(3), of length]
      by (simp add: frameFields_Cons) (simp add: frameFields_def)
  next
    case (Cons y ys')
    have eq: "PutUint64 (length x) @ x @ frameFields xs = PutUint64 (length y) @ y @ frameFields ys'"
      using Cons.prems(3) Cons by (simp add: frameFields_Cons)
    then have "PutUint64 (length x) = PutUint64 (length y)" and r: "x @ frameFields xs = y @ frameFields ys'"
      by (simp_all add: append_eq_append_conv)
    then have "length x = length y"
      using PutUint64_inject Cons.prems(1,2) Cons by (simp add: short_fields_def)
    then have "x = y" "frameFields xs = frameFields ys'" using r by (simp_all add: append_eq_append_conv)
    then show ?thesis using Cons.IH [of ys'] Cons.prems(1,2) Cons by (simp add: short_fields_def)
  qed
qed

section \<open>Hexadecimal\<close>

definition hexDigit :: "nat \<Rightarrow> char" where
  "hexDigit n = ''0123456789abcdef'' ! n"

definition hexByte :: "char \<Rightarrow> string" where
  "hexByte c = [hexDigit (of_char c div 16), hexDigit (of_char c mod 16)]"

definition EncodeToString :: "string \<Rightarrow> string" where
  "EncodeToString s = concat (map hexByte s)"

lemma hexDigit_inject: "m < 16 \<Longrightarrow> n < 16 \<Longrightarrow> hexDigit m = hexDigit n \<Longrightarrow> m = n"
proof -
  have d: "distinct ''0123456789abcdef''" "length ''0123456789abcdef'' = 16" by simp_all
  show "m < 16 \<Longrightarrow> n < 16 \<Longrightarrow> hexDigit m = hexDigit n \<Longrightarrow> m = n"
    unfolding hexDigit_def using nth_eq_iff_index_eq [OF d(1)] d(2) by metis
qed

lemma hexByte_inject: "hexByte c = hexByte d \<Longrightarrow> c = d"
proof -
  assume h: "hexByte c = hexByte d"
  have l: "of_char x div 16 < (16::nat)" "of_char x mod 16 < (16::nat)" for x :: char
    using nat_of_char_less_256 [of x] by (simp_all add: div_less_iff_less_mult)
  have "of_char c div 16 = (of_char d div 16 :: nat)" "of_char c mod 16 = (of_char d mod 16 :: nat)"
    using h hexDigit_inject l by (simp_all add: hexByte_def)
  then have "(of_char c :: nat) = of_char d" by (metis div_mult_mod_eq)
  then show "c = d" by simp
qed

lemma EncodeToString_inject: "EncodeToString s = EncodeToString t \<Longrightarrow> s = t"
proof (induction s arbitrary: t)
  case Nil
  then show ?case by (cases t) (simp_all add: EncodeToString_def hexByte_def)
next
  case (Cons c s)
  then show ?case
  proof (cases t)
    case Nil
    then show ?thesis using Cons.prems by (simp add: EncodeToString_def hexByte_def)
  next
    case (Cons d t')
    then have "hexByte c @ EncodeToString s = hexByte d @ EncodeToString t'"
      using Cons.prems by (simp add: EncodeToString_def)
    then have "hexByte c = hexByte d" "EncodeToString s = EncodeToString t'"
      by (simp_all add: hexByte_def)
    then show ?thesis using Cons Cons.IH [of t'] hexByte_inject by simp
  qed
qed

lemma digest_inject:
  assumes "inj_on sha256 {frameFields xs, frameFields ys}" and "short_fields xs" and "short_fields ys"
    and "EncodeToString (sha256 (frameFields xs)) = EncodeToString (sha256 (frameFields ys))"
  shows "xs = ys"
  using frameFields_inject [OF assms(2,3)] inj_onD [OF assms(1) EncodeToString_inject [OF assms(4)]] by simp

end
