(* ===== verification/Marshal.thy ===== *)
theory Marshal
  imports Documents
begin

text \<open>
  \<^verbatim>\<open>json.Marshal\<close> on the documents whose bytes enter a binding fingerprint. Strings are valid UTF-8
  (they come from decoded YAML or JSON); the escapes are those of \<^verbatim>\<open>encoding/json\<close> with HTML escaping,
  members of a struct are written in declaration order and keys of a map in increasing order.
\<close>

section \<open>Numbers\<close>

fun decimalNat :: "nat \<Rightarrow> string" where
  "decimalNat n = (if n < 10 then [char_of (48 + n)] else decimalNat (n div 10) @ [char_of (48 + n mod 10)])"

declare decimalNat.simps [simp del]

definition decimal :: "int \<Rightarrow> string" where
  "decimal i = (if i < 0 then ''-'' @ decimalNat (nat (- i)) else decimalNat (nat i))"

section \<open>Strings\<close>

definition lowerHexDigit :: "nat \<Rightarrow> char" where
  "lowerHexDigit n = ''0123456789abcdef'' ! n"

definition unicodeEscape :: "char \<Rightarrow> string" where
  "unicodeEscape c =
     [CHR 0x5C] @ ''u00'' @ [lowerHexDigit (of_char c div 16), lowerHexDigit (of_char c mod 16)]"

definition escapeByte :: "char \<Rightarrow> string" where
  "escapeByte c =
     (if c = CHR 0x22 then [CHR 0x5C, CHR 0x22]
      else if c = CHR 0x5C then [CHR 0x5C, CHR 0x5C]
      else if c = CHR 0x08 then [CHR 0x5C, CHR ''b'']
      else if c = CHR 0x0C then [CHR 0x5C, CHR ''f'']
      else if c = CHR 0x0A then [CHR 0x5C, CHR ''n'']
      else if c = CHR 0x0D then [CHR 0x5C, CHR ''r'']
      else if c = CHR 0x09 then [CHR 0x5C, CHR ''t'']
      else if (of_char c :: nat) < 32 \<or> c = CHR ''<'' \<or> c = CHR ''>'' \<or> c = CHR ''&'' then unicodeEscape c
      else [c])"

text \<open>U+2028 and U+2029 are escaped as well.\<close>

fun escapeString :: "string \<Rightarrow> string" where
  "escapeString (a # b # c # rest) =
     (if a = CHR 0xE2 \<and> b = CHR 0x80 \<and> (c = CHR 0xA8 \<or> c = CHR 0xA9)
      then [CHR 0x5C] @ (if c = CHR 0xA8 then ''u2028'' else ''u2029'') @ escapeString rest
      else escapeByte a @ escapeString (b # c # rest))"
| "escapeString (a # rest) = escapeByte a @ escapeString rest"
| "escapeString [] = []"

definition quoted :: "string \<Rightarrow> string" where
  "quoted s = [CHR 0x22] @ escapeString s @ [CHR 0x22]"

section \<open>Values\<close>

fun commaJoin :: "string list \<Rightarrow> string" where
  "commaJoin [] = []"
| "commaJoin [x] = x"
| "commaJoin (x # y # ys) = x @ '','' @ commaJoin (y # ys)"

definition object :: "(string \<times> string) list \<Rightarrow> string" where
  "object members = ''{'' @ commaJoin (map (\<lambda>(k, v). quoted k @ '':'' @ v) members) @ ''}''"

definition array :: "string list \<Rightarrow> string" where
  "array elements = ''['' @ commaJoin elements @ '']''"

fun marshalJSON :: "json \<Rightarrow> string" where
  "marshalJSON JNull = ''null''"
| "marshalJSON (JBool b) = (if b then ''true'' else ''false'')"
| "marshalJSON (JNumber n) = n"
| "marshalJSON (JString s) = quoted s"
| "marshalJSON (JArray vs) = array (map marshalJSON vs)"
| "marshalJSON (JObject ms) = object (sort_key fst (map (\<lambda>(k, v). (k, marshalJSON v)) ms))"

section \<open>Structs\<close>

definition omitEmpty :: "bool \<Rightarrow> string \<Rightarrow> string \<Rightarrow> (string \<times> string) list" where
  "omitEmpty present key v = (if present then [(key, v)] else [])"

definition marshalHTTPBody :: "httpBodySnapshot \<Rightarrow> string" where
  "marshalHTTPBody b =
     object ([(''type'', quoted (hb_Type b))] @
       omitEmpty (hb_ContentType b \<noteq> '''') ''content_type'' (quoted (hb_ContentType b)) @
       [(''value'', marshalJSON (hb_Value b))])"

definition marshalHTTPTarget :: "httpTargetSnapshot \<Rightarrow> string" where
  "marshalHTTPTarget t =
     object ([(''method'', quoted (ht_Method t)), (''path'', quoted (ht_Path t))] @
       omitEmpty (ht_Query t \<noteq> []) ''query''
         (object (sort_key fst (map (\<lambda>(k, vs). (k, if vs = [] then ''null'' else array (map quoted vs))) (ht_Query t)))) @
       omitEmpty (ht_Headers t \<noteq> []) ''headers''
         (object (sort_key fst (map (\<lambda>(k, v). (k, quoted v)) (ht_Headers t)))) @
       (case ht_Body t of None \<Rightarrow> [] | Some b \<Rightarrow> [(''body'', marshalHTTPBody b)]) @
       omitEmpty (ht_SuccessStatuses t \<noteq> []) ''success_statuses''
         (array (map decimal (ht_SuccessStatuses t))))"

definition marshalForwardTarget :: "forwardTargetSnapshot \<Rightarrow> string" where
  "marshalForwardTarget t =
     object ([(''url'', quoted (ft_URL t)), (''host'', quoted (ft_Host t))] @
       omitEmpty (ft_AllowPrivateNetwork t) ''allow_private_network'' ''true'')"

definition marshalSSH :: "sshSnapshot \<Rightarrow> string" where
  "marshalSSH s =
     object [(''id'', quoted (sh_ID s)), (''host'', quoted (sh_Host s)),
             (''port'', decimal (sh_Port s)), (''user'', quoted (sh_User s))]"

end
