(* ===== verification/Generation.thy ===== *)
theory Generation
  imports Matcher Framing Marshal
begin

text \<open>
  One compiled configuration (\<^verbatim>\<open>internal/runtimecfg/generation.go\<close>, \<^verbatim>\<open>binding.go\<close>, \<^verbatim>\<open>ssh.go\<close>): the executable
  targets with their binding snapshots and fingerprints, routing an event to deliveries, and resolving
  the snapshot of an earlier delivery against the current targets.

  SHA-256 is a parameter \<open>sha\<close>. The URL canonicalisers (\<^verbatim>\<open>dokploy.CanonicalBaseURL\<close>,
  \<^verbatim>\<open>httptarget.CanonicalBaseURL\<close>, \<^verbatim>\<open>httptarget.CanonicalForwardURL\<close>) are fields of a record \<open>canonical\<close>;
  what compilation and resolution need of them is that canonical URLs are fixed points.
\<close>

section \<open>Fingerprints\<close>

definition bindingFingerprintFields :: "(string \<Rightarrow> string) \<Rightarrow> string list \<Rightarrow> string" where
  "bindingFingerprintFields sha fs = EncodeToString (sha (frameFields fs))"

definition bindingFingerprint ::
  "(string \<Rightarrow> string) \<Rightarrow> int \<Rightarrow> string \<Rightarrow> string \<Rightarrow> string \<Rightarrow> string \<Rightarrow> string" where
  "bindingFingerprint sha version targetType resourceType baseURL resourceID =
     bindingFingerprintFields sha [decimal version, targetType, resourceType, baseURL, resourceID]"

definition httpBindingFingerprint ::
  "(string \<Rightarrow> string) \<Rightarrow> int \<Rightarrow> string \<Rightarrow> string \<Rightarrow> httpTargetSnapshot \<Rightarrow> string" where
  "httpBindingFingerprint sha version connectionID baseURL request =
     bindingFingerprintFields sha [decimal version, ''http'', connectionID, baseURL, marshalHTTPTarget request]"

definition forwardBindingFingerprint :: "(string \<Rightarrow> string) \<Rightarrow> int \<Rightarrow> forwardTargetSnapshot \<Rightarrow> string" where
  "forwardBindingFingerprint sha version target =
     bindingFingerprintFields sha [decimal version, ''forward'', marshalForwardTarget target]"

definition tunnelBindingFingerprint :: "(string \<Rightarrow> string) \<Rightarrow> string \<Rightarrow> sshSnapshot option \<Rightarrow> string" where
  "tunnelBindingFingerprint sha base tunnel =
     (case tunnel of
        None \<Rightarrow> base
      | Some t \<Rightarrow> bindingFingerprint sha 1 ''ssh'' base (marshalSSH t) '''')"

section \<open>Targets and generations\<close>

definition bindingVersion :: int where
  "bindingVersion = 2"

record Target =
  tg_ID :: string
  tg_SSHTunnel :: string
  tg_ConnectionID :: string
  tg_ResourceType :: string
  tg_ComposeID :: string
  tg_Fingerprint :: string
  tg_Type :: string
  tg_HTTP :: "httpTargetSnapshot option"
  tg_Forward :: "forwardTargetSnapshot option"
  tg_PollInterval :: duration
  tg_PollTimeout :: duration
  tg_Snapshot :: SnapshotDoc
  tg_BindingVersion :: int

record Generation =
  gn_digest :: string
  gn_targets :: "(string \<times> Target) list"
  gn_routes :: "Route list"
  gn_pollInterval :: duration
  gn_pollTimeout :: duration
  gn_repositoryLimits :: "((string \<times> string) \<times> int) list"
  gn_defaultRepositoryLimit :: int
  gn_globalLimit :: int

definition pollingSettings :: "duration \<Rightarrow> duration \<Rightarrow> duration \<times> duration" where
  "pollingSettings interval timeout =
     (if interval \<le> 0 then second else if interval < millisecond then millisecond else interval,
      if timeout \<le> 0 then 30 * minute else timeout)"

definition Targets :: "Generation \<Rightarrow> Target list" where
  "Targets g = sort_key tg_ID (map snd (gn_targets g))"

definition RetentionLimits :: "Generation \<Rightarrow> (string \<times> string \<rightharpoonup> int) \<times> int \<times> int" where
  "RetentionLimits g = (map_of (gn_repositoryLimits g), gn_defaultRepositoryLimit g, gn_globalLimit g)"

section \<open>Compiling targets\<close>

record canonical =
  dokployURL :: "string \<Rightarrow> string option"
  httpURL :: "string \<Rightarrow> string option"
  forwardURL :: "string \<Rightarrow> string option"

record TargetConfig =
  tc_SSHTunnel :: string
  tc_ID :: string
  tc_Type :: string
  tc_Connection :: string
  tc_ResourceType :: string
  tc_ResourceID :: string
  tc_PollTimeout :: "duration option"
  tc_HTTP :: httpTargetSnapshot
  tc_URL :: string
  tc_Host :: string
  tc_AllowPrivateNetwork :: bool

text \<open>A connection's canonical base URL and its tunnel, by connection ID.\<close>

record Connections =
  cn_dokploy :: "(string \<times> string \<times> string) list"
  cn_http :: "(string \<times> string \<times> string) list"
  cn_tunnels :: "(string \<times> sshSnapshot) list"

definition emptyTarget :: Target where
  "emptyTarget = \<lparr>tg_ID = '''', tg_SSHTunnel = '''', tg_ConnectionID = '''', tg_ResourceType = '''',
     tg_ComposeID = '''', tg_Fingerprint = '''', tg_Type = '''', tg_HTTP = None, tg_Forward = None,
     tg_PollInterval = 0, tg_PollTimeout = 0, tg_Snapshot = SnapshotEmpty, tg_BindingVersion = 0\<rparr>"

definition emptySnapshot :: targetSnapshot where
  "emptySnapshot = \<lparr>ts_SSH = None, ts_BindingVersion = 0, ts_ID = '''', ts_Type = '''', ts_ResourceType = '''',
     ts_ResourceID = '''', ts_Connection = \<lparr>cs_ID = '''', cs_BaseURL = ''''\<rparr>, ts_HTTP = None, ts_Forward = None\<rparr>"

text \<open>The tunnel a target goes through, and its identity: \<^verbatim>\<open>tunnelIdentity\<close>, or only the ID when the
  tunnel is not configured.\<close>

definition targetTunnel :: "Connections \<Rightarrow> TargetConfig \<Rightarrow> string" where
  "targetTunnel c t =
     (if tc_Type t = ''http'' then (case map_of (cn_http c) (tc_Connection t) of Some (_, s) \<Rightarrow> s | None \<Rightarrow> '''')
      else if tc_Type t = ''dokploy''
        then (case map_of (cn_dokploy c) (tc_Connection t) of Some (_, s) \<Rightarrow> s | None \<Rightarrow> '''')
      else tc_SSHTunnel t)"

definition tunnelIdentity :: "Connections \<Rightarrow> string \<Rightarrow> sshSnapshot" where
  "tunnelIdentity c i =
     (case map_of (cn_tunnels c) i of
        Some s \<Rightarrow> s | None \<Rightarrow> \<lparr>sh_ID = i, sh_Host = '''', sh_Port = 0, sh_User = ''''\<rparr>)"

definition withTunnel :: "(string \<Rightarrow> string) \<Rightarrow> Connections \<Rightarrow> TargetConfig \<Rightarrow> targetSnapshot \<times> Target \<Rightarrow> Target" where
  "withTunnel sha c t = (\<lambda>(snap, target).
     let i = targetTunnel c t in
     if i = '''' then target\<lparr>tg_Snapshot := SnapshotDoc snap\<rparr>
     else target\<lparr>tg_SSHTunnel := i, tg_Snapshot := SnapshotDoc (snap\<lparr>ts_SSH := Some (tunnelIdentity c i)\<rparr>),
                 tg_Fingerprint := tunnelBindingFingerprint sha (tg_Fingerprint target) (Some (tunnelIdentity c i))\<rparr>)"

text \<open>The three cases of the target loop of \<^verbatim>\<open>compileBundle\<close>: the snapshot and the target before the
  tunnel pass.\<close>

definition targetTimeout :: "duration \<Rightarrow> TargetConfig \<Rightarrow> duration" where
  "targetTimeout timeout t = (case tc_PollTimeout t of Some d \<Rightarrow> if d > 0 then d else timeout | None \<Rightarrow> timeout)"

definition baseTarget :: "duration \<Rightarrow> duration \<Rightarrow> TargetConfig \<Rightarrow> Target" where
  "baseTarget interval timeout t =
     emptyTarget\<lparr>tg_ID := tc_ID t, tg_Type := tc_Type t, tg_PollInterval := interval,
       tg_PollTimeout := targetTimeout timeout t, tg_BindingVersion := bindingVersion\<rparr>"

definition baseSnapshot :: "TargetConfig \<Rightarrow> targetSnapshot" where
  "baseSnapshot t = emptySnapshot\<lparr>ts_BindingVersion := bindingVersion, ts_ID := tc_ID t, ts_Type := tc_Type t\<rparr>"

definition dokployTarget ::
  "(string \<Rightarrow> string) \<Rightarrow> duration \<Rightarrow> duration \<Rightarrow> TargetConfig \<Rightarrow> string \<Rightarrow> targetSnapshot \<times> Target" where
  "dokployTarget sha interval timeout t url =
     ((baseSnapshot t)\<lparr>ts_ResourceType := tc_ResourceType t, ts_ResourceID := tc_ResourceID t,
        ts_Connection := \<lparr>cs_ID = tc_Connection t, cs_BaseURL = url\<rparr>\<rparr>,
      (baseTarget interval timeout t)\<lparr>tg_ConnectionID := tc_Connection t, tg_ResourceType := tc_ResourceType t,
        tg_ComposeID := tc_ResourceID t,
        tg_Fingerprint := bindingFingerprint sha bindingVersion (tc_Type t) (tc_ResourceType t) url (tc_ResourceID t)\<rparr>)"

definition httpTarget ::
  "(string \<Rightarrow> string) \<Rightarrow> duration \<Rightarrow> duration \<Rightarrow> TargetConfig \<Rightarrow> string \<Rightarrow> targetSnapshot \<times> Target" where
  "httpTarget sha interval timeout t url =
     ((baseSnapshot t)\<lparr>ts_Connection := \<lparr>cs_ID = tc_Connection t, cs_BaseURL = url\<rparr>, ts_HTTP := Some (tc_HTTP t)\<rparr>,
      (baseTarget interval timeout t)\<lparr>tg_ConnectionID := tc_Connection t, tg_HTTP := Some (tc_HTTP t),
        tg_Fingerprint := httpBindingFingerprint sha bindingVersion (tc_Connection t) url (tc_HTTP t)\<rparr>)"

definition forwardTarget ::
  "(string \<Rightarrow> string) \<Rightarrow> duration \<Rightarrow> duration \<Rightarrow> TargetConfig \<Rightarrow> string \<Rightarrow> targetSnapshot \<times> Target" where
  "forwardTarget sha interval timeout t url =
     (let fwd = \<lparr>ft_URL = url, ft_Host = tc_Host t, ft_AllowPrivateNetwork = tc_AllowPrivateNetwork t\<rparr> in
      ((baseSnapshot t)\<lparr>ts_Forward := Some fwd\<rparr>,
       (baseTarget interval timeout t)\<lparr>tg_Forward := Some fwd,
         tg_Fingerprint := forwardBindingFingerprint sha bindingVersion fwd\<rparr>))"

text \<open>Both passes for one target; \<open>None\<close> is a compilation error. A configuration that passes validation
  has only these three types and existing connections.\<close>

definition compileTarget ::
  "(string \<Rightarrow> string) \<Rightarrow> canonical \<Rightarrow> Connections \<Rightarrow> duration \<Rightarrow> duration \<Rightarrow> TargetConfig \<Rightarrow> Target option" where
  "compileTarget sha canon c interval timeout t =
     (if tc_Type t = ''dokploy'' then
        map_option (\<lambda>(url, _). withTunnel sha c t (dokployTarget sha interval timeout t url))
          (map_of (cn_dokploy c) (tc_Connection t))
      else if tc_Type t = ''http'' then
        map_option (\<lambda>(url, _). withTunnel sha c t (httpTarget sha interval timeout t url))
          (map_of (cn_http c) (tc_Connection t))
      else if tc_Type t = ''forward'' then
        map_option (\<lambda>url. withTunnel sha c t (forwardTarget sha interval timeout t url))
          (forwardURL canon (tc_URL t))
      else None)"

section \<open>Routing\<close>

definition matchesOptional :: "string option \<Rightarrow> string \<Rightarrow> bool" where
  "matchesOptional expected actual = (expected = None \<or> expected = Some actual)"

definition generationRouteMatches :: "RouteMatch \<Rightarrow> CanonicalEvent \<Rightarrow> bool" where
  "generationRouteMatches m event \<longleftrightarrow>
     rm_Source m = ce_Source event \<and> rm_Repository m = ce_Repository event \<and> rm_Event m = ce_Event event \<and>
     matchesOptional (rm_Ref m) (ce_Ref event) \<and> matchesOptional (rm_Status m) (ce_Status event) \<and>
     matchesOptional (rm_Revision m) (ce_Revision event) \<and> matchesOptional (rm_ExternalID m) (ce_ExternalID event) \<and>
     matchesOptional (rm_Trigger m) (ce_Trigger event)"

definition newCanonicalRuleSnapshot :: "Route \<Rightarrow> canonicalRuleSnapshot" where
  "newCanonicalRuleSnapshot route =
     (let m = rt_Match route in
      \<lparr>crs_ID = rt_ID route, crs_Priority = (case rt_Priority route of Some p \<Rightarrow> p | None \<Rightarrow> 0),
       crs_Match = \<lparr>crm_Source = rm_Source m, crm_Repository = rm_Repository m, crm_Event = rm_Event m,
                    crm_Ref = rm_Ref m, crm_Status = rm_Status m, crm_Revision = rm_Revision m,
                    crm_ExternalID = rm_ExternalID m, crm_Trigger = rm_Trigger m\<rparr>,
       crs_Action = \<lparr>ras_Type = ac_Type (rt_Action route), ras_Targets = ac_Targets (rt_Action route)\<rparr>\<rparr>)"

fun routeDeliveries :: "Generation \<Rightarrow> string list \<Rightarrow> NewDelivery list option" where
  "routeDeliveries g [] = Some []"
| "routeDeliveries g (i # ids) =
     (case map_of (gn_targets g) i of
        None \<Rightarrow> None
      | Some target \<Rightarrow>
          map_option (\<lambda>rest. \<lparr>nd_TargetID = tg_ID target, nd_TargetSnapshot = tg_Snapshot target,
                              nd_DispatchKey = tg_Fingerprint target\<rparr> # rest) (routeDeliveries g ids))"

definition Route :: "Generation \<Rightarrow> CanonicalEvent \<Rightarrow> string + RouteDecision" where
  "Route g event =
     (case find (\<lambda>r. generationRouteMatches (rt_Match r) event) (gn_routes g) of
        None \<Rightarrow> Inr \<lparr>rd_RoutingResult = RoutingUnmatched, rd_RuleID = '''', rd_RuleSnapshot = None, rd_Deliveries = []\<rparr>
      | Some rule \<Rightarrow>
          let snapshot = newCanonicalRuleSnapshot rule; action = rt_Action rule in
          if ac_Type action = ''record_only'' then
            if ac_Targets action \<noteq> [] then Inl ''record-only route contains targets''
            else Inr \<lparr>rd_RoutingResult = RoutingRecordOnly, rd_RuleID = rt_ID rule,
                      rd_RuleSnapshot = Some snapshot, rd_Deliveries = []\<rparr>
          else if ac_Type action = ''deploy'' then
            if ac_Targets action = [] then Inl ''deploy route has no targets''
            else (case routeDeliveries g (ac_Targets action) of
                    None \<Rightarrow> Inl ''route target is unavailable''
                  | Some deliveries \<Rightarrow> Inr \<lparr>rd_RoutingResult = RoutingDeploy, rd_RuleID = rt_ID rule,
                                            rd_RuleSnapshot = Some snapshot, rd_Deliveries = deliveries\<rparr>)
          else Inl ''route action is unavailable'')"

section \<open>Resolving a historical binding (binding.go)\<close>

datatype BindingStatus = BindingCompatible | BindingChanged | BindingUnavailable

fun bindingText :: "BindingStatus \<Rightarrow> string" where
  "bindingText BindingCompatible = ''compatible''"
| "bindingText BindingChanged = ''target_changed''"
| "bindingText BindingUnavailable = ''target_unavailable''"

text \<open>The fingerprint of a historical snapshot, without its tunnel; \<open>None\<close> where the source returns
  \<^verbatim>\<open>BindingUnavailable\<close>.\<close>

definition snapshotFingerprint :: "(string \<Rightarrow> string) \<Rightarrow> canonical \<Rightarrow> int \<Rightarrow> targetSnapshot \<Rightarrow> string option" where
  "snapshotFingerprint sha canon version h =
     (if ts_Type h = ''dokploy'' then
        if ts_ResourceType h = '''' \<or> ts_ResourceID h = '''' \<or> cs_BaseURL (ts_Connection h) = '''' then None
        else map_option (\<lambda>url. bindingFingerprint sha version (ts_Type h) (ts_ResourceType h) url (ts_ResourceID h))
               (dokployURL canon (cs_BaseURL (ts_Connection h)))
      else if ts_Type h = ''http'' then
        (case ts_HTTP h of
           None \<Rightarrow> None
         | Some request \<Rightarrow>
             if cs_ID (ts_Connection h) = '''' \<or> cs_BaseURL (ts_Connection h) = '''' then None
             else map_option (\<lambda>url. httpBindingFingerprint sha version (cs_ID (ts_Connection h)) url request)
                    (httpURL canon (cs_BaseURL (ts_Connection h))))
      else if ts_Type h = ''forward'' then
        (case ts_Forward h of
           None \<Rightarrow> None
         | Some forward \<Rightarrow>
             map_option (\<lambda>url. forwardBindingFingerprint sha version (forward\<lparr>ft_URL := url\<rparr>))
               (forwardURL canon (ft_URL forward)))
      else None)"

definition ResolveTarget ::
  "(string \<Rightarrow> string) \<Rightarrow> canonical \<Rightarrow> Generation \<Rightarrow> string \<Rightarrow> SnapshotDoc option \<Rightarrow> Target option \<times> BindingStatus" where
  "ResolveTarget sha canon g targetID snapshot =
     (case (map_of (gn_targets g) targetID, snapshot) of
        (Some current, Some (SnapshotDoc h)) \<Rightarrow>
          if ts_BindingVersion h \<noteq> tg_BindingVersion current \<or> ts_ID h \<noteq> targetID \<or> ts_Type h = '''' \<or>
             ts_Type h \<noteq> tg_Type current
          then (None, BindingUnavailable)
          else (case snapshotFingerprint sha canon (ts_BindingVersion h) h of
                  None \<Rightarrow> (None, BindingUnavailable)
                | Some fp \<Rightarrow>
                    if tunnelBindingFingerprint sha fp (ts_SSH h) \<noteq> tg_Fingerprint current
                    then (None, BindingChanged) else (Some current, BindingCompatible))
      | _ \<Rightarrow> (None, BindingUnavailable))"

end
