(* ===== verification/Store_Schema.thy ===== *)
theory Store_Schema
  imports Domain
begin

text \<open>
  The SQLite schema of \<^verbatim>\<open>migrations/\<close> as the store of \<^verbatim>\<open>internal/store\<close> uses it: one record per
  table row, a database as the record of its tables, the statements the store shares, and the
  invariant every transaction of the store keeps.

  \<^item> A nullable column is an \<open>option\<close>; a NOT NULL column is not.
  \<^item> A transaction is a function from a database to a result and a database. Its early error returns
    give back the database it started from, which is what the deferred \<^verbatim>\<open>tx.Rollback()\<close> does.
    The pool has one connection (\<^verbatim>\<open>SetMaxOpenConns(1)\<close>), so transactions never interleave.
  \<^item> The JSON of an audit row's \<^verbatim>\<open>before_json\<close> and \<^verbatim>\<open>after_json\<close> is kept as the status pair it encodes.
  \<^item> \<^verbatim>\<open>uuid.NewString\<close> is third-party code: the operations take the generator as a parameter
    \<open>uuid :: nat \<Rightarrow> string\<close>, the k-th identifier drawn, and \<open>db_uuids\<close> counts the draws. Where a
    theorem needs distinct identifiers its hypothesis is \<open>inj uuid\<close>.
\<close>

section \<open>Rows\<close>

record event_row =
  ev_id :: string
  ev_provider :: string
  ev_source_id :: string
  ev_repository_id :: string
  ev_delivery_id :: string
  ev_received_at :: millis
  ev_event :: string
  ev_ref :: "string option"
  ev_status :: "string option"
  ev_revision :: "string option"
  ev_commit_message :: "string option"
  ev_external_id :: "string option"
  ev_trigger :: "string option"
  ev_routing_result :: RoutingResult
  ev_rule_id :: "string option"
  ev_rule_snapshot :: "canonicalRuleSnapshot option"
  ev_config_digest :: "string option"
  ev_raw_headers_json :: HeadersDoc
  ev_raw_payload_json :: "bytes option"
  ev_forward_request_json :: "ForwardRequest option"

record delivery_row =
  dl_id :: string
  dl_event_id :: string
  dl_target_id :: string
  dl_target_snapshot :: "SnapshotDoc option"
  dl_current_attempt_id :: "string option"
  dl_transport_status :: TransportStatus
  dl_deployment_status :: DeploymentStatus
  dl_created_at :: millis
  dl_updated_at :: millis
  dl_dispatch_key :: "string option"

record attempt_row =
  at_id :: string
  at_delivery_id :: string
  at_kind :: string
  at_actor :: "string option"
  at_transport_status :: TransportStatus
  at_deployment_status :: DeploymentStatus
  at_request_json :: "bytes option"
  at_response_json :: "bytes option"
  at_request_at :: "millis option"
  at_response_at :: "millis option"
  at_enqueued_at :: "millis option"
  at_deployment_id :: "string option"
  at_deployment_cursor :: "string option"
  at_poll_due_at :: "millis option"
  at_monitoring_deadline_at :: "millis option"
  at_last_polled_at :: "millis option"
  at_created_at :: millis

record statusSnapshot =
  ss_TransportStatus :: TransportStatus
  ss_DeploymentStatus :: DeploymentStatus
  ss_Reason :: string

record audit_row =
  au_id :: string
  au_event_id :: string
  au_delivery_id :: string
  au_attempt_id :: string
  au_actor :: string
  au_action :: string
  au_before :: statusSnapshot
  au_after :: statusSnapshot
  au_created_at :: millis

record queue_row =
  q_seq :: nat
  q_event_id :: string

record observation_row =
  ob_event_id :: string
  ob_provider :: string
  ob_source_id :: string
  ob_repository_id :: string
  ob_external_id :: string
  ob_ref :: string
  ob_status :: string
  ob_received_at :: millis

record db =
  db_events :: "event_row list"
  db_deliveries :: "delivery_row list"
  db_attempts :: "attempt_row list"
  db_audits :: "audit_row list"
  db_queue :: "queue_row list"
  db_queue_seq :: nat
  db_observations :: "observation_row list"
  db_uuids :: nat

definition empty_db :: db where
  "empty_db = \<lparr>db_events = [], db_deliveries = [], db_attempts = [], db_audits = [], db_queue = [],
     db_queue_seq = 0, db_observations = [], db_uuids = 0\<rparr>"

datatype store_error =
    ErrAttemptNotSending
  | ErrPollNotClaimed
  | ErrCurrentAttemptChanged
  | ErrHistoryActive
  | ErrNoRows
  | ErrConstraint
  | ErrDriver
  | ErrValidation string

section \<open>Shared statements\<close>

text \<open>The join of a delivery with its current attempt,
  \<^verbatim>\<open>JOIN delivery_attempts a ON a.id = d.current_attempt_id AND a.delivery_id = d.id\<close>.\<close>

definition is_current :: "delivery_row \<Rightarrow> attempt_row \<Rightarrow> bool" where
  "is_current d a \<longleftrightarrow> dl_current_attempt_id d = Some (at_id a) \<and> at_delivery_id a = dl_id d"

definition current_pairs :: "db \<Rightarrow> (delivery_row \<times> attempt_row) list" where
  "current_pairs db =
     filter (\<lambda>(d, a). is_current d a) (List.product (db_deliveries db) (db_attempts db))"

text \<open>The further join with the delivery's event.\<close>

definition current_triples :: "db \<Rightarrow> (event_row \<times> delivery_row \<times> attempt_row) list" where
  "current_triples db =
     filter (\<lambda>(e, d, a). ev_id e = dl_event_id d) (List.product (db_events db) (current_pairs db))"

definition insert_attempt :: "attempt_row \<Rightarrow> db \<Rightarrow> db option" where
  "insert_attempt a db =
     (if at_id a \<in> at_id ` set (db_attempts db) then None
      else Some (db\<lparr>db_attempts := db_attempts db @ [a]\<rparr>))"

definition insert_delivery :: "delivery_row \<Rightarrow> db \<Rightarrow> db option" where
  "insert_delivery d db =
     (if dl_id d \<in> dl_id ` set (db_deliveries db) \<or>
         (dl_event_id d, dl_target_id d)
           \<in> (\<lambda>r. (dl_event_id r, dl_target_id r)) ` set (db_deliveries db)
      then None
      else Some (db\<lparr>db_deliveries := db_deliveries db @ [d]\<rparr>))"

definition insert_audit_row :: "audit_row \<Rightarrow> db \<Rightarrow> db option" where
  "insert_audit_row u db =
     (if au_id u \<in> au_id ` set (db_audits db) then None
      else Some (db\<lparr>db_audits := db_audits db @ [u]\<rparr>))"

text \<open>\<^verbatim>\<open>uuid.NewString()\<close>.\<close>

definition draw :: "(nat \<Rightarrow> string) \<Rightarrow> db \<Rightarrow> string \<times> db" where
  "draw uuid db = (uuid (db_uuids db), db\<lparr>db_uuids := Suc (db_uuids db)\<rparr>)"

section \<open>The invariant of the store\<close>

text \<open>One attempt row: its status pair is one the program writes; a monitored attempt has a poll
  schedule; \<^verbatim>\<open>running\<close> and \<^verbatim>\<open>unrecognized\<close> come with a bound deployment, and an attempt that is not
  sent or is still being located has none; an attempt that is not sent yet carries no poll token.\<close>

definition attempt_ok :: "attempt_row \<Rightarrow> bool" where
  "attempt_ok a \<longleftrightarrow>
     valid_status (at_transport_status a) (at_deployment_status a) \<and>
     (monitored (at_deployment_status a) \<longrightarrow>
        at_poll_due_at a \<noteq> None \<and> at_monitoring_deadline_at a \<noteq> None) \<and>
     (at_deployment_status a \<in> {DeploymentRunning, DeploymentUnrecognized} \<longrightarrow>
        at_deployment_id a \<noteq> None) \<and>
     (at_deployment_status a \<in> {DeploymentNotStarted, DeploymentLocating} \<longrightarrow>
        at_deployment_id a = None) \<and>
     at_deployment_id a \<noteq> Some '''' \<and>
     (at_transport_status a = TransportPending \<longrightarrow>
        at_request_json a = None \<and> at_request_at a = None \<and> at_deployment_cursor a = None) \<and>
     (at_transport_status a \<in> {TransportPending, TransportSending} \<longrightarrow> at_last_polled_at a = None)"

text \<open>One delivery row: it has a current attempt of its own, and its denormalised statuses are that
  attempt's.\<close>

definition delivery_ok :: "attempt_row list \<Rightarrow> delivery_row \<Rightarrow> bool" where
  "delivery_ok attempts d \<longleftrightarrow>
     (\<exists>a\<in>set attempts. is_current d a \<and> dl_transport_status d = at_transport_status a \<and>
        dl_deployment_status d = at_deployment_status a)"

definition keys_ok :: "db \<Rightarrow> bool" where
  "keys_ok db \<longleftrightarrow>
     distinct (map ev_id (db_events db)) \<and> distinct (map dl_id (db_deliveries db)) \<and>
     distinct (map at_id (db_attempts db)) \<and> distinct (map au_id (db_audits db)) \<and>
     distinct (map (\<lambda>e. (ev_provider e, ev_source_id e, ev_delivery_id e)) (db_events db))"

text \<open>Foreign keys, and the rule that only a deployed event has deliveries. An audit row names an
  attempt, its delivery and its event.\<close>

definition at_ref :: "attempt_row \<Rightarrow> string \<times> string" where
  "at_ref a = (at_id a, at_delivery_id a)"

definition dl_ref :: "delivery_row \<Rightarrow> string \<times> string" where
  "dl_ref d = (dl_id d, dl_event_id d)"

definition refs_ok :: "db \<Rightarrow> bool" where
  "refs_ok db \<longleftrightarrow>
     (\<forall>a\<in>set (db_attempts db). at_delivery_id a \<in> dl_id ` set (db_deliveries db)) \<and>
     (\<forall>d\<in>set (db_deliveries db).
        \<exists>e\<in>set (db_events db). ev_id e = dl_event_id d \<and> ev_routing_result e = RoutingDeploy) \<and>
     (\<forall>u\<in>set (db_audits db). (au_attempt_id u, au_delivery_id u) \<in> at_ref ` set (db_attempts db) \<and>
        (au_delivery_id u, au_event_id u) \<in> dl_ref ` set (db_deliveries db))"

text \<open>The routing queue holds exactly the deferred events, in the order of their sequence numbers.\<close>

definition queue_ok :: "db \<Rightarrow> bool" where
  "queue_ok db \<longleftrightarrow>
     sorted_wrt (\<lambda>p q. q_seq p < q_seq q) (db_queue db) \<and>
     (\<forall>q\<in>set (db_queue db). q_seq q \<le> db_queue_seq db) \<and>
     distinct (map q_event_id (db_queue db)) \<and>
     q_event_id ` set (db_queue db) =
       ev_id ` {e \<in> set (db_events db). ev_routing_result e = RoutingDeferred}"

text \<open>Every identifier in the database has been drawn from the generator.\<close>

definition ids_ok :: "(nat \<Rightarrow> string) \<Rightarrow> db \<Rightarrow> bool" where
  "ids_ok uuid db \<longleftrightarrow>
     ev_id ` set (db_events db) \<subseteq> uuid ` {..<db_uuids db} \<and>
     dl_id ` set (db_deliveries db) \<subseteq> uuid ` {..<db_uuids db} \<and>
     at_id ` set (db_attempts db) \<subseteq> uuid ` {..<db_uuids db} \<and>
     au_id ` set (db_audits db) \<subseteq> uuid ` {..<db_uuids db}"

definition store_inv :: "(nat \<Rightarrow> string) \<Rightarrow> db \<Rightarrow> bool" where
  "store_inv uuid db \<longleftrightarrow>
     keys_ok db \<and> refs_ok db \<and> queue_ok db \<and> ids_ok uuid db \<and>
     (\<forall>a\<in>set (db_attempts db). attempt_ok a) \<and>
     (\<forall>d\<in>set (db_deliveries db). delivery_ok (db_attempts db) d)"

text \<open>The audit log: the last row written for an attempt records its status; an attempt without rows
  is still pending.\<close>

definition audited_status :: "db \<Rightarrow> string \<Rightarrow> TransportStatus \<times> DeploymentStatus" where
  "audited_status db i =
     (case rev (filter (\<lambda>u. au_attempt_id u = i) (db_audits db)) of
        [] \<Rightarrow> (TransportPending, DeploymentNotStarted)
      | u # _ \<Rightarrow> (ss_TransportStatus (au_after u), ss_DeploymentStatus (au_after u)))"

definition audit_inv :: "db \<Rightarrow> bool" where
  "audit_inv db \<longleftrightarrow>
     (\<forall>a\<in>set (db_attempts db).
        audited_status db (at_id a) = (at_transport_status a, at_deployment_status a))"

text \<open>Serialisation: two deliveries go to the same remote resource when their dispatch keys agree, or,
  where a key is missing, their target IDs do. An attempt is in flight while it is being sent or
  watched without a bound deployment.\<close>

definition same_resource :: "delivery_row \<Rightarrow> delivery_row \<Rightarrow> bool" where
  "same_resource active d \<longleftrightarrow>
     (dl_dispatch_key active \<noteq> None \<and> dl_dispatch_key d \<noteq> None \<and>
      dl_dispatch_key active = dl_dispatch_key d) \<or>
     ((dl_dispatch_key active = None \<or> dl_dispatch_key d = None) \<and>
      dl_target_id active = dl_target_id d)"

definition in_flight :: "attempt_row \<Rightarrow> bool" where
  "in_flight a \<longleftrightarrow>
     at_deployment_id a = None \<and>
     (at_transport_status a = TransportSending \<or> monitored (at_deployment_status a))"

definition serialized :: "db \<Rightarrow> bool" where
  "serialized db \<longleftrightarrow>
     (\<forall>d a d' a'. (d, a) \<in> set (current_pairs db) \<longrightarrow> (d', a') \<in> set (current_pairs db) \<longrightarrow>
        in_flight a \<longrightarrow> in_flight a' \<longrightarrow> same_resource d d' \<longrightarrow> dl_id d = dl_id d')"

section \<open>Basic facts\<close>

lemma refs_ok_audit_attempt:
  "refs_ok db \<Longrightarrow> u \<in> set (db_audits db) \<Longrightarrow> au_attempt_id u \<in> at_id ` set (db_attempts db)"
  by (fastforce simp: refs_ok_def at_ref_def)

lemma in_current_pairs [simp]:
  "(d, a) \<in> set (current_pairs db) \<longleftrightarrow>
     d \<in> set (db_deliveries db) \<and> a \<in> set (db_attempts db) \<and> is_current d a"
  by (auto simp: current_pairs_def)

lemma in_current_triples [simp]:
  "(e, d, a) \<in> set (current_triples db) \<longleftrightarrow>
     e \<in> set (db_events db) \<and> (d, a) \<in> set (current_pairs db) \<and> ev_id e = dl_event_id d"
  by (auto simp: current_triples_def)

lemma same_resource_sym: "same_resource d d' \<Longrightarrow> same_resource d' d"
  by (auto simp: same_resource_def)

lemma store_inv_empty: "store_inv uuid empty_db"
  by (simp add: store_inv_def keys_ok_def refs_ok_def queue_ok_def ids_ok_def empty_db_def)

lemma audit_inv_empty: "audit_inv empty_db"
  by (simp add: audit_inv_def empty_db_def)

lemma serialized_empty: "serialized empty_db"
  by (simp add: serialized_def current_pairs_def empty_db_def)

interpretation events_table: keyed_table db_events ev_id keys_ok
  by unfold_locales (simp add: keys_ok_def)

interpretation deliveries_table: keyed_table db_deliveries dl_id keys_ok
  by unfold_locales (simp add: keys_ok_def)

interpretation attempts_table: keyed_table db_attempts at_id keys_ok
  by unfold_locales (simp add: keys_ok_def)

lemma attempt_unique:
  "keys_ok db \<Longrightarrow> a \<in> set (db_attempts db) \<Longrightarrow> b \<in> set (db_attempts db) \<Longrightarrow> at_id a = at_id b \<Longrightarrow> a = b"
  by (rule attempts_table.unique)

lemma delivery_unique:
  "keys_ok db \<Longrightarrow> d \<in> set (db_deliveries db) \<Longrightarrow> d' \<in> set (db_deliveries db) \<Longrightarrow> dl_id d = dl_id d' \<Longrightarrow>
   d = d'"
  by (rule deliveries_table.unique)

lemma event_unique:
  "keys_ok db \<Longrightarrow> e \<in> set (db_events db) \<Longrightarrow> e' \<in> set (db_events db) \<Longrightarrow> ev_id e = ev_id e' \<Longrightarrow> e = e'"
  by (rule events_table.unique)

lemma current_unique:
  assumes k: "keys_ok db" and p: "(d, a) \<in> set (current_pairs db)" "(d', a') \<in> set (current_pairs db)"
  shows "dl_id d = dl_id d' \<longleftrightarrow> at_id a = at_id a'"
proof
  assume "dl_id d = dl_id d'"
  then have "d = d'" using p delivery_unique [OF k] by simp
  then show "at_id a = at_id a'" using p by (simp add: is_current_def)
next
  assume "at_id a = at_id a'"
  then have "a = a'" using p attempt_unique [OF k] by simp
  then show "dl_id d = dl_id d'" using p by (simp add: is_current_def)
qed

lemma store_inv_currentE:
  assumes "store_inv uuid db" and "(d, a) \<in> set (current_pairs db)"
  shows "attempt_ok a" and "dl_transport_status d = at_transport_status a"
    and "dl_deployment_status d = at_deployment_status a"
proof -
  have k: "keys_ok db" using assms(1) by (simp add: store_inv_def)
  show "attempt_ok a" using assms by (simp add: store_inv_def)
  have "delivery_ok (db_attempts db) d" using assms by (simp add: store_inv_def)
  then obtain b where b: "b \<in> set (db_attempts db)" "is_current d b"
      "dl_transport_status d = at_transport_status b" "dl_deployment_status d = at_deployment_status b"
    by (auto simp: delivery_ok_def)
  then have "b = a" using assms(2) attempt_unique [OF k] by (auto simp: is_current_def)
  then show "dl_transport_status d = at_transport_status a"
    "dl_deployment_status d = at_deployment_status a" using b by simp_all
qed

lemma store_inv_current_exists:
  "store_inv uuid db \<Longrightarrow> d \<in> set (db_deliveries db) \<Longrightarrow> \<exists>a. (d, a) \<in> set (current_pairs db)"
  by (auto simp: store_inv_def delivery_ok_def)

lemma fresh_uuid:
  "inj uuid \<Longrightarrow> n \<le> k \<Longrightarrow> uuid k \<notin> uuid ` {..<n}" for n k :: nat
  by (simp add: inj_image_mem_iff not_less)

end
