(* ===== verification/Store_Write.thy ===== *)
theory Store_Write
  imports Store_Schema
begin

text \<open>
  The write every status transaction of the store performs: change one attempt, change its delivery,
  and append an audit row. \<open>touch_pair\<close> is the first two, \<open>append_audit\<close> the third. The locale
  \<open>pair_write\<close> is the contract of a row change (which columns it leaves alone); its lemmas say what
  the invariants of \<open>Store_Schema\<close> need of it. The transactions interpret the locale with their own
  row changes and are reduced to this form in \<open>Store_Work\<close>, \<open>Store_Manual\<close> and \<open>Store_Recovery\<close>.
\<close>

section \<open>Writes\<close>

definition touch_pair ::
  "string \<Rightarrow> string \<Rightarrow> (attempt_row \<Rightarrow> attempt_row) \<Rightarrow> (delivery_row \<Rightarrow> delivery_row) \<Rightarrow> db \<Rightarrow> db" where
  "touch_pair aid did f g db =
     db\<lparr>db_attempts := sql_update (\<lambda>r. at_id r = aid) f (db_attempts db),
        db_deliveries := sql_update (\<lambda>r. dl_id r = did) g (db_deliveries db)\<rparr>"

definition append_audit :: "audit_row \<Rightarrow> db \<Rightarrow> db" where
  "append_audit u db = db\<lparr>db_audits := db_audits db @ [u], db_uuids := Suc (db_uuids db)\<rparr>"

lemma touch_pair_simps [simp]:
  "db_events (touch_pair i j f g db) = db_events db"
  "db_audits (touch_pair i j f g db) = db_audits db"
  "db_queue (touch_pair i j f g db) = db_queue db"
  "db_queue_seq (touch_pair i j f g db) = db_queue_seq db"
  "db_observations (touch_pair i j f g db) = db_observations db"
  "db_uuids (touch_pair i j f g db) = db_uuids db"
  "db_attempts (touch_pair i j f g db) = sql_update (\<lambda>r. at_id r = i) f (db_attempts db)"
  "db_deliveries (touch_pair i j f g db) = sql_update (\<lambda>r. dl_id r = j) g (db_deliveries db)"
  by (simp_all add: touch_pair_def)

lemma append_audit_simps [simp]:
  "db_events (append_audit u db) = db_events db"
  "db_audits (append_audit u db) = db_audits db @ [u]"
  "db_queue (append_audit u db) = db_queue db"
  "db_queue_seq (append_audit u db) = db_queue_seq db"
  "db_observations (append_audit u db) = db_observations db"
  "db_uuids (append_audit u db) = Suc (db_uuids db)"
  "db_attempts (append_audit u db) = db_attempts db"
  "db_deliveries (append_audit u db) = db_deliveries db"
  by (simp_all add: append_audit_def)

lemma current_pairs_append_audit [simp]: "current_pairs (append_audit u db) = current_pairs db"
  by (simp add: current_pairs_def)

lemma serialized_append_audit [simp]: "serialized (append_audit u db) = serialized db"
  by (simp add: serialized_def)

lemma audited_status_append:
  "audited_status (append_audit u db) i =
     (if au_attempt_id u = i then (ss_TransportStatus (au_after u), ss_DeploymentStatus (au_after u))
      else audited_status db i)"
  by (simp add: audited_status_def)

lemma audited_status_touch [simp]: "audited_status (touch_pair i j f g db) k = audited_status db k"
  by (simp add: audited_status_def)

lemma store_inv_append_audit:
  assumes "inj uuid" and "store_inv uuid db"
    and "(au_attempt_id u, au_delivery_id u) \<in> at_ref ` set (db_attempts db)"
      "(au_delivery_id u, au_event_id u) \<in> dl_ref ` set (db_deliveries db)"
    and "au_id u = uuid (db_uuids db)"
  shows "store_inv uuid (append_audit u db)"
proof -
  have "au_id ` set (db_audits db) \<subseteq> uuid ` {..<db_uuids db}"
    using assms(2) by (simp add: store_inv_def ids_ok_def)
  then have "au_id u \<notin> au_id ` set (db_audits db)"
    using fresh_uuid [OF assms(1), of "db_uuids db" "db_uuids db"] assms(5) by auto
  moreover have "uuid ` {..<db_uuids db} \<subseteq> uuid ` {..<Suc (db_uuids db)}" by auto
  ultimately show ?thesis using assms(2-5)
    by (auto simp: store_inv_def keys_ok_def refs_ok_def queue_ok_def ids_ok_def)
qed

section \<open>The contract of a row change\<close>

locale pair_write =
  fixes f :: "attempt_row \<Rightarrow> attempt_row"
    and g :: "delivery_row \<Rightarrow> delivery_row"
  assumes f_id: "at_id (f a) = at_id a"
    and f_delivery: "at_delivery_id (f a) = at_delivery_id a"
    and g_id: "dl_id (g d) = dl_id d"
    and g_event: "dl_event_id (g d) = dl_event_id d"
    and g_target: "dl_target_id (g d) = dl_target_id d"
    and g_key: "dl_dispatch_key (g d) = dl_dispatch_key d"
    and g_current: "dl_current_attempt_id (g d) = dl_current_attempt_id d"
begin

lemma keys_kept:
  "map at_id (sql_update p f t) = map at_id t"
  "map dl_id (sql_update q g t') = map dl_id t'"
  by (simp_all add: sql_simps f_id g_id)

lemma id_images:
  "at_id ` set (sql_update p f t) = at_id ` set t"
  "dl_id ` set (sql_update q g t') = dl_id ` set t'"
  by (metis keys_kept(1) list.set_map, metis keys_kept(2) list.set_map)

lemma ref_images:
  "at_ref ` set (sql_update p f t) = at_ref ` set t" "dl_ref ` set (sql_update q g t') = dl_ref ` set t'"
  by (simp_all add: image_sql_update at_ref_def dl_ref_def f_id f_delivery g_id g_event)

lemma is_current_fg:
  "is_current (g d) a = is_current d a" "is_current d (f a) = is_current d a"
  by (simp_all add: is_current_def f_id f_delivery g_id g_current)

lemma same_resource_g:
  "same_resource (g d) d' = same_resource d d'" "same_resource d' (g d) = same_resource d' d"
  by (simp_all add: same_resource_def g_key g_target)

lemma keys_ok_touch: "keys_ok db \<Longrightarrow> keys_ok (touch_pair i j f g db)"
  by (simp add: keys_ok_def keys_kept)

lemma refs_ok_touch: "refs_ok db \<Longrightarrow> refs_ok (touch_pair i j f g db)"
  by (simp add: refs_ok_def ball_sql_update f_delivery g_event id_images ref_images)

lemma in_touched_pairs:
  "(d', a') \<in> set (current_pairs (touch_pair i j f g db)) \<longleftrightarrow>
     (\<exists>d a. (d, a) \<in> set (current_pairs db) \<and> d' = (if dl_id d = j then g d else d) \<and>
        a' = (if at_id a = i then f a else a))" (is "?l \<longleftrightarrow> ?r")
proof
  assume ?l
  then obtain d a where "d \<in> set (db_deliveries db)" "d' = (if dl_id d = j then g d else d)"
      "a \<in> set (db_attempts db)" "a' = (if at_id a = i then f a else a)" "is_current d' a'"
    by (simp only: in_current_pairs touch_pair_simps set_sql_update) blast
  moreover from this have "is_current d a" by (simp add: is_current_fg split: if_splits)
  ultimately show ?r by (metis in_current_pairs)
next
  assume ?r
  then obtain d a where p: "(d, a) \<in> set (current_pairs db)"
      "d' = (if dl_id d = j then g d else d)" "a' = (if at_id a = i then f a else a)"
    by blast
  then have "d' \<in> set (db_deliveries (touch_pair i j f g db))"
    "a' \<in> set (db_attempts (touch_pair i j f g db))"
    by (simp_all only: touch_pair_simps set_sql_update) auto
  moreover have "is_current d' a'" using p by (simp add: is_current_fg)
  ultimately show ?l by simp
qed

lemma store_inv_touch:
  assumes inv: "store_inv uuid db" and p: "(d, a) \<in> set (current_pairs db)"
    and ok: "attempt_ok (f a)"
    and agree: "dl_transport_status (g d) = at_transport_status (f a)"
      "dl_deployment_status (g d) = at_deployment_status (f a)"
  shows "store_inv uuid (touch_pair (at_id a) (dl_id d) f g db)"
proof -
  let ?db = "touch_pair (at_id a) (dl_id d) f g db"
  have k: "keys_ok db" using inv by (simp add: store_inv_def)
  have att: "\<forall>b\<in>set (db_attempts ?db). attempt_ok b"
    using inv p ok attempt_unique [OF k] by (auto simp: sql_simps store_inv_def)
  have "delivery_ok (db_attempts ?db) d'" if d': "d' \<in> set (db_deliveries ?db)" for d'
  proof -
    from d' obtain d0 where d0: "d0 \<in> set (db_deliveries db)"
        "d' = (if dl_id d0 = dl_id d then g d0 else d0)"
      by (auto simp: sql_simps)
    obtain a0 where a0: "(d0, a0) \<in> set (current_pairs db)"
      using store_inv_current_exists [OF inv d0(1)] by blast
    have same: "dl_id d0 = dl_id d \<longleftrightarrow> at_id a0 = at_id a" using current_unique [OF k a0 p] .
    show ?thesis
    proof (cases "dl_id d0 = dl_id d")
      case True
      then have "d0 = d" "a0 = a" using same a0 p delivery_unique [OF k] attempt_unique [OF k] by auto
      then show ?thesis using d0(2) p agree
        by (auto simp: delivery_ok_def sql_simps is_current_fg intro!: bexI [of _ "f a"])
    next
      case False
      then show ?thesis using d0(2) a0 same store_inv_currentE(2,3) [OF inv a0]
        by (auto simp: delivery_ok_def sql_simps is_current_fg intro!: bexI [of _ a0])
    qed
  qed
  then show ?thesis using inv att
    by (simp add: store_inv_def keys_ok_touch refs_ok_touch queue_ok_def ids_ok_def id_images)
qed

lemma serialized_touch:
  assumes k: "keys_ok db" and ser: "serialized db" and p: "(d, a) \<in> set (current_pairs db)"
    and new: "in_flight (f a) \<Longrightarrow> in_flight a \<or>
      (\<forall>d' a'. (d', a') \<in> set (current_pairs db) \<longrightarrow> dl_id d' \<noteq> dl_id d \<longrightarrow> in_flight a' \<longrightarrow>
         \<not> same_resource d' d)"
  shows "serialized (touch_pair (at_id a) (dl_id d) f g db)"
proof -
  let ?u = "\<lambda>d0. if dl_id d0 = dl_id d then g d0 else d0"
  let ?v = "\<lambda>a0. if at_id a0 = at_id a then f a0 else a0"
  have core: "dl_id d1 = dl_id d2"
    if p1: "(d1, a1) \<in> set (current_pairs db)" and p2: "(d2, a2) \<in> set (current_pairs db)"
      and fl: "in_flight (?v a1)" "in_flight (?v a2)" and res: "same_resource d1 d2" for d1 a1 d2 a2
  proof (rule ccontr)
    assume ne: "dl_id d1 \<noteq> dl_id d2"
    have s1: "dl_id d1 = dl_id d \<longleftrightarrow> at_id a1 = at_id a" using current_unique [OF k p1 p] .
    have s2: "dl_id d2 = dl_id d \<longleftrightarrow> at_id a2 = at_id a" using current_unique [OF k p2 p] .
    have e: "x = d \<and> y = a" if "(x, y) \<in> set (current_pairs db)" "dl_id x = dl_id d" for x y
      using that p delivery_unique [OF k] attempt_unique [OF k] current_unique [OF k that(1) p] by auto
    have o: "False" if "(x, y) \<in> set (current_pairs db)" "(x', y') \<in> set (current_pairs db)"
        "dl_id x \<noteq> dl_id x'" "in_flight y" "in_flight y'" "same_resource x x'" for x y x' y'
      using ser that unfolding serialized_def by blast
    consider "dl_id d1 = dl_id d" | "dl_id d2 = dl_id d" | "dl_id d1 \<noteq> dl_id d" "dl_id d2 \<noteq> dl_id d"
      by blast
    then show False
    proof cases
      case 1
      then have "d1 = d" "a1 = a" "at_id a2 \<noteq> at_id a" using e [OF p1] ne s2 by auto
      then show False using new fl p2 ne same_resource_sym [OF res] o [OF p1 p2 ne _ _ res] by auto
    next
      case 2
      then have "d2 = d" "a2 = a" "at_id a1 \<noteq> at_id a" using e [OF p2] ne s1 by auto
      then show False using new fl p1 ne res o [OF p1 p2 ne _ _ res] by auto
    next
      case 3
      then show False using s1 s2 fl o [OF p1 p2 ne] res by auto
    qed
  qed
  have g1: "dl_id (?u x) = dl_id x" "same_resource (?u x) (?u y) = same_resource x y" for x y
    by (simp_all add: g_id same_resource_g)
  show ?thesis
    unfolding serialized_def in_touched_pairs
  proof (intro allI impI, elim exE conjE)
    fix d1 a1 d2 a2 x1 y1 x2 y2
    assume h: "(x1, y1) \<in> set (current_pairs db)" "d1 = ?u x1" "a1 = ?v y1"
      "(x2, y2) \<in> set (current_pairs db)" "d2 = ?u x2" "a2 = ?v y2"
      "in_flight a1" "in_flight a2" "same_resource d1 d2"
    have "dl_id x1 = dl_id x2"
      by (rule core [OF h(1,4)]) (use h in \<open>simp_all only: g1\<close>)
    then show "dl_id d1 = dl_id d2" using h(2,5) by (simp add: g_id)
  qed
qed

end

section \<open>Committing a status change\<close>

definition durable_inv :: "(nat \<Rightarrow> string) \<Rightarrow> db \<Rightarrow> bool" where
  "durable_inv uuid db \<longleftrightarrow> store_inv uuid db \<and> audit_inv db \<and> serialized db"

lemma durable_inv_keys: "durable_inv uuid db \<Longrightarrow> keys_ok db"
  by (simp add: durable_inv_def store_inv_def)

lemma durable_inv_empty: "durable_inv uuid empty_db"
  by (simp add: durable_inv_def store_inv_empty audit_inv_empty serialized_empty)

definition audits_status :: "audit_row \<Rightarrow> attempt_row \<Rightarrow> bool" where
  "audits_status u a \<longleftrightarrow>
     au_attempt_id u = at_id a \<and> ss_TransportStatus (au_after u) = at_transport_status a \<and>
     ss_DeploymentStatus (au_after u) = at_deployment_status a"

context pair_write
begin

lemma touched_all:
  assumes "keys_ok db" and "a \<in> set (db_attempts db)"
  shows "(\<forall>b\<in>set (db_attempts (touch_pair (at_id a) j f g db)). P b) \<longleftrightarrow>
         P (f a) \<and> (\<forall>b\<in>set (db_attempts db). at_id b \<noteq> at_id a \<longrightarrow> P b)"
  using assms(2) attempt_unique [OF assms]
  by (simp only: touch_pair_simps ball_sql_update) (metis (full_types))

lemma audit_inv_commit:
  assumes "keys_ok db" and "audit_inv db" and "a \<in> set (db_attempts db)" and "audits_status u (f a)"
  shows "audit_inv (append_audit u (touch_pair (at_id a) j f g db))"
  using assms(2,4)
  by (simp only: audit_inv_def append_audit_simps touched_all [OF assms(1,3)] audited_status_append)
    (simp add: audits_status_def f_id)

lemma audit_inv_touch_same:
  assumes "keys_ok db" and "audit_inv db" and "a \<in> set (db_attempts db)"
    and "at_transport_status (f a) = at_transport_status a"
    and "at_deployment_status (f a) = at_deployment_status a"
  shows "audit_inv (touch_pair (at_id a) j f g db)"
  using assms(2-)
  by (simp only: audit_inv_def touched_all [OF assms(1,3)] audited_status_touch) (simp add: f_id)

text \<open>The effect on the join: exactly the touched pair changes.\<close>

lemma touched_pairs_image:
  assumes k: "keys_ok db" and p: "(d, a) \<in> set (current_pairs db)"
  shows "set (current_pairs (touch_pair (at_id a) (dl_id d) f g db)) =
         (\<lambda>(x, y). if at_id y = at_id a then (g x, f y) else (x, y)) ` set (current_pairs db)"
    (is "?L = ?h ` ?S")
proof -
  have same: "dl_id x = dl_id d \<longleftrightarrow> at_id y = at_id a" if "(x, y) \<in> ?S" for x y
    using current_unique [OF k that p] .
  have h: "?h (x, y) = (if dl_id x = dl_id d then g x else x, if at_id y = at_id a then f y else y)"
    if "(x, y) \<in> ?S" for x y using same [OF that] by simp
  have "?L = (\<lambda>(x, y). (if dl_id x = dl_id d then g x else x, if at_id y = at_id a then f y else y)) ` ?S"
    (is "_ = ?k ` ?S")
  proof (rule set_eqI)
    fix z :: "delivery_row \<times> attempt_row"
    obtain d' a' where z: "z = (d', a')" by (cases z)
    show "z \<in> ?L \<longleftrightarrow> z \<in> ?k ` ?S"
      unfolding z in_touched_pairs image_iff Bex_def split_paired_Ex split_conv
      by (simp only: prod.inject)
  qed
  also have "\<dots> = ?h ` ?S"
  proof (rule image_cong [OF refl])
    fix z assume m: "z \<in> ?S"
    obtain x y where z: "z = (x, y)" by (cases z)
    show "?k z = ?h z" using h [of x y] m unfolding z by (simp only: split_conv simp_thms)
  qed
  finally show ?thesis .
qed

lemma durable_commit:
  assumes u: "inj uuid" and inv: "durable_inv uuid db" and p: "(d, a) \<in> set (current_pairs db)"
    and ok: "attempt_ok (f a)"
    and agree: "dl_transport_status (g d) = at_transport_status (f a)"
      "dl_deployment_status (g d) = at_deployment_status (f a)"
    and new: "in_flight (f a) \<Longrightarrow> in_flight a \<or>
      (\<forall>d' a'. (d', a') \<in> set (current_pairs db) \<longrightarrow> dl_id d' \<noteq> dl_id d \<longrightarrow> in_flight a' \<longrightarrow>
         \<not> same_resource d' d)"
    and aud: "audits_status u (f a)" "au_id u = uuid (db_uuids db)" "au_delivery_id u = dl_id d"
      "au_event_id u = dl_event_id d"
  shows "durable_inv uuid (append_audit u (touch_pair (at_id a) (dl_id d) f g db))"
proof -
  have inv': "store_inv uuid db" "audit_inv db" "serialized db" "keys_ok db"
    using inv by (simp_all add: durable_inv_def store_inv_def)
  have "au_attempt_id u = at_id a" "at_delivery_id a = dl_id d"
    using aud(1) p by (simp_all add: audits_status_def f_id is_current_def)
  then have "(au_attempt_id u, au_delivery_id u) \<in> at_ref ` set (db_attempts db)"
      "(au_delivery_id u, au_event_id u) \<in> dl_ref ` set (db_deliveries db)"
    using aud(3,4) p
    by (auto simp: at_ref_def dl_ref_def intro!: image_eqI [of _ at_ref a] image_eqI [of _ dl_ref d])
  then show ?thesis
    using store_inv_append_audit [OF u store_inv_touch [OF inv'(1) p ok agree], of u] aud p
      audit_inv_commit [OF inv'(4,2) _ aud(1)] serialized_touch [OF inv'(4,3) p new]
    by (simp add: durable_inv_def ref_images)
qed

lemma durable_touch_same:
  assumes inv: "durable_inv uuid db" and p: "(d, a) \<in> set (current_pairs db)"
    and ok: "attempt_ok (f a)"
    and same: "at_transport_status (f a) = at_transport_status a"
      "at_deployment_status (f a) = at_deployment_status a"
      "dl_transport_status (g d) = dl_transport_status d"
      "dl_deployment_status (g d) = dl_deployment_status d"
    and bind: "at_deployment_id (f a) = None \<Longrightarrow> at_deployment_id a = None"
  shows "durable_inv uuid (touch_pair (at_id a) (dl_id d) f g db)"
proof -
  have inv': "store_inv uuid db" "audit_inv db" "serialized db" "keys_ok db"
    using inv by (simp_all add: durable_inv_def store_inv_def)
  have agree: "dl_transport_status (g d) = at_transport_status (f a)"
    "dl_deployment_status (g d) = at_deployment_status (f a)"
    using same store_inv_currentE(2,3) [OF inv'(1) p] by simp_all
  have "in_flight (f a) \<Longrightarrow> in_flight a" using bind same by (simp add: in_flight_def)
  then show ?thesis
    using store_inv_touch [OF inv'(1) p ok agree] audit_inv_touch_same [OF inv'(4,2), of a] p same
      serialized_touch [OF inv'(4,3) p]
    by (simp add: durable_inv_def)
qed

end

text \<open>Reducing the two \<^verbatim>\<open>UPDATE\<close> statements of a transaction: on a database with primary keys, a
  condition that holds of a row and mentions its ID affects exactly that row.\<close>

lemma attempt_update_one:
  assumes "keys_ok db" and "a \<in> set (db_attempts db)" and "P a"
  shows "sql_affected (\<lambda>r. at_id r = at_id a \<and> P r) (db_attempts db) = 1"
    and "sql_update (\<lambda>r. at_id r = at_id a \<and> P r) f (db_attempts db) =
         sql_update (\<lambda>r. at_id r = at_id a) f (db_attempts db)"
proof -
  show "sql_affected (\<lambda>r. at_id r = at_id a \<and> P r) (db_attempts db) = 1"
    by (rule affected_one [of at_id _ a]) (use assms in \<open>auto simp: keys_ok_def\<close>)
  show "sql_update (\<lambda>r. at_id r = at_id a \<and> P r) f (db_attempts db) =
        sql_update (\<lambda>r. at_id r = at_id a) f (db_attempts db)"
    by (rule sql_update_cong) (use assms attempt_unique [OF assms(1)] in auto)
qed

lemma delivery_update_one:
  assumes "keys_ok db" and "d \<in> set (db_deliveries db)" and "P d"
  shows "sql_affected (\<lambda>r. dl_id r = dl_id d \<and> P r) (db_deliveries db) = 1"
    and "sql_update (\<lambda>r. dl_id r = dl_id d \<and> P r) g (db_deliveries db) =
         sql_update (\<lambda>r. dl_id r = dl_id d) g (db_deliveries db)"
proof -
  show "sql_affected (\<lambda>r. dl_id r = dl_id d \<and> P r) (db_deliveries db) = 1"
    by (rule affected_one [of dl_id _ d]) (use assms in \<open>auto simp: keys_ok_def\<close>)
  show "sql_update (\<lambda>r. dl_id r = dl_id d \<and> P r) g (db_deliveries db) =
        sql_update (\<lambda>r. dl_id r = dl_id d) g (db_deliveries db)"
    by (rule sql_update_cong) (use assms delivery_unique [OF assms(1)] in auto)
qed

text \<open>Reading the current attempt back: the join has at most one row per attempt ID.\<close>

lemma select_current_eq:
  assumes "keys_ok db" and "(d, a) \<in> set (current_pairs db)" and "P (d, a)"
    and "\<And>d' a'. P (d', a') \<Longrightarrow> at_id a' = at_id a"
  shows "sql_first (filter P (current_pairs db)) = Some (d, a)"
proof (rule sql_first_singleton)
  show "(d, a) \<in> set (filter P (current_pairs db))" using assms(2,3) by simp
next
  fix x assume x: "x \<in> set (filter P (current_pairs db))"
  obtain d' a' where x': "x = (d', a')" by force
  then have p: "(d', a') \<in> set (current_pairs db)" "at_id a' = at_id a" using x assms(4) by auto
  then have "dl_id d' = dl_id d" using current_unique [OF assms(1) p(1) assms(2)] by simp
  then show "x = (d, a)"
    using p assms(2) x' delivery_unique [OF assms(1)] attempt_unique [OF assms(1)] by auto
qed

lemma select_current_None:
  "(\<And>d a. (d, a) \<in> set (current_pairs db) \<Longrightarrow> \<not> P (d, a)) \<Longrightarrow>
   sql_first (filter P (current_pairs db)) = None"
  by (auto simp: filter_empty_conv simp del: in_current_pairs)

lemma durable_currentE:
  assumes "durable_inv uuid db" and "(d, a) \<in> set (current_pairs db)"
  shows "attempt_ok a" and "dl_transport_status d = at_transport_status a"
    and "dl_deployment_status d = at_deployment_status a"
  using store_inv_currentE [of uuid db d a] assms by (simp_all add: durable_inv_def)

section \<open>Writes that leave the status alone\<close>

text \<open>The contract of a bookkeeping write: request evidence, deployment cursor, poll claim. It may touch
  any set of attempts.\<close>

locale meta_write =
  fixes f :: "attempt_row \<Rightarrow> attempt_row"
  assumes keeps: "at_id (f a) = at_id a" "at_delivery_id (f a) = at_delivery_id a"
      "at_transport_status (f a) = at_transport_status a"
      "at_deployment_status (f a) = at_deployment_status a"
      "at_deployment_id (f a) = at_deployment_id a"
begin

lemma is_current_f: "is_current d (f a) = is_current d a"
  by (simp add: is_current_def keeps)

lemma in_flight_f: "in_flight (f a) = in_flight a"
  by (simp add: in_flight_def keeps)

lemma map_ids: "map at_id (sql_update p f t) = map at_id t"
  by (simp add: sql_simps keeps)

lemma image_ids: "at_id ` set (sql_update p f t) = at_id ` set t"
  by (metis map_ids list.set_map)

lemma image_refs: "at_ref ` set (sql_update p f t) = at_ref ` set t"
  by (simp add: image_sql_update at_ref_def keeps)

lemma pairs_meta:
  "(d, b) \<in> set (current_pairs (db\<lparr>db_attempts := sql_update p f (db_attempts db)\<rparr>)) \<Longrightarrow>
   \<exists>a. (d, a) \<in> set (current_pairs db) \<and> b = (if p a then f a else a)"
  by (auto simp: sql_simps is_current_f)

lemma durable_meta:
  assumes inv: "durable_inv uuid db"
    and ok: "\<And>a. a \<in> set (db_attempts db) \<Longrightarrow> p a \<Longrightarrow> attempt_ok a \<Longrightarrow> attempt_ok (f a)"
  shows "durable_inv uuid (db\<lparr>db_attempts := sql_update p f (db_attempts db)\<rparr>)" (is "durable_inv uuid ?db")
proof -
  have inv': "store_inv uuid db" "audit_inv db" "serialized db"
    using inv by (simp_all add: durable_inv_def)
  have "delivery_ok (db_attempts ?db) d" if h: "delivery_ok (db_attempts db) d" for d
  proof -
    obtain a where a: "a \<in> set (db_attempts db)" "is_current d a"
        "dl_transport_status d = at_transport_status a" "dl_deployment_status d = at_deployment_status a"
      using h by (auto simp: delivery_ok_def)
    then show ?thesis
      unfolding delivery_ok_def
      by (intro bexI [of _ "if p a then f a else a"]) (simp_all add: sql_update_def is_current_f keeps)
  qed
  then have "store_inv uuid ?db"
    using inv'(1) ok
    by (simp add: store_inv_def keys_ok_def refs_ok_def queue_ok_def ids_ok_def map_ids image_ids image_refs
        ball_sql_update keeps)
  moreover have "audit_inv ?db"
    using inv'(2) by (simp add: audit_inv_def audited_status_def ball_sql_update keeps)
  moreover have "serialized ?db"
    unfolding serialized_def
  proof (intro allI impI)
    fix d b d' b'
    assume h: "(d, b) \<in> set (current_pairs ?db)" "(d', b') \<in> set (current_pairs ?db)"
      "in_flight b" "in_flight b'" "same_resource d d'"
    obtain a a' where "(d, a) \<in> set (current_pairs db)" "(d', a') \<in> set (current_pairs db)"
        "in_flight a" "in_flight a'"
      using pairs_meta [OF h(1)] pairs_meta [OF h(2)] h(3,4) by (metis in_flight_f)
    then show "dl_id d = dl_id d'" using inv'(3) h(5) unfolding serialized_def by blast
  qed
  ultimately show ?thesis by (simp add: durable_inv_def)
qed

end

end
