(* ===== verification/Store_Work.thy ===== *)
theory Store_Work
  imports Store_Write
begin

text \<open>
  The work queue transactions of \<^verbatim>\<open>internal/store/work.go\<close>: claiming a pending attempt, recording the
  outcome of a send, the deployment cursor and request evidence, claiming due polls, completing a
  poll, and recovery after a restart. Each definition has the statements of the source in their order,
  with the source's row-count checks; a failed check returns the error and the database the
  transaction began with.

  \<^verbatim>\<open>notifyChanged\<close>, the wake-up of the notification stream after a commit, changes no durable state and
  is left out. Driver failures at any statement roll the transaction back; the workers model them at
  the call (\<open>ErrDriver\<close>).
\<close>

section \<open>Types\<close>

record PendingAttempt =
  pa_EventID :: string
  pa_DeliveryID :: string
  pa_AttemptID :: string
  pa_TargetID :: string
  pa_TargetSnapshot :: "SnapshotDoc option"
  pa_RequestJSON :: "ForwardRequest option"
  pa_PayloadJSON :: "bytes option"
  pa_ReceivedAt :: time
  pa_Event :: CanonicalEvent

record PollWork =
  pw_EventID :: string
  pw_DeliveryID :: string
  pw_AttemptID :: string
  pw_TargetID :: string
  pw_TargetSnapshot :: "SnapshotDoc option"
  pw_TransportStatus :: TransportStatus
  pw_DeploymentStatus :: DeploymentStatus
  pw_DeploymentID :: string
  pw_DeploymentCursor :: "string option"
  pw_MonitoringDeadline :: time
  pw_ClaimedAt :: time

record PollUpdate =
  pu_TransportStatus :: TransportStatus
  pu_DeploymentStatus :: DeploymentStatus
  pu_DeploymentID :: string
  pu_NextPollAt :: "time option"

record PollSchedule =
  ps_Interval :: duration
  ps_Timeout :: duration

record StatusChange =
  sc_AttemptID :: string
  sc_TargetID :: string
  sc_BeforeTransport :: TransportStatus
  sc_BeforeDeployment :: DeploymentStatus
  sc_AfterTransport :: TransportStatus
  sc_AfterDeployment :: DeploymentStatus

definition maxPollBatch :: nat where
  "maxPollBatch = 32"

text \<open>\<^verbatim>\<open>sql.NullString.String\<close>: the empty string for NULL.\<close>

definition nullString :: "string option \<Rightarrow> string" where
  "nullString v = (case v of Some s \<Rightarrow> s | None \<Rightarrow> '''')"

definition timeMillis :: "time option \<Rightarrow> millis option" where
  "timeMillis v = map_option UnixMilli v"

section \<open>Audit\<close>

definition statusOf :: "TransportStatus \<Rightarrow> DeploymentStatus \<Rightarrow> statusSnapshot" where
  "statusOf t d = \<lparr>ss_TransportStatus = t, ss_DeploymentStatus = d, ss_Reason = ''''\<rparr>"

definition insertAudit ::
  "(nat \<Rightarrow> string) \<Rightarrow> string \<Rightarrow> string \<Rightarrow> string \<Rightarrow> string \<Rightarrow>
   TransportStatus \<Rightarrow> DeploymentStatus \<Rightarrow> TransportStatus \<Rightarrow> DeploymentStatus \<Rightarrow> time \<Rightarrow> db \<Rightarrow> db option" where
  "insertAudit uuid eventID deliveryID attemptID action bt bd t d at db =
     (case draw uuid db of (i, db1) \<Rightarrow>
        insert_audit_row
          \<lparr>au_id = i, au_event_id = eventID, au_delivery_id = deliveryID, au_attempt_id = attemptID,
           au_actor = ''system'', au_action = action, au_before = statusOf bt bd,
           au_after = statusOf t d, au_created_at = UnixMilli at\<rparr> db1)"

section \<open>Claiming a pending attempt\<close>

definition attemptKinds :: "string list" where
  "attemptKinds = [''initial'', ''retry'', ''redeploy'']"

text \<open>The \<^verbatim>\<open>WHERE\<close> clause of the claim: pending on both sides, and no other delivery to the same
  resource in flight.\<close>

definition claimable :: "db \<Rightarrow> event_row \<times> delivery_row \<times> attempt_row \<Rightarrow> bool" where
  "claimable db = (\<lambda>(e, d, a).
     at_kind a \<in> set attemptKinds \<and>
     at_transport_status a = TransportPending \<and> dl_transport_status d = TransportPending \<and>
     \<not> list_ex (\<lambda>(d', a'). same_resource d' d \<and> dl_id d' \<noteq> dl_id d \<and> in_flight a') (current_pairs db))"

definition claimOrder :: "event_row \<times> delivery_row \<times> attempt_row \<Rightarrow> millis \<times> millis \<times> string" where
  "claimOrder = (\<lambda>(e, d, a). (ev_received_at e, dl_created_at d, dl_id d))"

definition pendingAttemptOf :: "event_row \<Rightarrow> delivery_row \<Rightarrow> attempt_row \<Rightarrow> PendingAttempt" where
  "pendingAttemptOf e d a =
     \<lparr>pa_EventID = ev_id e, pa_DeliveryID = dl_id d, pa_AttemptID = at_id a,
      pa_TargetID = dl_target_id d, pa_TargetSnapshot = dl_target_snapshot d,
      pa_RequestJSON = ev_forward_request_json e, pa_PayloadJSON = ev_raw_payload_json e,
      pa_ReceivedAt = timeUnixMilli (ev_received_at e),
      pa_Event =
        \<lparr>ce_Provider = ev_provider e, ce_Source = ev_source_id e, ce_Repository = ev_repository_id e,
         ce_Event = ev_event e, ce_Ref = nullString (ev_ref e), ce_Status = nullString (ev_status e),
         ce_Revision = nullString (ev_revision e), ce_CommitMessage = nullString (ev_commit_message e),
         ce_ExternalID = nullString (ev_external_id e), ce_Trigger = nullString (ev_trigger e)\<rparr>\<rparr>"

definition claim_attempt :: "attempt_row \<Rightarrow> attempt_row" where
  "claim_attempt a = a\<lparr>at_transport_status := TransportSending\<rparr>"

definition claim_delivery :: "time \<Rightarrow> delivery_row \<Rightarrow> delivery_row" where
  "claim_delivery now d = d\<lparr>dl_transport_status := TransportSending, dl_updated_at := UnixMilli now\<rparr>"

definition ClaimPendingAttempt ::
  "(nat \<Rightarrow> string) \<Rightarrow> time \<Rightarrow> db \<Rightarrow> (store_error + PendingAttempt option) \<times> db" where
  "ClaimPendingAttempt uuid now db =
     (case sql_first (sort_key claimOrder (filter (claimable db) (current_triples db))) of
        None \<Rightarrow> (Inr None, db)
      | Some (e, d, a) \<Rightarrow>
          let p = (\<lambda>r. at_id r = at_id a \<and> at_delivery_id r = dl_id d \<and> at_kind r \<in> set attemptKinds \<and>
                       at_transport_status r = TransportPending \<and>
                       list_ex (\<lambda>x. dl_id x = dl_id d \<and> dl_current_attempt_id x = Some (at_id r) \<and>
                                    dl_transport_status x = TransportPending) (db_deliveries db))
          in if sql_affected p (db_attempts db) \<noteq> 1 then (Inr None, db)
          else let db1 = db\<lparr>db_attempts := sql_update p claim_attempt (db_attempts db)\<rparr>;
                   q = (\<lambda>r. dl_id r = dl_id d \<and> dl_current_attempt_id r = Some (at_id a) \<and>
                            dl_transport_status r = TransportPending)
          in if sql_affected q (db_deliveries db1) \<noteq> 1 then (Inl ErrAttemptNotSending, db)
          else let db2 = db1\<lparr>db_deliveries := sql_update q (claim_delivery now) (db_deliveries db1)\<rparr>
          in case insertAudit uuid (ev_id e) (dl_id d) (at_id a) ''transport_sending''
                    TransportPending DeploymentNotStarted TransportSending DeploymentNotStarted now db2 of
               None \<Rightarrow> (Inl ErrConstraint, db)
             | Some db3 \<Rightarrow> (Inr (Some (pendingAttemptOf e d a)), db3))"

section \<open>Recording the outcome of a send\<close>

definition outcome_attempt ::
  "TransportStatus \<Rightarrow> DeploymentStatus \<Rightarrow> bytes option \<Rightarrow> bytes option \<Rightarrow> time \<Rightarrow>
   time option \<Rightarrow> time option \<Rightarrow> time option \<Rightarrow> attempt_row \<Rightarrow> attempt_row" where
  "outcome_attempt t d requestJSON responseJSON at enqueuedAt pollDue deadline a =
     a\<lparr>at_transport_status := t, at_deployment_status := d, at_request_json := requestJSON,
       at_response_json := responseJSON, at_response_at := Some (UnixMilli at),
       at_enqueued_at := timeMillis enqueuedAt, at_poll_due_at := timeMillis pollDue,
       at_monitoring_deadline_at := timeMillis deadline\<rparr>"

definition status_delivery ::
  "TransportStatus \<Rightarrow> DeploymentStatus \<Rightarrow> time \<Rightarrow> delivery_row \<Rightarrow> delivery_row" where
  "status_delivery t d at r =
     r\<lparr>dl_transport_status := t, dl_deployment_status := d, dl_updated_at := UnixMilli at\<rparr>"

definition transitionAttempt ::
  "(nat \<Rightarrow> string) \<Rightarrow> string \<Rightarrow> bytes option \<Rightarrow> bytes option \<Rightarrow> time \<Rightarrow>
   TransportStatus \<Rightarrow> DeploymentStatus \<Rightarrow> string \<Rightarrow> time option \<Rightarrow> time option \<Rightarrow> time option \<Rightarrow> db \<Rightarrow>
   (store_error + unit) \<times> db" where
  "transitionAttempt uuid attemptID requestJSON responseJSON at t ds action enqueuedAt pollDue deadline db =
     (case sql_first (filter (\<lambda>(d, a). at_id a = attemptID) (current_pairs db)) of
        None \<Rightarrow> (Inl ErrAttemptNotSending, db)
      | Some (d, a) \<Rightarrow>
          if at_transport_status a \<noteq> TransportSending then (Inl ErrAttemptNotSending, db)
          else let p = (\<lambda>r. at_id r = at_id a \<and> at_delivery_id r = dl_id d \<and>
                            at_transport_status r = TransportSending)
          in if sql_affected p (db_attempts db) \<noteq> 1 then (Inl ErrAttemptNotSending, db)
          else let db1 = db\<lparr>db_attempts := sql_update p
                     (outcome_attempt t ds requestJSON responseJSON at enqueuedAt pollDue deadline)
                     (db_attempts db)\<rparr>;
                   q = (\<lambda>r. dl_id r = dl_id d \<and> dl_current_attempt_id r = Some (at_id a) \<and>
                            dl_transport_status r = TransportSending)
          in if sql_affected q (db_deliveries db1) \<noteq> 1 then (Inl ErrAttemptNotSending, db)
          else let db2 = db1\<lparr>db_deliveries := sql_update q (status_delivery t ds at) (db_deliveries db1)\<rparr>
          in case insertAudit uuid (dl_event_id d) (dl_id d) (at_id a) action
                    (at_transport_status a) (at_deployment_status a) t ds at db2 of
               None \<Rightarrow> (Inl ErrConstraint, db)
             | Some db3 \<Rightarrow> (Inr (), db3))"

definition MarkEnqueued ::
  "(nat \<Rightarrow> string) \<Rightarrow> string \<Rightarrow> bytes option \<Rightarrow> bytes option \<Rightarrow> time \<Rightarrow> time \<Rightarrow> time \<Rightarrow> db \<Rightarrow>
   (store_error + unit) \<times> db" where
  "MarkEnqueued uuid attemptID requestJSON responseJSON at pollDue deadline =
     transitionAttempt uuid attemptID requestJSON responseJSON at TransportEnqueued DeploymentLocating
       ''transport_enqueued'' (Some at) (Some pollDue) (Some deadline)"

definition MarkAccepted ::
  "(nat \<Rightarrow> string) \<Rightarrow> string \<Rightarrow> bytes option \<Rightarrow> bytes option \<Rightarrow> time \<Rightarrow> db \<Rightarrow> (store_error + unit) \<times> db" where
  "MarkAccepted uuid attemptID requestJSON responseJSON at =
     transitionAttempt uuid attemptID requestJSON responseJSON at TransportEnqueued DeploymentDone
       ''transport_accepted'' (Some at) None None"

definition MarkTransportFailed ::
  "(nat \<Rightarrow> string) \<Rightarrow> string \<Rightarrow> bytes option \<Rightarrow> bytes option \<Rightarrow> time \<Rightarrow> db \<Rightarrow> (store_error + unit) \<times> db" where
  "MarkTransportFailed uuid attemptID requestJSON responseJSON at =
     transitionAttempt uuid attemptID requestJSON responseJSON at TransportFailed DeploymentNotStarted
       ''transport_failed'' None None None"

definition MarkTransportUnknown ::
  "(nat \<Rightarrow> string) \<Rightarrow> string \<Rightarrow> bytes option \<Rightarrow> bytes option \<Rightarrow> time \<Rightarrow> time \<Rightarrow> time \<Rightarrow> db \<Rightarrow>
   (store_error + unit) \<times> db" where
  "MarkTransportUnknown uuid attemptID requestJSON responseJSON at pollDue deadline =
     transitionAttempt uuid attemptID requestJSON responseJSON at TransportUnknown DeploymentLocating
       ''transport_unknown'' None (Some pollDue) (Some deadline)"

definition MarkTransportUnknownTerminal ::
  "(nat \<Rightarrow> string) \<Rightarrow> string \<Rightarrow> bytes option \<Rightarrow> bytes option \<Rightarrow> time \<Rightarrow> db \<Rightarrow> (store_error + unit) \<times> db" where
  "MarkTransportUnknownTerminal uuid attemptID requestJSON responseJSON at =
     transitionAttempt uuid attemptID requestJSON responseJSON at TransportUnknown DeploymentUnknown
       ''transport_unknown'' None None None"

section \<open>Evidence before the remote call\<close>

text \<open>Two single statements outside a transaction. The attempt must be sending, current for some
  delivery, and the column must still be empty.\<close>

definition record_attempt :: "bytes option \<Rightarrow> time \<Rightarrow> attempt_row \<Rightarrow> attempt_row" where
  "record_attempt requestJSON at a =
     a\<lparr>at_request_json := requestJSON, at_request_at := Some (UnixMilli at)\<rparr>"

definition RecordDeploymentRequest ::
  "string \<Rightarrow> bytes option \<Rightarrow> time \<Rightarrow> db \<Rightarrow> (store_error + unit) \<times> db" where
  "RecordDeploymentRequest attemptID requestJSON at db =
     (let p = (\<lambda>r. at_id r = attemptID \<and> at_transport_status r = TransportSending \<and>
                   at_request_json r = None \<and> at_request_at r = None \<and>
                   list_ex (\<lambda>x. dl_current_attempt_id x = Some (at_id r)) (db_deliveries db));
          db1 = db\<lparr>db_attempts := sql_update p (record_attempt requestJSON at) (db_attempts db)\<rparr>
      in if sql_affected p (db_attempts db) \<noteq> 1 then (Inl ErrAttemptNotSending, db1) else (Inr (), db1))"

definition cursor_attempt :: "string \<Rightarrow> attempt_row \<Rightarrow> attempt_row" where
  "cursor_attempt cursor a = a\<lparr>at_deployment_cursor := Some cursor\<rparr>"

definition SetDeploymentCursor :: "string \<Rightarrow> string \<Rightarrow> db \<Rightarrow> (store_error + unit) \<times> db" where
  "SetDeploymentCursor attemptID cursor db =
     (let p = (\<lambda>r. at_id r = attemptID \<and> at_transport_status r = TransportSending \<and>
                   at_deployment_cursor r = None \<and>
                   list_ex (\<lambda>x. dl_current_attempt_id x = Some (at_id r)) (db_deliveries db));
          db1 = db\<lparr>db_attempts := sql_update p (cursor_attempt cursor) (db_attempts db)\<rparr>
      in if sql_affected p (db_attempts db) \<noteq> 1 then (Inl ErrAttemptNotSending, db1) else (Inr (), db1))"

section \<open>Claiming due polls\<close>

text \<open>\<^verbatim>\<open>CASE WHEN monitoring_deadline_at < poll_due_at THEN monitoring_deadline_at ELSE poll_due_at END\<close>.\<close>

definition pollTime :: "millis \<Rightarrow> millis \<Rightarrow> millis" where
  "pollTime due deadline = (if deadline < due then deadline else due)"

definition pollDue :: "millis \<Rightarrow> attempt_row \<Rightarrow> bool" where
  "pollDue nowMillis a =
     (case (at_poll_due_at a, at_monitoring_deadline_at a) of
        (Some due, Some deadline) \<Rightarrow>
          monitored (at_deployment_status a) \<and>
          (due \<le> nowMillis \<or> deadline \<le> nowMillis) \<and>
          (case at_last_polled_at a of None \<Rightarrow> True | Some l \<Rightarrow> l < pollTime due deadline)
      | _ \<Rightarrow> False)"

definition pollOrder :: "event_row \<times> delivery_row \<times> attempt_row \<Rightarrow> millis \<times> millis \<times> millis \<times> string" where
  "pollOrder = (\<lambda>(e, d, a).
     (case (at_poll_due_at a, at_monitoring_deadline_at a) of
        (Some due, Some deadline) \<Rightarrow> pollTime due deadline | _ \<Rightarrow> 0,
      ev_received_at e, dl_created_at d, dl_id d))"

definition pollWorkOf :: "time \<Rightarrow> event_row \<times> delivery_row \<times> attempt_row \<Rightarrow> PollWork" where
  "pollWorkOf now = (\<lambda>(e, d, a).
     \<lparr>pw_EventID = ev_id e, pw_DeliveryID = dl_id d, pw_AttemptID = at_id a,
      pw_TargetID = dl_target_id d, pw_TargetSnapshot = dl_target_snapshot d,
      pw_TransportStatus = at_transport_status a, pw_DeploymentStatus = at_deployment_status a,
      pw_DeploymentID = nullString (at_deployment_id a),
      pw_DeploymentCursor = at_deployment_cursor a,
      pw_MonitoringDeadline =
        timeUnixMilli (case at_monitoring_deadline_at a of Some t \<Rightarrow> t | None \<Rightarrow> 0),
      pw_ClaimedAt = now\<rparr>)"

definition polled_attempt :: "millis \<Rightarrow> attempt_row \<Rightarrow> attempt_row" where
  "polled_attempt nowMillis a = a\<lparr>at_last_polled_at := Some nowMillis\<rparr>"

text \<open>One round of the claim loop: the guarded \<^verbatim>\<open>UPDATE\<close> and its row count.\<close>

definition claimPollCond :: "millis \<Rightarrow> PollWork \<Rightarrow> db \<Rightarrow> attempt_row \<Rightarrow> bool" where
  "claimPollCond nowMillis w db r \<longleftrightarrow>
     at_id r = pw_AttemptID w \<and> at_delivery_id r = pw_DeliveryID w \<and> pollDue nowMillis r \<and>
     list_ex (\<lambda>x. dl_id x = pw_DeliveryID w \<and> dl_current_attempt_id x = Some (at_id r)) (db_deliveries db)"

fun claimPolls :: "millis \<Rightarrow> PollWork list \<Rightarrow> db \<Rightarrow> PollWork list \<times> db" where
  "claimPolls nowMillis [] db = ([], db)"
| "claimPolls nowMillis (w # ws) db =
     (let n = sql_affected (claimPollCond nowMillis w db) (db_attempts db);
          db1 = db\<lparr>db_attempts :=
                 sql_update (claimPollCond nowMillis w db) (polled_attempt nowMillis) (db_attempts db)\<rparr>
      in case claimPolls nowMillis ws db1 of
           (claimed, db2) \<Rightarrow> (if n = 1 then w # claimed else claimed, db2))"

definition pollCandidates :: "time \<Rightarrow> db \<Rightarrow> PollWork list" where
  "pollCandidates now db =
     map (pollWorkOf now)
       (take maxPollBatch
          (sort_key pollOrder (filter (\<lambda>(e, d, a). pollDue (UnixMilli now) a) (current_triples db))))"

definition ListDuePolls :: "time \<Rightarrow> db \<Rightarrow> (store_error + PollWork list) \<times> db" where
  "ListDuePolls now db =
     (case claimPolls (UnixMilli now) (pollCandidates now db) db of
        (claimed, db1) \<Rightarrow> (Inr claimed, db1))"

section \<open>Completing a poll\<close>

definition complete_attempt ::
  "TransportStatus \<Rightarrow> DeploymentStatus \<Rightarrow> string option \<Rightarrow> time option \<Rightarrow> attempt_row \<Rightarrow> attempt_row" where
  "complete_attempt t d deploymentID next a =
     a\<lparr>at_transport_status := t, at_deployment_status := d, at_deployment_id := deploymentID,
       at_poll_due_at := timeMillis next\<rparr>"

definition CompletePoll ::
  "(nat \<Rightarrow> string) \<Rightarrow> PollWork \<Rightarrow> PollUpdate \<Rightarrow> time \<Rightarrow> db \<Rightarrow> (store_error + bool) \<times> db" where
  "CompletePoll uuid w update at db =
     (let claimed = Some (UnixMilli (pw_ClaimedAt w)) in
      case sql_first (filter (\<lambda>(d, a). at_id a = pw_AttemptID w \<and> at_delivery_id a = pw_DeliveryID w \<and>
                                       at_last_polled_at a = claimed) (current_pairs db)) of
        None \<Rightarrow> (Inl ErrPollNotClaimed, db)
      | Some (d, a) \<Rightarrow>
          let deploymentID = (if pu_DeploymentID update \<noteq> '''' then Some (pu_DeploymentID update)
                              else at_deployment_id a);
              p = (\<lambda>r. at_id r = pw_AttemptID w \<and> at_delivery_id r = pw_DeliveryID w \<and>
                       at_last_polled_at r = claimed)
          in if sql_affected p (db_attempts db) \<noteq> 1 then (Inl ErrPollNotClaimed, db)
          else let db1 = db\<lparr>db_attempts := sql_update p
                     (complete_attempt (pu_TransportStatus update) (pu_DeploymentStatus update)
                        deploymentID (pu_NextPollAt update)) (db_attempts db)\<rparr>;
                   changed = (at_transport_status a \<noteq> pu_TransportStatus update \<or>
                              at_deployment_status a \<noteq> pu_DeploymentStatus update)
          in if \<not> changed then (Inr False, db1)
          else let q = (\<lambda>r. dl_id r = pw_DeliveryID w \<and>
                            dl_current_attempt_id r = Some (pw_AttemptID w))
          in if sql_affected q (db_deliveries db1) \<noteq> 1 then (Inl ErrPollNotClaimed, db)
          else let db2 = db1\<lparr>db_deliveries := sql_update q
                     (status_delivery (pu_TransportStatus update) (pu_DeploymentStatus update) at)
                     (db_deliveries db1)\<rparr>
          in case insertAudit uuid (dl_event_id d) (dl_id d) (at_id a)
                    (''deployment_'' @ deploymentText (pu_DeploymentStatus update))
                    (at_transport_status a) (at_deployment_status a)
                    (pu_TransportStatus update) (pu_DeploymentStatus update) at db2 of
               None \<Rightarrow> (Inl ErrConstraint, db)
             | Some db3 \<Rightarrow> (Inr True, db3))"

section \<open>Recovery after a restart\<close>

definition normalizedPollSchedule :: "PollSchedule \<Rightarrow> PollSchedule" where
  "normalizedPollSchedule s =
     \<lparr>ps_Interval = (if ps_Interval s \<le> 0 then second else ps_Interval s),
      ps_Timeout = (if ps_Timeout s \<le> 0 then 30 * minute else ps_Timeout s)\<rparr>"

definition interrupted :: "attempt_row \<Rightarrow> bool" where
  "interrupted a \<longleftrightarrow> at_transport_status a = TransportSending \<or> monitored (at_deployment_status a)"

definition recover_attempt ::
  "TransportStatus \<Rightarrow> DeploymentStatus \<Rightarrow> millis \<Rightarrow> millis \<Rightarrow> attempt_row \<Rightarrow> attempt_row" where
  "recover_attempt t d due deadline a =
     a\<lparr>at_transport_status := t, at_deployment_status := d, at_poll_due_at := Some due,
       at_monitoring_deadline_at := Some deadline, at_last_polled_at := None\<rparr>"

definition recoverOne ::
  "(nat \<Rightarrow> string) \<Rightarrow> time \<Rightarrow> PollSchedule \<Rightarrow> (string \<rightharpoonup> PollSchedule) \<Rightarrow>
   delivery_row \<times> attempt_row \<Rightarrow> db \<Rightarrow> store_error + (StatusChange list \<times> db)" where
  "recoverOne uuid now defaultSchedule targetSchedules = (\<lambda>(d, a) db.
     let schedule = (case targetSchedules (dl_target_id d) of
                       Some configured \<Rightarrow> normalizedPollSchedule configured | None \<Rightarrow> defaultSchedule);
         due = (case at_poll_due_at a of Some v \<Rightarrow> v | None \<Rightarrow> UnixMilli (now + ps_Interval schedule));
         deadline = (case at_monitoring_deadline_at a of
                       Some v \<Rightarrow> v | None \<Rightarrow> UnixMilli (now + ps_Timeout schedule));
         t = (if at_transport_status a = TransportSending then TransportUnknown else at_transport_status a);
         ds = (if at_transport_status a = TransportSending then DeploymentLocating
               else at_deployment_status a);
         p = (\<lambda>r. at_id r = at_id a \<and> at_delivery_id r = dl_id d)
     in if sql_affected p (db_attempts db) \<noteq> 1 then Inl ErrPollNotClaimed
     else let db1 = db\<lparr>db_attempts := sql_update p (recover_attempt t ds due deadline) (db_attempts db)\<rparr>
     in if at_transport_status a = t \<and> at_deployment_status a = ds then Inr ([], db1)
     else let q = (\<lambda>r. dl_id r = dl_id d \<and> dl_current_attempt_id r = Some (at_id a))
     in if sql_affected q (db_deliveries db1) \<noteq> 1 then Inl ErrPollNotClaimed
     else let db2 = db1\<lparr>db_deliveries := sql_update q (status_delivery t ds now) (db_deliveries db1)\<rparr>
     in case insertAudit uuid (dl_event_id d) (dl_id d) (at_id a) ''transport_recovered''
               (at_transport_status a) (at_deployment_status a) t ds now db2 of
          None \<Rightarrow> Inl ErrConstraint
        | Some db3 \<Rightarrow>
            Inr ([\<lparr>sc_AttemptID = at_id a, sc_TargetID = dl_target_id d,
                   sc_BeforeTransport = at_transport_status a, sc_BeforeDeployment = at_deployment_status a,
                   sc_AfterTransport = t, sc_AfterDeployment = ds\<rparr>], db3))"

fun recoverAll ::
  "(nat \<Rightarrow> string) \<Rightarrow> time \<Rightarrow> PollSchedule \<Rightarrow> (string \<rightharpoonup> PollSchedule) \<Rightarrow>
   (delivery_row \<times> attempt_row) list \<Rightarrow> db \<Rightarrow> store_error + (StatusChange list \<times> db)" where
  "recoverAll uuid now ds ts [] db = Inr ([], db)"
| "recoverAll uuid now ds ts (x # xs) db =
     (case recoverOne uuid now ds ts x db of
        Inl e \<Rightarrow> Inl e
      | Inr (c, db1) \<Rightarrow>
          (case recoverAll uuid now ds ts xs db1 of
             Inl e \<Rightarrow> Inl e | Inr (cs, db2) \<Rightarrow> Inr (c @ cs, db2)))"

definition recoverCandidates :: "db \<Rightarrow> (delivery_row \<times> attempt_row) list" where
  "recoverCandidates db =
     sort_key (\<lambda>(d, a). (dl_created_at d, dl_id d)) (filter (\<lambda>(d, a). interrupted a) (current_pairs db))"

definition RecoverInterrupted ::
  "(nat \<Rightarrow> string) \<Rightarrow> time \<Rightarrow> PollSchedule \<Rightarrow> (string \<rightharpoonup> PollSchedule) \<Rightarrow> db \<Rightarrow>
   (store_error + StatusChange list) \<times> db" where
  "RecoverInterrupted uuid now defaultSchedule targetSchedules db =
     (case recoverAll uuid now (normalizedPollSchedule defaultSchedule) targetSchedules
             (recoverCandidates db) db of
        Inl e \<Rightarrow> (Inl e, db)
      | Inr (changes, db') \<Rightarrow> (Inr changes, db'))"

end
