(* ===== verification/Store_Work_Props.thy ===== *)
theory Store_Work_Props
  imports Store_Work
begin

text \<open>
  What the transactions of \<open>Store_Work\<close> guarantee. Each is first reduced, on a database that satisfies
  the invariant, to the write it performs (the \<open>_eq\<close> lemmas); the row changes are interpreted in the
  locale \<open>pair_write\<close>, and the preservation of the invariants follows from its lemmas.
\<close>

section \<open>Row changes keep the identifying columns\<close>

interpretation claim: pair_write claim_attempt "claim_delivery now"
  by unfold_locales (simp_all add: claim_attempt_def claim_delivery_def)

interpretation outcome: pair_write "outcome_attempt t ds rq rs at en due dl" "status_delivery t' ds' at'"
  by unfold_locales (simp_all add: outcome_attempt_def status_delivery_def)

interpretation complete: pair_write "complete_attempt t ds i next" "status_delivery t' ds' at'"
  by unfold_locales (simp_all add: complete_attempt_def status_delivery_def)

interpretation recover: pair_write "recover_attempt t ds due dl" "status_delivery t' ds' at'"
  by unfold_locales (simp_all add: recover_attempt_def status_delivery_def)

interpretation complete_keep: pair_write "complete_attempt t ds i next" "\<lambda>d. d"
  by unfold_locales (simp_all add: complete_attempt_def)

interpretation recover_keep: pair_write "recover_attempt t ds due dl" "\<lambda>d. d"
  by unfold_locales (simp_all add: recover_attempt_def)

interpretation evidence: meta_write "record_attempt rq at"
  by unfold_locales (simp_all add: record_attempt_def)

interpretation cursor: meta_write "cursor_attempt c"
  by unfold_locales (simp_all add: cursor_attempt_def)

interpretation polled: meta_write "polled_attempt n"
  by unfold_locales (simp_all add: polled_attempt_def)

section \<open>The audit row\<close>

definition system_audit ::
  "(nat \<Rightarrow> string) \<Rightarrow> db \<Rightarrow> string \<Rightarrow> string \<Rightarrow> string \<Rightarrow> string \<Rightarrow>
   TransportStatus \<Rightarrow> DeploymentStatus \<Rightarrow> TransportStatus \<Rightarrow> DeploymentStatus \<Rightarrow> time \<Rightarrow> audit_row" where
  "system_audit uuid db eventID deliveryID attemptID action bt bd t d at =
     \<lparr>au_id = uuid (db_uuids db), au_event_id = eventID, au_delivery_id = deliveryID,
      au_attempt_id = attemptID, au_actor = ''system'', au_action = action, au_before = statusOf bt bd,
      au_after = statusOf t d, au_created_at = UnixMilli at\<rparr>"

lemma au_fresh:
  "inj uuid \<Longrightarrow> au_id ` set (db_audits db) \<subseteq> uuid ` {..<db_uuids db} \<Longrightarrow>
   uuid (db_uuids db) \<notin> au_id ` set (db_audits db)"
  using fresh_uuid [of uuid "db_uuids db" "db_uuids db"] by blast

lemma insertAudit_eq:
  assumes "inj uuid" and "au_id ` set (db_audits db) \<subseteq> uuid ` {..<db_uuids db}"
  shows "insertAudit uuid e d a action bt bd t ds at db =
         Some (append_audit (system_audit uuid db e d a action bt bd t ds at) db)"
  using au_fresh [OF assms]
  by (simp add: insertAudit_def draw_def insert_audit_row_def system_audit_def append_audit_def)

lemma store_inv_audit_ids:
  "store_inv uuid db \<Longrightarrow> au_id ` set (db_audits db) \<subseteq> uuid ` {..<db_uuids db}"
  by (simp add: store_inv_def ids_ok_def)

lemma insertAudit_touch_eq:
  assumes "inj uuid" and "durable_inv uuid db"
  shows "insertAudit uuid e d a action bt bd t ds at (touch_pair i j f g db) =
         Some (append_audit (system_audit uuid db e d a action bt bd t ds at) (touch_pair i j f g db))"
  using assms store_inv_audit_ids [of uuid db]
  by (subst insertAudit_eq) (simp_all add: durable_inv_def system_audit_def)

lemma audits_status_system [simp]:
  "audits_status (system_audit uuid db e d i action bt bd t ds at) b \<longleftrightarrow>
     i = at_id b \<and> t = at_transport_status b \<and> ds = at_deployment_status b"
  by (simp add: audits_status_def system_audit_def statusOf_def)

lemma system_audit_ids [simp]:
  "au_id (system_audit uuid db e d i action bt bd t ds at) = uuid (db_uuids db)"
  "au_delivery_id (system_audit uuid db e d i action bt bd t ds at) = d"
  "au_event_id (system_audit uuid db e d i action bt bd t ds at) = e"
  by (simp_all add: system_audit_def)

lemma touch_pair_record:
  "db\<lparr>db_attempts := sql_update (\<lambda>r. at_id r = i) f (db_attempts db),
      db_deliveries := sql_update (\<lambda>r. dl_id r = j) g (db_deliveries db)\<rparr> = touch_pair i j f g db"
  by (simp add: touch_pair_def)

section \<open>ClaimPendingAttempt\<close>

lemma claimable_iff:
  "claimable db (e, d, a) \<longleftrightarrow>
     at_kind a \<in> set attemptKinds \<and> at_transport_status a = TransportPending \<and>
     dl_transport_status d = TransportPending \<and>
     (\<forall>d' a'. (d', a') \<in> set (current_pairs db) \<longrightarrow> dl_id d' \<noteq> dl_id d \<longrightarrow> in_flight a' \<longrightarrow>
        \<not> same_resource d' d)"
  by (auto simp: claimable_def list_ex_iff)

definition claimed_db ::
  "(nat \<Rightarrow> string) \<Rightarrow> time \<Rightarrow> event_row \<Rightarrow> delivery_row \<Rightarrow> attempt_row \<Rightarrow> db \<Rightarrow> db" where
  "claimed_db uuid now e d a db =
     append_audit (system_audit uuid db (ev_id e) (dl_id d) (at_id a) ''transport_sending''
         TransportPending DeploymentNotStarted TransportSending DeploymentNotStarted now)
       (touch_pair (at_id a) (dl_id d) claim_attempt (claim_delivery now) db)"

lemma ClaimPendingAttempt_Some_eq:
  assumes u: "inj uuid" and inv: "durable_inv uuid db"
    and sel: "sql_first (sort_key claimOrder (filter (claimable db) (current_triples db))) = Some (e, d, a)"
  shows "ClaimPendingAttempt uuid now db =
           (Inr (Some (pendingAttemptOf e d a)), claimed_db uuid now e d a db)"
proof -
  have k: "keys_ok db" using inv by (rule durable_inv_keys)
  have "(e, d, a) \<in> set (filter (claimable db) (current_triples db))"
    using sql_first_SomeD [OF sel] by simp
  then have p: "(d, a) \<in> set (current_pairs db)" and c: "claimable db (e, d, a)" by auto
  let ?P = "\<lambda>r. at_delivery_id r = dl_id d \<and> at_kind r \<in> set attemptKinds \<and>
      at_transport_status r = TransportPending \<and>
      list_ex (\<lambda>x. dl_id x = dl_id d \<and> dl_current_attempt_id x = Some (at_id r) \<and>
                   dl_transport_status x = TransportPending) (db_deliveries db)"
  let ?Q = "\<lambda>r. dl_current_attempt_id r = Some (at_id a) \<and> dl_transport_status r = TransportPending"
  have P: "a \<in> set (db_attempts db)" "?P a" and Q: "d \<in> set (db_deliveries db)" "?Q d"
    using p c by (auto simp: claimable_iff is_current_def list_ex_iff)
  show ?thesis
    using sel attempt_update_one [where P = ?P, OF k P] delivery_update_one [where P = ?Q, OF k Q]
    by (simp add: ClaimPendingAttempt_def Let_def touch_pair_record
        insertAudit_touch_eq [OF u inv] claimed_db_def)
qed

lemma ClaimPendingAttempt_None_eq:
  "sql_first (sort_key claimOrder (filter (claimable db) (current_triples db))) = None \<Longrightarrow>
   ClaimPendingAttempt uuid now db = (Inr None, db)"
  by (simp only: ClaimPendingAttempt_def option.case)

lemma attempt_ok_claim:
  "attempt_ok a \<Longrightarrow> at_transport_status a = TransportPending \<Longrightarrow> attempt_ok (claim_attempt a)"
  by (simp add: attempt_ok_def claim_attempt_def)

lemma claimed_db_durable:
  assumes u: "inj uuid" and inv: "durable_inv uuid db" and t: "(e, d, a) \<in> set (current_triples db)"
    and c: "claimable db (e, d, a)"
  shows "durable_inv uuid (claimed_db uuid now e d a db)"
proof -
  have p: "(d, a) \<in> set (current_pairs db)" and ev: "ev_id e = dl_event_id d" using t by simp_all
  have s: "store_inv uuid db" using inv by (simp add: durable_inv_def)
  have ok: "attempt_ok a" and ds: "dl_deployment_status d = at_deployment_status a"
    using store_inv_currentE [OF s p] by simp_all
  have c': "at_transport_status a = TransportPending" "at_deployment_status a = DeploymentNotStarted"
    using c ok by (auto simp: claimable_iff attempt_ok_def)
  show ?thesis
    unfolding claimed_db_def
    by (rule claim.durable_commit [OF u inv p attempt_ok_claim [OF ok c'(1)]])
      (use c c' ds ev in \<open>auto simp: claimable_iff claim_attempt_def claim_delivery_def\<close>)
qed

lemma ClaimPendingAttempt_durable:
  assumes u: "inj uuid" and inv: "durable_inv uuid db"
  shows "durable_inv uuid (snd (ClaimPendingAttempt uuid now db))"
proof (cases "sql_first (sort_key claimOrder (filter (claimable db) (current_triples db)))")
  case None
  then show ?thesis using inv by (simp add: ClaimPendingAttempt_None_eq)
next
  case (Some x)
  obtain e d a where x: "x = (e, d, a)" by (metis prod_cases3)
  have "(e, d, a) \<in> set (filter (claimable db) (current_triples db))"
    using sql_first_SomeD [OF Some] x by simp
  then show ?thesis
    using ClaimPendingAttempt_Some_eq [OF u inv Some [unfolded x]] claimed_db_durable [OF u inv]
    by (simp del: in_current_triples)
qed

section \<open>transitionAttempt and the Mark operations\<close>

definition transitioned_db ::
  "(nat \<Rightarrow> string) \<Rightarrow> bytes option \<Rightarrow> bytes option \<Rightarrow> time \<Rightarrow> TransportStatus \<Rightarrow> DeploymentStatus \<Rightarrow> string \<Rightarrow>
   time option \<Rightarrow> time option \<Rightarrow> time option \<Rightarrow> delivery_row \<Rightarrow> attempt_row \<Rightarrow> db \<Rightarrow> db" where
  "transitioned_db uuid rq rs at t ds action en due dl d a db =
     append_audit (system_audit uuid db (dl_event_id d) (dl_id d) (at_id a) action
         (at_transport_status a) (at_deployment_status a) t ds at)
       (touch_pair (at_id a) (dl_id d) (outcome_attempt t ds rq rs at en due dl)
          (status_delivery t ds at) db)"

lemma transitionAttempt_eq:
  assumes u: "inj uuid" and inv: "durable_inv uuid db" and p: "(d, a) \<in> set (current_pairs db)"
    and s: "at_transport_status a = TransportSending"
  shows "transitionAttempt uuid (at_id a) rq rs at t ds action en due dl db =
           (Inr (), transitioned_db uuid rq rs at t ds action en due dl d a db)"
proof -
  have k: "keys_ok db" using inv by (rule durable_inv_keys)
  have sel: "sql_first (filter (\<lambda>(d', a'). at_id a' = at_id a) (current_pairs db)) = Some (d, a)"
    by (rule select_current_eq [OF k p]) auto
  let ?P = "\<lambda>r. at_delivery_id r = dl_id d \<and> at_transport_status r = TransportSending"
  let ?Q = "\<lambda>r. dl_current_attempt_id r = Some (at_id a) \<and> dl_transport_status r = TransportSending"
  have P: "a \<in> set (db_attempts db)" "?P a" and Q: "d \<in> set (db_deliveries db)" "?Q d"
    using p s store_inv_currentE(2) [OF _ p, of uuid] inv
    by (auto simp: is_current_def durable_inv_def)
  show ?thesis
    using sel s attempt_update_one [where P = ?P, OF k P] delivery_update_one [where P = ?Q, OF k Q]
    by (simp add: transitionAttempt_def Let_def touch_pair_record
        insertAudit_touch_eq [OF u inv] transitioned_db_def)
qed

lemma transitionAttempt_reject:
  assumes "keys_ok db"
    and "\<And>d a. (d, a) \<in> set (current_pairs db) \<Longrightarrow> at_id a = aid \<Longrightarrow> at_transport_status a \<noteq> TransportSending"
  shows "transitionAttempt uuid aid rq rs at t ds action en due dl db = (Inl ErrAttemptNotSending, db)"
proof (cases "sql_first (filter (\<lambda>(d, a). at_id a = aid) (current_pairs db))")
  case None
  then show ?thesis by (simp only: transitionAttempt_def option.case)
next
  case (Some x)
  obtain d a where x: "x = (d, a)" by force
  then have "(d, a) \<in> set (current_pairs db)" "at_id a = aid" using sql_first_SomeD [OF Some] by auto
  then have "at_transport_status a \<noteq> TransportSending" using assms(2) by blast
  then show ?thesis using Some x by (simp add: transitionAttempt_def)
qed

lemma attempt_ok_outcome:
  assumes "attempt_ok a" and "at_transport_status a = TransportSending" and "valid_status t ds"
    and "t \<noteq> TransportPending" and "monitored ds \<Longrightarrow> due \<noteq> None \<and> dl \<noteq> None"
    and "ds \<noteq> DeploymentRunning" "ds \<noteq> DeploymentUnrecognized"
  shows "attempt_ok (outcome_attempt t ds rq rs at en due dl a)"
  using assms by (auto simp: attempt_ok_def outcome_attempt_def timeMillis_def)

lemma transitionAttempt_durable:
  assumes u: "inj uuid" and inv: "durable_inv uuid db" and v: "valid_status t ds"
    and t: "t \<noteq> TransportPending" and sch: "monitored ds \<Longrightarrow> due \<noteq> None \<and> dl \<noteq> None"
    and nb: "ds \<noteq> DeploymentRunning" "ds \<noteq> DeploymentUnrecognized"
  shows "durable_inv uuid (snd (transitionAttempt uuid aid rq rs at t ds action en due dl db))"
proof (cases "\<exists>d a. (d, a) \<in> set (current_pairs db) \<and> at_id a = aid \<and> at_transport_status a = TransportSending")
  case True
  then obtain d a where p: "(d, a) \<in> set (current_pairs db)" and i: "at_id a = aid"
      and s: "at_transport_status a = TransportSending" by blast
  have ok: "attempt_ok a" using durable_currentE(1) [OF inv p] .
  have fl: "in_flight a" using ok s by (simp add: in_flight_def attempt_ok_def)
  have "durable_inv uuid (transitioned_db uuid rq rs at t ds action en due dl d a db)"
    unfolding transitioned_db_def
    by (rule outcome.durable_commit [OF u inv p attempt_ok_outcome [OF ok s v t sch nb]])
      (use fl in \<open>auto simp: outcome_attempt_def status_delivery_def\<close>)
  then show ?thesis using transitionAttempt_eq [OF u inv p s] i by simp
next
  case False
  then show ?thesis
    using transitionAttempt_reject [OF durable_inv_keys [OF inv]] inv by (metis snd_conv)
qed

lemma Mark_durable:
  assumes "inj uuid" and "durable_inv uuid db"
  shows "durable_inv uuid (snd (MarkEnqueued uuid aid rq rs at due dl db))"
    and "durable_inv uuid (snd (MarkAccepted uuid aid rq rs at db))"
    and "durable_inv uuid (snd (MarkTransportFailed uuid aid rq rs at db))"
    and "durable_inv uuid (snd (MarkTransportUnknown uuid aid rq rs at due dl db))"
    and "durable_inv uuid (snd (MarkTransportUnknownTerminal uuid aid rq rs at db))"
  unfolding MarkEnqueued_def MarkAccepted_def MarkTransportFailed_def MarkTransportUnknown_def
    MarkTransportUnknownTerminal_def
  by (rule transitionAttempt_durable [OF assms]; simp)+

section \<open>Evidence and poll claims\<close>

lemma RecordDeploymentRequest_durable:
  assumes "durable_inv uuid db"
  shows "durable_inv uuid (snd (RecordDeploymentRequest aid rq at db))"
  unfolding RecordDeploymentRequest_def Let_def snd_if_same
  by (rule evidence.durable_meta [OF assms]) (simp add: attempt_ok_def record_attempt_def)

lemma SetDeploymentCursor_durable:
  assumes "durable_inv uuid db"
  shows "durable_inv uuid (snd (SetDeploymentCursor aid c db))"
  unfolding SetDeploymentCursor_def Let_def snd_if_same
  by (rule cursor.durable_meta [OF assms]) (simp add: attempt_ok_def cursor_attempt_def)

lemma attempt_ok_polled: "attempt_ok a \<Longrightarrow> pollDue n' a \<Longrightarrow> attempt_ok (polled_attempt n a)"
  by (cases "at_transport_status a")
    (auto simp: attempt_ok_def polled_attempt_def pollDue_def split: option.splits)

lemma claimPolls_durable:
  "durable_inv uuid db \<Longrightarrow> durable_inv uuid (snd (claimPolls n ws db))"
proof (induction ws arbitrary: db)
  case Nil
  then show ?case by simp
next
  case (Cons w ws)
  let ?db = "db\<lparr>db_attempts := sql_update (claimPollCond n w db) (polled_attempt n) (db_attempts db)\<rparr>"
  have "durable_inv uuid ?db"
    by (rule polled.durable_meta [OF Cons.prems]) (auto simp: claimPollCond_def intro: attempt_ok_polled)
  then have "durable_inv uuid (snd (claimPolls n ws ?db))" by (rule Cons.IH)
  then show ?case by (simp add: Let_def split_beta)
qed

lemma ListDuePolls_durable:
  "durable_inv uuid db \<Longrightarrow> durable_inv uuid (snd (ListDuePolls now db))"
  using claimPolls_durable [of uuid db "UnixMilli now" "pollCandidates now db"]
  by (simp add: ListDuePolls_def split_beta)

section \<open>CompletePoll\<close>

text \<open>What an update of a claimed poll must respect for the row to stay well formed. The poller's
  \<open>pollUpdate\<close> satisfies it (theory \<open>Poller\<close>).\<close>

definition poll_update_ok :: "attempt_row \<Rightarrow> PollUpdate \<Rightarrow> bool" where
  "poll_update_ok a upd \<longleftrightarrow>
     valid_status (pu_TransportStatus upd) (pu_DeploymentStatus upd) \<and>
     pu_TransportStatus upd \<noteq> TransportPending \<and>
     (monitored (pu_DeploymentStatus upd) \<longrightarrow> pu_NextPollAt upd \<noteq> None) \<and>
     (pu_DeploymentStatus upd \<in> {DeploymentRunning, DeploymentUnrecognized} \<longrightarrow>
        pu_DeploymentID upd \<noteq> '''' \<or> at_deployment_id a \<noteq> None) \<and>
     (pu_DeploymentStatus upd \<in> {DeploymentNotStarted, DeploymentLocating} \<longrightarrow>
        pu_DeploymentID upd = '''' \<and> at_deployment_id a = None) \<and>
     pu_TransportStatus upd \<noteq> TransportSending \<and> monitored (at_deployment_status a)"

definition poll_deployment_id :: "attempt_row \<Rightarrow> PollUpdate \<Rightarrow> string option" where
  "poll_deployment_id a upd =
     (if pu_DeploymentID upd \<noteq> '''' then Some (pu_DeploymentID upd) else at_deployment_id a)"

definition completed_row :: "PollUpdate \<Rightarrow> attempt_row \<Rightarrow> attempt_row" where
  "completed_row upd a =
     complete_attempt (pu_TransportStatus upd) (pu_DeploymentStatus upd) (poll_deployment_id a upd)
       (pu_NextPollAt upd) a"

definition completed_db ::
  "(nat \<Rightarrow> string) \<Rightarrow> PollUpdate \<Rightarrow> time \<Rightarrow> delivery_row \<Rightarrow> attempt_row \<Rightarrow> db \<Rightarrow> bool \<times> db" where
  "completed_db uuid upd at d a db =
     (let f = complete_attempt (pu_TransportStatus upd) (pu_DeploymentStatus upd)
                (poll_deployment_id a upd) (pu_NextPollAt upd)
      in if at_transport_status a = pu_TransportStatus upd \<and> at_deployment_status a = pu_DeploymentStatus upd
         then (False, touch_pair (at_id a) (dl_id d) f (\<lambda>r. r) db)
         else (True, append_audit
           (system_audit uuid db (dl_event_id d) (dl_id d) (at_id a)
              (''deployment_'' @ deploymentText (pu_DeploymentStatus upd))
              (at_transport_status a) (at_deployment_status a)
              (pu_TransportStatus upd) (pu_DeploymentStatus upd) at)
           (touch_pair (at_id a) (dl_id d) f
              (status_delivery (pu_TransportStatus upd) (pu_DeploymentStatus upd) at) db)))"

lemma touch_pair_keep: "db\<lparr>db_attempts := sql_update (\<lambda>r. at_id r = i) f (db_attempts db)\<rparr> =
    touch_pair i j f (\<lambda>r. r) db"
  by (simp add: touch_pair_def sql_update_def)

lemma CompletePoll_eq:
  assumes u: "inj uuid" and inv: "durable_inv uuid db" and p: "(d, a) \<in> set (current_pairs db)"
    and w: "pw_AttemptID w = at_id a" "pw_DeliveryID w = dl_id d"
    and c: "at_last_polled_at a = Some (UnixMilli (pw_ClaimedAt w))"
  shows "CompletePoll uuid w upd at db =
           (Inr (fst (completed_db uuid upd at d a db)), snd (completed_db uuid upd at d a db))"
proof -
  have k: "keys_ok db" using inv by (rule durable_inv_keys)
  let ?P = "\<lambda>r. at_delivery_id r = dl_id d \<and> at_last_polled_at r = Some (UnixMilli (pw_ClaimedAt w))"
  let ?Q = "\<lambda>r. dl_current_attempt_id r = Some (at_id a)"
  have sel: "sql_first (filter (\<lambda>(d', a'). at_id a' = at_id a \<and> at_delivery_id a' = dl_id d \<and>
      at_last_polled_at a' = Some (UnixMilli (pw_ClaimedAt w))) (current_pairs db)) = Some (d, a)"
    by (rule select_current_eq [OF k p]) (use p c in \<open>auto simp: is_current_def\<close>)
  have P: "a \<in> set (db_attempts db)" "?P a" and Q: "d \<in> set (db_deliveries db)" "?Q d"
    using p c by (auto simp: is_current_def)
  note one = attempt_update_one [where P = ?P, OF k P] delivery_update_one [where P = ?Q, OF k Q]
  show ?thesis
  proof (cases "at_transport_status a = pu_TransportStatus upd \<and>
      at_deployment_status a = pu_DeploymentStatus upd")
    case True
    then show ?thesis
      using sel one
      by (simp add: CompletePoll_def Let_def w completed_db_def poll_deployment_id_def
          touch_pair_keep [where j = "dl_id d"])
  next
    case False
    then show ?thesis
      using sel one
      by (simp add: CompletePoll_def Let_def w completed_db_def poll_deployment_id_def
          touch_pair_record insertAudit_touch_eq [OF u inv] del: de_Morgan_conj)
  qed
qed

lemma CompletePoll_reject:
  assumes "\<And>d a. (d, a) \<in> set (current_pairs db) \<Longrightarrow> at_id a = pw_AttemptID w \<Longrightarrow>
      at_delivery_id a = pw_DeliveryID w \<Longrightarrow> at_last_polled_at a \<noteq> Some (UnixMilli (pw_ClaimedAt w))"
  shows "CompletePoll uuid w upd at db = (Inl ErrPollNotClaimed, db)"
proof -
  have "sql_first (filter (\<lambda>(d, a). at_id a = pw_AttemptID w \<and> at_delivery_id a = pw_DeliveryID w \<and>
      at_last_polled_at a = Some (UnixMilli (pw_ClaimedAt w))) (current_pairs db)) = None"
    by (rule select_current_None) (use assms in auto)
  then show ?thesis by (simp only: CompletePoll_def Let_def option.case)
qed

lemma attempt_ok_completed:
  assumes "attempt_ok a" and "poll_update_ok a upd"
  shows "attempt_ok (completed_row upd a)"
  using assms
  by (auto simp: attempt_ok_def completed_row_def complete_attempt_def poll_update_ok_def timeMillis_def
      poll_deployment_id_def)

lemma completed_db_durable:
  assumes u: "inj uuid" and inv: "durable_inv uuid db" and p: "(d, a) \<in> set (current_pairs db)"
    and ok: "poll_update_ok a upd"
  shows "durable_inv uuid (snd (completed_db uuid upd at d a db))"
proof -
  let ?f = "complete_attempt (pu_TransportStatus upd) (pu_DeploymentStatus upd)
              (poll_deployment_id a upd) (pu_NextPollAt upd)"
  have f: "?f a = completed_row upd a" by (simp add: completed_row_def)
  have okf: "attempt_ok (?f a)"
    using attempt_ok_completed [OF durable_currentE(1) [OF inv p] ok] f by simp
  have fl: "in_flight (?f a) \<Longrightarrow> in_flight a"
    using ok by (auto simp: in_flight_def complete_attempt_def poll_update_ok_def poll_deployment_id_def
        split: if_splits)
  show ?thesis
  proof (cases "at_transport_status a = pu_TransportStatus upd \<and> at_deployment_status a = pu_DeploymentStatus upd")
    case True
    have "durable_inv uuid (touch_pair (at_id a) (dl_id d) ?f (\<lambda>r. r) db)"
      by (rule complete_keep.durable_touch_same [OF inv p okf])
        (use True in \<open>simp_all add: complete_attempt_def poll_deployment_id_def split: if_splits\<close>)
    then show ?thesis using True by (simp add: completed_db_def Let_def)
  next
    case False
    then have "snd (completed_db uuid upd at d a db) =
        append_audit (system_audit uuid db (dl_event_id d) (dl_id d) (at_id a)
           (''deployment_'' @ deploymentText (pu_DeploymentStatus upd))
           (at_transport_status a) (at_deployment_status a)
           (pu_TransportStatus upd) (pu_DeploymentStatus upd) at)
          (touch_pair (at_id a) (dl_id d) ?f
             (status_delivery (pu_TransportStatus upd) (pu_DeploymentStatus upd) at) db)"
      by (simp only: completed_db_def Let_def if_False snd_conv)
    then show ?thesis
      using complete.durable_commit [OF u inv p okf] fl
      by (simp add: complete_attempt_def status_delivery_def)
  qed
qed

lemma CompletePoll_durable:
  assumes u: "inj uuid" and inv: "durable_inv uuid db"
    and ok: "\<And>d a. (d, a) \<in> set (current_pairs db) \<Longrightarrow> at_id a = pw_AttemptID w \<Longrightarrow>
      at_delivery_id a = pw_DeliveryID w \<Longrightarrow> at_last_polled_at a = Some (UnixMilli (pw_ClaimedAt w)) \<Longrightarrow>
      poll_update_ok a upd"
  shows "durable_inv uuid (snd (CompletePoll uuid w upd at db))"
proof (cases "\<exists>d a. (d, a) \<in> set (current_pairs db) \<and> at_id a = pw_AttemptID w \<and>
      at_delivery_id a = pw_DeliveryID w \<and> at_last_polled_at a = Some (UnixMilli (pw_ClaimedAt w))")
  case True
  then obtain d a where h: "(d, a) \<in> set (current_pairs db)" "pw_AttemptID w = at_id a"
      "at_delivery_id a = pw_DeliveryID w" "at_last_polled_at a = Some (UnixMilli (pw_ClaimedAt w))"
    by metis
  have w: "pw_DeliveryID w = dl_id d" using h by (simp add: is_current_def)
  show ?thesis
    unfolding CompletePoll_eq [OF u inv h(1,2) w h(4)] snd_conv
    by (rule completed_db_durable [OF u inv h(1) ok [OF h(1) h(2) [symmetric] h(3,4)]])
next
  case False
  then show ?thesis using CompletePoll_reject [of db w uuid upd at] inv by (metis snd_conv)
qed

end
