(* ===== verification/Store_Ingest.thy ===== *)
theory Store_Ingest
  imports Store_Work_Props
begin

text \<open>
  Event acceptance (\<^verbatim>\<open>internal/store/ingest.go\<close>) and the durable routing queue
  (\<^verbatim>\<open>internal/store/routing.go\<close>): direct and deferred ingest with de-duplication, the queue head, its
  finalisation by the current generation, and the two counters the reload protocol reads.
\<close>

section \<open>Validation (ingest.go)\<close>

definition validateDeliveries :: "RoutingResult \<Rightarrow> NewDelivery list \<Rightarrow> store_error option" where
  "validateDeliveries routingResult deliveries =
     (if deliveries \<noteq> [] \<and> routingResult \<noteq> RoutingDeploy
      then Some (ErrValidation ''deliveries require deploy routing result'') else None)"

fun firstEmptyField :: "(string \<times> string) list \<Rightarrow> string option" where
  "firstEmptyField [] = None"
| "firstEmptyField ((name, value) # rest) = (if value = '''' then Some name else firstEmptyField rest)"

definition validatePersistedEvent :: "CanonicalEvent \<Rightarrow> string \<Rightarrow> store_error option" where
  "validatePersistedEvent event deliveryID =
     map_option (\<lambda>name. ErrValidation (''canonical event '' @ name @ '' is required''))
       (firstEmptyField [(''provider'', ce_Provider event), (''source'', ce_Source event),
          (''event'', ce_Event event), (''delivery ID'', deliveryID)])"

section \<open>Header scrubbing (ingest.go)\<close>

text \<open>\<^verbatim>\<open>strings.ToLower\<close> on the UTF-8 bytes, as far as a search for an ASCII word can tell: ASCII letters,
  and the two other code points whose lower case is ASCII (the Kelvin sign U+212A and the dotted
  capital I U+0130).\<close>

definition lowerByte :: "char \<Rightarrow> char" where
  "lowerByte c =
     (let n = (of_char c :: nat) in if 65 \<le> n \<and> n \<le> 90 then char_of (n + 32) else c)"

fun toLower :: "string \<Rightarrow> string" where
  "toLower (a # b # c # rest) =
     (if a = CHR 0xE2 \<and> b = CHR 0x84 \<and> c = CHR 0xAA then CHR ''k'' # toLower rest
      else if a = CHR 0xC4 \<and> b = CHR 0xB0 then CHR ''i'' # toLower (c # rest)
      else lowerByte a # toLower (b # c # rest))"
| "toLower [a, b] =
     (if a = CHR 0xC4 \<and> b = CHR 0xB0 then [CHR ''i''] else [lowerByte a, lowerByte b])"
| "toLower [a] = [lowerByte a]"
| "toLower [] = []"

fun isPrefix :: "string \<Rightarrow> string \<Rightarrow> bool" where
  "isPrefix [] s = True"
| "isPrefix (x # xs) [] = False"
| "isPrefix (x # xs) (y # ys) = (x = y \<and> isPrefix xs ys)"

fun contains :: "string \<Rightarrow> string \<Rightarrow> bool" where
  "contains [] sub = (sub = [])"
| "contains (c # s) sub = (isPrefix sub (c # s) \<or> contains s sub)"

definition secretHeader :: "string \<Rightarrow> bool" where
  "secretHeader name =
     (let lower = toLower name in
      contains lower ''token'' \<or> contains lower ''signature'' \<or> contains lower ''authorization'')"

definition safeHeadersJSON :: "HeadersDoc \<Rightarrow> HeadersDoc" where
  "safeHeadersJSON headers =
     (case headers of
        HeadersObject values \<Rightarrow> HeadersObject (filter (\<lambda>(name, v). \<not> secretHeader name) values)
      | HeadersNull \<Rightarrow> HeadersNull
      | _ \<Rightarrow> HeadersEmpty)"

section \<open>Inserting an event\<close>

definition nullableRouteString :: "string \<Rightarrow> string option" where
  "nullableRouteString value = (if value = '''' then None else Some value)"

text \<open>\<^verbatim>\<open>eventInsertSQL\<close> with \<^verbatim>\<open>eventInsertValues\<close>: a deferred event has no rule columns.\<close>

definition eventRow :: "string \<Rightarrow> IngestCommand \<Rightarrow> event_row" where
  "eventRow eventID command =
     (let e = ic_CanonicalEvent command; deferred = (ic_RoutingResult command = RoutingDeferred) in
      \<lparr>ev_id = eventID, ev_provider = ce_Provider e, ev_source_id = ce_Source e,
       ev_repository_id = ce_Repository e, ev_delivery_id = ic_DeliveryID command,
       ev_received_at = UnixMilli (ic_ReceivedAt command), ev_event = ce_Event e,
       ev_ref = Some (ce_Ref e), ev_status = Some (ce_Status e), ev_revision = Some (ce_Revision e),
       ev_commit_message = Some (ce_CommitMessage e), ev_external_id = Some (ce_ExternalID e),
       ev_trigger = Some (ce_Trigger e), ev_routing_result = ic_RoutingResult command,
       ev_rule_id = (if deferred then None else nullableRouteString (ic_RuleID command)),
       ev_rule_snapshot = (if deferred then None else ic_RuleSnapshot command),
       ev_config_digest = Some (ic_ConfigDigest command),
       ev_raw_headers_json = safeHeadersJSON (ic_HeadersJSON command),
       ev_raw_payload_json = ic_PayloadJSON command,
       ev_forward_request_json = ic_RequestJSON command\<rparr>)"

definition eventKey :: "event_row \<Rightarrow> string \<times> string \<times> string" where
  "eventKey e = (ev_provider e, ev_source_id e, ev_delivery_id e)"

text \<open>The trigger \<^verbatim>\<open>record_pipeline_observation\<close> of the migrations, \<^verbatim>\<open>INSERT OR IGNORE\<close> on the
  primary key \<^verbatim>\<open>event_id\<close>.\<close>

definition recordPipelineObservation :: "event_row \<Rightarrow> observation_row list \<Rightarrow> observation_row list" where
  "recordPipelineObservation e obs =
     (if ev_event e = ''pipeline'' \<and> nullString (ev_external_id e) \<noteq> '''' \<and>
         \<not> list_ex (\<lambda>o'. ob_event_id o' = ev_id e) obs
      then obs @ [\<lparr>ob_event_id = ev_id e, ob_provider = ev_provider e, ob_source_id = ev_source_id e,
                   ob_repository_id = ev_repository_id e, ob_external_id = nullString (ev_external_id e),
                   ob_ref = nullString (ev_ref e), ob_status = nullString (ev_status e),
                   ob_received_at = ev_received_at e\<rparr>]
      else obs)"

text \<open>\<^verbatim>\<open>INSERT ... ON CONFLICT(provider, source_id, delivery_id) DO NOTHING\<close>: the affected rows and the
  table, or a violation of the primary key.\<close>

definition insert_event :: "event_row \<Rightarrow> db \<Rightarrow> (nat \<times> db) option" where
  "insert_event e db =
     (if eventKey e \<in> eventKey ` set (db_events db) then Some (0, db)
      else if ev_id e \<in> ev_id ` set (db_events db) then None
      else Some (1, db\<lparr>db_events := db_events db @ [e],
                       db_observations := recordPipelineObservation e (db_observations db)\<rparr>))"

definition find_event :: "string \<times> string \<times> string \<Rightarrow> db \<Rightarrow> string option" where
  "find_event k db = map_option ev_id (sql_first (filter (\<lambda>e. eventKey e = k) (db_events db)))"

section \<open>Inserting pending deliveries\<close>

definition newDelivery :: "string \<Rightarrow> string \<Rightarrow> millis \<Rightarrow> NewDelivery \<Rightarrow> delivery_row" where
  "newDelivery deliveryID eventID at delivery =
     \<lparr>dl_id = deliveryID, dl_event_id = eventID, dl_target_id = nd_TargetID delivery,
      dl_target_snapshot = Some (nd_TargetSnapshot delivery), dl_current_attempt_id = None,
      dl_transport_status = TransportPending, dl_deployment_status = DeploymentNotStarted,
      dl_created_at = at, dl_updated_at = at,
      dl_dispatch_key = nullableRouteString (nd_DispatchKey delivery)\<rparr>"

definition pendingAttempt :: "string \<Rightarrow> string \<Rightarrow> string \<Rightarrow> string option \<Rightarrow> millis \<Rightarrow> attempt_row" where
  "pendingAttempt attemptID deliveryID kind actor at =
     \<lparr>at_id = attemptID, at_delivery_id = deliveryID, at_kind = kind, at_actor = actor,
      at_transport_status = TransportPending, at_deployment_status = DeploymentNotStarted,
      at_request_json = None, at_response_json = None, at_request_at = None, at_response_at = None,
      at_enqueued_at = None, at_deployment_id = None, at_deployment_cursor = None,
      at_poll_due_at = None, at_monitoring_deadline_at = None, at_last_polled_at = None,
      at_created_at = at\<rparr>"

definition current_delivery :: "string \<Rightarrow> delivery_row \<Rightarrow> delivery_row" where
  "current_delivery attemptID d = d\<lparr>dl_current_attempt_id := Some attemptID\<rparr>"

fun insertDeliveries :: "(nat \<Rightarrow> string) \<Rightarrow> string \<Rightarrow> millis \<Rightarrow> NewDelivery list \<Rightarrow> db \<Rightarrow> db option" where
  "insertDeliveries uuid eventID at [] db = Some db"
| "insertDeliveries uuid eventID at (delivery # rest) db =
     (case draw uuid db of (deliveryID, db1) \<Rightarrow>
      case insert_delivery (newDelivery deliveryID eventID at delivery) db1 of
        None \<Rightarrow> None
      | Some db2 \<Rightarrow>
          (case draw uuid db2 of (attemptID, db3) \<Rightarrow>
           case insert_attempt (pendingAttempt attemptID deliveryID ''initial'' None at) db3 of
             None \<Rightarrow> None
           | Some db4 \<Rightarrow>
               insertDeliveries uuid eventID at rest
                 (db4\<lparr>db_deliveries := sql_update (\<lambda>r. dl_id r = deliveryID)
                        (current_delivery attemptID) (db_deliveries db4)\<rparr>)))"

section \<open>Ingest\<close>

definition Ingest :: "(nat \<Rightarrow> string) \<Rightarrow> IngestCommand \<Rightarrow> db \<Rightarrow> (store_error + IngestResult) \<times> db" where
  "Ingest uuid command db =
     (if ic_RoutingResult command = RoutingDeferred
      then (Inl (ErrValidation ''direct ingest cannot persist deferred routing result''), db)
      else case validateDeliveries (ic_RoutingResult command) (ic_Deliveries command) of
        Some e \<Rightarrow> (Inl e, db)
      | None \<Rightarrow>
      case validatePersistedEvent (ic_CanonicalEvent command) (ic_DeliveryID command) of
        Some e \<Rightarrow> (Inl e, db)
      | None \<Rightarrow>
      case draw uuid db of (eventID, db1) \<Rightarrow>
      case insert_event (eventRow eventID command) db1 of
        None \<Rightarrow> (Inl ErrConstraint, db)
      | Some (inserted, db2) \<Rightarrow>
          if inserted = 0 then
            (case find_event (eventKey (eventRow eventID command)) db2 of
               None \<Rightarrow> (Inl ErrNoRows, db)
             | Some existing \<Rightarrow> (Inr \<lparr>ir_EventID = existing, ir_Duplicate = True\<rparr>, db2))
          else
            (case insertDeliveries uuid eventID (UnixMilli (ic_ReceivedAt command)) (ic_Deliveries command) db2 of
               None \<Rightarrow> (Inl ErrConstraint, db)
             | Some db3 \<Rightarrow> (Inr \<lparr>ir_EventID = eventID, ir_Duplicate = False\<rparr>, db3)))"

section \<open>Deferred ingest and the queue (routing.go)\<close>

text \<open>\<^verbatim>\<open>INSERT INTO routing_queue (event_id)\<close>: \<^verbatim>\<open>AUTOINCREMENT\<close> numbers are never reused.\<close>

definition enqueue :: "string \<Rightarrow> db \<Rightarrow> db option" where
  "enqueue eventID db =
     (if eventID \<in> q_event_id ` set (db_queue db) then None
      else let n = Suc (db_queue_seq db) in
        Some (db\<lparr>db_queue := db_queue db @ [\<lparr>q_seq = n, q_event_id = eventID\<rparr>], db_queue_seq := n\<rparr>))"

definition IngestDeferred ::
  "(nat \<Rightarrow> string) \<Rightarrow> IngestCommand \<Rightarrow> db \<Rightarrow> (store_error + IngestResult) \<times> db" where
  "IngestDeferred uuid command db =
     (if ic_RoutingResult command \<noteq> RoutingDeferred
      then (Inl (ErrValidation ''deferred ingest requires deferred routing result''), db)
      else case validateDeliveries (ic_RoutingResult command) (ic_Deliveries command) of
        Some e \<Rightarrow> (Inl e, db)
      | None \<Rightarrow>
      case validatePersistedEvent (ic_CanonicalEvent command) (ic_DeliveryID command) of
        Some e \<Rightarrow> (Inl e, db)
      | None \<Rightarrow>
      case draw uuid db of (eventID, db1) \<Rightarrow>
      case insert_event (eventRow eventID command) db1 of
        None \<Rightarrow> (Inl ErrConstraint, db)
      | Some (inserted, db2) \<Rightarrow>
          if inserted = 0 then
            (case find_event (eventKey (eventRow eventID command)) db2 of
               None \<Rightarrow> (Inl ErrNoRows, db)
             | Some existing \<Rightarrow> (Inr \<lparr>ir_EventID = existing, ir_Duplicate = True\<rparr>, db2))
          else
            (case enqueue eventID db2 of
               None \<Rightarrow> (Inl ErrConstraint, db)
             | Some db3 \<Rightarrow> (Inr \<lparr>ir_EventID = eventID, ir_Duplicate = False\<rparr>, db3)))"

definition CountActive :: "db \<Rightarrow> nat" where
  "CountActive db =
     length (filter (\<lambda>(d, a). at_transport_status a \<in> {TransportPending, TransportSending} \<or>
                              at_deployment_status a \<in> {DeploymentLocating, DeploymentRunning, DeploymentUnrecognized})
               (current_pairs db))"

definition CountQueued :: "db \<Rightarrow> nat" where
  "CountQueued db = length (db_queue db)"

record DeferredEvent =
  de_Seq :: nat
  de_EventID :: string
  de_ReceivedAt :: time
  de_DeliveryID :: string
  de_CanonicalEvent :: CanonicalEvent
  de_HeadersJSON :: HeadersDoc
  de_PayloadJSON :: "bytes option"

text \<open>The head of the join of the queue with its deferred events, \<^verbatim>\<open>ORDER BY q.seq LIMIT 1\<close>.\<close>

definition queueHead :: "db \<Rightarrow> (queue_row \<times> event_row) option" where
  "queueHead db =
     sql_first (sort_key (\<lambda>(q, e). q_seq q)
       (filter (\<lambda>(q, e). ev_id e = q_event_id q \<and> ev_routing_result e = RoutingDeferred)
          (List.product (db_queue db) (db_events db))))"

definition PeekDeferred :: "db \<Rightarrow> DeferredEvent option" where
  "PeekDeferred db =
     map_option (\<lambda>(q, e).
       \<lparr>de_Seq = q_seq q, de_EventID = ev_id e, de_ReceivedAt = timeUnixMilli (ev_received_at e),
        de_DeliveryID = ev_delivery_id e,
        de_CanonicalEvent =
          \<lparr>ce_Provider = ev_provider e, ce_Source = ev_source_id e, ce_Repository = ev_repository_id e,
           ce_Event = ev_event e, ce_Ref = nullString (ev_ref e), ce_Status = nullString (ev_status e),
           ce_Revision = nullString (ev_revision e), ce_CommitMessage = nullString (ev_commit_message e),
           ce_ExternalID = nullString (ev_external_id e), ce_Trigger = nullString (ev_trigger e)\<rparr>,
        de_HeadersJSON = ev_raw_headers_json e, de_PayloadJSON = ev_raw_payload_json e\<rparr>)
       (queueHead db)"

definition finalize_event :: "RouteDecision \<Rightarrow> string \<Rightarrow> event_row \<Rightarrow> event_row" where
  "finalize_event decision configDigest e =
     e\<lparr>ev_routing_result := rd_RoutingResult decision,
       ev_rule_id := nullableRouteString (rd_RuleID decision),
       ev_rule_snapshot := rd_RuleSnapshot decision, ev_config_digest := Some configDigest\<rparr>"

definition FinalizeDeferred ::
  "(nat \<Rightarrow> string) \<Rightarrow> DeferredEvent \<Rightarrow> RouteDecision \<Rightarrow> string \<Rightarrow> db \<Rightarrow> (store_error + bool) \<times> db" where
  "FinalizeDeferred uuid deferred decision configDigest db =
     (if rd_RoutingResult decision = RoutingNone \<or> rd_RoutingResult decision = RoutingDeferred
      then (Inl (ErrValidation ''final routing result is required''), db)
      else case validateDeliveries (rd_RoutingResult decision) (rd_Deliveries decision) of
        Some e \<Rightarrow> (Inl e, db)
      | None \<Rightarrow>
      case queueHead db of
        None \<Rightarrow> (Inr False, db)
      | Some (q, e) \<Rightarrow>
          if q_seq q \<noteq> de_Seq deferred \<or> q_event_id q \<noteq> de_EventID deferred then (Inr False, db)
          else let p = (\<lambda>r. ev_id r = q_event_id q \<and> ev_routing_result r = RoutingDeferred)
          in if sql_affected p (db_events db) \<noteq> 1 then (Inl ErrAttemptNotSending, db)
          else let db1 = db\<lparr>db_events := sql_update p (finalize_event decision configDigest) (db_events db)\<rparr>
          in case insertDeliveries uuid (q_event_id q) (ev_received_at e) (rd_Deliveries decision) db1 of
               None \<Rightarrow> (Inl ErrConstraint, db)
             | Some db2 \<Rightarrow>
                 let hit = (\<lambda>r. q_seq r = q_seq q \<and> q_event_id r = q_event_id q)
                 in if sql_affected hit (db_queue db2) \<noteq> 1 then (Inl ErrAttemptNotSending, db)
                    else (Inr True, db2\<lparr>db_queue := filter (\<lambda>r. \<not> hit r) (db_queue db2)\<rparr>))"

end
