(* ===== verification/Store_Ingest_Props.thy ===== *)
theory Store_Ingest_Props
  imports Store_Ingest
begin

text \<open>
  Ingest keeps the invariants of the store, stores an event once per \<^verbatim>\<open>(provider, source, delivery ID)\<close>
  with one pending delivery per target, and the deferred queue is first in, first out.
\<close>

section \<open>Adding a pending delivery\<close>

definition addedDelivery :: "(nat \<Rightarrow> string) \<Rightarrow> nat \<Rightarrow> string \<Rightarrow> millis \<Rightarrow> NewDelivery \<Rightarrow> delivery_row" where
  "addedDelivery uuid n eventID at nd = current_delivery (uuid (Suc n)) (newDelivery (uuid n) eventID at nd)"

definition addedAttempt :: "(nat \<Rightarrow> string) \<Rightarrow> nat \<Rightarrow> millis \<Rightarrow> attempt_row" where
  "addedAttempt uuid n at = pendingAttempt (uuid (Suc n)) (uuid n) ''initial'' None at"

definition add_pending :: "(nat \<Rightarrow> string) \<Rightarrow> string \<Rightarrow> millis \<Rightarrow> NewDelivery \<Rightarrow> db \<Rightarrow> db" where
  "add_pending uuid eventID at nd db =
     db\<lparr>db_uuids := Suc (Suc (db_uuids db)),
        db_attempts := db_attempts db @ [addedAttempt uuid (db_uuids db) at],
        db_deliveries := db_deliveries db @ [addedDelivery uuid (db_uuids db) eventID at nd]\<rparr>"

definition target_taken :: "string \<Rightarrow> NewDelivery \<Rightarrow> db \<Rightarrow> bool" where
  "target_taken eventID nd db \<longleftrightarrow>
     (\<exists>r\<in>set (db_deliveries db). dl_event_id r = eventID \<and> dl_target_id r = nd_TargetID nd)"

lemma row_simps_new [simp]:
  "dl_id (newDelivery i e at nd) = i" "dl_event_id (newDelivery i e at nd) = e"
  "dl_target_id (newDelivery i e at nd) = nd_TargetID nd"
  "at_id (pendingAttempt i j k act at) = i" "at_delivery_id (pendingAttempt i j k act at) = j"
  "at_transport_status (pendingAttempt i j k act at) = TransportPending"
  "at_deployment_status (pendingAttempt i j k act at) = DeploymentNotStarted"
  "dl_id (current_delivery i d) = dl_id d" "dl_event_id (current_delivery i d) = dl_event_id d"
  "dl_target_id (current_delivery i d) = dl_target_id d"
  "dl_current_attempt_id (current_delivery i d) = Some i"
  "dl_transport_status (newDelivery i e at nd) = TransportPending"
  "dl_deployment_status (newDelivery i e at nd) = DeploymentNotStarted"
  "dl_transport_status (current_delivery i d) = dl_transport_status d"
  "dl_deployment_status (current_delivery i d) = dl_deployment_status d"
  by (simp_all add: newDelivery_def pendingAttempt_def current_delivery_def)

lemma attempt_ok_pending [simp]: "attempt_ok (pendingAttempt i j k act at)"
  by (simp add: attempt_ok_def) (simp add: pendingAttempt_def)

lemma not_in_flight_pending [simp]: "\<not> in_flight (pendingAttempt i j k act at)"
  by (simp add: in_flight_def)

lemma durable_ids:
  assumes "durable_inv uuid db"
  shows "ev_id ` set (db_events db) \<subseteq> uuid ` {..<db_uuids db}"
    and "dl_id ` set (db_deliveries db) \<subseteq> uuid ` {..<db_uuids db}"
    and "at_id ` set (db_attempts db) \<subseteq> uuid ` {..<db_uuids db}"
    and "au_id ` set (db_audits db) \<subseteq> uuid ` {..<db_uuids db}"
  using assms by (simp_all add: durable_inv_def store_inv_def ids_ok_def)

lemma fresh_ids:
  assumes "inj uuid" and "durable_inv uuid db" and "db_uuids db \<le> n"
  shows "uuid n \<notin> ev_id ` set (db_events db)" and "uuid n \<notin> dl_id ` set (db_deliveries db)"
    and "uuid n \<notin> at_id ` set (db_attempts db)" and "uuid n \<notin> au_id ` set (db_audits db)"
  by (rule contra_subsetD [OF durable_ids(1) [OF assms(2)] fresh_uuid [OF assms(1,3)]]
      contra_subsetD [OF durable_ids(2) [OF assms(2)] fresh_uuid [OF assms(1,3)]]
      contra_subsetD [OF durable_ids(3) [OF assms(2)] fresh_uuid [OF assms(1,3)]]
      contra_subsetD [OF durable_ids(4) [OF assms(2)] fresh_uuid [OF assms(1,3)]])+

lemma insertDeliveries_step:
  assumes u: "inj uuid" and inv: "durable_inv uuid db"
  shows "insertDeliveries uuid eventID at (nd # rest) db =
     (if target_taken eventID nd db then None
      else insertDeliveries uuid eventID at rest (add_pending uuid eventID at nd db))"
proof -
  have f: "uuid (db_uuids db) \<notin> dl_id ` set (db_deliveries db)"
    "uuid (Suc (db_uuids db)) \<notin> at_id ` set (db_attempts db)"
    using fresh_ids [OF u inv] by simp_all
  have upd: "sql_update (\<lambda>r. dl_id r = uuid (db_uuids db)) g (db_deliveries db) = db_deliveries db" for g
    using f(1) by (intro sql_update_None) (auto simp: image_iff)
  show ?thesis
    using f upd
    by (auto simp: draw_def insert_delivery_def insert_attempt_def target_taken_def add_pending_def
        addedDelivery_def addedAttempt_def sql_update_def image_iff)
qed

lemma add_pending_durable:
  assumes u: "inj uuid" and inv: "durable_inv uuid db"
    and e: "e \<in> set (db_events db)" "ev_id e = eventID" "ev_routing_result e = RoutingDeploy"
  shows "durable_inv uuid (add_pending uuid eventID at nd db)" (is "durable_inv uuid ?db")
proof -
  let ?d = "addedDelivery uuid (db_uuids db) eventID at nd"
  let ?a = "addedAttempt uuid (db_uuids db) at"
  have inv': "store_inv uuid db" "audit_inv db" "serialized db" using inv by (simp_all add: durable_inv_def)
  have sub: "uuid ` {..<db_uuids db} \<subseteq> uuid ` {..<Suc (Suc (db_uuids db))}" by auto
  have mem: "uuid (db_uuids db) \<in> uuid ` {..<Suc (Suc (db_uuids db))}"
    "uuid (Suc (db_uuids db)) \<in> uuid ` {..<Suc (Suc (db_uuids db))}" by auto
  have f: "uuid (db_uuids db) \<notin> dl_id ` set (db_deliveries db)"
    "uuid (Suc (db_uuids db)) \<notin> at_id ` set (db_attempts db)"
    "uuid (db_uuids db) \<notin> at_id ` set (db_attempts db)"
    using fresh_ids [OF u inv] by simp_all
  have row: "attempt_ok ?a" "is_current ?d ?a" "\<not> in_flight ?a"
    by (simp_all add: addedAttempt_def addedDelivery_def is_current_def)
  have dok: "delivery_ok (db_attempts ?db) ?d"
    using row(2) by (auto simp: delivery_ok_def add_pending_def addedAttempt_def addedDelivery_def)
  have dmono: "delivery_ok (db_attempts db) d \<Longrightarrow> delivery_ok (db_attempts ?db) d" for d
    by (auto simp: delivery_ok_def add_pending_def)
  have "keys_ok ?db"
    using inv'(1) f by (auto simp: store_inv_def keys_ok_def add_pending_def addedDelivery_def addedAttempt_def)
  moreover have "refs_ok ?db"
    using inv'(1) e by (auto simp: store_inv_def refs_ok_def add_pending_def addedDelivery_def addedAttempt_def)
  moreover have "queue_ok ?db"
    using inv'(1) by (simp add: store_inv_def queue_ok_def add_pending_def)
  moreover have "ids_ok uuid ?db"
    using durable_ids [OF inv, THEN subset_trans, OF sub] mem
    by (simp add: ids_ok_def add_pending_def addedDelivery_def addedAttempt_def)
  moreover have "\<forall>a\<in>set (db_attempts ?db). attempt_ok a"
    using inv'(1) row(1) by (auto simp: store_inv_def add_pending_def)
  moreover have "\<forall>d\<in>set (db_deliveries ?db). delivery_ok (db_attempts ?db) d"
    using inv'(1) dok dmono by (auto simp: store_inv_def add_pending_def)
  ultimately have "store_inv uuid ?db" by (simp add: store_inv_def)
  moreover have "audit_inv ?db"
  proof -
    have "filter (\<lambda>u. au_attempt_id u = uuid (Suc (db_uuids db))) (db_audits db) = []"
      using inv'(1) f(2) refs_ok_audit_attempt [of db] unfolding filter_empty_conv store_inv_def by metis
    then show ?thesis using inv'(2)
      by (auto simp: audit_inv_def audited_status_def add_pending_def addedAttempt_def)
  qed
  moreover have "serialized ?db"
    unfolding serialized_def
  proof (intro allI impI)
    fix d a d' a'
    assume h: "(d, a) \<in> set (current_pairs ?db)" "(d', a') \<in> set (current_pairs ?db)"
      "in_flight a" "in_flight a'" "same_resource d d'"
    have old: "(x, y) \<in> set (current_pairs db)" if "(x, y) \<in> set (current_pairs ?db)" "in_flight y" for x y
      using that row(3) f inv'(1)
      by (auto simp: add_pending_def is_current_def store_inv_def refs_ok_def addedDelivery_def)
    show "dl_id d = dl_id d'" using old h inv'(3) unfolding serialized_def by blast
  qed
  ultimately show ?thesis by (simp add: durable_inv_def)
qed

lemma add_pending_simps [simp]:
  "db_events (add_pending uuid eventID at nd db) = db_events db"
  "db_queue (add_pending uuid eventID at nd db) = db_queue db"
  "db_queue_seq (add_pending uuid eventID at nd db) = db_queue_seq db"
  "db_audits (add_pending uuid eventID at nd db) = db_audits db"
  "db_observations (add_pending uuid eventID at nd db) = db_observations db"
  by (simp_all add: add_pending_def)

lemma target_taken_add [simp]:
  "target_taken eventID nd' (add_pending uuid eventID at nd db) \<longleftrightarrow>
     target_taken eventID nd' db \<or> nd_TargetID nd' = nd_TargetID nd"
  by (auto simp: target_taken_def add_pending_def addedDelivery_def)

section \<open>Adding all deliveries of an event\<close>

text \<open>The columns of a delivery that come from the routing decision.\<close>

definition delivery_columns :: "delivery_row \<Rightarrow> string \<times> string \<times> SnapshotDoc option \<times> string option" where
  "delivery_columns d = (dl_event_id d, dl_target_id d, dl_target_snapshot d, dl_dispatch_key d)"

definition decided_columns :: "string \<Rightarrow> NewDelivery \<Rightarrow> string \<times> string \<times> SnapshotDoc option \<times> string option" where
  "decided_columns eventID nd =
     (eventID, nd_TargetID nd, Some (nd_TargetSnapshot nd), nullableRouteString (nd_DispatchKey nd))"

lemma addedDelivery_columns [simp]:
  "delivery_columns (addedDelivery uuid n eventID at nd) = decided_columns eventID nd"
  by (simp add: delivery_columns_def decided_columns_def addedDelivery_def newDelivery_def current_delivery_def)

text \<open>What the loop adds: a delivery per decision in order, each with a pending initial attempt.\<close>

definition adds_deliveries :: "string \<Rightarrow> NewDelivery list \<Rightarrow> db \<Rightarrow> db \<Rightarrow> bool" where
  "adds_deliveries eventID ds db db' \<longleftrightarrow>
     db_events db' = db_events db \<and> db_queue db' = db_queue db \<and> db_queue_seq db' = db_queue_seq db \<and>
     db_audits db' = db_audits db \<and>
     (\<exists>new atts. db_deliveries db' = db_deliveries db @ new \<and> db_attempts db' = db_attempts db @ atts \<and>
        map delivery_columns new = map (decided_columns eventID) ds \<and> list_all2 is_current new atts \<and>
        (\<forall>a\<in>set atts. at_transport_status a = TransportPending \<and> at_kind a = ''initial''))"

lemma adds_deliveries_Cons:
  assumes "adds_deliveries eventID ds (add_pending uuid eventID at nd db) db'"
  shows "adds_deliveries eventID (nd # ds) db db'"
proof -
  let ?d = "addedDelivery uuid (db_uuids db) eventID at nd" and ?a = "addedAttempt uuid (db_uuids db) at"
  obtain new atts where h: "db_deliveries db' = db_deliveries db @ ?d # new"
      "db_attempts db' = db_attempts db @ ?a # atts"
      "map delivery_columns new = map (decided_columns eventID) ds" "list_all2 is_current new atts"
      "\<forall>a\<in>set atts. at_transport_status a = TransportPending \<and> at_kind a = ''initial''"
    using assms by (auto simp: adds_deliveries_def add_pending_def)
  have "is_current ?d ?a" "at_transport_status ?a = TransportPending" "at_kind ?a = ''initial''"
    by (simp_all add: addedAttempt_def addedDelivery_def is_current_def) (simp add: pendingAttempt_def)
  with h show ?thesis
    using assms unfolding adds_deliveries_def
    by (intro conjI exI [of _ "?d # new"] exI [of _ "?a # atts"]) auto
qed

lemma insertDeliveries_Some:
  assumes u: "inj uuid" and inv: "durable_inv uuid db"
    and e: "e \<in> set (db_events db)" "ev_id e = eventID" "ev_routing_result e = RoutingDeploy"
    and some: "insertDeliveries uuid eventID at ds db = Some db'"
  shows "durable_inv uuid db' \<and> adds_deliveries eventID ds db db'"
  using inv e(1) some
proof (induction ds arbitrary: db)
  case Nil
  then show ?case by (simp add: adds_deliveries_def)
next
  case (Cons nd ds)
  have s: "insertDeliveries uuid eventID at ds (add_pending uuid eventID at nd db) = Some db'"
    using Cons.prems(3) unfolding insertDeliveries_step [OF u Cons.prems(1)] by (simp split: if_splits)
  have "durable_inv uuid (add_pending uuid eventID at nd db)"
    by (rule add_pending_durable [OF u Cons.prems(1,2) e(2,3)])
  from Cons.IH [OF this _ s] Cons.prems(2) show ?case
    using adds_deliveries_Cons [of eventID ds uuid at nd db db'] by simp
qed

lemma insertDeliveries_total:
  assumes u: "inj uuid" and inv: "durable_inv uuid db"
    and e: "e \<in> set (db_events db)" "ev_id e = eventID" "ev_routing_result e = RoutingDeploy"
    and free: "\<forall>nd\<in>set ds. \<not> target_taken eventID nd db" and dist: "distinct (map nd_TargetID ds)"
  shows "\<exists>db'. insertDeliveries uuid eventID at ds db = Some db'"
  using inv e(1) free dist
proof (induction ds arbitrary: db)
  case Nil
  then show ?case by simp
next
  case (Cons nd ds)
  have "durable_inv uuid (add_pending uuid eventID at nd db)"
    by (rule add_pending_durable [OF u Cons.prems(1,2) e(2,3)])
  moreover have "\<forall>x\<in>set ds. \<not> target_taken eventID x (add_pending uuid eventID at nd db)"
    using Cons.prems(3,4) by (auto simp: image_iff)
  ultimately have "\<exists>db'. insertDeliveries uuid eventID at ds (add_pending uuid eventID at nd db) = Some db'"
    using Cons.IH Cons.prems(2,4) by simp
  then show ?case using Cons.prems(3) unfolding insertDeliveries_step [OF u Cons.prems(1)] by simp
qed

section \<open>Changing the events table\<close>

lemma eventKey_abs: "eventKey = (\<lambda>e. (ev_provider e, ev_source_id e, ev_delivery_id e))"
  by (simp add: eventKey_def fun_eq_iff)

lemma durable_events:
  assumes inv: "durable_inv uuid db"
    and same: "db_deliveries db' = db_deliveries db" "db_attempts db' = db_attempts db"
      "db_audits db' = db_audits db" "db_uuids db \<le> db_uuids db'"
    and keys: "distinct (map ev_id (db_events db'))" "distinct (map eventKey (db_events db'))"
    and ids: "ev_id ` set (db_events db') \<subseteq> uuid ` {..<db_uuids db'}"
    and deployed: "\<And>e. e \<in> set (db_events db) \<Longrightarrow> ev_routing_result e = RoutingDeploy \<Longrightarrow>
      \<exists>e'\<in>set (db_events db'). ev_id e' = ev_id e \<and> ev_routing_result e' = RoutingDeploy"
    and q: "queue_ok db'"
  shows "durable_inv uuid db'"
proof -
  have inv': "store_inv uuid db" "audit_inv db" "serialized db" using inv by (simp_all add: durable_inv_def)
  have sub: "uuid ` {..<db_uuids db} \<subseteq> uuid ` {..<db_uuids db'}" using same(4) by auto
  have pairs: "current_pairs db' = current_pairs db" using same by (simp add: current_pairs_def)
  have "refs_ok db'"
    using inv'(1) deployed unfolding store_inv_def refs_ok_def same by metis
  moreover have "ids_ok uuid db'"
    using durable_ids [OF inv, THEN subset_trans, OF sub] ids by (simp add: ids_ok_def same)
  moreover have "keys_ok db'"
    using inv'(1) keys by (simp add: store_inv_def keys_ok_def same eventKey_abs)
  ultimately have "store_inv uuid db'" using inv'(1) q by (simp add: store_inv_def same)
  then show ?thesis
    using inv'(2,3) pairs
    by (simp add: durable_inv_def audit_inv_def audited_status_def serialized_def same)
qed

definition event_added :: "(nat \<Rightarrow> string) \<Rightarrow> IngestCommand \<Rightarrow> db \<Rightarrow> db" where
  "event_added uuid c db =
     (let e = eventRow (uuid (db_uuids db)) c in
      db\<lparr>db_uuids := Suc (db_uuids db), db_events := db_events db @ [e],
         db_observations := recordPipelineObservation e (db_observations db)\<rparr>)"

definition event_queued :: "(nat \<Rightarrow> string) \<Rightarrow> IngestCommand \<Rightarrow> db \<Rightarrow> db" where
  "event_queued uuid c db =
     (event_added uuid c db)
       \<lparr>db_queue := db_queue db @ [\<lparr>q_seq = Suc (db_queue_seq db), q_event_id = uuid (db_uuids db)\<rparr>],
        db_queue_seq := Suc (db_queue_seq db)\<rparr>"

definition commandKey :: "IngestCommand \<Rightarrow> string \<times> string \<times> string" where
  "commandKey c = (ce_Provider (ic_CanonicalEvent c), ce_Source (ic_CanonicalEvent c), ic_DeliveryID c)"

lemma eventRow_simps [simp]:
  "ev_id (eventRow i c) = i" "ev_routing_result (eventRow i c) = ic_RoutingResult c"
  "eventKey (eventRow i c) = commandKey c" "ev_received_at (eventRow i c) = UnixMilli (ic_ReceivedAt c)"
  by (simp_all add: eventRow_def eventKey_def commandKey_def Let_def)

lemma event_added_simps [simp]:
  "db_deliveries (event_added uuid c db) = db_deliveries db"
  "db_attempts (event_added uuid c db) = db_attempts db"
  "db_audits (event_added uuid c db) = db_audits db"
  "db_queue (event_added uuid c db) = db_queue db"
  "db_queue_seq (event_added uuid c db) = db_queue_seq db"
  "db_uuids (event_added uuid c db) = Suc (db_uuids db)"
  "db_events (event_added uuid c db) = db_events db @ [eventRow (uuid (db_uuids db)) c]"
  by (simp_all add: event_added_def Let_def)

lemma event_keys:
  assumes u: "inj uuid" and inv: "durable_inv uuid db" and new: "commandKey c \<notin> eventKey ` set (db_events db)"
  shows "distinct (map ev_id (db_events db @ [eventRow (uuid (db_uuids db)) c]))"
    and "distinct (map eventKey (db_events db @ [eventRow (uuid (db_uuids db)) c]))"
    and "ev_id ` set (db_events db @ [eventRow (uuid (db_uuids db)) c]) \<subseteq> uuid ` {..<Suc (db_uuids db)}"
proof -
  have k: "keys_ok db" using inv by (rule durable_inv_keys)
  show "distinct (map ev_id (db_events db @ [eventRow (uuid (db_uuids db)) c]))"
    using k fresh_ids(1) [OF u inv, of "db_uuids db"] by (simp add: keys_ok_def)
  show "distinct (map eventKey (db_events db @ [eventRow (uuid (db_uuids db)) c]))"
    using k new by (simp add: keys_ok_def eventKey_abs [symmetric])
  have "uuid ` {..<db_uuids db} \<subseteq> uuid ` {..<Suc (db_uuids db)}" by auto
  then show "ev_id ` set (db_events db @ [eventRow (uuid (db_uuids db)) c]) \<subseteq> uuid ` {..<Suc (db_uuids db)}"
    using durable_ids(1) [OF inv] by simp
qed

lemma event_added_durable:
  assumes u: "inj uuid" and inv: "durable_inv uuid db" and new: "commandKey c \<notin> eventKey ` set (db_events db)"
    and r: "ic_RoutingResult c \<noteq> RoutingDeferred"
  shows "durable_inv uuid (event_added uuid c db)"
proof (rule durable_events [OF inv])
  have "{e \<in> set (db_events (event_added uuid c db)). ev_routing_result e = RoutingDeferred} =
      {e \<in> set (db_events db). ev_routing_result e = RoutingDeferred}"
    using r by auto
  then show "queue_ok (event_added uuid c db)"
    using inv by (simp add: durable_inv_def store_inv_def queue_ok_def)
qed (use event_keys [OF u inv new] in auto)

lemma event_queued_durable:
  assumes u: "inj uuid" and inv: "durable_inv uuid db" and new: "commandKey c \<notin> eventKey ` set (db_events db)"
    and r: "ic_RoutingResult c = RoutingDeferred"
  shows "durable_inv uuid (event_queued uuid c db)"
proof (rule durable_events [OF inv])
  let ?db = "event_queued uuid c db"
  have img: "ev_id ` {e \<in> set (db_events ?db). ev_routing_result e = RoutingDeferred} =
      insert (uuid (db_uuids db)) (ev_id ` {e \<in> set (db_events db). ev_routing_result e = RoutingDeferred})"
  proof -
    have "{e \<in> set (db_events ?db). ev_routing_result e = RoutingDeferred} =
        insert (eventRow (uuid (db_uuids db)) c) {e \<in> set (db_events db). ev_routing_result e = RoutingDeferred}"
      using r by (auto simp: event_queued_def)
    then show ?thesis by simp
  qed
  have q: "queue_ok db" using inv by (simp add: durable_inv_def store_inv_def)
  have "uuid (db_uuids db) \<notin> q_event_id ` set (db_queue db)"
    using q fresh_ids(1) [OF u inv, of "db_uuids db"] by (auto simp: queue_ok_def)
  then show "queue_ok (event_queued uuid c db)"
    using q unfolding queue_ok_def img
    by (auto simp: event_queued_def sorted_wrt_append less_Suc_eq_le)
qed (use event_keys [OF u inv new] in \<open>auto simp: event_queued_def\<close>)

section \<open>Ingest, case by case\<close>

definition valid_command :: "IngestCommand \<Rightarrow> bool" where
  "valid_command c \<longleftrightarrow>
     validateDeliveries (ic_RoutingResult c) (ic_Deliveries c) = None \<and>
     validatePersistedEvent (ic_CanonicalEvent c) (ic_DeliveryID c) = None"

lemma durable_skip_uuid:
  assumes "durable_inv uuid db"
  shows "durable_inv uuid (db\<lparr>db_uuids := Suc (db_uuids db)\<rparr>)"
proof (rule durable_events [OF assms])
  have "uuid ` {..<db_uuids db} \<subseteq> uuid ` {..<Suc (db_uuids db)}" by auto
  then show "ev_id ` set (db_events (db\<lparr>db_uuids := Suc (db_uuids db)\<rparr>)) \<subseteq>
      uuid ` {..<db_uuids (db\<lparr>db_uuids := Suc (db_uuids db)\<rparr>)}"
    using durable_ids(1) [OF assms] by simp
qed (use assms in \<open>auto simp: durable_inv_def store_inv_def keys_ok_def queue_ok_def eventKey_abs\<close>)

lemma find_event_present:
  assumes "keys_ok db" and "e \<in> set (db_events db)"
  shows "find_event (eventKey e) db = Some (ev_id e)"
proof -
  have "sql_first (filter (\<lambda>x. eventKey x = eventKey e) (db_events db)) = Some e"
    by (rule sql_first_singleton)
      (use assms keyed_unique [of eventKey "db_events db"] in \<open>auto simp: keys_ok_def eventKey_abs\<close>)
  then show ?thesis by (simp add: find_event_def)
qed

text \<open>A stored event: both ingest operations return its ID, mark the result a duplicate and change no
  table.\<close>

lemma ingest_duplicate:
  assumes inv: "durable_inv uuid db" and v: "valid_command c"
    and e: "e \<in> set (db_events db)" "eventKey e = commandKey c"
  shows "ic_RoutingResult c \<noteq> RoutingDeferred \<Longrightarrow> Ingest uuid c db =
      (Inr \<lparr>ir_EventID = ev_id e, ir_Duplicate = True\<rparr>, db\<lparr>db_uuids := Suc (db_uuids db)\<rparr>)"
    and "ic_RoutingResult c = RoutingDeferred \<Longrightarrow> IngestDeferred uuid c db =
      (Inr \<lparr>ir_EventID = ev_id e, ir_Duplicate = True\<rparr>, db\<lparr>db_uuids := Suc (db_uuids db)\<rparr>)"
proof -
  let ?db = "db\<lparr>db_uuids := Suc (db_uuids db)\<rparr>"
  have k: "keys_ok ?db" using durable_inv_keys [OF inv] by (simp add: keys_ok_def)
  have f: "find_event (commandKey c) ?db = Some (ev_id e)"
    using find_event_present [OF k, of e] e by simp
  have i: "insert_event (eventRow (uuid (db_uuids db)) c) ?db = Some (0, ?db)"
  proof -
    have "commandKey c \<in> eventKey ` set (db_events db)" using e by (metis image_eqI)
    then show ?thesis by (simp add: insert_event_def)
  qed
  show "ic_RoutingResult c \<noteq> RoutingDeferred \<Longrightarrow> Ingest uuid c db =
      (Inr \<lparr>ir_EventID = ev_id e, ir_Duplicate = True\<rparr>, ?db)"
    using v f i by (simp add: Ingest_def valid_command_def draw_def)
  show "ic_RoutingResult c = RoutingDeferred \<Longrightarrow> IngestDeferred uuid c db =
      (Inr \<lparr>ir_EventID = ev_id e, ir_Duplicate = True\<rparr>, ?db)"
    using v f i by (simp add: IngestDeferred_def valid_command_def draw_def)
qed

lemma insert_event_fresh:
  assumes u: "inj uuid" and inv: "durable_inv uuid db" and new: "commandKey c \<notin> eventKey ` set (db_events db)"
  shows "insert_event (eventRow (uuid (db_uuids db)) c) (db\<lparr>db_uuids := Suc (db_uuids db)\<rparr>) =
         Some (1, event_added uuid c db)"
  using new fresh_ids(1) [OF u inv, of "db_uuids db"]
  by (simp add: insert_event_def event_added_def Let_def)

lemma Ingest_new_eq:
  assumes u: "inj uuid" and inv: "durable_inv uuid db" and v: "valid_command c"
    and r: "ic_RoutingResult c \<noteq> RoutingDeferred" and new: "commandKey c \<notin> eventKey ` set (db_events db)"
  shows "Ingest uuid c db =
     (case insertDeliveries uuid (uuid (db_uuids db)) (UnixMilli (ic_ReceivedAt c)) (ic_Deliveries c)
             (event_added uuid c db) of
        None \<Rightarrow> (Inl ErrConstraint, db)
      | Some db' \<Rightarrow> (Inr \<lparr>ir_EventID = uuid (db_uuids db), ir_Duplicate = False\<rparr>, db'))"
  using v r insert_event_fresh [OF u inv new] by (simp add: Ingest_def valid_command_def draw_def)

lemma IngestDeferred_new_eq:
  assumes u: "inj uuid" and inv: "durable_inv uuid db" and v: "valid_command c"
    and r: "ic_RoutingResult c = RoutingDeferred" and new: "commandKey c \<notin> eventKey ` set (db_events db)"
  shows "IngestDeferred uuid c db =
     (Inr \<lparr>ir_EventID = uuid (db_uuids db), ir_Duplicate = False\<rparr>, event_queued uuid c db)"
proof -
  have "uuid (db_uuids db) \<notin> q_event_id ` set (db_queue db)"
    using inv fresh_ids(1) [OF u inv, of "db_uuids db"]
    by (auto simp: durable_inv_def store_inv_def queue_ok_def)
  then show ?thesis
    using v r insert_event_fresh [OF u inv new]
    by (simp add: IngestDeferred_def valid_command_def draw_def enqueue_def event_queued_def Let_def)
qed

lemma ingest_invalid:
  "\<not> valid_command c \<or> ic_RoutingResult c = RoutingDeferred \<Longrightarrow> \<exists>e. Ingest uuid c db = (Inl e, db)"
  "\<not> valid_command c \<or> ic_RoutingResult c \<noteq> RoutingDeferred \<Longrightarrow> \<exists>e. IngestDeferred uuid c db = (Inl e, db)"
  by (auto simp: Ingest_def IngestDeferred_def valid_command_def split: option.splits)

lemma valid_deliveries_deploy:
  "valid_command c \<Longrightarrow> ic_Deliveries c = [] \<or> ic_RoutingResult c = RoutingDeploy"
  by (auto simp: valid_command_def validateDeliveries_def split: if_splits)

lemma Ingest_inserted:
  assumes u: "inj uuid" and inv: "durable_inv uuid db" and v: "valid_command c"
    and r: "ic_RoutingResult c \<noteq> RoutingDeferred" and new: "commandKey c \<notin> eventKey ` set (db_events db)"
    and s: "insertDeliveries uuid (uuid (db_uuids db)) (UnixMilli (ic_ReceivedAt c)) (ic_Deliveries c)
             (event_added uuid c db) = Some db'"
  shows "durable_inv uuid db' \<and> adds_deliveries (uuid (db_uuids db)) (ic_Deliveries c) (event_added uuid c db) db'"
proof (cases "ic_Deliveries c = []")
  case True
  then show ?thesis using s event_added_durable [OF u inv new r] by (simp add: adds_deliveries_def)
next
  case False
  then have d: "ic_RoutingResult c = RoutingDeploy" using valid_deliveries_deploy [OF v] by simp
  show ?thesis
    by (rule insertDeliveries_Some [OF u event_added_durable [OF u inv new r] _ _ _ s,
          of "eventRow (uuid (db_uuids db)) c"]) (simp_all add: d)
qed

lemma Ingest_durable:
  assumes u: "inj uuid" and inv: "durable_inv uuid db"
  shows "durable_inv uuid (snd (Ingest uuid c db))"
proof (cases "valid_command c \<and> ic_RoutingResult c \<noteq> RoutingDeferred")
  case False
  then show ?thesis using ingest_invalid(1) [of c uuid db] inv by auto
next
  case v: True
  show ?thesis
  proof (cases "commandKey c \<in> eventKey ` set (db_events db)")
    case True
    then obtain e where "e \<in> set (db_events db)" "eventKey e = commandKey c" by auto
    then show ?thesis using ingest_duplicate(1) [OF inv] v durable_skip_uuid [OF inv] by simp
  next
    case False
    then show ?thesis
      using Ingest_new_eq [OF u inv _ _ False] Ingest_inserted [OF u inv _ _ False] v inv
      by (simp split: option.split)
  qed
qed

lemma IngestDeferred_durable:
  assumes u: "inj uuid" and inv: "durable_inv uuid db"
  shows "durable_inv uuid (snd (IngestDeferred uuid c db))"
proof (cases "valid_command c \<and> ic_RoutingResult c = RoutingDeferred")
  case False
  then show ?thesis using ingest_invalid(2) [of c uuid db] inv by auto
next
  case v: True
  show ?thesis
  proof (cases "commandKey c \<in> eventKey ` set (db_events db)")
    case True
    then obtain e where "e \<in> set (db_events db)" "eventKey e = commandKey c" by auto
    then show ?thesis using ingest_duplicate(2) [OF inv] v durable_skip_uuid [OF inv] by simp
  next
    case False
    then show ?thesis
      using IngestDeferred_new_eq [OF u inv _ _ False] event_queued_durable [OF u inv False] v by simp
  qed
qed

section \<open>The queue\<close>

text \<open>Under the invariant the head of the join is the first queue row with its event.\<close>

lemma queueHead_Nil: "db_queue db = [] \<Longrightarrow> queueHead db = None"
  by (simp add: queueHead_def)

lemma queueHead_Cons:
  assumes inv: "durable_inv uuid db" and q: "db_queue db = q # qs"
  shows "\<exists>e\<in>set (db_events db). ev_id e = q_event_id q \<and> ev_routing_result e = RoutingDeferred \<and>
           queueHead db = Some (q, e)"
proof -
  have k: "keys_ok db" and qo: "queue_ok db"
    using inv by (simp_all add: durable_inv_def store_inv_def)
  let ?rows = "filter (\<lambda>(q, e). ev_id e = q_event_id q \<and> ev_routing_result e = RoutingDeferred)
      (List.product (db_queue db) (db_events db))"
  have "q_event_id q \<in> ev_id ` {e \<in> set (db_events db). ev_routing_result e = RoutingDeferred}"
    using qo q by (auto simp: queue_ok_def)
  then obtain e where e: "e \<in> set (db_events db)" "ev_id e = q_event_id q"
      "ev_routing_result e = RoutingDeferred" by auto
  have mem: "(q, e) \<in> set ?rows" using e q by auto
  obtain x where x: "sql_first (sort_key (\<lambda>(q, e). q_seq q) ?rows) = Some x"
    using sql_first_sort_key_ex [OF mem] by blast
  obtain q' e' where x': "x = (q', e')" by force
  have m: "(q', e') \<in> set ?rows" using sql_first_SomeD [OF x] x' by simp
  have "q_seq q' \<le> q_seq q" using sql_first_sort_key_min [OF x mem] x' by simp
  moreover have "\<forall>r\<in>set qs. q_seq q < q_seq r" using qo q by (simp add: queue_ok_def)
  ultimately have "q' = q" using m q by auto
  then have "e' = e" using m e event_unique [OF k] by auto
  then show ?thesis using e x x' \<open>q' = q\<close> by (auto simp: queueHead_def)
qed

lemma insertDeliveries_queue:
  "insertDeliveries uuid eventID at ds (db\<lparr>db_queue := Q\<rparr>) =
     map_option (\<lambda>x. x\<lparr>db_queue := Q\<rparr>) (insertDeliveries uuid eventID at ds db)"
proof (induction ds arbitrary: db)
  case Nil
  then show ?case by simp
next
  case (Cons nd ds)
  let ?db = "db\<lparr>db_uuids := Suc (Suc (db_uuids db)),
       db_attempts := db_attempts db @ [pendingAttempt (uuid (Suc (db_uuids db))) (uuid (db_uuids db)) ''initial'' None at],
       db_deliveries := sql_update (\<lambda>r. dl_id r = uuid (db_uuids db)) (current_delivery (uuid (Suc (db_uuids db))))
         (db_deliveries db @ [newDelivery (uuid (db_uuids db)) eventID at nd])\<rparr>"
  have "?db\<lparr>db_queue := Q\<rparr> = db\<lparr>db_queue := Q, db_uuids := db_uuids ?db, db_attempts := db_attempts ?db,
      db_deliveries := db_deliveries ?db\<rparr>"
    by (rule db.equality) simp_all
  from Cons.IH [of ?db, unfolded this] show ?case
    by (simp add: draw_def insert_delivery_def insert_attempt_def)
qed

text \<open>The finalised database: the event decided, the queue row gone, before the deliveries are added.\<close>

definition head_decided :: "RouteDecision \<Rightarrow> string \<Rightarrow> queue_row \<Rightarrow> db \<Rightarrow> db" where
  "head_decided dec digest q db =
     db\<lparr>db_events := sql_update (\<lambda>r. ev_id r = q_event_id q) (finalize_event dec digest) (db_events db),
        db_queue := tl (db_queue db)\<rparr>"

lemma finalize_event_simps [simp]:
  "ev_id (finalize_event dec digest e) = ev_id e" "eventKey (finalize_event dec digest e) = eventKey e"
  "ev_routing_result (finalize_event dec digest e) = rd_RoutingResult dec"
  "ev_received_at (finalize_event dec digest e) = ev_received_at e"
  by (simp_all add: finalize_event_def eventKey_def)

lemma head_decided_durable:
  assumes inv: "durable_inv uuid db" and q: "db_queue db = q # qs"
    and final: "rd_RoutingResult dec \<noteq> RoutingDeferred"
  shows "durable_inv uuid (head_decided dec digest q db)" (is "durable_inv uuid ?db")
proof (rule durable_events [OF inv])
  have k: "keys_ok db" and qo: "queue_ok db" and "store_inv uuid db"
    using inv by (simp_all add: durable_inv_def store_inv_def)
  obtain h where h: "h \<in> set (db_events db)" "ev_id h = q_event_id q" "ev_routing_result h = RoutingDeferred"
    using queueHead_Cons [OF inv q] by auto
  show "distinct (map ev_id (db_events ?db))" "distinct (map eventKey (db_events ?db))"
    using k by (simp_all add: head_decided_def sql_simps keys_ok_def eventKey_abs [symmetric])
  have "ev_id ` set (db_events ?db) = ev_id ` set (db_events db)"
    by (simp add: head_decided_def image_sql_update)
  then show "ev_id ` set (db_events ?db) \<subseteq> uuid ` {..<db_uuids ?db}"
    using durable_ids(1) [OF inv] by (simp add: head_decided_def)
  show "\<exists>e'\<in>set (db_events ?db). ev_id e' = ev_id e \<and> ev_routing_result e' = RoutingDeploy"
    if "e \<in> set (db_events db)" "ev_routing_result e = RoutingDeploy" for e
    using that h event_unique [OF k, of e h] by (auto simp: head_decided_def sql_simps)
  have "ev_id ` {e \<in> set (db_events ?db). ev_routing_result e = RoutingDeferred} =
      ev_id ` {e \<in> set (db_events db). ev_routing_result e = RoutingDeferred} - {q_event_id q}"
    using final by (auto simp: head_decided_def sql_simps image_iff split: if_splits)
  also have "\<dots> = insert (q_event_id q) (q_event_id ` set qs) - {q_event_id q}"
    using qo q by (simp add: queue_ok_def)
  also have "\<dots> = q_event_id ` set qs"
    using qo q by (intro Diff_insert_absorb) (simp add: queue_ok_def)
  finally show "queue_ok ?db"
    using qo q by (simp add: queue_ok_def head_decided_def)
qed (simp_all add: head_decided_def)

lemma insertDeliveries_keeps_queue:
  assumes "insertDeliveries uuid eventID at ds db = Some db'"
  shows "db_queue db' = db_queue db"
proof -
  have "insertDeliveries uuid eventID at ds (db\<lparr>db_queue := db_queue db\<rparr>) = Some (db'\<lparr>db_queue := db_queue db\<rparr>)"
    using assms by (simp only: insertDeliveries_queue option.map)
  then have "db' = db'\<lparr>db_queue := db_queue db\<rparr>" using assms by simp
  then show ?thesis by (metis db.select_convs(5) db.surjective db.update_convs(5))
qed

definition final_decision :: "RouteDecision \<Rightarrow> bool" where
  "final_decision dec \<longleftrightarrow>
     rd_RoutingResult dec \<noteq> RoutingNone \<and> rd_RoutingResult dec \<noteq> RoutingDeferred \<and>
     validateDeliveries (rd_RoutingResult dec) (rd_Deliveries dec) = None"

lemma FinalizeDeferred_head_eq:
  assumes inv: "durable_inv uuid db" and q: "db_queue db = q # qs" and fin: "final_decision dec"
    and hd: "de_Seq x = q_seq q" "de_EventID x = q_event_id q"
    and e: "queueHead db = Some (q, e)" "e \<in> set (db_events db)" "ev_id e = q_event_id q"
      "ev_routing_result e = RoutingDeferred"
  shows "FinalizeDeferred uuid x dec digest db =
     (case insertDeliveries uuid (q_event_id q) (ev_received_at e) (rd_Deliveries dec)
             (head_decided dec digest q db) of
        None \<Rightarrow> (Inl ErrConstraint, db) | Some db' \<Rightarrow> (Inr True, db'))"
proof -
  have k: "keys_ok db" and qo: "queue_ok db"
    using inv by (simp_all add: durable_inv_def store_inv_def)
  let ?p = "\<lambda>r. ev_id r = q_event_id q \<and> ev_routing_result r = RoutingDeferred"
  let ?ev = "sql_update (\<lambda>r. ev_id r = q_event_id q) (finalize_event dec digest) (db_events db)"
  let ?db = "db\<lparr>db_events := ?ev\<rparr>"
  have a: "sql_affected ?p (db_events db) = 1"
    by (rule affected_one [of ev_id _ e]) (use k e in \<open>auto simp: keys_ok_def\<close>)
  have p: "sql_update ?p (finalize_event dec digest) (db_events db) = ?ev"
  proof (rule sql_update_cong)
    fix r assume r: "r \<in> set (db_events db)"
    have "ev_routing_result r = RoutingDeferred" if "ev_id r = q_event_id q"
      using event_unique [OF k r e(2)] that e(3,4) by simp
    then show "?p r = (ev_id r = q_event_id q)" by blast
  qed simp
  let ?hit = "\<lambda>r. q_seq r = q_seq q \<and> q_event_id r = q_event_id q"
  have rest: "filter ?hit qs = []" "filter (\<lambda>r. \<not> ?hit r) qs = qs"
    using qo q by (auto simp: queue_ok_def filter_empty_conv filter_id_conv)
  have h: "head_decided dec digest q db = ?db\<lparr>db_queue := qs\<rparr>"
    using q by (simp add: head_decided_def)
  show ?thesis
  proof (cases "insertDeliveries uuid (q_event_id q) (ev_received_at e) (rd_Deliveries dec) ?db")
    case None
    then show ?thesis
      using fin e(1) hd a p unfolding h insertDeliveries_queue
      by (simp add: FinalizeDeferred_def final_decision_def Let_def)
  next
    case (Some db')
    then have "db_queue db' = q # qs" using insertDeliveries_keeps_queue [OF Some] q by simp
    then show ?thesis
      using fin e(1) hd a p Some rest unfolding h insertDeliveries_queue
      by (simp add: FinalizeDeferred_def final_decision_def Let_def sql_affected_def)
  qed
qed

text \<open>Every other call leaves the database alone: an unfinished decision is an error, and a row that is
  no longer the head is refused.\<close>

lemma FinalizeDeferred_stale:
  assumes "\<And>q qs. db_queue db = q # qs \<Longrightarrow> de_Seq x \<noteq> q_seq q \<or> de_EventID x \<noteq> q_event_id q"
    and "durable_inv uuid db" and "final_decision dec"
  shows "FinalizeDeferred uuid x dec digest db = (Inr False, db)"
proof (cases "db_queue db")
  case Nil
  then show ?thesis using assms(3) by (simp add: FinalizeDeferred_def final_decision_def queueHead_Nil)
next
  case (Cons q qs)
  then show ?thesis
    using queueHead_Cons [OF assms(2) Cons] assms(1) [OF Cons] assms(3)
    by (auto simp: FinalizeDeferred_def final_decision_def)
qed

lemma FinalizeDeferred_invalid:
  "\<not> final_decision dec \<Longrightarrow> \<exists>e. FinalizeDeferred uuid x dec digest db = (Inl e, db)"
  by (auto simp: FinalizeDeferred_def final_decision_def split: option.splits)

lemma FinalizeDeferred_inserted:
  assumes u: "inj uuid" and inv: "durable_inv uuid db" and q: "db_queue db = q # qs"
    and fin: "final_decision dec"
    and s: "insertDeliveries uuid (q_event_id q) at (rd_Deliveries dec) (head_decided dec digest q db) = Some db'"
  shows "durable_inv uuid db' \<and>
         adds_deliveries (q_event_id q) (rd_Deliveries dec) (head_decided dec digest q db) db'"
proof -
  have d: "durable_inv uuid (head_decided dec digest q db)"
    using head_decided_durable [OF inv q] fin by (simp add: final_decision_def)
  obtain e where e: "e \<in> set (db_events db)" "ev_id e = q_event_id q" using queueHead_Cons [OF inv q] by auto
  show ?thesis
  proof (cases "rd_Deliveries dec = []")
    case True
    then show ?thesis using s d by (simp add: adds_deliveries_def)
  next
    case False
    then have r: "rd_RoutingResult dec = RoutingDeploy"
      using fin by (auto simp: final_decision_def validateDeliveries_def split: if_splits)
    show ?thesis
      by (rule insertDeliveries_Some [OF u d _ _ _ s, of "finalize_event dec digest e"])
        (use e r in \<open>auto simp: head_decided_def sql_simps\<close>)
  qed
qed

lemma FinalizeDeferred_durable:
  assumes u: "inj uuid" and inv: "durable_inv uuid db"
  shows "durable_inv uuid (snd (FinalizeDeferred uuid x dec digest db))"
proof (cases "final_decision dec")
  case False
  then show ?thesis using FinalizeDeferred_invalid inv by (metis snd_conv)
next
  case fin: True
  show ?thesis
  proof (cases "\<exists>q qs. db_queue db = q # qs \<and> de_Seq x = q_seq q \<and> de_EventID x = q_event_id q")
    case False
    then show ?thesis using FinalizeDeferred_stale [of db x, OF _ inv fin] inv by (metis snd_conv)
  next
    case True
    then obtain q qs where q: "db_queue db = q # qs" "de_Seq x = q_seq q" "de_EventID x = q_event_id q" by blast
    obtain e where e: "queueHead db = Some (q, e)" "e \<in> set (db_events db)" "ev_id e = q_event_id q"
        "ev_routing_result e = RoutingDeferred" using queueHead_Cons [OF inv q(1)] by auto
    show ?thesis
      unfolding FinalizeDeferred_head_eq [OF inv q(1) fin q(2,3) e]
      using FinalizeDeferred_inserted [OF u inv q(1) fin] inv by (simp split: option.split)
  qed
qed

section \<open>Counters\<close>

lemma CountActive_zero_iff:
  "CountActive db = 0 \<longleftrightarrow>
     (\<forall>(d, a)\<in>set (current_pairs db). \<not> Active (at_transport_status a) (at_deployment_status a))"
  by (auto simp: CountActive_def filter_empty_conv Active_def)

end
