(* ===== verification/Lifecycle.thy ===== *)
theory Lifecycle
  imports Generation Store_Ingest_Props
begin

text \<open>
  The configuration lifecycle (\<^verbatim>\<open>internal/runtimecfg/manager.go\<close>): one current generation, at most one
  candidate, and the states through which a reload passes. Every critical section of the source, from
  \<^verbatim>\<open>gate.Lock()\<close> to \<^verbatim>\<open>gate.Unlock()\<close>, is one function on the manager's state. The wake-up channels carry
  no data and are left out.

  The manager sees the store through the interface \<^verbatim>\<open>lifecycleStore\<close>; the locale of that name states what it
  relies on, and the store of this development is an instance.
\<close>

section \<open>State\<close>

datatype State = StateIdle | StateValidating | StateWaiting | StateApplying | StateDraining

datatype ReloadOutcome = ReloadApplied | ReloadWaiting

datatype reload_error = ErrReloadInProgress | ErrInvalidConfig | ErrPreWaitUnavailable

record LastResult =
  lr_Code :: string
  lr_At :: time

record Manager =
  mg_current :: Generation
  mg_candidate :: "Generation option"
  mg_state :: State
  mg_recovery :: bool
  mg_loadedAt :: time
  mg_pendingDigest :: string
  mg_lastResult :: "LastResult option"

definition NewManager :: "Generation \<Rightarrow> time \<Rightarrow> Manager" where
  "NewManager initial now =
     \<lparr>mg_current = initial, mg_candidate = None, mg_state = StateIdle, mg_recovery = False, mg_loadedAt = now,
      mg_pendingDigest = '''', mg_lastResult = None\<rparr>"

definition setLastResult :: "string \<Rightarrow> time \<Rightarrow> Manager \<Rightarrow> Manager" where
  "setLastResult code now m = m\<lparr>mg_lastResult := Some \<lparr>lr_Code = code, lr_At = now\<rparr>\<rparr>"

section \<open>Operations\<close>

text \<open>\<open>active\<close> is consulted only when something is queued.\<close>

definition Initialize :: "'e + nat \<Rightarrow> 'e + nat \<Rightarrow> Manager \<Rightarrow> ('e + unit) \<times> Manager" where
  "Initialize queuedResult activeResult m =
     (case queuedResult of
        Inl e \<Rightarrow> (Inl e, m)
      | Inr queued \<Rightarrow>
          (case (if queued > 0 then activeResult else Inr 0) of
             Inl e \<Rightarrow> (Inl e, m)
           | Inr active \<Rightarrow>
               (Inr (), m\<lparr>mg_candidate := None, mg_pendingDigest := '''', mg_recovery := queued > 0,
                  mg_state := (if queued = 0 then StateIdle else if active > 0 then StateWaiting else StateDraining)\<rparr>)))"

definition publishCandidate :: "time \<Rightarrow> Generation \<Rightarrow> Manager \<Rightarrow> Manager" where
  "publishCandidate now candidate m =
     setLastResult ''applied'' now
       (m\<lparr>mg_current := candidate, mg_candidate := None, mg_pendingDigest := '''', mg_loadedAt := now,
          mg_recovery := False, mg_state := StateDraining\<rparr>)"

definition failValidation :: "string \<Rightarrow> time \<Rightarrow> Manager \<Rightarrow> Manager" where
  "failValidation code now m =
     setLastResult code now (m\<lparr>mg_candidate := None, mg_pendingDigest := '''', mg_state := StateIdle\<rparr>)"

text \<open>The first critical section of \<^verbatim>\<open>Reload\<close>: winning the lifecycle.\<close>

definition reloadBegin :: "Manager \<Rightarrow> (reload_error + unit) \<times> Manager" where
  "reloadBegin m =
     (if mg_state m \<noteq> StateIdle then (Inl ErrReloadInProgress, m)
      else (Inr (), m\<lparr>mg_state := StateValidating, mg_recovery := False, mg_candidate := None, mg_pendingDigest := ''''\<rparr>))"

text \<open>The second: what happens with the loaded candidate. A load error is \<open>Inl unavailable\<close>, where \<open>unavailable\<close>
  is the verdict of \<^verbatim>\<open>reloadUnavailable\<close>.\<close>

definition reloadComplete ::
  "time \<Rightarrow> bool + Generation \<Rightarrow> 'e + nat \<Rightarrow> Manager \<Rightarrow> (reload_error + ReloadOutcome) \<times> Manager" where
  "reloadComplete now loaded activeResult m =
     (case loaded of
        Inl unavailable \<Rightarrow>
          if unavailable then (Inl ErrPreWaitUnavailable, failValidation ''unavailable'' now m)
          else (Inl ErrInvalidConfig, failValidation ''invalid_config'' now m)
      | Inr candidate \<Rightarrow>
          let m1 = m\<lparr>mg_candidate := Some candidate, mg_pendingDigest := gn_digest candidate\<rparr> in
          (case activeResult of
             Inl e \<Rightarrow> (Inl ErrPreWaitUnavailable,
                       setLastResult ''unavailable'' now (m1\<lparr>mg_candidate := None, mg_pendingDigest := '''', mg_state := StateIdle\<rparr>))
           | Inr active \<Rightarrow>
               if active > 0 then (Inr ReloadWaiting, setLastResult ''waiting'' now (m1\<lparr>mg_state := StateWaiting\<rparr>))
               else (Inr ReloadApplied, publishCandidate now candidate m1)))"

definition Reload ::
  "time \<Rightarrow> bool + Generation \<Rightarrow> 'e + nat \<Rightarrow> Manager \<Rightarrow> (reload_error + ReloadOutcome) \<times> Manager" where
  "Reload now loaded activeResult m =
     (case reloadBegin m of
        (Inl e, m1) \<Rightarrow> (Inl e, m1)
      | (Inr _, m1) \<Rightarrow> reloadComplete now loaded activeResult m1)"

text \<open>Advancing a waiting reload; the boolean says whether it still waits.\<close>

definition advanceWaiting :: "time \<Rightarrow> 'e + nat \<Rightarrow> Manager \<Rightarrow> (bool \<times> 'e option) \<times> Manager" where
  "advanceWaiting now activeResult m =
     (if mg_state m \<noteq> StateWaiting then ((False, None), m)
      else case activeResult of
        Inl e \<Rightarrow> ((True, Some e), setLastResult ''waiting_retry'' now m)
      | Inr active \<Rightarrow>
          if active > 0 then ((True, None), m)
          else ((False, None),
                case mg_candidate m of
                  Some candidate \<Rightarrow> publishCandidate now candidate m
                | None \<Rightarrow> setLastResult ''recovery_draining'' now (m\<lparr>mg_state := StateDraining\<rparr>)))"

definition SetDraining :: "Manager \<Rightarrow> Manager" where
  "SetDraining m = m\<lparr>mg_state := StateDraining\<rparr>"

definition SetIdleIfQueueEmpty :: "'e + nat \<Rightarrow> Manager \<Rightarrow> ('e + bool) \<times> Manager" where
  "SetIdleIfQueueEmpty queuedResult m =
     (if mg_state m \<noteq> StateDraining then (Inr (mg_state m = StateIdle), m)
      else case queuedResult of
        Inl e \<Rightarrow> (Inl e, m)
      | Inr queued \<Rightarrow>
          if queued \<noteq> 0 then (Inr False, m)
          else (Inr True, m\<lparr>mg_state := StateIdle, mg_recovery := False\<rparr>))"

record Status =
  st_State :: State
  st_CurrentDigest :: string
  st_LoadedAt :: time
  st_PendingDigest :: string
  st_Recovery :: bool
  st_ActiveDeliveries :: nat
  st_QueuedEvents :: nat
  st_LastResult :: "LastResult option"

definition ManagerStatus :: "'e + nat \<Rightarrow> 'e + nat \<Rightarrow> Manager \<Rightarrow> 'e + Status" where
  "ManagerStatus activeResult queuedResult m =
     (case activeResult of Inl e \<Rightarrow> Inl e
      | Inr active \<Rightarrow>
          (case queuedResult of Inl e \<Rightarrow> Inl e
           | Inr queued \<Rightarrow>
               Inr \<lparr>st_State = mg_state m, st_CurrentDigest = gn_digest (mg_current m), st_LoadedAt = mg_loadedAt m,
                    st_PendingDigest = mg_pendingDigest m, st_Recovery = mg_recovery m, st_ActiveDeliveries = active,
                    st_QueuedEvents = queued, st_LastResult = mg_lastResult m\<rparr>))"

section \<open>The retry delay of a waiting reload\<close>

definition retryMinimum :: duration where "retryMinimum = 250 * millisecond"
definition retryMaximum :: duration where "retryMaximum = 5 * second"

text \<open>One round of the loop of \<^verbatim>\<open>Run\<close>: the next delay from the current one and the result of the advance.\<close>

definition nextRetry :: "duration \<Rightarrow> bool \<times> 'e option \<Rightarrow> duration" where
  "nextRetry delay r =
     (case r of
        (False, _) \<Rightarrow> retryMinimum
      | (True, Some _) \<Rightarrow> (if delay * 2 > retryMaximum then retryMaximum else delay * 2)
      | (True, None) \<Rightarrow> retryMaximum)"

lemma nextRetry_bounds:
  "retryMinimum \<le> delay \<Longrightarrow> retryMinimum \<le> nextRetry delay r \<and> nextRetry delay r \<le> retryMaximum"
  by (auto simp: nextRetry_def retryMinimum_def retryMaximum_def time_defs
      split: prod.splits bool.splits option.splits)

section \<open>Well-formed states\<close>

text \<open>A candidate is held exactly while a reload waits for it (a wait without candidate is a start-up recovery),
  and its digest is the pending one.\<close>

definition manager_ok :: "Manager \<Rightarrow> bool" where
  "manager_ok m \<longleftrightarrow>
     mg_state m \<noteq> StateApplying \<and>
     (mg_candidate m \<noteq> None \<longrightarrow> mg_state m = StateWaiting) \<and>
     (mg_state m = StateWaiting \<longrightarrow> mg_candidate m = None \<longrightarrow> mg_recovery m) \<and>
     mg_pendingDigest m = (case mg_candidate m of Some c \<Rightarrow> gn_digest c | None \<Rightarrow> '''')"

lemmas lifecycle_defs = NewManager_def setLastResult_def Initialize_def publishCandidate_def failValidation_def
  reloadBegin_def reloadComplete_def advanceWaiting_def SetIdleIfQueueEmpty_def

lemma manager_ok_New: "manager_ok (NewManager g now)"
  by (simp add: manager_ok_def NewManager_def)

lemma manager_ok_steps:
  assumes "manager_ok m"
  shows "manager_ok (snd (Initialize q a m))" and "manager_ok (snd (reloadBegin m))"
    and "mg_state m = StateValidating \<Longrightarrow> manager_ok (snd (reloadComplete now loaded a m))"
    and "manager_ok (snd (advanceWaiting now a m))" and "manager_ok (snd (SetIdleIfQueueEmpty q m))"
  using assms
  by (auto simp: manager_ok_def lifecycle_defs Let_def split: sum.splits option.splits if_splits)

section \<open>The interface to the store\<close>

locale lifecycle_store =
  fixes countActive :: "'s \<Rightarrow> 'e + nat" and countQueued :: "'s \<Rightarrow> 'e + nat"
    and active :: "'s \<Rightarrow> bool" and queued :: "'s \<Rightarrow> bool"
  assumes countActive: "countActive s = Inr n \<Longrightarrow> active s \<longleftrightarrow> n > 0"
    and countQueued: "countQueued s = Inr n \<Longrightarrow> queued s \<longleftrightarrow> n > 0"
begin

text \<open>The current generation changes only at a moment at which nothing is active.\<close>

lemma complete_publishes_idle:
  "mg_current (snd (reloadComplete now loaded (countActive s) m)) \<noteq> mg_current m \<Longrightarrow> \<not> active s"
  using countActive [of s]
  by (auto simp: lifecycle_defs Let_def split: sum.splits if_splits)

lemma advance_publishes_idle:
  "mg_current (snd (advanceWaiting now (countActive s) m)) \<noteq> mg_current m \<or>
   mg_state (snd (advanceWaiting now (countActive s) m)) \<noteq> mg_state m \<Longrightarrow> \<not> active s"
  using countActive [of s]
  by (auto simp: lifecycle_defs split: sum.splits option.splits if_splits)

text \<open>Idle is reached from draining only with an empty queue.\<close>

lemma idle_only_drained:
  "mg_state m = StateDraining \<Longrightarrow> mg_state (snd (SetIdleIfQueueEmpty (countQueued s) m)) = StateIdle \<Longrightarrow> \<not> queued s"
  using countQueued [of s] by (auto simp: lifecycle_defs split: sum.splits if_splits)

text \<open>After start-up the state says what is left to do.\<close>

lemma initialize_state:
  assumes "Initialize (countQueued s) (countActive s) m = (Inr (), m')"
  shows "mg_state m' = (if \<not> queued s then StateIdle else if active s then StateWaiting else StateDraining)"
  using assms countActive [of s] countQueued [of s]
  by (auto simp: lifecycle_defs split: sum.splits if_splits)

end

text \<open>The store provides the interface.\<close>

definition has_active :: "db \<Rightarrow> bool" where
  "has_active db \<longleftrightarrow> (\<exists>(d, a)\<in>set (current_pairs db). Active (at_transport_status a) (at_deployment_status a))"

definition countActiveOf :: "db \<Rightarrow> store_error + nat" where
  "countActiveOf db = Inr (CountActive db)"

definition countQueuedOf :: "db \<Rightarrow> store_error + nat" where
  "countQueuedOf db = Inr (CountQueued db)"

interpretation store: lifecycle_store countActiveOf countQueuedOf has_active "\<lambda>db. db_queue db \<noteq> []"
proof unfold_locales
  fix db n
  show "countActiveOf db = Inr n \<Longrightarrow> has_active db \<longleftrightarrow> n > 0"
    using CountActive_zero_iff [of db] by (auto simp: countActiveOf_def has_active_def split_beta)
  show "countQueuedOf db = Inr n \<Longrightarrow> db_queue db \<noteq> [] \<longleftrightarrow> n > 0"
    by (auto simp: countQueuedOf_def CountQueued_def)
qed

end
