(* ===== verification/Store_Restart.thy ===== *)
theory Store_Restart
  imports Store_Work_Props
begin

text \<open>
  What \<open>RecoverInterrupted\<close> (\<^verbatim>\<open>internal/store/work.go\<close>) does to a database left by a crash: it never
  fails, keeps the invariants, and changes exactly the interrupted attempts. An attempt that was being
  sent becomes an unknown outcome that is watched; none goes back to pending, so none is sent again.
\<close>

section \<open>One interrupted attempt\<close>

definition recoverSchedule :: "PollSchedule \<Rightarrow> (string \<rightharpoonup> PollSchedule) \<Rightarrow> delivery_row \<Rightarrow> PollSchedule" where
  "recoverSchedule dflt ts d =
     (case ts (dl_target_id d) of Some c \<Rightarrow> normalizedPollSchedule c | None \<Rightarrow> dflt)"

definition recovered_attempt ::
  "time \<Rightarrow> PollSchedule \<Rightarrow> (string \<rightharpoonup> PollSchedule) \<Rightarrow> delivery_row \<Rightarrow> attempt_row \<Rightarrow> attempt_row \<Rightarrow> attempt_row" where
  "recovered_attempt now dflt ts d a =
     recover_attempt
       (if at_transport_status a = TransportSending then TransportUnknown else at_transport_status a)
       (if at_transport_status a = TransportSending then DeploymentLocating else at_deployment_status a)
       (case at_poll_due_at a of Some v \<Rightarrow> v
          | None \<Rightarrow> UnixMilli (now + ps_Interval (recoverSchedule dflt ts d)))
       (case at_monitoring_deadline_at a of Some v \<Rightarrow> v
          | None \<Rightarrow> UnixMilli (now + ps_Timeout (recoverSchedule dflt ts d)))"

definition recovered_delivery :: "time \<Rightarrow> attempt_row \<Rightarrow> delivery_row \<Rightarrow> delivery_row" where
  "recovered_delivery now a d =
     (if at_transport_status a = TransportSending
      then status_delivery TransportUnknown DeploymentLocating now d else d)"

definition recovered_db ::
  "(nat \<Rightarrow> string) \<Rightarrow> time \<Rightarrow> PollSchedule \<Rightarrow> (string \<rightharpoonup> PollSchedule) \<Rightarrow> delivery_row \<Rightarrow> attempt_row \<Rightarrow> db \<Rightarrow> db" where
  "recovered_db uuid now dflt ts d a db =
     (let touched = touch_pair (at_id a) (dl_id d) (recovered_attempt now dflt ts d a)
                      (recovered_delivery now a) db
      in if at_transport_status a = TransportSending
         then append_audit (system_audit uuid db (dl_event_id d) (dl_id d) (at_id a) ''transport_recovered''
                 TransportSending (at_deployment_status a) TransportUnknown DeploymentLocating now) touched
         else touched)"

interpretation recovered: pair_write "recovered_attempt now dflt ts d a" "recovered_delivery now a"
  by unfold_locales
    (simp_all add: recovered_attempt_def recovered_delivery_def recover_attempt_def status_delivery_def)

lemma recoverOne_eq:
  assumes u: "inj uuid" and inv: "durable_inv uuid db" and p: "(d, a) \<in> set (current_pairs db)"
  shows "\<exists>cs. recoverOne uuid now dflt ts (d, a) db = Inr (cs, recovered_db uuid now dflt ts d a db)"
proof -
  have k: "keys_ok db" using inv by (rule durable_inv_keys)
  let ?P = "\<lambda>r. at_delivery_id r = dl_id d"
  let ?Q = "\<lambda>r. dl_current_attempt_id r = Some (at_id a)"
  have P: "a \<in> set (db_attempts db)" "?P a" and Q: "d \<in> set (db_deliveries db)" "?Q d"
    using p by (auto simp: is_current_def)
  note one = attempt_update_one [where P = ?P, OF k P] delivery_update_one [where P = ?Q, OF k Q]
  show ?thesis
  proof (cases "at_transport_status a = TransportSending")
    case True
    then have g: "recovered_delivery now a = status_delivery TransportUnknown DeploymentLocating now"
      by (simp add: recovered_delivery_def fun_eq_iff)
    show ?thesis
      unfolding recovered_db_def recovered_attempt_def recoverSchedule_def
      using True one g
      by (simp add: recoverOne_def Let_def touch_pair_record insertAudit_touch_eq [OF u inv])
  next
    case False
    then have g: "recovered_delivery now a = (\<lambda>r. r)" by (simp add: recovered_delivery_def fun_eq_iff)
    show ?thesis
      unfolding recovered_db_def recovered_attempt_def recoverSchedule_def
      using False one g
      by (simp add: recoverOne_def Let_def touch_pair_keep [where j = "dl_id d"])
  qed
qed

lemma attempt_ok_recovered:
  "attempt_ok a \<Longrightarrow> interrupted a \<Longrightarrow> attempt_ok (recovered_attempt now dflt ts d a a)"
  by (auto simp: attempt_ok_def recovered_attempt_def recover_attempt_def interrupted_def)

lemma recovered_db_durable:
  assumes u: "inj uuid" and inv: "durable_inv uuid db" and p: "(d, a) \<in> set (current_pairs db)"
    and i: "interrupted a"
  shows "durable_inv uuid (recovered_db uuid now dflt ts d a db)"
proof -
  have ok: "attempt_ok a" using durable_currentE(1) [OF inv p] .
  note okr = attempt_ok_recovered [OF ok i, of now dflt ts d]
  have fl: "in_flight (recovered_attempt now dflt ts d a a) \<Longrightarrow> in_flight a"
    using i by (auto simp: in_flight_def recovered_attempt_def recover_attempt_def interrupted_def)
  show ?thesis
  proof (cases "at_transport_status a = TransportSending")
    case True
    show ?thesis
      unfolding recovered_db_def Let_def if_P [OF True]
      by (rule recovered.durable_commit [OF u inv p okr])
        (use True fl in \<open>auto simp: recovered_attempt_def recover_attempt_def recovered_delivery_def
            status_delivery_def\<close>)
  next
    case False
    show ?thesis
      unfolding recovered_db_def Let_def if_not_P [OF False]
      by (rule recovered.durable_touch_same [OF inv p okr])
        (use False in \<open>auto simp: recovered_attempt_def recover_attempt_def recovered_delivery_def\<close>)
  qed
qed

section \<open>All of them\<close>

definition recovered_pair ::
  "time \<Rightarrow> PollSchedule \<Rightarrow> (string \<rightharpoonup> PollSchedule) \<Rightarrow> delivery_row \<times> attempt_row \<Rightarrow> delivery_row \<times> attempt_row" where
  "recovered_pair now dflt ts = (\<lambda>(d, a). (recovered_delivery now a d, recovered_attempt now dflt ts d a a))"

lemma recovered_db_pairs:
  assumes k: "keys_ok db" and p: "(d, a) \<in> set (current_pairs db)"
  shows "set (current_pairs (recovered_db uuid now dflt ts d a db)) =
         (\<lambda>(x, y). if at_id y = at_id a then recovered_pair now dflt ts (x, y) else (x, y)) `
           set (current_pairs db)"
proof -
  have e: "x = d \<and> y = a" if "(x, y) \<in> set (current_pairs db)" "at_id y = at_id a" for x y
    using that p delivery_unique [OF k] attempt_unique [OF k] current_unique [OF k that(1) p] by auto
  have "set (current_pairs (recovered_db uuid now dflt ts d a db)) =
      (\<lambda>(x, y). if at_id y = at_id a then (recovered_delivery now a x, recovered_attempt now dflt ts d a y)
                else (x, y)) ` set (current_pairs db)"
    using recovered.touched_pairs_image [OF k p] by (simp add: recovered_db_def Let_def)
  also have "\<dots> = (\<lambda>(x, y). if at_id y = at_id a then recovered_pair now dflt ts (x, y) else (x, y)) `
      set (current_pairs db)"
    by (rule image_cong [OF refl]) (auto simp: recovered_pair_def simp del: in_current_pairs dest: e)
  finally show ?thesis .
qed

lemma at_id_recovered_pair [simp]: "at_id (snd (recovered_pair now dflt ts x)) = at_id (snd x)"
  by (simp add: recovered_pair_def split_beta recovered.f_id)

lemma recoverAll_spec:
  assumes u: "inj uuid"
  shows "durable_inv uuid db \<Longrightarrow> set xs \<subseteq> set (current_pairs db) \<Longrightarrow> (\<forall>x\<in>set xs. interrupted (snd x)) \<Longrightarrow>
     distinct (map (at_id \<circ> snd) xs) \<Longrightarrow>
     \<exists>cs db'. recoverAll uuid now dflt ts xs db = Inr (cs, db') \<and> durable_inv uuid db' \<and>
       set (current_pairs db') =
         (\<lambda>x. if at_id (snd x) \<in> (at_id \<circ> snd) ` set xs then recovered_pair now dflt ts x else x) `
           set (current_pairs db)"
proof (induction xs arbitrary: db)
  case Nil
  then show ?case by simp
next
  case (Cons x xs)
  obtain d a where x: "x = (d, a)" by force
  have p: "(d, a) \<in> set (current_pairs db)" "interrupted a" using Cons.prems(2,3) x by auto
  have k: "keys_ok db" using Cons.prems(1) by (rule durable_inv_keys)
  let ?db = "recovered_db uuid now dflt ts d a db"
  let ?h = "\<lambda>y. if at_id (snd y) = at_id a then recovered_pair now dflt ts y else y"
  obtain cs where one: "recoverOne uuid now dflt ts (d, a) db = Inr (cs, ?db)"
    using recoverOne_eq [OF u Cons.prems(1) p(1)] by blast
  have pairs: "set (current_pairs ?db) = ?h ` set (current_pairs db)"
    unfolding recovered_db_pairs [OF k p(1)] by (rule image_cong [OF refl]) auto
  have sub: "set xs \<subseteq> set (current_pairs ?db)"
  proof
    fix y assume y: "y \<in> set xs"
    then have "at_id (snd y) \<noteq> at_id a" using Cons.prems(4) x by (auto simp: image_iff)
    then have "y \<in> set (current_pairs db)" "?h y = y" using y Cons.prems(2) by auto
    then show "y \<in> set (current_pairs ?db)" unfolding pairs by (intro image_eqI [of y ?h y]) simp_all
  qed
  obtain cs' db' where rest: "recoverAll uuid now dflt ts xs ?db = Inr (cs', db')"
      "durable_inv uuid db'"
      "set (current_pairs db') =
         (\<lambda>y. if at_id (snd y) \<in> (at_id \<circ> snd) ` set xs then recovered_pair now dflt ts y else y) `
           ?h ` set (current_pairs db)"
    using Cons.IH [OF recovered_db_durable [OF u Cons.prems(1) p] sub] Cons.prems(3,4)
    unfolding pairs by auto
  have nx: "at_id a \<notin> (at_id \<circ> snd) ` set xs" using Cons.prems(4) x by auto
  have "set (current_pairs db') =
      (\<lambda>y. if at_id (snd y) \<in> (at_id \<circ> snd) ` set (x # xs) then recovered_pair now dflt ts y else y) `
        set (current_pairs db)"
    unfolding rest(3) image_image by (rule image_cong [OF refl]) (use nx x in auto)
  then show ?case using one rest(1,2) x by simp
qed

lemma distinct_current_pairs: "keys_ok db \<Longrightarrow> distinct (current_pairs db)"
  by (simp add: current_pairs_def keys_ok_def distinct_map distinct_product)

lemma current_pairs_memD:
  "x \<in> set (current_pairs db) \<Longrightarrow> fst x \<in> set (db_deliveries db) \<and> snd x \<in> set (db_attempts db)"
  by (auto simp: current_pairs_def)

lemma distinct_current_attempts:
  assumes k: "keys_ok db" and "distinct xs" and "set xs \<subseteq> set (current_pairs db)"
  shows "distinct (map (at_id \<circ> snd) xs)"
  using assms(2,3)
proof (induction xs)
  case (Cons x xs)
  have "at_id (snd y) \<noteq> at_id (snd x)" if y: "y \<in> set xs" for y
  proof
    assume e: "at_id (snd y) = at_id (snd x)"
    have m: "y \<in> set (current_pairs db)" "x \<in> set (current_pairs db)" using y Cons.prems by auto
    then have "dl_id (fst y) = dl_id (fst x)"
      using current_unique [OF k, of "fst y" "snd y" "fst x" "snd x"] e
      by (simp del: in_current_pairs)
    then have "y = x"
      using m e delivery_unique [OF k, of "fst y" "fst x"] attempt_unique [OF k, of "snd y" "snd x"]
      by (cases x; cases y) auto
    then show False using y Cons.prems(1) by simp
  qed
  then show ?case using Cons by force
qed simp

lemma RecoverInterrupted_spec:
  assumes u: "inj uuid" and inv: "durable_inv uuid db"
  shows "\<exists>changes db'. RecoverInterrupted uuid now dflt ts db = (Inr changes, db') \<and> durable_inv uuid db' \<and>
     set (current_pairs db') =
       (\<lambda>x. if interrupted (snd x) then recovered_pair now (normalizedPollSchedule dflt) ts x else x) `
         set (current_pairs db)"
proof -
  have k: "keys_ok db" using inv by (rule durable_inv_keys)
  let ?xs = "recoverCandidates db"
  have set: "set ?xs = {x \<in> set (current_pairs db). interrupted (snd x)}"
    by (auto simp: recoverCandidates_def simp del: in_current_pairs)
  have d: "distinct (map (at_id \<circ> snd) ?xs)"
    by (rule distinct_current_attempts [OF k])
      (use distinct_current_pairs [OF k] set in \<open>auto simp: recoverCandidates_def\<close>)
  have at: "at_id (snd x) \<in> (at_id \<circ> snd) ` set ?xs \<longleftrightarrow> interrupted (snd x)"
    if x: "x \<in> set (current_pairs db)" for x
  proof
    assume "at_id (snd x) \<in> (at_id \<circ> snd) ` set ?xs"
    then obtain y where y: "y \<in> set (current_pairs db)" "interrupted (snd y)" "at_id (snd y) = at_id (snd x)"
      unfolding set by auto
    then have "snd y = snd x"
      using current_pairs_memD [OF y(1)] current_pairs_memD [OF x] attempt_unique [OF k] by simp
    then show "interrupted (snd x)" using y(2) by simp
  next
    assume "interrupted (snd x)"
    then have "x \<in> set ?xs" using x unfolding set by blast
    then show "at_id (snd x) \<in> (at_id \<circ> snd) ` set ?xs" by (metis comp_apply image_eqI)
  qed
  have im: "(\<lambda>x. if at_id (snd x) \<in> (at_id \<circ> snd) ` set ?xs then f x else x) ` set (current_pairs db) =
     (\<lambda>x. if interrupted (snd x) then f x else x) ` set (current_pairs db)" for f
    by (rule image_cong [OF refl]) (simp only: at)
  have "set ?xs \<subseteq> set (current_pairs db)" "\<forall>x\<in>set ?xs. interrupted (snd x)" using set by auto
  from recoverAll_spec [OF u inv this d, of now "normalizedPollSchedule dflt" ts] show ?thesis
    unfolding im by (auto simp: RecoverInterrupted_def)
qed

end
