(* ===== verification/Store_Manual.thy ===== *)
theory Store_Manual
  imports Store_Ingest_Props
begin

text \<open>
  Manual operations (\<^verbatim>\<open>internal/store/attempts.go\<close>) and the start-up termination of attempts whose
  target no longer exists (\<^verbatim>\<open>internal/store/recovery.go\<close>). \<open>ApplyManualUpdate\<close> is a compare-and-swap: it
  writes only while the delivery's current attempt and its statuses are the ones the caller decided
  on.
\<close>

section \<open>The current attempt (attempts.go)\<close>

record CurrentAttemptRow =
  ca_EventID :: string
  ca_DeliveryID :: string
  ca_AttemptID :: string
  ca_TargetID :: string
  ca_TargetSnapshot :: "SnapshotDoc option"
  ca_TransportStatus :: TransportStatus
  ca_DeploymentStatus :: DeploymentStatus
  ca_DeploymentID :: string
  ca_MonitoringDeadline :: "time option"

record ManualUpdate =
  mu_Expected :: CurrentAttemptRow
  mu_TransportStatus :: TransportStatus
  mu_DeploymentStatus :: DeploymentStatus
  mu_DeploymentID :: string
  mu_PollDue :: "time option"
  mu_MonitoringDeadline :: "time option"
  mu_Correct :: bool
  mu_Create :: bool
  mu_Operation :: Operation
  mu_ActorID :: string
  mu_Reason :: string
  mu_At :: time

definition currentRow :: "string \<Rightarrow> db \<Rightarrow> (delivery_row \<times> attempt_row) option" where
  "currentRow deliveryID db = sql_first (filter (\<lambda>(d, a). dl_id d = deliveryID) (current_pairs db))"

definition CurrentAttempt :: "string \<Rightarrow> db \<Rightarrow> store_error + CurrentAttemptRow" where
  "CurrentAttempt deliveryID db =
     (case currentRow deliveryID db of
        None \<Rightarrow> Inl ErrNoRows
      | Some (d, a) \<Rightarrow>
          Inr \<lparr>ca_EventID = dl_event_id d, ca_DeliveryID = dl_id d, ca_AttemptID = at_id a,
               ca_TargetID = dl_target_id d, ca_TargetSnapshot = dl_target_snapshot d,
               ca_TransportStatus = at_transport_status a, ca_DeploymentStatus = at_deployment_status a,
               ca_DeploymentID = nullString (at_deployment_id a),
               ca_MonitoringDeadline = map_option timeUnixMilli (at_monitoring_deadline_at a)\<rparr>)"

section \<open>Applying a manual update\<close>

definition operationAttemptKind :: "Operation \<Rightarrow> store_error + string" where
  "operationAttemptKind operation =
     (case operation of
        OperationRetry \<Rightarrow> Inr ''retry''
      | OperationRedeploy \<Rightarrow> Inr ''redeploy''
      | OperationOther s \<Rightarrow> Inl (ErrValidation (''unsupported manual operation '' @ s)))"

definition nullableManualString :: "string \<Rightarrow> string option" where
  "nullableManualString value = (if value = '''' then None else Some value)"

definition correct_attempt :: "ManualUpdate \<Rightarrow> attempt_row \<Rightarrow> attempt_row" where
  "correct_attempt u a =
     a\<lparr>at_transport_status := mu_TransportStatus u, at_deployment_status := mu_DeploymentStatus u,
       at_deployment_id := nullableManualString (mu_DeploymentID u), at_poll_due_at := timeMillis (mu_PollDue u),
       at_monitoring_deadline_at := timeMillis (mu_MonitoringDeadline u), at_last_polled_at := None\<rparr>"

definition updateManualCorrection ::
  "delivery_row \<Rightarrow> attempt_row \<Rightarrow> ManualUpdate \<Rightarrow> db \<Rightarrow> store_error + db" where
  "updateManualCorrection d a u db =
     (let p = (\<lambda>r. at_id r = at_id a \<and> at_delivery_id r = dl_id d \<and>
                   list_ex (\<lambda>x. dl_id x = dl_id d \<and> dl_current_attempt_id x = Some (at_id r)) (db_deliveries db))
      in if sql_affected p (db_attempts db) \<noteq> 1 then Inl ErrCurrentAttemptChanged
      else let db1 = db\<lparr>db_attempts := sql_update p (correct_attempt u) (db_attempts db)\<rparr>;
               q = (\<lambda>r. dl_id r = dl_id d \<and> dl_current_attempt_id r = Some (at_id a))
      in if sql_affected q (db_deliveries db1) \<noteq> 1 then Inl ErrCurrentAttemptChanged
      else Inr (db1\<lparr>db_deliveries := sql_update q
             (status_delivery (mu_TransportStatus u) (mu_DeploymentStatus u) (mu_At u)) (db_deliveries db1)\<rparr>))"

definition insertManualAudit ::
  "(nat \<Rightarrow> string) \<Rightarrow> string \<Rightarrow> string \<Rightarrow> string \<Rightarrow> string \<Rightarrow> string \<Rightarrow>
   TransportStatus \<Rightarrow> DeploymentStatus \<Rightarrow> TransportStatus \<Rightarrow> DeploymentStatus \<Rightarrow> string \<Rightarrow> time \<Rightarrow> db \<Rightarrow> db option" where
  "insertManualAudit uuid eventID deliveryID attemptID actor action bt bd t d reason at db =
     (case draw uuid db of (i, db1) \<Rightarrow>
        insert_audit_row
          \<lparr>au_id = i, au_event_id = eventID, au_delivery_id = deliveryID, au_attempt_id = attemptID,
           au_actor = actor, au_action = action, au_before = statusOf bt bd,
           au_after = \<lparr>ss_TransportStatus = t, ss_DeploymentStatus = d, ss_Reason = reason\<rparr>,
           au_created_at = UnixMilli at\<rparr> db1)"

definition replace_delivery :: "string \<Rightarrow> time \<Rightarrow> delivery_row \<Rightarrow> delivery_row" where
  "replace_delivery attemptID at d =
     d\<lparr>dl_current_attempt_id := Some attemptID, dl_transport_status := TransportPending,
       dl_deployment_status := DeploymentNotStarted, dl_updated_at := UnixMilli at\<rparr>"

text \<open>The second half of the transaction: the new pending attempt becomes the current one. \<open>t\<close> and \<open>ds\<close>
  are the statuses of the attempt it replaces, after the correction.\<close>

definition createManualAttempt ::
  "(nat \<Rightarrow> string) \<Rightarrow> ManualUpdate \<Rightarrow> string \<Rightarrow> delivery_row \<Rightarrow> attempt_row \<Rightarrow>
   TransportStatus \<Rightarrow> DeploymentStatus \<Rightarrow> db \<Rightarrow> store_error + (string \<times> db)" where
  "createManualAttempt uuid u kind d a t ds db =
     (case draw uuid db of (manualID, db1) \<Rightarrow>
      case insert_attempt (pendingAttempt manualID (dl_id d) kind (Some (mu_ActorID u)) (UnixMilli (mu_At u))) db1 of
        None \<Rightarrow> Inl ErrConstraint
      | Some db2 \<Rightarrow>
          let q = (\<lambda>r. dl_id r = dl_id d \<and> dl_current_attempt_id r = Some (at_id a))
          in if sql_affected q (db_deliveries db2) \<noteq> 1 then Inl ErrCurrentAttemptChanged
          else let db3 = db2\<lparr>db_deliveries := sql_update q (replace_delivery manualID (mu_At u)) (db_deliveries db2)\<rparr>
          in case insertManualAudit uuid (dl_event_id d) (dl_id d) manualID (mu_ActorID u)
                    (''manual_'' @ operationText (mu_Operation u)) t ds TransportPending DeploymentNotStarted
                    (mu_Reason u) (mu_At u) db3 of
               None \<Rightarrow> Inl ErrConstraint
             | Some db4 \<Rightarrow> Inr (manualID, db4))"

definition ApplyManualUpdate ::
  "(nat \<Rightarrow> string) \<Rightarrow> ManualUpdate \<Rightarrow> db \<Rightarrow> (store_error + string) \<times> db" where
  "ApplyManualUpdate uuid u db =
     (case currentRow (ca_DeliveryID (mu_Expected u)) db of
        None \<Rightarrow> (Inl ErrCurrentAttemptChanged, db)
      | Some (d, a) \<Rightarrow>
          if at_id a \<noteq> ca_AttemptID (mu_Expected u) \<or>
             at_transport_status a \<noteq> ca_TransportStatus (mu_Expected u) \<or>
             at_deployment_status a \<noteq> ca_DeploymentStatus (mu_Expected u)
          then (Inl ErrCurrentAttemptChanged, db)
          else case (if mu_Create u then operationAttemptKind (mu_Operation u) else Inr '''') of
            Inl e \<Rightarrow> (Inl e, db)
          | Inr kind \<Rightarrow>
          case (if \<not> mu_Correct u then Inr (at_transport_status a, at_deployment_status a, db)
                else case updateManualCorrection d a u db of
                  Inl e \<Rightarrow> Inl e
                | Inr db1 \<Rightarrow>
                    (case insertManualAudit uuid (dl_event_id d) (dl_id d) (at_id a) (mu_ActorID u)
                            ''manual_reconciled'' (at_transport_status a) (at_deployment_status a)
                            (mu_TransportStatus u) (mu_DeploymentStatus u) (mu_Reason u) (mu_At u) db1 of
                       None \<Rightarrow> Inl ErrConstraint
                     | Some db2 \<Rightarrow> Inr (mu_TransportStatus u, mu_DeploymentStatus u, db2))) of
            Inl e \<Rightarrow> (Inl e, db)
          | Inr (t, ds, db2) \<Rightarrow>
              if \<not> mu_Create u then (Inr (at_id a), db2)
              else (case createManualAttempt uuid u kind d a t ds db2 of
                      Inl e \<Rightarrow> (Inl e, db)
                    | Inr (manualID, db3) \<Rightarrow> (Inr manualID, db3)))"

section \<open>Start-up termination (recovery.go)\<close>

record ActiveBinding =
  ab_EventID :: string
  ab_DeliveryID :: string
  ab_AttemptID :: string
  ab_TargetID :: string
  ab_TargetSnapshot :: "SnapshotDoc option"
  ab_TransportStatus :: TransportStatus
  ab_DeploymentStatus :: DeploymentStatus

definition activeBindingOf :: "delivery_row \<times> attempt_row \<Rightarrow> ActiveBinding" where
  "activeBindingOf = (\<lambda>(d, a).
     \<lparr>ab_EventID = dl_event_id d, ab_DeliveryID = dl_id d, ab_AttemptID = at_id a,
      ab_TargetID = dl_target_id d, ab_TargetSnapshot = dl_target_snapshot d,
      ab_TransportStatus = at_transport_status a, ab_DeploymentStatus = at_deployment_status a\<rparr>)"

definition ListActiveBindings :: "db \<Rightarrow> ActiveBinding list" where
  "ListActiveBindings db =
     map activeBindingOf
       (sort_key (\<lambda>(d, a). (dl_created_at d, dl_id d))
          (filter (\<lambda>(d, a). at_transport_status a \<in> {TransportPending, TransportSending} \<or>
                             at_deployment_status a \<in> {DeploymentLocating, DeploymentRunning, DeploymentUnrecognized})
             (current_pairs db)))"

definition terminate_attempt :: "TransportStatus \<Rightarrow> DeploymentStatus \<Rightarrow> attempt_row \<Rightarrow> attempt_row" where
  "terminate_attempt t ds a =
     a\<lparr>at_transport_status := t, at_deployment_status := ds, at_poll_due_at := None,
       at_monitoring_deadline_at := None, at_last_polled_at := None\<rparr>"

definition TerminateIncompatibleActive ::
  "(nat \<Rightarrow> string) \<Rightarrow> ActiveBinding \<Rightarrow> string \<Rightarrow> time \<Rightarrow> db \<Rightarrow> (store_error + unit) \<times> db" where
  "TerminateIncompatibleActive uuid binding reasonCode0 at db =
     (let reasonCode = (if reasonCode0 \<noteq> ''target_changed'' \<and> reasonCode0 \<noteq> ''target_unavailable''
                        then ''target_unavailable'' else reasonCode0)
      in case currentRow (ab_DeliveryID binding) db of
        None \<Rightarrow> (Inr (), db)
      | Some (d, a) \<Rightarrow>
          if at_id a \<noteq> ab_AttemptID binding \<or> at_transport_status a \<noteq> ab_TransportStatus binding \<or>
             at_deployment_status a \<noteq> ab_DeploymentStatus binding
          then (Inr (), db)
          else if \<not> Active (at_transport_status a) (at_deployment_status a) then (Inr (), db)
          else let pending = (at_transport_status a = TransportPending \<and>
                              at_deployment_status a = DeploymentNotStarted);
                   t = (if pending then TransportFailed else TransportUnknown);
                   ds = (if pending then DeploymentNotStarted else DeploymentUnknown);
                   p = (\<lambda>r. at_id r = at_id a \<and> at_delivery_id r = dl_id d)
          in if sql_affected p (db_attempts db) \<noteq> 1 then (Inl ErrAttemptNotSending, db)
          else let db1 = db\<lparr>db_attempts := sql_update p (terminate_attempt t ds) (db_attempts db)\<rparr>;
                   q = (\<lambda>r. dl_id r = dl_id d \<and> dl_current_attempt_id r = Some (at_id a))
          in if sql_affected q (db_deliveries db1) \<noteq> 1 then (Inl ErrAttemptNotSending, db)
          else let db2 = db1\<lparr>db_deliveries := sql_update q (status_delivery t ds at) (db_deliveries db1)\<rparr>
          in case insertAudit uuid (dl_event_id d) (dl_id d) (at_id a) (''active_binding_'' @ reasonCode)
                    (at_transport_status a) (at_deployment_status a) t ds at db2 of
               None \<Rightarrow> (Inl ErrConstraint, db)
             | Some db3 \<Rightarrow> (Inr (), db3))"

end
