(* ===== verification/Store_Manual_Props.thy ===== *)
theory Store_Manual_Props
  imports Store_Manual
begin

text \<open>
  Manual updates and start-up termination keep the invariants; a manual update writes only when the
  expected attempt is still current, and a new attempt starts pending.
\<close>

section \<open>Row changes\<close>

interpretation correct: pair_write "correct_attempt u" "status_delivery t ds at"
  by unfold_locales (simp_all add: correct_attempt_def status_delivery_def)

interpretation terminate: pair_write "terminate_attempt t ds" "status_delivery t' ds' at"
  by unfold_locales (simp_all add: terminate_attempt_def status_delivery_def)

section \<open>Reading the current attempt\<close>

lemma currentRow_eq:
  assumes k: "keys_ok db" and p: "(d, a) \<in> set (current_pairs db)"
  shows "currentRow (dl_id d) db = Some (d, a)"
  unfolding currentRow_def
proof (rule sql_first_singleton)
  show "(d, a) \<in> set (filter (\<lambda>(d', a'). dl_id d' = dl_id d) (current_pairs db))" using p by simp
next
  fix x assume x: "x \<in> set (filter (\<lambda>(d', a'). dl_id d' = dl_id d) (current_pairs db))"
  obtain d' a' where x': "x = (d', a')" by force
  then have m: "(d', a') \<in> set (current_pairs db)" "dl_id d' = dl_id d" using x by auto
  then have "at_id a' = at_id a" using current_unique [OF k m(1) p] by simp
  then show "x = (d, a)" using m p x' delivery_unique [OF k] attempt_unique [OF k] by auto
qed

lemma currentRow_SomeD: "currentRow i db = Some (d, a) \<Longrightarrow> (d, a) \<in> set (current_pairs db) \<and> dl_id d = i"
  unfolding currentRow_def by (drule sql_first_SomeD) simp

section \<open>The manual audit row\<close>

definition manual_audit ::
  "string \<Rightarrow> string \<Rightarrow> string \<Rightarrow> string \<Rightarrow> string \<Rightarrow> string \<Rightarrow>
   TransportStatus \<Rightarrow> DeploymentStatus \<Rightarrow> TransportStatus \<Rightarrow> DeploymentStatus \<Rightarrow> string \<Rightarrow> time \<Rightarrow> audit_row" where
  "manual_audit i eventID deliveryID attemptID actor action bt bd t d reason at =
     \<lparr>au_id = i, au_event_id = eventID, au_delivery_id = deliveryID, au_attempt_id = attemptID,
      au_actor = actor, au_action = action, au_before = statusOf bt bd,
      au_after = \<lparr>ss_TransportStatus = t, ss_DeploymentStatus = d, ss_Reason = reason\<rparr>,
      au_created_at = UnixMilli at\<rparr>"

lemma manual_audit_simps [simp]:
  "au_id (manual_audit i e d a act ac bt bd t ds r at) = i"
  "au_attempt_id (manual_audit i e d a act ac bt bd t ds r at) = a"
  "au_delivery_id (manual_audit i e d a act ac bt bd t ds r at) = d"
  "au_event_id (manual_audit i e d a act ac bt bd t ds r at) = e"
  "audits_status (manual_audit i e d a act ac bt bd t ds r at) b \<longleftrightarrow>
     a = at_id b \<and> t = at_transport_status b \<and> ds = at_deployment_status b"
  by (simp_all add: manual_audit_def audits_status_def)

lemma insertManualAudit_eq:
  assumes "uuid (db_uuids db) \<notin> au_id ` set (db_audits db)"
  shows "insertManualAudit uuid e d a actor action bt bd t ds reason at db =
         Some (append_audit (manual_audit (uuid (db_uuids db)) e d a actor action bt bd t ds reason at) db)"
  using assms
  by (simp add: insertManualAudit_def draw_def insert_audit_row_def manual_audit_def append_audit_def)

section \<open>Correcting the current attempt\<close>

definition corrected_db :: "(nat \<Rightarrow> string) \<Rightarrow> ManualUpdate \<Rightarrow> delivery_row \<Rightarrow> attempt_row \<Rightarrow> db \<Rightarrow> db" where
  "corrected_db uuid u d a db =
     append_audit (manual_audit (uuid (db_uuids db)) (dl_event_id d) (dl_id d) (at_id a) (mu_ActorID u)
         ''manual_reconciled'' (at_transport_status a) (at_deployment_status a)
         (mu_TransportStatus u) (mu_DeploymentStatus u) (mu_Reason u) (mu_At u))
       (touch_pair (at_id a) (dl_id d) (correct_attempt u)
          (status_delivery (mu_TransportStatus u) (mu_DeploymentStatus u) (mu_At u)) db)"

lemma updateManualCorrection_eq:
  assumes inv: "durable_inv uuid db" and p: "(d, a) \<in> set (current_pairs db)"
  shows "updateManualCorrection d a u db =
     Inr (touch_pair (at_id a) (dl_id d) (correct_attempt u)
            (status_delivery (mu_TransportStatus u) (mu_DeploymentStatus u) (mu_At u)) db)"
proof -
  have k: "keys_ok db" using inv by (rule durable_inv_keys)
  let ?P = "\<lambda>r. at_delivery_id r = dl_id d \<and>
      list_ex (\<lambda>x. dl_id x = dl_id d \<and> dl_current_attempt_id x = Some (at_id r)) (db_deliveries db)"
  let ?Q = "\<lambda>r. dl_current_attempt_id r = Some (at_id a)"
  have P: "a \<in> set (db_attempts db)" "?P a" and Q: "d \<in> set (db_deliveries db)" "?Q d"
    using p by (auto simp: is_current_def list_ex_iff)
  show ?thesis
    using attempt_update_one [where P = ?P, OF k P] delivery_update_one [where P = ?Q, OF k Q]
    by (simp add: updateManualCorrection_def Let_def touch_pair_record)
qed

text \<open>What a correction must respect for the row to stay well formed: a status pair of an enqueued
  attempt with its deployment, and a schedule when it is still watched. The service builds such
  updates (theory \<open>Attempts_Service\<close>).\<close>

definition correction_ok :: "ManualUpdate \<Rightarrow> bool" where
  "correction_ok u \<longleftrightarrow>
     mu_TransportStatus u = TransportEnqueued \<and>
     mu_DeploymentStatus u \<notin> {DeploymentNotStarted, DeploymentLocating} \<and> mu_DeploymentID u \<noteq> '''' \<and>
     (monitored (mu_DeploymentStatus u) \<longrightarrow> mu_PollDue u \<noteq> None \<and> mu_MonitoringDeadline u \<noteq> None)"

lemma corrected_db_durable:
  assumes u: "inj uuid" and inv: "durable_inv uuid db" and p: "(d, a) \<in> set (current_pairs db)"
    and ok: "correction_ok upd"
  shows "durable_inv uuid (corrected_db uuid upd d a db)"
  unfolding corrected_db_def
proof (rule correct.durable_commit [OF u inv p])
  show "attempt_ok (correct_attempt upd a)"
    using ok by (auto simp: attempt_ok_def correct_attempt_def correction_ok_def nullableManualString_def timeMillis_def)
  show "in_flight (correct_attempt upd a) \<Longrightarrow> in_flight a \<or>
      (\<forall>d' a'. (d', a') \<in> set (current_pairs db) \<longrightarrow> dl_id d' \<noteq> dl_id d \<longrightarrow> in_flight a' \<longrightarrow> \<not> same_resource d' d)"
    using ok by (simp add: in_flight_def correct_attempt_def correction_ok_def nullableManualString_def)
qed (simp_all add: correct_attempt_def status_delivery_def)

section \<open>Replacing the current attempt\<close>

definition manualAttempt :: "(nat \<Rightarrow> string) \<Rightarrow> ManualUpdate \<Rightarrow> string \<Rightarrow> delivery_row \<Rightarrow> db \<Rightarrow> attempt_row" where
  "manualAttempt uuid u kind d db =
     pendingAttempt (uuid (db_uuids db)) (dl_id d) kind (Some (mu_ActorID u)) (UnixMilli (mu_At u))"

definition swapped_db :: "(nat \<Rightarrow> string) \<Rightarrow> ManualUpdate \<Rightarrow> string \<Rightarrow> delivery_row \<Rightarrow> db \<Rightarrow> db" where
  "swapped_db uuid u kind d db =
     db\<lparr>db_uuids := Suc (db_uuids db), db_attempts := db_attempts db @ [manualAttempt uuid u kind d db],
        db_deliveries := sql_update (\<lambda>r. dl_id r = dl_id d)
          (replace_delivery (uuid (db_uuids db)) (mu_At u)) (db_deliveries db)\<rparr>"

definition replaced_db ::
  "(nat \<Rightarrow> string) \<Rightarrow> ManualUpdate \<Rightarrow> string \<Rightarrow> delivery_row \<Rightarrow> TransportStatus \<Rightarrow> DeploymentStatus \<Rightarrow> db \<Rightarrow> db" where
  "replaced_db uuid u kind d t ds db =
     append_audit (manual_audit (uuid (Suc (db_uuids db))) (dl_event_id d) (dl_id d) (uuid (db_uuids db))
         (mu_ActorID u) (''manual_'' @ operationText (mu_Operation u)) t ds TransportPending DeploymentNotStarted
         (mu_Reason u) (mu_At u))
       (swapped_db uuid u kind d db)"

lemma replace_delivery_simps [simp]:
  "dl_id (replace_delivery i at d) = dl_id d" "dl_event_id (replace_delivery i at d) = dl_event_id d"
  "dl_target_id (replace_delivery i at d) = dl_target_id d"
  "dl_dispatch_key (replace_delivery i at d) = dl_dispatch_key d"
  "dl_current_attempt_id (replace_delivery i at d) = Some i"
  "dl_transport_status (replace_delivery i at d) = TransportPending"
  "dl_deployment_status (replace_delivery i at d) = DeploymentNotStarted"
  by (simp_all add: replace_delivery_def)

lemma image_replaced: "dl_ref ` set (sql_update p (replace_delivery i at) t) = dl_ref ` set t"
  by (simp add: image_sql_update dl_ref_def)

lemma dl_ref_mem: "d \<in> set t \<Longrightarrow> (dl_id d, dl_event_id d) \<in> dl_ref ` set t"
  by (simp add: dl_ref_def image_iff) blast

lemma createManualAttempt_eq:
  assumes u: "inj uuid" and inv: "durable_inv uuid db" and d: "d \<in> set (db_deliveries db)"
    and c: "dl_current_attempt_id d = Some (at_id a)"
  shows "createManualAttempt uuid upd kind d a t ds db =
     Inr (uuid (db_uuids db), replaced_db uuid upd kind d t ds db)"
proof -
  have k: "keys_ok db" using inv by (rule durable_inv_keys)
  have f: "uuid (db_uuids db) \<notin> at_id ` set (db_attempts db)"
    "uuid (Suc (db_uuids db)) \<notin> au_id ` set (db_audits db)"
    using fresh_ids [OF u inv] by simp_all
  show ?thesis
    using delivery_update_one [where P = "\<lambda>r. dl_current_attempt_id r = Some (at_id a)", OF k d c] f
    by (simp add: createManualAttempt_def draw_def insert_attempt_def Let_def replaced_db_def swapped_db_def
        manualAttempt_def insertManualAudit_eq)
qed

lemma swapped_pairs:
  assumes u: "inj uuid" and inv: "durable_inv uuid db"
    and x: "(x, y) \<in> set (current_pairs (swapped_db uuid upd kind d db))"
  shows "y = manualAttempt uuid upd kind d db \<or> (dl_id x \<noteq> dl_id d \<and> (x, y) \<in> set (current_pairs db))"
proof -
  have f: "uuid (db_uuids db) \<notin> at_id ` set (db_attempts db)" using fresh_ids(3) [OF u inv] by simp
  show ?thesis
    using x f by (auto simp: swapped_db_def sql_simps is_current_def image_iff split: if_splits)
qed

lemma swapped_store_inv:
  assumes u: "inj uuid" and inv: "durable_inv uuid db" and d: "d \<in> set (db_deliveries db)"
  shows "store_inv uuid (swapped_db uuid upd kind d db)" (is "store_inv uuid ?db")
proof -
  have s: "store_inv uuid db" using inv by (simp add: durable_inv_def)
  let ?a = "manualAttempt uuid upd kind d db"
  have f: "uuid (db_uuids db) \<notin> at_id ` set (db_attempts db)" using fresh_ids(3) [OF u inv] by simp
  have sub: "uuid ` {..<db_uuids db} \<subseteq> uuid ` {..<Suc (db_uuids db)}" by auto
  have ids: "dl_id ` set (db_deliveries ?db) = dl_id ` set (db_deliveries db)"
    by (simp add: swapped_db_def image_sql_update)
  have "keys_ok ?db"
    using s f by (simp add: store_inv_def keys_ok_def swapped_db_def sql_simps manualAttempt_def)
  moreover have "refs_ok ?db"
    using s d unfolding store_inv_def refs_ok_def ids
    by (auto simp: swapped_db_def ball_sql_update manualAttempt_def image_replaced)
  moreover have "queue_ok ?db" using s by (simp add: store_inv_def queue_ok_def swapped_db_def)
  moreover have "ids_ok uuid ?db"
    using durable_ids [OF inv, THEN subset_trans, OF sub]
    by (simp add: ids_ok_def ids) (simp add: swapped_db_def manualAttempt_def)
  moreover have "\<forall>a\<in>set (db_attempts ?db). attempt_ok a"
    using s by (simp add: store_inv_def swapped_db_def manualAttempt_def)
  moreover have "delivery_ok (db_attempts ?db) (replace_delivery (uuid (db_uuids db)) (mu_At upd) r)"
    if "dl_id r = dl_id d" for r
    using that by (simp add: delivery_ok_def swapped_db_def manualAttempt_def is_current_def)
  then have "\<forall>x\<in>set (db_deliveries ?db). delivery_ok (db_attempts ?db) x"
    using s by (auto simp: store_inv_def swapped_db_def ball_sql_update delivery_ok_def)
  ultimately show ?thesis by (simp add: store_inv_def)
qed

lemma swapped_serialized:
  assumes u: "inj uuid" and inv: "durable_inv uuid db"
  shows "serialized (swapped_db uuid upd kind d db)"
proof -
  have "\<not> in_flight (manualAttempt uuid upd kind d db)" by (simp add: manualAttempt_def)
  then show ?thesis
    using inv swapped_pairs [OF u inv, of _ _ upd kind d]
    unfolding durable_inv_def serialized_def by metis
qed

lemma replaced_db_durable:
  assumes u: "inj uuid" and inv: "durable_inv uuid db" and d: "d \<in> set (db_deliveries db)"
  shows "durable_inv uuid (replaced_db uuid upd kind d t ds db)"
proof -
  have f: "uuid (db_uuids db) \<notin> at_id ` set (db_attempts db)" using fresh_ids(3) [OF u inv] by simp
  have "store_inv uuid (replaced_db uuid upd kind d t ds db)"
    unfolding replaced_db_def
    by (rule store_inv_append_audit [OF u swapped_store_inv [OF u inv d]])
      (use d dl_ref_mem [OF d] in \<open>simp_all add: swapped_db_def manualAttempt_def image_replaced at_ref_def\<close>)
  moreover have "audit_inv (replaced_db uuid upd kind d t ds db)"
  proof -
    have "audited_status (swapped_db uuid upd kind d db) i = audited_status db i" for i
      by (simp add: audited_status_def swapped_db_def)
    then have "audited_status (replaced_db uuid upd kind d t ds db) i =
        (if i = uuid (db_uuids db) then (TransportPending, DeploymentNotStarted) else audited_status db i)" for i
      by (simp add: replaced_db_def audited_status_append) (simp add: manual_audit_def)
    then show ?thesis
      using inv f
      by (auto simp: durable_inv_def audit_inv_def replaced_db_def swapped_db_def manualAttempt_def image_iff)
  qed
  moreover have "serialized (replaced_db uuid upd kind d t ds db)"
    using swapped_serialized [OF u inv] by (simp add: replaced_db_def)
  ultimately show ?thesis by (simp add: durable_inv_def)
qed

section \<open>ApplyManualUpdate\<close>

text \<open>The comparison of the compare-and-swap.\<close>

definition expectation_met :: "ManualUpdate \<Rightarrow> delivery_row \<Rightarrow> attempt_row \<Rightarrow> bool" where
  "expectation_met u d a \<longleftrightarrow>
     dl_id d = ca_DeliveryID (mu_Expected u) \<and> at_id a = ca_AttemptID (mu_Expected u) \<and>
     at_transport_status a = ca_TransportStatus (mu_Expected u) \<and>
     at_deployment_status a = ca_DeploymentStatus (mu_Expected u)"

lemma ApplyManualUpdate_reject:
  assumes k: "keys_ok db"
    and no: "\<And>d a. (d, a) \<in> set (current_pairs db) \<Longrightarrow> \<not> expectation_met u d a"
  shows "ApplyManualUpdate uuid u db = (Inl ErrCurrentAttemptChanged, db)"
proof (cases "currentRow (ca_DeliveryID (mu_Expected u)) db")
  case None
  then show ?thesis by (simp add: ApplyManualUpdate_def)
next
  case (Some x)
  obtain d a where x: "x = (d, a)" by force
  have "(d, a) \<in> set (current_pairs db)" "dl_id d = ca_DeliveryID (mu_Expected u)"
    using currentRow_SomeD [OF Some [unfolded x]] by simp_all
  then have "\<not> expectation_met u d a" "dl_id d = ca_DeliveryID (mu_Expected u)" using no by blast+
  then show ?thesis using Some x by (simp add: ApplyManualUpdate_def expectation_met_def)
qed

lemma corrected_pair:
  assumes k: "keys_ok db" and p: "(d, a) \<in> set (current_pairs db)"
  shows "(status_delivery (mu_TransportStatus u) (mu_DeploymentStatus u) (mu_At u) d, correct_attempt u a)
           \<in> set (current_pairs (corrected_db uuid u d a db))"
  unfolding corrected_db_def current_pairs_append_audit correct.touched_pairs_image [OF k p]
  by (rule image_eqI [OF _ p]) simp

lemma status_delivery_ids:
  "dl_id (status_delivery t ds at d) = dl_id d" "dl_event_id (status_delivery t ds at d) = dl_event_id d"
  by (simp_all add: status_delivery_def)

lemma swap_after_correction:
  "replaced_db uuid u kind (status_delivery t' ds' at' d) t ds db = replaced_db uuid u kind d t ds db"
  "createManualAttempt uuid u kind (status_delivery t' ds' at' d) (correct_attempt u' a) t ds db =
     createManualAttempt uuid u kind d a t ds db"
  unfolding replaced_db_def swapped_db_def manualAttempt_def createManualAttempt_def status_delivery_ids
    correct.f_id by (rule refl)+

text \<open>The database after the first half, the optional correction.\<close>

definition after_correction :: "(nat \<Rightarrow> string) \<Rightarrow> ManualUpdate \<Rightarrow> delivery_row \<Rightarrow> attempt_row \<Rightarrow> db \<Rightarrow> db" where
  "after_correction uuid u d a db = (if mu_Correct u then corrected_db uuid u d a db else db)"

definition corrected_status :: "ManualUpdate \<Rightarrow> attempt_row \<Rightarrow> TransportStatus \<times> DeploymentStatus" where
  "corrected_status u a =
     (if mu_Correct u then (mu_TransportStatus u, mu_DeploymentStatus u)
      else (at_transport_status a, at_deployment_status a))"

lemma ApplyManualUpdate_eq:
  assumes u: "inj uuid" and inv: "durable_inv uuid db" and p: "(d, a) \<in> set (current_pairs db)"
    and e: "expectation_met upd d a" and ok: "mu_Correct upd \<Longrightarrow> correction_ok upd"
  shows "ApplyManualUpdate uuid upd db =
     (if \<not> mu_Create upd then (Inr (at_id a), after_correction uuid upd d a db)
      else case operationAttemptKind (mu_Operation upd) of
        Inl err \<Rightarrow> (Inl err, db)
      | Inr kind \<Rightarrow>
          (Inr (uuid (db_uuids (after_correction uuid upd d a db))),
           replaced_db uuid upd kind d (fst (corrected_status upd a)) (snd (corrected_status upd a))
             (after_correction uuid upd d a db)))"
proof -
  have k: "keys_ok db" using inv by (rule durable_inv_keys)
  have row: "currentRow (ca_DeliveryID (mu_Expected upd)) db = Some (d, a)"
    using currentRow_eq [OF k p] e by (simp add: expectation_met_def)
  have aud: "insertManualAudit uuid x y z act ac bt bd t ds r at (touch_pair i j f g db) =
      Some (append_audit (manual_audit (uuid (db_uuids db)) x y z act ac bt bd t ds r at) (touch_pair i j f g db))"
    for x y z act ac bt bd t ds r at i j f g
    using insertManualAudit_eq [of uuid "touch_pair i j f g db"] fresh_ids(4) [OF u inv, of "db_uuids db"] by simp
  have inv2: "durable_inv uuid (after_correction uuid upd d a db)"
    using corrected_db_durable [OF u inv p ok] inv by (simp add: after_correction_def)
  have mk: "createManualAttempt uuid upd kind d a t ds (after_correction uuid upd d a db) =
      Inr (uuid (db_uuids (after_correction uuid upd d a db)),
           replaced_db uuid upd kind d t ds (after_correction uuid upd d a db))" for kind t ds
  proof (cases "mu_Correct upd")
    case True
    let ?d = "status_delivery (mu_TransportStatus upd) (mu_DeploymentStatus upd) (mu_At upd) d"
    have "?d \<in> set (db_deliveries (after_correction uuid upd d a db))"
      "dl_current_attempt_id ?d = Some (at_id (correct_attempt upd a))"
      using corrected_pair [OF k p, of upd uuid] True by (simp_all add: after_correction_def is_current_def)
    from createManualAttempt_eq [OF u inv2 this] show ?thesis by (simp add: swap_after_correction)
  next
    case False
    then show ?thesis
      using createManualAttempt_eq [OF u inv2, of d a] p by (simp add: after_correction_def is_current_def)
  qed
  have corr: "updateManualCorrection d a upd db = Inr (touch_pair (at_id a) (dl_id d) (correct_attempt upd)
      (status_delivery (mu_TransportStatus upd) (mu_DeploymentStatus upd) (mu_At upd)) db)"
    by (rule updateManualCorrection_eq [OF inv p])
  show ?thesis
    using row e mk
    by (cases "mu_Correct upd"; cases "mu_Create upd"; cases "mu_Operation upd")
      (simp_all add: ApplyManualUpdate_def expectation_met_def corr aud after_correction_def corrected_db_def
        corrected_status_def operationAttemptKind_def)
qed

lemma delivery_replaced_durable:
  assumes u: "inj uuid" and inv: "durable_inv uuid db" and p: "(d, a) \<in> set (current_pairs db)"
    and ok: "mu_Correct upd \<Longrightarrow> correction_ok upd"
  shows "durable_inv uuid (replaced_db uuid upd kind d t ds (after_correction uuid upd d a db))"
proof (cases "mu_Correct upd")
  case True
  have k: "keys_ok db" using inv by (rule durable_inv_keys)
  let ?d = "status_delivery (mu_TransportStatus upd) (mu_DeploymentStatus upd) (mu_At upd) d"
  have "?d \<in> set (db_deliveries (corrected_db uuid upd d a db))"
    using corrected_pair [OF k p, of upd uuid] by simp
  from replaced_db_durable [OF u corrected_db_durable [OF u inv p ok [OF True]] this] show ?thesis
    using True by (simp add: swap_after_correction after_correction_def)
next
  case False
  then show ?thesis using replaced_db_durable [OF u inv, of d] p by (simp add: after_correction_def)
qed

lemma ApplyManualUpdate_durable:
  assumes u: "inj uuid" and inv: "durable_inv uuid db" and ok: "mu_Correct upd \<Longrightarrow> correction_ok upd"
  shows "durable_inv uuid (snd (ApplyManualUpdate uuid upd db))"
proof (cases "\<exists>d a. (d, a) \<in> set (current_pairs db) \<and> expectation_met upd d a")
  case False
  then show ?thesis
    using ApplyManualUpdate_reject [OF durable_inv_keys [OF inv], of upd uuid] inv
    by (simp del: in_current_pairs)
next
  case True
  then obtain d a where p: "(d, a) \<in> set (current_pairs db)" and e: "expectation_met upd d a" by blast
  have "durable_inv uuid (after_correction uuid upd d a db)"
    using corrected_db_durable [OF u inv p ok] inv by (simp add: after_correction_def)
  then show ?thesis
    using delivery_replaced_durable [OF u inv p ok] inv
    by (simp add: ApplyManualUpdate_eq [OF u inv p e ok] split: sum.split)
qed

section \<open>TerminateIncompatibleActive\<close>

definition terminal_status :: "attempt_row \<Rightarrow> TransportStatus \<times> DeploymentStatus" where
  "terminal_status a =
     (if at_transport_status a = TransportPending \<and> at_deployment_status a = DeploymentNotStarted
      then (TransportFailed, DeploymentNotStarted) else (TransportUnknown, DeploymentUnknown))"

definition terminated_db ::
  "(nat \<Rightarrow> string) \<Rightarrow> string \<Rightarrow> time \<Rightarrow> delivery_row \<Rightarrow> attempt_row \<Rightarrow> db \<Rightarrow> db" where
  "terminated_db uuid reason at d a db =
     append_audit (system_audit uuid db (dl_event_id d) (dl_id d) (at_id a) (''active_binding_'' @ reason)
         (at_transport_status a) (at_deployment_status a) (fst (terminal_status a)) (snd (terminal_status a)) at)
       (touch_pair (at_id a) (dl_id d)
          (terminate_attempt (fst (terminal_status a)) (snd (terminal_status a)))
          (status_delivery (fst (terminal_status a)) (snd (terminal_status a)) at) db)"

definition reason_code :: "string \<Rightarrow> string" where
  "reason_code r = (if r \<noteq> ''target_changed'' \<and> r \<noteq> ''target_unavailable'' then ''target_unavailable'' else r)"

definition binding_met :: "ActiveBinding \<Rightarrow> delivery_row \<Rightarrow> attempt_row \<Rightarrow> bool" where
  "binding_met b d a \<longleftrightarrow>
     dl_id d = ab_DeliveryID b \<and> at_id a = ab_AttemptID b \<and> at_transport_status a = ab_TransportStatus b \<and>
     at_deployment_status a = ab_DeploymentStatus b \<and>
     Active (at_transport_status a) (at_deployment_status a)"

lemma TerminateIncompatibleActive_eq:
  assumes u: "inj uuid" and inv: "durable_inv uuid db" and p: "(d, a) \<in> set (current_pairs db)"
    and m: "binding_met b d a"
  shows "TerminateIncompatibleActive uuid b r at db = (Inr (), terminated_db uuid (reason_code r) at d a db)"
proof -
  have k: "keys_ok db" using inv by (rule durable_inv_keys)
  have row: "currentRow (ab_DeliveryID b) db = Some (d, a)"
    using currentRow_eq [OF k p] m by (simp add: binding_met_def)
  let ?P = "\<lambda>r. at_delivery_id r = dl_id d" and ?Q = "\<lambda>r. dl_current_attempt_id r = Some (at_id a)"
  have P: "a \<in> set (db_attempts db)" "?P a" and Q: "d \<in> set (db_deliveries db)" "?Q d"
    using p by (auto simp: is_current_def)
  have b: "ab_AttemptID b = at_id a" "ab_TransportStatus b = at_transport_status a"
    "ab_DeploymentStatus b = at_deployment_status a" and act: "Active (at_transport_status a) (at_deployment_status a)"
    using m unfolding binding_met_def by metis+
  show ?thesis
    using attempt_update_one [where P = ?P, OF k P] delivery_update_one [where P = ?Q, OF k Q] act
    unfolding TerminateIncompatibleActive_def reason_code_def [symmetric] Let_def row b
    by (simp add: touch_pair_record insertAudit_touch_eq [OF u inv] terminated_db_def terminal_status_def)
qed

lemma TerminateIncompatibleActive_skip:
  assumes "\<And>d a. (d, a) \<in> set (current_pairs db) \<Longrightarrow> \<not> binding_met b d a"
  shows "TerminateIncompatibleActive uuid b r at db = (Inr (), db)"
proof (cases "currentRow (ab_DeliveryID b) db")
  case None
  then show ?thesis by (simp add: TerminateIncompatibleActive_def Let_def)
next
  case (Some x)
  obtain d a where x: "x = (d, a)" by force
  have "(d, a) \<in> set (current_pairs db)" "dl_id d = ab_DeliveryID b"
    using currentRow_SomeD [OF Some [unfolded x]] by simp_all
  then have "\<not> binding_met b d a" "dl_id d = ab_DeliveryID b" using assms by blast+
  then show ?thesis using Some x by (auto simp: TerminateIncompatibleActive_def Let_def binding_met_def)
qed

lemma terminated_db_durable:
  assumes u: "inj uuid" and inv: "durable_inv uuid db" and p: "(d, a) \<in> set (current_pairs db)"
  shows "durable_inv uuid (terminated_db uuid r at d a db)"
  unfolding terminated_db_def
proof (rule terminate.durable_commit [OF u inv p])
  have ok: "attempt_ok a" using durable_currentE(1) [OF inv p] .
  show "attempt_ok (terminate_attempt (fst (terminal_status a)) (snd (terminal_status a)) a)"
    using ok by (auto simp: attempt_ok_def terminate_attempt_def terminal_status_def)
  show "in_flight (terminate_attempt (fst (terminal_status a)) (snd (terminal_status a)) a) \<Longrightarrow> in_flight a \<or>
      (\<forall>d' a'. (d', a') \<in> set (current_pairs db) \<longrightarrow> dl_id d' \<noteq> dl_id d \<longrightarrow> in_flight a' \<longrightarrow> \<not> same_resource d' d)"
    by (simp add: in_flight_def terminate_attempt_def terminal_status_def split: if_splits)
qed (simp_all add: terminate_attempt_def status_delivery_def)

lemma TerminateIncompatibleActive_durable:
  assumes u: "inj uuid" and inv: "durable_inv uuid db"
  shows "durable_inv uuid (snd (TerminateIncompatibleActive uuid b r at db))"
proof (cases "\<exists>d a. (d, a) \<in> set (current_pairs db) \<and> binding_met b d a")
  case True
  then obtain d a where p: "(d, a) \<in> set (current_pairs db)" and m: "binding_met b d a" by blast
  show ?thesis
    using TerminateIncompatibleActive_eq [OF u inv p m] terminated_db_durable [OF u inv p] by simp
next
  case False
  then show ?thesis using TerminateIncompatibleActive_skip [of db b uuid r at] inv
    by (simp del: in_current_pairs)
qed

end
