(* ===== verification/Store_Retention.thy ===== *)
theory Store_Retention
  imports Store_Ingest_Props
begin

text \<open>
  Retention (\<^verbatim>\<open>internal/store/retention.go\<close>) and the clearing of the history
  (\<^verbatim>\<open>internal/store/history.go\<close>): what they delete, that they keep the invariants, that no event with
  active or deferred work is ever deleted, and that the limits are met afterwards.
\<close>

section \<open>Deleting an event\<close>

text \<open>\<^verbatim>\<open>DELETE FROM events WHERE id = ?\<close> with the \<^verbatim>\<open>ON DELETE CASCADE\<close> clauses of the schema.\<close>

definition gone_deliveries :: "string \<Rightarrow> db \<Rightarrow> string set" where
  "gone_deliveries i db = dl_id ` {d \<in> set (db_deliveries db). dl_event_id d = i}"

definition gone_attempts :: "string \<Rightarrow> db \<Rightarrow> string set" where
  "gone_attempts i db = at_id ` {a \<in> set (db_attempts db). at_delivery_id a \<in> gone_deliveries i db}"

definition delete_event :: "string \<Rightarrow> db \<Rightarrow> db" where
  "delete_event i db =
     db\<lparr>db_events := filter (\<lambda>e. ev_id e \<noteq> i) (db_events db),
        db_deliveries := filter (\<lambda>d. dl_event_id d \<noteq> i) (db_deliveries db),
        db_attempts := filter (\<lambda>a. at_delivery_id a \<notin> gone_deliveries i db) (db_attempts db),
        db_audits := filter (\<lambda>u. au_event_id u \<noteq> i \<and> au_delivery_id u \<notin> gone_deliveries i db \<and>
                                 au_attempt_id u \<notin> gone_attempts i db) (db_audits db),
        db_queue := filter (\<lambda>q. q_event_id q \<noteq> i) (db_queue db)\<rparr>"

record PruneResult =
  pr_Deleted :: nat
  pr_EventIDs :: "string list"

fun deleteRetentionEvents :: "string list \<Rightarrow> PruneResult \<Rightarrow> db \<Rightarrow> PruneResult \<times> db" where
  "deleteRetentionEvents [] result db = (result, db)"
| "deleteRetentionEvents (i # ids) result db =
     (let count = sql_affected (\<lambda>e. ev_id e = i) (db_events db);
          result' = (if count = 1
                     then \<lparr>pr_Deleted = Suc (pr_Deleted result), pr_EventIDs = pr_EventIDs result @ [i]\<rparr>
                     else result)
      in deleteRetentionEvents ids result' (delete_event i db))"

section \<open>Choosing the events\<close>

type_synonym retentionGroup = "string \<times> string"

definition groupOf :: "event_row \<Rightarrow> retentionGroup" where
  "groupOf e = (ev_source_id e, ev_repository_id e)"

definition retentionGroupLess :: "retentionGroup \<Rightarrow> retentionGroup \<Rightarrow> bool" where
  "retentionGroupLess left right =
     (if fst left \<noteq> fst right then fst left < fst right else snd left < snd right)"

definition retentionGroups :: "db \<Rightarrow> retentionGroup list" where
  "retentionGroups db = sort (remdups (map groupOf (db_events db)))"

text \<open>The \<^verbatim>\<open>sort.Slice\<close> predicate is the order \<open>sort\<close> uses.\<close>

lemma retentionGroupLess_iff: "retentionGroupLess l r \<longleftrightarrow> l < r"
  by (cases l; cases r) (auto simp: retentionGroupLess_def)

definition terminalEvent :: "db \<Rightarrow> event_row \<Rightarrow> bool" where
  "terminalEvent db e \<longleftrightarrow>
     ev_routing_result e \<noteq> RoutingDeferred \<and>
     \<not> list_ex (\<lambda>(d, a). dl_event_id d = ev_id e \<and>
          (at_transport_status a \<in> {TransportPending, TransportSending} \<or>
           at_deployment_status a \<in> {DeploymentLocating, DeploymentRunning, DeploymentUnrecognized}))
        (current_pairs db)"

definition newestFirst :: "event_row \<Rightarrow> millis \<times> string" where
  "newestFirst e = (ev_received_at e, ev_id e)"

definition terminalEventIDsAfter :: "retentionGroup option \<Rightarrow> nat \<Rightarrow> db \<Rightarrow> string list" where
  "terminalEventIDsAfter grp limit db =
     map ev_id (drop limit (rev (sort_key newestFirst
       (filter (\<lambda>e. (case grp of None \<Rightarrow> True | Some g \<Rightarrow> groupOf e = g) \<and> terminalEvent db e)
          (db_events db)))))"

fun pruneGroups ::
  "(retentionGroup \<rightharpoonup> int) \<Rightarrow> int \<Rightarrow> retentionGroup list \<Rightarrow> PruneResult \<Rightarrow> db \<Rightarrow> PruneResult \<times> db" where
  "pruneGroups repositoryLimits defaultLimit [] result db = (result, db)"
| "pruneGroups repositoryLimits defaultLimit (grp # groups) result db =
     (let limit = (case repositoryLimits grp of Some configured \<Rightarrow> configured | None \<Rightarrow> defaultLimit)
      in if limit \<le> 0 then pruneGroups repositoryLimits defaultLimit groups result db
         else case deleteRetentionEvents (terminalEventIDsAfter (Some grp) (nat limit) db) result db of
                (result', db') \<Rightarrow> pruneGroups repositoryLimits defaultLimit groups result' db')"

text \<open>\<open>cutoff\<close> is \<^verbatim>\<open>s.now().AddDate(0, 0, -90)\<close>.\<close>

definition Prune ::
  "time \<Rightarrow> (retentionGroup \<rightharpoonup> int) \<Rightarrow> int \<Rightarrow> int \<Rightarrow> db \<Rightarrow> PruneResult \<times> db" where
  "Prune cutoff repositoryLimits defaultLimit globalLimit db =
     (let db1 = db\<lparr>db_observations := filter (\<lambda>o'. \<not> ob_received_at o' < UnixMilli cutoff) (db_observations db)\<rparr>
      in case pruneGroups repositoryLimits defaultLimit (retentionGroups db1)
                \<lparr>pr_Deleted = 0, pr_EventIDs = []\<rparr> db1 of
           (result, db2) \<Rightarrow>
             if globalLimit > 0
             then deleteRetentionEvents (terminalEventIDsAfter None (nat globalLimit) db2) result db2
             else (result, db2))"

text \<open>\<^verbatim>\<open>DELETE FROM events\<close> cascades to every table but the observations.\<close>

definition ClearHistory :: "db \<Rightarrow> (store_error + nat) \<times> db" where
  "ClearHistory db =
     (if CountActive db > 0 \<or> CountQueued db > 0 then (Inl ErrHistoryActive, db)
      else (Inr (length (db_events db)),
            db\<lparr>db_events := [], db_deliveries := [], db_attempts := [], db_audits := [], db_queue := []\<rparr>))"

section \<open>Deletion keeps the invariants\<close>

lemma kept_attempt_iff:
  assumes "durable_inv uuid db" and "d \<in> set (db_deliveries db)"
  shows "dl_id d \<in> gone_deliveries i db \<longleftrightarrow> dl_event_id d = i"
  using assms(2) delivery_unique [OF durable_inv_keys [OF assms(1)]]
  by (auto simp: gone_deliveries_def)

lemma kept_audits:
  assumes inv: "durable_inv uuid db" and a: "a \<in> set (db_attempts db)" "at_delivery_id a \<notin> gone_deliveries i db"
    and u: "u \<in> set (db_audits db)" "au_attempt_id u = at_id a"
  shows "au_event_id u \<noteq> i \<and> au_delivery_id u \<notin> gone_deliveries i db \<and> au_attempt_id u \<notin> gone_attempts i db"
proof -
  have k: "keys_ok db" and r: "refs_ok db" using inv by (simp_all add: durable_inv_def store_inv_def)
  obtain b where b: "b \<in> set (db_attempts db)" "at_id b = au_attempt_id u" "at_delivery_id b = au_delivery_id u"
    using r u(1) by (fastforce simp: refs_ok_def at_ref_def)
  obtain d where d: "d \<in> set (db_deliveries db)" "dl_id d = au_delivery_id u" "dl_event_id d = au_event_id u"
    using r u(1) by (fastforce simp: refs_ok_def dl_ref_def)
  have "b = a" using attempt_unique [OF k b(1) a(1)] b(2) u(2) by simp
  then have "au_delivery_id u \<notin> gone_deliveries i db" using a(2) b(3) by simp
  moreover have "au_event_id u \<noteq> i" using calculation kept_attempt_iff [OF inv d(1), of i] d by simp
  moreover have "at_id a \<notin> gone_attempts i db"
    using a attempt_unique [OF k a(1)] by (auto simp: gone_attempts_def)
  ultimately show ?thesis using u(2) by simp
qed

lemma delete_event_pairs:
  assumes "durable_inv uuid db"
  shows "(d, a) \<in> set (current_pairs (delete_event i db)) \<longleftrightarrow>
         (d, a) \<in> set (current_pairs db) \<and> dl_event_id d \<noteq> i"
  using kept_attempt_iff [OF assms, of d i] by (auto simp: delete_event_def is_current_def)

lemma delete_event_durable:
  assumes inv: "durable_inv uuid db"
  shows "durable_inv uuid (delete_event i db)" (is "durable_inv uuid ?db")
proof -
  have s: "store_inv uuid db" "audit_inv db" "serialized db" using inv by (simp_all add: durable_inv_def)
  have k: "keys_ok db" and r: "refs_ok db" and q: "queue_ok db" using s by (simp_all add: store_inv_def)
  have dok: "delivery_ok (db_attempts ?db) d" if d: "d \<in> set (db_deliveries db)" "dl_event_id d \<noteq> i" for d
  proof -
    obtain a where a: "(d, a) \<in> set (current_pairs db)" using store_inv_current_exists [OF s(1) d(1)] by blast
    then have "(d, a) \<in> set (current_pairs ?db)" using d(2) delete_event_pairs [OF inv] by blast
    then show ?thesis using store_inv_currentE(2,3) [OF s(1) a]
      by (auto simp: delivery_ok_def)
  qed
  have "keys_ok ?db"
    using k by (auto simp: keys_ok_def delete_event_def distinct_map intro: inj_on_subset)
  moreover have "refs_ok ?db"
  proof -
    have "at_delivery_id a \<in> dl_id ` set (db_deliveries ?db)" if "a \<in> set (db_attempts ?db)" for a
    proof -
      have a: "a \<in> set (db_attempts db)" "at_delivery_id a \<notin> gone_deliveries i db"
        using that by (simp_all add: delete_event_def)
      then obtain d where "d \<in> set (db_deliveries db)" "dl_id d = at_delivery_id a"
        using r by (fastforce simp: refs_ok_def)
      then show ?thesis using a(2) by (force simp: delete_event_def gone_deliveries_def)
    qed
    moreover have "\<exists>e\<in>set (db_events ?db). ev_id e = dl_event_id d \<and> ev_routing_result e = RoutingDeploy"
      if "d \<in> set (db_deliveries ?db)" for d
      using that r by (fastforce simp: delete_event_def refs_ok_def)
    moreover have "(au_attempt_id u, au_delivery_id u) \<in> at_ref ` set (db_attempts ?db) \<and>
        (au_delivery_id u, au_event_id u) \<in> dl_ref ` set (db_deliveries ?db)" if "u \<in> set (db_audits ?db)" for u
    proof -
      have u: "u \<in> set (db_audits db)" "au_event_id u \<noteq> i" "au_delivery_id u \<notin> gone_deliveries i db"
        using that by (simp_all add: delete_event_def)
      then show ?thesis using r by (fastforce simp: refs_ok_def delete_event_def at_ref_def dl_ref_def)
    qed
    ultimately show ?thesis by (simp add: refs_ok_def)
  qed
  moreover have "queue_ok ?db"
  proof -
    have "q_event_id ` set (db_queue ?db) = q_event_id ` set (db_queue db) - {i}"
      by (auto simp: delete_event_def)
    moreover have "ev_id ` {e \<in> set (db_events ?db). ev_routing_result e = RoutingDeferred} =
        ev_id ` {e \<in> set (db_events db). ev_routing_result e = RoutingDeferred} - {i}"
      by (auto simp: delete_event_def)
    ultimately show ?thesis
      using q by (auto simp: queue_ok_def delete_event_def sorted_wrt_filter distinct_map intro: inj_on_subset)
  qed
  moreover have "ids_ok uuid ?db"
    using durable_ids [OF inv] by (auto simp: ids_ok_def delete_event_def)
  moreover have "\<forall>a\<in>set (db_attempts ?db). attempt_ok a"
    using s(1) by (simp add: store_inv_def delete_event_def)
  moreover have "\<forall>d\<in>set (db_deliveries ?db). delivery_ok (db_attempts ?db) d"
    using dok by (simp add: delete_event_def)
  ultimately have "store_inv uuid ?db" by (simp add: store_inv_def)
  moreover have "audit_inv ?db"
  proof -
    have "audited_status ?db (at_id a) = audited_status db (at_id a)" if a: "a \<in> set (db_attempts ?db)" for a
    proof -
      have "filter (\<lambda>u. au_attempt_id u = at_id a) (db_audits ?db) =
          filter (\<lambda>u. au_attempt_id u = at_id a) (db_audits db)"
        using kept_audits [OF inv, of a i] a by (auto simp: delete_event_def intro!: filter_cong)
      then show ?thesis by (simp add: audited_status_def)
    qed
    then show ?thesis using s(2) by (simp add: audit_inv_def) (simp add: delete_event_def)
  qed
  moreover have "serialized ?db"
    using s(3) delete_event_pairs [OF inv] unfolding serialized_def by blast
  ultimately show ?thesis by (simp add: durable_inv_def)
qed

section \<open>Only terminal events are deleted\<close>

lemma terminalEvent_iff:
  "terminalEvent db e \<longleftrightarrow>
     ev_routing_result e \<noteq> RoutingDeferred \<and>
     (\<forall>d a. (d, a) \<in> set (current_pairs db) \<longrightarrow> dl_event_id d = ev_id e \<longrightarrow>
        \<not> Active (at_transport_status a) (at_deployment_status a))"
  by (auto simp: terminalEvent_def list_ex_iff Active_def)

text \<open>\<open>pruned db db'\<close>: \<open>db'\<close> is \<open>db\<close> without the rows of some terminal events.\<close>

definition pruned :: "db \<Rightarrow> db \<Rightarrow> bool" where
  "pruned db db' \<longleftrightarrow>
     (\<exists>D. db_events db' = filter (\<lambda>e. ev_id e \<notin> D) (db_events db) \<and>
        (\<forall>d a. (d, a) \<in> set (current_pairs db') \<longleftrightarrow> (d, a) \<in> set (current_pairs db) \<and> dl_event_id d \<notin> D) \<and>
        (\<forall>e\<in>set (db_events db). ev_id e \<in> D \<longrightarrow> terminalEvent db e))"

lemma pruned_refl: "pruned db db"
  unfolding pruned_def by (rule exI [of _ "{}"]) simp

lemma pruned_terminal:
  assumes "pruned db db'" and "e \<in> set (db_events db')"
  shows "terminalEvent db' e = terminalEvent db e"
  using assms unfolding pruned_def terminalEvent_iff by force

lemma pruned_events: "pruned db db' \<Longrightarrow> set (db_events db') \<subseteq> set (db_events db)"
  by (auto simp: pruned_def)

lemma pruned_trans:
  assumes "pruned db db'" and "pruned db' db''"
  shows "pruned db db''"
proof -
  obtain D where D: "db_events db' = filter (\<lambda>e. ev_id e \<notin> D) (db_events db)"
      "\<forall>d a. (d, a) \<in> set (current_pairs db') \<longleftrightarrow> (d, a) \<in> set (current_pairs db) \<and> dl_event_id d \<notin> D"
      "\<forall>e\<in>set (db_events db). ev_id e \<in> D \<longrightarrow> terminalEvent db e"
    using assms(1) unfolding pruned_def by blast
  obtain E where E: "db_events db'' = filter (\<lambda>e. ev_id e \<notin> E) (db_events db')"
      "\<forall>d a. (d, a) \<in> set (current_pairs db'') \<longleftrightarrow> (d, a) \<in> set (current_pairs db') \<and> dl_event_id d \<notin> E"
      "\<forall>e\<in>set (db_events db'). ev_id e \<in> E \<longrightarrow> terminalEvent db' e"
    using assms(2) unfolding pruned_def by blast
  show ?thesis
    unfolding pruned_def
  proof (intro exI [of _ "D \<union> E"] conjI)
    show "db_events db'' = filter (\<lambda>e. ev_id e \<notin> D \<union> E) (db_events db)"
      unfolding E(1) D(1) filter_filter by (rule filter_cong) auto
    show "\<forall>d a. (d, a) \<in> set (current_pairs db'') \<longleftrightarrow>
        (d, a) \<in> set (current_pairs db) \<and> dl_event_id d \<notin> D \<union> E"
      using D(2) E(2) by blast
    show "\<forall>e\<in>set (db_events db). ev_id e \<in> D \<union> E \<longrightarrow> terminalEvent db e"
    proof (intro ballI impI)
      fix e assume e: "e \<in> set (db_events db)" "ev_id e \<in> D \<union> E"
      show "terminalEvent db e"
      proof (cases "ev_id e \<in> D")
        case True
        then show ?thesis using D(3) e(1) by blast
      next
        case False
        then have "e \<in> set (db_events db')" using D(1) e(1) by simp
        then show ?thesis using E(3) e(2) False pruned_terminal [OF assms(1)] by blast
      qed
    qed
  qed
qed

lemma pruned_delete_event:
  assumes "durable_inv uuid db" and "\<And>e. e \<in> set (db_events db) \<Longrightarrow> ev_id e = i \<Longrightarrow> terminalEvent db e"
  shows "pruned db (delete_event i db)"
  unfolding pruned_def
  using delete_event_pairs [OF assms(1)] assms(2)
  by (intro exI [of _ "{i}"]) (simp add: delete_event_def)

lemma deleteRetentionEvents_spec:
  assumes "durable_inv uuid db"
    and "\<And>e. e \<in> set (db_events db) \<Longrightarrow> ev_id e \<in> set ids \<Longrightarrow> terminalEvent db e"
  shows "durable_inv uuid (snd (deleteRetentionEvents ids res db)) \<and>
     pruned db (snd (deleteRetentionEvents ids res db)) \<and>
     db_events (snd (deleteRetentionEvents ids res db)) = filter (\<lambda>e. ev_id e \<notin> set ids) (db_events db)"
  using assms
proof (induction ids arbitrary: res db)
  case Nil
  then show ?case by (simp add: pruned_refl)
next
  case (Cons i ids)
  have p: "pruned db (delete_event i db)" by (rule pruned_delete_event [OF Cons.prems(1)]) (use Cons.prems(2) in simp)
  have t: "terminalEvent (delete_event i db) e"
    if "e \<in> set (db_events (delete_event i db))" "ev_id e \<in> set ids" for e
    using that pruned_terminal [OF p that(1)] pruned_events [OF p] Cons.prems(2) by auto
  have ev: "db_events (delete_event i db) = filter (\<lambda>e. ev_id e \<noteq> i) (db_events db)"
    by (simp add: delete_event_def)
  let ?res = "if sql_affected (\<lambda>e. ev_id e = i) (db_events db) = 1
      then \<lparr>pr_Deleted = Suc (pr_Deleted res), pr_EventIDs = pr_EventIDs res @ [i]\<rparr> else res"
  have step: "deleteRetentionEvents (i # ids) res db = deleteRetentionEvents ids ?res (delete_event i db)"
    by (simp add: Let_def)
  show ?case
    unfolding step
    using Cons.IH [OF delete_event_durable [OF Cons.prems(1)] t, of ?res] pruned_trans [OF p]
    by (auto simp: ev intro!: filter_cong)
qed

section \<open>The limits\<close>

definition inScope :: "retentionGroup option \<Rightarrow> event_row \<Rightarrow> bool" where
  "inScope grp e = (case grp of None \<Rightarrow> True | Some g \<Rightarrow> groupOf e = g)"

definition terminalCount :: "retentionGroup option \<Rightarrow> db \<Rightarrow> nat" where
  "terminalCount grp db = length (filter (\<lambda>e. inScope grp e \<and> terminalEvent db e) (db_events db))"

lemma chosen_terminal:
  assumes "keys_ok db" and "e \<in> set (db_events db)" and "ev_id e \<in> set (terminalEventIDsAfter grp n db)"
  shows "terminalEvent db e \<and> inScope grp e"
proof -
  have "ev_id e \<in> ev_id ` set (filter (\<lambda>e. inScope grp e \<and> terminalEvent db e) (db_events db))"
    using assms(3) set_drop_subset
    by (fastforce simp: terminalEventIDsAfter_def inScope_def [abs_def] cong: option.case_cong)
  then show ?thesis using event_unique [OF assms(1,2)] by auto
qed

lemma filter_not_dropped:
  assumes "distinct (map k l)"
  shows "filter (\<lambda>x. k x \<notin> k ` set (drop n l)) l = take n l"
proof -
  have l: "l = take n l @ drop n l" by simp
  have d: "k x \<notin> k ` set (drop n l)" if "x \<in> set (take n l)" for x
    using assms that by (metis (no_types, lifting) append_take_drop_id distinct_append image_eqI disjoint_iff
        list.set_map map_append)
  have "filter (\<lambda>x. k x \<notin> k ` set (drop n l)) (take n l @ drop n l) = take n l"
    unfolding filter_append using d by (simp add: filter_empty_conv filter_id_conv del: append_take_drop_id)
  then show ?thesis using l by simp
qed

lemma length_filter_mset: "mset xs = mset ys \<Longrightarrow> length (filter P xs) = length (filter P ys)"
  by (metis mset_filter size_mset)

text \<open>One pass leaves at most \<open>n\<close> terminal events in its scope.\<close>

lemma pass_limit:
  assumes inv: "durable_inv uuid db"
  shows "terminalCount grp (snd (deleteRetentionEvents (terminalEventIDsAfter grp n db) res db)) \<le> n"
proof -
  let ?ids = "terminalEventIDsAfter grp n db"
  let ?db = "snd (deleteRetentionEvents ?ids res db)"
  let ?S = "filter (\<lambda>e. inScope grp e \<and> terminalEvent db e) (db_events db)"
  let ?L = "rev (sort_key newestFirst ?S)"
  have k: "keys_ok db" using inv by (rule durable_inv_keys)
  have spec: "pruned db ?db" "db_events ?db = filter (\<lambda>e. ev_id e \<notin> set ?ids) (db_events db)"
    using deleteRetentionEvents_spec [OF inv, of ?ids res] chosen_terminal [OF k] by blast+
  have ids: "set ?ids = ev_id ` set (drop n ?L)"
    by (simp add: terminalEventIDsAfter_def inScope_def)
  have dist: "distinct (map ev_id ?L)"
    using k by (simp add: keys_ok_def distinct_map inj_on_def)
  have "filter (\<lambda>e. inScope grp e \<and> terminalEvent ?db e) (db_events ?db) =
      filter (\<lambda>e. inScope grp e \<and> terminalEvent db e) (db_events ?db)"
    by (rule filter_cong [OF refl]) (simp add: pruned_terminal [OF spec(1)])
  also have "\<dots> = filter (\<lambda>e. ev_id e \<notin> set ?ids) ?S"
    unfolding spec(2) filter_filter by (rule filter_cong) auto
  finally have "terminalCount grp ?db = length (filter (\<lambda>e. ev_id e \<notin> set ?ids) ?S)"
    by (simp add: terminalCount_def)
  also have "\<dots> = length (filter (\<lambda>e. ev_id e \<notin> set ?ids) ?L)"
    by (rule length_filter_mset) simp
  also have "\<dots> = length (take n ?L)" unfolding ids filter_not_dropped [OF dist] ..
  finally show ?thesis by simp
qed

lemma pruned_count:
  assumes "pruned db db'"
  shows "terminalCount grp db' \<le> terminalCount grp db"
proof -
  obtain D where D: "db_events db' = filter (\<lambda>e. ev_id e \<notin> D) (db_events db)"
    using assms unfolding pruned_def by blast
  have "filter (\<lambda>e. inScope grp e \<and> terminalEvent db' e) (db_events db') =
      filter (\<lambda>e. ev_id e \<notin> D) (filter (\<lambda>e. inScope grp e \<and> terminalEvent db e) (db_events db))"
    using pruned_terminal [OF assms] unfolding D filter_filter by (auto intro!: filter_cong)
  then show ?thesis by (simp only: terminalCount_def length_filter_le)
qed

text \<open>The survivors of a pass are newer than what it deletes.\<close>

lemma pass_keeps_newest:
  assumes "keys_ok db" and "e \<in> set (db_events db)" and "ev_id e \<in> set (terminalEventIDsAfter grp n db)"
    and "e' \<in> set (db_events db)" and "inScope grp e'" and "terminalEvent db e'"
    and "ev_id e' \<notin> set (terminalEventIDsAfter grp n db)"
  shows "newestFirst e < newestFirst e'"
proof -
  let ?S = "filter (\<lambda>e. inScope grp e \<and> terminalEvent db e) (db_events db)"
  let ?L = "rev (sort_key newestFirst ?S)"
  have ids: "set (terminalEventIDsAfter grp n db) = ev_id ` set (drop n ?L)"
    by (simp add: terminalEventIDsAfter_def inScope_def)
  have e: "e \<in> set (drop n ?L)"
  proof -
    obtain x where x: "x \<in> set (drop n ?L)" "ev_id x = ev_id e" using assms(3) unfolding ids by force
    have "x \<in> set (db_events db)" using x(1) in_set_dropD by fastforce
    then show ?thesis using x event_unique [OF assms(1) _ assms(2)] by auto
  qed
  have "e' \<in> set ?L" "e' \<notin> set (drop n ?L)" using assms(4-7) ids by auto
  then have e': "e' \<in> set (take n ?L)" by (metis Un_iff append_take_drop_id set_append)
  have "sorted_wrt (\<lambda>x y. newestFirst y \<le> newestFirst x) (take n ?L @ drop n ?L)"
    using sorted_sort_key [of newestFirst ?S] by (simp add: sorted_wrt_rev sorted_map)
  then have "newestFirst e \<le> newestFirst e'" using e e' unfolding sorted_wrt_append by blast
  moreover have "newestFirst e \<noteq> newestFirst e'"
    using assms(3,7) by (auto simp: newestFirst_def)
  ultimately show ?thesis by simp
qed

definition limitFor :: "(retentionGroup \<rightharpoonup> int) \<Rightarrow> int \<Rightarrow> retentionGroup \<Rightarrow> int" where
  "limitFor limits dflt g = (case limits g of Some configured \<Rightarrow> configured | None \<Rightarrow> dflt)"

lemma pass_spec:
  assumes inv: "durable_inv uuid db"
  shows "durable_inv uuid (snd (deleteRetentionEvents (terminalEventIDsAfter grp n db) res db)) \<and>
     pruned db (snd (deleteRetentionEvents (terminalEventIDsAfter grp n db) res db))"
  using deleteRetentionEvents_spec [OF inv] chosen_terminal [OF durable_inv_keys [OF inv]] by blast

lemma pruneGroups_spec:
  assumes "durable_inv uuid db"
  shows "durable_inv uuid (snd (pruneGroups limits dflt gs res db)) \<and>
     pruned db (snd (pruneGroups limits dflt gs res db)) \<and>
     (\<forall>g\<in>set gs. 0 < limitFor limits dflt g \<longrightarrow>
        int (terminalCount (Some g) (snd (pruneGroups limits dflt gs res db))) \<le> limitFor limits dflt g)"
  using assms
proof (induction gs arbitrary: res db)
  case Nil
  then show ?case by (simp add: pruned_refl)
next
  case (Cons g gs)
  show ?case
  proof (cases "limitFor limits dflt g \<le> 0")
    case True
    then show ?thesis using Cons by (simp add: limitFor_def Let_def)
  next
    case False
    let ?n = "nat (limitFor limits dflt g)"
    let ?pass = "deleteRetentionEvents (terminalEventIDsAfter (Some g) ?n db) res db"
    have step: "pruneGroups limits dflt (g # gs) res db = pruneGroups limits dflt gs (fst ?pass) (snd ?pass)"
      using False by (simp add: limitFor_def Let_def split_beta)
    have p: "durable_inv uuid (snd ?pass)" "pruned db (snd ?pass)" using pass_spec [OF Cons.prems] by blast+
    note rest = Cons.IH [OF p(1), of "fst ?pass"]
    have "int (terminalCount (Some g) (snd ?pass)) \<le> limitFor limits dflt g"
      using pass_limit [OF Cons.prems, of "Some g" ?n res] False by linarith
    then have "int (terminalCount (Some g) (snd (pruneGroups limits dflt gs (fst ?pass) (snd ?pass))))
        \<le> limitFor limits dflt g"
      using pruned_count rest by (meson of_nat_mono order_trans)
    then show ?thesis unfolding step using rest pruned_trans [OF p(2)] by auto
  qed
qed

lemma durable_observations:
  assumes inv: "durable_inv uuid db"
  shows "durable_inv uuid (db\<lparr>db_observations := o'\<rparr>)"
  by (rule durable_events [OF inv])
    (use inv durable_ids(1) [OF inv] in \<open>auto simp: durable_inv_def store_inv_def keys_ok_def queue_ok_def eventKey_abs\<close>)

lemma pruned_observations: "pruned (db\<lparr>db_observations := o'\<rparr>) db' \<Longrightarrow> pruned db db'"
  by (simp add: pruned_def current_pairs_def terminalEvent_def)

lemma Prune_spec:
  assumes inv: "durable_inv uuid db"
  shows "durable_inv uuid (snd (Prune cutoff limits dflt global db))"
    and "pruned db (snd (Prune cutoff limits dflt global db))"
    and "0 < limitFor limits dflt g \<Longrightarrow>
      int (terminalCount (Some g) (snd (Prune cutoff limits dflt global db))) \<le> limitFor limits dflt g"
    and "0 < global \<Longrightarrow> int (terminalCount None (snd (Prune cutoff limits dflt global db))) \<le> global"
proof -
  let ?db1 = "db\<lparr>db_observations := filter (\<lambda>o'. \<not> ob_received_at o' < UnixMilli cutoff) (db_observations db)\<rparr>"
  let ?gs = "pruneGroups limits dflt (retentionGroups ?db1) \<lparr>pr_Deleted = 0, pr_EventIDs = []\<rparr> ?db1"
  let ?pass = "deleteRetentionEvents (terminalEventIDsAfter None (nat global) (snd ?gs)) (fst ?gs) (snd ?gs)"
  let ?db' = "snd (Prune cutoff limits dflt global db)"
  have eq: "?db' = (if 0 < global then snd ?pass else snd ?gs)"
    by (simp add: Prune_def Let_def split_beta)
  have inv1: "durable_inv uuid ?db1" by (rule durable_observations [OF inv])
  note groups = pruneGroups_spec [OF inv1, of limits dflt "retentionGroups ?db1" "\<lparr>pr_Deleted = 0, pr_EventIDs = []\<rparr>"]
  note last = pass_spec [OF conjunct1 [OF groups], of None "nat global" "fst ?gs"]
  have p2: "pruned (snd ?gs) ?db'" unfolding eq using last pruned_refl by simp
  show "durable_inv uuid ?db'" unfolding eq using last groups by simp
  show "pruned db ?db'" using pruned_trans [OF _ p2] pruned_observations groups by blast
  show "0 < limitFor limits dflt g \<Longrightarrow> int (terminalCount (Some g) ?db') \<le> limitFor limits dflt g"
  proof (cases "g \<in> set (retentionGroups ?db1)")
    case True
    assume "0 < limitFor limits dflt g"
    then have "int (terminalCount (Some g) (snd ?gs)) \<le> limitFor limits dflt g" using groups True by blast
    then show ?thesis using pruned_count [OF p2, of "Some g"] by linarith
  next
    case False
    assume "0 < limitFor limits dflt g"
    have "filter (\<lambda>e. inScope (Some g) e \<and> terminalEvent db e) (db_events db) = []"
      using False by (auto simp: retentionGroups_def inScope_def filter_empty_conv)
    then have "terminalCount (Some g) db = 0" by (simp add: terminalCount_def)
    moreover have "terminalCount (Some g) ?db' \<le> terminalCount (Some g) db"
      using pruned_trans [OF _ p2] pruned_observations groups by (blast intro: pruned_count)
    ultimately show ?thesis using \<open>0 < limitFor limits dflt g\<close> by simp
  qed
  show "0 < global \<Longrightarrow> int (terminalCount None ?db') \<le> global"
    unfolding eq using pass_limit [OF conjunct1 [OF groups], of None "nat global" "fst ?gs"] by simp
qed

section \<open>Clearing the history\<close>

lemma ClearHistory_durable:
  assumes "durable_inv uuid db"
  shows "durable_inv uuid (snd (ClearHistory db))"
proof (cases "CountActive db > 0 \<or> CountQueued db > 0")
  case True
  then show ?thesis using assms by (simp add: ClearHistory_def)
next
  case False
  have "durable_inv uuid (db\<lparr>db_events := [], db_deliveries := [], db_attempts := [], db_audits := [], db_queue := []\<rparr>)"
    by (simp add: durable_inv_def store_inv_def keys_ok_def refs_ok_def queue_ok_def ids_ok_def
      audit_inv_def serialized_def current_pairs_def)
  then show ?thesis using False by (simp add: ClearHistory_def)
qed

lemma ClearHistory_refuses:
  "fst (ClearHistory db) = Inl ErrHistoryActive \<longleftrightarrow>
     (\<exists>(d, a)\<in>set (current_pairs db). Active (at_transport_status a) (at_deployment_status a)) \<or> db_queue db \<noteq> []"
  using CountActive_zero_iff [of db] by (auto simp: ClearHistory_def CountQueued_def)

end
