(* ===== verification/Store_Evolution.thy ===== *)
theory Store_Evolution
  imports Store_Restart Store_Manual_Props Store_Retention
begin

text \<open>
  How the rows of \<^verbatim>\<open>delivery_attempts\<close> evolve under every transaction of the store. Between the claim of a
  poll and its completion, and between the recording of a request and the send, other transactions may
  run; what the workers rely on is that no transaction changes a row that carries a poll token without
  clearing the token, that the mark of a recorded request never disappears, and that an identifier is
  never used twice. \<open>evolves\<close> states this for two databases; every operation is shown to respect it.
\<close>

section \<open>The relation\<close>

definition carries :: "string set \<Rightarrow> attempt_row \<Rightarrow> attempt_row \<Rightarrow> bool" where
  "carries X a b \<longleftrightarrow>
     at_id b = at_id a \<and> (at_request_at a \<noteq> None \<longrightarrow> at_request_at b \<noteq> None) \<and>
     (at_last_polled_at b = None \<or> at_id a \<in> X \<or>
      (at_last_polled_at b = at_last_polled_at a \<and> at_transport_status b = at_transport_status a \<and>
       at_deployment_status b = at_deployment_status a \<and> at_deployment_id b = at_deployment_id a))"

definition fresh_row :: "(nat \<Rightarrow> string) \<Rightarrow> db \<Rightarrow> attempt_row \<Rightarrow> bool" where
  "fresh_row uuid db b \<longleftrightarrow> at_id b \<notin> uuid ` {..<db_uuids db} \<and> at_last_polled_at b = None"

text \<open>\<open>X\<close> holds the attempts whose poll the transaction itself claims or completes.\<close>

definition evolves :: "(nat \<Rightarrow> string) \<Rightarrow> string set \<Rightarrow> db \<Rightarrow> db \<Rightarrow> bool" where
  "evolves uuid X db db' \<longleftrightarrow>
     db_uuids db \<le> db_uuids db' \<and>
     (\<forall>b\<in>set (db_attempts db'). (\<exists>a\<in>set (db_attempts db). carries X a b) \<or> fresh_row uuid db b)"

lemma carries_refl [simp]: "carries X a a"
  by (simp add: carries_def)

lemma evolves_same:
  "db_attempts db' = db_attempts db \<Longrightarrow> db_uuids db \<le> db_uuids db' \<Longrightarrow> evolves uuid X db db'"
  by (auto simp: evolves_def intro: carries_refl)

lemma evolves_refl [simp]: "evolves uuid X db db"
  by (rule evolves_same) simp_all

lemma evolves_subset:
  "set (db_attempts db') \<subseteq> set (db_attempts db) \<Longrightarrow> db_uuids db \<le> db_uuids db' \<Longrightarrow> evolves uuid X db db'"
  by (auto simp: evolves_def intro: carries_refl)

lemma carries_trans: "carries X a b \<Longrightarrow> carries X b c \<Longrightarrow> carries X a c"
  by (auto simp: carries_def)

lemma carries_fresh: "fresh_row uuid db b \<Longrightarrow> carries X b c \<Longrightarrow> X \<subseteq> uuid ` {..<db_uuids db} \<Longrightarrow> fresh_row uuid db c"
  by (auto simp: fresh_row_def carries_def)

lemma evolves_trans0: "evolves uuid X db db' \<Longrightarrow> fresh_row uuid db' c \<Longrightarrow> fresh_row uuid db c"
  by (auto simp: evolves_def fresh_row_def)

lemma evolves_trans:
  assumes "evolves uuid X db db'" and "evolves uuid X db' db''" and X: "X \<subseteq> uuid ` {..<db_uuids db}"
  shows "evolves uuid X db db''"
  unfolding evolves_def
proof (intro conjI ballI)
  show "db_uuids db \<le> db_uuids db''" using assms(1,2) by (auto simp: evolves_def)
  fix c assume "c \<in> set (db_attempts db'')"
  then consider (old) b where "b \<in> set (db_attempts db')" "carries X b c" | (new) "fresh_row uuid db' c"
    using assms(2) by (auto simp: evolves_def)
  then show "(\<exists>a\<in>set (db_attempts db). carries X a c) \<or> fresh_row uuid db c"
  proof cases
    case old
    then consider a where "a \<in> set (db_attempts db)" "carries X a b" | "fresh_row uuid db b"
      using assms(1) by (auto simp: evolves_def)
    then show ?thesis
    proof cases
      case 1
      then show ?thesis using old(2) carries_trans by blast
    next
      case 2
      then show ?thesis using carries_fresh [OF _ old(2) X] by blast
    qed
  next
    case new
    then show ?thesis using evolves_trans0 [OF assms(1)] by blast
  qed
qed

lemma carries_mono: "carries X a b \<Longrightarrow> X \<subseteq> Y \<Longrightarrow> carries Y a b"
  by (auto simp: carries_def)

lemma evolves_mono: "evolves uuid X db db' \<Longrightarrow> X \<subseteq> Y \<Longrightarrow> evolves uuid Y db db'"
  unfolding evolves_def using carries_mono by blast

lemma sql_update_memD: "b \<in> set (sql_update p f t) \<Longrightarrow> \<exists>a\<in>set t. b = (if p a then f a else a)"
  unfolding set_sql_update by blast

lemma updated_carries:
  assumes "b \<in> set (sql_update p f t)" and "\<And>a. a \<in> set t \<Longrightarrow> p a \<Longrightarrow> carries X a (f a)"
  shows "\<exists>a\<in>set t. carries X a b"
proof -
  obtain a where "a \<in> set t" "b = (if p a then f a else a)" using sql_update_memD [OF assms(1)] by blast
  then show ?thesis using assms(2) carries_refl [of X a] by (intro bexI [of _ a]) (auto split: if_splits)
qed

lemma evolves_update:
  assumes "db_attempts db' = sql_update p f (db_attempts db)" and "db_uuids db \<le> db_uuids db'"
    and "\<And>a. a \<in> set (db_attempts db) \<Longrightarrow> p a \<Longrightarrow> carries X a (f a)"
  shows "evolves uuid X db db'"
  using assms(1,2) updated_carries [OF _ assms(3)] unfolding evolves_def by simp

lemma evolves_after_update:
  assumes "db_attempts db1 = sql_update p f (db_attempts db)" and "db_uuids db1 = db_uuids db"
    and "\<And>a. a \<in> set (db_attempts db) \<Longrightarrow> p a \<Longrightarrow> carries X a (f a)" and e: "evolves uuid X db1 db2"
  shows "evolves uuid X db db2"
  unfolding evolves_def
proof (intro conjI ballI)
  show "db_uuids db \<le> db_uuids db2" using e assms(2) by (simp add: evolves_def)
  fix b assume "b \<in> set (db_attempts db2)"
  then consider c where "c \<in> set (db_attempts db1)" "carries X c b" | "fresh_row uuid db1 b"
    using e by (auto simp: evolves_def)
  then show "(\<exists>a\<in>set (db_attempts db). carries X a b) \<or> fresh_row uuid db b"
  proof cases
    case 1
    then show ?thesis using updated_carries [OF _ assms(3)] assms(1) carries_trans by metis
  next
    case 2
    then show ?thesis by (simp add: fresh_row_def assms(2))
  qed
qed

lemma evolves_touch:
  assumes "a \<in> set (db_attempts db)" and "keys_ok db" and "carries X a (f a)"
  shows "evolves uuid X db (touch_pair (at_id a) j f g db)"
  using assms attempt_unique [OF assms(2)]
  by (intro evolves_update [where p = "\<lambda>r. at_id r = at_id a" and f = f]) auto

lemma evolves_append_audit: "evolves uuid X db db' \<Longrightarrow> evolves uuid X db (append_audit u db')"
  by (auto simp: evolves_def)

section \<open>The work queue\<close>

lemma durable_attempt_ok: "durable_inv uuid db \<Longrightarrow> a \<in> set (db_attempts db) \<Longrightarrow> attempt_ok a"
  by (simp add: durable_inv_def store_inv_def)

lemma unpolled_carries:
  assumes "attempt_ok a" and "at_transport_status a \<in> {TransportPending, TransportSending}"
    and "at_id b = at_id a" and "at_request_at b = at_request_at a" and "at_last_polled_at b = at_last_polled_at a"
  shows "carries X a b"
  using assms by (auto simp: carries_def attempt_ok_def)

lemma ClaimPendingAttempt_evolves:
  assumes u: "inj uuid" and inv: "durable_inv uuid db"
  shows "evolves uuid X db (snd (ClaimPendingAttempt uuid now db))"
proof (cases "sql_first (sort_key claimOrder (filter (claimable db) (current_triples db)))")
  case None
  then show ?thesis by (simp add: ClaimPendingAttempt_None_eq)
next
  case (Some x)
  obtain e d a where x: "x = (e, d, a)" by (metis prod_cases3)
  have "(e, d, a) \<in> set (filter (claimable db) (current_triples db))"
    using sql_first_SomeD [OF Some] x by simp
  then have a: "a \<in> set (db_attempts db)" "at_transport_status a = TransportPending" by (auto simp: claimable_iff)
  have "carries X a (claim_attempt a)"
    using unpolled_carries [OF durable_attempt_ok [OF inv a(1)]] a(2) by (simp add: claim_attempt_def)
  then show ?thesis
    using ClaimPendingAttempt_Some_eq [OF u inv Some [unfolded x]] a(1) durable_inv_keys [OF inv]
    by (simp add: claimed_db_def evolves_append_audit evolves_touch)
qed

lemma transitionAttempt_evolves:
  assumes u: "inj uuid" and inv: "durable_inv uuid db"
  shows "evolves uuid X db (snd (transitionAttempt uuid aid rq rs at t ds action en due dl db))"
proof (cases "\<exists>d a. (d, a) \<in> set (current_pairs db) \<and> at_id a = aid \<and> at_transport_status a = TransportSending")
  case True
  then obtain d a where p: "(d, a) \<in> set (current_pairs db)" and i: "at_id a = aid"
      and s: "at_transport_status a = TransportSending" by blast
  have "carries X a (outcome_attempt t ds rq rs at en due dl a)"
    using unpolled_carries [OF durable_currentE(1) [OF inv p]] s by (simp add: outcome_attempt_def)
  then show ?thesis
    using transitionAttempt_eq [OF u inv p s, of rq rs at t ds action en due dl] p durable_inv_keys [OF inv]
    unfolding i [symmetric] by (simp add: transitioned_db_def evolves_append_audit evolves_touch)
next
  case False
  then show ?thesis
    using transitionAttempt_reject [OF durable_inv_keys [OF inv], of aid] by (metis evolves_refl snd_conv)
qed

lemma Mark_evolves:
  assumes "inj uuid" and "durable_inv uuid db"
  shows "evolves uuid X db (snd (MarkEnqueued uuid aid rq rs at due dl db))"
    and "evolves uuid X db (snd (MarkAccepted uuid aid rq rs at db))"
    and "evolves uuid X db (snd (MarkTransportFailed uuid aid rq rs at db))"
    and "evolves uuid X db (snd (MarkTransportUnknown uuid aid rq rs at due dl db))"
    and "evolves uuid X db (snd (MarkTransportUnknownTerminal uuid aid rq rs at db))"
  unfolding MarkEnqueued_def MarkAccepted_def MarkTransportFailed_def MarkTransportUnknown_def
    MarkTransportUnknownTerminal_def
  by (rule transitionAttempt_evolves [OF assms])+

lemma RecordDeploymentRequest_evolves: "evolves uuid X db (snd (RecordDeploymentRequest aid rq at db))"
  unfolding RecordDeploymentRequest_def Let_def snd_if_same
  by (rule evolves_update, simp, simp) (simp add: carries_def record_attempt_def)

lemma SetDeploymentCursor_evolves: "evolves uuid X db (snd (SetDeploymentCursor aid c db))"
  unfolding SetDeploymentCursor_def Let_def snd_if_same
  by (rule evolves_update, simp, simp) (simp add: carries_def cursor_attempt_def)

section \<open>Polls\<close>

text \<open>\<open>ListDuePolls\<close> writes a token only into the rows it returns; a returned row is due, its token is the
  time of the claim, and the work item describes it.\<close>

definition describes :: "PollWork \<Rightarrow> attempt_row \<Rightarrow> bool" where
  "describes w a \<longleftrightarrow>
     pw_AttemptID w = at_id a \<and> pw_TransportStatus w = at_transport_status a \<and>
     pw_DeploymentStatus w = at_deployment_status a \<and> pw_DeploymentID w = nullString (at_deployment_id a) \<and>
     monitored (at_deployment_status a)"

definition work_ok :: "db \<Rightarrow> PollWork \<Rightarrow> bool" where
  "work_ok db w \<longleftrightarrow>
     (\<forall>a\<in>set (db_attempts db). at_id a = pw_AttemptID w \<longrightarrow>
        at_last_polled_at a = Some (UnixMilli (pw_ClaimedAt w)) \<longrightarrow> describes w a)"

lemma work_ok_evolves:
  assumes "work_ok db w" and "evolves uuid X db db'" and "pw_AttemptID w \<notin> X"
    and "pw_AttemptID w \<in> uuid ` {..<db_uuids db}"
  shows "work_ok db' w"
  unfolding work_ok_def
proof (intro ballI impI)
  fix b assume b: "b \<in> set (db_attempts db')" "at_id b = pw_AttemptID w"
    "at_last_polled_at b = Some (UnixMilli (pw_ClaimedAt w))"
  then obtain a where a: "a \<in> set (db_attempts db)" "carries X a b"
    using assms(2,4) by (auto simp: evolves_def fresh_row_def)
  then have "describes w a" using assms(1,3) b by (auto simp: work_ok_def carries_def)
  then show "describes w b" using a(2) b(3) assms(3) by (auto simp: carries_def describes_def)
qed

lemma claimPolls_evolves: "evolves uuid (pw_AttemptID ` set ws) db (snd (claimPolls n ws db))"
proof (induction ws arbitrary: db)
  case Nil
  then show ?case by simp
next
  case (Cons w ws)
  let ?db = "db\<lparr>db_attempts := sql_update (claimPollCond n w db) (polled_attempt n) (db_attempts db)\<rparr>"
  have "evolves uuid (pw_AttemptID ` set (w # ws)) ?db (snd (claimPolls n ws ?db))"
    using evolves_mono [OF Cons.IH [of ?db]] by (simp add: subset_insertI)
  then have "evolves uuid (pw_AttemptID ` set (w # ws)) db (snd (claimPolls n ws ?db))"
    by (rule evolves_after_update [rotated 3, where p = "claimPollCond n w db" and f = "polled_attempt n"])
      (simp_all add: carries_def claimPollCond_def polled_attempt_def)
  then show ?case by (simp add: Let_def split_beta)
qed


definition described :: "db \<Rightarrow> PollWork \<Rightarrow> bool" where
  "described db w \<longleftrightarrow> (\<forall>a\<in>set (db_attempts db). at_id a = pw_AttemptID w \<longrightarrow> describes w a)"

lemma described_work_ok: "described db w \<Longrightarrow> work_ok db w"
  by (simp add: described_def work_ok_def)

lemma described_polled:
  assumes "described db w"
  shows "described (db\<lparr>db_attempts := sql_update p (polled_attempt n) (db_attempts db)\<rparr>) w"
  unfolding described_def
proof (intro ballI impI)
  fix b assume b: "b \<in> set (db_attempts (db\<lparr>db_attempts := sql_update p (polled_attempt n) (db_attempts db)\<rparr>))"
    "at_id b = pw_AttemptID w"
  have "b \<in> set (sql_update p (polled_attempt n) (db_attempts db))" using b(1) by simp
  then obtain a where "a \<in> set (db_attempts db)" "b = (if p a then polled_attempt n a else a)"
    by (rule sql_update_memD [THEN bexE])
  then show "describes w b"
    using assms b(2) by (auto simp: described_def describes_def polled_attempt_def split: if_splits)
qed

lemma claimPolls_described: "described db w \<Longrightarrow> described (snd (claimPolls n ws db)) w"
  by (induction ws arbitrary: db) (simp_all add: Let_def split_beta described_polled)

lemma claimPolls_subseq:
  "set (fst (claimPolls n ws db)) \<subseteq> set ws \<and>
   (distinct (map pw_AttemptID ws) \<longrightarrow> distinct (map pw_AttemptID (fst (claimPolls n ws db))))"
proof (induction ws arbitrary: db)
  case Nil
  then show ?case by simp
next
  case (Cons w ws)
  let ?db = "db\<lparr>db_attempts := sql_update (claimPollCond n w db) (polled_attempt n) (db_attempts db)\<rparr>"
  have "set (fst (claimPolls n ws ?db)) \<subseteq> set ws"
    and "distinct (map pw_AttemptID ws) \<longrightarrow> distinct (map pw_AttemptID (fst (claimPolls n ws ?db)))"
    using Cons.IH [of ?db] by blast+
  then show ?case by (auto simp: Let_def split_beta)
qed

lemma pollCandidates_mem:
  assumes "w \<in> set (pollCandidates now db)"
  shows "\<exists>e d a. (e, d, a) \<in> set (current_triples db) \<and> pollDue (UnixMilli now) a \<and> w = pollWorkOf now (e, d, a)"
proof -
  obtain x where x: "w = pollWorkOf now x"
      "x \<in> set (sort_key pollOrder (filter (\<lambda>(e, d, a). pollDue (UnixMilli now) a) (current_triples db)))"
    using assms unfolding pollCandidates_def set_map by (meson imageE in_set_takeD)
  obtain e d a where "x = (e, d, a)" by (metis prod_cases3)
  then show ?thesis using x by (intro exI [of _ e] exI [of _ d] exI [of _ a]) simp
qed

lemma pollWorkOf_describes: "pollDue n a \<Longrightarrow> describes (pollWorkOf now (e, d, a)) a"
  by (auto simp: describes_def pollWorkOf_def pollDue_def split: option.splits)

lemma candidates_described:
  assumes "keys_ok db" and "w \<in> set (pollCandidates now db)"
  shows "described db w"
proof -
  obtain e d a where c: "(e, d, a) \<in> set (current_triples db)" "pollDue (UnixMilli now) a" "w = pollWorkOf now (e, d, a)"
    using pollCandidates_mem [OF assms(2)] by blast
  have "describes w a" using c pollWorkOf_describes by simp
  then show ?thesis
    using c(1) attempt_unique [OF assms(1)] by (auto simp: described_def describes_def c(3) pollWorkOf_def)
qed

lemma triple_unique:
  assumes k: "keys_ok db" and x: "(e, d, a) \<in> set (current_triples db)" and y: "(e', d', a') \<in> set (current_triples db)"
    and i: "at_id a = at_id a'"
  shows "(e, d, a) = (e', d', a')"
proof -
  have a: "a = a'" using attempt_unique [OF k] x y i by simp
  then have d: "d = d'" using delivery_unique [OF k, of d d'] x y by (simp add: is_current_def)
  then show ?thesis using a event_unique [OF k, of e e'] x y by simp
qed

lemma distinct_current_triples:
  assumes k: "keys_ok db"
  shows "distinct (map (\<lambda>(e, d, a). at_id a) (current_triples db))"
proof -
  have "distinct (db_events db)" using k by (simp add: keys_ok_def distinct_map)
  then have "distinct (current_triples db)"
    unfolding current_triples_def using distinct_current_pairs [OF k] by (simp add: distinct_product)
  moreover have "inj_on (\<lambda>(e, d, a). at_id a) (set (current_triples db))"
    using triple_unique [OF k] by (force simp del: in_current_triples intro!: inj_onI)
  ultimately show ?thesis by (simp add: distinct_map)
qed

lemma candidates_distinct:
  assumes k: "keys_ok db"
  shows "distinct (map pw_AttemptID (pollCandidates now db))"
proof -
  let ?l = "sort_key pollOrder (filter (\<lambda>(e, d, a). pollDue (UnixMilli now) a) (current_triples db))"
  have "distinct (map (\<lambda>(e, d, a). at_id a) (filter (\<lambda>(e, d, a). pollDue (UnixMilli now) a) (current_triples db)))"
    using distinct_current_triples [OF k] by (simp add: distinct_map_filter)
  moreover have "mset (map (\<lambda>(e, d, a). at_id a) ?l) =
      mset (map (\<lambda>(e, d, a). at_id a) (filter (\<lambda>(e, d, a). pollDue (UnixMilli now) a) (current_triples db)))"
    by simp
  ultimately have "distinct (map (\<lambda>(e, d, a). at_id a) ?l)" by (metis mset_eq_imp_distinct_iff)
  then have "distinct (take maxPollBatch (map (\<lambda>(e, d, a). at_id a) ?l))" by (rule distinct_take)
  moreover have "pw_AttemptID \<circ> pollWorkOf now = (\<lambda>(e, d, a). at_id a)"
    by (auto simp: pollWorkOf_def)
  ultimately show ?thesis by (simp add: pollCandidates_def take_map)
qed

text \<open>The claim: distinct work items that describe their rows, and no other row changes.\<close>

lemma ListDuePolls_spec:
  assumes k: "keys_ok db" and l: "ListDuePolls now db = (Inr ws, db')"
  shows "distinct (map pw_AttemptID ws) \<and> (\<forall>w\<in>set ws. work_ok db' w \<and> pw_AttemptID w \<in> at_id ` set (db_attempts db)) \<and>
    evolves uuid (pw_AttemptID ` set (pollCandidates now db)) db db'"
proof -
  have ws: "ws = fst (claimPolls (UnixMilli now) (pollCandidates now db) db)"
    and db': "db' = snd (claimPolls (UnixMilli now) (pollCandidates now db) db)"
    using l by (auto simp: ListDuePolls_def split: prod.splits)
  have sub: "set ws \<subseteq> set (pollCandidates now db)" using claimPolls_subseq ws by blast
  have "work_ok db' w \<and> pw_AttemptID w \<in> at_id ` set (db_attempts db)" if "w \<in> set ws" for w
  proof -
    have w: "w \<in> set (pollCandidates now db)" using that sub by blast
    obtain e d a where "(e, d, a) \<in> set (current_triples db)" "w = pollWorkOf now (e, d, a)"
      using pollCandidates_mem [OF w] by blast
    then have "pw_AttemptID w \<in> at_id ` set (db_attempts db)" by (simp add: pollWorkOf_def)
    then show ?thesis
      using described_work_ok [OF claimPolls_described [OF candidates_described [OF k w]]] db' by simp
  qed
  then show ?thesis
    using claimPolls_subseq candidates_distinct [OF k] claimPolls_evolves ws db' by metis
qed


lemma CompletePoll_evolves:
  assumes u: "inj uuid" and inv: "durable_inv uuid db"
  shows "evolves uuid {pw_AttemptID w} db (snd (CompletePoll uuid w upd at db))"
proof (cases "\<exists>d a. (d, a) \<in> set (current_pairs db) \<and> at_id a = pw_AttemptID w \<and>
      at_delivery_id a = pw_DeliveryID w \<and> at_last_polled_at a = Some (UnixMilli (pw_ClaimedAt w))")
  case True
  then obtain d a where h: "(d, a) \<in> set (current_pairs db)" "pw_AttemptID w = at_id a"
      "at_delivery_id a = pw_DeliveryID w" "at_last_polled_at a = Some (UnixMilli (pw_ClaimedAt w))"
    by metis
  have w: "pw_DeliveryID w = dl_id d" using h by (simp add: is_current_def)
  have c: "carries {at_id a} a (complete_attempt t ds i next a)" for t ds i "next"
    by (simp add: carries_def complete_attempt_def)
  have a: "a \<in> set (db_attempts db)" using h(1) by simp
  have "evolves uuid {at_id a} db (snd (completed_db uuid upd at d a db))"
    unfolding completed_db_def Let_def
    by (simp add: evolves_append_audit evolves_touch [OF a durable_inv_keys [OF inv]] c)
  then show ?thesis using CompletePoll_eq [OF u inv h(1,2) w h(4)] h(2) by simp
next
  case False
  then show ?thesis using CompletePoll_reject [of db w uuid upd at] by (metis evolves_refl snd_conv)
qed

section \<open>Ingestion and routing\<close>

lemma evolves_add_attempt:
  assumes "inj uuid" and "at_id b = uuid n" and "db_uuids db \<le> n" and "at_last_polled_at b = None"
    and "db_attempts db' = db_attempts db @ [b]" and "db_uuids db \<le> db_uuids db'"
  shows "evolves uuid X db db'"
proof -
  have "fresh_row uuid db b" using assms fresh_uuid [OF assms(1,3)] by (simp add: fresh_row_def)
  then show ?thesis using assms(5,6) carries_refl [of X] by (auto simp: evolves_def simp del: carries_refl)
qed

lemma insertDeliveries_evolves:
  assumes u: "inj uuid"
  shows "insertDeliveries uuid eventID at ds db = Some db' \<Longrightarrow> evolves uuid {} db db'"
proof (induction ds arbitrary: db)
  case Nil
  then show ?case by simp
next
  case (Cons nd ds)
  obtain db1 where r: "insertDeliveries uuid eventID at ds db1 = Some db'"
    and a: "db_attempts db1 = db_attempts db @ [pendingAttempt (uuid (Suc (db_uuids db))) (uuid (db_uuids db)) ''initial'' None at]"
    and n: "db_uuids db1 = Suc (Suc (db_uuids db))"
    using Cons.prems by (fastforce simp: draw_def insert_delivery_def insert_attempt_def split: if_splits)
  have "evolves uuid {} db db1"
    by (rule evolves_add_attempt [OF u, where n = "Suc (db_uuids db)"])
      (use a n in \<open>simp_all add: pendingAttempt_def\<close>)
  then show ?case using Cons.IH [OF r] by (rule evolves_trans) simp
qed

lemma insert_event_keeps:
  "insert_event e db = Some (n, db') \<Longrightarrow> db_attempts db' = db_attempts db \<and> db_uuids db' = db_uuids db"
  by (auto simp: insert_event_def Let_def split: if_splits)

lemma enqueue_keeps: "enqueue i db = Some db' \<Longrightarrow> db_attempts db' = db_attempts db \<and> db_uuids db' = db_uuids db"
  by (auto simp: enqueue_def Let_def split: if_splits)

lemma insertDeliveries_evolves_from:
  assumes u: "inj uuid" and "insertDeliveries uuid eventID at ds db1 = Some db'"
    and "db_attempts db1 = db_attempts db" and "db_uuids db \<le> db_uuids db1"
  shows "evolves uuid {} db db'"
  using evolves_trans [OF evolves_same [OF assms(3,4)] insertDeliveries_evolves [OF u assms(2)]] by simp

lemma Ingest_evolves:
  assumes u: "inj uuid"
  shows "evolves uuid {} db (snd (Ingest uuid c db))"
proof (cases "snd (Ingest uuid c db) = db")
  case False
  then obtain n db2 where i: "insert_event (eventRow (uuid (db_uuids db)) c) (db\<lparr>db_uuids := Suc (db_uuids db)\<rparr>) = Some (n, db2)"
    and r: "snd (Ingest uuid c db) = db2 \<or>
      insertDeliveries uuid (uuid (db_uuids db)) (UnixMilli (ic_ReceivedAt c)) (ic_Deliveries c) db2 = Some (snd (Ingest uuid c db))"
    by (auto simp: Ingest_def draw_def split: if_splits option.splits)
  have k: "db_attempts db2 = db_attempts db" "db_uuids db \<le> db_uuids db2" using insert_event_keeps [OF i] by simp_all
  then show ?thesis using r evolves_same [OF k] insertDeliveries_evolves_from [OF u _ k] by metis
qed simp

lemma IngestDeferred_evolves: "evolves uuid {} db (snd (IngestDeferred uuid c db))"
proof (cases "snd (IngestDeferred uuid c db) = db")
  case False
  then obtain n db2 where i: "insert_event (eventRow (uuid (db_uuids db)) c) (db\<lparr>db_uuids := Suc (db_uuids db)\<rparr>) = Some (n, db2)"
    and r: "snd (IngestDeferred uuid c db) = db2 \<or> enqueue (uuid (db_uuids db)) db2 = Some (snd (IngestDeferred uuid c db))"
    by (auto simp: IngestDeferred_def draw_def split: if_splits option.splits)
  then have "db_attempts (snd (IngestDeferred uuid c db)) = db_attempts db2 \<and>
      db_uuids (snd (IngestDeferred uuid c db)) = db_uuids db2"
    using enqueue_keeps by metis
  then show ?thesis using insert_event_keeps [OF i] by (intro evolves_same) simp_all
qed simp

lemma FinalizeDeferred_evolves:
  assumes u: "inj uuid"
  shows "evolves uuid {} db (snd (FinalizeDeferred uuid deferred decision digest db))"
proof (cases "snd (FinalizeDeferred uuid deferred decision digest db) = db")
  case False
  then have "\<exists>i at evs qs db2. insertDeliveries uuid i at (rd_Deliveries decision) (db\<lparr>db_events := evs\<rparr>) = Some db2 \<and>
      snd (FinalizeDeferred uuid deferred decision digest db) = db2\<lparr>db_queue := qs\<rparr>"
    unfolding FinalizeDeferred_def Let_def
    apply (auto split: if_splits option.splits)
    apply (rule exI, rule exI, rule exI, rule exI, rule exI, rule conjI, assumption, rule refl)
    done
  then obtain i at evs qs db2 where i: "insertDeliveries uuid i at (rd_Deliveries decision) (db\<lparr>db_events := evs\<rparr>) = Some db2"
    and r: "snd (FinalizeDeferred uuid deferred decision digest db) = db2\<lparr>db_queue := qs\<rparr>" by blast
  have "evolves uuid {} db db2" using insertDeliveries_evolves_from [OF u i] by simp
  then show ?thesis unfolding r by (simp add: evolves_def)
qed simp


section \<open>Manual operations, start-up and retention\<close>

lemma correct_evolves:
  assumes inv: "durable_inv uuid db" and p: "(d, a) \<in> set (current_pairs db)"
  shows "evolves uuid {} db (after_correction uuid u d a db)"
  using evolves_touch [where f = "correct_attempt u" and X = "{}", OF _ durable_inv_keys [OF inv]] p
  by (simp add: after_correction_def corrected_db_def evolves_append_audit carries_def correct_attempt_def)

lemma replaced_evolves:
  assumes u: "inj uuid"
  shows "evolves uuid {} db (replaced_db uuid upd kind d t ds db)"
  unfolding replaced_db_def
  by (rule evolves_append_audit,
      rule evolves_add_attempt [OF u, where n = "db_uuids db" and b = "manualAttempt uuid upd kind d db"])
    (simp_all add: swapped_db_def manualAttempt_def pendingAttempt_def)

lemma ApplyManualUpdate_evolves:
  assumes u: "inj uuid" and inv: "durable_inv uuid db" and ok: "mu_Correct upd \<Longrightarrow> correction_ok upd"
  shows "evolves uuid {} db (snd (ApplyManualUpdate uuid upd db))"
proof (cases "\<exists>d a. (d, a) \<in> set (current_pairs db) \<and> expectation_met upd d a")
  case True
  then obtain d a where p: "(d, a) \<in> set (current_pairs db)" and e: "expectation_met upd d a" by blast
  have "evolves uuid {} db (replaced_db uuid upd kind d t ds (after_correction uuid upd d a db))" for kind t ds
    by (rule evolves_trans [OF correct_evolves [OF inv p] replaced_evolves [OF u]]) simp
  then show ?thesis
    using correct_evolves [OF inv p, of upd] ok
    by (subst ApplyManualUpdate_eq [OF u inv p e]) (auto split: sum.splits)
next
  case False
  then show ?thesis
    using ApplyManualUpdate_reject [OF durable_inv_keys [OF inv], of upd uuid] by (metis evolves_refl snd_conv)
qed

lemma TerminateIncompatibleActive_evolves:
  assumes u: "inj uuid" and inv: "durable_inv uuid db"
  shows "evolves uuid {} db (snd (TerminateIncompatibleActive uuid b r at db))"
proof (cases "\<exists>d a. (d, a) \<in> set (current_pairs db) \<and> binding_met b d a")
  case True
  then obtain d a where p: "(d, a) \<in> set (current_pairs db)" and m: "binding_met b d a" by blast
  have "evolves uuid {} db (terminated_db uuid (reason_code r) at d a db)"
    using evolves_touch [where X = "{}", OF _ durable_inv_keys [OF inv], of a] p
    by (simp add: terminated_db_def evolves_append_audit carries_def terminate_attempt_def)
  then show ?thesis using TerminateIncompatibleActive_eq [OF u inv p m] by simp
next
  case False
  then show ?thesis using TerminateIncompatibleActive_skip [of db b uuid r at] by (metis evolves_refl snd_conv)
qed

lemma recovered_evolves:
  assumes inv: "durable_inv uuid db" and p: "(d, a) \<in> set (current_pairs db)"
  shows "evolves uuid {} db (recovered_db uuid now dflt ts d a db)"
  using evolves_touch [where X = "{}", OF _ durable_inv_keys [OF inv], of a] p
  by (simp add: recovered_db_def Let_def evolves_append_audit carries_def recovered_attempt_def recover_attempt_def)

lemma recoverAll_evolves:
  assumes u: "inj uuid"
  shows "durable_inv uuid db \<Longrightarrow> set xs \<subseteq> set (current_pairs db) \<Longrightarrow> (\<forall>x\<in>set xs. interrupted (snd x)) \<Longrightarrow>
     distinct (map (at_id \<circ> snd) xs) \<Longrightarrow> recoverAll uuid now dflt ts xs db = Inr (cs, db') \<Longrightarrow> evolves uuid {} db db'"
proof (induction xs arbitrary: db cs)
  case Nil
  then show ?case by simp
next
  case (Cons x xs)
  obtain d a where x: "x = (d, a)" by force
  have p: "(d, a) \<in> set (current_pairs db)" and i: "interrupted a" using Cons.prems(2,3) x by auto
  let ?db = "recovered_db uuid now dflt ts d a db"
  obtain c cs' where r: "recoverAll uuid now dflt ts xs ?db = Inr (cs', db')"
    using recoverOne_eq [OF u Cons.prems(1) p, of now dflt ts] Cons.prems(5) x
    by (auto split: sum.splits prod.splits)
  have "set xs \<subseteq> set (current_pairs ?db)"
  proof
    fix y assume y: "y \<in> set xs"
    then have "y \<in> set (current_pairs db)" "at_id (snd y) \<noteq> at_id a" using Cons.prems(2,4) x by force+
    then show "y \<in> set (current_pairs ?db)"
      unfolding recovered_db_pairs [OF durable_inv_keys [OF Cons.prems(1)] p]
      by (intro image_eqI [of _ _ y]) (auto split: prod.splits)
  qed
  then have "evolves uuid {} ?db db'"
    using Cons.IH [OF recovered_db_durable [OF u Cons.prems(1) p i] _ _ _ r] Cons.prems(3,4) by simp
  then show ?case using evolves_trans [OF recovered_evolves [OF Cons.prems(1) p]] by blast
qed

lemma recoverCandidates_ok:
  assumes k: "keys_ok db"
  shows "set (recoverCandidates db) \<subseteq> set (current_pairs db)" and "\<forall>x\<in>set (recoverCandidates db). interrupted (snd x)"
    and "distinct (map (at_id \<circ> snd) (recoverCandidates db))"
proof -
  show s: "set (recoverCandidates db) \<subseteq> set (current_pairs db)" "\<forall>x\<in>set (recoverCandidates db). interrupted (snd x)"
    by (auto simp: recoverCandidates_def)
  show "distinct (map (at_id \<circ> snd) (recoverCandidates db))"
    by (rule distinct_current_attempts [OF k _ s(1)])
      (use distinct_current_pairs [OF k] in \<open>simp add: recoverCandidates_def\<close>)
qed

lemma RecoverInterrupted_evolves:
  assumes u: "inj uuid" and inv: "durable_inv uuid db"
  shows "evolves uuid {} db (snd (RecoverInterrupted uuid now dflt ts db))"
  using recoverAll_evolves [OF u inv recoverCandidates_ok [OF durable_inv_keys [OF inv]]]
  by (auto simp: RecoverInterrupted_def split: sum.splits prod.splits)

lemma delete_event_evolves: "evolves uuid X db (delete_event i db)"
  by (rule evolves_subset) (auto simp: delete_event_def)

lemma deleteRetentionEvents_attempts:
  "set (db_attempts (snd (deleteRetentionEvents ids res db))) \<subseteq> set (db_attempts db) \<and>
   db_uuids (snd (deleteRetentionEvents ids res db)) = db_uuids db"
proof (induction ids arbitrary: res db)
  case Nil
  then show ?case by simp
next
  case (Cons i ids)
  then show ?case by (fastforce simp: Let_def delete_event_def)
qed

lemma pruneGroups_attempts:
  "set (db_attempts (snd (pruneGroups limits dflt gs res db))) \<subseteq> set (db_attempts db) \<and>
   db_uuids (snd (pruneGroups limits dflt gs res db)) = db_uuids db"
proof (induction gs arbitrary: res db)
  case Nil
  then show ?case by simp
next
  case (Cons g gs)
  then show ?case
    using deleteRetentionEvents_attempts by (simp add: Let_def split_beta) (metis (no_types, lifting) subset_trans)
qed

lemma Prune_evolves: "evolves uuid X db (snd (Prune cutoff limits dflt global db))"
proof (rule evolves_subset)
  let ?db = "db\<lparr>db_observations := filter (\<lambda>o'. \<not> ob_received_at o' < UnixMilli cutoff) (db_observations db)\<rparr>"
  note p = pruneGroups_attempts [of limits dflt "retentionGroups ?db" "\<lparr>pr_Deleted = 0, pr_EventIDs = []\<rparr>" ?db]
  show "set (db_attempts (snd (Prune cutoff limits dflt global db))) \<subseteq> set (db_attempts db)"
    "db_uuids db \<le> db_uuids (snd (Prune cutoff limits dflt global db))"
    using p deleteRetentionEvents_attempts [of "terminalEventIDsAfter None (nat global) (snd (pruneGroups limits dflt (retentionGroups ?db) \<lparr>pr_Deleted = 0, pr_EventIDs = []\<rparr> ?db))"
        "fst (pruneGroups limits dflt (retentionGroups ?db) \<lparr>pr_Deleted = 0, pr_EventIDs = []\<rparr> ?db)"
        "snd (pruneGroups limits dflt (retentionGroups ?db) \<lparr>pr_Deleted = 0, pr_EventIDs = []\<rparr> ?db)"]
    unfolding Prune_def Let_def split_beta by (cases "0 < global"; simp; blast)+
qed

lemma ClearHistory_evolves: "evolves uuid X db (snd (ClearHistory db))"
  by (rule evolves_subset) (simp_all add: ClearHistory_def)

end
