(* ===== verification/Retention_Service.thy ===== *)
theory Retention_Service
  imports Store_Evolution Generation
begin

text \<open>
  The retention service (\<^verbatim>\<open>internal/service/retention.go\<close>) and the interface through which the workers
  trigger it. \<^verbatim>\<open>SetTerminalHook\<close> installs a function in the dispatcher, the poller and the manual service;
  they call it after a terminal transition and rely on no more than the two laws of \<open>terminal_hook\<close>.
\<close>

section \<open>The service\<close>

text \<open>\<open>cutoff\<close> is the instant before which pipeline observations expire, computed from the clock by
  \<^verbatim>\<open>Prune\<close>.\<close>

definition RetentionRunOnce :: "time \<Rightarrow> Generation \<Rightarrow> db \<Rightarrow> (store_error + unit) \<times> db" where
  "RetentionRunOnce cutoff g db =
     (case RetentionLimits g of (repositoryLimits, defaultLimit, globalLimit) \<Rightarrow>
      case Prune cutoff repositoryLimits defaultLimit globalLimit db of (_, db') \<Rightarrow> (Inr (), db'))"

lemma RetentionRunOnce_eq:
  "RetentionRunOnce cutoff g db =
     (Inr (), snd (Prune cutoff (map_of (gn_repositoryLimits g)) (gn_defaultRepositoryLimit g) (gn_globalLimit g) db))"
  by (simp add: RetentionRunOnce_def RetentionLimits_def split_beta)

section \<open>The hook the workers call\<close>

locale terminal_hook =
  fixes uuid :: "nat \<Rightarrow> string" and hook :: "db \<Rightarrow> (store_error + unit) \<times> db"
  assumes hook_durable: "durable_inv uuid db \<Longrightarrow> durable_inv uuid (snd (hook db))"
    and hook_evolves: "evolves uuid {} db (snd (hook db))"

interpretation retention: terminal_hook uuid "RetentionRunOnce cutoff g"
  by unfold_locales (simp_all add: RetentionRunOnce_eq Prune_spec(1) Prune_evolves)

interpretation no_hook: terminal_hook uuid "\<lambda>db. (Inr (), db)"
  by unfold_locales simp_all

end
