(* ===== verification/Dokploy.thy ===== *)
theory Dokploy
  imports Store_Ingest
begin

text \<open>
  The Dokploy client (\<^verbatim>\<open>internal/dokploy\<close>): reading the deployment history of a Compose service,
  correlating an attempt with a deployment, classifying transport errors, and removing the API key from
  what is stored.

  The remote service is outside the repository. Its answer to one request is a value: for the history
  request a \<open>HistoryResponse\<close>, what the HTTP client and the streaming JSON decoder see. The functions
  are over every such answer.
\<close>

section \<open>Types (types.go)\<close>

record Deployment =
  dp_DeploymentID :: string
  dp_ComposeID :: string
  dp_Description :: "string option"
  dp_Status :: "string option"
  dp_CreatedAt :: time

datatype DeploymentLookup = DeploymentNotFound | DeploymentFound | DeploymentAmbiguous | DeploymentCursorMissing

datatype TransportErrorKind = TransportDefinitive | TransportUncertain

definition emptyDeployment :: Deployment where
  "emptyDeployment = \<lparr>dp_DeploymentID = '''', dp_ComposeID = '''', dp_Description = None, dp_Status = None,
     dp_CreatedAt = 0\<rparr>"

text \<open>The answer to the history request: no response, another status than 200, a body that does not
  begin with an array, or an array: its elements as far as the stream goes (\<open>None\<close> an element that
  does not decode) and whether the array is closed and nothing follows it.\<close>

datatype HistoryResponse =
    HistoryNoResponse
  | HistoryStatus int
  | HistoryNotArray
  | HistoryArray "Deployment option list" bool

section \<open>Walking the history (client.go)\<close>

text \<open>The visitor closure has the caller's variables as its state; it answers whether to go on.\<close>

fun walkItems :: "(Deployment \<Rightarrow> 's \<Rightarrow> bool \<times> 's) \<Rightarrow> Deployment option list \<Rightarrow> bool \<Rightarrow> 's \<Rightarrow> string option \<times> 's" where
  "walkItems visit [] closed s =
     (if closed then (None, s) else (Some ''decode Dokploy deployment list'', s))"
| "walkItems visit (None # rest) closed s = (Some ''decode Dokploy deployment list'', s)"
| "walkItems visit (Some deployment # rest) closed s =
     (if dp_DeploymentID deployment = ''''
      then (Some ''decode Dokploy deployment list: missing deployment ID'', s)
      else case visit deployment s of
             (True, s') \<Rightarrow> walkItems visit rest closed s'
           | (False, s') \<Rightarrow> (None, s'))"

definition walkDeploymentHistory ::
  "HistoryResponse \<Rightarrow> string \<Rightarrow> (Deployment \<Rightarrow> 's \<Rightarrow> bool \<times> 's) \<Rightarrow> 's \<Rightarrow> string option \<times> 's" where
  "walkDeploymentHistory response composeID visit s =
     (if composeID = '''' then (Some ''Compose ID is required'', s)
      else case response of
        HistoryNoResponse \<Rightarrow> (Some ''list Dokploy deployments'', s)
      | HistoryStatus code \<Rightarrow> (Some ''list Dokploy deployments: unexpected HTTP status'', s)
      | HistoryNotArray \<Rightarrow> (Some ''decode Dokploy deployment list: expected JSON array'', s)
      | HistoryArray items closed \<Rightarrow> walkItems visit items closed s)"

section \<open>Words of a description\<close>

text \<open>\<^verbatim>\<open>unicode.IsSpace\<close> at the head of a UTF-8 string: the number of bytes of the space there, or 0.\<close>

definition byte :: "char \<Rightarrow> nat" where
  "byte c = of_char c"

fun spaceLen :: "string \<Rightarrow> nat" where
  "spaceLen [] = 0"
| "spaceLen (a # rest) =
     (if byte a = 32 \<or> (9 \<le> byte a \<and> byte a \<le> 13) then 1
      else case rest of
        [] \<Rightarrow> 0
      | b # rest' \<Rightarrow>
          if byte a = 0xC2 \<and> (byte b = 0x85 \<or> byte b = 0xA0) then 2
          else (case rest' of
             [] \<Rightarrow> 0
           | c # _ \<Rightarrow>
               if (byte a = 0xE1 \<and> byte b = 0x9A \<and> byte c = 0x80) \<or>
                  (byte a = 0xE2 \<and> byte b = 0x80 \<and>
                     ((0x80 \<le> byte c \<and> byte c \<le> 0x8A) \<or> byte c = 0xA8 \<or> byte c = 0xA9 \<or> byte c = 0xAF)) \<or>
                  (byte a = 0xE2 \<and> byte b = 0x81 \<and> byte c = 0x9F) \<or>
                  (byte a = 0xE3 \<and> byte b = 0x80 \<and> byte c = 0x80)
               then 3 else 0))"

text \<open>\<^verbatim>\<open>strings.Fields\<close>; \<open>word\<close> is the current field, reversed.\<close>

function fieldsFrom :: "string \<Rightarrow> string \<Rightarrow> string list" where
  "fieldsFrom word [] = (if word = [] then [] else [rev word])"
| "fieldsFrom word (c # cs) =
     (if spaceLen (c # cs) = 0 then fieldsFrom (c # word) cs
      else (if word = [] then [] else [rev word]) @ fieldsFrom [] (drop (spaceLen (c # cs) - 1) cs))"
  by pat_completeness auto
termination
  by (relation "measure (\<lambda>(w, s). length s)") auto

definition Fields :: "string \<Rightarrow> string list" where
  "Fields s = fieldsFrom [] s"

text \<open>\<^verbatim>\<open>strings.TrimSpace\<close>. A trailing space is one whose bytes end the string.\<close>

function trimLeft :: "string \<Rightarrow> string" where
  "trimLeft s = (if spaceLen s = 0 then s else trimLeft (drop (spaceLen s) s))"
  by pat_completeness auto
termination
proof (relation "measure length")
  fix s assume "spaceLen s \<noteq> 0"
  then show "(drop (spaceLen s) s, s) \<in> measure length" by (cases s) auto
qed simp

declare trimLeft.simps [simp del]

definition endsInSpace :: "string \<Rightarrow> nat \<Rightarrow> bool" where
  "endsInSpace s k \<longleftrightarrow> 0 < k \<and> k \<le> length s \<and> spaceLen (drop (length s - k) s) = k"

function trimRight :: "string \<Rightarrow> string" where
  "trimRight s =
     (if endsInSpace s 1 then trimRight (take (length s - 1) s)
      else if endsInSpace s 2 then trimRight (take (length s - 2) s)
      else if endsInSpace s 3 then trimRight (take (length s - 3) s)
      else s)"
  by pat_completeness auto
termination
  by (relation "measure length") (auto simp: endsInSpace_def)

declare trimRight.simps [simp del]

definition trimSpace :: "string \<Rightarrow> string" where
  "trimSpace s = trimRight (trimLeft s)"

definition deploymentMatchesAttempt :: "Deployment \<Rightarrow> string \<Rightarrow> bool" where
  "deploymentMatchesAttempt deployment attemptID =
     (case dp_Description deployment of
        None \<Rightarrow> False
      | Some description \<Rightarrow> (''attempt_id='' @ attemptID) \<in> set (Fields description))"

definition deploymentMatches :: "Deployment \<Rightarrow> string \<Rightarrow> string \<Rightarrow> bool" where
  "deploymentMatches deployment attemptID deploymentID =
     (if deploymentID \<noteq> '''' then dp_DeploymentID deployment = deploymentID
      else deploymentMatchesAttempt deployment attemptID)"

section \<open>Lookups\<close>

definition FindDeployment ::
  "HistoryResponse \<Rightarrow> string \<Rightarrow> string \<Rightarrow> string \<Rightarrow> Deployment \<times> bool \<times> string option" where
  "FindDeployment response composeID attemptID deploymentID =
     (if composeID = '''' then (emptyDeployment, False, Some ''Compose ID is required'')
      else if attemptID = '''' then (emptyDeployment, False, Some ''attempt ID is required'')
      else case walkDeploymentHistory response composeID
                  (\<lambda>d m. if deploymentMatches d attemptID deploymentID then (False, d) else (True, m))
                  emptyDeployment of
             (err, m) \<Rightarrow> (m, dp_DeploymentID m \<noteq> '''', err))"

definition LatestDeploymentID :: "HistoryResponse \<Rightarrow> string \<Rightarrow> string \<times> bool \<times> string option" where
  "LatestDeploymentID response composeID =
     (case walkDeploymentHistory response composeID (\<lambda>d i. (False, dp_DeploymentID d)) '''' of
        (err, i) \<Rightarrow> (i, i \<noteq> '''', err))"

definition FindDeploymentAfter ::
  "HistoryResponse \<Rightarrow> string \<Rightarrow> string \<Rightarrow> string \<Rightarrow> Deployment \<times> DeploymentLookup \<times> string option" where
  "FindDeploymentAfter response composeID attemptID cursor =
     (if attemptID = '''' then (emptyDeployment, DeploymentNotFound, Some ''attempt ID is required'')
      else case walkDeploymentHistory response composeID
             (\<lambda>d (candidates, found). if cursor \<noteq> '''' \<and> dp_DeploymentID d = cursor then (False, candidates, True)
                                      else (True, candidates @ [d], found))
             ([], cursor = '''') of
        (Some err, _) \<Rightarrow> (emptyDeployment, DeploymentNotFound, Some err)
      | (None, candidates, cursorFound) \<Rightarrow>
          if \<not> cursorFound then (emptyDeployment, DeploymentCursorMissing, None)
          else (case candidates of
             [] \<Rightarrow> (emptyDeployment, DeploymentNotFound, None)
           | [d] \<Rightarrow> (d, DeploymentFound, None)
           | _ \<Rightarrow> (case filter (\<lambda>d. deploymentMatchesAttempt d attemptID) candidates of
                     [d] \<Rightarrow> (d, DeploymentFound, None)
                   | _ \<Rightarrow> (emptyDeployment, DeploymentAmbiguous, None))))"

section \<open>Transport errors\<close>

text \<open>The error of \<^verbatim>\<open>http.Client.Do\<close>, as far as \<^verbatim>\<open>errors.As\<close> and \<^verbatim>\<open>errors.Is\<close> look into it.\<close>

record clientError =
  hasDNSError :: bool
  opError :: "string option"
  isConnRefused :: bool
  errorText :: string

definition classifyTransportError :: "clientError \<Rightarrow> TransportErrorKind" where
  "classifyTransportError err =
     (if hasDNSError err then TransportDefinitive
      else if opError err = Some ''dial'' then TransportDefinitive
      else if isConnRefused err then TransportDefinitive
      else TransportUncertain)"

section \<open>What the lookups find\<close>

lemma walkItems_found:
  assumes "walkItems (\<lambda>d m. if P d then (False, d) else (True, m)) items closed m0 = (err, m)" and "m \<noteq> m0"
  shows "err = None \<and> P m \<and> dp_DeploymentID m \<noteq> '''' \<and>
    (\<exists>before after. items = map Some before @ Some m # after \<and> (\<forall>d\<in>set before. \<not> P d))"
  using assms
proof (induction items)
  case Nil
  then show ?case by (simp split: if_splits)
next
  case (Cons x items)
  show ?case
  proof (cases x)
    case None
    then show ?thesis using Cons.prems by simp
  next
    case (Some d)
    show ?thesis
    proof (cases "dp_DeploymentID d = '''' \<or> P d")
      case True
      then have "err = None \<and> P m \<and> dp_DeploymentID m \<noteq> '''' \<and> d = m"
        using Cons.prems Some by (auto split: if_splits)
      then show ?thesis using Some by (intro conjI exI [of _ "[]"] exI [of _ items]) simp_all
    next
      case False
      then have w: "walkItems (\<lambda>d m. if P d then (False, d) else (True, m)) items closed m0 = (err, m)"
        using Cons.prems(1) Some by simp
      obtain before after where "err = None" "P m" "dp_DeploymentID m \<noteq> ''''"
          "items = map Some before @ Some m # after" "\<forall>d\<in>set before. \<not> P d"
        using Cons.IH [OF w Cons.prems(2)] by blast
      then show ?thesis using Some False
        by (intro conjI exI [of _ "d # before"] exI [of _ after]) auto
    qed
  qed
qed

text \<open>A found deployment matches, its identifier is not empty, and every newer one does not match.\<close>

lemma FindDeployment_found:
  assumes "FindDeployment response composeID attemptID deploymentID = (m, True, err)"
  shows "err = None \<and> deploymentMatches m attemptID deploymentID \<and> dp_DeploymentID m \<noteq> '''' \<and>
    (\<exists>before after closed. response = HistoryArray (map Some before @ Some m # after) closed \<and>
       (\<forall>d\<in>set before. \<not> deploymentMatches d attemptID deploymentID))"
proof -
  have ne: "m \<noteq> emptyDeployment"
    using assms by (auto simp: FindDeployment_def emptyDeployment_def split: if_splits prod.splits)
  obtain items closed where r: "response = HistoryArray items closed"
      "walkItems (\<lambda>d m. if deploymentMatches d attemptID deploymentID then (False, d) else (True, m))
         items closed emptyDeployment = (err, m)"
    using assms
    by (cases response)
      (auto simp: FindDeployment_def walkDeploymentHistory_def emptyDeployment_def split: if_splits prod.splits)
  show ?thesis using walkItems_found [OF r(2) ne] r(1) by blast
qed

lemma FindDeployment_requires_compose:
  "FindDeployment response '''' attemptID deploymentID = (emptyDeployment, False, Some ''Compose ID is required'')"
  by (simp add: FindDeployment_def)

text \<open>What the cursor walk collects: the deployments before the cursor, newest first.\<close>

lemma walkItems_cursor:
  assumes "walkItems (\<lambda>d (cs, f). if cursor \<noteq> '''' \<and> dp_DeploymentID d = cursor then (False, cs, True)
                                   else (True, cs @ [d], f)) items closed (cs0, f0) = (None, cs, f)"
    and "f"
  shows "\<exists>newer rest. cs = cs0 @ newer \<and> items = map Some newer @ rest \<and>
    (\<forall>d\<in>set newer. dp_DeploymentID d \<noteq> '''' \<and> (cursor \<noteq> '''' \<longrightarrow> dp_DeploymentID d \<noteq> cursor)) \<and>
    ((\<exists>c rest'. rest = Some c # rest' \<and> cursor \<noteq> '''' \<and> dp_DeploymentID c = cursor) \<or> (rest = [] \<and> f0 \<and> closed))"
  using assms
proof (induction items arbitrary: cs0)
  case Nil
  then show ?case by (auto split: if_splits)
next
  case (Cons x items)
  show ?case
  proof (cases x)
    case None
    then show ?thesis using Cons.prems by simp
  next
    case (Some d)
    show ?thesis
    proof (cases "cursor \<noteq> '''' \<and> dp_DeploymentID d = cursor")
      case True
      then show ?thesis using Cons.prems Some by (intro exI [of _ "[]"] exI [of _ "x # items"]) auto
    next
      case False
      then have ne: "dp_DeploymentID d \<noteq> ''''" using Cons.prems(1) Some by (auto split: if_splits)
      have "walkItems (\<lambda>d (cs, f). if cursor \<noteq> '''' \<and> dp_DeploymentID d = cursor then (False, cs, True)
          else (True, cs @ [d], f)) items closed (cs0 @ [d], f0) = (None, cs, f)"
        using Cons.prems(1) Some False ne by simp
      from Cons.IH [OF this Cons.prems(2)] obtain newer rest where
        "cs = (cs0 @ [d]) @ newer" "items = map Some newer @ rest"
        "\<forall>d\<in>set newer. dp_DeploymentID d \<noteq> '''' \<and> (cursor \<noteq> '''' \<longrightarrow> dp_DeploymentID d \<noteq> cursor)"
        "(\<exists>c rest'. rest = Some c # rest' \<and> cursor \<noteq> '''' \<and> dp_DeploymentID c = cursor) \<or> (rest = [] \<and> f0 \<and> closed)"
        by blast
      then show ?thesis using Some False ne
        by (intro exI [of _ "d # newer"] exI [of _ rest]) auto
    qed
  qed
qed

text \<open>The deployments of the history that are newer than the cursor.\<close>

definition newerThan :: "HistoryResponse \<Rightarrow> string \<Rightarrow> Deployment list \<Rightarrow> bool" where
  "newerThan response cursor newer \<longleftrightarrow>
     (\<exists>rest closed. response = HistoryArray (map Some newer @ rest) closed \<and>
        (\<forall>d\<in>set newer. dp_DeploymentID d \<noteq> '''' \<and> (cursor \<noteq> '''' \<longrightarrow> dp_DeploymentID d \<noteq> cursor)) \<and>
        ((\<exists>c rest'. rest = Some c # rest' \<and> cursor \<noteq> '''' \<and> dp_DeploymentID c = cursor) \<or>
         (rest = [] \<and> cursor = '''' \<and> closed)))"

lemma newerThan_unique:
  assumes "newerThan response cursor xs" and "newerThan response cursor ys"
  shows "xs = ys"
proof -
  obtain rx cx where x: "response = HistoryArray (map Some xs @ rx) cx"
      "\<forall>d\<in>set xs. cursor \<noteq> '''' \<longrightarrow> dp_DeploymentID d \<noteq> cursor"
      "(\<exists>c rest'. rx = Some c # rest' \<and> cursor \<noteq> '''' \<and> dp_DeploymentID c = cursor) \<or> (rx = [] \<and> cursor = '''')"
    using assms(1) unfolding newerThan_def by blast
  obtain ry cy where y: "response = HistoryArray (map Some ys @ ry) cy"
      "\<forall>d\<in>set ys. cursor \<noteq> '''' \<longrightarrow> dp_DeploymentID d \<noteq> cursor"
      "(\<exists>c rest'. ry = Some c # rest' \<and> cursor \<noteq> '''' \<and> dp_DeploymentID c = cursor) \<or> (ry = [] \<and> cursor = '''')"
    using assms(2) unfolding newerThan_def by blast
  have eq: "map Some xs @ rx = map Some ys @ ry" using x(1) y(1) by simp
  let ?p = "\<lambda>z. case z of None \<Rightarrow> True | Some d \<Rightarrow> cursor = '''' \<or> dp_DeploymentID d \<noteq> cursor"
  have tw: "takeWhile ?p (map Some zs @ r) = map Some zs"
    if "\<forall>d\<in>set zs. cursor \<noteq> '''' \<longrightarrow> dp_DeploymentID d \<noteq> cursor"
      "(\<exists>c rest'. r = Some c # rest' \<and> cursor \<noteq> '''' \<and> dp_DeploymentID c = cursor) \<or> (r = [] \<and> cursor = '''')"
    for zs r
    using that by (subst takeWhile_append2) auto
  have "map Some xs = map Some ys" using tw [OF x(2,3)] tw [OF y(2,3)] eq by metis
  then show ?thesis by (simp add: inj_map_eq_map)
qed

lemma FindDeploymentAfter_found:
  assumes "FindDeploymentAfter response composeID attemptID cursor = (m, DeploymentFound, err)"
  shows "err = None \<and> (\<exists>newer. newerThan response cursor newer \<and>
     (newer = [m] \<or> filter (\<lambda>d. deploymentMatchesAttempt d attemptID) newer = [m]))"
proof -
  let ?v = "\<lambda>d (candidates, found). if cursor \<noteq> '''' \<and> dp_DeploymentID d = cursor
      then (False, candidates, True) else (True, candidates @ [d], found)"
  obtain cs where w: "walkDeploymentHistory response composeID ?v ([], cursor = '''') = (None, cs, True)"
    and res: "cs = [m] \<or> filter (\<lambda>d. deploymentMatchesAttempt d attemptID) cs = [m]" and e: "err = None"
    using assms
    by (auto simp: FindDeploymentAfter_def split: if_splits prod.splits option.splits list.splits)
  obtain items closed where r: "response = HistoryArray items closed"
      "walkItems ?v items closed ([], cursor = '''') = (None, cs, True)"
    using w by (cases response) (auto simp: walkDeploymentHistory_def split: if_splits)
  have "newerThan response cursor cs"
    using walkItems_cursor [OF r(2)] r(1) unfolding newerThan_def by auto
  then show ?thesis using res e by blast
qed

lemma LatestDeploymentID_spec:
  assumes "LatestDeploymentID response composeID = (i, found, None)"
  shows "newerThan response i [] \<and> (found \<longleftrightarrow> i \<noteq> '''')"
proof -
  obtain items closed where r: "response = HistoryArray items closed"
      "walkItems (\<lambda>d i. (False, dp_DeploymentID d)) items closed '''' = (None, i)" "found = (i \<noteq> '''')"
    using assms
    by (cases response) (auto simp: LatestDeploymentID_def walkDeploymentHistory_def split: if_splits prod.splits)
  have "items = [] \<and> closed \<and> i = '''' \<or> (\<exists>d rest. items = Some d # rest \<and> dp_DeploymentID d = i \<and> i \<noteq> '''')"
    using r(2) by (cases items rule: list.exhaust; cases "hd items") (auto split: if_splits)
  then show ?thesis using r(1,3) by (auto simp: newerThan_def)
qed

section \<open>The cursor protocol\<close>

text \<open>The dispatcher stores the newest deployment identifier before it sends; the poller looks only at what
  came after it.\<close>

lemma walkItems_skip_new:
  assumes "\<forall>d\<in>set new. dp_DeploymentID d \<noteq> '''' \<and> dp_DeploymentID d \<noteq> cursor"
  shows "walkItems (\<lambda>d (cs, f). if cursor \<noteq> '''' \<and> dp_DeploymentID d = cursor then (False, cs, True)
                                 else (True, cs @ [d], f)) (map Some new @ rest) closed (cs0, f0) =
         walkItems (\<lambda>d (cs, f). if cursor \<noteq> '''' \<and> dp_DeploymentID d = cursor then (False, cs, True)
                                 else (True, cs @ [d], f)) rest closed (cs0 @ new, f0)"
  using assms by (induction new arbitrary: cs0) auto

text \<open>C28. Correlation by cursor. Let \<open>old\<close> be the deployment history when the cursor is taken and
  \<open>new @ old\<close> the history when it is looked up again. The lookup never answers with an old deployment:
  it reports nothing when nothing is new, the new deployment when there is exactly one, among several
  the one that carries the attempt's token when exactly one does, and otherwise that the history is
  ambiguous.\<close>

theorem cursor_correlation:
  assumes "composeID \<noteq> ''''" and "attemptID \<noteq> ''''"
    and "\<forall>d\<in>set (new @ old). dp_DeploymentID d \<noteq> ''''" and "distinct (map dp_DeploymentID (new @ old))"
  shows "FindDeploymentAfter (HistoryArray (map Some (new @ old)) True) composeID attemptID
           (fst (LatestDeploymentID (HistoryArray (map Some old) True) composeID)) =
         (case new of
            [] \<Rightarrow> (emptyDeployment, DeploymentNotFound, None)
          | [d] \<Rightarrow> (d, DeploymentFound, None)
          | _ \<Rightarrow> (case filter (\<lambda>d. deploymentMatchesAttempt d attemptID) new of
                    [d] \<Rightarrow> (d, DeploymentFound, None)
                  | _ \<Rightarrow> (emptyDeployment, DeploymentAmbiguous, None)))"
proof -
  define cursor where "cursor = fst (LatestDeploymentID (HistoryArray (map Some old) True) composeID)"
  have c: "cursor = (case old of [] \<Rightarrow> '''' | o' # _ \<Rightarrow> dp_DeploymentID o')"
    using assms(1,3) by (cases old) (simp_all add: cursor_def LatestDeploymentID_def walkDeploymentHistory_def)
  have n: "\<forall>d\<in>set new. dp_DeploymentID d \<noteq> '''' \<and> dp_DeploymentID d \<noteq> cursor"
    using assms(3,4) c by (cases old) (auto simp: image_iff)
  let ?v = "\<lambda>d (cs, f). if cursor \<noteq> '''' \<and> dp_DeploymentID d = cursor then (False, cs, True)
      else (True, cs @ [d], f)"
  have "walkItems ?v (map Some (new @ old)) True ([], cursor = '''') =
      walkItems ?v (map Some old) True (new, cursor = '''')"
    using walkItems_skip_new [OF n, of "map Some old" True "[]"] by simp
  also have "\<dots> = (None, new, True)" using c assms(3) by (cases old) auto
  finally show ?thesis
    unfolding cursor_def [symmetric] using assms(1,2)
    by (simp add: FindDeploymentAfter_def walkDeploymentHistory_def)
qed

text \<open>Two deployments since the cursor, one of them ours: the lookup binds ours.\<close>

theorem cursor_correlation_witness:
  "FindDeploymentAfter
     (HistoryArray (map Some
        ([emptyDeployment\<lparr>dp_DeploymentID := ''d3'', dp_Description := Some ''by hand''\<rparr>,
          emptyDeployment\<lparr>dp_DeploymentID := ''d2'', dp_Description := Some ''Hookfly attempt_id=a1''\<rparr>] @
         [emptyDeployment\<lparr>dp_DeploymentID := ''d1''\<rparr>])) True) ''c'' ''a1''
     (fst (LatestDeploymentID (HistoryArray (map Some [emptyDeployment\<lparr>dp_DeploymentID := ''d1''\<rparr>]) True) ''c'')) =
   (emptyDeployment\<lparr>dp_DeploymentID := ''d2'', dp_Description := Some ''Hookfly attempt_id=a1''\<rparr>,
    DeploymentFound, None)"
proof -
  have "Fields ''by hand'' = [''by'', ''hand'']" "Fields ''Hookfly attempt_id=a1'' = [''Hookfly'', ''attempt_id=a1'']"
    by code_simp+
  then show ?thesis
    by (subst cursor_correlation) (simp_all add: deploymentMatchesAttempt_def)
qed

end
