(* ===== verification/Route_Config.thy ===== *)
theory Route_Config
  imports Matcher
begin

text \<open>
  The route half of \<^verbatim>\<open>internal/config/validate.go\<close>: identifiers, actions, route predicates, the
  pairwise overlap check of equal-priority routes, and the canonical route order. Error values carry
  what the Go messages print. The maps \<open>repositories\<close> (source ID to its repository IDs) and
  \<open>targets\<close> (known target IDs) are the results of the source and target passes.

  Go's \<^verbatim>\<open>sort.Slice\<close> does not promise an order for equal keys. The model sorts with \<open>sort_key\<close>; the
  theorems below show that validated routes have no equal keys, so every sorting of them is the same.
\<close>

section \<open>Errors\<close>

datatype config_error =
    InvalidIdentifier string string
  | DuplicateID string string SourceLocation SourceLocation
  | PriorityRequired string
  | UnknownSource string string
  | UnknownRepository string string
  | UnsupportedEvent string string
  | RecordOnlyTargets string
  | DeployWithoutTarget string
  | DuplicateTarget string string
  | UnknownTarget string string
  | UnsupportedAction string string
  | EqualPriorityOverlap string string

section \<open>Identifiers and unique locations\<close>

definition identifierHead :: "char \<Rightarrow> bool" where
  "identifierHead c \<longleftrightarrow>
     (CHR ''A'' \<le> c \<and> c \<le> CHR ''Z'') \<or> (CHR ''a'' \<le> c \<and> c \<le> CHR ''z'') \<or>
     (CHR ''0'' \<le> c \<and> c \<le> CHR ''9'')"

definition identifierTail :: "char \<Rightarrow> bool" where
  "identifierTail c \<longleftrightarrow> identifierHead c \<or> c = CHR ''.'' \<or> c = CHR ''_'' \<or> c = CHR ''-''"

text \<open>The pattern \<^verbatim>\<open>^[A-Za-z0-9][A-Za-z0-9._-]{0,127}$\<close>.\<close>

definition identifierPattern :: "string \<Rightarrow> bool" where
  "identifierPattern s =
     (case s of [] \<Rightarrow> False
      | c # cs \<Rightarrow> identifierHead c \<and> list_all identifierTail cs \<and> length cs \<le> 127)"

definition validateIdentifier :: "string \<Rightarrow> string \<Rightarrow> config_error + unit" where
  "validateIdentifier kind i =
     (if identifierPattern i then Inr () else Inl (InvalidIdentifier kind i))"

definition addUniqueLocation ::
  "(string \<rightharpoonup> SourceLocation) \<Rightarrow> string \<Rightarrow> string \<Rightarrow> SourceLocation \<Rightarrow>
   config_error + (string \<rightharpoonup> SourceLocation)" where
  "addUniqueLocation locations kind i location =
     (case locations i of
        Some previous \<Rightarrow> Inl (DuplicateID kind i previous location)
      | None \<Rightarrow> Inr (locations(i \<mapsto> location)))"

section \<open>Predicates and actions\<close>

definition canonicalEvents :: "string \<Rightarrow> bool" where
  "canonicalEvents e \<longleftrightarrow>
     e = ''pipeline'' \<or> e = ''job'' \<or> e = ''push'' \<or> e = ''tag_push'' \<or>
     e = ''merge_request'' \<or> e = ''artifact_push''"

definition validateRouteMatch ::
  "string \<Rightarrow> RouteMatch \<Rightarrow> (string \<rightharpoonup> string set) \<Rightarrow> config_error + unit" where
  "validateRouteMatch routeID m repositories =
     (if \<not> identifierPattern (rm_Source m) then Inl (InvalidIdentifier ''route source'' (rm_Source m))
      else case repositories (rm_Source m) of
        None \<Rightarrow> Inl (UnknownSource routeID (rm_Source m))
      | Some known \<Rightarrow>
          if \<not> identifierPattern (rm_Repository m)
          then Inl (InvalidIdentifier ''route repository'' (rm_Repository m))
          else if rm_Repository m \<notin> known then Inl (UnknownRepository routeID (rm_Repository m))
          else if \<not> canonicalEvents (rm_Event m) then Inl (UnsupportedEvent routeID (rm_Event m))
          else Inr ())"

fun validateDeployTargets ::
  "string \<Rightarrow> string set \<Rightarrow> string set \<Rightarrow> string list \<Rightarrow> config_error + unit" where
  "validateDeployTargets routeID targets seen [] = Inr ()"
| "validateDeployTargets routeID targets seen (t # ts) =
     (if t \<in> seen then Inl (DuplicateTarget routeID t)
      else if t \<notin> targets then Inl (UnknownTarget routeID t)
      else validateDeployTargets routeID targets (insert t seen) ts)"

definition validateAction :: "Route \<Rightarrow> string set \<Rightarrow> config_error + unit" where
  "validateAction route targets =
     (if ac_Type (rt_Action route) = ''record_only'' then
        (if ac_Targets (rt_Action route) \<noteq> [] then Inl (RecordOnlyTargets (rt_ID route)) else Inr ())
      else if ac_Type (rt_Action route) = ''deploy'' then
        (if ac_Targets (rt_Action route) = [] then Inl (DeployWithoutTarget (rt_ID route))
         else validateDeployTargets (rt_ID route) targets {} (ac_Targets (rt_Action route)))
      else Inl (UnsupportedAction (rt_ID route) (ac_Type (rt_Action route))))"

text \<open>The private copies of the matcher's overlap predicate in \<^verbatim>\<open>validate.go\<close>.\<close>

definition config_scalarDomainsOverlap :: "string option \<Rightarrow> string option \<Rightarrow> bool" where
  "config_scalarDomainsOverlap left right \<longleftrightarrow> left = None \<or> right = None \<or> left = right"

definition routeMatchesOverlap :: "RouteMatch \<Rightarrow> RouteMatch \<Rightarrow> bool" where
  "routeMatchesOverlap left right \<longleftrightarrow>
     rm_Source left = rm_Source right \<and>
     rm_Repository left = rm_Repository right \<and>
     rm_Event left = rm_Event right \<and>
     config_scalarDomainsOverlap (rm_Ref left) (rm_Ref right) \<and>
     config_scalarDomainsOverlap (rm_Status left) (rm_Status right) \<and>
     config_scalarDomainsOverlap (rm_Revision left) (rm_Revision right) \<and>
     config_scalarDomainsOverlap (rm_ExternalID left) (rm_ExternalID right) \<and>
     config_scalarDomainsOverlap (rm_Trigger left) (rm_Trigger right)"

section \<open>validateRoutes and canonicalize\<close>

text \<open>The first loop of \<open>validateRoutes\<close>: one route at a time, threading the known locations.\<close>

fun validateEachRoute ::
  "(string \<rightharpoonup> SourceLocation) \<Rightarrow> (string \<rightharpoonup> string set) \<Rightarrow> string set \<Rightarrow> Route list \<Rightarrow>
   config_error + unit" where
  "validateEachRoute locations repositories targets [] = Inr ()"
| "validateEachRoute locations repositories targets (route # routes) =
     (case validateIdentifier ''route'' (rt_ID route) of
        Inl e \<Rightarrow> Inl e
      | Inr _ \<Rightarrow>
          (case addUniqueLocation locations ''route'' (rt_ID route) (rt_Location route) of
             Inl e \<Rightarrow> Inl e
           | Inr locations' \<Rightarrow>
               if rt_Priority route = None then Inl (PriorityRequired (rt_ID route))
               else (case validateRouteMatch (rt_ID route) (rt_Match route) repositories of
                  Inl e \<Rightarrow> Inl e
                | Inr _ \<Rightarrow>
                    (case validateAction route targets of
                       Inl e \<Rightarrow> Inl e
                     | Inr _ \<Rightarrow> validateEachRoute locations' repositories targets routes))))"

text \<open>The second loop: every later route against one. The priorities are compared after the first loop
  has rejected a nil priority, so the dereferences of the source cannot fail.\<close>

fun overlapsWithLater :: "Route \<Rightarrow> Route list \<Rightarrow> config_error + unit" where
  "overlapsWithLater left [] = Inr ()"
| "overlapsWithLater left (right # routes) =
     (if rt_Priority left = rt_Priority right \<and>
         routeMatchesOverlap (rt_Match left) (rt_Match right)
      then Inl (EqualPriorityOverlap (rt_ID left) (rt_ID right))
      else overlapsWithLater left routes)"

fun validateOverlaps :: "Route list \<Rightarrow> config_error + unit" where
  "validateOverlaps [] = Inr ()"
| "validateOverlaps (left # routes) =
     (case overlapsWithLater left routes of
        Inl e \<Rightarrow> Inl e | Inr _ \<Rightarrow> validateOverlaps routes)"

definition validateRoutes ::
  "Route list \<Rightarrow> (string \<rightharpoonup> string set) \<Rightarrow> string set \<Rightarrow> config_error + unit" where
  "validateRoutes routes repositories targets =
     (case validateEachRoute (\<lambda>_. None) repositories targets routes of
        Inl e \<Rightarrow> Inl e | Inr _ \<Rightarrow> validateOverlaps routes)"

definition route_priority :: "Route \<Rightarrow> int" where
  "route_priority r = (case rt_Priority r of Some p \<Rightarrow> p | None \<Rightarrow> 0)"

definition canonicalizeRoutes :: "Route list \<Rightarrow> Route list" where
  "canonicalizeRoutes routes = sort_key (\<lambda>r. (route_priority r, rt_ID r)) routes"

section \<open>What acceptance means\<close>

lemma routeMatchesOverlap_eq: "routeMatchesOverlap l r \<longleftrightarrow> Overlaps l r"
  by (simp add: routeMatchesOverlap_def Overlaps_def config_scalarDomainsOverlap_def
      scalarDomainsOverlap_def)

lemma validateDeployTargets_iff:
  "validateDeployTargets i targets seen ts = Inr () \<longleftrightarrow>
     distinct ts \<and> set ts \<inter> seen = {} \<and> set ts \<subseteq> targets"
  by (induction ts arbitrary: seen) auto

definition action_ok :: "string set \<Rightarrow> Action \<Rightarrow> bool" where
  "action_ok targets a \<longleftrightarrow>
     (ac_Type a = ''record_only'' \<and> ac_Targets a = []) \<or>
     (ac_Type a = ''deploy'' \<and> ac_Targets a \<noteq> [] \<and> distinct (ac_Targets a) \<and>
      set (ac_Targets a) \<subseteq> targets)"

lemma validateAction_iff: "validateAction r targets = Inr () \<longleftrightarrow> action_ok targets (rt_Action r)"
  by (auto simp: validateAction_def action_ok_def validateDeployTargets_iff)

definition match_ok :: "(string \<rightharpoonup> string set) \<Rightarrow> RouteMatch \<Rightarrow> bool" where
  "match_ok repositories m \<longleftrightarrow>
     identifierPattern (rm_Source m) \<and> identifierPattern (rm_Repository m) \<and>
     canonicalEvents (rm_Event m) \<and>
     (\<exists>known. repositories (rm_Source m) = Some known \<and> rm_Repository m \<in> known)"

lemma validateRouteMatch_iff:
  "validateRouteMatch i m repositories = Inr () \<longleftrightarrow> match_ok repositories m"
  by (auto simp: validateRouteMatch_def match_ok_def split: option.splits)

definition route_ok :: "(string \<rightharpoonup> string set) \<Rightarrow> string set \<Rightarrow> Route \<Rightarrow> bool" where
  "route_ok repositories targets r \<longleftrightarrow>
     identifierPattern (rt_ID r) \<and> rt_Priority r \<noteq> None \<and> match_ok repositories (rt_Match r) \<and>
     action_ok targets (rt_Action r)"

lemma validateEachRoute_step:
  "validateEachRoute locations repositories targets (r # rs) = Inr () \<longleftrightarrow>
     locations (rt_ID r) = None \<and> route_ok repositories targets r \<and>
     validateEachRoute (locations(rt_ID r \<mapsto> rt_Location r)) repositories targets rs = Inr ()"
  using validateRouteMatch_iff [of "rt_ID r" "rt_Match r" repositories]
    validateAction_iff [of r targets]
  by (auto simp: validateIdentifier_def addUniqueLocation_def route_ok_def
      split: option.splits sum.splits)

lemma validateEachRoute_iff:
  "validateEachRoute locations repositories targets rs = Inr () \<longleftrightarrow>
     distinct (map rt_ID rs) \<and> (\<forall>r\<in>set rs. route_ok repositories targets r \<and> rt_ID r \<notin> dom locations)"
proof (induction rs arbitrary: locations)
  case Nil
  then show ?case by simp
next
  case (Cons r rs)
  then show ?case
    by (simp only: validateEachRoute_step Cons.IH) (force simp: domIff image_iff)
qed

definition routes_conflict :: "Route \<Rightarrow> Route \<Rightarrow> bool" where
  "routes_conflict l r \<longleftrightarrow>
     rt_Priority l = rt_Priority r \<and> Overlaps (rt_Match l) (rt_Match r)"

lemma routes_conflict_sym: "routes_conflict l r \<Longrightarrow> routes_conflict r l"
  by (auto simp: routes_conflict_def Overlaps_sym)

lemma overlapsWithLater_iff:
  "overlapsWithLater l rs = Inr () \<longleftrightarrow> (\<forall>r\<in>set rs. \<not> routes_conflict l r)"
  by (induction rs) (auto simp: routes_conflict_def routeMatchesOverlap_eq)

lemma validateOverlaps_iff:
  "validateOverlaps rs = Inr () \<longleftrightarrow> sorted_wrt (\<lambda>l r. \<not> routes_conflict l r) rs"
  by (induction rs) (auto simp: overlapsWithLater_iff)

lemma validateRoutes_iff:
  "validateRoutes rs repositories targets = Inr () \<longleftrightarrow>
     distinct (map rt_ID rs) \<and> (\<forall>r\<in>set rs. route_ok repositories targets r) \<and>
     sorted_wrt (\<lambda>l r. \<not> routes_conflict l r) rs"
  by (auto simp: validateRoutes_def validateEachRoute_iff validateOverlaps_iff)

text \<open>The order-free reading of the pairwise check: with distinct IDs, no two different routes
  conflict.\<close>

lemma sorted_wrt_no_conflict_iff:
  assumes "distinct (map rt_ID rs)"
  shows "sorted_wrt (\<lambda>l r. \<not> routes_conflict l r) rs \<longleftrightarrow>
         (\<forall>l\<in>set rs. \<forall>r\<in>set rs. l \<noteq> r \<longrightarrow> \<not> routes_conflict l r)"
  using assms
proof (induction rs)
  case Nil
  then show ?case by simp
next
  case (Cons x xs)
  then have "x \<notin> set xs" by auto
  with Cons show ?case by (auto dest: routes_conflict_sym)
qed

lemma validateRoutes_set_iff:
  "validateRoutes rs repositories targets = Inr () \<longleftrightarrow>
     distinct (map rt_ID rs) \<and> (\<forall>r\<in>set rs. route_ok repositories targets r) \<and>
     (\<forall>l\<in>set rs. \<forall>r\<in>set rs. l \<noteq> r \<longrightarrow> \<not> routes_conflict l r)"
  using sorted_wrt_no_conflict_iff by (auto simp: validateRoutes_iff)

lemma validated_keys_distinct:
  "validateRoutes rs repositories targets = Inr () \<Longrightarrow>
   distinct (map (\<lambda>r. (route_priority r, rt_ID r)) rs)"
  by (auto simp: validateRoutes_iff distinct_map inj_on_def)

section \<open>Order independence and determinism of routing\<close>

text \<open>The set of accepted route files has no order: if the routes read in one order are accepted,
  the same routes read in any other order are accepted too and compile to the same route list.\<close>

theorem canonicalizeRoutes_order_independent:
  assumes ok: "validateRoutes routes repositories targets = Inr ()"
    and same: "mset routes' = mset routes"
  shows "validateRoutes routes' repositories targets = Inr () \<and>
         canonicalizeRoutes routes' = canonicalizeRoutes routes"
proof
  have s: "set routes' = set routes" using same by (rule mset_eq_setD)
  have "mset (map rt_ID routes') = mset (map rt_ID routes)" using same by simp
  then have "distinct (map rt_ID routes')"
    using ok by (metis validateRoutes_iff mset_eq_imp_distinct_iff)
  then show "validateRoutes routes' repositories targets = Inr ()"
    using ok by (simp add: validateRoutes_set_iff s)
  show "canonicalizeRoutes routes' = canonicalizeRoutes routes"
    unfolding canonicalizeRoutes_def
    using sort_key_distinct_unique [OF same [symmetric] validated_keys_distinct [OF ok]] by simp
qed

text \<open>Routing is deterministic: among accepted routes in canonical order, the first match has a
  strictly smaller priority number than every other route that matches the event.\<close>

theorem FirstCanonical_unique_best:
  assumes ok: "validateRoutes routes repositories targets = Inr ()"
    and first: "FirstCanonical (canonicalizeRoutes routes) event = Some r"
    and other: "x \<in> set routes" "x \<noteq> r" "routeMatches (rt_Match x) event"
  shows "r \<in> set routes \<and> routeMatches (rt_Match r) event \<and> route_priority r < route_priority x"
proof -
  have r: "r \<in> set routes" "routeMatches (rt_Match r) event"
    using FirstCanonical_SomeD [OF first] by (simp_all add: canonicalizeRoutes_def)
  have "(route_priority r, rt_ID r) \<le> (route_priority x, rt_ID x)"
    using FirstCanonical_sorted_min [OF first, of "\<lambda>r. (route_priority r, rt_ID r)" x] other
    by (simp add: canonicalizeRoutes_def)
  then have "route_priority r \<le> route_priority x" by (auto simp: less_eq_prod_def)
  moreover have "rt_Priority r \<noteq> rt_Priority x"
    using ok r other routeMatches_Overlaps [OF r(2) other(3)]
    by (auto simp: validateRoutes_set_iff routes_conflict_def)
  moreover have "rt_Priority r \<noteq> None" "rt_Priority x \<noteq> None"
    using ok r other by (auto simp: validateRoutes_iff route_ok_def)
  ultimately show ?thesis using r by (auto simp: route_priority_def)
qed

end
