(* ===== verification/Generation_Props.thy ===== *)
theory Generation_Props
  imports Generation Route_Config Store_Ingest_Props
begin

text \<open>
  What a compiled generation guarantees: its private matcher is the matcher, a decision is one the store
  accepts, the deliveries it creates are compatible with it, and equal fingerprints mean the same remote
  resource.
\<close>

section \<open>Routing\<close>

lemma generationRouteMatches_eq: "generationRouteMatches m e = routeMatches m e"
  by (simp add: generationRouteMatches_def routeMatches_def matchesOptional_def matchesScalar_def)

lemma find_FirstCanonical: "find (\<lambda>r. generationRouteMatches (rt_Match r) e) rs = FirstCanonical rs e"
  by (induction rs) (simp_all add: generationRouteMatches_eq)

lemma routeDeliveries_Some:
  "routeDeliveries g ids = Some ds \<Longrightarrow>
   length ds = length ids \<and>
   (\<forall>d\<in>set ds. \<exists>i\<in>set ids. \<exists>t. map_of (gn_targets g) i = Some t \<and> nd_TargetID d = tg_ID t \<and>
      nd_TargetSnapshot d = tg_Snapshot t \<and> nd_DispatchKey d = tg_Fingerprint t)"
  by (induction ids arbitrary: ds) (fastforce split: option.splits)+

lemma routeDeliveries_ids:
  assumes "\<And>i t. map_of (gn_targets g) i = Some t \<Longrightarrow> tg_ID t = i"
  shows "routeDeliveries g ids = Some ds \<Longrightarrow> map nd_TargetID ds = ids"
  using assms by (induction ids arbitrary: ds) (auto split: option.splits)

text \<open>A decision is one of the three kinds, with deliveries only for a deploy rule.\<close>

lemma Route_cases:
  assumes "Route g event = Inr dec"
  shows "(FirstCanonical (gn_routes g) event = None \<and> rd_RoutingResult dec = RoutingUnmatched \<and> rd_Deliveries dec = []) \<or>
    (\<exists>r. FirstCanonical (gn_routes g) event = Some r \<and> rd_RuleID dec = rt_ID r \<and>
       rd_RuleSnapshot dec = Some (newCanonicalRuleSnapshot r) \<and>
       ((ac_Type (rt_Action r) = ''record_only'' \<and> rd_RoutingResult dec = RoutingRecordOnly \<and> rd_Deliveries dec = []) \<or>
        (ac_Type (rt_Action r) = ''deploy'' \<and> rd_RoutingResult dec = RoutingDeploy \<and>
         routeDeliveries g (ac_Targets (rt_Action r)) = Some (rd_Deliveries dec) \<and> rd_Deliveries dec \<noteq> [])))"
  using assms routeDeliveries_Some [of g "ac_Targets (rt_Action (the (FirstCanonical (gn_routes g) event)))"]
  unfolding Generation.Route_def find_FirstCanonical
  by (auto simp: Let_def split: option.splits if_splits)

lemma Route_final: "Route g event = Inr dec \<Longrightarrow> final_decision dec"
  by (drule Route_cases) (auto simp: final_decision_def validateDeliveries_def)

section \<open>Bindings\<close>

definition canonical_ok :: "canonical \<Rightarrow> Connections \<Rightarrow> TargetConfig set \<Rightarrow> bool" where
  "canonical_ok canon c cfgs \<longleftrightarrow>
     (\<forall>i url s. map_of (cn_dokploy c) i = Some (url, s) \<longrightarrow> url \<noteq> '''' \<and> dokployURL canon url = Some url) \<and>
     (\<forall>i url s. map_of (cn_http c) i = Some (url, s) \<longrightarrow> i \<noteq> '''' \<and> url \<noteq> '''' \<and> httpURL canon url = Some url) \<and>
     (\<forall>cfg\<in>cfgs. \<forall>url. forwardURL canon (tc_URL cfg) = Some url \<longrightarrow> forwardURL canon url = Some url)"

lemma canonical_ok_one: "canonical_ok canon c cfgs \<Longrightarrow> cfg \<in> cfgs \<Longrightarrow> canonical_ok canon c {cfg}"
  by (simp add: canonical_ok_def)

definition target_config_ok :: "TargetConfig \<Rightarrow> bool" where
  "target_config_ok t \<longleftrightarrow> (tc_Type t = ''dokploy'' \<longrightarrow> tc_ResourceType t \<noteq> '''' \<and> tc_ResourceID t \<noteq> '''')"

text \<open>\<open>binds\<close>: the snapshot \<open>h\<close> names the target and hashes to its fingerprint.\<close>

definition binds :: "(string \<Rightarrow> string) \<Rightarrow> canonical \<Rightarrow> Target \<Rightarrow> targetSnapshot \<Rightarrow> bool" where
  "binds sha canon t h \<longleftrightarrow>
     ts_ID h = tg_ID t \<and> ts_Type h = tg_Type t \<and> ts_Type h \<noteq> '''' \<and> ts_BindingVersion h = tg_BindingVersion t \<and>
     (\<exists>fp. snapshotFingerprint sha canon (ts_BindingVersion h) h = Some fp \<and>
        tg_Fingerprint t = tunnelBindingFingerprint sha fp (ts_SSH h))"

lemma snapshotFingerprint_SSH [simp]:
  "snapshotFingerprint sha canon v (h\<lparr>ts_SSH := x\<rparr>) = snapshotFingerprint sha canon v h"
  by (cases h) (simp add: snapshotFingerprint_def split: option.splits)

lemma withTunnel_binds:
  assumes "binds sha canon t h" and "ts_SSH h = None"
  shows "\<exists>h'. tg_Snapshot (withTunnel sha c cfg (h, t)) = SnapshotDoc h' \<and> binds sha canon (withTunnel sha c cfg (h, t)) h'"
  using assms by (auto simp: withTunnel_def Let_def binds_def tunnelBindingFingerprint_def)

lemma withTunnel_keeps:
  "tg_ID (withTunnel sha c cfg (h, t)) = tg_ID t"
  "tg_PollInterval (withTunnel sha c cfg (h, t)) = tg_PollInterval t"
  "tg_PollTimeout (withTunnel sha c cfg (h, t)) = tg_PollTimeout t"
  by (simp_all add: withTunnel_def Let_def)

definition compiled_from ::
  "(string \<Rightarrow> string) \<Rightarrow> canonical \<Rightarrow> duration \<Rightarrow> duration \<Rightarrow> TargetConfig \<Rightarrow> Target \<Rightarrow> targetSnapshot \<Rightarrow> bool" where
  "compiled_from sha canon interval timeout cfg t h \<longleftrightarrow>
     ts_SSH h = None \<and> binds sha canon t h \<and> tg_ID t = tc_ID cfg \<and> tg_PollInterval t = interval \<and>
     (0 < timeout \<longrightarrow> 0 < tg_PollTimeout t)"

lemmas base_simps = baseSnapshot_def baseTarget_def emptyTarget_def emptySnapshot_def targetTimeout_def

lemma targets_compiled:
  "tc_Type cfg = ''dokploy'' \<Longrightarrow> target_config_ok cfg \<Longrightarrow> url \<noteq> '''' \<Longrightarrow> dokployURL canon url = Some url \<Longrightarrow>
   compiled_from sha canon interval timeout cfg (snd (dokployTarget sha interval timeout cfg url))
     (fst (dokployTarget sha interval timeout cfg url))"
  "tc_Type cfg = ''http'' \<Longrightarrow> tc_Connection cfg \<noteq> '''' \<Longrightarrow> url \<noteq> '''' \<Longrightarrow> httpURL canon url = Some url \<Longrightarrow>
   compiled_from sha canon interval timeout cfg (snd (httpTarget sha interval timeout cfg url))
     (fst (httpTarget sha interval timeout cfg url))"
  "tc_Type cfg = ''forward'' \<Longrightarrow> forwardURL canon url = Some url \<Longrightarrow>
   compiled_from sha canon interval timeout cfg (snd (forwardTarget sha interval timeout cfg url))
     (fst (forwardTarget sha interval timeout cfg url))"
  by (simp_all add: dokployTarget_def httpTarget_def forwardTarget_def base_simps compiled_from_def binds_def
      target_config_ok_def snapshotFingerprint_def tunnelBindingFingerprint_def Let_def split: option.splits)

lemma compileTarget_from:
  assumes c: "compileTarget sha canon c interval timeout cfg = Some t"
    and ok: "canonical_ok canon c {cfg}" "target_config_ok cfg"
  shows "\<exists>x. t = withTunnel sha c cfg x \<and> compiled_from sha canon interval timeout cfg (snd x) (fst x)"
proof -
  consider (dokploy) url s where "tc_Type cfg = ''dokploy''" "map_of (cn_dokploy c) (tc_Connection cfg) = Some (url, s)"
      "t = withTunnel sha c cfg (dokployTarget sha interval timeout cfg url)"
    | (http) url s where "tc_Type cfg = ''http''" "map_of (cn_http c) (tc_Connection cfg) = Some (url, s)"
      "t = withTunnel sha c cfg (httpTarget sha interval timeout cfg url)"
    | (forward) url where "tc_Type cfg = ''forward''" "forwardURL canon (tc_URL cfg) = Some url"
      "t = withTunnel sha c cfg (forwardTarget sha interval timeout cfg url)"
    using c by (auto simp: compileTarget_def split: if_splits)
  then show ?thesis
  proof cases
    case dokploy
    then have "url \<noteq> ''''" "dokployURL canon url = Some url" using ok(1) unfolding canonical_ok_def by blast+
    then show ?thesis using dokploy(3) targets_compiled(1) [OF dokploy(1) ok(2)] by blast
  next
    case http
    then have "tc_Connection cfg \<noteq> ''''" "url \<noteq> ''''" "httpURL canon url = Some url"
      using ok(1) unfolding canonical_ok_def by blast+
    then show ?thesis using http(3) targets_compiled(2) [OF http(1)] by blast
  next
    case forward
    then have "forwardURL canon url = Some url" using ok(1) unfolding canonical_ok_def by blast
    then show ?thesis using forward(3) targets_compiled(3) [OF forward(1)] by blast
  qed
qed

lemma compileTarget_spec:
  assumes c: "compileTarget sha canon c interval timeout cfg = Some t"
    and ok: "canonical_ok canon c {cfg}" "target_config_ok cfg"
  shows "tg_ID t = tc_ID cfg \<and> tg_PollInterval t = interval \<and> (0 < timeout \<longrightarrow> 0 < tg_PollTimeout t) \<and>
     (\<exists>h. tg_Snapshot t = SnapshotDoc h \<and> binds sha canon t h)"
proof -
  obtain h t0 where t: "t = withTunnel sha c cfg (h, t0)" and f: "compiled_from sha canon interval timeout cfg t0 h"
    using compileTarget_from [OF c ok] by (metis prod.collapse)
  then show ?thesis
    using withTunnel_binds [of sha canon t0 h c cfg] by (simp add: compiled_from_def withTunnel_keeps)
qed

lemma compileTarget_resolves:
  assumes c: "compileTarget sha canon c interval timeout cfg = Some t"
    and ok: "canonical_ok canon c {cfg}" "target_config_ok cfg"
    and g: "map_of (gn_targets g) (tc_ID cfg) = Some t"
  shows "ResolveTarget sha canon g (tc_ID cfg) (Some (tg_Snapshot t)) = (Some t, BindingCompatible)"
  using compileTarget_spec [OF c ok] g by (auto simp: ResolveTarget_def binds_def)

text \<open>A compiled target table.\<close>

fun compileTargets ::
  "(string \<Rightarrow> string) \<Rightarrow> canonical \<Rightarrow> Connections \<Rightarrow> duration \<Rightarrow> duration \<Rightarrow> TargetConfig list \<Rightarrow>
   (string \<times> Target) list option" where
  "compileTargets sha canon c interval timeout [] = Some []"
| "compileTargets sha canon c interval timeout (cfg # cfgs) =
     (case (compileTarget sha canon c interval timeout cfg, compileTargets sha canon c interval timeout cfgs) of
        (Some t, Some ts) \<Rightarrow> Some ((tc_ID cfg, t) # ts) | _ \<Rightarrow> None)"

definition bindings_ok :: "(string \<Rightarrow> string) \<Rightarrow> canonical \<Rightarrow> Generation \<Rightarrow> bool" where
  "bindings_ok sha canon g \<longleftrightarrow>
     (\<forall>i t. map_of (gn_targets g) i = Some t \<longrightarrow>
        tg_ID t = i \<and> ResolveTarget sha canon g i (Some (tg_Snapshot t)) = (Some t, BindingCompatible) \<and>
        millisecond \<le> tg_PollInterval t \<and> 0 < tg_PollTimeout t)"

lemma compileTargets_lookup:
  assumes "compileTargets sha canon c interval timeout cfgs = Some ts" and "map_of ts i = Some t"
  shows "\<exists>cfg\<in>set cfgs. tc_ID cfg = i \<and> compileTarget sha canon c interval timeout cfg = Some t"
  using assms by (induction cfgs arbitrary: ts) (fastforce split: option.splits if_splits)+

lemma pollingSettings_bounds:
  "millisecond \<le> fst (pollingSettings interval timeout) \<and> 0 < snd (pollingSettings interval timeout)"
  by (simp add: pollingSettings_def time_defs)

lemma compiled_bindings_ok:
  assumes c: "compileTargets sha canon c (fst (pollingSettings i0 t0)) (snd (pollingSettings i0 t0)) cfgs = Some (gn_targets g)"
    and ok: "canonical_ok canon c (set cfgs)" "\<forall>cfg\<in>set cfgs. target_config_ok cfg"
  shows "bindings_ok sha canon g"
  unfolding bindings_ok_def
proof (intro allI impI)
  fix i t assume l: "map_of (gn_targets g) i = Some t"
  then obtain cfg where cfg: "cfg \<in> set cfgs" "tc_ID cfg = i"
      "compileTarget sha canon c (fst (pollingSettings i0 t0)) (snd (pollingSettings i0 t0)) cfg = Some t"
    using compileTargets_lookup [OF c l] by blast
  have tok: "target_config_ok cfg" and can: "canonical_ok canon c {cfg}"
    using ok(2) cfg(1) canonical_ok_one [OF ok(1) cfg(1)] by blast+
  have "tg_ID t = i" "tg_PollInterval t = fst (pollingSettings i0 t0)" "0 < tg_PollTimeout t"
    using compileTarget_spec [OF cfg(3) can tok] cfg(2) pollingSettings_bounds [of i0 t0] by auto
  then show "tg_ID t = i \<and> ResolveTarget sha canon g i (Some (tg_Snapshot t)) = (Some t, BindingCompatible) \<and>
      millisecond \<le> tg_PollInterval t \<and> 0 < tg_PollTimeout t"
    using compileTarget_resolves [OF cfg(3) can tok, of g] cfg(2) l pollingSettings_bounds [of i0 t0] by simp
qed

lemma Route_compatible:
  assumes ok: "bindings_ok sha canon g" and r: "Route g event = Inr dec" and d: "d \<in> set (rd_Deliveries dec)"
  shows "\<exists>t. ResolveTarget sha canon g (nd_TargetID d) (Some (nd_TargetSnapshot d)) = (Some t, BindingCompatible) \<and>
     nd_DispatchKey d = tg_Fingerprint t"
proof -
  obtain ids where "routeDeliveries g ids = Some (rd_Deliveries dec)" using Route_cases [OF r] d by auto
  then obtain i t where "map_of (gn_targets g) i = Some t" "nd_TargetID d = tg_ID t"
      "nd_TargetSnapshot d = tg_Snapshot t" "nd_DispatchKey d = tg_Fingerprint t"
    using routeDeliveries_Some d by blast
  then show ?thesis using ok by (auto simp: bindings_ok_def)
qed

lemma Route_distinct_targets:
  assumes ok: "bindings_ok sha canon g" and r: "Route g event = Inr dec"
    and v: "\<forall>rt\<in>set (gn_routes g). distinct (ac_Targets (rt_Action rt))"
  shows "distinct (map nd_TargetID (rd_Deliveries dec))"
  using Route_cases [OF r] routeDeliveries_ids [of g] ok v FirstCanonical_SomeD [of "gn_routes g" event]
  by (auto simp: bindings_ok_def)

section \<open>Fingerprints identify the resource\<close>

lemma decimal_12: "decimal 1 \<noteq> decimal bindingVersion"
  by (simp add: decimal_def bindingVersion_def decimalNat.simps)

lemma fingerprint_dokploy_inject:
  assumes inj: "inj_on sha {frameFields [decimal bindingVersion, ''dokploy'', rt, url, rid],
      frameFields [decimal bindingVersion, ''dokploy'', rt', url', rid']}"
    and short: "short_fields [rt, url, rid, rt', url', rid']"
    and eq: "bindingFingerprint sha bindingVersion ''dokploy'' rt url rid =
             bindingFingerprint sha bindingVersion ''dokploy'' rt' url' rid'"
  shows "rt = rt' \<and> url = url' \<and> rid = rid'"
proof -
  have "length (decimal bindingVersion) < 2 ^ 64" "length ''dokploy'' < (2 ^ 64 :: nat)"
    by (simp_all add: decimal_def bindingVersion_def decimalNat.simps)
  then have "[decimal bindingVersion, ''dokploy'', rt, url, rid] = [decimal bindingVersion, ''dokploy'', rt', url', rid']"
    using short eq unfolding bindingFingerprint_def bindingFingerprintFields_def
    by (intro digest_inject [OF inj]) (simp_all add: short_fields_def)
  then show ?thesis by simp
qed

end
