(* ===== verification/Poller.thy ===== *)
theory Poller
  imports Retention_Service Dokploy Generation_Props
begin

text \<open>
  The poller (\<^verbatim>\<open>internal/worker/poller.go\<close>): it claims due attempts, asks Dokploy for the deployment of
  each and completes the poll with the status it found, or ends the monitoring at the deadline.

  \<open>remote w target\<close> is what the history request for the work item \<open>w\<close> answers; \<open>hook\<close> is the retention
  trigger the application installs for terminal transitions; \<open>cancelled\<close> says at which item the context
  is already done.
\<close>

section \<open>Definitions\<close>

datatype worker_error = WorkerStore store_error | WorkerCanceled | WorkerRoute string

definition pollUpdate :: "PollWork \<Rightarrow> Deployment \<Rightarrow> bool \<Rightarrow> time \<Rightarrow> duration \<Rightarrow> PollUpdate" where
  "pollUpdate work match matched now interval =
     (let update = \<lparr>pu_TransportStatus = pw_TransportStatus work, pu_DeploymentStatus = pw_DeploymentStatus work,
                    pu_DeploymentID = '''', pu_NextPollAt = None\<rparr>;
          deadlineReached = (\<not> now < pw_MonitoringDeadline work)
      in if matched then
           let update = update\<lparr>pu_TransportStatus := TransportEnqueued, pu_DeploymentID := dp_DeploymentID match\<rparr>;
               status = (case dp_Status match of Some s \<Rightarrow> s | None \<Rightarrow> '''')
           in if status = ''done'' then update\<lparr>pu_DeploymentStatus := DeploymentDone\<rparr>
              else if status = ''error'' then update\<lparr>pu_DeploymentStatus := DeploymentError\<rparr>
              else if status = ''cancelled'' then update\<lparr>pu_DeploymentStatus := DeploymentCancelled\<rparr>
              else let update = update\<lparr>pu_DeploymentStatus :=
                         (if status = ''running'' then DeploymentRunning else DeploymentUnrecognized)\<rparr>
              in if deadlineReached then update\<lparr>pu_DeploymentStatus := DeploymentTimeout\<rparr>
                 else update\<lparr>pu_NextPollAt := Some (now + interval)\<rparr>
         else if deadlineReached then
           update\<lparr>pu_DeploymentStatus :=
             (if pw_DeploymentID work \<noteq> '''' then DeploymentTimeout else DeploymentUnknown)\<rparr>
         else update\<lparr>pu_NextPollAt := Some (now + interval)\<rparr>)"

text \<open>The lookup of one work item: the deployment, whether it was found, and whether the history cannot
  be correlated safely.\<close>

definition pollLookup :: "HistoryResponse \<Rightarrow> Target \<Rightarrow> PollWork \<Rightarrow> Deployment \<times> bool \<times> bool" where
  "pollLookup response target work =
     (if pw_DeploymentID work \<noteq> '''' \<or> pw_DeploymentCursor work = None then
        (case FindDeployment response (tg_ComposeID target) (pw_AttemptID work) (pw_DeploymentID work) of
           (match, matched, err) \<Rightarrow> (match, matched, False))
      else
        (case FindDeploymentAfter response (tg_ComposeID target) (pw_AttemptID work)
                (case pw_DeploymentCursor work of Some c \<Rightarrow> c | None \<Rightarrow> '''') of
           (match, lookup, err) \<Rightarrow>
             (match, lookup = DeploymentFound, lookup = DeploymentAmbiguous \<or> lookup = DeploymentCursorMissing)))"

definition pollItem ::
  "(string \<Rightarrow> string) \<Rightarrow> canonical \<Rightarrow> Generation \<Rightarrow> (PollWork \<Rightarrow> Target \<Rightarrow> HistoryResponse) \<Rightarrow> time \<Rightarrow> PollWork \<Rightarrow>
   PollUpdate" where
  "pollItem sha canon g remote now work =
     (case ResolveTarget sha canon g (pw_TargetID work) (pw_TargetSnapshot work) of
        (Some target, BindingCompatible) \<Rightarrow>
          (case pollLookup (remote work target) target work of
             (match, matched, unsafeCorrelation) \<Rightarrow>
               let update = pollUpdate work match matched now (tg_PollInterval target)
               in if unsafeCorrelation
                  then update\<lparr>pu_DeploymentStatus := DeploymentUnknown, pu_NextPollAt := None\<rparr> else update)
      | _ \<Rightarrow> pollUpdate work emptyDeployment False now (gn_pollInterval g))"

fun pollAll ::
  "(nat \<Rightarrow> string) \<Rightarrow> (db \<Rightarrow> (store_error + unit) \<times> db) \<Rightarrow> (PollWork \<Rightarrow> bool) \<Rightarrow> (PollWork \<Rightarrow> PollUpdate) \<Rightarrow> time \<Rightarrow>
   PollWork list \<Rightarrow> db \<Rightarrow> (worker_error + unit) \<times> db" where
  "pollAll uuid hook cancelled item now [] db = (Inr (), db)"
| "pollAll uuid hook cancelled item now (work # rest) db =
     (if cancelled work then (Inl WorkerCanceled, db)
      else let update = item work in
      case CompletePoll uuid work update now db of
        (Inl ErrPollNotClaimed, db1) \<Rightarrow> pollAll uuid hook cancelled item now rest db1
      | (Inl e, db1) \<Rightarrow> (Inl (WorkerStore e), db1)
      | (Inr changed, db1) \<Rightarrow>
          if changed \<and> \<not> Active (pu_TransportStatus update) (pu_DeploymentStatus update) then
            (case hook db1 of
               (Inl e, db2) \<Rightarrow> (Inl (WorkerStore e), db2)
             | (Inr _, db2) \<Rightarrow> pollAll uuid hook cancelled item now rest db2)
          else pollAll uuid hook cancelled item now rest db1)"

definition PollerRunOnce ::
  "(nat \<Rightarrow> string) \<Rightarrow> (string \<Rightarrow> string) \<Rightarrow> canonical \<Rightarrow> (db \<Rightarrow> (store_error + unit) \<times> db) \<Rightarrow> (PollWork \<Rightarrow> bool) \<Rightarrow>
   (PollWork \<Rightarrow> Target \<Rightarrow> HistoryResponse) \<Rightarrow> Generation \<Rightarrow> time \<Rightarrow> db \<Rightarrow> (worker_error + unit) \<times> db" where
  "PollerRunOnce uuid sha canon hook cancelled remote g now db =
     (case ListDuePolls now db of
        (Inl e, db1) \<Rightarrow> (Inl (WorkerStore e), db1)
      | (Inr workItems, db1) \<Rightarrow>
          pollAll uuid hook cancelled (pollItem sha canon g remote now) now workItems db1)"

text \<open>\<^verbatim>\<open>Recover\<close>: the schedules of the current targets for the recovery after a restart.\<close>

definition targetSchedules :: "Generation \<Rightarrow> string \<rightharpoonup> PollSchedule" where
  "targetSchedules g =
     map_of (map (\<lambda>t. (tg_ID t, \<lparr>ps_Interval = tg_PollInterval t, ps_Timeout = tg_PollTimeout t\<rparr>)) (Targets g))"

definition PollerRecover ::
  "(nat \<Rightarrow> string) \<Rightarrow> Generation \<Rightarrow> time \<Rightarrow> db \<Rightarrow> (store_error + StatusChange list) \<times> db" where
  "PollerRecover uuid g now db =
     RecoverInterrupted uuid now \<lparr>ps_Interval = gn_pollInterval g, ps_Timeout = gn_pollTimeout g\<rparr>
       (targetSchedules g) db"

section \<open>The update of one poll\<close>

lemma pollUpdate_deadline:
  "pw_MonitoringDeadline work \<le> now \<Longrightarrow>
   \<not> monitored (pu_DeploymentStatus (pollUpdate work m matched now interval)) \<and>
   pu_NextPollAt (pollUpdate work m matched now interval) = None"
  by (simp add: pollUpdate_def Let_def)

lemma pollUpdate_next:
  "pu_NextPollAt (pollUpdate work m matched now interval) \<noteq> None \<Longrightarrow>
   pu_NextPollAt (pollUpdate work m matched now interval) = Some (now + interval)"
  by (auto simp: pollUpdate_def Let_def split: if_splits)

lemma attempt_ok_transport:
  "attempt_ok a \<Longrightarrow> monitored (at_deployment_status a) \<Longrightarrow>
   at_transport_status a = TransportEnqueued \<or>
   (at_transport_status a = TransportUnknown \<and> at_deployment_status a = DeploymentLocating)"
  by (cases "at_transport_status a") (auto simp: attempt_ok_def)

lemma pollUpdate_ok:
  assumes d: "describes w a" and ok: "attempt_ok a" and m: "matched \<Longrightarrow> dp_DeploymentID m \<noteq> ''''"
  shows "poll_update_ok a (pollUpdate w m matched now interval)"
proof -
  have t: "at_transport_status a = TransportEnqueued \<or>
      (at_transport_status a = TransportUnknown \<and> at_deployment_status a = DeploymentLocating)"
    using attempt_ok_transport [OF ok] d by (simp add: describes_def)
  have s: "at_deployment_status a \<in> {DeploymentLocating, DeploymentRunning, DeploymentUnrecognized}"
    using d by (simp add: describes_def monitored_def)
  have i: "at_deployment_id a = None \<longleftrightarrow> pw_DeploymentID w = ''''"
    using d ok by (auto simp: describes_def attempt_ok_def nullString_def split: option.splits)
  have l: "at_deployment_status a = DeploymentLocating \<longleftrightarrow> at_deployment_id a = None"
    using ok s by (auto simp: attempt_ok_def)
  show ?thesis
  proof (cases matched)
    case True
    then show ?thesis using m d by (auto simp: poll_update_ok_def pollUpdate_def Let_def describes_def)
  next
    case False
    then show ?thesis using d t s l i
      by (auto simp: poll_update_ok_def pollUpdate_def Let_def describes_def)
  qed
qed

lemma FindDeploymentAfter_id:
  assumes "FindDeploymentAfter response composeID attemptID cursor = (m, DeploymentFound, err)"
  shows "dp_DeploymentID m \<noteq> ''''"
proof -
  obtain newer where n: "newerThan response cursor newer"
      "newer = [m] \<or> filter (\<lambda>d. deploymentMatchesAttempt d attemptID) newer = [m]"
    using FindDeploymentAfter_found [OF assms] by blast
  then have "m \<in> set newer" by (metis filter_is_subset list.set_intros(1) subsetD)
  then show ?thesis using n(1) by (auto simp: newerThan_def)
qed

lemma pollLookup_found:
  assumes "pollLookup r target w = (m, True, u)"
  shows "dp_DeploymentID m \<noteq> '''' \<and> \<not> u"
  using assms FindDeployment_found [of r "tg_ComposeID target" "pw_AttemptID w" "pw_DeploymentID w" m]
    FindDeploymentAfter_id [of r "tg_ComposeID target" "pw_AttemptID w"]
  by (auto simp: pollLookup_def split: if_splits prod.splits)

lemma pollUpdate_transport:
  "pu_TransportStatus (pollUpdate w m matched now interval) = (if matched then TransportEnqueued else pw_TransportStatus w)"
  by (simp add: pollUpdate_def Let_def)

lemma poll_update_unknown:
  assumes "poll_update_ok a u"
    and "monitored (at_deployment_status a) \<Longrightarrow> at_transport_status a = TransportEnqueued \<or>
      (at_transport_status a = TransportUnknown \<and> at_deployment_status a = DeploymentLocating)"
    and "pu_TransportStatus u \<in> {TransportEnqueued, at_transport_status a}"
  shows "poll_update_ok a (u\<lparr>pu_DeploymentStatus := DeploymentUnknown, pu_NextPollAt := None\<rparr>)"
  using assms by (auto simp: poll_update_ok_def)

lemma pollItem_ok:
  assumes d: "describes w a" and ok: "attempt_ok a"
  shows "poll_update_ok a (pollItem sha canon g remote now w)"
proof (cases "\<exists>target. ResolveTarget sha canon g (pw_TargetID w) (pw_TargetSnapshot w) = (Some target, BindingCompatible)")
  case True
  then obtain target where r: "ResolveTarget sha canon g (pw_TargetID w) (pw_TargetSnapshot w) = (Some target, BindingCompatible)"
    by blast
  obtain m matched u where l: "pollLookup (remote w target) target w = (m, matched, u)" by (metis prod_cases3)
  let ?u = "pollUpdate w m matched now (tg_PollInterval target)"
  have ok': "poll_update_ok a ?u"
    using pollUpdate_ok [OF d ok] pollLookup_found l by metis
  have "poll_update_ok a (?u\<lparr>pu_DeploymentStatus := DeploymentUnknown, pu_NextPollAt := None\<rparr>)"
    by (rule poll_update_unknown [OF ok' attempt_ok_transport [OF ok]])
      (use d pollUpdate_transport [of w m matched now "tg_PollInterval target"] in \<open>auto simp: describes_def\<close>)
  then show ?thesis using r l ok' by (simp add: pollItem_def Let_def)
next
  case False
  then have "pollItem sha canon g remote now w = pollUpdate w emptyDeployment False now (gn_pollInterval g)"
    by (auto simp: pollItem_def split: prod.splits option.splits BindingStatus.splits)
  then show ?thesis using pollUpdate_ok [OF d ok] by simp
qed


section \<open>One round of the poller\<close>

text \<open>The completion of a claimed poll keeps the invariant whatever ran since the claim, as long as the work
  item still describes its row (\<open>work_ok\<close>), which every other transaction preserves.\<close>

lemma complete_item_durable:
  assumes u: "inj uuid" and inv: "durable_inv uuid db" and w: "work_ok db w"
  shows "durable_inv uuid (snd (CompletePoll uuid w (pollItem sha canon g remote now w) at db))"
proof (rule CompletePoll_durable [OF u inv])
  fix d a assume p: "(d, a) \<in> set (current_pairs db)" "at_id a = pw_AttemptID w"
    "at_delivery_id a = pw_DeliveryID w" "at_last_polled_at a = Some (UnixMilli (pw_ClaimedAt w))"
  then have "describes w a" using w by (simp add: work_ok_def)
  then show "poll_update_ok a (pollItem sha canon g remote now w)"
    by (rule pollItem_ok) (rule durable_currentE(1) [OF inv p(1)])
qed

definition works_ok :: "(nat \<Rightarrow> string) \<Rightarrow> db \<Rightarrow> PollWork list \<Rightarrow> bool" where
  "works_ok uuid db ws \<longleftrightarrow>
     distinct (map pw_AttemptID ws) \<and> (\<forall>w\<in>set ws. work_ok db w \<and> pw_AttemptID w \<in> uuid ` {..<db_uuids db})"

lemma works_ok_evolves:
  assumes "works_ok uuid db ws" and "evolves uuid X db db'" and "X \<inter> pw_AttemptID ` set ws = {}"
  shows "works_ok uuid db' ws"
proof -
  have n: "db_uuids db \<le> db_uuids db'" using assms(2) by (simp add: evolves_def)
  have "work_ok db' w \<and> pw_AttemptID w \<in> uuid ` {..<db_uuids db'}" if w: "w \<in> set ws" for w
    using work_ok_evolves [OF _ assms(2)] assms(1,3) w n unfolding works_ok_def by (fastforce simp: image_iff)
  then show ?thesis using assms(1) by (simp add: works_ok_def)
qed

lemma works_ok_completed:
  assumes u: "inj uuid" and inv: "durable_inv uuid db" and ws: "works_ok uuid db (w # ws)"
  shows "works_ok uuid (snd (CompletePoll uuid w upd at db)) ws"
proof (rule works_ok_evolves [OF _ CompletePoll_evolves [OF u inv, of w upd at]])
  show "works_ok uuid db ws" "{pw_AttemptID w} \<inter> pw_AttemptID ` set ws = {}"
    using ws by (auto simp: works_ok_def image_iff)
qed

lemma ListDuePolls_works_ok:
  assumes inv: "durable_inv uuid db" and l: "ListDuePolls now db = (Inr ws, db')"
  shows "works_ok uuid db' ws"
proof -
  have s: "distinct (map pw_AttemptID ws)" "\<forall>w\<in>set ws. work_ok db' w \<and> pw_AttemptID w \<in> at_id ` set (db_attempts db)"
    and e: "evolves uuid (pw_AttemptID ` set (pollCandidates now db)) db db'"
    using ListDuePolls_spec [OF durable_inv_keys [OF inv] l] by blast+
  have "at_id ` set (db_attempts db) \<subseteq> uuid ` {..<db_uuids db'}"
    using durable_ids(3) [OF inv] e unfolding evolves_def by (meson image_mono lessThan_subset_iff order_trans)
  then show ?thesis using s by (auto simp: works_ok_def)
qed

context terminal_hook
begin

lemma pollAll_durable:
  assumes u: "inj uuid"
  shows "durable_inv uuid db \<Longrightarrow> works_ok uuid db ws \<Longrightarrow>
     durable_inv uuid (snd (pollAll uuid hook cancelled (pollItem sha canon g remote now) now ws db))"
proof (induction ws arbitrary: db)
  case Nil
  then show ?case by simp
next
  case (Cons w ws)
  let ?c = "CompletePoll uuid w (pollItem sha canon g remote now w) now db"
  have wk: "work_ok db w" using Cons.prems(2) by (simp add: works_ok_def)
  have 1: "durable_inv uuid (snd ?c)" by (rule complete_item_durable [OF u Cons.prems(1) wk])
  have 2: "works_ok uuid (snd ?c) ws" by (rule works_ok_completed [OF u Cons.prems])
  have 3: "durable_inv uuid (snd (hook (snd ?c)))" "works_ok uuid (snd (hook (snd ?c))) ws"
    using hook_durable [OF 1] works_ok_evolves [OF 2 hook_evolves] by simp_all
  show ?case
    using Cons.IH [OF 1 2] Cons.IH [OF 3] Cons.prems(1) 1 3(1)
    by (auto simp: Let_def split: sum.splits store_error.splits prod.splits)
qed

lemma PollerRunOnce_durable:
  assumes u: "inj uuid" and inv: "durable_inv uuid db"
  shows "durable_inv uuid (snd (PollerRunOnce uuid sha canon hook cancelled remote g now db))"
proof -
  obtain ws db' where l: "ListDuePolls now db = (Inr ws, db')"
    unfolding ListDuePolls_def by (metis (no_types, lifting) case_prod_beta)
  then have "durable_inv uuid db'" using ListDuePolls_durable [OF inv, of now] by simp
  then show ?thesis
    using pollAll_durable [OF u _ ListDuePolls_works_ok [OF inv l]] l by (simp add: PollerRunOnce_def)
qed

end


section \<open>Claims are exclusive, monitoring ends\<close>

definition never_due :: "attempt_row \<Rightarrow> bool" where
  "never_due a \<longleftrightarrow> (\<forall>m. \<not> pollDue m a)"

lemma polled_never_due: "pollDue n a \<Longrightarrow> never_due (polled_attempt n a)"
  by (auto simp: never_due_def pollDue_def polled_attempt_def pollTime_def split: option.splits if_splits)

definition row_never_due :: "db \<Rightarrow> string \<Rightarrow> bool" where
  "row_never_due db i \<longleftrightarrow> (\<forall>a\<in>set (db_attempts db). at_id a = i \<longrightarrow> never_due a)"

lemma claimPolls_keeps_never_due:
  "row_never_due db i \<Longrightarrow> row_never_due (snd (claimPolls n ws db)) i"
proof (induction ws arbitrary: db)
  case (Cons w ws)
  let ?db = "db\<lparr>db_attempts := sql_update (claimPollCond n w db) (polled_attempt n) (db_attempts db)\<rparr>"
  have "row_never_due ?db i"
    unfolding row_never_due_def
  proof (intro ballI impI)
    fix b assume b: "b \<in> set (db_attempts ?db)" "at_id b = i"
    have "b \<in> set (sql_update (claimPollCond n w db) (polled_attempt n) (db_attempts db))" using b(1) by simp
    then obtain a where "a \<in> set (db_attempts db)" "b = (if claimPollCond n w db a then polled_attempt n a else a)"
      by (rule sql_update_memD [THEN bexE])
    then show "never_due b"
      using Cons.prems b(2) polled_never_due
      by (auto simp: row_never_due_def claimPollCond_def split: if_splits)
  qed
  then show ?case using Cons.IH [of ?db] by (simp add: Let_def split_beta)
qed simp

lemma claimed_row_never_due:
  assumes d: "distinct (map at_id (db_attempts db))"
    and one: "sql_affected (claimPollCond n w db) (db_attempts db) = 1"
  shows "row_never_due (db\<lparr>db_attempts := sql_update (claimPollCond n w db) (polled_attempt n) (db_attempts db)\<rparr>) (pw_AttemptID w)"
  unfolding row_never_due_def
proof (intro ballI impI)
  fix b assume b: "b \<in> set (db_attempts (db\<lparr>db_attempts := sql_update (claimPollCond n w db) (polled_attempt n) (db_attempts db)\<rparr>))"
    "at_id b = pw_AttemptID w"
  obtain c where c: "c \<in> set (db_attempts db)" "claimPollCond n w db c"
    using one sql_affected_pos [of _ _ 0] by (metis One_nat_def)
  have "b \<in> set (sql_update (claimPollCond n w db) (polled_attempt n) (db_attempts db))" using b(1) by simp
  then obtain a where a: "a \<in> set (db_attempts db)" "b = (if claimPollCond n w db a then polled_attempt n a else a)"
    by (rule sql_update_memD [THEN bexE])
  have "at_id a = at_id b" using a(2) by (auto simp: polled_attempt_def)
  then have "at_id a = at_id c" using b(2) c(2) by (simp add: claimPollCond_def)
  then have "a = c" by (rule keyed_unique [OF d a(1) c(1)])
  then have "b = polled_attempt n c" using a(2) c(2) by simp
  then show "never_due b" using c(2) polled_never_due by (simp add: claimPollCond_def)
qed

lemma claimPolls_exclusive:
  "distinct (map at_id (db_attempts db)) \<Longrightarrow> w \<in> set (fst (claimPolls n ws db)) \<Longrightarrow>
   row_never_due (snd (claimPolls n ws db)) (pw_AttemptID w)"
proof (induction ws arbitrary: db)
  case (Cons v ws)
  let ?db = "db\<lparr>db_attempts := sql_update (claimPollCond n v db) (polled_attempt n) (db_attempts db)\<rparr>"
  have d: "distinct (map at_id (db_attempts ?db))" using Cons.prems(1) polled.map_ids by simp
  have s: "snd (claimPolls n (v # ws) db) = snd (claimPolls n ws ?db)" by (simp add: Let_def split_beta)
  show ?case
  proof (cases "w \<in> set (fst (claimPolls n ws ?db))")
    case True
    then show ?thesis using Cons.IH [OF d] s by simp
  next
    case False
    then have "w = v" "sql_affected (claimPollCond n v db) (db_attempts db) = 1"
      using Cons.prems(2) by (auto simp: Let_def split_beta split: if_splits)
    then show ?thesis
      using claimPolls_keeps_never_due [OF claimed_row_never_due [OF Cons.prems(1)]] s by simp
  qed
qed simp

lemma not_due_not_candidate:
  "row_never_due db i \<Longrightarrow> w \<in> set (pollCandidates now db) \<Longrightarrow> pw_AttemptID w \<noteq> i"
  using pollCandidates_mem [of w now db] by (auto simp: row_never_due_def never_due_def pollWorkOf_def)

lemma ListDuePolls_no_reclaim:
  assumes "durable_inv uuid db" and "ListDuePolls now db = (Inr ws, db')" and "ListDuePolls now' db' = (Inr ws', db'')"
    and "w \<in> set ws" and "w' \<in> set ws'"
  shows "pw_AttemptID w \<noteq> pw_AttemptID w'"
proof -
  have k: "distinct (map at_id (db_attempts db))" using durable_inv_keys [OF assms(1)] by (simp add: keys_ok_def)
  have "row_never_due db' (pw_AttemptID w)"
    using claimPolls_exclusive [OF k, of w "UnixMilli now" "pollCandidates now db"] assms(2,4)
    by (simp add: ListDuePolls_def split_beta)
  moreover have "w' \<in> set (pollCandidates now' db')"
    using claimPolls_subseq [of "UnixMilli now'" "pollCandidates now' db'" db'] assms(3,5)
    by (auto simp: ListDuePolls_def split_beta)
  ultimately show ?thesis using not_due_not_candidate by metis
qed

lemma pollItem_deadline:
  assumes "pw_MonitoringDeadline w \<le> now"
  shows "\<not> monitored (pu_DeploymentStatus (pollItem sha canon g remote now w)) \<and>
    pu_NextPollAt (pollItem sha canon g remote now w) = None"
  using pollUpdate_deadline [OF assms]
  by (simp add: pollItem_def Let_def split: prod.splits option.splits BindingStatus.splits)

lemma pollItem_next:
  assumes "pu_NextPollAt (pollItem sha canon g remote now w) = Some t" and "bindings_ok sha canon g"
    and "millisecond \<le> gn_pollInterval g"
  shows "UnixMilli now < UnixMilli t"
proof -
  have "\<exists>i\<ge>millisecond. t = now + i"
  proof (cases "\<exists>target. ResolveTarget sha canon g (pw_TargetID w) (pw_TargetSnapshot w) = (Some target, BindingCompatible)")
    case True
    then obtain target where r: "ResolveTarget sha canon g (pw_TargetID w) (pw_TargetSnapshot w) = (Some target, BindingCompatible)"
      by blast
    have "map_of (gn_targets g) (pw_TargetID w) = Some target"
      using r by (auto simp: ResolveTarget_def split: option.splits SnapshotDoc.splits if_splits)
    then have "millisecond \<le> tg_PollInterval target" using assms(2) by (simp add: bindings_ok_def)
    then show ?thesis
      using assms(1) r pollUpdate_next [of w _ _ now "tg_PollInterval target"]
      by (fastforce simp: pollItem_def Let_def split: prod.splits if_splits)
  next
    case False
    then have "pollItem sha canon g remote now w = pollUpdate w emptyDeployment False now (gn_pollInterval g)"
      by (auto simp: pollItem_def split: prod.splits option.splits BindingStatus.splits)
    then show ?thesis using assms(1,3) pollUpdate_next [of w emptyDeployment False now "gn_pollInterval g"] by force
  qed
  then show ?thesis using UnixMilli_add_strict by blast
qed

end
