(* ===== verification/Startup.thy ===== *)
theory Startup
  imports Lifecycle Poller
begin

text \<open>
  Start-up (\<^verbatim>\<open>internal/app/app.go\<close>, \<^verbatim>\<open>Prepare\<close>) and the drainer (\<^verbatim>\<open>internal/worker/drainer.go\<close>). Before any listener or
  worker runs, active attempts whose target no longer exists are ended, interrupted sends become
  reconciliations, and the lifecycle state is derived from the queue.
\<close>

section \<open>Definitions\<close>

definition statusOfBinding :: "(string \<Rightarrow> string) \<Rightarrow> canonical \<Rightarrow> Generation \<Rightarrow> string \<Rightarrow> SnapshotDoc option \<Rightarrow> BindingStatus" where
  "statusOfBinding sha canon g targetID snapshot = snd (ResolveTarget sha canon g targetID snapshot)"

fun terminateIncompatible ::
  "(nat \<Rightarrow> string) \<Rightarrow> (string \<Rightarrow> string) \<Rightarrow> canonical \<Rightarrow> Generation \<Rightarrow> time \<Rightarrow> ActiveBinding list \<Rightarrow> db \<Rightarrow>
   (store_error + unit) \<times> db" where
  "terminateIncompatible uuid sha canon g now [] db = (Inr (), db)"
| "terminateIncompatible uuid sha canon g now (b # bs) db =
     (let status = statusOfBinding sha canon g (ab_TargetID b) (ab_TargetSnapshot b) in
      if status = BindingCompatible then terminateIncompatible uuid sha canon g now bs db
      else case TerminateIncompatibleActive uuid b (bindingText status) now db of
        (Inl e, db1) \<Rightarrow> (Inl e, db1)
      | (Inr _, db1) \<Rightarrow> terminateIncompatible uuid sha canon g now bs db1)"

definition Prepare ::
  "(nat \<Rightarrow> string) \<Rightarrow> (string \<Rightarrow> string) \<Rightarrow> canonical \<Rightarrow> time \<Rightarrow> Manager \<Rightarrow> db \<Rightarrow> (store_error + unit) \<times> Manager \<times> db" where
  "Prepare uuid sha canon now m db =
     (case terminateIncompatible uuid sha canon (mg_current m) now (ListActiveBindings db) db of
        (Inl e, db1) \<Rightarrow> (Inl e, m, db1)
      | (Inr _, db1) \<Rightarrow>
          (case PollerRecover uuid (mg_current m) now db1 of
             (Inl e, db2) \<Rightarrow> (Inl e, m, db2)
           | (Inr _, db2) \<Rightarrow>
               (case Initialize (countQueuedOf db2) (countActiveOf db2) m of
                  (r, m') \<Rightarrow> (r, m', db2))))"

definition DrainerRunOnce ::
  "(nat \<Rightarrow> string) \<Rightarrow> Manager \<Rightarrow> db \<Rightarrow> (worker_error + bool) \<times> Manager \<times> db" where
  "DrainerRunOnce uuid m db =
     (if mg_state m \<noteq> StateDraining then (Inr False, m, db)
      else case PeekDeferred db of
        None \<Rightarrow>
          (case SetIdleIfQueueEmpty (countQueuedOf db) m of
             (Inl e, m') \<Rightarrow> (Inl (WorkerStore e), m', db)
           | (Inr _, m') \<Rightarrow> (Inr False, m', db))
      | Some deferred \<Rightarrow>
          (case Route (mg_current m) (de_CanonicalEvent deferred) of
             Inl e \<Rightarrow> (Inl (WorkerRoute e), m, db)
           | Inr decision \<Rightarrow>
               (case FinalizeDeferred uuid deferred decision (gn_digest (mg_current m)) db of
                  (Inl e, db') \<Rightarrow> (Inl (WorkerStore e), m, db')
                | (Inr changed, db') \<Rightarrow> (Inr changed, m, db'))))"

section \<open>Compatibility of active deliveries\<close>

definition pair_compatible :: "(string \<Rightarrow> string) \<Rightarrow> canonical \<Rightarrow> Generation \<Rightarrow> delivery_row \<Rightarrow> bool" where
  "pair_compatible sha canon g d \<longleftrightarrow>
     (\<exists>t. ResolveTarget sha canon g (dl_target_id d) (dl_target_snapshot d) = (Some t, BindingCompatible))"

definition active_compatible :: "(string \<Rightarrow> string) \<Rightarrow> canonical \<Rightarrow> Generation \<Rightarrow> db \<Rightarrow> bool" where
  "active_compatible sha canon g db \<longleftrightarrow>
     (\<forall>(d, a)\<in>set (current_pairs db).
        Active (at_transport_status a) (at_deployment_status a) \<longrightarrow> pair_compatible sha canon g d)"

lemma ResolveTarget_compatible:
  "snd (ResolveTarget sha canon g i s) = BindingCompatible \<longleftrightarrow> (\<exists>t. ResolveTarget sha canon g i s = (Some t, BindingCompatible))"
  by (auto simp: ResolveTarget_def split: option.splits SnapshotDoc.splits if_splits)

lemma idle_compatible: "\<not> has_active db \<Longrightarrow> active_compatible sha canon g db"
  by (auto simp: has_active_def active_compatible_def)

section \<open>Start-up\<close>

lemma mem_ListActiveBindings:
  "b \<in> set (ListActiveBindings db) \<longleftrightarrow>
     (\<exists>d a. (d, a) \<in> set (current_pairs db) \<and> Active (at_transport_status a) (at_deployment_status a) \<and> b = activeBindingOf (d, a))"
  by (auto simp: ListActiveBindings_def Active_def image_iff simp del: in_current_pairs)

lemma status_delivery_target [simp]:
  "dl_target_id (status_delivery t ds at d) = dl_target_id d"
  "dl_target_snapshot (status_delivery t ds at d) = dl_target_snapshot d"
  by (simp_all add: status_delivery_def)

text \<open>The bindings still to be checked: every active pair that is not compatible is among them.\<close>

definition uncovered :: "(string \<Rightarrow> string) \<Rightarrow> canonical \<Rightarrow> Generation \<Rightarrow> ActiveBinding list \<Rightarrow> db \<Rightarrow> bool" where
  "uncovered sha canon g bs db \<longleftrightarrow>
     (\<forall>(d, a)\<in>set (current_pairs db).
        Active (at_transport_status a) (at_deployment_status a) \<longrightarrow> pair_compatible sha canon g d \<or> activeBindingOf (d, a) \<in> set bs)"

lemma terminal_status_inactive: "\<not> Active (fst (terminal_status a)) (snd (terminal_status a))"
  by (simp add: terminal_status_def Active_iff)

lemma terminated_pairs:
  assumes k: "keys_ok db" and p: "(d, a) \<in> set (current_pairs db)"
  shows "set (current_pairs (terminated_db uuid r at d a db)) =
    (\<lambda>(x, y). if at_id y = at_id a
       then (status_delivery (fst (terminal_status a)) (snd (terminal_status a)) at x,
             terminate_attempt (fst (terminal_status a)) (snd (terminal_status a)) y) else (x, y)) ` set (current_pairs db)"
  unfolding terminated_db_def current_pairs_append_audit by (rule terminate.touched_pairs_image [OF k p])

lemma terminate_uncovered:
  assumes u: "inj uuid" and inv: "durable_inv uuid db" and c: "uncovered sha canon g (b # bs) db"
  shows "uncovered sha canon g bs (snd (TerminateIncompatibleActive uuid b r at db))"
proof (cases "\<exists>d a. (d, a) \<in> set (current_pairs db) \<and> binding_met b d a")
  case True
  then obtain d a where p: "(d, a) \<in> set (current_pairs db)" and m: "binding_met b d a" by blast
  have k: "keys_ok db" using inv by (rule durable_inv_keys)
  have "Active (at_transport_status y) (at_deployment_status y) \<longrightarrow>
      pair_compatible sha canon g x \<or> activeBindingOf (x, y) \<in> set bs"
    if xy: "(x, y) \<in> set (current_pairs (terminated_db uuid (reason_code r) at d a db))" for x y
  proof -
    obtain d' a' where o': "(d', a') \<in> set (current_pairs db)"
      and e: "(x, y) = (if at_id a' = at_id a
        then (status_delivery (fst (terminal_status a)) (snd (terminal_status a)) at d',
              terminate_attempt (fst (terminal_status a)) (snd (terminal_status a)) a') else (d', a'))"
      using xy unfolding terminated_pairs [OF k p] by (auto simp del: in_current_pairs)
    show ?thesis
    proof (cases "at_id a' = at_id a")
      case True
      then show ?thesis using e terminal_status_inactive [of a] by (simp add: terminate_attempt_def)
    next
      case False
      then have "x = d'" "y = a'" "activeBindingOf (d', a') \<noteq> b"
        using e m by (auto simp: activeBindingOf_def binding_met_def)
      then show ?thesis using c o' by (auto simp: uncovered_def simp del: in_current_pairs)
    qed
  qed
  then show ?thesis
    using TerminateIncompatibleActive_eq [OF u inv p m] by (auto simp: uncovered_def simp del: in_current_pairs)
next
  case False
  have "activeBindingOf (x, y) \<noteq> b"
    if "(x, y) \<in> set (current_pairs db)" "Active (at_transport_status y) (at_deployment_status y)" for x y
  proof
    assume "activeBindingOf (x, y) = b"
    then have "binding_met b x y" using that by (auto simp: activeBindingOf_def binding_met_def Active_def)
    then show False using False that(1) by blast
  qed
  then have "uncovered sha canon g bs db"
    using c unfolding uncovered_def by (fastforce simp del: in_current_pairs)
  then show ?thesis using TerminateIncompatibleActive_skip [of db b uuid r at] False by (metis snd_conv)
qed

lemma TerminateIncompatibleActive_succeeds:
  assumes u: "inj uuid" and inv: "durable_inv uuid db"
  shows "fst (TerminateIncompatibleActive uuid b r at db) = Inr ()"
  using TerminateIncompatibleActive_eq [OF u inv] TerminateIncompatibleActive_skip [of db b uuid r at]
  by (metis fst_conv)

lemma terminateIncompatible_spec:
  assumes u: "inj uuid"
  shows "durable_inv uuid db \<Longrightarrow> uncovered sha canon g bs db \<Longrightarrow>
     \<exists>db'. terminateIncompatible uuid sha canon g now bs db = (Inr (), db') \<and> durable_inv uuid db' \<and>
       active_compatible sha canon g db' \<and> evolves uuid {} db db'"
proof (induction bs arbitrary: db)
  case Nil
  then show ?case by (auto simp: uncovered_def active_compatible_def)
next
  case (Cons b bs)
  let ?s = "statusOfBinding sha canon g (ab_TargetID b) (ab_TargetSnapshot b)"
  show ?case
  proof (cases "?s = BindingCompatible")
    case True
    then have "uncovered sha canon g bs db"
      using Cons.prems(2) ResolveTarget_compatible [of sha canon g]
      by (fastforce simp: uncovered_def statusOfBinding_def pair_compatible_def activeBindingOf_def)
    then show ?thesis using Cons.IH [OF Cons.prems(1)] True by simp
  next
    case False
    let ?t = "TerminateIncompatibleActive uuid b (bindingText ?s) now db"
    obtain db1 where t: "?t = (Inr (), db1)"
      using TerminateIncompatibleActive_succeeds [OF u Cons.prems(1)] by (metis prod.collapse)
    have "durable_inv uuid db1" "uncovered sha canon g bs db1" "evolves uuid {} db db1"
      using TerminateIncompatibleActive_durable [OF u Cons.prems(1), of b "bindingText ?s" now] t
        terminate_uncovered [OF u Cons.prems, of "bindingText ?s" now]
        TerminateIncompatibleActive_evolves [OF u Cons.prems(1), of b "bindingText ?s" now] by simp_all
    then show ?thesis
      using Cons.IH [of db1] False t evolves_trans [of uuid "{}" db db1] by (auto simp: Let_def)
  qed
qed

text \<open>The recovery changes neither target nor activity of a delivery, and never makes an attempt pending again.\<close>

definition restarted :: "delivery_row \<times> attempt_row \<Rightarrow> delivery_row \<times> attempt_row \<Rightarrow> bool" where
  "restarted = (\<lambda>(d, a) (d', a').
     dl_target_id d' = dl_target_id d \<and> dl_target_snapshot d' = dl_target_snapshot d \<and> at_id a' = at_id a \<and>
     (at_transport_status a' = TransportPending \<longleftrightarrow> at_transport_status a = TransportPending) \<and>
     (Active (at_transport_status a') (at_deployment_status a') \<longrightarrow> Active (at_transport_status a) (at_deployment_status a)))"

definition quiescent :: "attempt_row \<Rightarrow> bool" where
  "quiescent a \<longleftrightarrow> at_transport_status a \<noteq> TransportSending \<and> (monitored (at_deployment_status a) \<longrightarrow> at_last_polled_at a = None)"

lemma restarted_refl: "restarted x x"
  by (simp add: restarted_def split_beta)

lemma recovered_pair_restarted: "interrupted (snd x) \<Longrightarrow> restarted x (recovered_pair now dflt ts x)"
  by (cases x; cases "at_transport_status (snd x) = TransportSending")
    (simp_all add: restarted_def recovered_pair_def recovered_attempt_def recover_attempt_def recovered_delivery_def
      interrupted_def Active_iff)

lemma recovered_pair_quiescent: "quiescent (snd (recovered_pair now dflt ts x))"
  by (simp add: quiescent_def recovered_pair_def recovered_attempt_def recover_attempt_def split_beta)

lemma uninterrupted_quiescent: "\<not> interrupted a \<Longrightarrow> quiescent a"
  by (simp add: quiescent_def interrupted_def)

lemma PollerRecover_spec:
  assumes u: "inj uuid" and inv: "durable_inv uuid db"
  shows "\<exists>changes db'. PollerRecover uuid g now db = (Inr changes, db') \<and> durable_inv uuid db' \<and> evolves uuid {} db db' \<and>
    (\<forall>y\<in>set (current_pairs db'). quiescent (snd y) \<and> (\<exists>x\<in>set (current_pairs db). restarted x y))"
proof -
  let ?dflt = "\<lparr>ps_Interval = gn_pollInterval g, ps_Timeout = gn_pollTimeout g\<rparr>" and ?ts = "targetSchedules g"
  let ?h = "\<lambda>x. if interrupted (snd x) then recovered_pair now (normalizedPollSchedule ?dflt) ?ts x else x"
  obtain changes db' where r: "RecoverInterrupted uuid now ?dflt ?ts db = (Inr changes, db')"
    and i: "durable_inv uuid db'" and p: "set (current_pairs db') = ?h ` set (current_pairs db)"
    using RecoverInterrupted_spec [OF u inv] by blast
  have e: "evolves uuid {} db db'" using RecoverInterrupted_evolves [OF u inv, of now ?dflt ?ts] r by simp
  have "quiescent (snd (?h x)) \<and> restarted x (?h x)" for x
    by (simp add: recovered_pair_quiescent recovered_pair_restarted uninterrupted_quiescent restarted_refl)
  then have "\<forall>y\<in>set (current_pairs db'). quiescent (snd y) \<and> (\<exists>x\<in>set (current_pairs db). restarted x y)"
    unfolding p by blast
  then show ?thesis unfolding PollerRecover_def using r i e by blast
qed

lemma restarted_compatible:
  assumes "active_compatible sha canon g db" and "\<forall>y\<in>set (current_pairs db'). \<exists>x\<in>set (current_pairs db). restarted x y"
  shows "active_compatible sha canon g db'"
  unfolding active_compatible_def
proof (intro ballI, clarify)
  fix d a assume da: "(d, a) \<in> set (current_pairs db')" "Active (at_transport_status a) (at_deployment_status a)"
  then obtain d' a' where o': "(d', a') \<in> set (current_pairs db)" "restarted (d', a') (d, a)" using assms(2) by fast
  then have "pair_compatible sha canon g d'"
    using assms(1) da(2) unfolding active_compatible_def restarted_def by (auto simp del: in_current_pairs)
  then show "pair_compatible sha canon g d" using o'(2) by (simp add: restarted_def pair_compatible_def)
qed

lemma uncovered_all: "uncovered sha canon g (ListActiveBindings db) db"
  by (auto simp: uncovered_def mem_ListActiveBindings simp del: in_current_pairs)

lemma Initialize_ok: "\<exists>m'. Initialize (Inr q) (Inr n) m = (Inr (), m') \<and> mg_current m' = mg_current m \<and> manager_ok m'"
  by (simp add: Initialize_def manager_ok_def split: if_splits)

text \<open>What start-up establishes.\<close>

lemma Prepare_spec:
  assumes u: "inj uuid" and inv: "durable_inv uuid db"
  shows "\<exists>m' db'. Prepare uuid sha canon now m db = (Inr (), m', db') \<and> durable_inv uuid db' \<and> evolves uuid {} db db' \<and>
     active_compatible sha canon (mg_current m) db' \<and> mg_current m' = mg_current m \<and> manager_ok m' \<and>
     (\<forall>y\<in>set (current_pairs db'). quiescent (snd y)) \<and>
     mg_state m' = (if db_queue db' = [] then StateIdle else if has_active db' then StateWaiting else StateDraining)"
proof -
  let ?g = "mg_current m"
  obtain db1 where t: "terminateIncompatible uuid sha canon ?g now (ListActiveBindings db) db = (Inr (), db1)"
    and i1: "durable_inv uuid db1" and c1: "active_compatible sha canon ?g db1" and e1: "evolves uuid {} db db1"
    using terminateIncompatible_spec [OF u inv uncovered_all] by blast
  obtain changes db2 where r: "PollerRecover uuid ?g now db1 = (Inr changes, db2)" and i2: "durable_inv uuid db2"
    and e2: "evolves uuid {} db1 db2"
    and q: "\<forall>y\<in>set (current_pairs db2). quiescent (snd y) \<and> (\<exists>x\<in>set (current_pairs db1). restarted x y)"
    using PollerRecover_spec [OF u i1] by blast
  have c2: "active_compatible sha canon ?g db2" using restarted_compatible [OF c1] q by blast
  obtain m' where init: "Initialize (countQueuedOf db2) (countActiveOf db2) m = (Inr (), m')"
    and mc: "mg_current m' = ?g" "manager_ok m'"
    using Initialize_ok unfolding countQueuedOf_def countActiveOf_def by blast
  have "Prepare uuid sha canon now m db = (Inr (), m', db2)" by (simp add: Prepare_def t r init)
  moreover have "mg_state m' = (if db_queue db2 = [] then StateIdle else if has_active db2 then StateWaiting else StateDraining)"
    using store.initialize_state [OF init] by simp
  moreover have "evolves uuid {} db db2" using evolves_trans [OF e1 e2] by simp
  ultimately show ?thesis using i2 c2 mc q by blast
qed

end
