(* ===== verification/Attempts_Service.thy ===== *)
theory Attempts_Service
  imports Lifecycle Dokploy Retention_Service
begin

text \<open>
  Manual retry and redeploy (\<^verbatim>\<open>internal/service/attempts.go\<close>). \<open>Execute\<close> checks the lifecycle, the expected
  attempt, the target binding and the status, looks the deployment up where the outcome is not certain, and
  then writes once, through the compare-and-swap \<open>ApplyManualUpdate\<close>.

  The read and the write are separate transactions: \<open>between\<close> is what other transactions make of the database
  meanwhile. \<open>remote\<close> is what the history request answers; \<open>hook\<close> is the retention trigger.
\<close>

section \<open>Definitions\<close>

datatype attempts_error =
    ErrOperationNotAllowed | ErrDeploymentStillActive | ErrAlreadySucceeded | ErrStateChanged
  | ErrReconciliationUnavailable | ErrConfigReloadInProgress | ErrTargetChanged | ErrTargetUnavailable
  | AttemptsStore store_error

record AttemptResult =
  ar_AttemptID :: string
  ar_Created :: bool

type_synonym attempts_return = "AttemptResult \<times> attempts_error option"

definition noResult :: AttemptResult where
  "noResult = \<lparr>ar_AttemptID = '''', ar_Created = False\<rparr>"

definition operationAllowed :: "CurrentAttemptRow \<Rightarrow> Operation \<Rightarrow> bool" where
  "operationAllowed current operation =
     list_ex (\<lambda>allowed. operation = allowed) (AllowedOperations (ca_TransportStatus current) (ca_DeploymentStatus current))"

definition needsReconciliation :: "CurrentAttemptRow \<Rightarrow> bool" where
  "needsReconciliation current \<longleftrightarrow>
     ca_TransportStatus current = TransportUnknown \<or> ca_DeploymentStatus current = DeploymentUnknown \<or>
     ca_DeploymentStatus current = DeploymentError \<or> ca_DeploymentStatus current = DeploymentCancelled \<or>
     ca_DeploymentStatus current = DeploymentTimeout"

text \<open>The update of \<^verbatim>\<open>createManual\<close>; its status fields keep the zero value and are read only for a correction.\<close>

definition createUpdate :: "CurrentAttemptRow \<Rightarrow> Operation \<Rightarrow> string \<Rightarrow> string \<Rightarrow> time \<Rightarrow> ManualUpdate" where
  "createUpdate current operation actorID reason now =
     \<lparr>mu_Expected = current, mu_TransportStatus = TransportPending, mu_DeploymentStatus = DeploymentNotStarted,
      mu_DeploymentID = '''', mu_PollDue = None, mu_MonitoringDeadline = None, mu_Correct = False, mu_Create = True,
      mu_Operation = operation, mu_ActorID = actorID, mu_Reason = reason, mu_At = now\<rparr>"

definition commitManual ::
  "(nat \<Rightarrow> string) \<Rightarrow> ManualUpdate \<Rightarrow> bool \<Rightarrow> attempts_error option \<Rightarrow> db \<Rightarrow> attempts_return \<times> db" where
  "commitManual uuid update created outcome db =
     (case ApplyManualUpdate uuid update db of
        (Inl ErrCurrentAttemptChanged, db1) \<Rightarrow> ((noResult, Some ErrStateChanged), db1)
      | (Inl e, db1) \<Rightarrow> ((noResult, Some (AttemptsStore e)), db1)
      | (Inr attemptID, db1) \<Rightarrow> ((\<lparr>ar_AttemptID = attemptID, ar_Created = created\<rparr>, outcome), db1))"

definition createManual ::
  "(nat \<Rightarrow> string) \<Rightarrow> CurrentAttemptRow \<Rightarrow> Operation \<Rightarrow> string \<Rightarrow> string \<Rightarrow> time \<Rightarrow> db \<Rightarrow> attempts_return \<times> db" where
  "createManual uuid current operation actorID reason now =
     commitManual uuid (createUpdate current operation actorID reason now) True None"

definition correctAndReturn ::
  "(nat \<Rightarrow> string) \<Rightarrow> ManualUpdate \<Rightarrow> attempts_error \<Rightarrow> db \<Rightarrow> attempts_return \<times> db" where
  "correctAndReturn uuid update terminal = commitManual uuid update False (Some terminal)"

text \<open>The correction for a deployment that was found.\<close>

definition foundUpdate ::
  "Target \<Rightarrow> CurrentAttemptRow \<Rightarrow> Deployment \<Rightarrow> string \<Rightarrow> string \<Rightarrow> time \<Rightarrow> ManualUpdate" where
  "foundUpdate target current match actorID reason now =
     (let status = (case dp_Status match of Some s \<Rightarrow> s | None \<Rightarrow> '''');
          update = \<lparr>mu_Expected = current, mu_TransportStatus = TransportEnqueued, mu_DeploymentStatus = DeploymentNotStarted,
            mu_DeploymentID = dp_DeploymentID match, mu_PollDue = None, mu_MonitoringDeadline = None, mu_Correct = True,
            mu_Create = False, mu_Operation = OperationOther '''', mu_ActorID = actorID, mu_Reason = reason, mu_At = now\<rparr>;
          watched = update\<lparr>mu_PollDue := Some (now + tg_PollInterval target),
            mu_MonitoringDeadline := Some (now + tg_PollTimeout target)\<rparr>
      in if status = ''done'' then update\<lparr>mu_DeploymentStatus := DeploymentDone\<rparr>
         else if status = ''error'' then update\<lparr>mu_DeploymentStatus := DeploymentError\<rparr>
         else if status = ''cancelled'' then update\<lparr>mu_DeploymentStatus := DeploymentCancelled\<rparr>
         else if status = ''running'' then watched\<lparr>mu_DeploymentStatus := DeploymentRunning\<rparr>
         else watched\<lparr>mu_DeploymentStatus := DeploymentUnrecognized\<rparr>)"

text \<open>The boolean says whether a terminal state was committed.\<close>

definition reconcileThenExecute ::
  "(nat \<Rightarrow> string) \<Rightarrow> HistoryResponse \<Rightarrow> Target \<Rightarrow> CurrentAttemptRow \<Rightarrow> Operation \<Rightarrow> string \<Rightarrow> string \<Rightarrow> time \<Rightarrow> db \<Rightarrow>
   (attempts_return \<times> bool) \<times> db" where
  "reconcileThenExecute uuid response target current operation actorID reason now db =
     (case FindDeployment response (tg_ComposeID target) (ca_AttemptID current) (ca_DeploymentID current) of
        (match, found, Some err) \<Rightarrow>
          (((\<lparr>ar_AttemptID = ca_AttemptID current, ar_Created = False\<rparr>, Some ErrReconciliationUnavailable), False), db)
      | (match, found, None) \<Rightarrow>
          if \<not> found then
            (case createManual uuid current operation actorID reason now db of (r, db1) \<Rightarrow> ((r, False), db1))
          else let update = foundUpdate target current match actorID reason now in
            (case mu_DeploymentStatus update of
               DeploymentDone \<Rightarrow>
                 (case correctAndReturn uuid update ErrAlreadySucceeded db of (r, db1) \<Rightarrow> ((r, True), db1))
             | DeploymentRunning \<Rightarrow>
                 (case correctAndReturn uuid update ErrDeploymentStillActive db of (r, db1) \<Rightarrow> ((r, False), db1))
             | DeploymentUnrecognized \<Rightarrow>
                 (case correctAndReturn uuid update ErrDeploymentStillActive db of (r, db1) \<Rightarrow> ((r, False), db1))
             | _ \<Rightarrow>
                 if operation = OperationRetry
                 then (case correctAndReturn uuid update ErrStateChanged db of (r, db1) \<Rightarrow> ((r, True), db1))
                 else (case commitManual uuid (update\<lparr>mu_Create := True, mu_Operation := operation\<rparr>) True None db of
                         (r, db1) \<Rightarrow> ((r, False), db1))))"

text \<open>The checks before any remote request or write: a refusal, or the resolved target and the current attempt.\<close>

definition admit ::
  "(string \<Rightarrow> string) \<Rightarrow> canonical \<Rightarrow> Manager \<Rightarrow> string \<Rightarrow> string \<Rightarrow> Operation \<Rightarrow> db \<Rightarrow>
   attempts_return + Target \<times> CurrentAttemptRow" where
  "admit sha canon m deliveryID expected operation db =
     (if mg_state m \<noteq> StateIdle then Inl (noResult, Some ErrConfigReloadInProgress)
      else case CurrentAttempt deliveryID db of
        Inl ErrNoRows \<Rightarrow> Inl (noResult, Some ErrStateChanged)
      | Inl e \<Rightarrow> Inl (noResult, Some (AttemptsStore e))
      | Inr current \<Rightarrow>
          let refusal = (\<lambda>e. Inl (\<lparr>ar_AttemptID = ca_AttemptID current, ar_Created = False\<rparr>, Some e)) in
          if ca_AttemptID current \<noteq> expected then Inl (noResult, Some ErrStateChanged)
          else case ResolveTarget sha canon (mg_current m) (ca_TargetID current) (ca_TargetSnapshot current) of
            (Some target, BindingCompatible) \<Rightarrow>
              if Active (ca_TransportStatus current) (ca_DeploymentStatus current) \<and>
                 ca_TransportStatus current \<noteq> TransportUnknown \<and> ca_DeploymentStatus current \<noteq> DeploymentUnknown
              then refusal ErrDeploymentStillActive
              else if ca_DeploymentStatus current = DeploymentDone then refusal ErrAlreadySucceeded
              else if \<not> operationAllowed current operation then refusal ErrOperationNotAllowed
              else Inr (target, current)
          | (_, BindingChanged) \<Rightarrow> refusal ErrTargetChanged
          | _ \<Rightarrow> refusal ErrTargetUnavailable)"

definition Execute ::
  "(nat \<Rightarrow> string) \<Rightarrow> (string \<Rightarrow> string) \<Rightarrow> canonical \<Rightarrow> (db \<Rightarrow> (store_error + unit) \<times> db) \<Rightarrow>
   (Target \<Rightarrow> CurrentAttemptRow \<Rightarrow> HistoryResponse) \<Rightarrow> (db \<Rightarrow> db) \<Rightarrow> Manager \<Rightarrow>
   string \<Rightarrow> string \<Rightarrow> Operation \<Rightarrow> string \<Rightarrow> string \<Rightarrow> time \<Rightarrow> db \<Rightarrow> attempts_return \<times> db" where
  "Execute uuid sha canon hook remote between m deliveryID expected operation actorID reason now db =
     (case admit sha canon m deliveryID expected operation db of
        Inl r \<Rightarrow> (r, db)
      | Inr (target, current) \<Rightarrow>
          (case (if \<not> needsReconciliation current
                 then (case createManual uuid current operation actorID reason now (between db) of (r, db1) \<Rightarrow> ((r, False), db1))
                 else reconcileThenExecute uuid (remote target current) target current operation actorID reason now (between db)) of
             (((result, err), terminalCommitted), db1) \<Rightarrow>
               if terminalCommitted then
                 (case hook db1 of
                    (Inl e, db2) \<Rightarrow> ((result, Some (AttemptsStore e)), db2)
                  | (Inr _, db2) \<Rightarrow> ((result, err), db2))
               else ((result, err), db1)))"

section \<open>What is written\<close>

lemma foundUpdate_simps [simp]:
  "mu_Expected (foundUpdate t c m a r now) = c" "mu_Correct (foundUpdate t c m a r now)"
  "\<not> mu_Create (foundUpdate t c m a r now)" "mu_DeploymentID (foundUpdate t c m a r now) = dp_DeploymentID m"
  "mu_TransportStatus (foundUpdate t c m a r now) = TransportEnqueued"
  by (simp_all add: foundUpdate_def Let_def)

lemma createUpdate_simps [simp]:
  "mu_Expected (createUpdate c op a r now) = c" "\<not> mu_Correct (createUpdate c op a r now)"
  "mu_Create (createUpdate c op a r now)" "mu_Operation (createUpdate c op a r now) = op"
  by (simp_all add: createUpdate_def)

lemma foundUpdate_ok: "dp_DeploymentID m \<noteq> '''' \<Longrightarrow> correction_ok (foundUpdate t c m a r now)"
  by (simp add: correction_ok_def foundUpdate_def Let_def)

lemma correction_ok_create: "correction_ok (u\<lparr>mu_Create := b, mu_Operation := op\<rparr>) = correction_ok u"
  by (simp add: correction_ok_def)

text \<open>The updates the service hands to the store.\<close>

definition manual_update :: "ManualUpdate \<Rightarrow> bool" where
  "manual_update u \<longleftrightarrow> (mu_Correct u \<longrightarrow> correction_ok u) \<and> (mu_Create u \<longrightarrow> mu_Operation u \<in> {OperationRetry, OperationRedeploy})"

lemma commitManual_snd: "snd (commitManual uuid u c out db) = snd (ApplyManualUpdate uuid u db)"
  by (auto simp: commitManual_def split: prod.splits sum.splits store_error.splits)

lemma operationAllowed_iff:
  "operationAllowed current op \<longleftrightarrow> op \<in> set (AllowedOperations (ca_TransportStatus current) (ca_DeploymentStatus current))"
  by (auto simp: operationAllowed_def list_ex_iff)

lemma operationAllowed_known: "operationAllowed current op \<Longrightarrow> op \<in> {OperationRetry, OperationRedeploy}"
  by (auto simp: operationAllowed_iff AllowedOperations_cases)

lemma admit_InrD:
  assumes "admit sha canon m i e op db = Inr (t, c)"
  shows "mg_state m = StateIdle \<and> CurrentAttempt i db = Inr c \<and> ca_AttemptID c = e \<and>
    ResolveTarget sha canon (mg_current m) (ca_TargetID c) (ca_TargetSnapshot c) = (Some t, BindingCompatible) \<and>
    operationAllowed c op \<and> ca_DeploymentStatus c \<noteq> DeploymentDone \<and>
    (Active (ca_TransportStatus c) (ca_DeploymentStatus c) \<longrightarrow>
       ca_TransportStatus c = TransportUnknown \<or> ca_DeploymentStatus c = DeploymentUnknown)"
  using assms
  by (auto simp: admit_def Let_def split: if_splits sum.splits store_error.splits prod.splits option.splits BindingStatus.splits)

text \<open>Whatever the lookup says, the service writes at most once, and what it writes is one update decided on the
  attempt it read.\<close>

lemma reconcile_writes:
  assumes op: "op \<in> {OperationRetry, OperationRedeploy}"
  shows "snd (reconcileThenExecute uuid response t c op a r now db) = db \<or>
    (\<exists>u. manual_update u \<and> mu_Expected u = c \<and> snd (reconcileThenExecute uuid response t c op a r now db) = snd (ApplyManualUpdate uuid u db))"
proof -
  obtain m found err where f: "FindDeployment response (tg_ComposeID t) (ca_AttemptID c) (ca_DeploymentID c) = (m, found, err)"
    using prod_cases3 by blast
  let ?u = "foundUpdate t c m a r now"
  have fu: "manual_update ?u" "manual_update (?u\<lparr>mu_Create := True, mu_Operation := op\<rparr>)" if "found" "err = None"
    using foundUpdate_ok FindDeployment_found [THEN conjunct2, THEN conjunct2, THEN conjunct1] f that op by (auto simp: manual_update_def correction_ok_create)
  have cu: "manual_update (createUpdate c op a r now)" using op by (simp add: manual_update_def)
  have w: "\<exists>u. manual_update u \<and> mu_Expected u = c \<and> snd (ApplyManualUpdate uuid v db) = snd (ApplyManualUpdate uuid u db)"
    if "manual_update v" "mu_Expected v = c" for v using that by blast
  show ?thesis
    using fu cu f
    by (cases err; cases found; cases "mu_DeploymentStatus ?u"; cases "op = OperationRetry")
      (simp_all add: reconcileThenExecute_def createManual_def correctAndReturn_def split_beta commitManual_snd w Let_def)
qed

lemma Execute_writes:
  assumes ad: "admit sha canon m i e op db = Inr (t, c)"
  obtains db1 where "db1 = between db \<or> (\<exists>u. manual_update u \<and> mu_Expected u = c \<and> db1 = snd (ApplyManualUpdate uuid u (between db)))"
    and "snd (Execute uuid sha canon hook remote between m i e op a r now db) \<in> {db1, snd (hook db1)}"
proof -
  have op: "op \<in> {OperationRetry, OperationRedeploy}" using admit_InrD [OF ad] operationAllowed_known by blast
  let ?run = "if \<not> needsReconciliation c
      then (case createManual uuid c op a r now (between db) of (r, db1) \<Rightarrow> ((r, False), db1))
      else reconcileThenExecute uuid (remote t c) t c op a r now (between db)"
  have "snd ?run = between db \<or> (\<exists>u. manual_update u \<and> mu_Expected u = c \<and> snd ?run = snd (ApplyManualUpdate uuid u (between db)))"
  proof (cases "needsReconciliation c")
    case True
    then show ?thesis using reconcile_writes [OF op, of uuid "remote t c" t c a r now "between db"] by simp
  next
    case False
    have "manual_update (createUpdate c op a r now)" using op by (simp add: manual_update_def)
    then show ?thesis using False
      by (auto simp: createManual_def commitManual_snd split_beta intro!: exI [of _ "createUpdate c op a r now"])
  qed
  moreover have "snd (Execute uuid sha canon hook remote between m i e op a r now db) \<in> {snd ?run, snd (hook (snd ?run))}"
    unfolding Execute_def ad by (auto split: prod.splits sum.splits)
  ultimately show thesis using that by blast
qed

section \<open>Guarantees\<close>

lemma manual_update_correct: "manual_update u \<Longrightarrow> mu_Correct u \<Longrightarrow> correction_ok u"
  by (simp add: manual_update_def)

context terminal_hook
begin

lemma Execute_step:
  assumes u: "inj uuid" and inv: "durable_inv uuid db" and b: "durable_inv uuid (between db)" "evolves uuid {} db (between db)"
  shows "durable_inv uuid (snd (Execute uuid sha canon hook remote between m i e op a r now db)) \<and>
         evolves uuid {} db (snd (Execute uuid sha canon hook remote between m i e op a r now db))"
proof (cases "admit sha canon m i e op db")
  case (Inl x)
  then show ?thesis using inv by (simp add: Execute_def)
next
  case (Inr x)
  obtain t c where x: "x = (t, c)" by force
  obtain db1 where w: "db1 = between db \<or> (\<exists>u. manual_update u \<and> mu_Expected u = c \<and> db1 = snd (ApplyManualUpdate uuid u (between db)))"
    and r: "snd (Execute uuid sha canon hook remote between m i e op a r now db) \<in> {db1, snd (hook db1)}"
    by (rule Execute_writes [OF Inr [unfolded x], where between = between and hook = hook and remote = remote])
  have "durable_inv uuid (snd (ApplyManualUpdate uuid v (between db))) \<and>
      evolves uuid {} (between db) (snd (ApplyManualUpdate uuid v (between db)))" if "manual_update v" for v
    using ApplyManualUpdate_durable [OF u b(1), of v] ApplyManualUpdate_evolves [OF u b(1), of v]
      manual_update_correct [OF that] by blast
  then have d1: "durable_inv uuid db1 \<and> evolves uuid {} (between db) db1" using w b(1) evolves_refl by metis
  then have e1: "evolves uuid {} db db1" using evolves_trans [OF b(2)] by simp
  then have "evolves uuid {} db (snd (hook db1))" using evolves_trans [OF e1 hook_evolves] by simp
  then show ?thesis using r d1 e1 hook_durable by auto
qed

end

text \<open>A new attempt appears only after every check passed and the lookup excluded a running or finished deployment,
  and only if the attempt and its statuses are still the ones the decision was made on.\<close>

definition replaceable :: "HistoryResponse \<Rightarrow> Target \<Rightarrow> CurrentAttemptRow \<Rightarrow> Operation \<Rightarrow> bool" where
  "replaceable response t c op \<longleftrightarrow>
     \<not> needsReconciliation c \<or>
     (case FindDeployment response (tg_ComposeID t) (ca_AttemptID c) (ca_DeploymentID c) of
        (match, found, err) \<Rightarrow> err = None \<and>
          (found \<longrightarrow> op = OperationRedeploy \<and> (dp_Status match = Some ''error'' \<or> dp_Status match = Some ''cancelled'')))"

lemma commitManual_created:
  assumes k: "keys_ok db" and c: "ar_Created (fst (fst (commitManual uuid u b out db)))"
  shows "b \<and> (\<exists>d a. (d, a) \<in> set (current_pairs db) \<and> expectation_met u d a)"
proof (rule ccontr)
  assume n: "\<not> (b \<and> (\<exists>d a. (d, a) \<in> set (current_pairs db) \<and> expectation_met u d a))"
  have b: "b" using c by (auto simp: commitManual_def noResult_def split: prod.splits sum.splits store_error.splits)
  then have "ApplyManualUpdate uuid u db = (Inl ErrCurrentAttemptChanged, db)"
    using n by (intro ApplyManualUpdate_reject [OF k]) blast
  then show False using c by (simp add: commitManual_def noResult_def)
qed

lemma expectation_met_expected:
  "mu_Expected u = c \<Longrightarrow> expectation_met u d a \<longleftrightarrow>
     dl_id d = ca_DeliveryID c \<and> at_id a = ca_AttemptID c \<and> at_transport_status a = ca_TransportStatus c \<and>
     at_deployment_status a = ca_DeploymentStatus c"
  by (simp add: expectation_met_def)

definition unchanged :: "CurrentAttemptRow \<Rightarrow> db \<Rightarrow> bool" where
  "unchanged c db \<longleftrightarrow>
     (\<exists>d a. (d, a) \<in> set (current_pairs db) \<and> dl_id d = ca_DeliveryID c \<and> at_id a = ca_AttemptID c \<and>
        at_transport_status a = ca_TransportStatus c \<and> at_deployment_status a = ca_DeploymentStatus c)"

lemma commitManual_unchanged:
  "keys_ok db \<Longrightarrow> ar_Created (fst (fst (commitManual uuid u b out db))) \<Longrightarrow> b \<and> unchanged (mu_Expected u) db"
  by (drule (1) commitManual_created) (auto simp: unchanged_def expectation_met_def)

lemma foundUpdate_failed:
  "mu_DeploymentStatus (foundUpdate t c m a r now) \<notin> {DeploymentDone, DeploymentRunning, DeploymentUnrecognized} \<Longrightarrow>
   dp_Status m = Some ''error'' \<or> dp_Status m = Some ''cancelled''"
  by (auto simp: foundUpdate_def Let_def split: option.splits if_splits)

lemma reconcile_created:
  assumes k: "keys_ok db" and op: "op \<in> {OperationRetry, OperationRedeploy}"
    and cr: "ar_Created (fst (fst (fst (reconcileThenExecute uuid response t c op a r now db))))"
  shows "replaceable response t c op \<and> unchanged c db"
proof -
  obtain m found err where f: "FindDeployment response (tg_ComposeID t) (ca_AttemptID c) (ca_DeploymentID c) = (m, found, err)"
    using prod_cases3 by blast
  let ?u = "foundUpdate t c m a r now"
  note rd = reconcileThenExecute_def createManual_def correctAndReturn_def split_beta Let_def
  have e: "err = None" using cr f by (cases err) (simp_all add: rd)
  show ?thesis
  proof (cases found)
    case False
    then show ?thesis using cr f e commitManual_unchanged [OF k] by (fastforce simp: rd replaceable_def)
  next
    case True
    show ?thesis
    proof (cases "mu_DeploymentStatus ?u \<in> {DeploymentDone, DeploymentRunning, DeploymentUnrecognized}")
      case True
      then show ?thesis using cr f e \<open>found\<close> commitManual_unchanged [OF k] by (fastforce simp: rd)
    next
      case False
      then have "op \<noteq> OperationRetry \<and> unchanged c db"
        using cr f e \<open>found\<close> commitManual_unchanged [OF k]
        by (cases "mu_DeploymentStatus ?u"; cases "op = OperationRetry") (fastforce simp: rd)+
      then show ?thesis using op f e \<open>found\<close> foundUpdate_failed [OF False] by (auto simp: replaceable_def)
    qed
  qed
qed

lemma Execute_result:
  assumes "admit sha canon m i e op db = Inr (t, c)"
  shows "fst (fst (Execute uuid sha canon hook remote between m i e op a r now db)) =
    (if \<not> needsReconciliation c then fst (fst (createManual uuid c op a r now (between db)))
     else fst (fst (fst (reconcileThenExecute uuid (remote t c) t c op a r now (between db)))))"
  using assms by (auto simp: Execute_def split: prod.splits sum.splits)

lemma Execute_creates_checked:
  assumes k: "keys_ok (between db)"
    and cr: "ar_Created (fst (fst (Execute uuid sha canon hook remote between m i e op a r now db)))"
  shows "\<exists>t c. admit sha canon m i e op db = Inr (t, c) \<and> replaceable (remote t c) t c op \<and> unchanged c (between db)"
proof (cases "admit sha canon m i e op db")
  case (Inl x)
  then have "\<not> ar_Created (fst x)"
    by (auto simp: admit_def noResult_def Let_def
        split: if_splits sum.splits store_error.splits prod.splits option.splits BindingStatus.splits)
  then show ?thesis using cr Inl by (simp add: Execute_def)
next
  case (Inr x)
  obtain t c where x: "x = (t, c)" by force
  have op: "op \<in> {OperationRetry, OperationRedeploy}" using admit_InrD [OF Inr [unfolded x]] operationAllowed_known by blast
  show ?thesis
    using cr Execute_result [OF Inr [unfolded x], of uuid hook remote between a r now] reconcile_created [OF k op]
      commitManual_unchanged [OF k] Inr x
    by (fastforce simp: createManual_def replaceable_def split: if_splits)
qed

text \<open>A target without a Compose resource cannot be reconciled: the lookup needs a Compose ID.\<close>

lemma Execute_no_compose:
  assumes "admit sha canon m i e op db = Inr (t, c)" and "needsReconciliation c" and "tg_ComposeID t = ''''"
  shows "Execute uuid sha canon hook remote between m i e op a r now db =
    ((\<lparr>ar_AttemptID = ca_AttemptID c, ar_Created = False\<rparr>, Some ErrReconciliationUnavailable), between db)"
  using assms by (simp add: Execute_def reconcileThenExecute_def FindDeployment_requires_compose)

end
