(* ===== verification/Compatibility.thy ===== *)
theory Compatibility
  imports Startup Attempts_Service
begin

text \<open>
  How the transactions of the store treat the targets of deliveries. \<open>covers uuid P db db'\<close>: every delivery of \<open>db'\<close> is one of
  \<open>db\<close> with the same target, or has an identifier that was not drawn before; and if it became active, it satisfies \<open>P\<close>. With \<open>P\<close> the compatibility with the
  current configuration, each transaction keeps \<open>active_compatible\<close>.
\<close>

section \<open>The relation\<close>

definition inherits :: "(delivery_row \<Rightarrow> bool) \<Rightarrow> delivery_row \<times> attempt_row \<Rightarrow> delivery_row \<times> attempt_row \<Rightarrow> bool" where
  "inherits P = (\<lambda>(d, a) (d', a').
     dl_id d' = dl_id d \<and> dl_target_id d' = dl_target_id d \<and> dl_target_snapshot d' = dl_target_snapshot d \<and>
     (Active (at_transport_status a') (at_deployment_status a') \<longrightarrow>
      Active (at_transport_status a) (at_deployment_status a) \<or> P d'))"

definition covers :: "(nat \<Rightarrow> string) \<Rightarrow> (delivery_row \<Rightarrow> bool) \<Rightarrow> db \<Rightarrow> db \<Rightarrow> bool" where
  "covers uuid P db db' \<longleftrightarrow>
     (\<forall>y\<in>set (current_pairs db'). (\<exists>x\<in>set (current_pairs db). inherits P x y) \<or>
        (dl_id (fst y) \<notin> uuid ` {..<db_uuids db} \<and> P (fst y)))"

lemma inherits_refl [simp]: "inherits P x x"
  by (simp add: inherits_def split_beta)

lemma covers_subset: "set (current_pairs db') \<subseteq> set (current_pairs db) \<Longrightarrow> covers uuid P db db'"
  unfolding covers_def using inherits_refl by blast

lemma covers_refl [simp]: "covers uuid P db db"
  by (simp add: covers_subset)

lemma covers_compatible:
  assumes "active_compatible sha canon g db" and "covers uuid (pair_compatible sha canon g) db db'"
  shows "active_compatible sha canon g db'"
  unfolding active_compatible_def
proof (intro ballI, clarify)
  fix d a assume da: "(d, a) \<in> set (current_pairs db')" "Active (at_transport_status a) (at_deployment_status a)"
  show "pair_compatible sha canon g d"
  proof (cases "\<exists>x\<in>set (current_pairs db). inherits (pair_compatible sha canon g) x (d, a)")
    case True
    then obtain d' a' where o': "(d', a') \<in> set (current_pairs db)" "inherits (pair_compatible sha canon g) (d', a') (d, a)" by fast
    then have "pair_compatible sha canon g d' \<or> pair_compatible sha canon g d"
      using assms(1) da(2) unfolding active_compatible_def inherits_def by (auto simp del: in_current_pairs)
    then show ?thesis using o'(2) by (auto simp: inherits_def pair_compatible_def)
  next
    case False
    then show ?thesis using assms(2) da(1) unfolding covers_def by (metis fst_conv)
  qed
qed

section \<open>Transactions on one delivery\<close>

context pair_write
begin

lemma touched_covers:
  assumes "keys_ok db" and "(d, a) \<in> set (current_pairs db)" and "\<And>x. dl_target_snapshot (g x) = dl_target_snapshot x"
    and "Active (at_transport_status (f a)) (at_deployment_status (f a)) \<Longrightarrow> Active (at_transport_status a) (at_deployment_status a)"
  shows "covers uuid P db (touch_pair (at_id a) (dl_id d) f g db)"
  unfolding covers_def touched_pairs_image [OF assms(1,2)]
proof
  fix y assume "y \<in> (\<lambda>(x, y). if at_id y = at_id a then (g x, f y) else (x, y)) ` set (current_pairs db)"
  then obtain d' a' where o': "(d', a') \<in> set (current_pairs db)"
    and y: "y = (if at_id a' = at_id a then (g d', f a') else (d', a'))" by auto
  have "at_id a' = at_id a \<Longrightarrow> a' = a" using attempt_unique [OF assms(1), of a' a] o' assms(2) by simp
  then have "inherits P (d', a') y" unfolding y using assms(3,4) by (auto simp: inherits_def g_target g_id)
  then show "(\<exists>x\<in>set (current_pairs db). inherits P x y) \<or> (dl_id (fst y) \<notin> uuid ` {..<db_uuids db} \<and> P (fst y))" using o' by blast
qed

end

lemma covers_append_audit [simp]: "covers uuid P db (append_audit u db') = covers uuid P db db'"
  by (simp add: covers_def)

lemma claim_covers:
  assumes u: "inj uuid" and inv: "durable_inv uuid db"
  shows "covers uuid P db (snd (ClaimPendingAttempt uuid now db))"
proof (cases "sql_first (sort_key claimOrder (filter (claimable db) (current_triples db)))")
  case None
  then show ?thesis by (simp add: ClaimPendingAttempt_None_eq)
next
  case (Some x)
  obtain e d a where x: "x = (e, d, a)" by (metis prod_cases3)
  have "(e, d, a) \<in> set (filter (claimable db) (current_triples db))" using sql_first_SomeD [OF Some] x by simp
  then have p: "(d, a) \<in> set (current_pairs db)" "at_transport_status a = TransportPending"
    by (simp_all add: claimable_iff)
  then show ?thesis
    unfolding ClaimPendingAttempt_Some_eq [OF u inv Some [unfolded x]] snd_conv claimed_db_def covers_append_audit
    by (intro claim.touched_covers [OF durable_inv_keys [OF inv] p(1)]) (simp_all add: claim_delivery_def Active_def)
qed

lemma transition_covers:
  assumes u: "inj uuid" and inv: "durable_inv uuid db"
  shows "covers uuid P db (snd (transitionAttempt uuid aid rq rs at t ds action en due dl db))"
proof (cases "\<exists>d a. (d, a) \<in> set (current_pairs db) \<and> at_id a = aid \<and> at_transport_status a = TransportSending")
  case True
  then obtain d a where p: "(d, a) \<in> set (current_pairs db)" and i: "at_id a = aid"
      and s: "at_transport_status a = TransportSending" by blast
  show ?thesis
    unfolding i [symmetric] transitionAttempt_eq [OF u inv p s] snd_conv transitioned_db_def covers_append_audit
    by (rule outcome.touched_covers [OF durable_inv_keys [OF inv] p]) (simp_all add: s Active_def)
next
  case False
  then show ?thesis using transitionAttempt_reject [OF durable_inv_keys [OF inv]] by (metis covers_refl snd_conv)
qed

lemma Mark_covers:
  assumes "inj uuid" and "durable_inv uuid db"
  shows "covers uuid P db (snd (MarkEnqueued uuid aid rq rs at due dl db))"
    and "covers uuid P db (snd (MarkAccepted uuid aid rq rs at db))"
    and "covers uuid P db (snd (MarkTransportFailed uuid aid rq rs at db))"
    and "covers uuid P db (snd (MarkTransportUnknown uuid aid rq rs at due dl db))"
    and "covers uuid P db (snd (MarkTransportUnknownTerminal uuid aid rq rs at db))"
  unfolding MarkEnqueued_def MarkAccepted_def MarkTransportFailed_def MarkTransportUnknown_def
    MarkTransportUnknownTerminal_def
  by (rule transition_covers [OF assms])+

lemma completed_covers:
  assumes inv: "durable_inv uuid db" and p: "(d, a) \<in> set (current_pairs db)" and m: "monitored (at_deployment_status a)"
  shows "covers uuid P db (snd (completed_db uuid upd at d a db))"
proof -
  note k = durable_inv_keys [OF inv]
  show ?thesis
    unfolding completed_db_def Let_def
    using complete.touched_covers [OF k p] complete_keep.touched_covers [OF k p] m
    by (simp add: Active_iff)
qed

lemma CompletePoll_covers:
  assumes u: "inj uuid" and inv: "durable_inv uuid db" and w: "work_ok db w"
  shows "covers uuid P db (snd (CompletePoll uuid w upd at db))"
proof (cases "\<exists>d a. (d, a) \<in> set (current_pairs db) \<and> at_id a = pw_AttemptID w \<and>
      at_delivery_id a = pw_DeliveryID w \<and> at_last_polled_at a = Some (UnixMilli (pw_ClaimedAt w))")
  case True
  then obtain d a where h: "(d, a) \<in> set (current_pairs db)" "pw_AttemptID w = at_id a"
      "at_delivery_id a = pw_DeliveryID w" "at_last_polled_at a = Some (UnixMilli (pw_ClaimedAt w))"
    by metis
  have d: "pw_DeliveryID w = dl_id d" using h by (simp add: is_current_def)
  have "monitored (at_deployment_status a)" using w h by (auto simp: work_ok_def describes_def)
  then show ?thesis
    unfolding CompletePoll_eq [OF u inv h(1,2) d h(4)] snd_conv by (rule completed_covers [OF inv h(1)])
next
  case False
  then show ?thesis using CompletePoll_reject [of db w uuid upd at] by (metis covers_refl snd_conv)
qed

context meta_write
begin

lemma meta_covers: "covers uuid P db (db\<lparr>db_attempts := sql_update p f (db_attempts db)\<rparr>)"
  unfolding covers_def
proof
  fix y assume y: "y \<in> set (current_pairs (db\<lparr>db_attempts := sql_update p f (db_attempts db)\<rparr>))"
  obtain d b where db: "y = (d, b)" by force
  obtain a where "(d, a) \<in> set (current_pairs db)" "b = (if p a then f a else a)"
    using pairs_meta y unfolding db by blast
  then have "(d, a) \<in> set (current_pairs db)" "inherits P (d, a) y" by (auto simp: inherits_def keeps db)
  then show "(\<exists>x\<in>set (current_pairs db). inherits P x y) \<or> (dl_id (fst y) \<notin> uuid ` {..<db_uuids db} \<and> P (fst y))" by blast
qed

end

lemma RecordDeploymentRequest_covers: "covers uuid P db (snd (RecordDeploymentRequest aid rq at db))"
  unfolding RecordDeploymentRequest_def Let_def snd_if_same by (rule evidence.meta_covers)

lemma SetDeploymentCursor_covers: "covers uuid P db (snd (SetDeploymentCursor aid c db))"
  unfolding SetDeploymentCursor_def Let_def snd_if_same by (rule cursor.meta_covers)

text \<open>\<open>P\<close> speaks of the target only.\<close>

definition target_property :: "(delivery_row \<Rightarrow> bool) \<Rightarrow> bool" where
  "target_property P \<longleftrightarrow>
     (\<forall>d d'. dl_target_id d' = dl_target_id d \<longrightarrow> dl_target_snapshot d' = dl_target_snapshot d \<longrightarrow> P d' = P d)"

lemma target_propertyD:
  "target_property P \<Longrightarrow> P d \<Longrightarrow> dl_target_id d' = dl_target_id d \<Longrightarrow> dl_target_snapshot d' = dl_target_snapshot d \<Longrightarrow> P d'"
  unfolding target_property_def by blast

lemma pair_compatible_target: "target_property (pair_compatible sha canon g)"
  by (simp add: target_property_def pair_compatible_def)

lemma inherits_target:
  "inherits P x y \<Longrightarrow> dl_id (fst y) = dl_id (fst x) \<and> dl_target_id (fst y) = dl_target_id (fst x) \<and>
   dl_target_snapshot (fst y) = dl_target_snapshot (fst x)"
  by (auto simp: inherits_def)

lemma inherits_trans:
  assumes P: "target_property P" and xy: "inherits P x y" and yz: "inherits P y z"
  shows "inherits P x z"
proof -
  have "P (fst y) \<Longrightarrow> P (fst z)" using target_propertyD [OF P] inherits_target [OF yz] by metis
  then show ?thesis using xy yz by (auto simp: inherits_def)
qed

lemma covers_trans:
  assumes P: "target_property P" and c: "covers uuid P db db'" "covers uuid P db' db''" and n: "db_uuids db \<le> db_uuids db'"
  shows "covers uuid P db db''"
  unfolding covers_def
proof
  fix z assume z: "z \<in> set (current_pairs db'')"
  show "(\<exists>x\<in>set (current_pairs db). inherits P x z) \<or> (dl_id (fst z) \<notin> uuid ` {..<db_uuids db} \<and> P (fst z))"
  proof (cases "\<exists>y\<in>set (current_pairs db'). inherits P y z")
    case True
    then obtain y where y: "y \<in> set (current_pairs db')" "inherits P y z" by blast
    then consider (old) x where "x \<in> set (current_pairs db)" "inherits P x y"
      | (new) "dl_id (fst y) \<notin> uuid ` {..<db_uuids db}" "P (fst y)"
      using c(1) unfolding covers_def by blast
    then show ?thesis
    proof cases
      case old
      then show ?thesis using inherits_trans [OF P _ y(2)] by blast
    next
      case new
      then show ?thesis using inherits_target [OF y(2)] target_propertyD [OF P new(2), of "fst z"] by simp
    qed
  next
    case False
    then have "dl_id (fst z) \<notin> uuid ` {..<db_uuids db'}" "P (fst z)" using c(2) z unfolding covers_def by blast+
    then show ?thesis using n by (auto simp: image_iff)
  qed
qed

lemma ListDuePolls_covers: "target_property P \<Longrightarrow> covers uuid P db (snd (ListDuePolls now db))"
proof -
  assume P: "target_property P"
  have "covers uuid P db (snd (claimPolls n ws db))" for n ws
  proof (induction ws arbitrary: db)
    case (Cons w ws)
    show ?case
      using covers_trans [OF P polled.meta_covers [of uuid P db "claimPollCond n w db" n] Cons.IH] by (simp add: Let_def split_beta)
  qed simp
  then show ?thesis by (simp add: ListDuePolls_def split_beta)
qed

section \<open>New deliveries\<close>

lemma current_pairs_events:
  "current_pairs (db\<lparr>db_events := E\<rparr>) = current_pairs db" "current_pairs (db\<lparr>db_queue := Q\<rparr>) = current_pairs db"
  "current_pairs (db\<lparr>db_queue_seq := n\<rparr>) = current_pairs db" "current_pairs (db\<lparr>db_observations := B\<rparr>) = current_pairs db"
  "current_pairs (db\<lparr>db_uuids := n\<rparr>) = current_pairs db"
  by (simp_all add: current_pairs_def)

lemma event_added_pairs [simp]: "current_pairs (event_added uuid c db) = current_pairs db"
  by (simp add: current_pairs_def)

text \<open>The loop numbers its deliveries with identifiers that it draws.\<close>

lemma insertDeliveries_drawn:
  "insertDeliveries uuid i at ds db = Some db' \<Longrightarrow>
   db_uuids db \<le> db_uuids db' \<and> dl_id ` set (db_deliveries db') \<subseteq> dl_id ` set (db_deliveries db) \<union> uuid ` {db_uuids db..<db_uuids db'}"
proof (induction ds arbitrary: db)
  case (Cons nd ds)
  let ?n = "db_uuids db"
  let ?rows = "sql_update (\<lambda>r. dl_id r = uuid ?n) (current_delivery (uuid (Suc ?n))) (db_deliveries db @ [newDelivery (uuid ?n) i at nd])"
  let ?db = "db\<lparr>db_uuids := Suc (Suc ?n), db_attempts := db_attempts db @ [pendingAttempt (uuid (Suc ?n)) (uuid ?n) ''initial'' None at],
      db_deliveries := ?rows\<rparr>"
  have r: "insertDeliveries uuid i at ds ?db = Some db'"
    using Cons.prems by (auto simp: draw_def insert_delivery_def insert_attempt_def split: if_splits)
  have ids: "dl_id ` set ?rows = insert (uuid ?n) (dl_id ` set (db_deliveries db))"
    by (simp add: image_sql_update current_delivery_def newDelivery_def)
  have ih: "Suc (Suc ?n) \<le> db_uuids db'"
    "dl_id ` set (db_deliveries db') \<subseteq> dl_id ` set ?rows \<union> uuid ` {Suc (Suc ?n)..<db_uuids db'}"
    using Cons.IH [OF r] by simp_all
  then have "uuid ?n \<in> uuid ` {?n..<db_uuids db'}" "uuid ` {Suc (Suc ?n)..<db_uuids db'} \<subseteq> uuid ` {?n..<db_uuids db'}" by auto
  then have "insert (uuid ?n) (dl_id ` set (db_deliveries db)) \<union> uuid ` {Suc (Suc ?n)..<db_uuids db'} \<subseteq>
      dl_id ` set (db_deliveries db) \<union> uuid ` {?n..<db_uuids db'}" by blast
  then show ?case using ih(1) subset_trans [OF ih(2) [unfolded ids]] by simp
qed simp

lemma adds_covers:
  assumes u: "inj uuid" and k: "keys_ok db'" and add: "adds_deliveries i ds db db'"
    and drawn: "dl_id ` set (db_deliveries db') \<subseteq> dl_id ` set (db_deliveries db) \<union> uuid ` {db_uuids db..<db_uuids db'}"
    and P: "target_property P" "\<And>nd d. nd \<in> set ds \<Longrightarrow> dl_target_id d = nd_TargetID nd \<Longrightarrow>
      dl_target_snapshot d = Some (nd_TargetSnapshot nd) \<Longrightarrow> P d"
  shows "covers uuid P db db'"
  unfolding covers_def
proof
  obtain new atts where h: "db_deliveries db' = db_deliveries db @ new" "db_attempts db' = db_attempts db @ atts"
      "map delivery_columns new = map (decided_columns i) ds" "list_all2 is_current new atts"
    using add by (auto simp: adds_deliveries_def)
  fix y assume y: "y \<in> set (current_pairs db')"
  obtain d a where da: "y = (d, a)" by force
  have d: "d \<in> set (db_deliveries db')" "a \<in> set (db_attempts db')" "is_current d a" using y da by simp_all
  show "(\<exists>x\<in>set (current_pairs db). inherits P x y) \<or> (dl_id (fst y) \<notin> uuid ` {..<db_uuids db} \<and> P (fst y))"
  proof (cases "d \<in> set new")
    case True
    then have "delivery_columns d \<in> set (map (decided_columns i) ds)" using h(3) by (metis image_eqI list.set_map)
    then obtain nd where "nd \<in> set ds" "delivery_columns d = decided_columns i nd" by auto
    then have Pd: "P d" using P(2) [of nd d] by (simp add: delivery_columns_def decided_columns_def)
    have "dl_id d \<notin> dl_id ` set (db_deliveries db)" using k True h(1) by (auto simp: keys_ok_def)
    then have "dl_id d \<in> uuid ` {db_uuids db..<db_uuids db'}" using drawn d(1) by blast
    then have "dl_id d \<notin> uuid ` {..<db_uuids db}" using u by (auto simp: inj_eq)
    then show ?thesis using Pd by (simp add: da)
  next
    case old: False
    then have od: "d \<in> set (db_deliveries db)" using d(1) h(1) by auto
    have "a \<notin> set atts"
    proof
      assume "a \<in> set atts"
      then obtain n where n: "n < length atts" "a = atts ! n" by (metis in_set_conv_nth)
      then have "is_current (new ! n) a" "new ! n \<in> set new" using h(4) by (auto simp: list_all2_conv_all_nth)
      then have "dl_id (new ! n) = dl_id d" "new ! n \<in> set (db_deliveries db')" using d(3) h(1) by (auto simp: is_current_def)
      then have "new ! n = d" using delivery_unique [OF k _ d(1)] by simp
      then show False using old \<open>new ! n \<in> set new\<close> by simp
    qed
    then have "y \<in> set (current_pairs db)" using od d h(2) da by simp
    then show ?thesis using inherits_refl by blast
  qed
qed

lemma Ingest_covers:
  assumes u: "inj uuid" and inv: "durable_inv uuid db" and P: "target_property P"
    and ok: "\<And>nd d. nd \<in> set (ic_Deliveries c) \<Longrightarrow> dl_target_id d = nd_TargetID nd \<Longrightarrow>
      dl_target_snapshot d = Some (nd_TargetSnapshot nd) \<Longrightarrow> P d"
  shows "covers uuid P db (snd (Ingest uuid c db))"
proof (cases "valid_command c \<and> ic_RoutingResult c \<noteq> RoutingDeferred")
  case False
  then show ?thesis using ingest_invalid(1) [of c uuid db] by auto
next
  case v: True
  show ?thesis
  proof (cases "commandKey c \<in> eventKey ` set (db_events db)")
    case True
    then obtain e where "e \<in> set (db_events db)" "eventKey e = commandKey c" by auto
    then show ?thesis using ingest_duplicate(1) [OF inv] v by (simp add: covers_subset current_pairs_events)
  next
    case new: False
    show ?thesis
    proof (cases "insertDeliveries uuid (uuid (db_uuids db)) (UnixMilli (ic_ReceivedAt c)) (ic_Deliveries c) (event_added uuid c db)")
      case None
      then show ?thesis using Ingest_new_eq [OF u inv _ _ new] v by simp
    next
      case (Some db')
      then have i: "durable_inv uuid db'" "adds_deliveries (uuid (db_uuids db)) (ic_Deliveries c) (event_added uuid c db) db'"
        using Ingest_inserted [OF u inv _ _ new Some] v by simp_all
      have "covers uuid P (event_added uuid c db) db'"
        using adds_covers [OF u durable_inv_keys [OF i(1)] i(2) _ P] insertDeliveries_drawn [OF Some] ok by blast
      then have "covers uuid P db db'"
        by (rule covers_trans [OF P covers_subset, rotated]) simp_all
      then show ?thesis using Ingest_new_eq [OF u inv _ _ new] v Some by simp
    qed
  qed
qed

lemma IngestDeferred_covers:
  assumes u: "inj uuid" and inv: "durable_inv uuid db"
  shows "covers uuid P db (snd (IngestDeferred uuid c db))"
proof (cases "valid_command c \<and> ic_RoutingResult c = RoutingDeferred")
  case False
  then show ?thesis using ingest_invalid(2) [of c uuid db] by auto
next
  case v: True
  show ?thesis
  proof (cases "commandKey c \<in> eventKey ` set (db_events db)")
    case True
    then obtain e where "e \<in> set (db_events db)" "eventKey e = commandKey c" by auto
    then show ?thesis using ingest_duplicate(2) [OF inv] v by (simp add: covers_subset current_pairs_events)
  next
    case False
    then show ?thesis
      using IngestDeferred_new_eq [OF u inv _ _ False] v
      by (simp add: covers_subset event_queued_def current_pairs_events)
  qed
qed

lemma FinalizeDeferred_covers:
  assumes u: "inj uuid" and inv: "durable_inv uuid db" and P: "target_property P"
    and ok: "\<And>nd d. nd \<in> set (rd_Deliveries dec) \<Longrightarrow> dl_target_id d = nd_TargetID nd \<Longrightarrow>
      dl_target_snapshot d = Some (nd_TargetSnapshot nd) \<Longrightarrow> P d"
  shows "covers uuid P db (snd (FinalizeDeferred uuid x dec digest db))"
proof (cases "final_decision dec \<and> (\<exists>q qs. db_queue db = q # qs \<and> de_Seq x = q_seq q \<and> de_EventID x = q_event_id q)")
  case False
  then show ?thesis
    using FinalizeDeferred_invalid [of dec uuid x digest db] FinalizeDeferred_stale [of db x uuid dec digest] inv
    by (metis covers_refl snd_conv)
next
  case True
  then obtain q qs where fin: "final_decision dec" and q: "db_queue db = q # qs" "de_Seq x = q_seq q" "de_EventID x = q_event_id q"
    by blast
  obtain e where e: "queueHead db = Some (q, e)" "e \<in> set (db_events db)" "ev_id e = q_event_id q"
      "ev_routing_result e = RoutingDeferred" using queueHead_Cons [OF inv q(1)] by auto
  have hp: "current_pairs (head_decided dec digest q db) = current_pairs db" by (simp add: head_decided_def current_pairs_def)
  show ?thesis
  proof (cases "insertDeliveries uuid (q_event_id q) (ev_received_at e) (rd_Deliveries dec) (head_decided dec digest q db)")
    case None
    then show ?thesis using FinalizeDeferred_head_eq [OF inv q(1) fin q(2,3) e] by simp
  next
    case (Some db')
    then have i: "durable_inv uuid db'" "adds_deliveries (q_event_id q) (rd_Deliveries dec) (head_decided dec digest q db) db'"
      using FinalizeDeferred_inserted [OF u inv q(1) fin Some] by simp_all
    have "covers uuid P (head_decided dec digest q db) db'"
      using adds_covers [OF u durable_inv_keys [OF i(1)] i(2) _ P] insertDeliveries_drawn [OF Some] ok by blast
    moreover have "db_uuids (head_decided dec digest q db) = db_uuids db" by (simp add: head_decided_def)
    ultimately show ?thesis using FinalizeDeferred_head_eq [OF inv q(1) fin q(2,3) e] Some by (simp add: covers_def hp)
  qed
qed

section \<open>Manual updates, retention, history\<close>

lemma replaced_covers:
  assumes u: "inj uuid" and inv: "durable_inv uuid db" and d: "d \<in> set (db_deliveries db)" "target_property P" "P d"
  shows "covers uuid P db (replaced_db uuid upd kind d t ds db)"
  unfolding covers_def
proof
  fix y assume "y \<in> set (current_pairs (replaced_db uuid upd kind d t ds db))"
  then have y: "y \<in> set (current_pairs (swapped_db uuid upd kind d db))" by (simp add: replaced_db_def)
  obtain x a where xa: "y = (x, a)" by force
  show "(\<exists>x\<in>set (current_pairs db). inherits P x y) \<or> (dl_id (fst y) \<notin> uuid ` {..<db_uuids db} \<and> P (fst y))"
  proof (cases "a = manualAttempt uuid upd kind d db")
    case False
    then show ?thesis using swapped_pairs [OF u inv] y xa inherits_refl by metis
  next
    case True
    have x: "x \<in> set (db_deliveries (swapped_db uuid upd kind d db))" "dl_id x = dl_id d"
      using y xa True by (simp_all add: is_current_def manualAttempt_def pendingAttempt_def)
    then obtain r where r: "r \<in> set (db_deliveries db)" "dl_id r = dl_id d" "x = replace_delivery (uuid (db_uuids db)) (mu_At upd) r"
      by (auto simp: swapped_db_def sql_simps)
    then have "r = d" using delivery_unique [OF durable_inv_keys [OF inv]] d(1) by blast
    then have "P x" using r(3) by (intro target_propertyD [OF d(2,3)]) (simp_all add: replace_delivery_def)
    moreover obtain b where "(d, b) \<in> set (current_pairs db)"
      using store_inv_current_exists [of uuid db d] inv d(1) unfolding durable_inv_def by blast
    ultimately have "inherits P (d, b) y" "(d, b) \<in> set (current_pairs db)"
      using r(3) \<open>r = d\<close> by (simp_all add: xa inherits_def replace_delivery_def)
    then show ?thesis by blast
  qed
qed

lemma correction_covers:
  assumes inv: "durable_inv uuid db" and p: "(d, a) \<in> set (current_pairs db)" and P: "target_property P" "P d"
  shows "covers uuid P db (after_correction uuid upd d a db)"
proof (cases "mu_Correct upd")
  case True
  have k: "keys_ok db" using inv by (rule durable_inv_keys)
  show ?thesis
    unfolding covers_def after_correction_def if_P [OF True] corrected_db_def current_pairs_append_audit
      correct.touched_pairs_image [OF k p]
  proof
    fix y assume "y \<in> (\<lambda>(x, y). if at_id y = at_id a
        then (status_delivery (mu_TransportStatus upd) (mu_DeploymentStatus upd) (mu_At upd) x, correct_attempt upd y) else (x, y)) ` set (current_pairs db)"
    then obtain d' a' where o': "(d', a') \<in> set (current_pairs db)"
      and y: "y = (if at_id a' = at_id a
        then (status_delivery (mu_TransportStatus upd) (mu_DeploymentStatus upd) (mu_At upd) d', correct_attempt upd a') else (d', a'))" by auto
    show "(\<exists>x\<in>set (current_pairs db). inherits P x y) \<or> (dl_id (fst y) \<notin> uuid ` {..<db_uuids db} \<and> P (fst y))"
    proof (cases "at_id a' = at_id a")
      case True
      then have "d' = d" using current_unique [OF k o' p] delivery_unique [OF k, of d' d] o' p by simp
      then have "P (fst y)" using True y by (intro target_propertyD [OF P]) simp_all
      then have "inherits P (d', a') y" using True y by (simp add: inherits_def status_delivery_ids)
      then show ?thesis using o' by blast
    next
      case False
      then have "y = (d', a')" using y by simp
      then show ?thesis using o' inherits_refl by blast
    qed
  qed
next
  case False
  then show ?thesis by (simp add: after_correction_def)
qed

lemma ApplyManualUpdate_covers:
  assumes u: "inj uuid" and inv: "durable_inv uuid db" and ok: "mu_Correct upd \<Longrightarrow> correction_ok upd"
    and P: "target_property P" "\<And>d a. (d, a) \<in> set (current_pairs db) \<Longrightarrow> expectation_met upd d a \<Longrightarrow> P d"
  shows "covers uuid P db (snd (ApplyManualUpdate uuid upd db))"
proof (cases "\<exists>d a. (d, a) \<in> set (current_pairs db) \<and> expectation_met upd d a")
  case True
  then obtain d a where p: "(d, a) \<in> set (current_pairs db)" and e: "expectation_met upd d a" by blast
  have Pd: "P d" using P(2) [OF p e] .
  let ?c = "after_correction uuid upd d a db"
  have c: "covers uuid P db ?c" by (rule correction_covers [OF inv p P(1) Pd])
  have ci: "durable_inv uuid ?c" using corrected_db_durable [OF u inv p ok] inv by (simp add: after_correction_def)
  have "covers uuid P ?c (replaced_db uuid upd kind d t ds ?c)" for kind t ds
  proof (cases "mu_Correct upd")
    case True
    let ?d = "status_delivery (mu_TransportStatus upd) (mu_DeploymentStatus upd) (mu_At upd) d"
    have "?d \<in> set (db_deliveries ?c)"
      using corrected_pair [OF durable_inv_keys [OF inv] p, of upd uuid] True by (simp add: after_correction_def)
    moreover have "P ?d" by (rule target_propertyD [OF P(1) Pd]) simp_all
    ultimately show ?thesis using replaced_covers [OF u ci _ P(1), of ?d upd kind t ds] by (simp add: swap_after_correction)
  next
    case False
    then show ?thesis using replaced_covers [OF u ci _ P(1) Pd] p by (simp add: after_correction_def)
  qed
  then have r: "covers uuid P db (replaced_db uuid upd kind d t ds ?c)" for kind t ds
    by (rule covers_trans [OF P(1) c]) (simp add: after_correction_def corrected_db_def)
  show ?thesis using c r ok by (subst ApplyManualUpdate_eq [OF u inv p e]) (auto split: sum.splits)
next
  case False
  then show ?thesis using ApplyManualUpdate_reject [OF durable_inv_keys [OF inv], of upd uuid] by (metis covers_refl snd_conv)
qed

lemma Prune_covers: "durable_inv uuid db \<Longrightarrow> covers uuid P db (snd (Prune cutoff limits dflt global db))"
  using Prune_spec(2) [of uuid db cutoff limits dflt global]
  by (intro covers_subset) (auto simp: pruned_def simp del: in_current_pairs)

lemma ClearHistory_covers: "covers uuid P db (snd (ClearHistory db))"
  by (rule covers_subset) (auto simp: ClearHistory_def current_pairs_def)

section \<open>Attempts being sent\<close>

text \<open>Only the dispatcher moves an attempt out of \<open>TransportSending\<close>: every other transaction leaves it, its delivery and
  its target as they are.\<close>

definition same_send :: "delivery_row \<times> attempt_row \<Rightarrow> delivery_row \<times> attempt_row \<Rightarrow> bool" where
  "same_send = (\<lambda>(d, a) (d', a').
     dl_id d' = dl_id d \<and> at_id a' = at_id a \<and> dl_target_id d' = dl_target_id d \<and>
     dl_target_snapshot d' = dl_target_snapshot d \<and> at_transport_status a' = TransportSending)"

definition protects :: "db \<Rightarrow> db \<Rightarrow> bool" where
  "protects db db' \<longleftrightarrow>
     (\<forall>x\<in>set (current_pairs db). at_transport_status (snd x) = TransportSending \<longrightarrow> (\<exists>y\<in>set (current_pairs db'). same_send x y))"

lemma same_send_refl: "at_transport_status (snd x) = TransportSending \<Longrightarrow> same_send x x"
  by (simp add: same_send_def split_beta)

lemma protects_subset:
  "(\<And>x. x \<in> set (current_pairs db) \<Longrightarrow> at_transport_status (snd x) = TransportSending \<Longrightarrow> x \<in> set (current_pairs db')) \<Longrightarrow> protects db db'"
  unfolding protects_def using same_send_refl by blast

lemma protects_refl [simp]: "protects db db"
  by (rule protects_subset)

lemma protects_trans:
  assumes "protects db db'" and "protects db' db''"
  shows "protects db db''"
  unfolding protects_def
proof (intro ballI impI)
  fix x assume "x \<in> set (current_pairs db)" "at_transport_status (snd x) = TransportSending"
  then obtain y where y: "y \<in> set (current_pairs db')" "same_send x y" using assms(1) unfolding protects_def by blast
  then have "at_transport_status (snd y) = TransportSending" by (auto simp: same_send_def)
  then obtain z where "z \<in> set (current_pairs db'')" "same_send y z" using assms(2) y(1) unfolding protects_def by blast
  moreover have "same_send x y \<Longrightarrow> same_send y z \<Longrightarrow> same_send x z" by (auto simp: same_send_def)
  ultimately show "\<exists>z\<in>set (current_pairs db''). same_send x z" using y(2) by blast
qed

lemma protects_append_audit [simp]: "protects db (append_audit u db') = protects db db'"
  by (simp add: protects_def)

context pair_write
begin

lemma touched_protects:
  assumes "keys_ok db" and "(d, a) \<in> set (current_pairs db)"
    and "at_transport_status a \<noteq> TransportSending"
  shows "protects db (touch_pair (at_id a) (dl_id d) f g db)"
proof (rule protects_subset)
  fix x assume x: "x \<in> set (current_pairs db)" "at_transport_status (snd x) = TransportSending"
  then have "at_id (snd x) \<noteq> at_id a"
    using attempt_unique [OF assms(1), of "snd x" a] assms(2,3) current_pairs_memD [OF x(1)] by auto
  then show "x \<in> set (current_pairs (touch_pair (at_id a) (dl_id d) f g db))"
    unfolding touched_pairs_image [OF assms(1,2)] using x(1) by (auto simp: image_iff split_beta)
qed

end

context meta_write
begin

lemma meta_protects: "protects db (db\<lparr>db_attempts := sql_update p f (db_attempts db)\<rparr>)"
  unfolding protects_def
proof (intro ballI impI)
  fix x assume x: "x \<in> set (current_pairs db)" "at_transport_status (snd x) = TransportSending"
  obtain d a where da: "x = (d, a)" by force
  let ?y = "(d, if p a then f a else a)"
  have "?y \<in> set (current_pairs (db\<lparr>db_attempts := sql_update p f (db_attempts db)\<rparr>))" "same_send x ?y"
    using x da by (auto simp: sql_simps is_current_f same_send_def keeps)
  then show "\<exists>y\<in>set (current_pairs (db\<lparr>db_attempts := sql_update p f (db_attempts db)\<rparr>)). same_send x y" by blast
qed

end

lemma RecordDeploymentRequest_protects: "protects db (snd (RecordDeploymentRequest aid rq at db))"
  unfolding RecordDeploymentRequest_def Let_def snd_if_same by (rule evidence.meta_protects)

lemma SetDeploymentCursor_protects: "protects db (snd (SetDeploymentCursor aid c db))"
  unfolding SetDeploymentCursor_def Let_def snd_if_same by (rule cursor.meta_protects)

lemma ListDuePolls_protects: "protects db (snd (ListDuePolls now db))"
proof -
  have "protects db (snd (claimPolls n ws db))" for n ws
  proof (induction ws arbitrary: db)
    case (Cons w ws)
    show ?case
      using protects_trans [OF polled.meta_protects [of db "claimPollCond n w db" n] Cons.IH] by (simp add: Let_def split_beta)
  qed simp
  then show ?thesis by (simp add: ListDuePolls_def split_beta)
qed

lemma monitored_not_sending: "attempt_ok a \<Longrightarrow> monitored (at_deployment_status a) \<Longrightarrow> at_transport_status a \<noteq> TransportSending"
  by (auto simp: attempt_ok_def)

lemma CompletePoll_protects:
  assumes u: "inj uuid" and inv: "durable_inv uuid db" and w: "work_ok db w"
  shows "protects db (snd (CompletePoll uuid w upd at db))"
proof (cases "\<exists>d a. (d, a) \<in> set (current_pairs db) \<and> at_id a = pw_AttemptID w \<and>
      at_delivery_id a = pw_DeliveryID w \<and> at_last_polled_at a = Some (UnixMilli (pw_ClaimedAt w))")
  case True
  then obtain d a where h: "(d, a) \<in> set (current_pairs db)" "pw_AttemptID w = at_id a"
      "at_delivery_id a = pw_DeliveryID w" "at_last_polled_at a = Some (UnixMilli (pw_ClaimedAt w))"
    by metis
  have d: "pw_DeliveryID w = dl_id d" using h by (simp add: is_current_def)
  have "monitored (at_deployment_status a)" using w h by (auto simp: work_ok_def describes_def)
  then have ns: "at_transport_status a \<noteq> TransportSending" using monitored_not_sending durable_currentE(1) [OF inv h(1)] by blast
  note k = durable_inv_keys [OF inv]
  show ?thesis
    unfolding CompletePoll_eq [OF u inv h(1,2) d h(4)] snd_conv completed_db_def Let_def
    using complete.touched_protects [OF k h(1) ns] complete_keep.touched_protects [OF k h(1) ns] by simp
next
  case False
  then show ?thesis using CompletePoll_reject [of db w uuid upd at] by (metis protects_refl snd_conv)
qed

lemma pairs_kept_protects: "set (current_pairs db) \<subseteq> set (current_pairs db') \<Longrightarrow> protects db db'"
  by (rule protects_subset) blast

lemma adds_protects: "adds_deliveries i ds db db' \<Longrightarrow> protects db db'"
  by (rule pairs_kept_protects) (auto simp: adds_deliveries_def)

lemma Ingest_protects:
  assumes u: "inj uuid" and inv: "durable_inv uuid db"
  shows "protects db (snd (Ingest uuid c db))"
proof (cases "valid_command c \<and> ic_RoutingResult c \<noteq> RoutingDeferred")
  case False
  then show ?thesis using ingest_invalid(1) [of c uuid db] by auto
next
  case v: True
  show ?thesis
  proof (cases "commandKey c \<in> eventKey ` set (db_events db)")
    case True
    then obtain e where "e \<in> set (db_events db)" "eventKey e = commandKey c" by auto
    then show ?thesis using ingest_duplicate(1) [OF inv] v by (simp add: pairs_kept_protects current_pairs_events)
  next
    case new: False
    have e: "protects db (event_added uuid c db)" by (simp add: pairs_kept_protects)
    have "protects db db'" if "insertDeliveries uuid (uuid (db_uuids db)) (UnixMilli (ic_ReceivedAt c)) (ic_Deliveries c) (event_added uuid c db) = Some db'" for db'
      using protects_trans [OF e adds_protects] Ingest_inserted [OF u inv _ _ new that] v by blast
    then show ?thesis using Ingest_new_eq [OF u inv _ _ new] v by (simp split: option.split)
  qed
qed

lemma IngestDeferred_protects:
  assumes u: "inj uuid" and inv: "durable_inv uuid db"
  shows "protects db (snd (IngestDeferred uuid c db))"
proof (cases "valid_command c \<and> ic_RoutingResult c = RoutingDeferred")
  case False
  then show ?thesis using ingest_invalid(2) [of c uuid db] by auto
next
  case v: True
  show ?thesis
  proof (cases "commandKey c \<in> eventKey ` set (db_events db)")
    case True
    then obtain e where "e \<in> set (db_events db)" "eventKey e = commandKey c" by auto
    then show ?thesis using ingest_duplicate(2) [OF inv] v by (simp add: pairs_kept_protects current_pairs_events)
  next
    case False
    then show ?thesis
      using IngestDeferred_new_eq [OF u inv _ _ False] v
      by (simp add: pairs_kept_protects event_queued_def current_pairs_events)
  qed
qed

lemma FinalizeDeferred_protects:
  assumes u: "inj uuid" and inv: "durable_inv uuid db"
  shows "protects db (snd (FinalizeDeferred uuid x dec digest db))"
proof (cases "final_decision dec \<and> (\<exists>q qs. db_queue db = q # qs \<and> de_Seq x = q_seq q \<and> de_EventID x = q_event_id q)")
  case False
  then show ?thesis
    using FinalizeDeferred_invalid [of dec uuid x digest db] FinalizeDeferred_stale [of db x uuid dec digest] inv
    by (metis protects_refl snd_conv)
next
  case True
  then obtain q qs where fin: "final_decision dec" and q: "db_queue db = q # qs" "de_Seq x = q_seq q" "de_EventID x = q_event_id q"
    by blast
  obtain e where e: "queueHead db = Some (q, e)" "e \<in> set (db_events db)" "ev_id e = q_event_id q"
      "ev_routing_result e = RoutingDeferred" using queueHead_Cons [OF inv q(1)] by auto
  have h: "protects db (head_decided dec digest q db)" by (simp add: pairs_kept_protects head_decided_def current_pairs_events)
  have "protects db db'"
    if "insertDeliveries uuid (q_event_id q) (ev_received_at e) (rd_Deliveries dec) (head_decided dec digest q db) = Some db'" for db'
    using protects_trans [OF h adds_protects] FinalizeDeferred_inserted [OF u inv q(1) fin that] by blast
  then show ?thesis using FinalizeDeferred_head_eq [OF inv q(1) fin q(2,3) e] by (simp split: option.split)
qed

lemma replaced_protects:
  assumes k: "keys_ok db" and p: "(d, a) \<in> set (current_pairs db)" and s: "at_transport_status a \<noteq> TransportSending"
  shows "protects db (replaced_db uuid upd kind d t ds db)"
proof (rule protects_subset)
  fix x assume x: "x \<in> set (current_pairs db)" "at_transport_status (snd x) = TransportSending"
  obtain d' a' where da: "x = (d', a')" by force
  then have "dl_id d' \<noteq> dl_id d"
    using current_unique [OF k, of d' a' d a] attempt_unique [OF k, of a' a] x p s by (auto simp del: in_current_pairs dest!: current_pairs_memD)
  then show "x \<in> set (current_pairs (replaced_db uuid upd kind d t ds db))"
    using x(1) da by (auto simp: replaced_db_def swapped_db_def sql_simps image_iff intro!: bexI [of _ d'])
qed

lemma ApplyManualUpdate_protects:
  assumes u: "inj uuid" and inv: "durable_inv uuid db" and ok: "mu_Correct upd \<Longrightarrow> correction_ok upd"
    and ns: "ca_TransportStatus (mu_Expected upd) \<noteq> TransportSending"
  shows "protects db (snd (ApplyManualUpdate uuid upd db))"
proof (cases "\<exists>d a. (d, a) \<in> set (current_pairs db) \<and> expectation_met upd d a")
  case True
  then obtain d a where p: "(d, a) \<in> set (current_pairs db)" and e: "expectation_met upd d a" by blast
  have s: "at_transport_status a \<noteq> TransportSending" using e ns by (simp add: expectation_met_def)
  let ?c = "after_correction uuid upd d a db"
  note k = durable_inv_keys [OF inv]
  have c: "protects db ?c"
    using correct.touched_protects [OF k p s] by (simp add: after_correction_def corrected_db_def)
  have "protects ?c (replaced_db uuid upd kind d t ds ?c)" for kind t ds
  proof (cases "mu_Correct upd")
    case True
    let ?d = "status_delivery (mu_TransportStatus upd) (mu_DeploymentStatus upd) (mu_At upd) d"
    have "(?d, correct_attempt upd a) \<in> set (current_pairs ?c)"
      using corrected_pair [OF k p, of upd uuid] True by (simp add: after_correction_def del: in_current_pairs)
    moreover have "keys_ok ?c" using durable_inv_keys [OF corrected_db_durable [OF u inv p ok]] True by (simp add: after_correction_def)
    moreover have "at_transport_status (correct_attempt upd a) \<noteq> TransportSending"
      using ok True by (simp add: correct_attempt_def correction_ok_def)
    ultimately show ?thesis using replaced_protects [of ?c ?d "correct_attempt upd a" uuid upd kind t ds] by (simp add: swap_after_correction)
  next
    case False
    then show ?thesis using replaced_protects [OF k p s] by (simp add: after_correction_def)
  qed
  then have r: "protects db (replaced_db uuid upd kind d t ds ?c)" for kind t ds by (rule protects_trans [OF c])
  show ?thesis using c r ok by (subst ApplyManualUpdate_eq [OF u inv p e]) (auto split: sum.splits)
next
  case False
  then show ?thesis using ApplyManualUpdate_reject [OF durable_inv_keys [OF inv], of upd uuid] by (metis protects_refl snd_conv)
qed

lemma Prune_protects:
  assumes inv: "durable_inv uuid db"
  shows "protects db (snd (Prune cutoff limits dflt global db))"
proof (rule protects_subset)
  let ?db = "snd (Prune cutoff limits dflt global db)"
  obtain D where D: "\<forall>d a. (d, a) \<in> set (current_pairs ?db) \<longleftrightarrow> (d, a) \<in> set (current_pairs db) \<and> dl_event_id d \<notin> D"
    "\<forall>e\<in>set (db_events db). ev_id e \<in> D \<longrightarrow> terminalEvent db e"
    using Prune_spec(2) [OF inv, of cutoff limits dflt global] unfolding pruned_def by blast
  fix x assume x: "x \<in> set (current_pairs db)" "at_transport_status (snd x) = TransportSending"
  obtain d a where da: "x = (d, a)" by force
  obtain e where e: "e \<in> set (db_events db)" "ev_id e = dl_event_id d"
    using inv x(1) da by (auto simp: durable_inv_def store_inv_def refs_ok_def)
  have "\<not> terminalEvent db e" using x da e(2) by (auto simp: terminalEvent_iff Active_def simp del: in_current_pairs)
  then have "dl_event_id d \<notin> D" using D(2) e by auto
  then show "x \<in> set (current_pairs ?db)" using D(1) x(1) da by blast
qed

lemma ClearHistory_protects: "protects db (snd (ClearHistory db))"
proof (cases "CountActive db > 0 \<or> CountQueued db > 0")
  case True
  then show ?thesis by (simp add: ClearHistory_def)
next
  case False
  then have "CountActive db = 0" by simp
  then show ?thesis using CountActive_zero_iff [of db] by (intro protects_subset) (auto simp: Active_def simp del: in_current_pairs)
qed

lemma claim_protects:
  assumes u: "inj uuid" and inv: "durable_inv uuid db"
  shows "protects db (snd (ClaimPendingAttempt uuid now db))"
proof (cases "sql_first (sort_key claimOrder (filter (claimable db) (current_triples db)))")
  case None
  then show ?thesis by (simp add: ClaimPendingAttempt_None_eq)
next
  case (Some x)
  obtain e d a where x: "x = (e, d, a)" by (metis prod_cases3)
  have "(e, d, a) \<in> set (filter (claimable db) (current_triples db))" using sql_first_SomeD [OF Some] x by simp
  then have p: "(d, a) \<in> set (current_pairs db)" "at_transport_status a \<noteq> TransportSending"
    by (simp_all add: claimable_iff)
  show ?thesis
    unfolding ClaimPendingAttempt_Some_eq [OF u inv Some [unfolded x]] snd_conv claimed_db_def protects_append_audit
    by (rule claim.touched_protects [OF durable_inv_keys [OF inv] p])
qed

text \<open>What a claim leaves behind: the claimed attempt is current, being sent, and has no request recorded; its target is the
  one the dispatcher is told.\<close>

lemma claim_result:
  assumes u: "inj uuid" and inv: "durable_inv uuid db" and c: "ClaimPendingAttempt uuid now db = (Inr (Some w), db')"
  shows "\<exists>d a. (d, a) \<in> set (current_pairs db) \<and> at_transport_status a = TransportPending \<and> at_request_at a = None \<and>
    pa_AttemptID w = at_id a \<and> pa_TargetID w = dl_target_id d \<and> pa_TargetSnapshot w = dl_target_snapshot d \<and>
    (claim_delivery now d, claim_attempt a) \<in> set (current_pairs db')"
proof (cases "sql_first (sort_key claimOrder (filter (claimable db) (current_triples db)))")
  case None
  then show ?thesis using c by (simp add: ClaimPendingAttempt_None_eq)
next
  case (Some x)
  obtain e d a where x: "x = (e, d, a)" by (metis prod_cases3)
  have "(e, d, a) \<in> set (filter (claimable db) (current_triples db))" using sql_first_SomeD [OF Some] x by simp
  then have p: "(d, a) \<in> set (current_pairs db)" "at_transport_status a = TransportPending" by (simp_all add: claimable_iff)
  have r: "w = pendingAttemptOf e d a" "db' = claimed_db uuid now e d a db"
    using c ClaimPendingAttempt_Some_eq [OF u inv Some [unfolded x]] by simp_all
  have "at_request_at a = None" using durable_currentE(1) [OF inv p(1)] p(2) by (simp add: attempt_ok_def)
  moreover have "(claim_delivery now d, claim_attempt a) \<in> set (current_pairs db')"
    unfolding r claimed_db_def current_pairs_append_audit claim.touched_pairs_image [OF durable_inv_keys [OF inv] p(1)]
    by (rule image_eqI [OF _ p(1)]) simp
  ultimately show ?thesis using p r by (intro exI [of _ d] exI [of _ a]) (simp add: pendingAttemptOf_def del: in_current_pairs)
qed

end
