(* ===== verification/Redact.thy ===== *)
theory Redact
  imports Marshal
begin

text \<open>
  Redaction of stored JSON (\<^verbatim>\<open>internal/redact/json.go\<close>, and the scrubbing of \<^verbatim>\<open>internal/dokploy/client.go\<close>):
  members with a secret-bearing name are masked at every depth, one caller-provided secret is replaced in
  every text, and the output is bounded.

  The functions of the source take bytes and decode them; here the input comes with its decoded value
  (\<open>None\<close> when the decoder rejects the bytes or more than one value follows). Members of an object are
  listed in the order in which the source ranges over the map. The letter tables of \<^verbatim>\<open>unicode\<close> beyond ASCII
  are fields of a record \<open>unicode\<close>.
\<close>

section \<open>Text\<close>

fun prefixOf :: "string \<Rightarrow> string \<Rightarrow> bool" where
  "prefixOf [] s = True"
| "prefixOf (p # ps) [] = False"
| "prefixOf (p # ps) (c # cs) = (p = c \<and> prefixOf ps cs)"

fun occursIn :: "string \<Rightarrow> string \<Rightarrow> bool" where
  "occursIn part [] = (part = [])"
| "occursIn part (c # cs) = (prefixOf part (c # cs) \<or> occursIn part cs)"

text \<open>\<^verbatim>\<open>strings.ReplaceAll\<close> for a non-empty pattern.\<close>

function ReplaceAll :: "string \<Rightarrow> string \<Rightarrow> string \<Rightarrow> string" where
  "ReplaceAll old new [] = []"
| "ReplaceAll old new (c # cs) =
     (if old \<noteq> [] \<and> prefixOf old (c # cs) then new @ ReplaceAll old new (drop (length old - 1) cs)
      else c # ReplaceAll old new cs)"
  by pat_completeness auto
termination
  by (relation "measure (\<lambda>(old, new, s). length s)") auto

section \<open>Runes\<close>

record unicode =
  otherLetter :: "nat \<Rightarrow> bool"
  otherDigit :: "nat \<Rightarrow> bool"
  otherLower :: "nat \<Rightarrow> nat"

definition isLetter :: "unicode \<Rightarrow> nat \<Rightarrow> bool" where
  "isLetter u r = (if r < 128 then (65 \<le> r \<and> r \<le> 90) \<or> (97 \<le> r \<and> r \<le> 122) else otherLetter u r)"

definition isDigit :: "unicode \<Rightarrow> nat \<Rightarrow> bool" where
  "isDigit u r = (if r < 128 then 48 \<le> r \<and> r \<le> 57 else otherDigit u r)"

definition lowerRune :: "unicode \<Rightarrow> nat \<Rightarrow> nat" where
  "lowerRune u r = (if r < 128 then if 65 \<le> r \<and> r \<le> 90 then r + 32 else r else otherLower u r)"

definition continuation :: "char \<Rightarrow> bool" where
  "continuation c \<longleftrightarrow> 0x80 \<le> (of_char c :: nat) \<and> (of_char c :: nat) \<le> 0xBF"

definition runeError :: nat where
  "runeError = 0xFFFD"

text \<open>The first rune of a UTF-8 string and its width; a byte that starts no valid sequence is the error
  rune of width one.\<close>

fun decodeRune :: "char \<Rightarrow> string \<Rightarrow> nat \<times> nat" where
  "decodeRune a rest =
     (let n = of_char a :: nat; at = (\<lambda>i. of_char (rest ! i) mod 64 :: nat) in
      if n < 0x80 then (n, 1)
      else if 0xC2 \<le> n \<and> n \<le> 0xDF \<and> length rest \<ge> 1 \<and> continuation (rest ! 0)
        then ((n mod 32) * 64 + at 0, 2)
      else if 0xE0 \<le> n \<and> n \<le> 0xEF \<and> length rest \<ge> 2 \<and> list_all continuation (take 2 rest)
        then let r = (n mod 16) * 4096 + at 0 * 64 + at 1
             in if r < 0x800 \<or> (0xD800 \<le> r \<and> r \<le> 0xDFFF) then (runeError, 1) else (r, 3)
      else if 0xF0 \<le> n \<and> n \<le> 0xF4 \<and> length rest \<ge> 3 \<and> list_all continuation (take 3 rest)
        then let r = (n mod 8) * 262144 + at 0 * 4096 + at 1 * 64 + at 2
             in if r < 0x10000 \<or> 0x10FFFF < r then (runeError, 1) else (r, 4)
      else (runeError, 1))"

declare decodeRune.simps [simp del]

definition encodeRune :: "nat \<Rightarrow> string" where
  "encodeRune r =
     (if r < 0x80 then [char_of r]
      else if r < 0x800 then [char_of (0xC0 + r div 64), char_of (0x80 + r mod 64)]
      else if r < 0x10000 then
        [char_of (0xE0 + r div 4096), char_of (0x80 + r div 64 mod 64), char_of (0x80 + r mod 64)]
      else [char_of (0xF0 + r div 262144), char_of (0x80 + r div 4096 mod 64), char_of (0x80 + r div 64 mod 64),
            char_of (0x80 + r mod 64)])"

function normalizedKey :: "unicode \<Rightarrow> string \<Rightarrow> string" where
  "normalizedKey u [] = []"
| "normalizedKey u (c # cs) =
     (case decodeRune c cs of
        (r, w) \<Rightarrow> (if isLetter u r \<or> isDigit u r then encodeRune (lowerRune u r) else []) @
                  normalizedKey u (drop (w - 1) cs))"
  by pat_completeness auto
termination
  by (relation "measure (\<lambda>(u, s). length s)") auto

section \<open>Masking\<close>

definition sensitiveKeyParts :: "string list" where
  "sensitiveKeyParts = [''token'', ''secret'', ''authorization'', ''apikey'', ''password'', ''privatekey'']"

definition sensitiveKey :: "string \<Rightarrow> bool" where
  "sensitiveKey normalized = list_ex (\<lambda>part. occursIn part normalized) sensitiveKeyParts"

definition gitLabVariablePath :: "string list \<Rightarrow> bool" where
  "gitLabVariablePath path \<longleftrightarrow> path = [''objectattributes'', ''variables'']"

definition redactedKey :: "unicode \<Rightarrow> string list \<Rightarrow> string \<Rightarrow> bool" where
  "redactedKey u path key \<longleftrightarrow>
     sensitiveKey (normalizedKey u key) \<or> (normalizedKey u key = ''value'' \<and> gitLabVariablePath path)"

definition redacted :: string where
  "redacted = ''[REDACTED]''"

fun mask :: "unicode \<Rightarrow> string list \<Rightarrow> json \<Rightarrow> json" where
  "mask u path (JObject ms) =
     JObject (map (\<lambda>(k, v). (k, if redactedKey u path k then JString redacted
                                else mask u (path @ [normalizedKey u k]) v)) ms)"
| "mask u path (JArray vs) = JArray (map (mask u path) vs)"
| "mask u path v = v"

text \<open>A map assignment: the member is replaced where it exists.\<close>

fun setMember :: "string \<Rightarrow> json \<Rightarrow> (string \<times> json) list \<Rightarrow> (string \<times> json) list" where
  "setMember k v [] = [(k, v)]"
| "setMember k v ((k', v') # ms) = (if k' = k then (k, v) # ms else (k', v') # setMember k v ms)"

fun maskSecret :: "string \<Rightarrow> json \<Rightarrow> json" where
  "maskSecret secret (JString s) = (if secret = '''' then JString s else JString (ReplaceAll secret redacted s))"
| "maskSecret secret (JArray vs) = (if secret = '''' then JArray vs else JArray (map (maskSecret secret) vs))"
| "maskSecret secret (JObject ms) =
     (if secret = '''' then JObject ms
      else JObject (fold (\<lambda>(k, v). setMember (ReplaceAll secret redacted k) v)
             (map (\<lambda>(k, v). (k, maskSecret secret v)) ms) []))"
| "maskSecret secret v = v"

text \<open>The Dokploy client's variant also replaces numbers, booleans and null that spell the secret.\<close>

fun scrubSecret :: "string \<Rightarrow> json \<Rightarrow> json" where
  "scrubSecret secret (JString s) = JString (ReplaceAll secret redacted s)"
| "scrubSecret secret (JNumber n) = (if n = secret then JString redacted else JNumber n)"
| "scrubSecret secret (JBool b) =
     (if (b \<and> secret = ''true'') \<or> (\<not> b \<and> secret = ''false'') then JString redacted else JBool b)"
| "scrubSecret secret JNull = (if secret = ''null'' then JString redacted else JNull)"
| "scrubSecret secret (JArray vs) = JArray (map (scrubSecret secret) vs)"
| "scrubSecret secret (JObject ms) =
     JObject (fold (\<lambda>(k, v). setMember (ReplaceAll secret redacted k) v)
       (map (\<lambda>(k, v). (k, scrubSecret secret v)) ms) [])"

section \<open>Bounded output\<close>

definition boundedText :: "bytes \<Rightarrow> nat \<Rightarrow> bytes" where
  "boundedText input limit =
     (let marker = ''...[truncated]'' in
      if limit \<le> length marker then take limit marker
      else take (limit - length marker) input @ marker)"

definition truncatedMarker :: bytes where
  "truncatedMarker = object [(''truncated'', ''true'')]"

definition boundedJSONMarker :: "nat \<Rightarrow> bytes" where
  "boundedJSONMarker limit =
     (if length truncatedMarker \<le> limit then truncatedMarker
      else if limit \<ge> length ''null'' then ''null''
      else if limit \<ge> length ''[]'' then ''[]''
      else ''0'')"

definition JSONWithSecret ::
  "unicode \<Rightarrow> bytes \<Rightarrow> json option \<Rightarrow> string \<Rightarrow> int \<Rightarrow> bytes \<times> bool" where
  "JSONWithSecret u input decoded secret limit =
     (if limit \<le> 0 then ([], input \<noteq> [])
      else case decoded of
        Some v \<Rightarrow>
          let masked = marshalJSON (maskSecret secret (mask u [] v)) in
          if length masked \<le> nat limit then (masked, nat limit < length input \<or> nat limit < length masked)
          else (boundedJSONMarker (nat limit), True)
      | None \<Rightarrow>
          let text = (if secret \<noteq> '''' then ReplaceAll secret redacted input else input) in
          if length text \<le> nat limit then (text, False) else (boundedText text (nat limit), True))"

definition redactJSON :: "unicode \<Rightarrow> bytes \<Rightarrow> json option \<Rightarrow> int \<Rightarrow> bytes \<times> bool" where
  "redactJSON u input decoded limit = JSONWithSecret u input decoded '''' limit"

definition truncatedResponseBody :: bytes where
  "truncatedResponseBody = object [(''redacted'', ''true''), (''truncated'', ''true'')]"

definition dokployScrubResponseBody ::
  "string \<Rightarrow> bytes \<Rightarrow> json option \<Rightarrow> bool \<Rightarrow> nat \<Rightarrow> bytes \<times> bool" where
  "dokployScrubResponseBody apiKey input decoded truncated limit =
     (if truncated then (truncatedResponseBody, True)
      else let output = (case decoded of
               Some v \<Rightarrow> marshalJSON (scrubSecret apiKey v)
             | None \<Rightarrow> ReplaceAll apiKey redacted input)
           in if limit < length output then (truncatedResponseBody, True) else (output, False))"

section \<open>What redaction guarantees\<close>

text \<open>No member whose name is secret-bearing keeps its value, at any depth.\<close>

fun masked_at :: "unicode \<Rightarrow> string list \<Rightarrow> json \<Rightarrow> bool" where
  "masked_at u path (JObject ms) =
     (\<forall>(k, v)\<in>set ms. if redactedKey u path k then v = JString redacted
                      else masked_at u (path @ [normalizedKey u k]) v)"
| "masked_at u path (JArray vs) = (\<forall>v\<in>set vs. masked_at u path v)"
| "masked_at u path v = True"

lemma mask_masks: "masked_at u path (mask u path v)"
  by (induction u path v rule: mask.induct) auto

lemma mask_id: "masked_at u path v \<Longrightarrow> mask u path v = v"
  by (induction u path v rule: mask.induct) (auto intro!: map_idI)

lemma mask_idempotent: "mask u path (mask u path v) = mask u path v"
  by (rule mask_id [OF mask_masks])

lemma JSONWithSecret_bounded: "length (fst (JSONWithSecret u input decoded secret limit)) \<le> nat limit"
  by (auto simp: JSONWithSecret_def boundedText_def boundedJSONMarker_def Let_def split: option.splits)

end
