(* ===== verification/Template.thy ===== *)
theory Template
  imports Redact
begin

text \<open>
  Request templates: rendering (\<^verbatim>\<open>internal/httptarget/client.go\<close>) and the validation of configured requests
  (\<^verbatim>\<open>internal/config/validate.go\<close>). Both use the pattern \<^verbatim>\<open>\{\{\s*([^{}\s]+)\s*\}\}\<close>; a string is split by it into
  single literal bytes and variables.
\<close>

section \<open>The pattern\<close>

datatype piece = Lit char | Var string

definition isSpace :: "char \<Rightarrow> bool" where
  "isSpace c \<longleftrightarrow> c \<in> set [CHR 0x09, CHR 0x0A, CHR 0x0C, CHR 0x0D, CHR 0x20]"

definition isNameByte :: "char \<Rightarrow> bool" where
  "isNameByte c \<longleftrightarrow> c \<noteq> CHR 0x7B \<and> c \<noteq> CHR 0x7D \<and> \<not> isSpace c"

text \<open>A match at the head of the string: the captured name and what follows.\<close>

definition matchVariable :: "string \<Rightarrow> (string \<times> string) option" where
  "matchVariable s =
     (if take 2 s \<noteq> [CHR 0x7B, CHR 0x7B] then None
      else let s1 = dropWhile isSpace (drop 2 s); name = takeWhile isNameByte s1;
               s2 = dropWhile isSpace (dropWhile isNameByte s1)
           in if name = [] \<or> take 2 s2 \<noteq> [CHR 0x7D, CHR 0x7D] then None else Some (name, drop 2 s2))"

lemma matchVariable_shorter: "matchVariable s = Some (name, rest) \<Longrightarrow> length rest < length s"
proof -
  assume m: "matchVariable s = Some (name, rest)"
  have l: "length (dropWhile isSpace (dropWhile isNameByte (dropWhile isSpace (drop 2 s)))) \<le> length (drop 2 s)"
    by (meson length_dropWhile_le order_trans)
  have "2 \<le> length s"
  proof (rule ccontr)
    assume "\<not> 2 \<le> length s"
    then have "take 2 s \<noteq> [CHR 0x7B, CHR 0x7B]" by (metis length_Cons list.size(3) nat_le_linear numeral_2_eq_2 take_all)
    then show False using m by (simp add: matchVariable_def)
  qed
  then show "length rest < length s" using m l by (auto simp: matchVariable_def Let_def split: if_splits)
qed

function pieces :: "string \<Rightarrow> piece list" where
  "pieces [] = []"
| "pieces (c # cs) =
     (case matchVariable (c # cs) of
        Some (name, rest) \<Rightarrow> Var name # pieces rest
      | None \<Rightarrow> Lit c # pieces cs)"
  by pat_completeness auto
termination
  by (relation "measure length") (auto dest: matchVariable_shorter)

text \<open>\<^verbatim>\<open>ReplaceAllStringFunc\<close>: each variable is replaced by a function of its name.\<close>

fun renderPiece :: "(string \<Rightarrow> string) \<Rightarrow> piece \<Rightarrow> string" where
  "renderPiece f (Lit c) = [c]"
| "renderPiece f (Var name) = f name"

definition replaceVariables :: "(string \<Rightarrow> string) \<Rightarrow> string \<Rightarrow> string" where
  "replaceVariables f s = concat (map (renderPiece f) (pieces s))"

definition variables :: "string \<Rightarrow> string list" where
  "variables s = concat (map (\<lambda>p. case p of Var n \<Rightarrow> [n] | Lit _ \<Rightarrow> []) (pieces s))"

definition openBraces :: string where
  "openBraces = [CHR 0x7B, CHR 0x7B]"

definition closeBraces :: string where
  "closeBraces = [CHR 0x7D, CHR 0x7D]"

section \<open>Rendering (httptarget/client.go)\<close>

record Values =
  EventSource :: string
  EventRepository :: string
  EventRef :: string
  EventRevision :: string
  EventStatus :: string
  EventExternalID :: string
  EventTrigger :: string
  EventCommitMessage :: string
  AttemptID :: string
  DeliveryID :: string
  TargetID :: string

definition replacements :: "Values \<Rightarrow> (string \<times> string) list" where
  "replacements v =
     [(''event.source'', EventSource v), (''event.repository'', EventRepository v), (''event.ref'', EventRef v),
      (''event.revision'', EventRevision v), (''event.status'', EventStatus v),
      (''event.external_id'', EventExternalID v), (''event.trigger'', EventTrigger v),
      (''event.commit_message'', EventCommitMessage v), (''attempt.id'', AttemptID v), (''target.id'', TargetID v)]"

definition replacement :: "Values \<Rightarrow> string \<Rightarrow> string" where
  "replacement v name = (case map_of (replacements v) name of Some s \<Rightarrow> s | None \<Rightarrow> '''')"

definition renderString :: "string \<Rightarrow> Values \<Rightarrow> string + string" where
  "renderString s v =
     (let value = replaceVariables (replacement v) s in
      if occursIn openBraces value \<or> occursIn closeBraces value
      then Inl ''unsupported HTTP template variable'' else Inr value)"

fun renderAll :: "string list \<Rightarrow> Values \<Rightarrow> string + string list" where
  "renderAll [] v = Inr []"
| "renderAll (s # ss) v =
     (case renderString s v of Inl e \<Rightarrow> Inl e
      | Inr r \<Rightarrow> (case renderAll ss v of Inl e \<Rightarrow> Inl e | Inr rs \<Rightarrow> Inr (r # rs)))"

text \<open>A JSON value keeps its shape; every string in it is rendered. The first error ends the walk.\<close>

fun sequence :: "(string + 'a) list \<Rightarrow> string + 'a list" where
  "sequence [] = Inr []"
| "sequence (x # xs) =
     (case x of Inl e \<Rightarrow> Inl e
      | Inr a \<Rightarrow> (case sequence xs of Inl e \<Rightarrow> Inl e | Inr as \<Rightarrow> Inr (a # as)))"

fun renderValue :: "json \<Rightarrow> Values \<Rightarrow> string + json" where
  "renderValue (JString s) v = (case renderString s v of Inl e \<Rightarrow> Inl e | Inr r \<Rightarrow> Inr (JString r))"
| "renderValue (JArray vs) v =
     (case sequence (map (\<lambda>x. renderValue x v) vs) of Inl e \<Rightarrow> Inl e | Inr rs \<Rightarrow> Inr (JArray rs))"
| "renderValue (JObject ms) v =
     (case sequence (map (\<lambda>(k, x). case renderValue x v of Inl e \<Rightarrow> Inl e | Inr r \<Rightarrow> Inr (k, r)) ms) of
        Inl e \<Rightarrow> Inl e | Inr rs \<Rightarrow> Inr (JObject rs))"
| "renderValue x v = Inr x"

section \<open>Validation (config/validate.go)\<close>

definition allowedHTTPTemplateVariables :: "string list" where
  "allowedHTTPTemplateVariables =
     [''event.source'', ''event.repository'', ''event.ref'', ''event.revision'', ''event.status'',
      ''event.external_id'', ''event.trigger'', ''event.commit_message'', ''attempt.id'', ''target.id'']"

text \<open>\<^verbatim>\<open>strings.Count\<close> of a two-byte text: non-overlapping occurrences.\<close>

fun countPairs :: "char \<Rightarrow> string \<Rightarrow> nat" where
  "countPairs c (a # b # s) = (if a = c \<and> b = c then Suc (countPairs c s) else countPairs c (b # s))"
| "countPairs c s = 0"

definition validateHTTPTemplate :: "string \<Rightarrow> string option" where
  "validateHTTPTemplate value =
     (if countPairs (CHR 0x7B) value \<noteq> countPairs (CHR 0x7D) value then Some ''invalid HTTP template''
      else case find (\<lambda>n. n \<notin> set allowedHTTPTemplateVariables) (variables value) of
        Some n \<Rightarrow> Some (''unsupported HTTP template variable '' @ n)
      | None \<Rightarrow>
          let remaining = replaceVariables (\<lambda>_. '''') value in
          if occursIn openBraces remaining \<or> occursIn closeBraces remaining
          then Some ''invalid HTTP template'' else None)"

text \<open>\<^verbatim>\<open>^\$\{([A-Za-z_][A-Za-z0-9_]*)\}$\<close>\<close>

definition asciiLetter :: "char \<Rightarrow> bool" where
  "asciiLetter c \<longleftrightarrow> (CHR ''A'' \<le> c \<and> c \<le> CHR ''Z'') \<or> (CHR ''a'' \<le> c \<and> c \<le> CHR ''z'')"

definition asciiDigit :: "char \<Rightarrow> bool" where
  "asciiDigit c \<longleftrightarrow> CHR ''0'' \<le> c \<and> c \<le> CHR ''9''"

definition exactEnvironmentReference :: "string \<Rightarrow> string option" where
  "exactEnvironmentReference s =
     (let name = butlast (drop 2 s) in
      if take 2 s = [CHR 0x24, CHR 0x7B] \<and> length s \<ge> 4 \<and> last s = CHR 0x7D \<and>
         (asciiLetter (hd name) \<or> hd name = CHR ''_'') \<and>
         list_all (\<lambda>c. asciiLetter c \<or> asciiDigit c \<or> c = CHR ''_'') name
      then Some name else None)"

definition validateHTTPText :: "string \<Rightarrow> string option" where
  "validateHTTPText value =
     (if exactEnvironmentReference value \<noteq> None
      then Some ''HTTP request values must not use environment references'' else validateHTTPTemplate value)"

fun firstError :: "string option list \<Rightarrow> string option" where
  "firstError [] = None"
| "firstError (Some e # es) = Some e"
| "firstError (None # es) = firstError es"

fun validateHTTPJSONBody :: "json \<Rightarrow> string option" where
  "validateHTTPJSONBody (JString s) = validateHTTPText s"
| "validateHTTPJSONBody (JArray vs) = firstError (map validateHTTPJSONBody vs)"
| "validateHTTPJSONBody (JObject ms) = firstError (map (\<lambda>(k, v). validateHTTPJSONBody v) ms)"
| "validateHTTPJSONBody v = None"

definition validateHTTPQuery :: "(string \<times> string list) list \<Rightarrow> string option" where
  "validateHTTPQuery query =
     firstError (map (\<lambda>(name, vs).
       if name = '''' then Some ''HTTP query name is required''
       else if vs = [] then Some (''HTTP query requires at least one value'')
       else firstError (map validateHTTPText vs)) query)"

section \<open>Validated templates render\<close>

definition startsWith :: "char \<Rightarrow> string \<Rightarrow> bool" where
  "startsWith c s \<longleftrightarrow> s \<noteq> [] \<and> hd s = c"

lemma occursIn_pair_Cons: "occursIn [c, c] (x # s) \<longleftrightarrow> (x = c \<and> startsWith c s) \<or> occursIn [c, c] s"
  by (cases s) (auto simp: startsWith_def)

lemma occursIn_pair_append_free:
  "c \<notin> set t \<Longrightarrow> occursIn [c, c] (t @ s) \<longleftrightarrow> occursIn [c, c] s"
  by (induction t) (auto simp: occursIn_pair_Cons simp del: occursIn.simps)

lemma startsWith_append: "startsWith c (t @ s) \<longleftrightarrow> (if t = [] then startsWith c s else startsWith c t)"
  by (auto simp: startsWith_def)

lemma render_pairs:
  assumes "\<And>n. c \<notin> set (f n)"
  shows "(startsWith c (concat (map (renderPiece f) ps)) \<longrightarrow> startsWith c (concat (map (renderPiece (\<lambda>_. '''')) ps))) \<and>
    (occursIn [c, c] (concat (map (renderPiece f) ps)) \<longrightarrow> occursIn [c, c] (concat (map (renderPiece (\<lambda>_. '''')) ps)))"
proof (induction ps)
  case Nil
  then show ?case by (simp add: startsWith_def)
next
  case (Cons p ps)
  show ?case
  proof (cases p)
    case (Lit x)
    then show ?thesis using Cons by (auto simp: occursIn_pair_Cons startsWith_def simp del: occursIn.simps)
  next
    case (Var n)
    have "\<not> startsWith c (f n)" using assms [of n] by (auto simp: startsWith_def)
    then show ?thesis using Cons Var occursIn_pair_append_free [OF assms [of n]] by (simp add: startsWith_append)
  qed
qed

lemma replaceVariables_pairs:
  assumes "\<And>n. c \<notin> set (f n)" and "occursIn [c, c] (replaceVariables f s)"
  shows "occursIn [c, c] (replaceVariables (\<lambda>_. '''') s)"
  using render_pairs [of c f "pieces s"] assms unfolding replaceVariables_def by blast

definition braceFree :: "Values \<Rightarrow> bool" where
  "braceFree v \<longleftrightarrow> (\<forall>(n, s)\<in>set (replacements v). CHR 0x7B \<notin> set s \<and> CHR 0x7D \<notin> set s)"

lemma replacement_braceFree: "braceFree v \<Longrightarrow> CHR 0x7B \<notin> set (replacement v n) \<and> CHR 0x7D \<notin> set (replacement v n)"
  unfolding braceFree_def replacement_def
  by (cases "map_of (replacements v) n") (auto dest: map_of_SomeD)

lemma validated_renders:
  assumes "validateHTTPTemplate s = None" and "braceFree v"
  shows "renderString s v = Inr (replaceVariables (replacement v) s) \<and> (\<forall>n\<in>set (variables s). n \<in> set (map fst (replacements v)))"
proof -
  have r: "\<not> occursIn openBraces (replaceVariables (\<lambda>_. '''') s)" "\<not> occursIn closeBraces (replaceVariables (\<lambda>_. '''') s)"
    using assms(1) by (auto simp: validateHTTPTemplate_def Let_def split: if_splits option.splits)
  have "\<not> occursIn openBraces (replaceVariables (replacement v) s)"
    "\<not> occursIn closeBraces (replaceVariables (replacement v) s)"
    using r replaceVariables_pairs [of _ "replacement v" s] replacement_braceFree [OF assms(2)]
    unfolding openBraces_def closeBraces_def by blast+
  moreover have "\<forall>n\<in>set (variables s). n \<in> set allowedHTTPTemplateVariables"
    using assms(1) by (auto simp: validateHTTPTemplate_def find_None_iff split: if_splits option.splits)
  moreover have "set allowedHTTPTemplateVariables = set (map fst (replacements v))"
    by (simp add: allowedHTTPTemplateVariables_def replacements_def)
  ultimately show ?thesis by (simp add: renderString_def Let_def)
qed

end
