(* ===== verification/Send_Clients.thy ===== *)
theory Send_Clients
  imports Template Dokploy Framing
begin

text \<open>
  The three clients that send a deployment: Dokploy (\<^verbatim>\<open>internal/dokploy/client.go\<close>, \<^verbatim>\<open>evidence.go\<close>), HTTP
  (\<^verbatim>\<open>internal/httptarget/client.go\<close>) and forward (\<^verbatim>\<open>internal/httptarget/forward.go\<close>). Each builds its request,
  hands credential-free evidence to the \<^verbatim>\<open>record\<close> callback, and only then makes its single remote call.

  \<open>record\<close> is a transition of the database. The remote side is a value of \<open>RemoteAnswer\<close>. A send returns
  the response, the transport error, and whether the remote call was made.
\<close>

section \<open>Answers, responses, errors\<close>

record RemoteBody =
  rb_Bytes :: bytes
  rb_Decoded :: "json option"
  rb_ReadError :: bool

datatype RemoteAnswer = AnswerError clientError | AnswerResponse int RemoteBody

record Response =
  rs_StatusCode :: int
  rs_Body :: bytes
  rs_Truncated :: bool

record TransportError =
  te_Kind :: TransportErrorKind
  te_Text :: string

type_synonym recorder = "bytes option \<Rightarrow> db \<Rightarrow> (store_error + unit) \<times> db"

text \<open>What a send did: the response and the transport error it returns; the evidence with which it called the
  recorder, if it did, and the recorder's error; and whether it made the remote call.\<close>

record SendOutcome =
  so_Response :: Response
  so_Error :: "TransportError option"
  so_Recorded :: "bytes option option"
  so_RecordErr :: "store_error option"
  so_Sent :: bool

definition noResponse :: Response where
  "noResponse = \<lparr>rs_StatusCode = 0, rs_Body = [], rs_Truncated = False\<rparr>"

definition rejected :: "TransportError \<Rightarrow> SendOutcome" where
  "rejected err = \<lparr>so_Response = noResponse, so_Error = Some err, so_Recorded = None, so_RecordErr = None, so_Sent = False\<rparr>"

definition maxResponseBody :: nat where
  "maxResponseBody = 65536"

definition readBounded :: "RemoteBody \<Rightarrow> nat \<Rightarrow> bytes \<times> bool" where
  "readBounded body limit =
     (let data = take (limit + 1) (rb_Bytes body) in
      if limit < length data then (take limit data, True) else (data, False))"

text \<open>The credential never appears in an error text.\<close>

definition transportError :: "string \<Rightarrow> TransportErrorKind \<Rightarrow> string \<Rightarrow> TransportError" where
  "transportError secret kind text = \<lparr>te_Kind = kind, te_Text = ReplaceAll secret redacted text\<rparr>"

definition unexpectedStatus :: "int \<Rightarrow> string" where
  "unexpectedStatus code = ''unexpected HTTP status '' @ decimal code"

text \<open>The recorder is called with the evidence, and the remote call is made only when it succeeds. The text of a
  failed recording is not kept: the dispatcher returns the recorder's own error.\<close>

definition recordThenSend ::
  "TransportError \<Rightarrow> recorder \<Rightarrow> bytes option \<Rightarrow> (RemoteAnswer \<Rightarrow> Response \<times> TransportError option) \<Rightarrow> RemoteAnswer \<Rightarrow> db \<Rightarrow>
   SendOutcome \<times> db" where
  "recordThenSend recordFailed rec evidence finish answer db =
     (case rec evidence db of
        (Inl e, db1) \<Rightarrow> ((rejected recordFailed)\<lparr>so_Recorded := Some evidence, so_RecordErr := Some e\<rparr>, db1)
      | (Inr _, db1) \<Rightarrow>
          (case finish answer of
             (response, err) \<Rightarrow>
               (\<lparr>so_Response = response, so_Error = err, so_Recorded = Some evidence, so_RecordErr = None, so_Sent = True\<rparr>,
                db1)))"

section \<open>Dokploy\<close>

record DeployRequest =
  dr_ComposeID :: string
  dr_Title :: string
  dr_Description :: string

definition marshalDeployRequest :: "DeployRequest \<Rightarrow> string" where
  "marshalDeployRequest r =
     object ([(''composeId'', quoted (dr_ComposeID r))] @
       omitEmpty (dr_Title r \<noteq> '''') ''title'' (quoted (dr_Title r)) @
       omitEmpty (dr_Description r \<noteq> '''') ''description'' (quoted (dr_Description r)))"

definition deployRequestEvidence :: "string \<Rightarrow> DeployRequest \<Rightarrow> string" where
  "deployRequestEvidence deployEndpoint r =
     object [(''version'', decimal 1), (''method'', quoted ''POST''), (''url'', quoted deployEndpoint),
             (''headers'', object [(''Content-Type'', quoted ''application/json'')]), (''body'', marshalDeployRequest r)]"

definition requestContainsSecret :: "DeployRequest \<Rightarrow> string \<Rightarrow> bool" where
  "requestContainsSecret r secret \<longleftrightarrow>
     occursIn secret (dr_ComposeID r) \<or> occursIn secret (dr_Title r) \<or> occursIn secret (dr_Description r)"

definition finishDeploy :: "string \<Rightarrow> RemoteAnswer \<Rightarrow> Response \<times> TransportError option" where
  "finishDeploy apiKey answer =
     (case answer of
        AnswerError e \<Rightarrow> (noResponse, Some (transportError apiKey (classifyTransportError e) (errorText e)))
      | AnswerResponse code body \<Rightarrow>
          (case readBounded body maxResponseBody of (data, truncated) \<Rightarrow>
           case dokployScrubResponseBody apiKey data (rb_Decoded body) (truncated \<or> rb_ReadError body) maxResponseBody of
             (scrubbed, redactionTruncated) \<Rightarrow>
               (\<lparr>rs_StatusCode = code, rs_Body = scrubbed, rs_Truncated = truncated \<or> redactionTruncated\<rparr>,
                if 200 \<le> code \<and> code < 300 then None
                else Some (transportError apiKey TransportDefinitive (unexpectedStatus code)))))"

text \<open>\<open>ctxErr\<close> is the text of \<^verbatim>\<open>ctx.Err()\<close> when the context is already done.\<close>

definition DeployWithRequestEvidence ::
  "string \<Rightarrow> string \<Rightarrow> string option \<Rightarrow> DeployRequest \<Rightarrow> recorder \<Rightarrow> RemoteAnswer \<Rightarrow> db \<Rightarrow> SendOutcome \<times> db" where
  "DeployWithRequestEvidence apiKey deployEndpoint ctxErr r rec answer db =
     (if dr_ComposeID r = ''''
      then (rejected (transportError apiKey TransportDefinitive ''Compose ID is required''), db)
      else case ctxErr of
        Some e \<Rightarrow> (rejected (transportError apiKey TransportDefinitive e), db)
      | None \<Rightarrow>
          let evidence = deployRequestEvidence deployEndpoint r;
              safe = (if requestContainsSecret r apiKey \<or> occursIn apiKey evidence then None else Some evidence)
          in recordThenSend (transportError apiKey TransportDefinitive ''record request evidence'') rec safe (finishDeploy apiKey) answer db)"

section \<open>URLs and headers\<close>

definition upperHex :: "nat \<Rightarrow> char" where
  "upperHex n = ''0123456789ABCDEF'' ! n"

definition percent :: "char \<Rightarrow> string" where
  "percent c = [CHR ''%'', upperHex (of_char c div 16), upperHex (of_char c mod 16)]"

definition unreserved :: "char \<Rightarrow> bool" where
  "unreserved c \<longleftrightarrow> asciiLetter c \<or> asciiDigit c \<or> c \<in> set ''-_.~''"

definition QueryEscape :: "string \<Rightarrow> string" where
  "QueryEscape s = concat (map (\<lambda>c. if unreserved c then [c] else if c = CHR '' '' then ''+'' else percent c) s)"

definition escapePath :: "string \<Rightarrow> string" where
  "escapePath s = concat (map (\<lambda>c. if unreserved c \<or> c \<in> set ''$&+,/:;=@'' then [c] else percent c) s)"

fun ampJoin :: "string list \<Rightarrow> string" where
  "ampJoin [] = []"
| "ampJoin [x] = x"
| "ampJoin (x # y # ys) = x @ ''&'' @ ampJoin (y # ys)"

text \<open>\<^verbatim>\<open>url.Values.Encode\<close>: the keys in order, the values of one key in their order.\<close>

definition encodeValues :: "(string \<times> string list) list \<Rightarrow> string" where
  "encodeValues vs =
     ampJoin (concat (map (\<lambda>(k, xs). map (\<lambda>x. QueryEscape k @ ''='' @ QueryEscape x) xs) (sort_key fst vs)))"

definition tokenByte :: "char \<Rightarrow> bool" where
  "tokenByte c \<longleftrightarrow> asciiLetter c \<or> asciiDigit c \<or> c \<in> set ''!#$%&*+-.^_|~'' \<or> c = CHR 0x27 \<or> c = CHR 0x60"

definition upperByte :: "char \<Rightarrow> char" where
  "upperByte c = (if CHR ''a'' \<le> c \<and> c \<le> CHR ''z'' then char_of (of_char c - 32 :: nat) else c)"

text \<open>\<^verbatim>\<open>textproto.CanonicalMIMEHeaderKey\<close>.\<close>

fun canonicalBytes :: "bool \<Rightarrow> string \<Rightarrow> string" where
  "canonicalBytes up [] = []"
| "canonicalBytes up (c # cs) =
     (if up then upperByte c else lowerByte c) # canonicalBytes (c = CHR ''-'') cs"

definition canonicalHeader :: "string \<Rightarrow> string" where
  "canonicalHeader name = (if list_all tokenByte name then canonicalBytes True name else name)"

fun setHeader :: "string \<Rightarrow> string \<Rightarrow> (string \<times> string) list \<Rightarrow> (string \<times> string) list" where
  "setHeader name value [] = [(canonicalHeader name, value)]"
| "setHeader name value ((n, v) # hs) =
     (if n = canonicalHeader name then (n, value) # hs else (n, v) # setHeader name value hs)"

section \<open>HTTP targets\<close>

record Authentication =
  auth_Type :: string
  auth_Value :: string
  auth_Header :: string

text \<open>The body of the request and its content type. A form body is an object of string lists.\<close>

definition formFields :: "json \<Rightarrow> (string \<times> string list) list option" where
  "formFields v =
     (case v of
        JObject ms \<Rightarrow>
          those (map (\<lambda>(k, x). case x of
             JArray xs \<Rightarrow> map_option (Pair k) (those (map (\<lambda>y. case y of JString s \<Rightarrow> Some s | _ \<Rightarrow> None) xs))
           | _ \<Rightarrow> None) ms)
      | _ \<Rightarrow> None)"

fun renderFields :: "(string \<times> string list) list \<Rightarrow> Values \<Rightarrow> string + (string \<times> string list) list" where
  "renderFields [] v = Inr []"
| "renderFields ((k, xs) # fs) v =
     (case renderAll xs v of Inl e \<Rightarrow> Inl e
      | Inr rs \<Rightarrow> (case renderFields fs v of Inl e \<Rightarrow> Inl e | Inr gs \<Rightarrow> Inr ((k, rs) # gs)))"

definition renderBody :: "httpBodySnapshot option \<Rightarrow> Values \<Rightarrow> string + bytes \<times> string" where
  "renderBody configured v =
     (case configured of
        None \<Rightarrow> Inr ([], '''')
      | Some b \<Rightarrow>
          let contentType = (\<lambda>dflt. if hb_ContentType b = '''' then dflt else hb_ContentType b) in
          if hb_Type b = ''json'' then
            (case renderValue (hb_Value b) v of Inl e \<Rightarrow> Inl e
             | Inr body \<Rightarrow> Inr (marshalJSON body, contentType ''application/json''))
          else if hb_Type b = ''form'' then
            (case formFields (hb_Value b) of None \<Rightarrow> Inl ''invalid HTTP form body''
             | Some form \<Rightarrow>
                 (case renderFields form v of Inl e \<Rightarrow> Inl e
                  | Inr fs \<Rightarrow> Inr (encodeValues fs, contentType ''application/x-www-form-urlencoded'')))
          else if hb_Type b = ''raw'' then
            (case hb_Value b of
               JString s \<Rightarrow> (case renderString s v of Inl e \<Rightarrow> Inl e | Inr r \<Rightarrow> Inr (r, hb_ContentType b))
             | _ \<Rightarrow> Inl ''invalid HTTP raw body'')
          else Inl ''unsupported HTTP body type'')"

fun renderHeaders :: "(string \<times> string) list \<Rightarrow> Values \<Rightarrow> (string \<times> string) list \<Rightarrow> string + (string \<times> string) list" where
  "renderHeaders [] v hs = Inr hs"
| "renderHeaders ((name, value) # rest) v hs =
     (case renderString value v of Inl e \<Rightarrow> Inl e
      | Inr rendered \<Rightarrow>
          if CHR 0x0D \<in> set rendered \<or> CHR 0x0A \<in> set rendered
          then Inl (''invalid HTTP header value for '' @ name)
          else renderHeaders rest v (setHeader name rendered hs))"

record HTTPRequest =
  hr_Method :: string
  hr_URL :: string
  hr_Headers :: "(string \<times> string) list"
  hr_Body :: bytes

definition prepareRequest :: "string \<Rightarrow> httpTargetSnapshot \<Rightarrow> Values \<Rightarrow> string + HTTPRequest" where
  "prepareRequest baseURL configured v =
     (case renderBody (ht_Body configured) v of Inl e \<Rightarrow> Inl e
      | Inr (payload, contentType) \<Rightarrow>
      case renderFields (ht_Query configured) v of Inl e \<Rightarrow> Inl e
      | Inr query \<Rightarrow>
          let rawQuery = encodeValues query;
              url = baseURL @ escapePath (ht_Path configured) @ (if rawQuery = '''' then '''' else ''?'' @ rawQuery);
              hs0 = (if contentType \<noteq> '''' then setHeader ''Content-Type'' contentType [] else []);
              key = (if DeliveryID v = '''' then AttemptID v else DeliveryID v)
          in if \<not> list_all tokenByte (ht_Method configured) then Inl ''build request''
          else case renderHeaders (ht_Headers configured) v (setHeader ''Idempotency-Key'' key hs0) of
            Inl e \<Rightarrow> Inl e
          | Inr hs \<Rightarrow> Inr \<lparr>hr_Method = ht_Method configured, hr_URL = url, hr_Headers = hs, hr_Body = payload\<rparr>)"

text \<open>\<open>decode\<close> is the JSON decoder on the payload.\<close>

definition requestEvidence :: "(bytes \<Rightarrow> json option) \<Rightarrow> HTTPRequest \<Rightarrow> string" where
  "requestEvidence decode r =
     object (sort_key fst
       ([(''version'', decimal 1), (''method'', quoted (hr_Method r)), (''url'', quoted (hr_URL r)),
         (''headers'', object (sort_key fst (map (\<lambda>(k, v). (k, quoted v)) (hr_Headers r))))] @
        (if hr_Body r = [] then []
         else [(''body'', case decode (hr_Body r) of Some v \<Rightarrow> marshalJSON v | None \<Rightarrow> quoted (hr_Body r))])))"

definition accepts :: "int list \<Rightarrow> int \<Rightarrow> bool" where
  "accepts statuses status =
     (if statuses = [] then 200 \<le> status \<and> status < 300 else status \<in> set statuses)"

definition scrubResponseBody :: "unicode \<Rightarrow> bytes \<Rightarrow> json option \<Rightarrow> string \<Rightarrow> bool \<Rightarrow> bytes \<times> bool" where
  "scrubResponseBody u input decoded secret truncated =
     (if truncated then (truncatedResponseBody, True)
      else JSONWithSecret u input decoded secret (int maxResponseBody))"

definition finishHTTP :: "unicode \<Rightarrow> string \<Rightarrow> int list \<Rightarrow> RemoteAnswer \<Rightarrow> Response \<times> TransportError option" where
  "finishHTTP u secret statuses answer =
     (case answer of
        AnswerError e \<Rightarrow> (noResponse, Some (transportError secret (classifyTransportError e) (errorText e)))
      | AnswerResponse code body \<Rightarrow>
          (case readBounded body maxResponseBody of (data, truncated) \<Rightarrow>
           case scrubResponseBody u data (rb_Decoded body) secret (truncated \<or> rb_ReadError body) of
             (scrubbed, redactionTruncated) \<Rightarrow>
               (\<lparr>rs_StatusCode = code, rs_Body = scrubbed,
                 rs_Truncated = truncated \<or> rb_ReadError body \<or> redactionTruncated\<rparr>,
                if accepts statuses code then None
                else Some (transportError secret TransportDefinitive (unexpectedStatus code)))))"

definition HTTPDispatch ::
  "unicode \<Rightarrow> (bytes \<Rightarrow> json option) \<Rightarrow> Authentication \<Rightarrow> string \<Rightarrow> httpTargetSnapshot \<Rightarrow> Values \<Rightarrow> recorder \<Rightarrow> RemoteAnswer \<Rightarrow>
   db \<Rightarrow> SendOutcome \<times> db" where
  "HTTPDispatch u decode auth baseURL configured v rec answer db =
     (case prepareRequest baseURL configured v of
        Inl e \<Rightarrow> (rejected (transportError (auth_Value auth) TransportDefinitive e), db)
      | Inr request \<Rightarrow>
          let evidence = Some (requestEvidence decode request);
              recordFailed = transportError (auth_Value auth) TransportDefinitive ''record request evidence''
          in if auth_Type auth = ''bearer'' \<or> auth_Type auth = ''api_key'' then
            recordThenSend recordFailed rec evidence
              (finishHTTP u (auth_Value auth) (ht_SuccessStatuses configured)) answer db
          else
            (case rec evidence db of
               (Inl e, db1) \<Rightarrow> ((rejected recordFailed)\<lparr>so_Recorded := Some evidence, so_RecordErr := Some e\<rparr>, db1)
             | (Inr _, db1) \<Rightarrow>
                 ((rejected (transportError (auth_Value auth) TransportDefinitive ''unsupported HTTP authentication type''))
                    \<lparr>so_Recorded := Some evidence\<rparr>, db1)))"

section \<open>Forward targets\<close>

fun splitComma :: "string \<Rightarrow> string list" where
  "splitComma [] = [[]]"
| "splitComma (c # cs) =
     (if c = CHR '','' then [] # splitComma cs
      else case splitComma cs of [] \<Rightarrow> [[c]] | w # ws \<Rightarrow> (c # w) # ws)"

definition delHeader :: "string \<Rightarrow> header \<Rightarrow> header" where
  "delHeader name hs = filter (\<lambda>(n, vs). n \<noteq> canonicalHeader name) hs"

definition headerValues :: "string \<Rightarrow> header \<Rightarrow> string list" where
  "headerValues name hs = (case map_of hs (canonicalHeader name) of Some vs \<Rightarrow> vs | None \<Rightarrow> [])"

definition hopByHop :: "string list" where
  "hopByHop = [''Connection'', ''Proxy-Connection'', ''Keep-Alive'', ''Proxy-Authenticate'', ''Proxy-Authorization'',
     ''Te'', ''Trailer'', ''Transfer-Encoding'', ''Upgrade'']"

text \<open>The values of \<^verbatim>\<open>Connection\<close> are read once, before the first removal.\<close>

definition removeHopByHopHeaders :: "header \<Rightarrow> header" where
  "removeHopByHopHeaders hs =
     fold delHeader hopByHop
       (fold (\<lambda>token. delHeader (trimSpace token)) (concat (map splitComma (headerValues ''Connection'' hs))) hs)"

definition forwardHeaders :: "header \<Rightarrow> header" where
  "forwardHeaders incoming =
     (let hs = removeHopByHopHeaders incoming in
      if ''User-Agent'' \<in> fst ` set hs then hs else hs @ [(''User-Agent'', [''''])])"

definition forwardHost :: "string \<Rightarrow> string \<Rightarrow> string \<Rightarrow> string" where
  "forwardHost hostMode destinationHost incomingHost = (if hostMode = ''origin'' then incomingHost else destinationHost)"

definition forwardEvidence :: "string \<Rightarrow> string \<Rightarrow> nat \<Rightarrow> string" where
  "forwardEvidence method url bodyBytes =
     object [(''body_bytes'', decimal (int bodyBytes)), (''headers'', object [(''redacted'', ''true'')]),
             (''method'', quoted method), (''url'', quoted url), (''version'', decimal 1)]"

definition finishForward :: "RemoteAnswer \<Rightarrow> Response \<times> TransportError option" where
  "finishForward answer =
     (case answer of
        AnswerError e \<Rightarrow> (noResponse, Some \<lparr>te_Kind = classifyTransportError e, te_Text = errorText e\<rparr>)
      | AnswerResponse code body \<Rightarrow>
          (case readBounded body maxResponseBody of (data, truncated) \<Rightarrow>
             (\<lparr>rs_StatusCode = code, rs_Body = data, rs_Truncated = truncated \<or> rb_ReadError body\<rparr>,
              if 200 \<le> code \<and> code < 300 then None
              else Some \<lparr>te_Kind = TransportDefinitive, te_Text = unexpectedStatus code\<rparr>)))"

definition ForwardDispatch ::
  "string \<Rightarrow> ForwardRequest \<Rightarrow> bytes \<Rightarrow> recorder \<Rightarrow> RemoteAnswer \<Rightarrow> db \<Rightarrow> SendOutcome \<times> db" where
  "ForwardDispatch destination incoming body rec answer db =
     (if \<not> list_all tokenByte (fr_Method incoming)
      then (rejected \<lparr>te_Kind = TransportDefinitive, te_Text = ''build forward request''\<rparr>, db)
      else recordThenSend \<lparr>te_Kind = TransportDefinitive, te_Text = ''record forward request evidence''\<rparr> rec
             (Some (forwardEvidence (if fr_Method incoming = '''' then ''GET'' else fr_Method incoming) destination (length body)))
             finishForward answer db)"

section \<open>What every send guarantees\<close>

text \<open>A send that made its remote call recorded the request first, and the recording succeeded.\<close>

definition recorded_before_send :: "recorder \<Rightarrow> db \<Rightarrow> SendOutcome \<times> db \<Rightarrow> bool" where
  "recorded_before_send rec db r \<longleftrightarrow>
     (case so_Recorded (fst r) of
        None \<Rightarrow> \<not> so_Sent (fst r) \<and> so_RecordErr (fst r) = None \<and> snd r = db
      | Some evidence \<Rightarrow>
          snd r = snd (rec evidence db) \<and>
          (case fst (rec evidence db) of
             Inl e \<Rightarrow> so_RecordErr (fst r) = Some e \<and> \<not> so_Sent (fst r)
           | Inr _ \<Rightarrow> so_RecordErr (fst r) = None))"

lemma recorded_rejected [simp]: "recorded_before_send rec db (rejected err, db)"
  by (simp add: recorded_before_send_def rejected_def)

lemma recorded_recordThenSend [simp]:
  "recorded_before_send rec db (recordThenSend recordFailed rec evidence finish answer db)"
  by (auto simp: recorded_before_send_def recordThenSend_def rejected_def split: sum.splits prod.splits)

lemma Deploy_recorded:
  "recorded_before_send rec db (DeployWithRequestEvidence apiKey endpoint ctxErr r rec answer db)"
  by (simp add: DeployWithRequestEvidence_def Let_def split: option.splits)

lemma recorded_unsent:
  "recorded_before_send rec db
     (case rec ev db of
        (Inl e, db1) \<Rightarrow> ((rejected rf)\<lparr>so_Recorded := Some ev, so_RecordErr := Some e\<rparr>, db1)
      | (Inr _, db1) \<Rightarrow> ((rejected rf')\<lparr>so_Recorded := Some ev\<rparr>, db1))"
  by (auto simp: recorded_before_send_def rejected_def split: sum.splits prod.splits)

lemma HTTPDispatch_recorded:
  "recorded_before_send rec db (HTTPDispatch u decode auth baseURL configured v rec answer db)"
  unfolding HTTPDispatch_def Let_def
  by (cases "prepareRequest baseURL configured v") (auto simp only: sum.case recorded_rejected recorded_recordThenSend
      recorded_unsent if_True if_False split: if_split)

lemma ForwardDispatch_recorded:
  "recorded_before_send rec db (ForwardDispatch destination incoming body rec answer db)"
  by (simp add: ForwardDispatch_def)

text \<open>Only an uncertain transport error can come from a request that was not answered.\<close>

lemma recordThenSend_uncertain:
  assumes "so_Error (fst (recordThenSend rf rec ev finish answer db)) = Some err" "te_Kind err = TransportUncertain"
    and "te_Kind rf = TransportDefinitive"
  shows "so_Sent (fst (recordThenSend rf rec ev finish answer db))"
  using assms by (auto simp: recordThenSend_def rejected_def split: sum.splits prod.splits)

end
