(* ===== verification/Providers.thy ===== *)
theory Providers
  imports Send_Clients
begin

text \<open>
  The webhook providers (\<^verbatim>\<open>internal/provider\<close>, \<^verbatim>\<open>internal/gitlab\<close>, \<^verbatim>\<open>internal/github\<close>, \<^verbatim>\<open>internal/harbor\<close>): each adapter
  authenticates a request and turns it into the provider-independent event.

  The JSON decoder is a parameter: \<open>decode body\<close> is the value of the body with \<^verbatim>\<open>UseNumber\<close>, \<open>None\<close> when the bytes are
  rejected or more than one value follows; an object lists each member of the decoded map once. \<open>hmac\<close> is HMAC-SHA256.
  \<^verbatim>\<open>subtle.ConstantTimeCompare\<close> and \<^verbatim>\<open>hmac.Equal\<close> are equality of bytes.
\<close>

section \<open>The adapter interface (provider.go)\<close>

record IncomingEvent =
  in_RepositoryExternalID :: string
  in_Event :: string
  in_Ref :: string
  in_Status :: string
  in_Revision :: string
  in_CommitMessage :: string
  in_ExternalID :: string
  in_Trigger :: string
  in_DeliveryID :: string
  in_Supported :: bool
  in_SafeHeaders :: "(string \<times> string) list"

record Adapter =
  Authenticate :: "header \<Rightarrow> bytes \<Rightarrow> bool"
  Normalize :: "header \<Rightarrow> bytes \<Rightarrow> string + IncomingEvent"

definition emptyIncoming :: IncomingEvent where
  "emptyIncoming = \<lparr>in_RepositoryExternalID = '''', in_Event = '''', in_Ref = '''', in_Status = '''', in_Revision = '''',
     in_CommitMessage = '''', in_ExternalID = '''', in_Trigger = '''', in_DeliveryID = '''', in_Supported = False,
     in_SafeHeaders = []\<rparr>"

text \<open>\<^verbatim>\<open>Header.Get\<close>.\<close>

definition headerGet :: "header \<Rightarrow> string \<Rightarrow> string" where
  "headerGet headers name =
     (case map_of headers (canonicalHeader name) of Some (v # _) \<Rightarrow> v | _ \<Rightarrow> '''')"

section \<open>Text\<close>

text \<open>\<^verbatim>\<open>strings.ToLower\<close>.\<close>

function lowercase :: "unicode \<Rightarrow> string \<Rightarrow> string" where
  "lowercase u [] = []"
| "lowercase u (c # cs) =
     (case decodeRune c cs of (r, w) \<Rightarrow> encodeRune (lowerRune u r) @ lowercase u (drop (w - 1) cs))"
  by pat_completeness auto
termination
  by (relation "measure (\<lambda>(u, s). length s)") auto

definition TrimPrefix :: "string \<Rightarrow> string \<Rightarrow> string" where
  "TrimPrefix p s = (if prefixOf p s then drop (length p) s else s)"

text \<open>\<^verbatim>\<open>strings.FieldsFunc\<close> at every rune that is neither a letter nor a digit; \<open>word\<close> is the current field.\<close>

function alnumFields :: "unicode \<Rightarrow> string \<Rightarrow> string \<Rightarrow> string list" where
  "alnumFields u word [] = (if word = [] then [] else [word])"
| "alnumFields u word (c # cs) =
     (case decodeRune c cs of (r, w) \<Rightarrow>
        if isLetter u r \<or> isDigit u r then alnumFields u (word @ take w (c # cs)) (drop (w - 1) cs)
        else (if word = [] then [] else [word]) @ alnumFields u [] (drop (w - 1) cs))"
  by pat_completeness auto
termination
  by (relation "measure (\<lambda>(u, word, s). length s)") auto

fun underscoreJoin :: "string list \<Rightarrow> string" where
  "underscoreJoin [] = ''''"
| "underscoreJoin [w] = w"
| "underscoreJoin (w # ws) = w @ ''_'' @ underscoreJoin ws"

text \<open>\<^verbatim>\<open>Number.Int64\<close> of a positive literal, and \<^verbatim>\<open>strconv.FormatInt\<close>: \<open>None\<close> where the source reports an error or the
  number is not positive.\<close>

definition digitValue :: "char \<Rightarrow> nat" where
  "digitValue c = of_char c - 48"

definition numeralValue :: "string \<Rightarrow> nat" where
  "numeralValue s = foldl (\<lambda>n c. 10 * n + digitValue c) 0 s"

definition isDecimalDigit :: "char \<Rightarrow> bool" where
  "isDecimalDigit c \<longleftrightarrow> 48 \<le> (of_char c :: nat) \<and> (of_char c :: nat) \<le> 57"

definition positiveInt64 :: "string \<Rightarrow> string option" where
  "positiveInt64 literal =
     (let digits = (case literal of c # cs \<Rightarrow> if c = CHR ''+'' then cs else literal | [] \<Rightarrow> literal); n = numeralValue digits in
      if digits \<noteq> [] \<and> list_all isDecimalDigit digits \<and> 0 < n \<and> n < 2 ^ 63 then Some (decimalNat n) else None)"

section \<open>Reading a payload (gitlab/normalize.go, github/adapter.go)\<close>

fun valueAt :: "json \<Rightarrow> string list \<Rightarrow> json option" where
  "valueAt current [] = Some current"
| "valueAt current (segment # path) =
     (case current of
        JObject members \<Rightarrow> (case map_of members segment of Some v \<Rightarrow> valueAt v path | None \<Rightarrow> None)
      | _ \<Rightarrow> None)"

definition stringAt :: "json \<Rightarrow> string list \<Rightarrow> string" where
  "stringAt payload path = (case valueAt payload path of Some (JString s) \<Rightarrow> s | _ \<Rightarrow> '''')"

definition numberStringAt :: "json \<Rightarrow> string list \<Rightarrow> string" where
  "numberStringAt payload path = (case valueAt payload path of Some (JNumber n) \<Rightarrow> n | _ \<Rightarrow> '''')"

definition lastObjectStringAt :: "json \<Rightarrow> string \<Rightarrow> string \<Rightarrow> string" where
  "lastObjectStringAt payload arrayKey valueKey =
     (case valueAt payload [arrayKey] of
        Some (JArray values) \<Rightarrow>
          if values = [] then ''''
          else (case last values of JObject ms \<Rightarrow> stringAt (JObject ms) [valueKey] | _ \<Rightarrow> '''')
      | _ \<Rightarrow> '''')"

definition decodeObject :: "(bytes \<Rightarrow> json option) \<Rightarrow> string \<Rightarrow> bytes \<Rightarrow> string + json" where
  "decodeObject decode providerName body =
     (case decode body of
        Some (JObject members) \<Rightarrow> Inr (JObject members)
      | Some JNull \<Rightarrow> Inl (''decode '' @ providerName @ '' payload: expected JSON object'')
      | _ \<Rightarrow> Inl (''decode '' @ providerName @ '' payload''))"

definition repositoryExternalID :: "string \<Rightarrow> json option \<Rightarrow> string + string" where
  "repositoryExternalID providerName found =
     (case found of
        None \<Rightarrow> Inl (providerName @ '' payload has no repository ID'')
      | Some (JNumber n) \<Rightarrow>
          (case positiveInt64 n of
             Some i \<Rightarrow> Inr i
           | None \<Rightarrow> Inl (providerName @ '' repository ID must be a positive integer''))
      | Some _ \<Rightarrow> Inl (providerName @ '' repository ID must be a positive integer''))"

definition positiveNumber :: "json \<Rightarrow> string" where
  "positiveNumber v = (case v of JNumber n \<Rightarrow> (case positiveInt64 n of Some i \<Rightarrow> i | None \<Rightarrow> '''') | _ \<Rightarrow> '''')"

section \<open>GitLab\<close>

definition TokenMatches :: "string \<Rightarrow> string \<Rightarrow> bool" where
  "TokenMatches provided expected \<longleftrightarrow>
     \<not> (provided = '''' \<or> expected = '''' \<or> length provided \<noteq> length expected) \<and> provided = expected"

definition gitLabEventName :: "unicode \<Rightarrow> string \<Rightarrow> string \<times> bool" where
  "gitLabEventName u h =
     (let normalized = lowercase u (trimSpace h) in
      if normalized = ''pipeline hook'' then (''pipeline'', True)
      else if normalized = ''job hook'' then (''job'', True)
      else if normalized = ''push hook'' then (''push'', True)
      else if normalized = ''tag push hook'' then (''tag_push'', True)
      else if normalized = ''merge request hook'' then (''merge_request'', True)
      else (underscoreJoin (alnumFields u '''' normalized), False))"

definition gitLabDeliveryID :: "header \<Rightarrow> string" where
  "gitLabDeliveryID headers =
     (let eventUUID = headerGet headers ''X-Gitlab-Event-UUID'' in
      if eventUUID \<noteq> '''' then eventUUID else headerGet headers ''X-Gitlab-Webhook-UUID'')"

definition presentHeader :: "header \<Rightarrow> string \<Rightarrow> (string \<times> string) list" where
  "presentHeader headers name = (let v = headerGet headers name in if v \<noteq> '''' then [(name, v)] else [])"

definition gitLabSafeHeaders :: "header \<Rightarrow> (string \<times> string) list" where
  "gitLabSafeHeaders headers =
     (''X-Gitlab-Event'', headerGet headers ''X-Gitlab-Event'') #
     presentHeader headers ''X-Gitlab-Event-UUID'' @ presentHeader headers ''X-Gitlab-Webhook-UUID''"

definition requiredGitLabRepositoryExternalID :: "json \<Rightarrow> string \<Rightarrow> string + string" where
  "requiredGitLabRepositoryExternalID payload event =
     repositoryExternalID ''GitLab''
       (valueAt payload (if event = ''pipeline'' \<or> event = ''merge_request'' then [''project'', ''id''] else [''project_id'']))"

definition optionalGitLabRepositoryExternalID :: "json \<Rightarrow> string" where
  "optionalGitLabRepositoryExternalID payload =
     (case valueAt payload [''project'', ''id''] of
        Some v \<Rightarrow> positiveNumber v
      | None \<Rightarrow> (case valueAt payload [''project_id''] of Some v \<Rightarrow> positiveNumber v | None \<Rightarrow> ''''))"

definition gitLabFields :: "unicode \<Rightarrow> string \<Rightarrow> json \<Rightarrow> IncomingEvent \<Rightarrow> IncomingEvent" where
  "gitLabFields u eventName payload event =
     (let attribute = (\<lambda>k. stringAt payload [''object_attributes'', k]) in
      if eventName = ''pipeline'' then
        event\<lparr>in_Ref := attribute ''ref'', in_Status := lowercase u (attribute ''status''),
          in_Revision := attribute ''sha'', in_CommitMessage := stringAt payload [''commit'', ''message''],
          in_ExternalID := numberStringAt payload [''object_attributes'', ''id''],
          in_Trigger := lowercase u (attribute ''source'')\<rparr>
      else if eventName = ''job'' then
        event\<lparr>in_Ref := stringAt payload [''ref''], in_Status := lowercase u (stringAt payload [''build_status'']),
          in_Revision := stringAt payload [''sha''], in_CommitMessage := stringAt payload [''commit'', ''message''],
          in_ExternalID := numberStringAt payload [''pipeline_id'']\<rparr>
      else if eventName = ''push'' then
        event\<lparr>in_Ref := TrimPrefix ''refs/heads/'' (stringAt payload [''ref'']), in_Revision := stringAt payload [''after''],
          in_CommitMessage := lastObjectStringAt payload ''commits'' ''message''\<rparr>
      else if eventName = ''tag_push'' then
        event\<lparr>in_Ref := TrimPrefix ''refs/tags/'' (stringAt payload [''ref'']), in_Revision := stringAt payload [''after''],
          in_CommitMessage := lastObjectStringAt payload ''commits'' ''message''\<rparr>
      else if eventName = ''merge_request'' then
        event\<lparr>in_Ref := attribute ''source_branch'', in_Status := lowercase u (attribute ''state''),
          in_Revision := stringAt payload [''object_attributes'', ''last_commit'', ''id''],
          in_CommitMessage := stringAt payload [''object_attributes'', ''last_commit'', ''message''],
          in_ExternalID := numberStringAt payload [''object_attributes'', ''id''],
          in_Trigger := lowercase u (attribute ''action'')\<rparr>
      else event)"

definition gitLabNormalize :: "unicode \<Rightarrow> (bytes \<Rightarrow> json option) \<Rightarrow> header \<Rightarrow> bytes \<Rightarrow> string + IncomingEvent" where
  "gitLabNormalize u decode headers body =
     (case gitLabEventName u (headerGet headers ''X-Gitlab-Event'') of (eventName, supported) \<Rightarrow>
        if eventName = '''' then Inl ''GitLab event header is required''
        else case decodeObject decode ''GitLab'' body of
          Inl e \<Rightarrow> Inl e
        | Inr payload \<Rightarrow>
            let event = emptyIncoming\<lparr>in_Event := eventName, in_DeliveryID := gitLabDeliveryID headers,
                  in_Supported := supported, in_SafeHeaders := gitLabSafeHeaders headers\<rparr> in
            if \<not> supported then Inr (event\<lparr>in_RepositoryExternalID := optionalGitLabRepositoryExternalID payload\<rparr>)
            else (case requiredGitLabRepositoryExternalID payload eventName of
                    Inl e \<Rightarrow> Inl e
                  | Inr i \<Rightarrow> Inr (gitLabFields u eventName payload (event\<lparr>in_RepositoryExternalID := i\<rparr>))))"

definition gitLabAdapter :: "unicode \<Rightarrow> (bytes \<Rightarrow> json option) \<Rightarrow> string \<Rightarrow> Adapter" where
  "gitLabAdapter u decode token =
     \<lparr>Authenticate = (\<lambda>headers body. TokenMatches (headerGet headers ''X-Gitlab-Token'') token),
      Normalize = gitLabNormalize u decode\<rparr>"

section \<open>GitHub\<close>

definition hexLower :: "char \<Rightarrow> bool" where
  "hexLower c \<longleftrightarrow> isDecimalDigit c \<or> (97 \<le> (of_char c :: nat) \<and> (of_char c :: nat) \<le> 102)"

definition validSignature :: "string \<Rightarrow> bool" where
  "validSignature signature \<longleftrightarrow>
     prefixOf ''sha256='' signature \<and> length signature = length ''sha256='' + 64 \<and>
     list_all hexLower (drop (length ''sha256='') signature)"

definition hexValue :: "char \<Rightarrow> nat" where
  "hexValue c = (let n = of_char c in if n \<le> 57 then n - 48 else n - 87)"

fun DecodeString :: "string \<Rightarrow> string" where
  "DecodeString (a # b # rest) = char_of (16 * hexValue a + hexValue b) # DecodeString rest"
| "DecodeString _ = []"

definition gitHubAuthenticate :: "(string \<Rightarrow> bytes \<Rightarrow> bytes) \<Rightarrow> string \<Rightarrow> header \<Rightarrow> bytes \<Rightarrow> bool" where
  "gitHubAuthenticate hmac secret headers body =
     (if secret = '''' then False
      else let signature = headerGet headers ''X-Hub-Signature-256'' in
        if \<not> validSignature signature then False
        else DecodeString (TrimPrefix ''sha256='' signature) = hmac secret body)"

definition gitHubEventName :: "string \<Rightarrow> string \<times> bool" where
  "gitHubEventName event =
     (if event = ''workflow_run'' then (''pipeline'', True)
      else if event = ''workflow_job'' then (''job'', True)
      else if event = ''push'' then (''push'', True)
      else if event = ''pull_request'' then (''merge_request'', True)
      else (event, False))"

definition completedStatus :: "unicode \<Rightarrow> json \<Rightarrow> string \<Rightarrow> string" where
  "completedStatus u payload path =
     (let conclusion = stringAt payload [path, ''conclusion''] in
      if conclusion \<noteq> '''' then lowercase u conclusion else lowercase u (stringAt payload [path, ''status'']))"

definition optionalRepositoryExternalID :: "json \<Rightarrow> string" where
  "optionalRepositoryExternalID payload =
     (case valueAt payload [''repository'', ''id''] of Some v \<Rightarrow> positiveNumber v | None \<Rightarrow> '''')"

definition gitHubSafeHeaders :: "header \<Rightarrow> (string \<times> string) list" where
  "gitHubSafeHeaders headers =
     presentHeader headers ''X-GitHub-Delivery'' @ [(''X-GitHub-Event'', headerGet headers ''X-GitHub-Event'')]"

definition gitHubFields :: "unicode \<Rightarrow> string \<Rightarrow> json \<Rightarrow> IncomingEvent \<Rightarrow> IncomingEvent" where
  "gitHubFields u headerEvent payload event =
     (let at = (\<lambda>ks. stringAt payload ks) in
      if headerEvent = ''workflow_run'' then
        event\<lparr>in_Ref := at [''workflow_run'', ''head_branch''], in_Status := completedStatus u payload ''workflow_run'',
          in_Revision := at [''workflow_run'', ''head_sha''],
          in_CommitMessage := at [''workflow_run'', ''head_commit'', ''message''],
          in_ExternalID := numberStringAt payload [''workflow_run'', ''id''], in_Trigger := at [''workflow_run'', ''event'']\<rparr>
      else if headerEvent = ''workflow_job'' then
        event\<lparr>in_Ref := at [''workflow_job'', ''head_branch''], in_Status := completedStatus u payload ''workflow_job'',
          in_Revision := at [''workflow_job'', ''head_sha''], in_ExternalID := numberStringAt payload [''workflow_job'', ''id'']\<rparr>
      else if headerEvent = ''push'' then
        let ref = at [''ref''];
            event = (if prefixOf ''refs/tags/'' ref
                     then event\<lparr>in_Event := ''tag_push'', in_Ref := TrimPrefix ''refs/tags/'' ref\<rparr>
                     else event\<lparr>in_Ref := TrimPrefix ''refs/heads/'' ref\<rparr>)
        in event\<lparr>in_Revision := at [''after''], in_CommitMessage := at [''head_commit'', ''message'']\<rparr>
      else if headerEvent = ''pull_request'' then
        event\<lparr>in_Ref := at [''pull_request'', ''head'', ''ref''], in_Status := lowercase u (at [''pull_request'', ''state'']),
          in_Revision := at [''pull_request'', ''head'', ''sha''], in_ExternalID := numberStringAt payload [''number''],
          in_Trigger := lowercase u (at [''action''])\<rparr>
      else event)"

definition gitHubNormalize :: "unicode \<Rightarrow> (bytes \<Rightarrow> json option) \<Rightarrow> header \<Rightarrow> bytes \<Rightarrow> string + IncomingEvent" where
  "gitHubNormalize u decode headers body =
     (let headerEvent = lowercase u (trimSpace (headerGet headers ''X-GitHub-Event'')) in
      if headerEvent = '''' then Inl ''GitHub event header is required''
      else case decodeObject decode ''GitHub'' body of
        Inl e \<Rightarrow> Inl e
      | Inr payload \<Rightarrow>
          (case gitHubEventName headerEvent of (eventName, supported) \<Rightarrow>
             let event = emptyIncoming\<lparr>in_Event := eventName, in_DeliveryID := headerGet headers ''X-GitHub-Delivery'',
                   in_Supported := supported, in_SafeHeaders := gitHubSafeHeaders headers\<rparr> in
             if \<not> supported then Inr (event\<lparr>in_RepositoryExternalID := optionalRepositoryExternalID payload\<rparr>)
             else (case repositoryExternalID ''GitHub'' (valueAt payload [''repository'', ''id'']) of
                     Inl e \<Rightarrow> Inl e
                   | Inr i \<Rightarrow> Inr (gitHubFields u headerEvent payload (event\<lparr>in_RepositoryExternalID := i\<rparr>)))))"

definition gitHubAdapter :: "unicode \<Rightarrow> (bytes \<Rightarrow> json option) \<Rightarrow> (string \<Rightarrow> bytes \<Rightarrow> bytes) \<Rightarrow> string \<Rightarrow> Adapter" where
  "gitHubAdapter u decode hmac secret =
     \<lparr>Authenticate = gitHubAuthenticate hmac secret, Normalize = gitHubNormalize u decode\<rparr>"

section \<open>Harbor\<close>

record resource =
  rs_Digest :: string
  rs_Tag :: string

record eventData =
  ed_Resources :: "resource list"
  ed_FullName :: string

record envelope =
  en_SpecVersion :: string
  en_ID :: string
  en_Type :: string
  en_EventData :: eventData
  en_Data :: eventData

text \<open>\<open>decodeEnvelope body\<close> is the body decoded into \<^verbatim>\<open>envelope\<close>, \<open>None\<close> where the decoder rejects it.\<close>

definition harborEvents :: "(string \<times> string \<times> bool) list" where
  "harborEvents =
     [(''PUSH_ARTIFACT'', ''artifact_push'', True), (''harbor.artifact.pushed'', ''artifact_push'', True),
      (''PULL_ARTIFACT'', ''artifact_pull'', False), (''harbor.artifact.pulled'', ''artifact_pull'', False),
      (''DELETE_ARTIFACT'', ''artifact_delete'', False), (''harbor.artifact.deleted'', ''artifact_delete'', False),
      (''SCANNING_COMPLETED'', ''scan_completed'', False), (''harbor.scan.completed'', ''scan_completed'', False),
      (''SCANNING_STOPPED'', ''scan_stopped'', False), (''harbor.scan.stopped'', ''scan_stopped'', False),
      (''SCANNING_FAILED'', ''scan_failed'', False), (''harbor.scan.failed'', ''scan_failed'', False),
      (''QUOTA_EXCEED'', ''quota_exceeded'', False), (''harbor.quota.exceeded'', ''quota_exceeded'', False),
      (''QUOTA_WARNING'', ''quota_warning'', False), (''harbor.quota.warned'', ''quota_warning'', False),
      (''REPLICATION'', ''replication'', False), (''harbor.replication.status.changed'', ''replication'', False),
      (''TAG_RETENTION'', ''tag_retention'', False), (''harbor.tag_retention.finished'', ''tag_retention'', False)]"

definition harborEventName :: "unicode \<Rightarrow> string \<Rightarrow> string \<times> bool" where
  "harborEventName u event =
     (case map_of harborEvents (trimSpace event) of
        Some r \<Rightarrow> r | None \<Rightarrow> (lowercase u (trimSpace event), False))"

definition harborNormalize :: "unicode \<Rightarrow> (bytes \<Rightarrow> envelope option) \<Rightarrow> header \<Rightarrow> bytes \<Rightarrow> string + IncomingEvent" where
  "harborNormalize u decodeEnvelope headers body =
     (case decodeEnvelope body of
        None \<Rightarrow> Inl ''decode Harbor payload''
      | Some payload \<Rightarrow>
          (case harborEventName u (en_Type payload) of (eventName, supported) \<Rightarrow>
             if eventName = '''' then Inl ''Harbor event type is required''
             else
               let cloud = (en_SpecVersion payload \<noteq> '''');
                   data = (if cloud then en_Data payload else en_EventData payload);
                   event = emptyIncoming\<lparr>in_RepositoryExternalID := trimSpace (ed_FullName data), in_Event := eventName,
                     in_Supported := supported, in_SafeHeaders := presentHeader headers ''Content-Type''\<rparr>;
                   event = (if cloud then event\<lparr>in_ExternalID := trimSpace (en_ID payload),
                                                in_DeliveryID := trimSpace (en_ID payload)\<rparr> else event) in
               if \<not> supported then Inr event
               else if in_RepositoryExternalID event = '''' then Inl ''Harbor payload has no repository full name''
               else (case ed_Resources data of
                       [] \<Rightarrow> Inl ''Harbor artifact push has no resources''
                     | r # _ \<Rightarrow>
                         if trimSpace (rs_Digest r) = '''' then Inl ''Harbor artifact push has no digest''
                         else Inr (event\<lparr>in_Ref := trimSpace (rs_Tag r), in_Revision := trimSpace (rs_Digest r)\<rparr>))))"

definition harborAuthenticate :: "string \<Rightarrow> header \<Rightarrow> bytes \<Rightarrow> bool" where
  "harborAuthenticate authorization headers body =
     (let provided = headerGet headers ''Authorization'' in
      authorization \<noteq> '''' \<and> provided \<noteq> '''' \<and> provided = authorization)"

definition harborAdapter :: "unicode \<Rightarrow> (bytes \<Rightarrow> envelope option) \<Rightarrow> string \<Rightarrow> Adapter" where
  "harborAdapter u decodeEnvelope authorization =
     \<lparr>Authenticate = harborAuthenticate authorization, Normalize = harborNormalize u decodeEnvelope\<rparr>"

section \<open>The adapters' contract\<close>

text \<open>What the public handler relies on: an authenticated request carries the adapter's secret, and a normalised event
  has a name, and a repository whenever the event is supported. Nothing the adapter keeps for the log is a credential
  header.\<close>

locale adapter_contract =
  fixes a :: Adapter and secret :: string
  assumes authentic: "Authenticate a headers body \<Longrightarrow> secret \<noteq> ''''"
    and event_named: "Normalize a headers body = Inr e \<Longrightarrow> in_Event e \<noteq> ''''"
    and repository: "Normalize a headers body = Inr e \<Longrightarrow> in_Supported e \<Longrightarrow> in_RepositoryExternalID e \<noteq> ''''"
    and safe: "Normalize a headers body = Inr e \<Longrightarrow>
      set (map fst (in_SafeHeaders e)) \<inter> {''X-Gitlab-Token'', ''X-Hub-Signature-256'', ''Authorization''} = {}"

lemma decimalNat_nonempty: "decimalNat n \<noteq> []"
  by (induction n rule: decimalNat.induct) (subst decimalNat.simps, simp)

lemma positiveInt64_nonempty: "positiveInt64 n = Some i \<Longrightarrow> i \<noteq> ''''"
  using decimalNat_nonempty by (auto simp: positiveInt64_def Let_def split: if_splits)

lemma repositoryExternalID_nonempty: "repositoryExternalID p v = Inr i \<Longrightarrow> i \<noteq> ''''"
  by (auto simp: repositoryExternalID_def dest: positiveInt64_nonempty split: option.splits json.splits)

lemma gitLabFields_keeps [simp]:
  "in_RepositoryExternalID (gitLabFields u n p e) = in_RepositoryExternalID e" "in_Event (gitLabFields u n p e) = in_Event e"
  "in_Supported (gitLabFields u n p e) = in_Supported e" "in_SafeHeaders (gitLabFields u n p e) = in_SafeHeaders e"
  "in_DeliveryID (gitLabFields u n p e) = in_DeliveryID e"
  by (simp_all add: gitLabFields_def Let_def)

lemma gitHubFields_keeps [simp]:
  "in_RepositoryExternalID (gitHubFields u n p e) = in_RepositoryExternalID e"
  "in_Event (gitHubFields u n p e) = (if n = ''push'' \<and> prefixOf ''refs/tags/'' (stringAt p [''ref'']) then ''tag_push'' else in_Event e)"
  "in_Supported (gitHubFields u n p e) = in_Supported e" "in_SafeHeaders (gitHubFields u n p e) = in_SafeHeaders e"
  "in_DeliveryID (gitHubFields u n p e) = in_DeliveryID e"
  by (simp_all add: gitHubFields_def Let_def)

lemma presentHeader_names: "fst ` set (presentHeader headers name) \<subseteq> {name}"
  by (auto simp: presentHeader_def Let_def split: if_splits)

text \<open>The two shapes of a normalised event.\<close>

lemma gitLabNormalize_cases:
  assumes "gitLabNormalize u decode headers body = Inr e"
  shows "in_Event e \<noteq> '''' \<and> (in_Supported e \<longrightarrow> in_RepositoryExternalID e \<noteq> '''') \<and> in_SafeHeaders e = gitLabSafeHeaders headers"
proof -
  obtain name supported where n: "gitLabEventName u (headerGet headers ''X-Gitlab-Event'') = (name, supported)" by force
  show ?thesis
    using assms n by (cases supported)
      (auto simp: gitLabNormalize_def Let_def emptyIncoming_def requiredGitLabRepositoryExternalID_def
        dest: repositoryExternalID_nonempty split: if_splits sum.splits)
qed

lemma gitHubNormalize_cases:
  assumes "gitHubNormalize u decode headers body = Inr e"
  shows "in_Event e \<noteq> '''' \<and> (in_Supported e \<longrightarrow> in_RepositoryExternalID e \<noteq> '''') \<and> in_SafeHeaders e = gitHubSafeHeaders headers"
proof -
  let ?h = "lowercase u (trimSpace (headerGet headers ''X-GitHub-Event''))"
  obtain name supported where n: "gitHubEventName ?h = (name, supported)" by force
  then have "?h \<noteq> '''' \<Longrightarrow> name \<noteq> ''''" by (auto simp: gitHubEventName_def split: if_splits)
  then show ?thesis
    using assms n by (cases supported)
      (auto simp: gitHubNormalize_def Let_def emptyIncoming_def dest: repositoryExternalID_nonempty split: if_splits sum.splits)
qed

interpretation gitlab: adapter_contract "gitLabAdapter u decode token" token
proof unfold_locales
  fix headers body e
  show "Authenticate (gitLabAdapter u decode token) headers body \<Longrightarrow> token \<noteq> ''''"
    by (simp add: gitLabAdapter_def TokenMatches_def)
  assume n: "Normalize (gitLabAdapter u decode token) headers body = Inr e"
  then have c: "in_Event e \<noteq> ''''" "in_Supported e \<Longrightarrow> in_RepositoryExternalID e \<noteq> ''''" "in_SafeHeaders e = gitLabSafeHeaders headers"
    using gitLabNormalize_cases [of u decode headers body e] by (simp_all add: gitLabAdapter_def)
  show "in_Event e \<noteq> ''''" by (rule c)
  show "in_Supported e \<Longrightarrow> in_RepositoryExternalID e \<noteq> ''''" by (rule c)
  show "set (map fst (in_SafeHeaders e)) \<inter> {''X-Gitlab-Token'', ''X-Hub-Signature-256'', ''Authorization''} = {}"
    using presentHeader_names [of headers] unfolding c(3) gitLabSafeHeaders_def by fastforce
qed

interpretation github: adapter_contract "gitHubAdapter u decode hmac secret" secret
proof unfold_locales
  fix headers body e
  show "Authenticate (gitHubAdapter u decode hmac secret) headers body \<Longrightarrow> secret \<noteq> ''''"
    by (simp add: gitHubAdapter_def gitHubAuthenticate_def split: if_splits)
  assume n: "Normalize (gitHubAdapter u decode hmac secret) headers body = Inr e"
  then have c: "in_Event e \<noteq> ''''" "in_Supported e \<Longrightarrow> in_RepositoryExternalID e \<noteq> ''''" "in_SafeHeaders e = gitHubSafeHeaders headers"
    using gitHubNormalize_cases [of u decode headers body e] by (simp_all add: gitHubAdapter_def)
  show "in_Event e \<noteq> ''''" by (rule c)
  show "in_Supported e \<Longrightarrow> in_RepositoryExternalID e \<noteq> ''''" by (rule c)
  show "set (map fst (in_SafeHeaders e)) \<inter> {''X-Gitlab-Token'', ''X-Hub-Signature-256'', ''Authorization''} = {}"
    using presentHeader_names [of headers] unfolding c(3) gitHubSafeHeaders_def by fastforce
qed

interpretation harbor: adapter_contract "harborAdapter u decodeEnvelope authorization" authorization
proof unfold_locales
  fix headers body e
  show "Authenticate (harborAdapter u decodeEnvelope authorization) headers body \<Longrightarrow> authorization \<noteq> ''''"
    by (simp add: harborAdapter_def harborAuthenticate_def Let_def)
  assume n: "Normalize (harborAdapter u decodeEnvelope authorization) headers body = Inr e"
  show "in_Event e \<noteq> ''''"
    using n by (auto simp: harborAdapter_def harborNormalize_def Let_def split: if_splits option.splits prod.splits list.splits)
  show "in_Supported e \<Longrightarrow> in_RepositoryExternalID e \<noteq> ''''"
    using n by (auto simp: harborAdapter_def harborNormalize_def Let_def split: if_splits option.splits prod.splits list.splits)
  have "in_SafeHeaders e = presentHeader headers ''Content-Type''"
    using n by (auto simp: harborAdapter_def harborNormalize_def Let_def split: if_splits option.splits prod.splits list.splits)
  then show "set (map fst (in_SafeHeaders e)) \<inter> {''X-Gitlab-Token'', ''X-Hub-Signature-256'', ''Authorization''} = {}"
    using presentHeader_names [of headers "''Content-Type''"] by fastforce
qed

section \<open>Hexadecimal signatures\<close>

lemma hexLower_cases: "hexLower c \<Longrightarrow> c \<in> set ''0123456789abcdef''"
proof -
  assume "hexLower c"
  then have "(of_char c :: nat) \<in> {48..57} \<union> {97..102}" by (auto simp: hexLower_def isDecimalDigit_def)
  then have "(of_char c :: nat) \<in> set ([48..<58] @ [97..<103])" by (simp only: set_append set_upt) auto
  then have "c \<in> char_of ` set ([48..<58] @ [97..<103])" by (metis char_of_char image_eqI)
  then show ?thesis by (simp add: upt_rec char_of_def bit_0)
qed

lemma hexLower_digit: "hexLower c \<Longrightarrow> hexValue c < 16 \<and> hexDigit (hexValue c) = c"
  by (drule hexLower_cases) (auto simp: hexValue_def hexDigit_def)

lemma hexByte_value:
  assumes "hexLower a" "hexLower b"
  shows "hexByte (char_of (16 * hexValue a + hexValue b)) = [a, b]"
proof -
  note v = hexLower_digit [OF assms(1)] hexLower_digit [OF assms(2)]
  have "of_char (char_of (16 * hexValue a + hexValue b) :: char) = 16 * hexValue a + hexValue b"
    using v by (simp add: of_char_of)
  then show ?thesis using v by (simp add: hexByte_def)
qed

lemma Encode_DecodeString: "list_all hexLower s \<Longrightarrow> even (length s) \<Longrightarrow> EncodeToString (DecodeString s) = s"
  by (induction s rule: DecodeString.induct) (simp_all add: EncodeToString_def hexByte_value)

lemma hexDigit_lower: "n < 16 \<Longrightarrow> hexLower (hexDigit n)"
proof -
  have "list_all hexLower ''0123456789abcdef''" by (simp add: hexLower_def isDecimalDigit_def)
  moreover assume "n < 16"
  then have "n < length ''0123456789abcdef''" by simp
  ultimately show "hexLower (hexDigit n)" unfolding hexDigit_def list_all_length by blast
qed

lemma Encode_lower: "list_all hexLower (EncodeToString s)" and length_Encode: "length (EncodeToString s) = 2 * length s"
proof (induction s)
  case (Cons c s)
  have "of_char c div 16 < (16::nat)" using nat_of_char_less_256 [of c] by linarith
  then show "list_all hexLower (EncodeToString (c # s))" "length (EncodeToString (c # s)) = 2 * length (c # s)"
    using Cons by (simp_all add: EncodeToString_def hexByte_def hexDigit_lower)
qed (simp_all add: EncodeToString_def)

lemma prefixOf_append: "prefixOf p s \<longleftrightarrow> (\<exists>t. s = p @ t)"
  by (induction p s rule: prefixOf.induct) auto

lemma gitHubAuthenticate_iff:
  assumes len: "length (hmac secret body) = 32"
  shows "gitHubAuthenticate hmac secret headers body \<longleftrightarrow>
    secret \<noteq> '''' \<and> headerGet headers ''X-Hub-Signature-256'' = ''sha256='' @ EncodeToString (hmac secret body)"
proof -
  let ?s = "headerGet headers ''X-Hub-Signature-256''"
  have fwd: "?s = ''sha256='' @ EncodeToString (hmac secret body)"
    if v: "validSignature ?s" "DecodeString (TrimPrefix ''sha256='' ?s) = hmac secret body"
  proof -
    obtain t where t: "?s = ''sha256='' @ t" using v(1) by (auto simp: validSignature_def prefixOf_append)
    then have "list_all hexLower t" "length t = 64" using v(1) by (simp_all add: validSignature_def)
    then have "EncodeToString (DecodeString t) = t" using Encode_DecodeString by simp
    moreover have "TrimPrefix ''sha256='' ?s = t" by (simp add: t TrimPrefix_def)
    ultimately show ?thesis using t v(2) by simp
  qed
  have bwd: "validSignature ?s \<and> DecodeString (TrimPrefix ''sha256='' ?s) = hmac secret body"
    if e: "?s = ''sha256='' @ EncodeToString (hmac secret body)"
  proof -
    have "EncodeToString (DecodeString (EncodeToString (hmac secret body))) = EncodeToString (hmac secret body)"
      by (rule Encode_DecodeString) (simp_all add: Encode_lower length_Encode)
    then have "DecodeString (EncodeToString (hmac secret body)) = hmac secret body" by (rule EncodeToString_inject)
    then show ?thesis unfolding e using len by (simp add: validSignature_def TrimPrefix_def Encode_lower length_Encode)
  qed
  show ?thesis using fwd bwd by (auto simp: gitHubAuthenticate_def Let_def)
qed

section \<open>Repository numbers\<close>

text \<open>A number literal as JSON writes it, positive and within 64 bits, is its own repository ID.\<close>

lemma numeralValue_snoc: "numeralValue (s @ [c]) = 10 * numeralValue s + digitValue c"
  by (simp add: numeralValue_def)

lemma decimalNat_digits: "list_all isDecimalDigit (decimalNat n) \<and> numeralValue (decimalNat n) = n"
proof (induction n rule: decimalNat.induct)
  case (1 n)
  have d: "isDecimalDigit (char_of (48 + n mod 10)) \<and> digitValue (char_of (48 + n mod 10)) = n mod 10" for n :: nat
  proof -
    have "n mod 10 < 10" by simp
    then have "of_char (char_of (48 + n mod 10) :: char) = 48 + n mod 10" by (simp add: of_char_of)
    then show ?thesis by (simp add: isDecimalDigit_def digitValue_def)
  qed
  show ?case
  proof (cases "n < 10")
    case True
    then show ?thesis using d [of n] by (subst (1 2) decimalNat.simps) (simp add: numeralValue_def)
  next
    case False
    then show ?thesis using 1 d [of n] by (subst (1 2) decimalNat.simps) (simp add: numeralValue_snoc)
  qed
qed

lemma positiveInt64_decimal: "0 < n \<Longrightarrow> n < 2 ^ 63 \<Longrightarrow> positiveInt64 (decimalNat n) = Some (decimalNat n)"
proof -
  assume n: "0 < n" "n < 2 ^ 63"
  obtain c cs where c: "decimalNat n = c # cs" using decimalNat_nonempty by (meson neq_Nil_conv)
  have "isDecimalDigit c" using decimalNat_digits [of n] c by simp
  then have "c \<noteq> CHR ''+''" by (auto simp: isDecimalDigit_def)
  then show ?thesis using n decimalNat_digits [of n] c by (simp add: positiveInt64_def)
qed

end
