(* ===== verification/Public_Hook.thy ===== *)
theory Public_Hook
  imports Providers Lifecycle Generation_Props Store_Evolution
begin

text \<open>
  The public webhook endpoint (\<^verbatim>\<open>internal/publichook/handler.go\<close>) and the sources of a generation
  (\<^verbatim>\<open>internal/runtimecfg/generation.go\<close>). A request is authenticated by its source, normalised, routed under the
  current generation or deferred while a reload is under way, and stored before it is acknowledged. The whole handler
  runs inside one read view of the lifecycle manager.
\<close>

section \<open>Sources\<close>

record Source =
  sc_provider :: string
  sc_id :: string
  sc_adapter :: Adapter
  sc_repositories :: "(string \<times> string) list"

definition sourceNormalize :: "Source \<Rightarrow> header \<Rightarrow> bytes \<Rightarrow> string + CanonicalEvent \<times> IncomingEvent" where
  "sourceNormalize s headers body =
     (case Normalize (sc_adapter s) headers body of
        Inl e \<Rightarrow> Inl e
      | Inr incoming \<Rightarrow>
          Inr (\<lparr>ce_Provider = sc_provider s, ce_Source = sc_id s,
                ce_Repository = (case map_of (sc_repositories s) (in_RepositoryExternalID incoming) of Some r \<Rightarrow> r | None \<Rightarrow> ''''),
                ce_Event = in_Event incoming, ce_Ref = in_Ref incoming, ce_Status = in_Status incoming,
                ce_Revision = in_Revision incoming, ce_CommitMessage = in_CommitMessage incoming,
                ce_ExternalID = in_ExternalID incoming, ce_Trigger = in_Trigger incoming\<rparr>, incoming))"

text \<open>The source tables of a generation: by provider and ID, and the GitLab sources by the digest of their token.\<close>

record Sources =
  so_sources :: "((string \<times> string) \<times> Source) list"
  so_gitLab :: "(string \<times> Source) list"

definition SourceOf :: "Sources \<Rightarrow> string \<Rightarrow> string \<Rightarrow> Source option" where
  "SourceOf ss providerName sourceID = map_of (so_sources ss) (providerName, sourceID)"

definition GitLabSource :: "(string \<Rightarrow> string) \<Rightarrow> Sources \<Rightarrow> header \<Rightarrow> Source option" where
  "GitLabSource sha ss headers =
     (let token = headerGet headers ''X-Gitlab-Token'' in
      if token = '''' then None
      else case map_of (so_gitLab ss) (sha token) of
        None \<Rightarrow> None
      | Some source \<Rightarrow> if Authenticate (sc_adapter source) headers '''' then Some source else None)"

section \<open>The handler\<close>

definition reloadDefers :: "State \<Rightarrow> bool" where
  "reloadDefers state \<longleftrightarrow> state = StateWaiting \<or> state = StateDraining \<or> state = StateApplying"

definition identityFields :: "CanonicalEvent \<Rightarrow> IncomingEvent \<Rightarrow> bytes \<Rightarrow> string list" where
  "identityFields event incoming body =
     [ce_Provider event, ce_Source event] @
     (if in_DeliveryID incoming \<noteq> '''' then [''delivery'', in_DeliveryID incoming]
      else [''fallback'', in_RepositoryExternalID incoming, ce_Event event, ce_Ref event, ce_Status event,
            ce_Revision event, ce_ExternalID event, ce_Trigger event, body])"

definition deliveryIdentity :: "(string \<Rightarrow> string) \<Rightarrow> CanonicalEvent \<Rightarrow> IncomingEvent \<Rightarrow> bytes \<Rightarrow> string" where
  "deliveryIdentity sha event incoming body = EncodeToString (sha (frameFields (identityFields event incoming body)))"

definition hasForwardDelivery :: "NewDelivery list \<Rightarrow> bool" where
  "hasForwardDelivery deliveries =
     list_ex (\<lambda>d. case nd_TargetSnapshot d of
                    SnapshotDoc h \<Rightarrow> ts_Type h = ''forward''
                  | SnapshotUnversioned h \<Rightarrow> ts_Type h = ''forward''
                  | _ \<Rightarrow> False) deliveries"

text \<open>What reading the body gives: \<^verbatim>\<open>http.MaxBytesReader\<close> stops above the limit.\<close>

datatype BodyRead = BodyBytes bytes | BodyTooLarge | BodyFailed

definition maxBodyBytes :: nat where
  "maxBodyBytes = 2 * 2 ^ 20"

definition readBody :: "bytes option \<Rightarrow> BodyRead" where
  "readBody body =
     (case body of None \<Rightarrow> BodyFailed | Some b \<Rightarrow> if length b > maxBodyBytes then BodyTooLarge else BodyBytes b)"

record WebRequest =
  wr_Method :: string
  wr_Host :: string
  wr_RawQuery :: string
  wr_SourceID :: string
  wr_Headers :: header
  wr_Body :: "bytes option"

datatype WebResponse = Accepted IngestResult | Rejected nat string

definition forwardRequestOf :: "WebRequest \<Rightarrow> ForwardRequest" where
  "forwardRequestOf r =
     \<lparr>fr_Version = 1, fr_Method = wr_Method r, fr_RawQuery = wr_RawQuery r, fr_Host = wr_Host r, fr_Headers = wr_Headers r\<rparr>"

text \<open>Locating the source: GitLab by token, the others by the path.\<close>

definition findSource :: "(string \<Rightarrow> string) \<Rightarrow> string \<Rightarrow> Sources \<Rightarrow> WebRequest \<Rightarrow> WebResponse + Source" where
  "findSource sha providerName ss r =
     (if providerName = ''gitlab'' then
        (case GitLabSource sha ss (wr_Headers r) of
           None \<Rightarrow> Inl (Rejected 401 ''unauthorized'') | Some s \<Rightarrow> Inr s)
      else
        (case SourceOf ss providerName (wr_SourceID r) of
           None \<Rightarrow> Inl (Rejected 404 ''not_found'') | Some s \<Rightarrow> Inr s))"

text \<open>The request up to the normalised event.\<close>

definition receive ::
  "(string \<Rightarrow> string) \<Rightarrow> string \<Rightarrow> Sources \<Rightarrow> WebRequest \<Rightarrow> WebResponse + CanonicalEvent \<times> IncomingEvent \<times> bytes" where
  "receive sha providerName ss r =
     (case findSource sha providerName ss r of
        Inl refused \<Rightarrow> Inl refused
      | Inr source \<Rightarrow>
          (case readBody (wr_Body r) of
             BodyTooLarge \<Rightarrow> Inl (Rejected 413 ''payload_too_large'')
           | BodyFailed \<Rightarrow> Inl (Rejected 400 ''bad_request'')
           | BodyBytes body \<Rightarrow>
               if \<not> Authenticate (sc_adapter source) (wr_Headers r) body then Inl (Rejected 401 ''unauthorized'')
               else (case sourceNormalize source (wr_Headers r) body of
                       Inl e \<Rightarrow> Inl (Rejected 400 ''bad_request'')
                     | Inr (event, incoming) \<Rightarrow>
                         if providerName = ''gitlab'' \<and> in_Supported incoming \<and> ce_Repository event = ''''
                         then Inl (Rejected 401 ''unauthorized'')
                         else Inr (event, incoming, body))))"

definition baseCommand ::
  "(string \<Rightarrow> string) \<Rightarrow> Generation \<Rightarrow> time \<Rightarrow> CanonicalEvent \<Rightarrow> IncomingEvent \<Rightarrow> bytes \<Rightarrow> IngestCommand" where
  "baseCommand sha g receivedAt event incoming body =
     \<lparr>ic_DeliveryID = deliveryIdentity sha event incoming body, ic_CanonicalEvent = event, ic_ReceivedAt = receivedAt,
      ic_RoutingResult = RoutingNone, ic_RuleID = '''', ic_RuleSnapshot = None, ic_ConfigDigest = gn_digest g,
      ic_HeadersJSON = HeadersObject (map (\<lambda>(n, v). (n, quoted v)) (in_SafeHeaders incoming)),
      ic_PayloadJSON = Some body, ic_RequestJSON = None, ic_Deliveries = []\<rparr>"

text \<open>The routing part of the command: unsupported, deferred, or decided by the current generation. The boolean says
  whether the event is deferred.\<close>

definition routeCommand ::
  "State \<Rightarrow> Generation \<Rightarrow> IncomingEvent \<Rightarrow> IngestCommand \<Rightarrow> WebResponse + bool \<times> IngestCommand" where
  "routeCommand state g incoming command =
     (let deferred = (in_Supported incoming \<and> reloadDefers state) in
      if \<not> in_Supported incoming then Inr (deferred, command\<lparr>ic_RoutingResult := RoutingUnsupported\<rparr>)
      else if deferred then Inr (deferred, command\<lparr>ic_RoutingResult := RoutingDeferred\<rparr>)
      else (case Route g (ic_CanonicalEvent command) of
              Inl e \<Rightarrow> Inl (Rejected 503 ''unavailable'')
            | Inr decision \<Rightarrow>
                Inr (deferred, command\<lparr>ic_RoutingResult := rd_RoutingResult decision, ic_RuleID := rd_RuleID decision,
                  ic_RuleSnapshot := rd_RuleSnapshot decision, ic_Deliveries := rd_Deliveries decision\<rparr>)))"

definition ServeHTTP ::
  "(nat \<Rightarrow> string) \<Rightarrow> (string \<Rightarrow> string) \<Rightarrow> string \<Rightarrow> Manager \<Rightarrow> Sources \<Rightarrow> time \<Rightarrow> WebRequest \<Rightarrow> db \<Rightarrow> WebResponse \<times> db" where
  "ServeHTTP uuid sha providerName m ss receivedAt r db =
     (case receive sha providerName ss r of
        Inl refused \<Rightarrow> (refused, db)
      | Inr (event, incoming, body) \<Rightarrow>
          (case routeCommand (mg_state m) (mg_current m) incoming (baseCommand sha (mg_current m) receivedAt event incoming body) of
             Inl refused \<Rightarrow> (refused, db)
           | Inr (deferred, command) \<Rightarrow>
               let command = (if deferred \<or> hasForwardDelivery (ic_Deliveries command)
                              then command\<lparr>ic_RequestJSON := Some (forwardRequestOf r)\<rparr> else command) in
               (case (if deferred then IngestDeferred uuid command db else Ingest uuid command db) of
                  (Inl e, db') \<Rightarrow> (Rejected 503 ''unavailable'', db')
                | (Inr result, db') \<Rightarrow> (Accepted result, db'))))"

section \<open>The command of a request\<close>

text \<open>The complete command the handler hands to the store, and which operation takes it.\<close>

definition hookCommand ::
  "(string \<Rightarrow> string) \<Rightarrow> string \<Rightarrow> Manager \<Rightarrow> Sources \<Rightarrow> time \<Rightarrow> WebRequest \<Rightarrow> WebResponse + bool \<times> IngestCommand" where
  "hookCommand sha providerName m ss receivedAt r =
     (case receive sha providerName ss r of
        Inl refused \<Rightarrow> Inl refused
      | Inr (event, incoming, body) \<Rightarrow>
          (case routeCommand (mg_state m) (mg_current m) incoming (baseCommand sha (mg_current m) receivedAt event incoming body) of
             Inl refused \<Rightarrow> Inl refused
           | Inr (deferred, command) \<Rightarrow>
               Inr (deferred, if deferred \<or> hasForwardDelivery (ic_Deliveries command)
                              then command\<lparr>ic_RequestJSON := Some (forwardRequestOf r)\<rparr> else command)))"

definition storeCommand :: "(nat \<Rightarrow> string) \<Rightarrow> bool \<Rightarrow> IngestCommand \<Rightarrow> db \<Rightarrow> (store_error + IngestResult) \<times> db" where
  "storeCommand uuid deferred command db = (if deferred then IngestDeferred uuid command db else Ingest uuid command db)"

lemma ServeHTTP_eq:
  "ServeHTTP uuid sha p m ss at r db =
     (case hookCommand sha p m ss at r of
        Inl refused \<Rightarrow> (refused, db)
      | Inr (deferred, command) \<Rightarrow>
          (case storeCommand uuid deferred command db of
             (Inl e, db') \<Rightarrow> (Rejected 503 ''unavailable'', db')
           | (Inr result, db') \<Rightarrow> (Accepted result, db')))"
  by (auto simp: ServeHTTP_def hookCommand_def storeCommand_def Let_def split: sum.splits prod.splits)

lemma hookCommand_InrD:
  assumes "hookCommand sha p m ss at r = Inr (deferred, c)"
  shows "\<exists>event incoming body. receive sha p ss r = Inr (event, incoming, body) \<and>
     ic_CanonicalEvent c = event \<and> ic_DeliveryID c = deliveryIdentity sha event incoming body \<and> ic_ReceivedAt c = at \<and>
     ic_PayloadJSON c = Some body \<and>
     deferred = (in_Supported incoming \<and> reloadDefers (mg_state m)) \<and> (ic_RoutingResult c = RoutingDeferred \<longleftrightarrow> deferred) \<and>
     ((\<not> in_Supported incoming \<or> deferred) \<and> ic_Deliveries c = [] \<or>
      (\<exists>dec. Route (mg_current m) event = Inr dec \<and> ic_Deliveries c = rd_Deliveries dec \<and> ic_RoutingResult c = rd_RoutingResult dec))"
proof -
  obtain event incoming body where rc: "receive sha p ss r = Inr (event, incoming, body)"
    using assms by (auto simp: hookCommand_def split: sum.splits prod.splits)
  let ?b = "baseCommand sha (mg_current m) at event incoming body"
  have rt: "\<exists>c0. routeCommand (mg_state m) (mg_current m) incoming ?b = Inr (deferred, c0) \<and>
      (c = c0 \<or> c = c0\<lparr>ic_RequestJSON := Some (forwardRequestOf r)\<rparr>)"
    using assms rc by (auto simp: hookCommand_def split: sum.splits prod.splits if_splits)
  then obtain c0 where c0: "routeCommand (mg_state m) (mg_current m) incoming ?b = Inr (deferred, c0)"
    and c: "c = c0 \<or> c = c0\<lparr>ic_RequestJSON := Some (forwardRequestOf r)\<rparr>" by blast
  have "ic_CanonicalEvent c0 = event \<and> ic_DeliveryID c0 = deliveryIdentity sha event incoming body \<and> ic_ReceivedAt c0 = at \<and>
     ic_PayloadJSON c0 = Some body \<and>
     deferred = (in_Supported incoming \<and> reloadDefers (mg_state m)) \<and> (ic_RoutingResult c0 = RoutingDeferred \<longleftrightarrow> deferred) \<and>
     ((\<not> in_Supported incoming \<or> deferred) \<and> ic_Deliveries c0 = [] \<or>
      (\<exists>dec. Route (mg_current m) event = Inr dec \<and> ic_Deliveries c0 = rd_Deliveries dec \<and> ic_RoutingResult c0 = rd_RoutingResult dec))"
    using c0 Route_final [of "mg_current m" event]
    by (auto simp: routeCommand_def baseCommand_def final_decision_def Let_def split: if_splits sum.splits)
  then show ?thesis using rc c by auto
qed

lemma storeCommand_durable: "inj uuid \<Longrightarrow> durable_inv uuid db \<Longrightarrow> durable_inv uuid (snd (storeCommand uuid b c db))"
  by (simp add: storeCommand_def Ingest_durable IngestDeferred_durable)

lemma storeCommand_evolves: "inj uuid \<Longrightarrow> evolves uuid {} db (snd (storeCommand uuid b c db))"
  by (simp add: storeCommand_def Ingest_evolves IngestDeferred_evolves)

lemma ServeHTTP_snd:
  "snd (ServeHTTP uuid sha p m ss at r db) =
     (case hookCommand sha p m ss at r of Inl _ \<Rightarrow> db | Inr (b, c) \<Rightarrow> snd (storeCommand uuid b c db))"
  by (auto simp: ServeHTTP_eq split: sum.splits prod.splits)

lemma ServeHTTP_durable:
  "inj uuid \<Longrightarrow> durable_inv uuid db \<Longrightarrow> durable_inv uuid (snd (ServeHTTP uuid sha p m ss at r db))"
  by (auto simp: ServeHTTP_snd storeCommand_durable split: sum.splits)

lemma ServeHTTP_evolves: "inj uuid \<Longrightarrow> evolves uuid {} db (snd (ServeHTTP uuid sha p m ss at r db))"
  by (auto simp: ServeHTTP_snd storeCommand_evolves split: sum.splits)

section \<open>Acknowledged means stored, once\<close>

lemma storeCommand_stored:
  assumes u: "inj uuid" and inv: "durable_inv uuid db" and s: "storeCommand uuid b c db = (Inr result, db')"
    and b: "b \<longleftrightarrow> ic_RoutingResult c = RoutingDeferred"
  shows "valid_command c \<and> (\<exists>e\<in>set (db_events db'). ev_id e = ir_EventID result \<and> eventKey e = commandKey c) \<and>
    (ir_Duplicate result \<longleftrightarrow> commandKey c \<in> eventKey ` set (db_events db)) \<and>
    (ir_Duplicate result \<longrightarrow> db' = db\<lparr>db_uuids := Suc (db_uuids db)\<rparr>)"
proof -
  have v: "valid_command c"
  proof (rule ccontr)
    assume "\<not> valid_command c"
    then have "\<exists>e. storeCommand uuid b c db = (Inl e, db)"
      using ingest_invalid [of c uuid db] by (simp add: storeCommand_def)
    then show False using s by auto
  qed
  show ?thesis
  proof (cases "commandKey c \<in> eventKey ` set (db_events db)")
    case True
    then obtain e where e: "e \<in> set (db_events db)" "eventKey e = commandKey c" by auto
    then show ?thesis
      using ingest_duplicate [OF inv v e] s b v True by (cases b) (auto simp: storeCommand_def)
  next
    case new: False
    let ?e = "eventRow (uuid (db_uuids db)) c"
    show ?thesis
    proof (cases b)
      case True
      then show ?thesis
        using IngestDeferred_new_eq [OF u inv v _ new] s b v new
        by (auto simp: storeCommand_def event_queued_def event_added_def Let_def intro!: bexI [of _ ?e])
    next
      case False
      then have r: "ic_RoutingResult c \<noteq> RoutingDeferred" using b by simp
      obtain d where d: "insertDeliveries uuid (uuid (db_uuids db)) (UnixMilli (ic_ReceivedAt c)) (ic_Deliveries c)
             (event_added uuid c db) = Some d" "db' = d" "result = \<lparr>ir_EventID = uuid (db_uuids db), ir_Duplicate = False\<rparr>"
        using Ingest_new_eq [OF u inv v r new] s False by (auto simp: storeCommand_def split: option.splits)
      have "db_events d = db_events (event_added uuid c db)"
        using Ingest_inserted [OF u inv v r new d(1)] by (simp add: adds_deliveries_def)
      then show ?thesis using d v new by (auto simp: event_added_def Let_def intro!: bexI [of _ ?e])
    qed
  qed
qed

lemma hookCommand_deferred: "hookCommand sha p m ss at r = Inr (b, c) \<Longrightarrow> b \<longleftrightarrow> ic_RoutingResult c = RoutingDeferred"
  by (drule hookCommand_InrD) blast

text \<open>What is refused is refused with a status; only the store's answer is an acceptance.\<close>

definition refusal :: "WebResponse \<Rightarrow> bool" where
  "refusal w \<longleftrightarrow> (\<exists>code text. w = Rejected code text)"

lemma receive_refusal: "receive sha p ss r = Inl w \<Longrightarrow> refusal w"
  unfolding receive_def findSource_def refusal_def
  by (auto split: sum.splits option.splits if_splits prod.splits BodyRead.splits)

lemma routeCommand_refusal: "routeCommand s g i c = Inl w \<Longrightarrow> refusal w"
  by (auto simp: routeCommand_def refusal_def Let_def split: if_splits sum.splits)

lemma hookCommand_refusal: "hookCommand sha p m ss at r = Inl w \<Longrightarrow> refusal w"
  using receive_refusal [of sha p ss r w] routeCommand_refusal
  by (auto simp: hookCommand_def split: sum.splits prod.splits)

lemma ServeHTTP_accepted:
  assumes u: "inj uuid" and inv: "durable_inv uuid db" and s: "ServeHTTP uuid sha p m ss at r db = (Accepted result, db')"
  shows "\<exists>b c. hookCommand sha p m ss at r = Inr (b, c) \<and> storeCommand uuid b c db = (Inr result, db') \<and>
    valid_command c \<and> (\<exists>e\<in>set (db_events db'). ev_id e = ir_EventID result \<and> eventKey e = commandKey c) \<and>
    (ir_Duplicate result \<longleftrightarrow> commandKey c \<in> eventKey ` set (db_events db)) \<and>
    (ir_Duplicate result \<longrightarrow> db' = db\<lparr>db_uuids := Suc (db_uuids db)\<rparr>)"
proof -
  obtain b c where h: "hookCommand sha p m ss at r = Inr (b, c)"
    using s hookCommand_refusal [of sha p m ss at r]
    by (cases "hookCommand sha p m ss at r") (auto simp: ServeHTTP_eq refusal_def)
  then have st: "storeCommand uuid b c db = (Inr result, db')"
    using s by (auto simp: ServeHTTP_eq split: sum.splits prod.splits)
  show ?thesis using h st storeCommand_stored [OF u inv st hookCommand_deferred [OF h]] by blast
qed

text \<open>The same delivery again, under any lifecycle state, with any command of the same identity: the first event's ID
  comes back and no table changes.\<close>

lemma redelivery:
  assumes inv: "durable_inv uuid db" and h: "hookCommand sha p m ss at r = Inr (b, c)"
    and e: "e \<in> set (db_events db)" "eventKey e = commandKey c" and v: "valid_command c"
  shows "ServeHTTP uuid sha p m ss at r db =
    (Accepted \<lparr>ir_EventID = ev_id e, ir_Duplicate = True\<rparr>, db\<lparr>db_uuids := Suc (db_uuids db)\<rparr>)"
  using ingest_duplicate [OF inv v e] h hookCommand_deferred [OF h]
  by (cases b) (simp_all add: ServeHTTP_eq storeCommand_def)

text \<open>The routing table can change between two deliveries of one webhook, but not the identity.\<close>

lemma identity_independent:
  assumes "hookCommand sha p m ss at r = Inr (b, c)" and "hookCommand sha p m' ss at' r = Inr (b', c')"
  shows "commandKey c' = commandKey c"
  using hookCommand_InrD [OF assms(1)] hookCommand_InrD [OF assms(2)] by (auto simp: commandKey_def)

section \<open>Identities\<close>

lemma identityFields_inject:
  assumes "identityFields e i body = identityFields e' i' body'"
  shows "ce_Provider e = ce_Provider e' \<and> ce_Source e = ce_Source e' \<and> in_DeliveryID i = in_DeliveryID i' \<and>
    (in_DeliveryID i = '''' \<longrightarrow> body = body' \<and> ce_Event e = ce_Event e' \<and> ce_Revision e = ce_Revision e')"
  using assms by (auto simp: identityFields_def split: if_splits)

lemma deliveryIdentity_inject:
  assumes "inj_on sha {frameFields (identityFields e i body), frameFields (identityFields e' i' body')}"
    and "short_fields (identityFields e i body)" "short_fields (identityFields e' i' body')"
    and "deliveryIdentity sha e i body = deliveryIdentity sha e' i' body'"
  shows "identityFields e i body = identityFields e' i' body'"
  using digest_inject [OF assms(1,2,3)] assms(4) by (simp add: deliveryIdentity_def)

section \<open>Refusals and routing\<close>

lemma receive_authentic:
  assumes "receive sha p ss r = Inr (event, incoming, body)"
  shows "\<exists>s. findSource sha p ss r = Inr s \<and> wr_Body r = Some body \<and> length body \<le> maxBodyBytes \<and>
    Authenticate (sc_adapter s) (wr_Headers r) body \<and> sourceNormalize s (wr_Headers r) body = Inr (event, incoming) \<and>
    (p = ''gitlab'' \<and> in_Supported incoming \<longrightarrow> ce_Repository event \<noteq> '''')"
proof -
  obtain s where s: "findSource sha p ss r = Inr s" using assms by (auto simp: receive_def split: sum.splits)
  obtain b where b: "wr_Body r = Some b" "length b \<le> maxBodyBytes"
    using assms s by (auto simp: receive_def readBody_def split: option.splits if_splits)
  have a: "Authenticate (sc_adapter s) (wr_Headers r) b" using assms s b by (auto simp: receive_def readBody_def split: if_splits)
  show ?thesis
    using assms s b a
    by (cases "sourceNormalize s (wr_Headers r) b") (auto simp: receive_def readBody_def split: if_splits)
qed

lemma ServeHTTP_rejected:
  assumes "fst (ServeHTTP uuid sha p m ss at r db) = Rejected code text" and u: "inj uuid" and inv: "durable_inv uuid db"
  shows "snd (ServeHTTP uuid sha p m ss at r db) = db"
proof -
  have "snd (storeCommand uuid b c db) = db" if "storeCommand uuid b c db = (Inl e, db1)" for b c e db1
    using that by (auto simp: storeCommand_def Ingest_def IngestDeferred_def draw_def split: if_splits option.splits prod.splits)
  then show ?thesis
    using assms(1) by (auto simp: ServeHTTP_eq split: sum.splits prod.splits)
qed

text \<open>A direct decision only names targets of the current generation, bound as they are now.\<close>

lemma hookCommand_compatible:
  assumes ok: "bindings_ok sha canon (mg_current m)" and h: "hookCommand sha p m ss at r = Inr (b, c)"
    and d: "d \<in> set (ic_Deliveries c)"
  shows "\<exists>t. ResolveTarget sha canon (mg_current m) (nd_TargetID d) (Some (nd_TargetSnapshot d)) = (Some t, BindingCompatible) \<and>
     nd_DispatchKey d = tg_Fingerprint t"
  using hookCommand_InrD [OF h] d Route_compatible [OF ok] by (metis empty_iff list.set(1))

end
