(* ===== verification/System.thy ===== *)
theory System
  imports Compatibility Public_Hook
begin

text \<open>
  The running program: the database, the lifecycle manager, and what the workers and the requests in progress hold in
  memory. A step is one transaction of the store, one critical section of the manager, one request sent, or a crash
  followed by start-up; transactions never interleave because the pool has one connection, and everything between two
  transactions of one component may be interleaved with the steps of all others.

  \<^item> One dispatcher, one poller and one drainer run; manual operations come from any number of requests.
  \<^item> \<open>sy_manual\<close> are the manual operations between their read and their write. They hold a read view, so the manager's
    write lock, which every lifecycle transition takes, is not available while the list is not empty.
  \<^item> \<open>sy_sent\<close> is the history of the requests that left the program, by attempt. A request is one call of the HTTP client; that
    \<^verbatim>\<open>net/http\<close> itself may send an idempotent request again when a reused connection breaks before the answer is outside the model.
  \<^item> Answers of remote systems, clocks and webhooks are arbitrary. \<open>loads\<close> are the configurations that may ever be loaded; nothing
    is required of them here. A property that needs each of them to resolve the snapshots it makes (\<open>bindings_ok\<close>) says so:
    \<open>compiled_bundle_serves\<close> proves it for connections at plain hosts, and a base URL with an IPv6 literal can break it
    (\<open>ipv6_brackets_lost\<close>).
\<close>

section \<open>States and steps\<close>

datatype dispatch =
    DispatchIdle
  | DispatchClaimed PendingAttempt "Target option"
  | DispatchRecorded PendingAttempt Target
  | DispatchAnswered PendingAttempt Target

record system =
  sy_db :: db
  sy_manager :: Manager
  sy_dispatch :: dispatch
  sy_polls :: "PollWork list"
  sy_manual :: "CurrentAttemptRow list"
  sy_sent :: "string list"

definition start :: "db \<Rightarrow> Manager \<Rightarrow> string list \<Rightarrow> system" where
  "start db m sent = \<lparr>sy_db = db, sy_manager = m, sy_dispatch = DispatchIdle, sy_polls = [], sy_manual = [], sy_sent = sent\<rparr>"

text \<open>The outcome transactions of the dispatcher.\<close>

inductive marks :: "(nat \<Rightarrow> string) \<Rightarrow> string \<Rightarrow> db \<Rightarrow> db \<Rightarrow> bool" for uuid aid db where
  enqueued: "marks uuid aid db (snd (MarkEnqueued uuid aid rq rs at due dl db))"
| accepted: "marks uuid aid db (snd (MarkAccepted uuid aid rq rs at db))"
| failed: "marks uuid aid db (snd (MarkTransportFailed uuid aid rq rs at db))"
| unknown: "marks uuid aid db (snd (MarkTransportUnknown uuid aid rq rs at due dl db))"
| unknown_terminal: "marks uuid aid db (snd (MarkTransportUnknownTerminal uuid aid rq rs at db))"

inductive step ::
  "(nat \<Rightarrow> string) \<Rightarrow> (string \<Rightarrow> string) \<Rightarrow> canonical \<Rightarrow> (Generation \<Rightarrow> bool) \<Rightarrow> system \<Rightarrow> system \<Rightarrow> bool"
  for uuid sha canon loads where
  webhook: "step uuid sha canon loads s (s\<lparr>sy_db := snd (ServeHTTP uuid sha p (sy_manager s) ss at r (sy_db s))\<rparr>)"
| claim: "sy_dispatch s = DispatchIdle \<Longrightarrow> ClaimPendingAttempt uuid now (sy_db s) = (Inr (Some w), db') \<Longrightarrow>
    step uuid sha canon loads s (s\<lparr>sy_db := db', sy_dispatch := DispatchClaimed w
      (fst (ResolveTarget sha canon (mg_current (sy_manager s)) (pa_TargetID w) (pa_TargetSnapshot w)))\<rparr>)"
| cursor: "sy_dispatch s = DispatchClaimed w (Some t) \<Longrightarrow>
    step uuid sha canon loads s (s\<lparr>sy_db := snd (SetDeploymentCursor (pa_AttemptID w) c (sy_db s))\<rparr>)"
| refuse: "sy_dispatch s = DispatchClaimed w ot \<Longrightarrow> marks uuid (pa_AttemptID w) (sy_db s) db' \<Longrightarrow>
    step uuid sha canon loads s (s\<lparr>sy_db := db', sy_dispatch := DispatchIdle\<rparr>)"
| record_request: "sy_dispatch s = DispatchClaimed w (Some t) \<Longrightarrow>
    RecordDeploymentRequest (pa_AttemptID w) rq at (sy_db s) = (Inr (), db') \<Longrightarrow>
    step uuid sha canon loads s (s\<lparr>sy_db := db', sy_dispatch := DispatchRecorded w t\<rparr>)"
| send: "sy_dispatch s = DispatchRecorded w t \<Longrightarrow>
    step uuid sha canon loads s (s\<lparr>sy_dispatch := DispatchAnswered w t, sy_sent := sy_sent s @ [pa_AttemptID w]\<rparr>)"
| send_refused: "sy_dispatch s = DispatchRecorded w t \<Longrightarrow> step uuid sha canon loads s (s\<lparr>sy_dispatch := DispatchAnswered w t\<rparr>)"
| outcome: "sy_dispatch s = DispatchAnswered w t \<Longrightarrow> marks uuid (pa_AttemptID w) (sy_db s) db' \<Longrightarrow>
    step uuid sha canon loads s (s\<lparr>sy_db := db', sy_dispatch := DispatchIdle\<rparr>)"
| dispatch_error: "step uuid sha canon loads s (s\<lparr>sy_dispatch := DispatchIdle\<rparr>)"
| poll_claim: "sy_polls s = [] \<Longrightarrow> ListDuePolls now (sy_db s) = (Inr ws, db') \<Longrightarrow>
    step uuid sha canon loads s (s\<lparr>sy_db := db', sy_polls := ws\<rparr>)"
| poll_complete: "sy_polls s = w # ws \<Longrightarrow>
    step uuid sha canon loads s
      (s\<lparr>sy_db := snd (CompletePoll uuid w (pollItem sha canon g remote now w) now (sy_db s)), sy_polls := ws\<rparr>)"
| poll_error: "step uuid sha canon loads s (s\<lparr>sy_polls := []\<rparr>)"
| drain: "DrainerRunOnce uuid (sy_manager s) (sy_db s) = (r, m', db') \<Longrightarrow>
    (mg_state m' \<noteq> mg_state (sy_manager s) \<Longrightarrow> sy_manual s = []) \<Longrightarrow>
    step uuid sha canon loads s (s\<lparr>sy_db := db', sy_manager := m'\<rparr>)"
| manual_read: "admit sha canon (sy_manager s) i e op (sy_db s) = Inr (t, c) \<Longrightarrow>
    step uuid sha canon loads s (s\<lparr>sy_manual := c # sy_manual s\<rparr>)"
| manual_write: "c \<in> set (sy_manual s) \<Longrightarrow> manual_update u \<Longrightarrow> mu_Expected u = c \<Longrightarrow>
    step uuid sha canon loads s (s\<lparr>sy_db := snd (ApplyManualUpdate uuid u (sy_db s)), sy_manual := remove1 c (sy_manual s)\<rparr>)"
| manual_leave: "step uuid sha canon loads s (s\<lparr>sy_manual := remove1 c (sy_manual s)\<rparr>)"
| retain: "step uuid sha canon loads s (s\<lparr>sy_db := snd (RetentionRunOnce cutoff (mg_current (sy_manager s)) (sy_db s))\<rparr>)"
| clear_history: "step uuid sha canon loads s (s\<lparr>sy_db := snd (ClearHistory (sy_db s))\<rparr>)"
| reload_begin: "sy_manual s = [] \<Longrightarrow> step uuid sha canon loads s (s\<lparr>sy_manager := snd (reloadBegin (sy_manager s))\<rparr>)"
| reload_complete: "sy_manual s = [] \<Longrightarrow> mg_state (sy_manager s) = StateValidating \<Longrightarrow>
    (\<And>g. loaded = Inr g \<Longrightarrow> loads g) \<Longrightarrow>
    step uuid sha canon loads s (s\<lparr>sy_manager := snd (reloadComplete now loaded (countActiveOf (sy_db s)) (sy_manager s))\<rparr>)"
| reload_advance: "sy_manual s = [] \<Longrightarrow>
    step uuid sha canon loads s (s\<lparr>sy_manager := snd (advanceWaiting now (countActiveOf (sy_db s)) (sy_manager s))\<rparr>)"
| restart: "loads g \<Longrightarrow> Prepare uuid sha canon now (NewManager g loadedAt) (sy_db s) = (Inr (), m', db') \<Longrightarrow>
    step uuid sha canon loads s (start db' m' (sy_sent s))"

inductive reachable ::
  "(nat \<Rightarrow> string) \<Rightarrow> (string \<Rightarrow> string) \<Rightarrow> canonical \<Rightarrow> (Generation \<Rightarrow> bool) \<Rightarrow> system \<Rightarrow> bool"
  for uuid sha canon loads where
  initial: "loads g \<Longrightarrow> reachable uuid sha canon loads (start empty_db (NewManager g loadedAt) [])"
| further: "reachable uuid sha canon loads s \<Longrightarrow> step uuid sha canon loads s s' \<Longrightarrow> reachable uuid sha canon loads s'"

inductive_cases stepE: "step uuid sha canon loads s s'"

section \<open>The invariant\<close>

text \<open>\<open>drawn\<close>: the identifier comes from the generator's past. \<open>marked\<close>: the attempt, if its row still exists, has a request
  recorded.\<close>

definition drawn :: "(nat \<Rightarrow> string) \<Rightarrow> db \<Rightarrow> string \<Rightarrow> bool" where
  "drawn uuid db i \<longleftrightarrow> i \<in> uuid ` {..<db_uuids db}"

definition marked :: "db \<Rightarrow> string \<Rightarrow> bool" where
  "marked db i \<longleftrightarrow> (\<forall>a\<in>set (db_attempts db). at_id a = i \<longrightarrow> at_request_at a \<noteq> None)"

definition sent_ok :: "(nat \<Rightarrow> string) \<Rightarrow> db \<Rightarrow> string list \<Rightarrow> bool" where
  "sent_ok uuid db sent \<longleftrightarrow> distinct sent \<and> (\<forall>i\<in>set sent. drawn uuid db i \<and> marked db i)"

text \<open>The attempt the dispatcher works on is current and being sent, and the target it resolved is the one of the current
  configuration for it.\<close>

definition in_hand :: "(string \<Rightarrow> string) \<Rightarrow> canonical \<Rightarrow> Generation \<Rightarrow> db \<Rightarrow> PendingAttempt \<Rightarrow> Target option \<Rightarrow> bool" where
  "in_hand sha canon g db w ot \<longleftrightarrow>
     (\<exists>(d, a)\<in>set (current_pairs db). at_id a = pa_AttemptID w \<and> at_transport_status a = TransportSending \<and>
        ot = fst (ResolveTarget sha canon g (dl_target_id d) (dl_target_snapshot d)))"

definition dispatch_ok :: "(nat \<Rightarrow> string) \<Rightarrow> (string \<Rightarrow> string) \<Rightarrow> canonical \<Rightarrow> system \<Rightarrow> bool" where
  "dispatch_ok uuid sha canon s =
     (let hand = in_hand sha canon (mg_current (sy_manager s)) (sy_db s) in
      case sy_dispatch s of
        DispatchIdle \<Rightarrow> True
      | DispatchClaimed w ot \<Rightarrow> hand w ot \<and> pa_AttemptID w \<notin> set (sy_sent s) \<and> drawn uuid (sy_db s) (pa_AttemptID w)
      | DispatchRecorded w t \<Rightarrow> hand w (Some t) \<and> pa_AttemptID w \<notin> set (sy_sent s) \<and> drawn uuid (sy_db s) (pa_AttemptID w) \<and>
          marked (sy_db s) (pa_AttemptID w)
      | DispatchAnswered w t \<Rightarrow> hand w (Some t))"

text \<open>Configurations are sound if each resolves the snapshots it makes. \<open>safe_pair\<close> is the compatibility of a delivery under this
  condition on the configurations loaded.\<close>

definition sound :: "(string \<Rightarrow> string) \<Rightarrow> canonical \<Rightarrow> (Generation \<Rightarrow> bool) \<Rightarrow> bool" where
  "sound sha canon loads \<longleftrightarrow> (\<forall>g. loads g \<longrightarrow> bindings_ok sha canon g)"

definition safe_pair :: "(string \<Rightarrow> string) \<Rightarrow> canonical \<Rightarrow> (Generation \<Rightarrow> bool) \<Rightarrow> Generation \<Rightarrow> delivery_row \<Rightarrow> bool" where
  "safe_pair sha canon loads g d \<longleftrightarrow> (sound sha canon loads \<longrightarrow> pair_compatible sha canon g d)"

lemma safe_pair_target: "target_property (safe_pair sha canon loads g)"
  using pair_compatible_target [of sha canon g] unfolding safe_pair_def target_property_def by metis

lemma safe_covers:
  assumes "sound sha canon loads" and "covers uuid (safe_pair sha canon loads g) db db'"
  shows "covers uuid (pair_compatible sha canon g) db db'"
proof -
  have "safe_pair sha canon loads g = pair_compatible sha canon g" by (rule ext) (simp add: safe_pair_def assms(1))
  then show ?thesis using assms(2) by simp
qed

text \<open>A manual operation in progress was admitted: its delivery, if still there, is bound to the current configuration,
  and it was not being sent.\<close>

definition manual_ok ::
  "(nat \<Rightarrow> string) \<Rightarrow> (string \<Rightarrow> string) \<Rightarrow> canonical \<Rightarrow> (Generation \<Rightarrow> bool) \<Rightarrow> Generation \<Rightarrow> db \<Rightarrow> CurrentAttemptRow \<Rightarrow> bool" where
  "manual_ok uuid sha canon loads g db c \<longleftrightarrow>
     drawn uuid db (ca_DeliveryID c) \<and> ca_TransportStatus c \<noteq> TransportSending \<and>
     (\<forall>(d, a)\<in>set (current_pairs db). dl_id d = ca_DeliveryID c \<longrightarrow> safe_pair sha canon loads g d)"

definition sys_inv ::
  "(nat \<Rightarrow> string) \<Rightarrow> (string \<Rightarrow> string) \<Rightarrow> canonical \<Rightarrow> (Generation \<Rightarrow> bool) \<Rightarrow> system \<Rightarrow> bool" where
  "sys_inv uuid sha canon loads s \<longleftrightarrow>
     durable_inv uuid (sy_db s) \<and> (sound sha canon loads \<longrightarrow> active_compatible sha canon (mg_current (sy_manager s)) (sy_db s)) \<and>
     loads (mg_current (sy_manager s)) \<and> (\<forall>g. mg_candidate (sy_manager s) = Some g \<longrightarrow> loads g) \<and> manager_ok (sy_manager s) \<and>
     works_ok uuid (sy_db s) (sy_polls s) \<and> sent_ok uuid (sy_db s) (sy_sent s) \<and> dispatch_ok uuid sha canon s \<and>
     (\<forall>c\<in>set (sy_manual s). manual_ok uuid sha canon loads (mg_current (sy_manager s)) (sy_db s) c)"

section \<open>What a transaction keeps\<close>

lemma drawn_evolves: "drawn uuid db i \<Longrightarrow> evolves uuid X db db' \<Longrightarrow> drawn uuid db' i"
  by (auto simp: drawn_def evolves_def)

lemma marked_evolves:
  assumes "drawn uuid db i" and "marked db i" and e: "evolves uuid X db db'"
  shows "marked db' i"
  unfolding marked_def
proof (intro ballI impI)
  fix b assume b: "b \<in> set (db_attempts db')" "at_id b = i"
  then obtain a where "a \<in> set (db_attempts db)" "carries X a b"
    using e assms(1) by (auto simp: evolves_def fresh_row_def drawn_def)
  then show "at_request_at b \<noteq> None" using assms(2) b(2) by (auto simp: marked_def carries_def)
qed

lemma sent_ok_evolves: "sent_ok uuid db sent \<Longrightarrow> evolves uuid X db db' \<Longrightarrow> sent_ok uuid db' sent"
  using drawn_evolves marked_evolves unfolding sent_ok_def by blast

lemma in_hand_protects:
  assumes "in_hand sha canon g db w ot" and "protects db db'"
  shows "in_hand sha canon g db' w ot"
proof -
  obtain d a where x: "(d, a) \<in> set (current_pairs db)" "at_id a = pa_AttemptID w" "at_transport_status a = TransportSending"
      "ot = fst (ResolveTarget sha canon g (dl_target_id d) (dl_target_snapshot d))"
    using assms(1) unfolding in_hand_def by blast
  then obtain d' a' where "(d', a') \<in> set (current_pairs db')" "same_send (d, a) (d', a')"
    using assms(2) unfolding protects_def by fastforce
  then show ?thesis using x unfolding in_hand_def same_send_def by (intro bexI [of _ "(d', a')"]) auto
qed

lemma in_hand_active: "in_hand sha canon g db w ot \<Longrightarrow> has_active db"
  unfolding in_hand_def has_active_def by (auto simp: Active_def simp del: in_current_pairs)

lemma manual_ok_covers:
  assumes m: "manual_ok uuid sha canon loads g db c" and e: "evolves uuid X db db'"
    and c: "covers uuid (safe_pair sha canon loads g) db db'"
  shows "manual_ok uuid sha canon loads g db' c"
proof -
  have "safe_pair sha canon loads g d" if da: "(d, a) \<in> set (current_pairs db')" "dl_id d = ca_DeliveryID c" for d a
  proof -
    have "\<not> (dl_id d \<notin> uuid ` {..<db_uuids db})" using m da(2) by (simp add: manual_ok_def drawn_def)
    then obtain x where x: "x \<in> set (current_pairs db)" "inherits (safe_pair sha canon loads g) x (d, a)"
      using c da(1) unfolding covers_def by fastforce
    note t = inherits_target [OF x(2)]
    have "dl_id (fst x) = ca_DeliveryID c" using t da(2) by simp
    then have "safe_pair sha canon loads g (fst x)" using m x(1) unfolding manual_ok_def by (metis (mono_tags, lifting) case_prodD prod.collapse)
    then show ?thesis using target_propertyD [OF safe_pair_target] t by (metis fst_conv)
  qed
  then show ?thesis using m drawn_evolves [OF _ e] by (auto simp: manual_ok_def simp del: in_current_pairs)
qed

text \<open>The part of the invariant that does not speak of the dispatcher.\<close>

definition base_inv ::
  "(nat \<Rightarrow> string) \<Rightarrow> (string \<Rightarrow> string) \<Rightarrow> canonical \<Rightarrow> (Generation \<Rightarrow> bool) \<Rightarrow> system \<Rightarrow> bool" where
  "base_inv uuid sha canon loads s \<longleftrightarrow> sys_inv uuid sha canon loads (s\<lparr>sy_dispatch := DispatchIdle\<rparr>)"

lemma sys_inv_base: "sys_inv uuid sha canon loads s \<longleftrightarrow> base_inv uuid sha canon loads s \<and> dispatch_ok uuid sha canon s"
  by (auto simp: base_inv_def sys_inv_def dispatch_ok_def)

lemma base_inv_dispatch [simp]: "base_inv uuid sha canon loads (s\<lparr>sy_dispatch := x\<rparr>) = base_inv uuid sha canon loads s"
  by (simp add: base_inv_def)

lemma base_tx:
  assumes i: "base_inv uuid sha canon loads s" and d: "durable_inv uuid db'" and e: "evolves uuid X (sy_db s) db'"
    and c: "covers uuid (safe_pair sha canon loads (mg_current (sy_manager s))) (sy_db s) db'"
    and p: "works_ok uuid db' ps"
  shows "base_inv uuid sha canon loads (s\<lparr>sy_db := db', sy_polls := ps\<rparr>)"
  using i d p covers_compatible [OF _ safe_covers [OF _ c]] sent_ok_evolves [OF _ e] manual_ok_covers [OF _ e c]
  by (auto simp: base_inv_def sys_inv_def dispatch_ok_def)

lemma base_works: "base_inv uuid sha canon loads s \<Longrightarrow> evolves uuid {} (sy_db s) db' \<Longrightarrow> works_ok uuid db' (sy_polls s)"
  using works_ok_evolves [of uuid "sy_db s" "sy_polls s" "{}" db'] by (simp add: base_inv_def sys_inv_def)

lemma same_polls: "s\<lparr>sy_db := db', sy_polls := sy_polls s\<rparr> = s\<lparr>sy_db := db'\<rparr>"
  by (rule system.equality) simp_all

lemma base_tx0:
  assumes "base_inv uuid sha canon loads s" and "durable_inv uuid db'" and e: "evolves uuid {} (sy_db s) db'"
    and "covers uuid (safe_pair sha canon loads (mg_current (sy_manager s))) (sy_db s) db'"
  shows "base_inv uuid sha canon loads (s\<lparr>sy_db := db'\<rparr>)"
  using base_tx [OF assms base_works [OF assms(1) e]] by (simp only: same_polls)

lemma dispatch_tx:
  assumes i: "dispatch_ok uuid sha canon s" and e: "evolves uuid X (sy_db s) db'" and p: "protects (sy_db s) db'"
  shows "dispatch_ok uuid sha canon (s\<lparr>sy_db := db', sy_polls := ps\<rparr>)"
  using i in_hand_protects [OF _ p] drawn_evolves [OF _ e] marked_evolves [OF _ _ e]
  by (auto simp: dispatch_ok_def Let_def split: dispatch.splits)

lemma dispatch_tx0:
  assumes "dispatch_ok uuid sha canon s" and "evolves uuid X (sy_db s) db'" and "protects (sy_db s) db'"
  shows "dispatch_ok uuid sha canon (s\<lparr>sy_db := db'\<rparr>)"
  using dispatch_tx [OF assms, of "sy_polls s"] by (simp only: same_polls)

lemma sys_tx:
  assumes i: "sys_inv uuid sha canon loads s" and d: "durable_inv uuid db'" and e: "evolves uuid {} (sy_db s) db'"
    and c: "covers uuid (safe_pair sha canon loads (mg_current (sy_manager s))) (sy_db s) db'" and p: "protects (sy_db s) db'"
  shows "sys_inv uuid sha canon loads (s\<lparr>sy_db := db'\<rparr>)"
  using i base_tx0 [OF _ d e c] dispatch_tx0 [OF _ e p] unfolding sys_inv_base by blast

text \<open>A lifecycle transition either keeps the current configuration or happens while nothing is active and no manual
  operation is in progress.\<close>

lemma sys_manager:
  assumes i: "sys_inv uuid sha canon loads s" and m: "manager_ok m'" "loads (mg_current m')" "\<And>g. mg_candidate m' = Some g \<Longrightarrow> loads g"
    and pub: "mg_current m' = mg_current (sy_manager s) \<or> (\<not> has_active (sy_db s) \<and> sy_manual s = [])"
  shows "sys_inv uuid sha canon loads (s\<lparr>sy_manager := m'\<rparr>)"
proof (cases "mg_current m' = mg_current (sy_manager s)")
  case True
  have "\<forall>g. mg_candidate m' = Some g \<longrightarrow> loads g" using m(3) by blast
  moreover have "dispatch_ok uuid sha canon (s\<lparr>sy_manager := m'\<rparr>) = dispatch_ok uuid sha canon s"
    using True by (simp add: dispatch_ok_def Let_def split: dispatch.split)
  ultimately show ?thesis using i m(1) True by (simp add: sys_inv_def)
next
  case False
  then have n: "\<not> has_active (sy_db s)" "sy_manual s = []" using pub by simp_all
  have "sy_dispatch s = DispatchIdle"
    using i n(1) in_hand_active unfolding sys_inv_def dispatch_ok_def Let_def by (cases "sy_dispatch s") auto
  then show ?thesis using i m n idle_compatible [OF n(1)] by (auto simp: sys_inv_def dispatch_ok_def)
qed

section \<open>The steps keep the invariant\<close>

lemma route_deliveries_compatible:
  assumes ok: "loads g" and r: "Route g event = Inr dec" and nd: "nd \<in> set (rd_Deliveries dec)"
    and d: "dl_target_id d = nd_TargetID nd" "dl_target_snapshot d = Some (nd_TargetSnapshot nd)"
  shows "safe_pair sha canon loads g d"
  using Route_compatible [OF _ r nd, of sha canon] ok d by (auto simp: safe_pair_def sound_def pair_compatible_def)

lemma webhook_tx:
  assumes u: "inj uuid" and inv: "durable_inv uuid db" and ok: "loads (mg_current m)"
  shows "covers uuid (safe_pair sha canon loads (mg_current m)) db (snd (ServeHTTP uuid sha p m ss at r db))"
    and "protects db (snd (ServeHTTP uuid sha p m ss at r db))"
proof -
  have c: "covers uuid (safe_pair sha canon loads (mg_current m)) db (snd (storeCommand uuid b c db))"
    if h: "hookCommand sha p m ss at r = Inr (b, c)" for b c
  proof (cases b)
    case True
    then show ?thesis using IngestDeferred_covers [OF u inv] by (simp add: storeCommand_def)
  next
    case False
    have "safe_pair sha canon loads (mg_current m) d"
      if nd: "nd \<in> set (ic_Deliveries c)" "dl_target_id d = nd_TargetID nd" "dl_target_snapshot d = Some (nd_TargetSnapshot nd)" for nd d
      using hookCommand_compatible [OF _ h nd(1), of canon] ok nd(2,3) by (auto simp: safe_pair_def sound_def pair_compatible_def)
    then show ?thesis using Ingest_covers [OF u inv safe_pair_target, of c] False by (simp add: storeCommand_def)
  qed
  have p: "protects db (snd (storeCommand uuid b c db))" for b c
    by (simp add: storeCommand_def Ingest_protects [OF u inv] IngestDeferred_protects [OF u inv])
  show "covers uuid (safe_pair sha canon loads (mg_current m)) db (snd (ServeHTTP uuid sha p m ss at r db))"
    and "protects db (snd (ServeHTTP uuid sha p m ss at r db))"
    unfolding ServeHTTP_snd using c p by (auto split: sum.splits prod.splits)
qed

lemma Drainer_cases:
  assumes "DrainerRunOnce uuid m db = (r, m', db')"
  shows "(db' = db \<and> m' = snd (SetIdleIfQueueEmpty (countQueuedOf db) m)) \<or>
    (m' = m \<and> (db' = db \<or> (\<exists>x dec. Route (mg_current m) (de_CanonicalEvent x) = Inr dec \<and>
       db' = snd (FinalizeDeferred uuid x dec (gn_digest (mg_current m)) db))))"
proof (cases "mg_state m = StateDraining")
  case False
  then show ?thesis using assms by (auto simp: DrainerRunOnce_def)
next
  case True
  show ?thesis
  proof (cases "PeekDeferred db")
    case None
    then show ?thesis using assms True by (auto simp: DrainerRunOnce_def split: prod.splits sum.splits)
  next
    case (Some x)
    show ?thesis
    proof (cases "Route (mg_current m) (de_CanonicalEvent x)")
      case (Inl e)
      then show ?thesis using assms True Some by (simp add: DrainerRunOnce_def)
    next
      case (Inr dec)
      have "m' = m \<and> db' = snd (FinalizeDeferred uuid x dec (gn_digest (mg_current m)) db)"
        using assms True Some Inr by (auto simp: DrainerRunOnce_def split: prod.splits sum.splits)
      then show ?thesis using Inr by blast
    qed
  qed
qed

lemma SetIdle_keeps:
  "mg_current (snd (SetIdleIfQueueEmpty q m)) = mg_current m" "mg_candidate (snd (SetIdleIfQueueEmpty q m)) = mg_candidate m"
  by (simp_all add: SetIdleIfQueueEmpty_def split: sum.splits)

lemma advance_candidate:
  assumes "\<And>g. mg_candidate m = Some g \<Longrightarrow> P g" and "P (mg_current m)"
  shows "P (mg_current (snd (advanceWaiting now a m)))"
    and "mg_candidate (snd (advanceWaiting now a m)) = Some g \<Longrightarrow> P g"
  using assms by (auto simp: lifecycle_defs split: sum.splits option.splits if_splits)

lemma complete_candidate:
  assumes "\<And>g. mg_candidate m = Some g \<Longrightarrow> P g" and "P (mg_current m)" and "\<And>g. loaded = Inr g \<Longrightarrow> P g"
  shows "P (mg_current (snd (reloadComplete now loaded a m)))"
    and "mg_candidate (snd (reloadComplete now loaded a m)) = Some g \<Longrightarrow> P g"
  using assms by (auto simp: lifecycle_defs Let_def split: sum.splits option.splits if_splits)

lemma admitted_ok:
  assumes inv: "durable_inv uuid db" and a: "admit sha canon m i e op db = Inr (t, c)"
  shows "manual_ok uuid sha canon loads (mg_current m) db c"
proof -
  have r: "CurrentAttempt i db = Inr c" "ResolveTarget sha canon (mg_current m) (ca_TargetID c) (ca_TargetSnapshot c) = (Some t, BindingCompatible)"
    "operationAllowed c op" using admit_InrD [OF a] by simp_all
  obtain d b where p: "currentRow i db = Some (d, b)" using r(1) by (cases "currentRow i db") (auto simp: CurrentAttempt_def)
  have c: "ca_DeliveryID c = dl_id d" "ca_TargetID c = dl_target_id d"
      "ca_TargetSnapshot c = dl_target_snapshot d" "ca_TransportStatus c = at_transport_status b"
      "ca_DeploymentStatus c = at_deployment_status b"
    using r(1) by (auto simp: CurrentAttempt_def p)
  have pr: "(d, b) \<in> set (current_pairs db)" using currentRow_SomeD [OF p] by simp
  have "dl_id d \<in> uuid ` {..<db_uuids db}" using durable_ids(2) [OF inv] pr by auto
  moreover have "at_transport_status b \<noteq> TransportSending"
  proof
    assume s: "at_transport_status b = TransportSending"
    have "at_deployment_status b = DeploymentNotStarted"
      using durable_currentE(1) [OF inv pr] s by (simp add: attempt_ok_def valid_status_def)
    then show False using r(3) c s by (simp add: operationAllowed_iff AllowedOperations_cases)
  qed
  moreover have "d' = d" if "(d', a') \<in> set (current_pairs db)" "dl_id d' = dl_id d" for d' a'
    using delivery_unique [OF durable_inv_keys [OF inv], of d' d] that pr by simp
  ultimately show ?thesis
    using c r(2) unfolding manual_ok_def drawn_def safe_pair_def pair_compatible_def by (auto simp del: in_current_pairs)
qed

lemma marks_tx:
  assumes u: "inj uuid" and inv: "durable_inv uuid db" and m: "marks uuid aid db db'"
  shows "durable_inv uuid db' \<and> evolves uuid {} db db' \<and> covers uuid P db db'"
  using m
  by cases (simp_all add: Mark_durable [OF u inv] Mark_evolves [OF u inv] Mark_covers [OF u inv])

lemma record_marks:
  assumes k: "keys_ok db" and r: "RecordDeploymentRequest i rq at db = (Inr (), db')"
  shows "marked db' i"
proof -
  let ?p = "\<lambda>r. at_id r = i \<and> at_transport_status r = TransportSending \<and> at_request_json r = None \<and> at_request_at r = None \<and>
    list_ex (\<lambda>x. dl_current_attempt_id x = Some (at_id r)) (db_deliveries db)"
  have one: "sql_affected ?p (db_attempts db) = 1" and db': "db' = db\<lparr>db_attempts := sql_update ?p (record_attempt rq at) (db_attempts db)\<rparr>"
    using r by (auto simp: RecordDeploymentRequest_def Let_def split: if_splits)
  obtain a where a: "a \<in> set (db_attempts db)" "?p a"
    using sql_affected_pos [of ?p "db_attempts db" 0] one by auto
  have "b = a" if "b \<in> set (db_attempts db)" "at_id b = i" for b using attempt_unique [OF k] that a by auto
  then have n: "at_request_at (if ?p b then record_attempt rq at b else b) \<noteq> None" if "b \<in> set (db_attempts db)" "at_id b = i" for b
    using a(2) that by (auto simp: record_attempt_def)
  show ?thesis unfolding marked_def
  proof (intro ballI impI)
    fix x assume x: "x \<in> set (db_attempts db')" "at_id x = i"
    have "set (db_attempts db') = (\<lambda>b. if ?p b then record_attempt rq at b else b) ` set (db_attempts db)"
      unfolding db' by (simp add: sql_simps)
    from x(1) [unfolded this] obtain b
      where b: "x = (if ?p b then record_attempt rq at b else b)" "b \<in> set (db_attempts db)" by (rule imageE)
    have "at_id b = i" using x(2) by (simp add: b(1) record_attempt_def split: if_splits)
    then show "at_request_at x \<noteq> None" unfolding b(1) by (rule n [OF b(2)])
  qed
qed

lemma sys_invD:
  assumes "sys_inv uuid sha canon loads s"
  shows "durable_inv uuid (sy_db s)" "loads (mg_current (sy_manager s))"
    "mg_candidate (sy_manager s) = Some g \<Longrightarrow> loads g" "manager_ok (sy_manager s)"
    "works_ok uuid (sy_db s) (sy_polls s)" "sent_ok uuid (sy_db s) (sy_sent s)" "base_inv uuid sha canon loads s"
    "dispatch_ok uuid sha canon s"
    "c \<in> set (sy_manual s) \<Longrightarrow> manual_ok uuid sha canon loads (mg_current (sy_manager s)) (sy_db s) c"
  using assms sys_inv_base [of uuid sha canon loads s] by (auto simp: sys_inv_def)

lemma sys_inv_sound:
  "sys_inv uuid sha canon loads s \<Longrightarrow> \<forall>g. loads g \<longrightarrow> bindings_ok sha canon g \<Longrightarrow>
   active_compatible sha canon (mg_current (sy_manager s)) (sy_db s)"
  by (simp add: sys_inv_def sound_def)

lemma base_idle: "base_inv uuid sha canon loads s \<Longrightarrow> sys_inv uuid sha canon loads (s\<lparr>sy_dispatch := DispatchIdle\<rparr>)"
  by (simp add: base_inv_def)

lemma claim_step:
  assumes u: "inj uuid" and i: "sys_inv uuid sha canon loads s" and c: "ClaimPendingAttempt uuid now (sy_db s) = (Inr (Some w), db')"
  shows "sys_inv uuid sha canon loads (s\<lparr>sy_db := db', sy_dispatch := DispatchClaimed w
      (fst (ResolveTarget sha canon (mg_current (sy_manager s)) (pa_TargetID w) (pa_TargetSnapshot w)))\<rparr>)"
proof -
  note inv = sys_invD(1) [OF i]
  have db': "db' = snd (ClaimPendingAttempt uuid now (sy_db s))" using c by simp
  note e = ClaimPendingAttempt_evolves [OF u inv, where X = "{}" and now = now, folded db']
  have b: "base_inv uuid sha canon loads (s\<lparr>sy_db := db'\<rparr>)"
    by (rule base_tx0 [OF sys_invD(7) [OF i] _ e])
      (simp_all add: db' ClaimPendingAttempt_durable [OF u inv] claim_covers [OF u inv])
  obtain d a where p: "(d, a) \<in> set (current_pairs (sy_db s))" "at_request_at a = None"
    and w: "pa_AttemptID w = at_id a" "pa_TargetID w = dl_target_id d" "pa_TargetSnapshot w = dl_target_snapshot d"
    and n: "(claim_delivery now d, claim_attempt a) \<in> set (current_pairs db')"
    using claim_result [OF u inv c] by blast
  have a: "a \<in> set (db_attempts (sy_db s))" using p(1) by simp
  have "at_id a \<notin> set (sy_sent s)" using sys_invD(6) [OF i] p(2) a by (fastforce simp: sent_ok_def marked_def)
  moreover have "drawn uuid db' (at_id a)"
    by (rule drawn_evolves [OF _ e]) (use durable_ids(3) [OF inv] a in \<open>auto simp: drawn_def\<close>)
  moreover have "in_hand sha canon (mg_current (sy_manager s)) db' w
      (fst (ResolveTarget sha canon (mg_current (sy_manager s)) (pa_TargetID w) (pa_TargetSnapshot w)))"
    unfolding in_hand_def by (rule bexI [OF _ n]) (simp add: w claim_attempt_def claim_delivery_def)
  ultimately show ?thesis using b unfolding sys_inv_base
    by (simp add: dispatch_ok_def w base_inv_def)
qed

lemma record_step:
  assumes u: "inj uuid" and i: "sys_inv uuid sha canon loads s" and d: "sy_dispatch s = DispatchClaimed w (Some t)"
    and r: "RecordDeploymentRequest (pa_AttemptID w) rq at (sy_db s) = (Inr (), db')"
  shows "sys_inv uuid sha canon loads (s\<lparr>sy_db := db', sy_dispatch := DispatchRecorded w t\<rparr>)"
proof -
  note inv = sys_invD(1) [OF i]
  have db': "db' = snd (RecordDeploymentRequest (pa_AttemptID w) rq at (sy_db s))" using r by simp
  have "sys_inv uuid sha canon loads (s\<lparr>sy_db := db'\<rparr>)" unfolding db'
    by (rule sys_tx [OF i RecordDeploymentRequest_durable [OF inv] RecordDeploymentRequest_evolves RecordDeploymentRequest_covers
          RecordDeploymentRequest_protects])
  moreover have "marked db' (pa_AttemptID w)" by (rule record_marks [OF durable_inv_keys [OF inv] r])
  ultimately show ?thesis using d unfolding sys_inv_base by (simp add: dispatch_ok_def Let_def base_inv_def)
qed

lemma send_step:
  assumes i: "sys_inv uuid sha canon loads s" and d: "sy_dispatch s = DispatchRecorded w t"
  shows "sys_inv uuid sha canon loads (s\<lparr>sy_dispatch := DispatchAnswered w t, sy_sent := sy_sent s @ [pa_AttemptID w]\<rparr>)"
  using i d by (auto simp: sys_inv_def dispatch_ok_def sent_ok_def Let_def)

lemma mark_step:
  assumes u: "inj uuid" and i: "sys_inv uuid sha canon loads s" and m: "marks uuid aid (sy_db s) db'"
  shows "sys_inv uuid sha canon loads (s\<lparr>sy_db := db', sy_dispatch := DispatchIdle\<rparr>)"
  using base_idle [OF base_tx0 [OF sys_invD(7) [OF i]]] marks_tx [OF u sys_invD(1) [OF i] m] by blast

lemma poll_claim_step:
  assumes i: "sys_inv uuid sha canon loads s" and l: "ListDuePolls now (sy_db s) = (Inr ws, db')"
  shows "sys_inv uuid sha canon loads (s\<lparr>sy_db := db', sy_polls := ws\<rparr>)"
proof -
  note inv = sys_invD(1) [OF i]
  have db': "db' = snd (ListDuePolls now (sy_db s))" using l by simp
  obtain X where e: "evolves uuid X (sy_db s) db'" using ListDuePolls_spec [OF durable_inv_keys [OF inv] l] by blast
  have "base_inv uuid sha canon loads (s\<lparr>sy_db := db', sy_polls := ws\<rparr>)"
    by (rule base_tx [OF sys_invD(7) [OF i] _ e _ ListDuePolls_works_ok [OF inv l]])
      (simp_all add: db' ListDuePolls_durable [OF inv] ListDuePolls_covers [OF safe_pair_target])
  then show ?thesis
    using dispatch_tx [OF sys_invD(8) [OF i] e, of ws] ListDuePolls_protects [of "sy_db s" now] unfolding sys_inv_base db' by blast
qed

lemma poll_complete_step:
  assumes u: "inj uuid" and i: "sys_inv uuid sha canon loads s" and w: "sy_polls s = w # ws"
  shows "sys_inv uuid sha canon loads
    (s\<lparr>sy_db := snd (CompletePoll uuid w (pollItem sha canon g remote now w) now (sy_db s)), sy_polls := ws\<rparr>)"
proof -
  note inv = sys_invD(1) [OF i]
  have ok: "works_ok uuid (sy_db s) (w # ws)" "work_ok (sy_db s) w"
    using sys_invD(5) [OF i] w by (simp_all add: works_ok_def)
  note e = CompletePoll_evolves [OF u inv]
  show ?thesis unfolding sys_inv_base
    using base_tx [OF sys_invD(7) [OF i] complete_item_durable [OF u inv ok(2)] e CompletePoll_covers [OF u inv ok(2)]
        works_ok_completed [OF u inv ok(1)]]
      dispatch_tx [OF sys_invD(8) [OF i] e CompletePoll_protects [OF u inv ok(2)]]
    by blast
qed

lemma drain_step:
  assumes u: "inj uuid" and i: "sys_inv uuid sha canon loads s" and d: "DrainerRunOnce uuid (sy_manager s) (sy_db s) = (r, m', db')"
  shows "sys_inv uuid sha canon loads (s\<lparr>sy_db := db', sy_manager := m'\<rparr>)"
proof -
  note inv = sys_invD(1) [OF i] and ok = sys_invD(2) [OF i]
  consider (idle) "db' = sy_db s" "m' = snd (SetIdleIfQueueEmpty (countQueuedOf (sy_db s)) (sy_manager s))"
    | (same) "m' = sy_manager s" "db' = sy_db s"
    | (final) x dec where "m' = sy_manager s" "Route (mg_current (sy_manager s)) (de_CanonicalEvent x) = Inr dec"
        "db' = snd (FinalizeDeferred uuid x dec (gn_digest (mg_current (sy_manager s))) (sy_db s))"
    using Drainer_cases [OF d] by blast
  then show ?thesis
  proof cases
    case idle
    have "sys_inv uuid sha canon loads (s\<lparr>sy_manager := m'\<rparr>)"
      by (rule sys_manager [OF i])
        (use idle ok sys_invD(3) [OF i] manager_ok_steps(5) [OF sys_invD(4) [OF i]] in \<open>simp_all add: SetIdle_keeps\<close>)
    then show ?thesis using idle by simp
  next
    case same
    then show ?thesis using i by simp
  next
    case final
    have "sys_inv uuid sha canon loads (s\<lparr>sy_db := db'\<rparr>)" unfolding final(3)
      by (rule sys_tx [OF i FinalizeDeferred_durable [OF u inv] FinalizeDeferred_evolves [OF u]
            FinalizeDeferred_covers [OF u inv safe_pair_target route_deliveries_compatible [where loads = loads and sha = sha and canon = canon, OF ok final(2)]]
            FinalizeDeferred_protects [OF u inv]])
    then show ?thesis using final(1) by simp
  qed
qed

lemma dispatch_ok_others [simp]:
  "dispatch_ok uuid sha canon (s\<lparr>sy_manual := cs\<rparr>) = dispatch_ok uuid sha canon s"
  "dispatch_ok uuid sha canon (s\<lparr>sy_polls := ws\<rparr>) = dispatch_ok uuid sha canon s"
  by (simp_all add: dispatch_ok_def Let_def split: dispatch.split)

lemma forget_manual:
  assumes "sys_inv uuid sha canon loads s" and "set cs \<subseteq> set (sy_manual s)"
  shows "sys_inv uuid sha canon loads (s\<lparr>sy_manual := cs\<rparr>)"
  using assms by (auto simp: sys_inv_def)

lemma manual_write_step:
  assumes u: "inj uuid" and i: "sys_inv uuid sha canon loads s" and c: "c \<in> set (sy_manual s)"
    and upd: "manual_update upd" "mu_Expected upd = c"
  shows "sys_inv uuid sha canon loads (s\<lparr>sy_db := snd (ApplyManualUpdate uuid upd (sy_db s)), sy_manual := remove1 c (sy_manual s)\<rparr>)"
proof -
  note inv = sys_invD(1) [OF i] and ok = manual_update_correct [OF upd(1)] and m = sys_invD(9) [OF i c]
  have P: "safe_pair sha canon loads (mg_current (sy_manager s)) d"
    if "(d, a) \<in> set (current_pairs (sy_db s))" "expectation_met upd d a" for d a
    using m that upd(2) unfolding manual_ok_def expectation_met_def by blast
  have ns: "ca_TransportStatus (mu_Expected upd) \<noteq> TransportSending" using m upd(2) by (simp add: manual_ok_def)
  have "sys_inv uuid sha canon loads (s\<lparr>sy_db := snd (ApplyManualUpdate uuid upd (sy_db s))\<rparr>)" (is "sys_inv _ _ _ _ ?s")
    by (rule sys_tx [OF i ApplyManualUpdate_durable [OF u inv ok] ApplyManualUpdate_evolves [OF u inv ok]
          ApplyManualUpdate_covers [OF u inv ok safe_pair_target P] ApplyManualUpdate_protects [OF u inv ok ns]])
  then have "sys_inv uuid sha canon loads (?s\<lparr>sy_manual := remove1 c (sy_manual s)\<rparr>)"
    by (rule forget_manual) (simp add: set_remove1_subset)
  then show ?thesis by simp
qed

lemma restart_step:
  assumes u: "inj uuid" and i: "sys_inv uuid sha canon loads s" and g: "loads g"
    and p: "Prepare uuid sha canon now (NewManager g at) (sy_db s) = (Inr (), m', db')"
  shows "sys_inv uuid sha canon loads (start db' m' (sy_sent s))"
proof -
  have r: "durable_inv uuid db'" "evolves uuid {} (sy_db s) db'" "active_compatible sha canon g db'" "mg_current m' = g" "manager_ok m'"
    using Prepare_spec [OF u sys_invD(1) [OF i], of sha canon now "NewManager g at"] p by (auto simp: NewManager_def)
  have "mg_candidate m' = None"
    using p by (auto simp: Prepare_def Initialize_def NewManager_def split: prod.splits sum.splits if_splits)
  then show ?thesis using r g sent_ok_evolves [OF sys_invD(6) [OF i] r(2)]
    by (simp add: sys_inv_def start_def dispatch_ok_def works_ok_def)
qed

lemma start_inv: "loads g \<Longrightarrow> sys_inv uuid sha canon loads (start empty_db (NewManager g at) [])"
  using durable_inv_empty manager_ok_New [of g at]
  by (simp add: sys_inv_def start_def dispatch_ok_def works_ok_def sent_ok_def active_compatible_def NewManager_def
      current_pairs_def empty_db_def)

lemma step_inv:
  assumes "step uuid sha canon loads s s'" and u: "inj uuid" and i: "sys_inv uuid sha canon loads s"
  shows "sys_inv uuid sha canon loads s'"
  using assms(1)
proof cases
  case webhook
  show ?thesis unfolding webhook
    by (rule sys_tx [OF i ServeHTTP_durable [OF u] ServeHTTP_evolves [OF u] webhook_tx [OF u]])
      (rule sys_invD [OF i])+
next
  case (cursor w t c)
  show ?thesis unfolding cursor(1)
    by (rule sys_tx [OF i SetDeploymentCursor_durable [OF sys_invD(1) [OF i]] SetDeploymentCursor_evolves SetDeploymentCursor_covers
          SetDeploymentCursor_protects])
next
  case (retain cutoff)
  show ?thesis unfolding retain RetentionRunOnce_eq snd_conv
    by (rule sys_tx [OF i Prune_spec(1) Prune_evolves Prune_covers Prune_protects]) (rule sys_invD [OF i])+
next
  case clear_history
  show ?thesis unfolding clear_history
    by (rule sys_tx [OF i ClearHistory_durable ClearHistory_evolves ClearHistory_covers ClearHistory_protects])
      (rule sys_invD [OF i])
next
  case reload_begin
  show ?thesis unfolding reload_begin(1)
    by (rule sys_manager [OF i manager_ok_steps(2)])
      (use sys_invD(2,3,4) [OF i] in \<open>auto simp: reloadBegin_def split: if_splits\<close>)
next
  case (reload_complete loaded now)
  show ?thesis unfolding reload_complete(1)
    using store.complete_publishes_idle [of now loaded "sy_db s" "sy_manager s"] reload_complete(2)
      complete_candidate [where P = loads, OF sys_invD(3) [OF i] sys_invD(2) [OF i] reload_complete(4)]
      manager_ok_steps(3) [OF sys_invD(4) [OF i] reload_complete(3)]
    by (intro sys_manager [OF i]) blast+
next
  case (reload_advance now)
  show ?thesis unfolding reload_advance(1)
    using store.advance_publishes_idle [of now "sy_db s" "sy_manager s"] reload_advance(2)
      advance_candidate [where P = loads, OF sys_invD(3) [OF i] sys_invD(2) [OF i]]
      manager_ok_steps(4) [OF sys_invD(4) [OF i]]
    by (intro sys_manager [OF i]) blast+
next
  case (send w t)
  then show ?thesis using send_step [OF i] by simp
next
  case (send_refused w t)
  then show ?thesis using i by (simp add: sys_inv_def dispatch_ok_def Let_def)
next
  case dispatch_error
  then show ?thesis using base_idle [OF sys_invD(7) [OF i]] by simp
next
  case poll_error
  then show ?thesis using i by (simp add: sys_inv_def works_ok_def)
next
  case (manual_read i' e op t c)
  then show ?thesis using i admitted_ok [OF sys_invD(1) [OF i] manual_read(2)]
    by (simp add: sys_inv_def)
next
  case (manual_leave c)
  show ?thesis unfolding manual_leave by (rule forget_manual [OF i set_remove1_subset])
qed (use claim_step [OF u i] record_step [OF u i] mark_step [OF u i] poll_claim_step [OF i] poll_complete_step [OF u i]
      drain_step [OF u i] manual_write_step [OF u i] restart_step [OF u i] in simp_all)

lemma reachable_inv:
  assumes "inj uuid" and "reachable uuid sha canon loads s"
  shows "sys_inv uuid sha canon loads s"
  using assms(2)
  by induction (rule start_inv, assumption, rule step_inv [OF _ assms(1)], assumption+)

end
