(* ===== verification/Sample_Data.thy ===== *)
theory Sample_Data
  imports System Store_Retention
begin

text \<open>
  A small installation, used to apply the theorems at concrete values: one Dokploy target, one route that deploys to
  it, one GitLab push. The identifiers are the strings \<open>a\<close>, \<open>aa\<close>, \<open>aaa\<close>, and so on, the hash of a string is its length.
\<close>

definition sample_uuid :: "nat \<Rightarrow> string" where
  "sample_uuid n = replicate (Suc n) (CHR ''a'')"

definition sample_sha :: "string \<Rightarrow> string" where
  "sample_sha s = [char_of (length s mod 256)]"

definition sample_canon :: canonical where
  "sample_canon = \<lparr>dokployURL = Some, httpURL = Some, forwardURL = Some\<rparr>"

definition sample_connections :: Connections where
  "sample_connections = \<lparr>cn_dokploy = [(''main'', ''https://d'', '''')], cn_http = [], cn_tunnels = []\<rparr>"

definition sample_http :: httpTargetSnapshot where
  "sample_http = \<lparr>ht_Method = '''', ht_Path = '''', ht_Query = [], ht_Headers = [], ht_Body = None, ht_SuccessStatuses = []\<rparr>"

definition sample_config :: TargetConfig where
  "sample_config = \<lparr>tc_SSHTunnel = '''', tc_ID = ''web'', tc_Type = ''dokploy'', tc_Connection = ''main'',
     tc_ResourceType = ''compose'', tc_ResourceID = ''c1'', tc_PollTimeout = None, tc_HTTP = sample_http,
     tc_URL = '''', tc_Host = '''', tc_AllowPrivateNetwork = False\<rparr>"

definition sample_target :: Target where
  "sample_target = withTunnel sample_sha sample_connections sample_config
     (dokployTarget sample_sha second (30 * minute) sample_config ''https://d'')"

definition sample_event :: CanonicalEvent where
  "sample_event = \<lparr>ce_Provider = ''gitlab'', ce_Source = ''gl'', ce_Repository = ''app'', ce_Event = ''push'',
     ce_Ref = ''main'', ce_Status = '''', ce_Revision = ''r1'', ce_CommitMessage = '''', ce_ExternalID = '''',
     ce_Trigger = ''''\<rparr>"

definition sample_match :: RouteMatch where
  "sample_match = \<lparr>rm_Source = ''gl'', rm_Repository = ''app'', rm_Event = ''push'', rm_Ref = Some ''main'',
     rm_Status = None, rm_Revision = None, rm_ExternalID = None, rm_Trigger = None\<rparr>"

definition sample_route :: Route where
  "sample_route = \<lparr>rt_ID = ''deploy-main'', rt_Priority = Some 10, rt_Match = sample_match,
     rt_Action = \<lparr>ac_Type = ''deploy'', ac_Targets = [''web'']\<rparr>, rt_Location = \<lparr>sl_Path = ''routes'', sl_Field = ''0''\<rparr>\<rparr>"

definition sample_generation :: Generation where
  "sample_generation = \<lparr>gn_digest = ''d1'', gn_targets = [(''web'', sample_target)], gn_routes = [sample_route],
     gn_pollInterval = second, gn_pollTimeout = 30 * minute, gn_repositoryLimits = [], gn_defaultRepositoryLimit = 10,
     gn_globalLimit = 100\<rparr>"

definition sample_unicode :: unicode where
  "sample_unicode = \<lparr>otherLetter = (\<lambda>_. False), otherDigit = (\<lambda>_. False), otherLower = (\<lambda>n. n)\<rparr>"

definition sample_payload :: json where
  "sample_payload = JObject [(''project_id'', JNumber ''7''), (''ref'', JString ''refs/heads/main''), (''after'', JString ''r1'')]"

definition sample_source :: Source where
  "sample_source = \<lparr>sc_provider = ''gitlab'', sc_id = ''gl'',
     sc_adapter = gitLabAdapter sample_unicode (\<lambda>_. Some sample_payload) ''t0'', sc_repositories = [(''7'', ''app'')]\<rparr>"

definition sample_sources :: Sources where
  "sample_sources = \<lparr>so_sources = [((''gitlab'', ''gl''), sample_source)], so_gitLab = [([CHR 0x02], sample_source)]\<rparr>"

definition sample_request :: WebRequest where
  "sample_request = \<lparr>wr_Method = ''POST'', wr_Host = ''hooks'', wr_RawQuery = '''', wr_SourceID = '''',
     wr_Headers = [(''X-Gitlab-Token'', [''t0'']), (''X-Gitlab-Event'', [''Push Hook'']), (''X-Gitlab-Event-Uuid'', [''u1''])],
     wr_Body = Some ''x''\<rparr>"

definition sample_incoming :: IncomingEvent where
  "sample_incoming = \<lparr>in_RepositoryExternalID = ''7'', in_Event = ''push'', in_Ref = ''main'', in_Status = '''', in_Revision = ''r1'',
     in_CommitMessage = '''', in_ExternalID = '''', in_Trigger = '''', in_DeliveryID = ''u1'', in_Supported = True,
     in_SafeHeaders = [(''X-Gitlab-Event'', ''Push Hook''), (''X-Gitlab-Event-UUID'', ''u1'')]\<rparr>"

definition sample_command :: IngestCommand where
  "sample_command = (baseCommand sample_sha sample_generation 5000000 sample_event sample_incoming ''x'')
     \<lparr>ic_RoutingResult := RoutingDeploy, ic_RuleID := ''deploy-main'',
      ic_RuleSnapshot := Some (newCanonicalRuleSnapshot sample_route),
      ic_Deliveries := [\<lparr>nd_TargetID = ''web'', nd_TargetSnapshot = tg_Snapshot sample_target,
                        nd_DispatchKey = tg_Fingerprint sample_target\<rparr>]\<rparr>"

definition sample_manager :: Manager where
  "sample_manager = NewManager sample_generation 0"

lemma inj_sample_uuid: "inj sample_uuid"
  by (rule injI) (metis sample_uuid_def length_replicate Suc_inject)

lemma sample_bindings: "bindings_ok sample_sha sample_canon sample_generation"
proof (rule compiled_bindings_ok [of _ _ sample_connections second "30 * minute" "[sample_config]"])
  show "compileTargets sample_sha sample_canon sample_connections (fst (pollingSettings second (30 * minute)))
      (snd (pollingSettings second (30 * minute))) [sample_config] = Some (gn_targets sample_generation)"
    by (simp add: compileTarget_def sample_config_def sample_connections_def sample_generation_def sample_target_def
        pollingSettings_def time_defs)
  show "canonical_ok sample_canon sample_connections (set [sample_config])"
    by (simp add: canonical_ok_def sample_canon_def sample_connections_def)
  show "\<forall>cfg\<in>set [sample_config]. target_config_ok cfg" by (simp add: target_config_ok_def sample_config_def)
qed

section \<open>Stages of the delivery\<close>

text \<open>After the webhook, after the claim, after the request is recorded, after it was answered, after the poll was claimed.\<close>

definition db_pending :: db where
  "db_pending = snd (Ingest sample_uuid sample_command empty_db)"

definition db_sending :: db where
  "db_sending = snd (ClaimPendingAttempt sample_uuid 6000000 db_pending)"

definition db_recorded :: db where
  "db_recorded = snd (RecordDeploymentRequest ''aaa'' (Some ''x'') 6500000 db_sending)"

definition db_watched :: db where
  "db_watched = snd (MarkEnqueued sample_uuid ''aaa'' (Some ''x'') (Some ''x'') 7000000 8000000 9000000000 db_recorded)"

definition db_polled :: db where
  "db_polled = snd (ListDuePolls 9000000 db_watched)"

lemma durable_pending: "durable_inv sample_uuid db_pending"
  unfolding db_pending_def by (rule Ingest_durable [OF inj_sample_uuid durable_inv_empty])

lemma durable_sending: "durable_inv sample_uuid db_sending"
  unfolding db_sending_def by (rule ClaimPendingAttempt_durable [OF inj_sample_uuid durable_pending])

lemma durable_recorded: "durable_inv sample_uuid db_recorded"
  unfolding db_recorded_def by (rule RecordDeploymentRequest_durable [OF durable_sending])

lemma durable_watched: "durable_inv sample_uuid db_watched"
  unfolding db_watched_def by (rule Mark_durable(1) [OF inj_sample_uuid durable_recorded])

lemma durable_polled: "durable_inv sample_uuid db_polled"
  unfolding db_polled_def by (rule ListDuePolls_durable [OF durable_watched])

text \<open>The webhook, step by step.\<close>

lemma sample_headers:
  "headerGet (wr_Headers sample_request) ''X-Gitlab-Token'' = ''t0''"
  by code_simp

lemma sample_body: "wr_Body sample_request = Some ''x''"
  by (simp add: sample_request_def)

lemma sample_token: "sample_sha ''t0'' = [CHR 0x02]"
  by code_simp

lemma sample_found: "findSource sample_sha ''gitlab'' sample_sources sample_request = Inr sample_source"
  unfolding findSource_def GitLabSource_def Let_def sample_headers
  by (simp add: sample_sources_def sample_source_def sample_token gitLabAdapter_def TokenMatches_def sample_headers)

lemma sample_authentic: "Authenticate (sc_adapter sample_source) (wr_Headers sample_request) ''x''"
  by (simp add: sample_source_def gitLabAdapter_def TokenMatches_def sample_headers)

lemma sample_event_name: "gitLabEventName sample_unicode (headerGet (wr_Headers sample_request) ''X-Gitlab-Event'') = (''push'', True)"
  by code_simp

lemma sample_safe_headers: "gitLabSafeHeaders (wr_Headers sample_request) = in_SafeHeaders sample_incoming"
    "gitLabDeliveryID (wr_Headers sample_request) = ''u1''"
  by code_simp+

lemma sample_decoded:
  "gitLabNormalize sample_unicode (\<lambda>_. Some sample_payload) (wr_Headers sample_request) ''x'' = Inr sample_incoming"
proof -
  have i: "decimalNat 7 = ''7''" "numeralValue ''7'' = 7" by code_simp+
  have "positiveInt64 ''7'' = Some ''7''" using i by (simp add: positiveInt64_def isDecimalDigit_def)
  then have r: "requiredGitLabRepositoryExternalID sample_payload ''push'' = Inr ''7''"
    by (simp add: requiredGitLabRepositoryExternalID_def repositoryExternalID_def sample_payload_def)
  have "TrimPrefix ''refs/heads/'' ''refs/heads/main'' = ''main''" by code_simp
  then show ?thesis
    unfolding gitLabNormalize_def sample_event_name sample_safe_headers
    by (simp add: r[unfolded sample_payload_def] decodeObject_def sample_payload_def gitLabFields_def stringAt_def lastObjectStringAt_def sample_incoming_def emptyIncoming_def)
qed

lemma sample_normalized:
  "sourceNormalize sample_source (wr_Headers sample_request) ''x'' = Inr (sample_event, sample_incoming)"
  unfolding sourceNormalize_def
  by (simp add: sample_source_def gitLabAdapter_def sample_decoded) (simp add: sample_incoming_def sample_event_def)

lemma sample_supported: "in_Supported sample_incoming" "ce_Repository sample_event = ''app''"
  by (simp_all add: sample_incoming_def sample_event_def)

lemma sample_received: "receive sample_sha ''gitlab'' sample_sources sample_request = Inr (sample_event, sample_incoming, ''x'')"
  unfolding receive_def sample_found
  using sample_authentic sample_normalized sample_supported
  by (simp add: readBody_def maxBodyBytes_def sample_body)

lemma sample_routed:
  "routeCommand StateIdle sample_generation sample_incoming (baseCommand sample_sha sample_generation 5000000 sample_event sample_incoming ''x'') =
     Inr (False, sample_command)"
  by code_simp

lemma sample_plain: "\<not> hasForwardDelivery (ic_Deliveries sample_command)"
  by code_simp

lemma sample_hook: "hookCommand sample_sha ''gitlab'' sample_manager sample_sources 5000000 sample_request = Inr (False, sample_command)"
  by (simp add: hookCommand_def sample_received sample_manager_def NewManager_def sample_routed sample_plain)

lemma sample_ingested: "fst (Ingest sample_uuid sample_command empty_db) = Inr \<lparr>ir_EventID = ''a'', ir_Duplicate = False\<rparr>"
  by code_simp

lemma sample_served:
  "ServeHTTP sample_uuid sample_sha ''gitlab'' sample_manager sample_sources 5000000 sample_request empty_db =
     (Accepted \<lparr>ir_EventID = ''a'', ir_Duplicate = False\<rparr>, db_pending)"
  using sample_ingested
  by (cases "Ingest sample_uuid sample_command empty_db") (simp add: ServeHTTP_eq sample_hook storeCommand_def db_pending_def)

text \<open>The stages written out, for evaluation.\<close>

definition row_event :: event_row where
  "row_event = \<lparr>ev_id = ''a'', ev_provider = ''gitlab'', ev_source_id = ''gl'', ev_repository_id = ''app'', ev_delivery_id = ''32'',
     ev_received_at = 5, ev_event = ''push'', ev_ref = Some ''main'', ev_status = Some '''', ev_revision = Some ''r1'',
     ev_commit_message = Some '''', ev_external_id = Some '''', ev_trigger = Some '''', ev_routing_result = RoutingDeploy,
     ev_rule_id = Some ''deploy-main'', ev_rule_snapshot = Some (newCanonicalRuleSnapshot sample_route),
     ev_config_digest = Some ''d1'',
     ev_raw_headers_json = HeadersObject [(''X-Gitlab-Event'', CHR 0x22 # ''Push Hook'' @ [CHR 0x22]),
       (''X-Gitlab-Event-UUID'', CHR 0x22 # ''u1'' @ [CHR 0x22])],
     ev_raw_payload_json = Some ''x'', ev_forward_request_json = None\<rparr>"

definition row_delivery :: "TransportStatus \<Rightarrow> DeploymentStatus \<Rightarrow> millis \<Rightarrow> delivery_row" where
  "row_delivery t ds at = \<lparr>dl_id = ''aa'', dl_event_id = ''a'', dl_target_id = ''web'',
     dl_target_snapshot = Some (SnapshotDoc \<lparr>ts_SSH = None, ts_BindingVersion = 2, ts_ID = ''web'', ts_Type = ''dokploy'',
       ts_ResourceType = ''compose'', ts_ResourceID = ''c1'', ts_Connection = \<lparr>cs_ID = ''main'', cs_BaseURL = ''https://d''\<rparr>,
       ts_HTTP = None, ts_Forward = None\<rparr>),
     dl_current_attempt_id = Some ''aaa'', dl_transport_status = t, dl_deployment_status = ds, dl_created_at = 5,
     dl_updated_at = at, dl_dispatch_key = Some ''42''\<rparr>"

definition row_attempt :: attempt_row where
  "row_attempt = \<lparr>at_id = ''aaa'', at_delivery_id = ''aa'', at_kind = ''initial'', at_actor = None,
     at_transport_status = TransportPending, at_deployment_status = DeploymentNotStarted, at_request_json = None,
     at_response_json = None, at_request_at = None, at_response_at = None, at_enqueued_at = None, at_deployment_id = None,
     at_deployment_cursor = None, at_poll_due_at = None, at_monitoring_deadline_at = None, at_last_polled_at = None,
     at_created_at = 5\<rparr>"

definition row_audit :: "string \<Rightarrow> string \<Rightarrow> TransportStatus \<Rightarrow> TransportStatus \<Rightarrow> DeploymentStatus \<Rightarrow> millis \<Rightarrow> audit_row" where
  "row_audit i action t t' ds at = \<lparr>au_id = i, au_event_id = ''a'', au_delivery_id = ''aa'', au_attempt_id = ''aaa'',
     au_actor = ''system'', au_action = action,
     au_before = \<lparr>ss_TransportStatus = t, ss_DeploymentStatus = DeploymentNotStarted, ss_Reason = ''''\<rparr>,
     au_after = \<lparr>ss_TransportStatus = t', ss_DeploymentStatus = ds, ss_Reason = ''''\<rparr>, au_created_at = at\<rparr>"

lemma db_pending_eq [code]:
  "db_pending = \<lparr>db_events = [row_event], db_deliveries = [row_delivery TransportPending DeploymentNotStarted 5],
     db_attempts = [row_attempt], db_audits = [], db_queue = [], db_queue_seq = 0, db_observations = [], db_uuids = 3\<rparr>"
  by code_simp

lemma db_sending_eq [code]:
  "db_sending = \<lparr>db_events = [row_event], db_deliveries = [row_delivery TransportSending DeploymentNotStarted 6],
     db_attempts = [row_attempt\<lparr>at_transport_status := TransportSending\<rparr>],
     db_audits = [row_audit ''aaaa'' ''transport_sending'' TransportPending TransportSending DeploymentNotStarted 6],
     db_queue = [], db_queue_seq = 0, db_observations = [], db_uuids = 4\<rparr>"
  by code_simp

lemma db_recorded_eq [code]:
  "db_recorded = db_sending\<lparr>db_attempts := [row_attempt\<lparr>at_transport_status := TransportSending, at_request_json := Some ''x'',
     at_request_at := Some 6\<rparr>]\<rparr>"
  by code_simp

definition row_watched :: attempt_row where
  "row_watched = row_attempt\<lparr>at_transport_status := TransportEnqueued, at_deployment_status := DeploymentLocating,
     at_request_json := Some ''x'', at_response_json := Some ''x'', at_request_at := Some 6, at_response_at := Some 7,
     at_enqueued_at := Some 7, at_poll_due_at := Some 8, at_monitoring_deadline_at := Some 9000\<rparr>"

lemma db_watched_eq [code]:
  "db_watched = \<lparr>db_events = [row_event], db_deliveries = [row_delivery TransportEnqueued DeploymentLocating 7],
     db_attempts = [row_watched],
     db_audits = [row_audit ''aaaa'' ''transport_sending'' TransportPending TransportSending DeploymentNotStarted 6,
       row_audit ''aaaaa'' ''transport_enqueued'' TransportSending TransportEnqueued DeploymentLocating 7],
     db_queue = [], db_queue_seq = 0, db_observations = [], db_uuids = 5\<rparr>"
  by code_simp

lemma db_polled_eq [code]:
  "db_polled = db_watched\<lparr>db_attempts := [row_watched\<lparr>at_last_polled_at := Some 9\<rparr>]\<rparr>"
  by code_simp

section \<open>A reachable state\<close>

text \<open>The webhook was accepted, the attempt was claimed, its request recorded and sent.\<close>

definition sample_work :: PendingAttempt where
  "sample_work = (case fst (ClaimPendingAttempt sample_uuid 6000000 db_pending) of Inr (Some w) \<Rightarrow> w)"

definition sample_idle :: system where
  "sample_idle = start db_pending sample_manager []"

definition sample_claimed :: system where
  "sample_claimed = sample_idle\<lparr>sy_db := db_sending, sy_dispatch := DispatchClaimed sample_work (Some sample_target)\<rparr>"

definition sample_recorded :: system where
  "sample_recorded = sample_claimed\<lparr>sy_db := db_recorded, sy_dispatch := DispatchRecorded sample_work sample_target\<rparr>"

definition sample_sent :: system where
  "sample_sent = sample_recorded\<lparr>sy_dispatch := DispatchAnswered sample_work sample_target, sy_sent := [''aaa'']\<rparr>"

lemma sample_work_fields:
  "pa_AttemptID sample_work = ''aaa''" "pa_TargetID sample_work = ''web''" "pa_TargetSnapshot sample_work = Some (tg_Snapshot sample_target)"
  by code_simp+

lemma sample_claim: "ClaimPendingAttempt sample_uuid 6000000 db_pending = (Inr (Some sample_work), db_sending)"
proof -
  have "fst (ClaimPendingAttempt sample_uuid 6000000 db_pending) = Inr (Some sample_work)" by code_simp
  then show ?thesis by (simp add: db_sending_def prod_eq_iff)
qed

lemma sample_record: "RecordDeploymentRequest ''aaa'' (Some ''x'') 6500000 db_sending = (Inr (), db_recorded)"
proof -
  have "fst (RecordDeploymentRequest ''aaa'' (Some ''x'') 6500000 db_sending) = Inr ()" by code_simp
  then show ?thesis by (simp add: db_recorded_def prod_eq_iff)
qed

lemma sample_resolved: "ResolveTarget sample_sha sample_canon sample_generation ''web'' (Some (tg_Snapshot sample_target)) = (Some sample_target, BindingCompatible)"
  using sample_bindings by (simp add: bindings_ok_def sample_generation_def)

lemma sample_manager_current [simp]: "mg_current sample_manager = sample_generation" "mg_state sample_manager = StateIdle"
  by (simp_all add: sample_manager_def NewManager_def)

text \<open>The configurations the sample installation is run with: the first one, and one that a reload brings.\<close>

definition other_generation :: Generation where
  "other_generation = sample_generation\<lparr>gn_digest := ''d2''\<rparr>"

definition sample_loads :: "Generation \<Rightarrow> bool" where
  "sample_loads g \<longleftrightarrow> g = sample_generation \<or> g = other_generation"

lemma sample_loaded: "sample_loads sample_generation" "sample_loads other_generation"
  "\<forall>g. sample_loads g \<longrightarrow> bindings_ok sample_sha sample_canon g"
  using sample_bindings by (auto simp: sample_loads_def other_generation_def bindings_ok_def ResolveTarget_def)

lemma sample_idle_reachable: "reachable sample_uuid sample_sha sample_canon sample_loads sample_idle"
proof -
  have "step sample_uuid sample_sha sample_canon sample_loads (start empty_db sample_manager [])
      ((start empty_db sample_manager [])\<lparr>sy_db := snd (ServeHTTP sample_uuid sample_sha ''gitlab'' (sy_manager (start empty_db sample_manager []))
        sample_sources 5000000 sample_request (sy_db (start empty_db sample_manager [])))\<rparr>)"
    by (rule step.webhook)
  then have "step sample_uuid sample_sha sample_canon sample_loads (start empty_db sample_manager []) sample_idle"
    by (simp add: start_def sample_served sample_idle_def)
  then show ?thesis
    using reachable.further [OF reachable.initial [where loads = sample_loads and g = sample_generation and loadedAt = 0, OF sample_loaded(1), folded sample_manager_def]] by blast
qed

lemma sample_sent_reachable: "reachable sample_uuid sample_sha sample_canon sample_loads sample_sent"
proof -
  have 1: "step sample_uuid sample_sha sample_canon sample_loads sample_idle sample_claimed"
    using step.claim [of sample_idle sample_uuid 6000000 sample_work db_sending sample_sha sample_canon sample_loads] sample_claim
    by (simp add: sample_idle_def start_def sample_work_fields sample_resolved sample_claimed_def)
  have 2: "step sample_uuid sample_sha sample_canon sample_loads sample_claimed sample_recorded"
    using step.record_request [of sample_claimed sample_work sample_target "Some ''x''" 6500000 db_recorded sample_uuid sample_sha sample_canon sample_loads] sample_record
    by (simp add: sample_claimed_def sample_work_fields sample_recorded_def)
  have 3: "step sample_uuid sample_sha sample_canon sample_loads sample_recorded sample_sent"
    using step.send [of sample_recorded sample_work sample_target sample_uuid sample_sha sample_canon sample_loads]
    by (simp add: sample_recorded_def sample_claimed_def sample_idle_def start_def sample_work_fields sample_sent_def)
  show ?thesis
    using reachable.further [OF reachable.further [OF reachable.further [OF sample_idle_reachable 1] 2] 3] .
qed

end
