(* ===== verification/Store_Theorems.thy ===== *)
theory Store_Theorems
  imports Sample_Data
begin

text \<open>
  The properties of the store (\<^verbatim>\<open>internal/store\<close>): claiming and serialisation, at most one outcome per sending attempt, the
  poll token, the compare-and-swap of manual updates, de-duplication, retention. Each is applied to a stage of the sample
  installation.
\<close>

section \<open>Dispatching\<close>

text \<open>What the claim promises, apart from its query: which attempts may be sent, and which of two is older.\<close>

fun may_send :: "db \<Rightarrow> event_row \<times> delivery_row \<times> attempt_row \<Rightarrow> bool" where
  "may_send db (e, d, a) =
     (at_kind a \<in> {''initial'', ''retry'', ''redeploy''} \<and> at_transport_status a = TransportPending \<and>
      dl_transport_status d = TransportPending \<and>
      (\<forall>d' a'. (d', a') \<in> set (current_pairs db) \<longrightarrow> dl_id d' \<noteq> dl_id d \<longrightarrow> in_flight a' \<longrightarrow> \<not> same_resource d' d))"

fun not_younger :: "event_row \<times> delivery_row \<times> attempt_row \<Rightarrow> event_row \<times> delivery_row \<times> attempt_row \<Rightarrow> bool" where
  "not_younger (e, d, a) (e', d', a') \<longleftrightarrow>
     ev_received_at e < ev_received_at e' \<or>
     (ev_received_at e = ev_received_at e' \<and>
       (dl_created_at d < dl_created_at d' \<or> (dl_created_at d = dl_created_at d' \<and> dl_id d \<le> dl_id d')))"

lemma may_send_claimable: "claimable db x \<longleftrightarrow> may_send db x"
  by (cases x) (simp only: claimable_iff may_send.simps attemptKinds_def list.set)

lemma not_younger_order: "claimOrder x \<le> claimOrder y \<longleftrightarrow> not_younger x y"
  by (cases x; cases y) (auto simp: claimOrder_def less_eq_prod_def)

text \<open>C5. If some attempt may be sent (it is current and pending, and no other delivery to the same remote resource is in flight),
  \<open>ClaimPendingAttempt\<close> takes the oldest one, in the order of reception, creation and identifier, and afterwards it is being
  sent. If there is none, it takes nothing and changes nothing.\<close>

theorem claim_takes_oldest:
  assumes u: "inj uuid" and inv: "durable_inv uuid db"
  shows "if \<exists>x\<in>set (current_triples db). may_send db x
    then \<exists>e d a db'. ClaimPendingAttempt uuid now db = (Inr (Some (pendingAttemptOf e d a)), db') \<and>
      (e, d, a) \<in> set (current_triples db) \<and> may_send db (e, d, a) \<and>
      (\<forall>x\<in>set (current_triples db). may_send db x \<longrightarrow> not_younger (e, d, a) x) \<and>
      (claim_delivery now d, claim_attempt a) \<in> set (current_pairs db') \<and> at_transport_status (claim_attempt a) = TransportSending
    else ClaimPendingAttempt uuid now db = (Inr None, db)"
proof (cases "sql_first (sort_key claimOrder (filter (claimable db) (current_triples db)))")
  case None
  then have "filter (claimable db) (current_triples db) = []"
    by (metis sql_first_sort_key_ex list.set_intros(1) neq_Nil_conv option.distinct(1))
  then have n: "\<not> (\<exists>x\<in>set (current_triples db). may_send db x)"
    by (simp only: filter_empty_conv may_send_claimable) blast
  show ?thesis unfolding if_not_P [OF n] by (rule ClaimPendingAttempt_None_eq [OF None])
next
  case (Some x)
  obtain e d a where x: "x = (e, d, a)" by (metis prod_cases3)
  note sel = Some [unfolded x]
  have m: "(e, d, a) \<in> set (current_triples db)" "may_send db (e, d, a)"
    using sql_first_SomeD [OF sel] by (simp_all only: set_sort set_filter mem_Collect_eq may_send_claimable)
  have o: "\<forall>y\<in>set (current_triples db). may_send db y \<longrightarrow> not_younger (e, d, a) y"
  proof (intro ballI impI)
    fix y assume "y \<in> set (current_triples db)" "may_send db y"
    then have "y \<in> set (filter (claimable db) (current_triples db))" by (simp only: set_filter mem_Collect_eq may_send_claimable)
    then show "not_younger (e, d, a) y" using sql_first_sort_key_min [OF sel] by (simp only: not_younger_order)
  qed
  note c = ClaimPendingAttempt_Some_eq [OF u inv sel, of now]
  have p: "(claim_delivery now d, claim_attempt a) \<in> set (current_pairs (claimed_db uuid now e d a db))"
  proof -
    obtain d2 a2 where p: "(d2, a2) \<in> set (current_pairs db)" "pa_AttemptID (pendingAttemptOf e d a) = at_id a2"
        "(claim_delivery now d2, claim_attempt a2) \<in> set (current_pairs (claimed_db uuid now e d a db))"
      using claim_result [OF u inv c] by blast
    have k: "keys_ok db" by (rule durable_inv_keys [OF inv])
    have q: "(d, a) \<in> set (current_pairs db)" using m(1) by simp
    have "at_id a2 = at_id a" using p(2) by (simp add: pendingAttemptOf_def)
    then have "a2 = a" "d2 = d"
      using p(1) q attempt_unique [OF k, of a2 a] delivery_unique [OF k, of d2 d] current_unique [OF k p(1) q] by simp_all
    then show ?thesis using p(3) by simp
  qed
  have n: "\<exists>x\<in>set (current_triples db). may_send db x" by (rule bexI [where x = "(e, d, a)"]) (rule m)+
  show ?thesis unfolding if_P [OF n]
    by (rule exI [where x = e], rule exI [where x = d], rule exI [where x = a], rule exI, intro conjI)
      (rule c m o p | simp add: claim_attempt_def)+
qed

theorem claim_takes_oldest_witness:
  "(\<exists>e d a db'. ClaimPendingAttempt sample_uuid 6000000 db_pending = (Inr (Some (pendingAttemptOf e d a)), db') \<and>
      (claim_delivery 6000000 d, claim_attempt a) \<in> set (current_pairs db')) \<and>
   ClaimPendingAttempt sample_uuid 7000000 db_sending = (Inr None, db_sending)"
proof
  have "list_ex (claimable db_pending) (current_triples db_pending)" by code_simp
  then have n: "\<exists>x\<in>set (current_triples db_pending). may_send db_pending x" unfolding list_ex_iff may_send_claimable .
  show "\<exists>e d a db'. ClaimPendingAttempt sample_uuid 6000000 db_pending = (Inr (Some (pendingAttemptOf e d a)), db') \<and>
      (claim_delivery 6000000 d, claim_attempt a) \<in> set (current_pairs db')"
    using claim_takes_oldest [OF inj_sample_uuid durable_pending, of 6000000] unfolding if_P [OF n] by blast
  have "\<not> list_ex (claimable db_sending) (current_triples db_sending)" by code_simp
  then have n: "\<not> (\<exists>x\<in>set (current_triples db_sending). may_send db_sending x)" unfolding list_ex_iff may_send_claimable .
  show "ClaimPendingAttempt sample_uuid 7000000 db_sending = (Inr None, db_sending)"
    using claim_takes_oldest [OF inj_sample_uuid durable_sending, of 7000000] unfolding if_not_P [OF n] .
qed

text \<open>An outcome is recorded only for an attempt that is current and being sent: for any other the transaction answers
  \<open>ErrAttemptNotSending\<close> and leaves the database as it was, so that a late or repeated outcome overwrites nothing.\<close>

theorem outcome_needs_sending:
  assumes "durable_inv uuid db"
    and "\<forall>d a. (d, a) \<in> set (current_pairs db) \<longrightarrow> at_id a = aid \<longrightarrow> at_transport_status a \<noteq> TransportSending"
  shows "MarkEnqueued uuid aid rq rs at due dl db = (Inl ErrAttemptNotSending, db) \<and>
    MarkAccepted uuid aid rq rs at db = (Inl ErrAttemptNotSending, db) \<and>
    MarkTransportFailed uuid aid rq rs at db = (Inl ErrAttemptNotSending, db) \<and>
    MarkTransportUnknown uuid aid rq rs at due dl db = (Inl ErrAttemptNotSending, db) \<and>
    MarkTransportUnknownTerminal uuid aid rq rs at db = (Inl ErrAttemptNotSending, db)"
  unfolding MarkEnqueued_def MarkAccepted_def MarkTransportFailed_def MarkTransportUnknown_def MarkTransportUnknownTerminal_def
  using transitionAttempt_reject [OF durable_inv_keys [OF assms(1)], of aid] assms(2) by blast

theorem outcome_needs_sending_witness:
  "MarkAccepted sample_uuid ''aaa'' None None 7000000 db_watched = (Inl ErrAttemptNotSending, db_watched)"
proof -
  have "list_all (\<lambda>(d, a). at_transport_status a \<noteq> TransportSending) (current_pairs db_watched)" by code_simp
  then have "\<forall>d a. (d, a) \<in> set (current_pairs db_watched) \<longrightarrow> at_id a = ''aaa'' \<longrightarrow> at_transport_status a \<noteq> TransportSending"
    by (auto simp: list_all_iff simp del: in_current_pairs)
  then show ?thesis using outcome_needs_sending [OF durable_watched] by blast
qed

section \<open>Polling\<close>

text \<open>A change of one current pair leaves every other pair as it is.\<close>

lemma touched_others:
  assumes k: "keys_ok db" and p: "(d, a) \<in> set (current_pairs db)"
    and im: "set (current_pairs db') = (\<lambda>(x, y). if at_id y = at_id a then (g x, f y) else (x, y)) ` set (current_pairs db)"
    and g: "\<And>x. dl_id (g x) = dl_id x" and n: "dl_id x \<noteq> dl_id d"
  shows "(x, y) \<in> set (current_pairs db') \<longleftrightarrow> (x, y) \<in> set (current_pairs db)"
proof -
  have same: "dl_id v = dl_id d \<longleftrightarrow> at_id z = at_id a" if "(v, z) \<in> set (current_pairs db)" for v z
    using current_unique [OF k that p] .
  let ?h = "\<lambda>(v, z). if at_id z = at_id a then (g v, f z) else (v, z)"
  have "(x, y) \<in> set (current_pairs db)" if m: "(v, z) \<in> set (current_pairs db)" "(x, y) = ?h (v, z)" for v z
  proof (cases "at_id z = at_id a")
    case True
    then have "x = g v" using m(2) by simp
    then have "dl_id x = dl_id d" using g same [OF m(1)] True by simp
    then show ?thesis using n by contradiction
  next
    case False
    then have "x = v" "y = z" using m(2) by simp_all
    then show ?thesis using m(1) by (simp only:)
  qed
  moreover have "(x, y) = ?h (x, y)" if "(x, y) \<in> set (current_pairs db)" using same [OF that] n by simp
  ultimately show ?thesis unfolding im image_iff Bex_def split_paired_Ex by blast
qed

lemma completed_pairs:
  assumes u: "inj uuid" and inv: "durable_inv uuid db" and p: "(d, a) \<in> set (current_pairs db)"
  shows "(if fst (completed_db uuid upd at d a db)
      then status_delivery (pu_TransportStatus upd) (pu_DeploymentStatus upd) at d else d,
      complete_attempt (pu_TransportStatus upd) (pu_DeploymentStatus upd) (poll_deployment_id a upd) (pu_NextPollAt upd) a)
        \<in> set (current_pairs (snd (completed_db uuid upd at d a db)))" (is ?mine)
    and "dl_id x \<noteq> dl_id d \<Longrightarrow>
      (x, y) \<in> set (current_pairs (snd (completed_db uuid upd at d a db))) \<longleftrightarrow> (x, y) \<in> set (current_pairs db)"
proof -
  note k = durable_inv_keys [OF inv]
  let ?f = "complete_attempt (pu_TransportStatus upd) (pu_DeploymentStatus upd) (poll_deployment_id a upd) (pu_NextPollAt upd)"
  let ?g = "if fst (completed_db uuid upd at d a db) then status_delivery (pu_TransportStatus upd) (pu_DeploymentStatus upd) at else (\<lambda>r. r)"
  have im: "set (current_pairs (snd (completed_db uuid upd at d a db))) =
      (\<lambda>(x, y). if at_id y = at_id a then (?g x, ?f y) else (x, y)) ` set (current_pairs db)"
  proof (cases "at_transport_status a = pu_TransportStatus upd \<and> at_deployment_status a = pu_DeploymentStatus upd")
    case True
    then show ?thesis using complete_keep.touched_pairs_image [OF k p] by (simp add: completed_db_def Let_def)
  next
    case False
    then show ?thesis unfolding completed_db_def Let_def if_not_P [OF False] fst_conv snd_conv if_True current_pairs_append_audit
      by (intro complete.touched_pairs_image [OF k p])
  qed
  show ?mine unfolding im by (rule image_eqI [OF _ p]) simp
  show "dl_id x \<noteq> dl_id d \<Longrightarrow>
      (x, y) \<in> set (current_pairs (snd (completed_db uuid upd at d a db))) \<longleftrightarrow> (x, y) \<in> set (current_pairs db)"
    by (rule touched_others [OF k p im]) (simp_all add: status_delivery_def)
qed

text \<open>C6. A poll result is written exactly when the current attempt of its delivery still carries the token of the claim (the time
  at which \<open>ListDuePolls\<close> claimed it). Then the attempt and, if the status changed, its delivery get the result, the token stays,
  and every other current pair is untouched. Otherwise (the attempt was claimed again at another time, \<open>RecoverInterrupted\<close> has
  cleared the token, or a new attempt took its place) \<open>CompletePoll\<close> answers \<open>ErrPollNotClaimed\<close> and changes nothing.\<close>

theorem stale_poll_rejected:
  assumes u: "inj uuid" and inv: "durable_inv uuid db"
  shows "if \<exists>d a. (d, a) \<in> set (current_pairs db) \<and> at_id a = pw_AttemptID w \<and> dl_id d = pw_DeliveryID w \<and>
      at_last_polled_at a = Some (UnixMilli (pw_ClaimedAt w))
    then \<exists>d a changed db'. (d, a) \<in> set (current_pairs db) \<and> at_id a = pw_AttemptID w \<and> dl_id d = pw_DeliveryID w \<and>
      CompletePoll uuid w upd at db = (Inr changed, db') \<and>
      (changed \<longleftrightarrow> (at_transport_status a, at_deployment_status a) \<noteq> (pu_TransportStatus upd, pu_DeploymentStatus upd)) \<and>
      (\<exists>d' a'. (d', a') \<in> set (current_pairs db') \<and> at_id a' = at_id a \<and> dl_id d' = dl_id d \<and>
        at_transport_status a' = pu_TransportStatus upd \<and> at_deployment_status a' = pu_DeploymentStatus upd \<and>
        at_poll_due_at a' = timeMillis (pu_NextPollAt upd) \<and> at_last_polled_at a' = at_last_polled_at a \<and>
        (if changed then dl_transport_status d' = pu_TransportStatus upd \<and> dl_deployment_status d' = pu_DeploymentStatus upd
         else d' = d)) \<and>
      (\<forall>d' a'. dl_id d' \<noteq> pw_DeliveryID w \<longrightarrow>
        ((d', a') \<in> set (current_pairs db') \<longleftrightarrow> (d', a') \<in> set (current_pairs db)))
    else CompletePoll uuid w upd at db = (Inl ErrPollNotClaimed, db)"
proof (cases "\<exists>d a. (d, a) \<in> set (current_pairs db) \<and> at_id a = pw_AttemptID w \<and> dl_id d = pw_DeliveryID w \<and>
      at_last_polled_at a = Some (UnixMilli (pw_ClaimedAt w))")
  case False
  then have "CompletePoll uuid w upd at db = (Inl ErrPollNotClaimed, db)"
    by (intro CompletePoll_reject) (auto simp: is_current_def)
  then show ?thesis unfolding if_not_P [OF False] .
next
  case True
  then obtain d a where p: "(d, a) \<in> set (current_pairs db)" and w: "at_id a = pw_AttemptID w" "dl_id d = pw_DeliveryID w"
    and t: "at_last_polled_at a = Some (UnixMilli (pw_ClaimedAt w))" by blast
  let ?r = "completed_db uuid upd at d a db"
  have c: "CompletePoll uuid w upd at db = (Inr (fst ?r), snd ?r)"
    by (rule CompletePoll_eq [OF u inv p]) (simp_all add: w t)
  have ch: "fst ?r \<longleftrightarrow> (at_transport_status a, at_deployment_status a) \<noteq> (pu_TransportStatus upd, pu_DeploymentStatus upd)"
    by (simp add: completed_db_def Let_def)
  show ?thesis unfolding if_P [OF True]
  proof (rule exI [of _ d], rule exI [of _ a], rule exI [of _ "fst ?r"], rule exI [of _ "snd ?r"], intro conjI)
    show "\<forall>d' a'. dl_id d' \<noteq> pw_DeliveryID w \<longrightarrow> ((d', a') \<in> set (current_pairs (snd ?r)) \<longleftrightarrow> (d', a') \<in> set (current_pairs db))"
      using completed_pairs(2) [OF u inv p] w(2) by metis
    show "\<exists>d' a'. (d', a') \<in> set (current_pairs (snd ?r)) \<and> at_id a' = at_id a \<and> dl_id d' = dl_id d \<and>
        at_transport_status a' = pu_TransportStatus upd \<and> at_deployment_status a' = pu_DeploymentStatus upd \<and>
        at_poll_due_at a' = timeMillis (pu_NextPollAt upd) \<and> at_last_polled_at a' = at_last_polled_at a \<and>
        (if fst ?r then dl_transport_status d' = pu_TransportStatus upd \<and> dl_deployment_status d' = pu_DeploymentStatus upd
         else d' = d)"
      by (intro exI conjI, rule completed_pairs(1) [OF u inv p]) (simp_all add: complete_attempt_def status_delivery_def)
  qed (rule p w c ch)+
qed

definition due_work :: PollWork where
  "due_work = (case fst (ListDuePolls 9000000 db_watched) of Inr (w # _) \<Rightarrow> w)"

definition stale_work :: PollWork where
  "stale_work = due_work\<lparr>pw_ClaimedAt := 8000000\<rparr>"

theorem stale_poll_rejected_witness:
  "(\<forall>upd at. CompletePoll sample_uuid stale_work upd at db_polled = (Inl ErrPollNotClaimed, db_polled)) \<and>
   (\<forall>upd at. \<exists>changed db'. CompletePoll sample_uuid due_work upd at db_polled = (Inr changed, db'))"
proof
  have "list_all (\<lambda>(d, a). at_last_polled_at a \<noteq> Some (UnixMilli (pw_ClaimedAt stale_work))) (current_pairs db_polled)" by code_simp
  then have n: "\<not> (\<exists>d a. (d, a) \<in> set (current_pairs db_polled) \<and> at_id a = pw_AttemptID stale_work \<and> dl_id d = pw_DeliveryID stale_work \<and>
      at_last_polled_at a = Some (UnixMilli (pw_ClaimedAt stale_work)))"
    by (auto simp: list_all_iff simp del: in_current_pairs)
  show "\<forall>upd at. CompletePoll sample_uuid stale_work upd at db_polled = (Inl ErrPollNotClaimed, db_polled)"
    using stale_poll_rejected [OF inj_sample_uuid durable_polled, of stale_work] unfolding if_not_P [OF n] by blast
  have "list_ex (\<lambda>(d, a). at_id a = pw_AttemptID due_work \<and> dl_id d = pw_DeliveryID due_work \<and>
      at_last_polled_at a = Some (UnixMilli (pw_ClaimedAt due_work))) (current_pairs db_polled)" by code_simp
  then have y: "\<exists>d a. (d, a) \<in> set (current_pairs db_polled) \<and> at_id a = pw_AttemptID due_work \<and> dl_id d = pw_DeliveryID due_work \<and>
      at_last_polled_at a = Some (UnixMilli (pw_ClaimedAt due_work))"
    by (auto simp: list_ex_iff simp del: in_current_pairs)
  show "\<forall>upd at. \<exists>changed db'. CompletePoll sample_uuid due_work upd at db_polled = (Inr changed, db')"
    using stale_poll_rejected [OF inj_sample_uuid durable_polled, of due_work] unfolding if_P [OF y] by blast
qed

text \<open>A poll that was claimed is not claimed again before it is completed: two rounds of \<open>ListDuePolls\<close>, whatever their
  clocks say, never hand out the same attempt.\<close>

theorem poll_claimed_once:
  assumes "durable_inv uuid db" and "ListDuePolls now db = (Inr ws, db')" and "ListDuePolls now' db' = (Inr ws', db'')"
  shows "pw_AttemptID ` set ws \<inter> pw_AttemptID ` set ws' = {}"
  using ListDuePolls_no_reclaim [OF assms] by blast

theorem poll_claimed_once_witness:
  "\<exists>ws ws'. ws \<noteq> [] \<and> fst (ListDuePolls 9000000 db_watched) = Inr ws \<and> fst (ListDuePolls 99000000 db_polled) = Inr ws' \<and>
     pw_AttemptID ` set ws \<inter> pw_AttemptID ` set ws' = {}"
proof -
  have n: "(case fst (ListDuePolls 9000000 db_watched) of Inr ws \<Rightarrow> length ws = 1 | _ \<Rightarrow> False)" by code_simp
  obtain ws where l: "ListDuePolls 9000000 db_watched = (Inr ws, db_polled)"
    using n by (cases "ListDuePolls 9000000 db_watched") (auto simp: db_polled_def split: sum.splits)
  obtain ws' db'' where l': "ListDuePolls 99000000 db_polled = (Inr ws', db'')"
    by (cases "claimPolls (UnixMilli 99000000) (pollCandidates 99000000 db_polled) db_polled") (auto simp: ListDuePolls_def)
  show ?thesis using n poll_claimed_once [OF durable_watched l l'] by (auto simp: l l')
qed

section \<open>Manual updates\<close>

lemma replaced_others:
  assumes "dl_id x \<noteq> dl_id d"
  shows "(x, y) \<in> set (current_pairs (replaced_db uuid upd kind d t ds db)) \<longleftrightarrow> (x, y) \<in> set (current_pairs db)"
  using assms by (auto simp: replaced_db_def swapped_db_def sql_simps is_current_def manualAttempt_def image_iff)

lemma corrected_others:
  assumes k: "keys_ok db" and p: "(d, a) \<in> set (current_pairs db)" and n: "dl_id x \<noteq> dl_id d"
  shows "(x, y) \<in> set (current_pairs (after_correction uuid upd d a db)) \<longleftrightarrow> (x, y) \<in> set (current_pairs db)"
proof (cases "mu_Correct upd")
  case True
  have im: "set (current_pairs (after_correction uuid upd d a db)) = (\<lambda>(x, y). if at_id y = at_id a
      then (status_delivery (mu_TransportStatus upd) (mu_DeploymentStatus upd) (mu_At upd) x, correct_attempt upd y) else (x, y)) `
      set (current_pairs db)"
    using correct.touched_pairs_image [OF k p] True by (simp add: after_correction_def corrected_db_def)
  show ?thesis by (rule touched_others [OF k p im _ n]) (simp add: status_delivery_def)
qed (simp add: after_correction_def)

text \<open>The current pair of the delivery after the correction, if there is one.\<close>

lemma after_correction_pair:
  assumes k: "keys_ok db" and p: "(d, a) \<in> set (current_pairs db)"
  shows "\<exists>x y. (x, y) \<in> set (current_pairs (after_correction uuid upd d a db)) \<and> dl_id x = dl_id d \<and> at_id y = at_id a \<and>
    (at_transport_status y, at_deployment_status y) = corrected_status upd a \<and> (mu_Correct upd \<or> (x, y) = (d, a))"
proof (cases "mu_Correct upd")
  case True
  then show ?thesis using corrected_pair [OF k p, of upd uuid]
    by (intro exI [of _ "status_delivery (mu_TransportStatus upd) (mu_DeploymentStatus upd) (mu_At upd) d"] exI [of _ "correct_attempt upd a"])
      (simp add: after_correction_def corrected_status_def correct_attempt_def status_delivery_def del: in_current_pairs)
next
  case False
  then show ?thesis using p
    by (intro exI [of _ d] exI [of _ a]) (simp add: after_correction_def corrected_status_def del: in_current_pairs)
qed

lemma replaced_result:
  assumes u: "inj uuid" and inv: "durable_inv uuid db" and p: "(d, a) \<in> set (current_pairs db)"
    and ok: "mu_Correct upd \<longrightarrow> correction_ok upd"
  defines "c \<equiv> after_correction uuid upd d a db"
  shows "uuid (db_uuids c) \<notin> at_id ` set (db_attempts db) \<and> durable_inv uuid (replaced_db uuid upd kind d t ds c) \<and>
    (\<exists>x y. (x, y) \<in> set (current_pairs (replaced_db uuid upd kind d t ds c)) \<and> dl_id x = dl_id d \<and> at_id y = uuid (db_uuids c) \<and>
      at_transport_status y = TransportPending \<and> dl_transport_status x = TransportPending) \<and>
    (\<exists>b\<in>set (db_attempts (replaced_db uuid upd kind d t ds c)). at_id b = at_id a \<and>
      (at_transport_status b, at_deployment_status b) = corrected_status upd a)"
proof (intro conjI)
  note k = durable_inv_keys [OF inv]
  show "uuid (db_uuids c) \<notin> at_id ` set (db_attempts db)"
    using fresh_ids(3) [OF u inv, of "db_uuids c"] by (simp add: c_def after_correction_def corrected_db_def)
  show "durable_inv uuid (replaced_db uuid upd kind d t ds c)"
    unfolding c_def using delivery_replaced_durable [OF u inv p] ok by blast
  obtain x y where xy: "(x, y) \<in> set (current_pairs c)" "dl_id x = dl_id d" "at_id y = at_id a"
      "(at_transport_status y, at_deployment_status y) = corrected_status upd a"
    using after_correction_pair [OF k p, of uuid upd] unfolding c_def by blast
  let ?x = "replace_delivery (uuid (db_uuids c)) (mu_At upd) x" and ?y = "manualAttempt uuid upd kind d c"
  have "?x \<in> set (db_deliveries (replaced_db uuid upd kind d t ds c))"
    using xy(1,2) by (simp add: replaced_db_def swapped_db_def sql_simps)
  then have "(?x, ?y) \<in> set (current_pairs (replaced_db uuid upd kind d t ds c))"
    using xy(2) by (simp add: replaced_db_def swapped_db_def is_current_def manualAttempt_def)
  then show "\<exists>x y. (x, y) \<in> set (current_pairs (replaced_db uuid upd kind d t ds c)) \<and> dl_id x = dl_id d \<and> at_id y = uuid (db_uuids c) \<and>
      at_transport_status y = TransportPending \<and> dl_transport_status x = TransportPending"
    using xy(2) by (intro exI [of _ ?x] exI [of _ ?y]) (simp add: manualAttempt_def del: in_current_pairs)
  show "\<exists>b\<in>set (db_attempts (replaced_db uuid upd kind d t ds c)). at_id b = at_id a \<and>
      (at_transport_status b, at_deployment_status b) = corrected_status upd a"
    using xy by (intro bexI [of _ y]) (simp_all add: replaced_db_def swapped_db_def)
qed

text \<open>C7. A manual update is a compare-and-swap: it is applied exactly when the delivery's current attempt is still the expected
  one in the expected status; otherwise it answers \<open>ErrCurrentAttemptChanged\<close> and changes nothing. Applied without a new attempt,
  it gives the current attempt the corrected status, if there is a correction. Applied with a new attempt, that attempt is
  the delivery's current one, pending, and the replaced attempt keeps the corrected status. In each case every pair of another
  delivery is untouched.\<close>

theorem manual_compare_and_swap:
  assumes u: "inj uuid" and inv: "durable_inv uuid db" and ok: "mu_Correct upd \<longrightarrow> correction_ok upd"
    and op: "mu_Create upd \<longrightarrow> mu_Operation upd = OperationRetry \<or> mu_Operation upd = OperationRedeploy"
  shows "if \<exists>d a. (d, a) \<in> set (current_pairs db) \<and> expectation_met upd d a
    then \<exists>d a i db'. (d, a) \<in> set (current_pairs db) \<and> expectation_met upd d a \<and>
      ApplyManualUpdate uuid upd db = (Inr i, db') \<and> durable_inv uuid db' \<and>
      (if mu_Create upd then i \<notin> at_id ` set (db_attempts db) \<and>
         (\<exists>x y. (x, y) \<in> set (current_pairs db') \<and> dl_id x = dl_id d \<and> at_id y = i \<and> at_transport_status y = TransportPending \<and>
            dl_transport_status x = TransportPending) \<and>
         (\<exists>b\<in>set (db_attempts db'). at_id b = at_id a \<and> (at_transport_status b, at_deployment_status b) = corrected_status upd a)
       else i = at_id a \<and>
         (\<exists>x y. (x, y) \<in> set (current_pairs db') \<and> dl_id x = dl_id d \<and> at_id y = i \<and>
            (at_transport_status y, at_deployment_status y) = corrected_status upd a \<and> (mu_Correct upd \<or> (x, y) = (d, a)))) \<and>
      (\<forall>x y. dl_id x \<noteq> ca_DeliveryID (mu_Expected upd) \<longrightarrow>
         ((x, y) \<in> set (current_pairs db') \<longleftrightarrow> (x, y) \<in> set (current_pairs db)))
    else ApplyManualUpdate uuid upd db = (Inl ErrCurrentAttemptChanged, db)"
proof (cases "\<exists>d a. (d, a) \<in> set (current_pairs db) \<and> expectation_met upd d a")
  case False
  then have "ApplyManualUpdate uuid upd db = (Inl ErrCurrentAttemptChanged, db)"
    using ApplyManualUpdate_reject [OF durable_inv_keys [OF inv]] by blast
  then show ?thesis unfolding if_not_P [OF False] .
next
  case True
  then obtain d a where p: "(d, a) \<in> set (current_pairs db)" and e: "expectation_met upd d a" by blast
  note k = durable_inv_keys [OF inv]
  have del: "dl_id d = ca_DeliveryID (mu_Expected upd)" using e by (simp add: expectation_met_def)
  let ?c = "after_correction uuid upd d a db"
  note eq = ApplyManualUpdate_eq [OF u inv p e, OF ok [rule_format]]
  have others: "dl_id x \<noteq> ca_DeliveryID (mu_Expected upd) \<Longrightarrow> (x, y) \<in> set (current_pairs ?c) \<longleftrightarrow> (x, y) \<in> set (current_pairs db)" for x y
    by (rule corrected_others [OF k p]) (simp add: del)
  show ?thesis
  proof (cases "mu_Create upd")
    case create: True
    then obtain kind where op: "operationAttemptKind (mu_Operation upd) = Inr kind" using op by (auto simp: operationAttemptKind_def)
    let ?r = "replaced_db uuid upd kind d (fst (corrected_status upd a)) (snd (corrected_status upd a)) ?c"
    have 1: "ApplyManualUpdate uuid upd db = (Inr (uuid (db_uuids ?c)), ?r)" using eq create op by simp
    have 2: "\<forall>x y. dl_id x \<noteq> ca_DeliveryID (mu_Expected upd) \<longrightarrow> ((x, y) \<in> set (current_pairs ?r) \<longleftrightarrow> (x, y) \<in> set (current_pairs db))"
      using replaced_others [where d = d] others del by metis
    note 3 = replaced_result [OF u inv p ok, of kind "fst (corrected_status upd a)" "snd (corrected_status upd a)"]
    show ?thesis unfolding if_P [OF True] if_P [OF create]
      by (rule exI [of _ d], rule exI [of _ a], rule exI [of _ "uuid (db_uuids ?c)"], rule exI [of _ ?r]) (use p e 1 2 3 in blast)
  next
    case correct: False
    have 1: "ApplyManualUpdate uuid upd db = (Inr (at_id a), ?c)" using eq correct by simp
    have 2: "\<forall>x y. dl_id x \<noteq> ca_DeliveryID (mu_Expected upd) \<longrightarrow> ((x, y) \<in> set (current_pairs ?c) \<longleftrightarrow> (x, y) \<in> set (current_pairs db))"
      using others by blast
    have 3: "durable_inv uuid ?c" using corrected_db_durable [OF u inv p] ok inv by (simp add: after_correction_def)
    show ?thesis unfolding if_P [OF True] if_not_P [OF correct]
      by (rule exI [of _ d], rule exI [of _ a], rule exI [of _ "at_id a"], rule exI [of _ ?c])
        (use p e 1 2 3 after_correction_pair [OF k p, of uuid upd] in blast)
  qed
qed

definition sample_update :: ManualUpdate where
  "sample_update = createUpdate (projr (CurrentAttempt ''aa'' db_pending)) OperationRedeploy ''admin'' '''' 9000000"

definition sample_correction :: ManualUpdate where
  "sample_correction = sample_update\<lparr>mu_Correct := True, mu_Create := False, mu_TransportStatus := TransportEnqueued,
     mu_DeploymentStatus := DeploymentDone, mu_DeploymentID := ''dep1''\<rparr>"

theorem manual_compare_and_swap_witness:
  "ApplyManualUpdate sample_uuid sample_update db_polled = (Inl ErrCurrentAttemptChanged, db_polled) \<and>
   (\<exists>i db'. ApplyManualUpdate sample_uuid sample_update db_pending = (Inr i, db') \<and> i \<notin> at_id ` set (db_attempts db_pending)) \<and>
   (\<exists>db' x y. ApplyManualUpdate sample_uuid sample_correction db_pending = (Inr ''aaa'', db') \<and>
      (x, y) \<in> set (current_pairs db') \<and> at_deployment_status y = DeploymentDone)"
proof (intro conjI)
  have ok: "mu_Correct sample_update \<longrightarrow> correction_ok sample_update" "mu_Correct sample_correction \<longrightarrow> correction_ok sample_correction"
    "mu_Create sample_update" "\<not> mu_Create sample_correction"
    by (simp_all add: sample_update_def sample_correction_def correction_ok_def monitored_def)
  have op: "mu_Create sample_update \<longrightarrow> mu_Operation sample_update = OperationRetry \<or> mu_Operation sample_update = OperationRedeploy"
      "mu_Create sample_correction \<longrightarrow> mu_Operation sample_correction = OperationRetry \<or> mu_Operation sample_correction = OperationRedeploy"
    by (simp_all add: sample_update_def sample_correction_def)
  have "list_all (\<lambda>(d, a). \<not> expectation_met sample_update d a) (current_pairs db_polled)" by code_simp
  then have n: "\<not> (\<exists>d a. (d, a) \<in> set (current_pairs db_polled) \<and> expectation_met sample_update d a)"
    by (auto simp: list_all_iff simp del: in_current_pairs)
  show "ApplyManualUpdate sample_uuid sample_update db_polled = (Inl ErrCurrentAttemptChanged, db_polled)"
    using manual_compare_and_swap [OF inj_sample_uuid durable_polled ok(1) op(1)] unfolding if_not_P [OF n] .
  have "list_ex (\<lambda>(d, a). expectation_met sample_update d a) (current_pairs db_pending)" by code_simp
  then have y: "\<exists>d a. (d, a) \<in> set (current_pairs db_pending) \<and> expectation_met sample_update d a"
    by (auto simp: list_ex_iff simp del: in_current_pairs)
  show "\<exists>i db'. ApplyManualUpdate sample_uuid sample_update db_pending = (Inr i, db') \<and> i \<notin> at_id ` set (db_attempts db_pending)"
    using manual_compare_and_swap [OF inj_sample_uuid durable_pending ok(1) op(1)] unfolding if_P [OF y] if_P [OF ok(3)] by blast
  have "list_ex (\<lambda>(d, a). expectation_met sample_correction d a) (current_pairs db_pending)" by code_simp
  then have z: "\<exists>d a. (d, a) \<in> set (current_pairs db_pending) \<and> expectation_met sample_correction d a"
    by (auto simp: list_ex_iff simp del: in_current_pairs)
  have s: "corrected_status sample_correction a = (TransportEnqueued, DeploymentDone)" for a
    by (simp add: corrected_status_def sample_correction_def)
  have i: "at_id a = ''aaa''" if "expectation_met sample_correction d a" for d a
  proof -
    have "ca_AttemptID (mu_Expected sample_correction) = ''aaa''" by code_simp
    then show ?thesis using that by (simp add: expectation_met_def)
  qed
  show "\<exists>db' x y. ApplyManualUpdate sample_uuid sample_correction db_pending = (Inr ''aaa'', db') \<and>
      (x, y) \<in> set (current_pairs db') \<and> at_deployment_status y = DeploymentDone"
  proof -
    obtain d a i db' x y where e: "expectation_met sample_correction d a" "i = at_id a"
      and r: "ApplyManualUpdate sample_uuid sample_correction db_pending = (Inr i, db')" "(x, y) \<in> set (current_pairs db')"
      "(at_transport_status y, at_deployment_status y) = corrected_status sample_correction a"
      using manual_compare_and_swap [OF inj_sample_uuid durable_pending ok(2) op(2)] unfolding if_P [OF z] if_not_P [OF ok(4)] by blast
    then show ?thesis using i [OF e(1)] by (simp only: s prod.inject) blast
  qed
qed

section \<open>Accepting events\<close>

text \<open>C8. Direct ingest is idempotent: a valid command either finds an event with its provider, source and delivery identifier,
  answers with that event and adds nothing, or adds exactly one event and one pending delivery per decided target, in order.
  It can be refused only when two of the decided deliveries name the same target.\<close>

theorem ingest_exactly_once:
  assumes u: "inj uuid" and inv: "durable_inv uuid db" and v: "valid_command c" and r: "ic_RoutingResult c \<noteq> RoutingDeferred"
    and t: "distinct (map nd_TargetID (ic_Deliveries c))"
  shows "if commandKey c \<in> eventKey ` set (db_events db)
    then \<exists>e\<in>set (db_events db). eventKey e = commandKey c \<and>
      Ingest uuid c db = (Inr \<lparr>ir_EventID = ev_id e, ir_Duplicate = True\<rparr>, db\<lparr>db_uuids := Suc (db_uuids db)\<rparr>)
    else \<exists>i db'. Ingest uuid c db = (Inr \<lparr>ir_EventID = i, ir_Duplicate = False\<rparr>, db') \<and>
      db_events db' = db_events db @ [eventRow i c] \<and> adds_deliveries i (ic_Deliveries c) (event_added uuid c db) db'"
proof (cases "commandKey c \<in> eventKey ` set (db_events db)")
  case True
  then obtain e where e: "e \<in> set (db_events db)" "eventKey e = commandKey c" by (metis imageE)
  then show ?thesis using True ingest_duplicate(1) [OF inv v e r] by auto
next
  case False
  let ?i = "uuid (db_uuids db)"
  have d: "durable_inv uuid (event_added uuid c db)" by (rule event_added_durable [OF u inv False r])
  have "\<exists>db'. insertDeliveries uuid ?i (UnixMilli (ic_ReceivedAt c)) (ic_Deliveries c) (event_added uuid c db) = Some db'"
  proof (cases "ic_Deliveries c = []")
    case nonempty: False
    have dep: "ic_RoutingResult c = RoutingDeploy" using valid_deliveries_deploy [OF v] nonempty by blast
    have free: "\<not> target_taken ?i nd (event_added uuid c db)" for nd
    proof
      assume "target_taken ?i nd (event_added uuid c db)"
      then obtain x where x: "x \<in> set (db_deliveries db)" "dl_event_id x = ?i" by (auto simp: target_taken_def)
      have "refs_ok db" using inv by (simp add: durable_inv_def store_inv_def)
      then obtain e where "e \<in> set (db_events db)" "ev_id e = dl_event_id x" using x(1) unfolding refs_ok_def by blast
      then have "?i \<in> ev_id ` set (db_events db)" using x(2) by (metis imageI)
      then show False using fresh_ids(1) [OF u inv, of "db_uuids db"] by simp
    qed
    show ?thesis
    proof (rule insertDeliveries_total [OF u d])
      show "eventRow ?i c \<in> set (db_events (event_added uuid c db))" by simp
      show "\<forall>nd\<in>set (ic_Deliveries c). \<not> target_taken ?i nd (event_added uuid c db)" using free by blast
    qed (simp_all only: eventRow_simps dep t)
  qed simp
  then obtain db' where s: "insertDeliveries uuid ?i (UnixMilli (ic_ReceivedAt c)) (ic_Deliveries c) (event_added uuid c db) = Some db'"
    by blast
  note a = Ingest_inserted [OF u inv v r False s]
  have "Ingest uuid c db = (Inr \<lparr>ir_EventID = ?i, ir_Duplicate = False\<rparr>, db')" by (simp add: Ingest_new_eq [OF u inv v r False] s)
  moreover have "db_events db' = db_events db @ [eventRow ?i c]" using a by (simp add: adds_deliveries_def)
  ultimately show ?thesis using False a by auto
qed

lemma sample_command_valid:
  "valid_command sample_command" "ic_RoutingResult sample_command \<noteq> RoutingDeferred" "distinct (map nd_TargetID (ic_Deliveries sample_command))"
  unfolding valid_command_def by code_simp+

theorem ingest_exactly_once_witness:
  "\<exists>e\<in>set (db_events db_pending). eventKey e = commandKey sample_command \<and>
      Ingest sample_uuid sample_command db_pending =
        (Inr \<lparr>ir_EventID = ev_id e, ir_Duplicate = True\<rparr>, db_pending\<lparr>db_uuids := Suc (db_uuids db_pending)\<rparr>)"
proof -
  have "list_ex (\<lambda>e. eventKey e = commandKey sample_command) (db_events db_pending)" by code_simp
  then have "commandKey sample_command \<in> eventKey ` set (db_events db_pending)" by (auto simp: list_ex_iff image_iff eq_commute)
  then show ?thesis using ingest_exactly_once [OF inj_sample_uuid durable_pending sample_command_valid] by simp
qed

text \<open>C9. During a reload events are queued in the order of their acceptance: deferred ingest of a new event appends it to the
  queue with a larger number than any before, and only the head of the queue can be decided; deciding it removes it alone
  and gives its event the decided result and exactly the decided deliveries.\<close>

theorem queue_first_in_first_out:
  assumes u: "inj uuid" and inv: "durable_inv uuid db"
  shows "(valid_command c \<and> ic_RoutingResult c = RoutingDeferred \<and> commandKey c \<notin> eventKey ` set (db_events db) \<longrightarrow>
      (\<exists>i db'. IngestDeferred uuid c db = (Inr \<lparr>ir_EventID = i, ir_Duplicate = False\<rparr>, db') \<and>
         (\<exists>q. db_queue db' = db_queue db @ [q] \<and> q_event_id q = i \<and> (\<forall>p\<in>set (db_queue db). q_seq p < q_seq q)))) \<and>
    (FinalizeDeferred uuid x dec digest db = (Inr True, db') \<longrightarrow>
      (\<exists>q. db_queue db = q # db_queue db' \<and> de_EventID x = q_event_id q \<and>
         adds_deliveries (q_event_id q) (rd_Deliveries dec) (head_decided dec digest q db) db'))"
proof
  show "valid_command c \<and> ic_RoutingResult c = RoutingDeferred \<and> commandKey c \<notin> eventKey ` set (db_events db) \<longrightarrow>
      (\<exists>i db'. IngestDeferred uuid c db = (Inr \<lparr>ir_EventID = i, ir_Duplicate = False\<rparr>, db') \<and>
         (\<exists>q. db_queue db' = db_queue db @ [q] \<and> q_event_id q = i \<and> (\<forall>p\<in>set (db_queue db). q_seq p < q_seq q)))"
  proof (intro impI, elim conjE)
    assume v: "valid_command c" "ic_RoutingResult c = RoutingDeferred" "commandKey c \<notin> eventKey ` set (db_events db)"
    have "\<forall>p\<in>set (db_queue db). q_seq p \<le> db_queue_seq db" using inv by (simp add: durable_inv_def store_inv_def queue_ok_def)
    then show "\<exists>i db'. IngestDeferred uuid c db = (Inr \<lparr>ir_EventID = i, ir_Duplicate = False\<rparr>, db') \<and>
         (\<exists>q. db_queue db' = db_queue db @ [q] \<and> q_event_id q = i \<and> (\<forall>p\<in>set (db_queue db). q_seq p < q_seq q))"
      by (simp add: IngestDeferred_new_eq [OF u inv v] event_queued_def le_imp_less_Suc)
  qed
  show "FinalizeDeferred uuid x dec digest db = (Inr True, db') \<longrightarrow>
      (\<exists>q. db_queue db = q # db_queue db' \<and> de_EventID x = q_event_id q \<and>
         adds_deliveries (q_event_id q) (rd_Deliveries dec) (head_decided dec digest q db) db')"
  proof
    assume f: "FinalizeDeferred uuid x dec digest db = (Inr True, db')"
    then have fin: "final_decision dec" using FinalizeDeferred_invalid [of dec uuid x digest db] by auto
    obtain q qs where q: "db_queue db = q # qs" "de_Seq x = q_seq q" "de_EventID x = q_event_id q"
      using FinalizeDeferred_stale [of db x, OF _ inv fin] f by (metis Inr_inject Pair_inject)
    obtain e where e: "e \<in> set (db_events db)" "ev_id e = q_event_id q" "ev_routing_result e = RoutingDeferred"
      and h: "queueHead db = Some (q, e)" using queueHead_Cons [OF inv q(1)] by blast
    have s: "insertDeliveries uuid (q_event_id q) (ev_received_at e) (rd_Deliveries dec) (head_decided dec digest q db) = Some db'"
      using f FinalizeDeferred_head_eq [OF inv q(1) fin q(2,3) h e] by (auto split: option.splits)
    have "db_queue db' = qs" using insertDeliveries_keeps_queue [OF s] q(1) by (simp add: head_decided_def)
    then show "\<exists>q. db_queue db = q # db_queue db' \<and> de_EventID x = q_event_id q \<and>
         adds_deliveries (q_event_id q) (rd_Deliveries dec) (head_decided dec digest q db) db'"
      using q FinalizeDeferred_inserted [OF u inv q(1) fin s] by blast
  qed
qed

definition sample_deferred :: IngestCommand where
  "sample_deferred = sample_command\<lparr>ic_RoutingResult := RoutingDeferred, ic_Deliveries := []\<rparr>"

definition db_queued :: db where
  "db_queued = snd (IngestDeferred sample_uuid sample_deferred empty_db)"

definition sample_head :: DeferredEvent where
  "sample_head = the (PeekDeferred db_queued)"

definition sample_decision :: RouteDecision where
  "sample_decision = projr (Route sample_generation (de_CanonicalEvent sample_head))"

lemma durable_queued: "durable_inv sample_uuid db_queued"
  unfolding db_queued_def by (rule IngestDeferred_durable [OF inj_sample_uuid durable_inv_empty])

theorem queue_first_in_first_out_witness:
  "(\<exists>db'. IngestDeferred sample_uuid sample_deferred empty_db = (Inr \<lparr>ir_EventID = ''a'', ir_Duplicate = False\<rparr>, db') \<and>
      map q_event_id (db_queue db') = [''a'']) \<and>
   (\<exists>q db'. FinalizeDeferred sample_uuid sample_head sample_decision ''d1'' db_queued = (Inr True, db') \<and>
      db_queue db_queued = q # db_queue db' \<and> q_event_id q = ''a'')"
proof
  have v: "valid_command sample_deferred" "ic_RoutingResult sample_deferred = RoutingDeferred" "commandKey sample_deferred \<notin> eventKey ` set (db_events empty_db)"
    unfolding valid_command_def by (code_simp, code_simp, simp add: empty_db_def)
  have r: "fst (IngestDeferred sample_uuid sample_deferred empty_db) = Inr \<lparr>ir_EventID = ''a'', ir_Duplicate = False\<rparr>" by code_simp
  show "\<exists>db'. IngestDeferred sample_uuid sample_deferred empty_db = (Inr \<lparr>ir_EventID = ''a'', ir_Duplicate = False\<rparr>, db') \<and>
      map q_event_id (db_queue db') = [''a'']"
    using queue_first_in_first_out [OF inj_sample_uuid durable_inv_empty, THEN conjunct1, of sample_deferred] v r
    by (auto simp: empty_db_def)
  have "fst (FinalizeDeferred sample_uuid sample_head sample_decision ''d1'' db_queued) = Inr True" by code_simp
  then obtain db' where f: "FinalizeDeferred sample_uuid sample_head sample_decision ''d1'' db_queued = (Inr True, db')"
    by (metis prod.collapse)
  have h: "de_EventID sample_head = ''a''" by code_simp
  show "\<exists>q db'. FinalizeDeferred sample_uuid sample_head sample_decision ''d1'' db_queued = (Inr True, db') \<and>
      db_queue db_queued = q # db_queue db' \<and> q_event_id q = ''a''"
    using queue_first_in_first_out [OF inj_sample_uuid durable_queued, THEN conjunct2, THEN mp, OF f] f h by fastforce
qed

section \<open>Retention\<close>

text \<open>C10. Pruning removes only finished events together with everything that belongs to them, keeps the database consistent, and
  leaves at most the configured number of finished events per repository and overall (a limit of zero means no limit).\<close>

theorem prune_within_limits:
  assumes inv: "durable_inv uuid db" and r: "Prune cutoff limits dflt global db = (res, db')"
  shows "durable_inv uuid db' \<and>
    (\<exists>D. db_events db' = filter (\<lambda>e. ev_id e \<notin> D) (db_events db) \<and>
       (\<forall>d a. (d, a) \<in> set (current_pairs db') \<longleftrightarrow> (d, a) \<in> set (current_pairs db) \<and> dl_event_id d \<notin> D) \<and>
       (\<forall>e\<in>set (db_events db). ev_id e \<in> D \<longrightarrow> terminalEvent db e)) \<and>
    (\<forall>g. 0 < limitFor limits dflt g \<longrightarrow> int (terminalCount (Some g) db') \<le> limitFor limits dflt g) \<and>
    (0 < global \<longrightarrow> int (terminalCount None db') \<le> global)"
proof -
  have db': "db' = snd (Prune cutoff limits dflt global db)" using r by simp
  show ?thesis unfolding db' using Prune_spec [OF inv, where cutoff = cutoff and limits = limits and dflt = dflt and global = global] unfolding pruned_def by blast
qed

definition db_failed :: db where
  "db_failed = snd (MarkTransportFailed sample_uuid ''aaa'' None None 7000000 db_sending)"

theorem prune_within_limits_witness:
  "\<exists>res db'. Prune 0 (\<lambda>_. None) 5 1 db_failed = (res, db') \<and> durable_inv sample_uuid db' \<and> int (terminalCount None db') \<le> 1"
proof -
  have inv: "durable_inv sample_uuid db_failed" unfolding db_failed_def by (rule Mark_durable(3) [OF inj_sample_uuid durable_sending])
  obtain res db' where r: "Prune 0 (\<lambda>_. None) 5 1 db_failed = (res, db')" by fastforce
  show ?thesis using prune_within_limits [OF inv r] r by auto
qed

text \<open>The history can be cleared only when nothing is active and nothing is queued; then exactly the history goes, the
  pipeline observations stay. Otherwise nothing changes.\<close>

theorem clear_history_refuses:
  "(if (\<exists>d a. (d, a) \<in> set (current_pairs db) \<and> Active (at_transport_status a) (at_deployment_status a)) \<or> db_queue db \<noteq> []
    then ClearHistory db = (Inl ErrHistoryActive, db)
    else fst (ClearHistory db) = Inr (length (db_events db)) \<and> db_events (snd (ClearHistory db)) = [] \<and>
      db_deliveries (snd (ClearHistory db)) = [] \<and> db_attempts (snd (ClearHistory db)) = [] \<and> db_audits (snd (ClearHistory db)) = [] \<and>
      db_observations (snd (ClearHistory db)) = db_observations db)"
proof -
  have "CountActive db = 0 \<longleftrightarrow> \<not> (\<exists>d a. (d, a) \<in> set (current_pairs db) \<and> Active (at_transport_status a) (at_deployment_status a))"
    unfolding CountActive_zero_iff by (auto simp del: in_current_pairs)
  then show ?thesis by (cases "CountActive db = 0") (simp_all add: ClearHistory_def CountQueued_def del: in_current_pairs)
qed


theorem clear_history_refuses_witness:
  "ClearHistory db_sending = (Inl ErrHistoryActive, db_sending)"
proof -
  have "list_ex (\<lambda>(d, a). Active (at_transport_status a) (at_deployment_status a)) (current_pairs db_sending)" by code_simp
  then have "\<exists>d a. (d, a) \<in> set (current_pairs db_sending) \<and> Active (at_transport_status a) (at_deployment_status a)"
    by (auto simp: list_ex_iff simp del: in_current_pairs)
  then show ?thesis using clear_history_refuses [of db_sending] by (simp del: in_current_pairs)
qed

end
