(* ===== verification/Dispatcher.thy ===== *)
theory Dispatcher
  imports Send_Clients Poller
begin

text \<open>
  The dispatcher (\<^verbatim>\<open>internal/worker/dispatcher.go\<close>): it claims one pending attempt, resolves its target, sends
  at most one request and records the outcome. \<open>DispatcherRunOnce\<close> is the whole round without
  interleaving; the theory \<open>System\<close> takes it apart into the transactions between which others may run.

  Parameters: \<open>codec\<close> is the JSON decoding of the standard library (with and without number literals) and
  the letter tables; \<open>clients\<close> are the credentials and addresses a target's client was built with; \<open>remote\<close>
  is what the remote side answers; \<open>clock i\<close> is the i-th reading of the clock.
\<close>

section \<open>Snapshots\<close>

record codec =
  cd_unicode :: unicode
  cd_decode :: "bytes \<Rightarrow> json option"
  cd_unmarshal :: "bytes \<Rightarrow> json option"

definition snapshotLimit :: int where
  "snapshotLimit = 65536"

definition boundedSnapshot :: "codec \<Rightarrow> json \<Rightarrow> bytes" where
  "boundedSnapshot cd v = fst (redactJSON (cd_unicode cd) (marshalJSON v) (Some v) snapshotLimit)"

text \<open>\<^verbatim>\<open>boundedSnapshot(json.RawMessage(evidence))\<close>.\<close>

definition rawSnapshot :: "codec \<Rightarrow> bytes \<Rightarrow> bytes" where
  "rawSnapshot cd evidence =
     (case cd_decode cd evidence of
        Some v \<Rightarrow> fst (redactJSON (cd_unicode cd) evidence (Some v) snapshotLimit)
      | None \<Rightarrow> boundedSnapshot cd (JObject [(''error'', JString ''snapshot encoding failed'')]))"

fun kindText :: "TransportErrorKind \<Rightarrow> string" where
  "kindText TransportDefinitive = ''definitive''"
| "kindText TransportUncertain = ''uncertain''"

definition failureSnapshot :: "codec \<Rightarrow> string \<Rightarrow> bytes" where
  "failureSnapshot cd text = boundedSnapshot cd (JObject [(''kind'', JString ''definitive''), (''error'', JString text)])"

definition responseSnapshot :: "codec \<Rightarrow> string \<Rightarrow> Response \<Rightarrow> TransportError option \<Rightarrow> bytes" where
  "responseSnapshot cd prefix response err =
     (let body = (if rs_Body response = [] then JNull
                  else case cd_unmarshal cd (rs_Body response) of Some v \<Rightarrow> v | None \<Rightarrow> JString (rs_Body response))
      in boundedSnapshot cd (JObject
           ([(''status_code'', JNumber (decimal (rs_StatusCode response))), (''truncated'', JBool (rs_Truncated response))] @
            (if body = JNull then [] else [(''body'', body)]) @
            (case err of None \<Rightarrow> []
             | Some e \<Rightarrow> [(''error'', JString (prefix @ kindText (te_Kind e) @ '': '' @ te_Text e)),
                          (''kind'', JString (kindText (te_Kind e)))]))))"

section \<open>Committing an outcome\<close>

text \<open>The result of a round: whether an attempt was claimed, the error, and whether a request was sent.\<close>

type_synonym round = "(bool \<times> worker_error option \<times> bool) \<times> db"

definition commitActive :: "bool \<Rightarrow> (store_error + unit) \<times> db \<Rightarrow> round" where
  "commitActive sent r =
     (case r of (Inl e, db1) \<Rightarrow> ((True, Some (WorkerStore e), sent), db1) | (Inr _, db1) \<Rightarrow> ((True, None, sent), db1))"

text \<open>\<^verbatim>\<open>afterTerminal\<close> runs the hook.\<close>

definition commitTerminal :: "(db \<Rightarrow> (store_error + unit) \<times> db) \<Rightarrow> bool \<Rightarrow> (store_error + unit) \<times> db \<Rightarrow> round" where
  "commitTerminal hook sent r =
     (case r of
        (Inl e, db1) \<Rightarrow> ((True, Some (WorkerStore e), sent), db1)
      | (Inr _, db1) \<Rightarrow>
          (case hook db1 of
             (Inl e, db2) \<Rightarrow> ((True, Some (WorkerStore e), sent), db2)
           | (Inr _, db2) \<Rightarrow> ((True, None, sent), db2)))"

section \<open>The three kinds of target\<close>

record TargetClient =
  cl_apiKey :: string
  cl_deployEndpoint :: string
  cl_auth :: Authentication
  cl_baseURL :: string
  cl_destination :: string

record Remote =
  re_history :: HistoryResponse
  re_answer :: RemoteAnswer
  re_ctxErr :: "string option"

definition dispatchValues :: "PendingAttempt \<Rightarrow> Target \<Rightarrow> Values" where
  "dispatchValues work target =
     (let e = pa_Event work in
      \<lparr>EventSource = ce_Source e, EventRepository = ce_Repository e, EventRef = ce_Ref e,
       EventRevision = ce_Revision e, EventStatus = ce_Status e, EventExternalID = ce_ExternalID e,
       EventTrigger = ce_Trigger e, EventCommitMessage = ce_CommitMessage e, AttemptID = pa_AttemptID work,
       DeliveryID = pa_DeliveryID work, TargetID = tg_ID target\<rparr>)"

text \<open>The callback of a send, and the value it leaves in \<^verbatim>\<open>requestJSON\<close>.\<close>

definition evidenceSnapshot :: "codec \<Rightarrow> bytes option \<Rightarrow> bytes" where
  "evidenceSnapshot cd evidence =
     (case evidence of None \<Rightarrow> marshalJSON (JObject [(''redacted'', JBool True)]) | Some e \<Rightarrow> rawSnapshot cd e)"

definition recordEvidence :: "codec \<Rightarrow> string \<Rightarrow> time \<Rightarrow> recorder" where
  "recordEvidence cd attemptID at evidence db =
     RecordDeploymentRequest attemptID (Some (evidenceSnapshot cd evidence)) at db"

definition requestOf :: "codec \<Rightarrow> SendOutcome \<Rightarrow> bytes option" where
  "requestOf cd o' = map_option (evidenceSnapshot cd) (so_Recorded o')"

definition finishTerminal ::
  "(nat \<Rightarrow> string) \<Rightarrow> codec \<Rightarrow> (db \<Rightarrow> (store_error + unit) \<times> db) \<Rightarrow> string \<Rightarrow> time \<Rightarrow> SendOutcome \<times> db \<Rightarrow> round" where
  "finishTerminal uuid cd hook attemptID at = (\<lambda>(o', db).
     case so_RecordErr o' of
       Some e \<Rightarrow> ((True, Some (WorkerStore e), so_Sent o'), db)
     | None \<Rightarrow>
         let requestJSON = requestOf cd o';
             responseJSON = Some (responseSnapshot cd ''HTTP dispatch '' (so_Response o') (so_Error o'))
         in commitTerminal hook (so_Sent o')
              (case so_Error o' of
                 None \<Rightarrow> MarkAccepted uuid attemptID requestJSON responseJSON at db
               | Some err \<Rightarrow>
                   if te_Kind err = TransportUncertain
                   then MarkTransportUnknownTerminal uuid attemptID requestJSON responseJSON at db
                   else MarkTransportFailed uuid attemptID requestJSON responseJSON at db))"

definition failAttempt ::
  "(nat \<Rightarrow> string) \<Rightarrow> codec \<Rightarrow> (db \<Rightarrow> (store_error + unit) \<times> db) \<Rightarrow> string \<Rightarrow> string \<Rightarrow> time \<Rightarrow> db \<Rightarrow> round" where
  "failAttempt uuid cd hook attemptID text at db =
     commitTerminal hook False (MarkTransportFailed uuid attemptID None (Some (failureSnapshot cd text)) at db)"

definition dispatchHTTP ::
  "(nat \<Rightarrow> string) \<Rightarrow> codec \<Rightarrow> TargetClient \<Rightarrow> (db \<Rightarrow> (store_error + unit) \<times> db) \<Rightarrow> Remote \<Rightarrow> (nat \<Rightarrow> time) \<Rightarrow>
   PendingAttempt \<Rightarrow> Target \<Rightarrow> db \<Rightarrow> round" where
  "dispatchHTTP uuid cd client hook remote clock work target db =
     (case tg_HTTP target of
        None \<Rightarrow> failAttempt uuid cd hook (pa_AttemptID work) ''HTTP target is unavailable'' (clock 1) db
      | Some request \<Rightarrow>
          finishTerminal uuid cd hook (pa_AttemptID work) (clock 2)
            (HTTPDispatch (cd_unicode cd) (cd_unmarshal cd) (cl_auth client) (cl_baseURL client) request
               (dispatchValues work target) (recordEvidence cd (pa_AttemptID work) (clock 1)) (re_answer remote) db))"

definition dispatchForward ::
  "(nat \<Rightarrow> string) \<Rightarrow> codec \<Rightarrow> TargetClient \<Rightarrow> (db \<Rightarrow> (store_error + unit) \<times> db) \<Rightarrow> Remote \<Rightarrow> (nat \<Rightarrow> time) \<Rightarrow>
   PendingAttempt \<Rightarrow> Target \<Rightarrow> db \<Rightarrow> round" where
  "dispatchForward uuid cd client hook remote clock work target db =
     (case tg_Forward target of
        None \<Rightarrow> failAttempt uuid cd hook (pa_AttemptID work) ''forward target is unavailable'' (clock 1) db
      | Some _ \<Rightarrow>
          (case pa_RequestJSON work of
             Some incoming \<Rightarrow>
               if fr_Version incoming \<noteq> 1
               then failAttempt uuid cd hook (pa_AttemptID work) ''forward request is unavailable'' (clock 1) db
               else finishTerminal uuid cd hook (pa_AttemptID work) (clock 2)
                      (ForwardDispatch (cl_destination client) incoming
                         (case pa_PayloadJSON work of Some b \<Rightarrow> b | None \<Rightarrow> [])
                         (recordEvidence cd (pa_AttemptID work) (clock 1)) (re_answer remote) db)
           | None \<Rightarrow> failAttempt uuid cd hook (pa_AttemptID work) ''forward request is unavailable'' (clock 1) db))"

definition finishDokploy ::
  "(nat \<Rightarrow> string) \<Rightarrow> codec \<Rightarrow> (db \<Rightarrow> (store_error + unit) \<times> db) \<Rightarrow> string \<Rightarrow> Target \<Rightarrow> time \<Rightarrow> SendOutcome \<times> db \<Rightarrow> round" where
  "finishDokploy uuid cd hook attemptID target at = (\<lambda>(o', db).
     case so_RecordErr o' of
       Some e \<Rightarrow> ((True, Some (WorkerStore e), so_Sent o'), db)
     | None \<Rightarrow>
         let requestJSON = requestOf cd o';
             responseJSON = Some (responseSnapshot cd ''Dokploy enqueue '' (so_Response o') (so_Error o'));
             due = at + tg_PollInterval target; deadline = at + tg_PollTimeout target
         in case so_Error o' of
              None \<Rightarrow> commitActive (so_Sent o') (MarkEnqueued uuid attemptID requestJSON responseJSON at due deadline db)
            | Some err \<Rightarrow>
                if te_Kind err = TransportUncertain
                then commitActive (so_Sent o') (MarkTransportUnknown uuid attemptID requestJSON responseJSON at due deadline db)
                else commitTerminal hook (so_Sent o') (MarkTransportFailed uuid attemptID requestJSON responseJSON at db))"

definition dispatchDokploy ::
  "(nat \<Rightarrow> string) \<Rightarrow> codec \<Rightarrow> TargetClient \<Rightarrow> (db \<Rightarrow> (store_error + unit) \<times> db) \<Rightarrow> Remote \<Rightarrow> (nat \<Rightarrow> time) \<Rightarrow>
   PendingAttempt \<Rightarrow> Target \<Rightarrow> db \<Rightarrow> round" where
  "dispatchDokploy uuid cd client hook remote clock work target db =
     (case LatestDeploymentID (re_history remote) (tg_ComposeID target) of
        (_, _, Some err) \<Rightarrow> failAttempt uuid cd hook (pa_AttemptID work) err (clock 1) db
      | (cursor, _, None) \<Rightarrow>
          (case SetDeploymentCursor (pa_AttemptID work) cursor db of
             (Inl e, db1) \<Rightarrow> ((True, Some (WorkerStore e), False), db1)
           | (Inr _, db1) \<Rightarrow>
               finishDokploy uuid cd hook (pa_AttemptID work) target (clock 2)
                 (DeployWithRequestEvidence (cl_apiKey client) (cl_deployEndpoint client) (re_ctxErr remote)
                    \<lparr>dr_ComposeID = tg_ComposeID target, dr_Title = '''',
                     dr_Description = ''attempt_id='' @ pa_AttemptID work\<rparr>
                    (recordEvidence cd (pa_AttemptID work) (clock 1)) (re_answer remote) db1)))"

definition DispatcherRunOnce ::
  "(nat \<Rightarrow> string) \<Rightarrow> (string \<Rightarrow> string) \<Rightarrow> canonical \<Rightarrow> codec \<Rightarrow> (string \<Rightarrow> TargetClient) \<Rightarrow>
   (db \<Rightarrow> (store_error + unit) \<times> db) \<Rightarrow> Remote \<Rightarrow> (nat \<Rightarrow> time) \<Rightarrow> Generation \<Rightarrow> db \<Rightarrow> round" where
  "DispatcherRunOnce uuid sha canon cd clients hook remote clock g db =
     (case ClaimPendingAttempt uuid (clock 0) db of
        (Inl e, db1) \<Rightarrow> ((False, Some (WorkerStore e), False), db1)
      | (Inr None, db1) \<Rightarrow> ((False, None, False), db1)
      | (Inr (Some work), db1) \<Rightarrow>
          (case ResolveTarget sha canon g (pa_TargetID work) (pa_TargetSnapshot work) of
             (Some target, BindingCompatible) \<Rightarrow>
               if tg_Type target = ''http''
               then dispatchHTTP uuid cd (clients (tg_ID target)) hook remote clock work target db1
               else if tg_Type target = ''forward''
               then dispatchForward uuid cd (clients (tg_ID target)) hook remote clock work target db1
               else dispatchDokploy uuid cd (clients (tg_ID target)) hook remote clock work target db1
           | (_, bindingStatus) \<Rightarrow>
               failAttempt uuid cd hook (pa_AttemptID work) (bindingText bindingStatus) (clock 1) db1))"

section \<open>A round keeps the invariant\<close>

lemma recordEvidence_durable: "durable_inv uuid db \<Longrightarrow> durable_inv uuid (snd (recordEvidence cd i at ev db))"
  unfolding recordEvidence_def by (rule RecordDeploymentRequest_durable)

lemma recorded_durable:
  assumes "durable_inv uuid db" and "recorded_before_send (recordEvidence cd i at) db r"
  shows "durable_inv uuid (snd r)"
  using assms recordEvidence_durable [OF assms(1)]
  by (auto simp: recorded_before_send_def split: option.splits)

context terminal_hook
begin

lemma commit_durable:
  assumes "durable_inv uuid (snd r)"
  shows "durable_inv uuid (snd (commitActive sent r))" and "durable_inv uuid (snd (commitTerminal hook sent r))"
  using assms hook_durable [OF assms]
  by (auto simp: commitActive_def commitTerminal_def split: sum.splits prod.splits)

lemma failAttempt_durable:
  assumes "inj uuid" and "durable_inv uuid db"
  shows "durable_inv uuid (snd (failAttempt uuid cd hook i text at db))"
  unfolding failAttempt_def by (rule commit_durable(2), rule Mark_durable(3) [OF assms])

lemma finish_durable:
  assumes u: "inj uuid" and inv: "durable_inv uuid (snd r)"
  shows "durable_inv uuid (snd (finishTerminal uuid cd hook i at r))"
    and "durable_inv uuid (snd (finishDokploy uuid cd hook i target at r))"
proof -
  obtain o' db where r: "r = (o', db)" by force
  show "durable_inv uuid (snd (finishTerminal uuid cd hook i at r))"
    using inv Mark_durable [OF u] r
    by (auto simp: finishTerminal_def Let_def intro!: commit_durable(2) split: option.splits)
  show "durable_inv uuid (snd (finishDokploy uuid cd hook i target at r))"
    using inv Mark_durable [OF u] r
    by (auto simp: finishDokploy_def Let_def intro!: commit_durable split: option.splits)
qed

lemma dispatch_durable:
  assumes u: "inj uuid" and inv: "durable_inv uuid db"
  shows "durable_inv uuid (snd (dispatchHTTP uuid cd client hook remote clock work target db))"
    and "durable_inv uuid (snd (dispatchForward uuid cd client hook remote clock work target db))"
    and "durable_inv uuid (snd (dispatchDokploy uuid cd client hook remote clock work target db))"
proof -
  show "durable_inv uuid (snd (dispatchHTTP uuid cd client hook remote clock work target db))"
    using failAttempt_durable [OF u inv] finish_durable(1) [OF u recorded_durable [OF inv HTTPDispatch_recorded]]
    by (simp add: dispatchHTTP_def split: option.splits)
  show "durable_inv uuid (snd (dispatchForward uuid cd client hook remote clock work target db))"
    using failAttempt_durable [OF u inv] finish_durable(1) [OF u recorded_durable [OF inv ForwardDispatch_recorded]]
    by (simp add: dispatchForward_def split: option.splits)
  have "durable_inv uuid (snd (SetDeploymentCursor i c db))" for i c by (rule SetDeploymentCursor_durable [OF inv])
  then show "durable_inv uuid (snd (dispatchDokploy uuid cd client hook remote clock work target db))"
    using failAttempt_durable [OF u inv] finish_durable(2) [OF u recorded_durable [OF _ Deploy_recorded]]
    by (auto simp: dispatchDokploy_def split: option.splits sum.splits prod.splits) (metis snd_conv)+
qed

lemma DispatcherRunOnce_durable:
  assumes u: "inj uuid" and inv: "durable_inv uuid db"
  shows "durable_inv uuid (snd (DispatcherRunOnce uuid sha canon cd clients hook remote clock g db))"
proof -
  have c: "durable_inv uuid (snd (ClaimPendingAttempt uuid (clock 0) db))"
    by (rule ClaimPendingAttempt_durable [OF u inv])
  show ?thesis
    using c dispatch_durable [OF u] failAttempt_durable [OF u]
    by (auto simp: DispatcherRunOnce_def split: sum.splits option.splits prod.splits BindingStatus.splits)
qed

end

end
