(* ===== verification/Worker_Steps.thy ===== *)
theory Worker_Steps
  imports System Dispatcher
begin

text \<open>
  The rounds of the workers as runs of the step relation of \<open>System\<close>: what \<open>DispatcherRunOnce\<close>, \<open>PollerRunOnce\<close> and \<open>Execute\<close> do to
  the database and to the outside world is a sequence of steps, so that the invariants of reachable states hold at the end of
  every round and at every point between two of its transactions.
\<close>

abbreviation steps ::
  "(nat \<Rightarrow> string) \<Rightarrow> (string \<Rightarrow> string) \<Rightarrow> canonical \<Rightarrow> (Generation \<Rightarrow> bool) \<Rightarrow> system \<Rightarrow> system \<Rightarrow> bool" where
  "steps uuid sha canon loads \<equiv> (step uuid sha canon loads)\<^sup>*\<^sup>*"

lemma reachable_steps: "reachable uuid sha canon loads s \<Longrightarrow> steps uuid sha canon loads s s' \<Longrightarrow> reachable uuid sha canon loads s'"
  by (rotate_tac, induction rule: rtranclp_induct) (auto intro: reachable.further)

lemma steps_then: "steps uuid sha canon loads s s' \<Longrightarrow> step uuid sha canon loads s' s'' \<Longrightarrow> steps uuid sha canon loads s s''"
  by (rule rtranclp.rtrancl_into_rtrancl)

section \<open>The dispatcher\<close>

text \<open>Where a round of the dispatcher ends: the database, and the attempts sent in between.\<close>

definition finished :: "system \<Rightarrow> db \<Rightarrow> string list \<Rightarrow> system" where
  "finished s db sent = s\<lparr>sy_db := db, sy_dispatch := DispatchIdle, sy_sent := sy_sent s @ sent\<rparr>"

lemma finished_simps [simp]:
  "sy_db (finished s db sent) = db" "sy_manager (finished s db sent) = sy_manager s" "sy_dispatch (finished s db sent) = DispatchIdle"
  "(finished s db sent)\<lparr>sy_db := db'\<rparr> = finished s db' sent"
  by (simp_all add: finished_def)

lemma finished_unsent: "s\<lparr>sy_db := db, sy_dispatch := DispatchIdle\<rparr> = finished s db []"
  by (rule system.equality) (simp_all add: finished_def)

lemma hook_steps:
  assumes "steps uuid sha canon loads s0 (finished s db sent)" and "hook = RetentionRunOnce cutoff (mg_current (sy_manager s))"
  shows "steps uuid sha canon loads s0 (finished s (snd (hook db)) sent)"
  using steps_then [OF assms(1) step.retain [where cutoff = cutoff]] assms(2) by simp

lemma commit_steps:
  assumes "steps uuid sha canon loads s0 (finished s (snd r) sent)" and "hook = RetentionRunOnce cutoff (mg_current (sy_manager s))"
  shows "steps uuid sha canon loads s0 (finished s (snd (commitActive b r)) sent)"
    and "steps uuid sha canon loads s0 (finished s (snd (commitTerminal hook b r)) sent)"
  using assms(1) hook_steps [OF assms]
  by (cases r, auto simp: commitActive_def commitTerminal_def split: sum.splits prod.splits)+

lemma record_refused:
  assumes k: "keys_ok db" and r: "RecordDeploymentRequest i rq at db = (Inl e, db')"
  shows "db' = db"
proof -
  let ?p = "\<lambda>r. at_id r = i \<and> at_transport_status r = TransportSending \<and> at_request_json r = None \<and> at_request_at r = None \<and>
    list_ex (\<lambda>x. dl_current_attempt_id x = Some (at_id r)) (db_deliveries db)"
  have n: "sql_affected ?p (db_attempts db) \<noteq> 1" and db': "db' = db\<lparr>db_attempts := sql_update ?p (record_attempt rq at) (db_attempts db)\<rparr>"
    using r by (auto simp: RecordDeploymentRequest_def Let_def split: if_splits)
  have "\<not> ?p a" if a: "a \<in> set (db_attempts db)" for a
  proof
    assume p: "?p a"
    have "sql_affected ?p (db_attempts db) = 1"
    proof (rule affected_one [of at_id _ a])
      show "distinct (map at_id (db_attempts db))" using k by (simp add: keys_ok_def)
      show "at_id b = at_id a" if "?p b" for b using that p by simp
    qed (rule a, rule p)
    then show False using n by simp
  qed
  then have "sql_update ?p (record_attempt rq at) (db_attempts db) = db_attempts db" by (rule sql_update_None)
  then show ?thesis unfolding db' by simp
qed

lemma recordEvidence_step:
  assumes d: "sy_dispatch s = DispatchClaimed w (Some t)" and r: "recordEvidence cd (pa_AttemptID w) at ev (sy_db s) = (Inr (), db')"
  shows "step uuid sha canon loads s (s\<lparr>sy_db := db', sy_dispatch := DispatchRecorded w t\<rparr>)"
  by (rule step.record_request [OF d]) (use r in \<open>simp add: recordEvidence_def\<close>)

lemma send_steps:
  assumes k: "keys_ok (sy_db s)" and d: "sy_dispatch s = DispatchClaimed w (Some t)"
    and r: "recorded_before_send (recordEvidence cd (pa_AttemptID w) at) (sy_db s) (o', db1)"
  shows "so_RecordErr o' = Some e \<Longrightarrow> \<not> so_Sent o' \<and> steps uuid sha canon loads s (finished s db1 [])"
    and "so_RecordErr o' = None \<Longrightarrow> marks uuid (pa_AttemptID w) db1 db2 \<Longrightarrow>
      steps uuid sha canon loads s (finished s db2 (if so_Sent o' then [pa_AttemptID w] else []))"
proof -
  assume e: "so_RecordErr o' = Some e"
  then obtain ev where "snd (recordEvidence cd (pa_AttemptID w) at ev (sy_db s)) = db1"
      "fst (recordEvidence cd (pa_AttemptID w) at ev (sy_db s)) = Inl e" "\<not> so_Sent o'"
    using r by (auto simp: recorded_before_send_def split: option.splits sum.splits)
  moreover from this have "db1 = sy_db s"
    by (intro record_refused [OF k, where e = e]) (simp add: recordEvidence_def prod_eq_iff)
  ultimately show "\<not> so_Sent o' \<and> steps uuid sha canon loads s (finished s db1 [])"
    using step.dispatch_error [where s = s] finished_unsent [of "sy_db s" s] by (simp add: r_into_rtranclp)
next
  assume e: "so_RecordErr o' = None" and m: "marks uuid (pa_AttemptID w) db1 db2"
  show "steps uuid sha canon loads s (finished s db2 (if so_Sent o' then [pa_AttemptID w] else []))"
  proof (cases "so_Recorded o'")
    case None
    then have "\<not> so_Sent o'" "db1 = sy_db s" using r by (simp_all add: recorded_before_send_def)
    then show ?thesis using step.refuse [OF d, of uuid db2] m finished_unsent [of db2 s] by auto
  next
    case (Some ev)
    then have rec: "recordEvidence cd (pa_AttemptID w) at ev (sy_db s) = (Inr (), db1)"
      using r e by (cases "recordEvidence cd (pa_AttemptID w) at ev (sy_db s)") (auto simp: recorded_before_send_def split: sum.splits)
    let ?s1 = "s\<lparr>sy_db := db1, sy_dispatch := DispatchRecorded w t\<rparr>"
    let ?s2 = "s\<lparr>sy_db := db1, sy_dispatch := DispatchAnswered w t, sy_sent := sy_sent s @ (if so_Sent o' then [pa_AttemptID w] else [])\<rparr>"
    have 1: "step uuid sha canon loads s ?s1" by (rule recordEvidence_step [OF d rec])
    have same: "s\<lparr>sy_db := db1, sy_dispatch := x\<rparr> = s\<lparr>sy_db := db1, sy_dispatch := x, sy_sent := sy_sent s @ []\<rparr>" for x
      by (rule system.equality) simp_all
    have 2: "step uuid sha canon loads ?s1 ?s2"
      using step.send [of ?s1 w t] step.send_refused [of ?s1 w t] same [of "DispatchAnswered w t"]
      by (cases "so_Sent o'") simp_all
    have 3: "step uuid sha canon loads ?s2 (?s2\<lparr>sy_db := db2, sy_dispatch := DispatchIdle\<rparr>)"
      by (rule step.outcome [of _ w t]) (simp_all add: m)
    have f: "?s2\<lparr>sy_db := db2, sy_dispatch := DispatchIdle\<rparr> = finished s db2 (if so_Sent o' then [pa_AttemptID w] else [])"
      by (simp add: finished_def)
    show ?thesis
      by (rule converse_rtranclp_into_rtranclp, rule 1, rule converse_rtranclp_into_rtranclp, rule 2, rule r_into_rtranclp,
          rule 3 [unfolded f])
  qed
qed

definition sentIDs :: "string \<Rightarrow> round \<Rightarrow> string list" where
  "sentIDs i r = (if snd (snd (fst r)) then [i] else [])"

lemma commit_sent [simp]:
  "snd (snd (fst (commitActive b r))) = b" "snd (snd (fst (commitTerminal hook b r))) = b"
  by (simp_all add: commitActive_def commitTerminal_def split: sum.split prod.split)

lemma fail_steps:
  assumes d: "sy_dispatch s = DispatchClaimed w ot" and h: "hook = RetentionRunOnce cutoff (mg_current (sy_manager s))"
    and r: "r = failAttempt uuid cd hook (pa_AttemptID w) text at (sy_db s)"
  shows "steps uuid sha canon loads s (finished s (snd r) (sentIDs (pa_AttemptID w) r))"
proof -
  have "steps uuid sha canon loads s (finished s (snd (MarkTransportFailed uuid (pa_AttemptID w) None (Some (failureSnapshot cd text)) at (sy_db s))) [])"
    using step.refuse [OF d marks.failed] by (metis finished_unsent r_into_rtranclp)
  then show ?thesis unfolding r failAttempt_def sentIDs_def using commit_steps(2) [OF _ h] by simp
qed

lemma finishTerminal_steps:
  assumes k: "keys_ok (sy_db s)" and d: "sy_dispatch s = DispatchClaimed w (Some t)"
    and h: "hook = RetentionRunOnce cutoff (mg_current (sy_manager s))"
    and rec: "recorded_before_send (recordEvidence cd (pa_AttemptID w) at') (sy_db s) x"
    and r: "r = finishTerminal uuid cd hook (pa_AttemptID w) at x"
  shows "steps uuid sha canon loads s (finished s (snd r) (sentIDs (pa_AttemptID w) r))"
proof -
  obtain o' db1 where x: "x = (o', db1)" by (cases x)
  note send = send_steps [OF k d rec [unfolded x]]
  show ?thesis
  proof (cases "so_RecordErr o'")
    case (Some e)
    then show ?thesis using send(1) [OF Some] by (simp add: r x finishTerminal_def sentIDs_def)
  next
    case None
    show ?thesis unfolding r x finishTerminal_def prod.case None option.case Let_def sentIDs_def commit_sent
      by (rule commit_steps(2) [OF send(2) [OF None] h])
        (auto intro: marks.intros split: option.split)
  qed
qed

lemma finishDokploy_steps:
  assumes k: "keys_ok (sy_db s)" and d: "sy_dispatch s = DispatchClaimed w (Some t)"
    and h: "hook = RetentionRunOnce cutoff (mg_current (sy_manager s))"
    and rec: "recorded_before_send (recordEvidence cd (pa_AttemptID w) at') (sy_db s) x"
    and r: "r = finishDokploy uuid cd hook (pa_AttemptID w) target at x"
  shows "steps uuid sha canon loads s (finished s (snd r) (sentIDs (pa_AttemptID w) r))"
proof -
  obtain o' db1 where x: "x = (o', db1)" by (cases x)
  note send = send_steps [OF k d rec [unfolded x]]
  show ?thesis
  proof (cases "so_RecordErr o'")
    case (Some e)
    then show ?thesis using send(1) [OF Some] by (simp add: r x finishDokploy_def sentIDs_def)
  next
    case None
    note m = commit_steps [OF send(2) [OF None] h]
    show ?thesis
    proof (cases "so_Error o'")
      case ok: None
      show ?thesis unfolding r x finishDokploy_def prod.case None ok option.case Let_def sentIDs_def commit_sent
        by (rule m(1) [OF marks.enqueued])
    next
      case (Some err)
      show ?thesis unfolding r x finishDokploy_def prod.case None Some option.case Let_def sentIDs_def
        using m(1) [OF marks.unknown] m(2) [OF marks.failed] by (cases "te_Kind err = TransportUncertain") simp_all
    qed
  qed
qed

lemma dispatch_steps:
  assumes k: "keys_ok (sy_db s)" and d: "sy_dispatch s = DispatchClaimed w (Some t)"
    and h: "hook = RetentionRunOnce cutoff (mg_current (sy_manager s))"
  shows "r = dispatchHTTP uuid cd client hook remote clock w target (sy_db s) \<Longrightarrow>
      steps uuid sha canon loads s (finished s (snd r) (sentIDs (pa_AttemptID w) r))"
    and "r = dispatchForward uuid cd client hook remote clock w target (sy_db s) \<Longrightarrow>
      steps uuid sha canon loads s (finished s (snd r) (sentIDs (pa_AttemptID w) r))"
proof -
  note f = fail_steps [OF d h] and t = finishTerminal_steps [OF k d h]
  show "steps uuid sha canon loads s (finished s (snd r) (sentIDs (pa_AttemptID w) r))"
    if "r = dispatchHTTP uuid cd client hook remote clock w target (sy_db s)"
    using that f t [OF HTTPDispatch_recorded] by (cases "tg_HTTP target") (simp_all add: dispatchHTTP_def)
  show "steps uuid sha canon loads s (finished s (snd r) (sentIDs (pa_AttemptID w) r))"
    if "r = dispatchForward uuid cd client hook remote clock w target (sy_db s)"
    using that f t [OF ForwardDispatch_recorded]
    by (cases "tg_Forward target"; cases "pa_RequestJSON w") (simp_all add: dispatchForward_def)
qed

lemma SetDeploymentCursor_keys: "keys_ok db \<Longrightarrow> keys_ok (snd (SetDeploymentCursor i c db))"
  by (simp add: SetDeploymentCursor_def Let_def keys_ok_def sql_simps cursor_attempt_def)

lemma dispatchDokploy_steps:
  assumes k: "keys_ok (sy_db s)" and d: "sy_dispatch s = DispatchClaimed w (Some t)"
    and h: "hook = RetentionRunOnce cutoff (mg_current (sy_manager s))"
    and r: "r = dispatchDokploy uuid cd client hook remote clock w target (sy_db s)"
  shows "steps uuid sha canon loads s (finished s (snd r) (sentIDs (pa_AttemptID w) r))"
proof -
  obtain c f err where l: "LatestDeploymentID (re_history remote) (tg_ComposeID target) = (c, f, err)" by (metis prod_cases3)
  show ?thesis
  proof (cases err)
    case (Some e)
    then show ?thesis using fail_steps [OF d h] r by (simp add: dispatchDokploy_def l)
  next
    case None
    obtain q db1 where q: "SetDeploymentCursor (pa_AttemptID w) c (sy_db s) = (q, db1)" by fastforce
    let ?s = "s\<lparr>sy_db := db1\<rparr>"
    have 1: "step uuid sha canon loads s ?s" using step.cursor [OF d, of uuid sha canon loads c] by (simp add: q)
    have fin: "finished ?s x y = finished s x y" for x y by (simp add: finished_def)
    show ?thesis
    proof (cases q)
      case (Inl e)
      have "step uuid sha canon loads ?s (finished ?s db1 [])"
        using step.dispatch_error [where s = ?s] finished_unsent [of db1 ?s] by simp
      then show ?thesis using 1 Inl r by (simp add: dispatchDokploy_def l None q sentIDs_def fin)
    next
      case (Inr u)
      have k': "keys_ok (sy_db ?s)" using SetDeploymentCursor_keys [OF k, of "pa_AttemptID w" c] by (simp add: q)
      have r': "r = finishDokploy uuid cd hook (pa_AttemptID w) target (clock 2)
           (DeployWithRequestEvidence (cl_apiKey client) (cl_deployEndpoint client) (re_ctxErr remote)
              \<lparr>dr_ComposeID = tg_ComposeID target, dr_Title = '''', dr_Description = ''attempt_id='' @ pa_AttemptID w\<rparr>
              (recordEvidence cd (pa_AttemptID w) (clock 1)) (re_answer remote) (sy_db ?s))"
        using r by (simp add: dispatchDokploy_def l None q Inr)
      have "steps uuid sha canon loads ?s (finished ?s (snd r) (sentIDs (pa_AttemptID w) r))"
        by (rule finishDokploy_steps [OF k' _ _ Deploy_recorded r']) (simp_all add: d h)
      then show ?thesis using 1 fin by (metis converse_rtranclp_into_rtranclp)
    qed
  qed
qed

lemma idle_finished: "sy_dispatch s = DispatchIdle \<Longrightarrow> finished s (sy_db s) [] = s"
  by (rule system.equality) (simp_all add: finished_def)

lemma DispatcherRunOnce_steps:
  assumes u: "inj uuid" and i: "sys_inv uuid sha canon loads s" and d: "sy_dispatch s = DispatchIdle"
    and h: "hook = RetentionRunOnce cutoff (mg_current (sy_manager s))"
    and r: "r = DispatcherRunOnce uuid sha canon cd clients hook remote clock (mg_current (sy_manager s)) (sy_db s)"
  shows "\<exists>sent. steps uuid sha canon loads s (finished s (snd r) sent) \<and> length sent = (if snd (snd (fst r)) then 1 else 0)"
proof -
  let ?g = "mg_current (sy_manager s)"
  note inv = sys_invD(1) [OF i]
  show ?thesis
  proof (cases "sql_first (sort_key claimOrder (filter (claimable (sy_db s)) (current_triples (sy_db s))))")
    case None
    have "r = ((False, None, False), sy_db s)"
      by (simp add: r DispatcherRunOnce_def ClaimPendingAttempt_None_eq [OF None])
    then show ?thesis using idle_finished [OF d] by (intro exI [of _ "[]"]) simp
  next
    case (Some x)
    obtain e dd a where x: "x = (e, dd, a)" by (metis prod_cases3)
    obtain w db1 where c: "ClaimPendingAttempt uuid (clock 0) (sy_db s) = (Inr (Some w), db1)"
      using ClaimPendingAttempt_Some_eq [OF u inv Some [unfolded x]] by blast
    obtain ot bs where res: "ResolveTarget sha canon ?g (pa_TargetID w) (pa_TargetSnapshot w) = (ot, bs)" by fastforce
    let ?s = "s\<lparr>sy_db := db1, sy_dispatch := DispatchClaimed w ot\<rparr>"
    have 1: "step uuid sha canon loads s ?s" using step.claim [OF d c, of sha canon] by (simp add: res)
    have fin: "finished ?s p q = finished s p q" for p q by (simp add: finished_def)
    have k: "keys_ok (sy_db ?s)" using ClaimPendingAttempt_durable [OF u inv, of "clock 0"] durable_inv_keys by (simp add: c)
    have h': "hook = RetentionRunOnce cutoff (mg_current (sy_manager ?s))" by (simp add: h)
    have "steps uuid sha canon loads ?s (finished ?s (snd r) (sentIDs (pa_AttemptID w) r))"
    proof (cases "\<exists>t. ot = Some t \<and> bs = BindingCompatible")
      case True
      then obtain t where t: "ot = Some t" "bs = BindingCompatible" by blast
      have ds: "sy_dispatch ?s = DispatchClaimed w (Some t)" by (simp add: t)
      note D = dispatch_steps [OF k ds h'] dispatchDokploy_steps [OF k ds h']
      show ?thesis
      proof (cases "tg_Type t = ''http'' \<or> tg_Type t = ''forward''")
        case True
        then show ?thesis using D(1,2) by (auto simp: r DispatcherRunOnce_def c res t)
      next
        case False
        show ?thesis by (rule D(3)) (use False in \<open>simp add: r DispatcherRunOnce_def c res t\<close>)
      qed
    next
      case False
      have "r = failAttempt uuid cd hook (pa_AttemptID w) (bindingText bs) (clock 1) (sy_db ?s)"
        using False by (cases ot; cases bs) (simp_all add: r DispatcherRunOnce_def c res)
      then show ?thesis using fail_steps [OF _ h', of w ot] by simp
    qed
    then have "steps uuid sha canon loads s (finished s (snd r) (sentIDs (pa_AttemptID w) r))"
      using 1 fin by (metis converse_rtranclp_into_rtranclp)
    then show ?thesis by (intro exI [of _ "sentIDs (pa_AttemptID w) r"]) (simp add: sentIDs_def)
  qed
qed

section \<open>The poller\<close>

lemma polls_last: "s\<lparr>sy_polls := ws, sy_db := db\<rparr> = s\<lparr>sy_db := db, sy_polls := ws\<rparr>"
  by (rule system.equality) simp_all

lemma poller_hook:
  assumes "steps uuid sha canon loads s0 (s\<lparr>sy_db := db, sy_polls := ws\<rparr>)" and "hook = RetentionRunOnce cutoff (mg_current (sy_manager s))"
  shows "steps uuid sha canon loads s0 (s\<lparr>sy_db := snd (hook db), sy_polls := ws\<rparr>)"
  using steps_then [OF assms(1) step.retain [where cutoff = cutoff]] assms(2) by (simp add: polls_last)

lemma poller_stop:
  assumes "steps uuid sha canon loads s0 (s\<lparr>sy_db := db, sy_polls := ws\<rparr>)"
  shows "steps uuid sha canon loads s0 (s\<lparr>sy_db := db, sy_polls := []\<rparr>)"
  using steps_then [OF assms step.poll_error] by simp

lemma pollAll_steps:
  assumes h: "hook = RetentionRunOnce cutoff (mg_current (sy_manager s))"
  shows "steps uuid sha canon loads s0 (s\<lparr>sy_db := db, sy_polls := ws\<rparr>) \<Longrightarrow>
    steps uuid sha canon loads s0
      (s\<lparr>sy_db := snd (pollAll uuid hook cancelled (pollItem sha canon g remote now) now ws db), sy_polls := []\<rparr>)"
proof (induction ws arbitrary: db)
  case Nil
  then show ?case by simp
next
  case (Cons w ws)
  let ?u = "pollItem sha canon g remote now w"
  obtain c db1 where c: "CompletePoll uuid w ?u now db = (c, db1)" by fastforce
  have 1: "steps uuid sha canon loads s0 (s\<lparr>sy_db := db1, sy_polls := ws\<rparr>)"
    using steps_then [OF Cons.prems step.poll_complete [where w = w and ws = ws and g = g and remote = remote and now = now]]
    by (simp add: c)
  note stop = poller_stop [OF 1] and hook = poller_hook [OF 1 h]
  have fin: "steps uuid sha canon loads s0 (s\<lparr>sy_db := snd (hook db1), sy_polls := []\<rparr>)" by (rule poller_stop [OF hook])
  show ?case
    using poller_stop [OF Cons.prems] stop fin Cons.IH [OF 1] Cons.IH [OF hook]
    by (auto simp: c Let_def split: sum.split store_error.split prod.split)
qed

lemma PollerRunOnce_steps:
  assumes "sy_polls s = []" and h: "hook = RetentionRunOnce cutoff (mg_current (sy_manager s))"
  shows "steps uuid sha canon loads s (s\<lparr>sy_db := snd (PollerRunOnce uuid sha canon hook cancelled remote g now (sy_db s))\<rparr>)"
proof -
  obtain ws db1 where l: "ListDuePolls now (sy_db s) = (Inr ws, db1)" by (cases "claimPolls (UnixMilli now) (pollCandidates now (sy_db s)) (sy_db s)") (auto simp: ListDuePolls_def)
  have "steps uuid sha canon loads s (s\<lparr>sy_db := db1, sy_polls := ws\<rparr>)"
    by (rule r_into_rtranclp, rule step.poll_claim [OF assms(1) l])
  from pollAll_steps [OF h this, of cancelled g remote now] show ?thesis
    by (simp add: PollerRunOnce_def l) (metis assms(1) same_polls)
qed

section \<open>Manual operations\<close>

text \<open>The read, whatever other steps happen before the write, the write, and the retention run. While the request is between its
  read and its write it holds a read view, so the interfering steps keep it in the list and do not move the lifecycle.\<close>

lemma Execute_steps:
  assumes ad: "admit sha canon (sy_manager s) i e op (sy_db s) = Inr (t, c)"
    and mid: "steps uuid sha canon loads (s\<lparr>sy_manual := c # sy_manual s\<rparr>) s1" "c \<in> set (sy_manual s1)" "sy_db s1 = between (sy_db s)"
      "mg_current (sy_manager s1) = mg_current (sy_manager s)"
    and h: "hook = RetentionRunOnce cutoff (mg_current (sy_manager s))"
  shows "steps uuid sha canon loads s
    (s1\<lparr>sy_db := snd (Execute uuid sha canon hook remote between (sy_manager s) i e op a r now (sy_db s)), sy_manual := remove1 c (sy_manual s1)\<rparr>)"
proof -
  obtain db1 where db1: "db1 = between (sy_db s) \<or>
        (\<exists>u. manual_update u \<and> mu_Expected u = c \<and> db1 = snd (ApplyManualUpdate uuid u (between (sy_db s))))"
    and r: "snd (Execute uuid sha canon hook remote between (sy_manager s) i e op a r now (sy_db s)) \<in> {db1, snd (hook db1)}"
    by (rule Execute_writes [OF ad])
  let ?s2 = "s1\<lparr>sy_db := db1, sy_manual := remove1 c (sy_manual s1)\<rparr>"
  have "step uuid sha canon loads s1 ?s2"
  proof (cases "db1 = between (sy_db s)")
    case True
    then have "?s2 = s1\<lparr>sy_manual := remove1 c (sy_manual s1)\<rparr>" using mid(3) by (intro system.equality) simp_all
    then show ?thesis using step.manual_leave [where s = s1 and c = c] by simp
  next
    case False
    then obtain u where "manual_update u" "mu_Expected u = c" "db1 = snd (ApplyManualUpdate uuid u (sy_db s1))"
      using db1 mid(3) by auto
    then show ?thesis using step.manual_write [OF mid(2)] by simp
  qed
  then have 2: "steps uuid sha canon loads s ?s2"
    using step.manual_read [OF ad] mid(1) by (meson converse_rtranclp_into_rtranclp rtranclp.rtrancl_into_rtrancl)
  then have "steps uuid sha canon loads s (?s2\<lparr>sy_db := snd (hook db1)\<rparr>)"
    using steps_then [OF _ step.retain [where cutoff = cutoff and s = ?s2]] h mid(4) by simp
  moreover have "?s2\<lparr>sy_db := snd (hook db1)\<rparr> = s1\<lparr>sy_db := snd (hook db1), sy_manual := remove1 c (sy_manual s1)\<rparr>"
    by (rule system.equality) simp_all
  ultimately show ?thesis using r 2 by auto
qed

end
