(* ===== verification/Drain_Progress.thy ===== *)
theory Drain_Progress
  imports Startup
begin

text \<open>
  The drainer makes progress: under a generation whose routes passed validation every queued event is decided, one per round,
  and the loop of \<^verbatim>\<open>Drainer.Run\<close> (\<^verbatim>\<open>internal/worker/drainer.go\<close>) reaches the idle state after as many rounds as events
  are queued, and one more.
\<close>

section \<open>Routing a validated generation is total\<close>

text \<open>What compilation has checked: the routes are valid for the targets of the generation, and each target is entered under its
  own identifier.\<close>

definition routes_valid :: "Generation \<Rightarrow> bool" where
  "routes_valid g \<longleftrightarrow> (\<exists>repositories. validateRoutes (gn_routes g) repositories (fst ` set (gn_targets g)) = Inr ())"

definition named_targets :: "Generation \<Rightarrow> bool" where
  "named_targets g \<longleftrightarrow> (\<forall>i t. map_of (gn_targets g) i = Some t \<longrightarrow> tg_ID t = i)"

lemma bindings_named: "bindings_ok sha canon g \<Longrightarrow> named_targets g"
  by (simp add: bindings_ok_def named_targets_def)

lemma routeDeliveries_total: "set ids \<subseteq> fst ` set (gn_targets g) \<Longrightarrow> \<exists>ds. routeDeliveries g ids = Some ds"
proof (induction ids)
  case (Cons i ids)
  then have "map_of (gn_targets g) i \<noteq> None" by (simp add: map_of_eq_None_iff)
  then show ?case using Cons by auto
qed simp

lemma Route_total:
  assumes v: "routes_valid g" and b: "named_targets g"
  shows "\<exists>dec. Route g event = Inr dec \<and> distinct (map nd_TargetID (rd_Deliveries dec))"
proof -
  obtain repositories where "\<forall>r\<in>set (gn_routes g). route_ok repositories (fst ` set (gn_targets g)) r"
    using v unfolding routes_valid_def validateRoutes_iff by blast
  then have ok: "action_ok (fst ` set (gn_targets g)) (rt_Action r)" if "r \<in> set (gn_routes g)" for r
    using that by (simp add: route_ok_def)
  have "\<exists>dec. Route g event = Inr dec"
  proof (cases "find (\<lambda>r. generationRouteMatches (rt_Match r) event) (gn_routes g)")
    case None
    then show ?thesis by (simp add: Generation.Route_def)
  next
    case (Some r)
    then have a: "action_ok (fst ` set (gn_targets g)) (rt_Action r)" using ok by (auto simp: find_Some_iff)
    then show ?thesis using Some routeDeliveries_total [of "ac_Targets (rt_Action r)" g]
      by (auto simp: Generation.Route_def action_ok_def Let_def)
  qed
  moreover have d: "\<forall>rt\<in>set (gn_routes g). distinct (ac_Targets (rt_Action rt))"
    using ok unfolding action_ok_def by (metis distinct.simps(1))
  have "distinct (map nd_TargetID (rd_Deliveries dec))" if "Route g event = Inr dec" for dec
    using Route_cases [OF that] routeDeliveries_ids [of g] b d FirstCanonical_SomeD [of "gn_routes g" event]
    by (auto simp: named_targets_def)
  ultimately show ?thesis by blast
qed

section \<open>One round\<close>

lemma deferred_untaken:
  assumes inv: "durable_inv uuid db" and e: "e \<in> set (db_events db)" "ev_routing_result e = RoutingDeferred"
  shows "\<not> target_taken (ev_id e) nd db"
proof
  assume "target_taken (ev_id e) nd db"
  then obtain d where d: "d \<in> set (db_deliveries db)" "dl_event_id d = ev_id e" by (auto simp: target_taken_def)
  then obtain e' where "e' \<in> set (db_events db)" "ev_id e' = ev_id e" "ev_routing_result e' = RoutingDeploy"
    using inv by (auto simp: durable_inv_def store_inv_def refs_ok_def)
  then show False using e event_unique [OF durable_inv_keys [OF inv], of e e'] by simp
qed

lemma Drainer_decides:
  assumes u: "inj uuid" and inv: "durable_inv uuid db" and m: "mg_state m = StateDraining" and q: "db_queue db = q # qs"
    and v: "routes_valid (mg_current m)" and b: "named_targets (mg_current m)"
  shows "\<exists>db'. DrainerRunOnce uuid m db = (Inr True, m, db') \<and> durable_inv uuid db' \<and> db_queue db' = qs \<and>
    ev_id ` set (db_events db') = ev_id ` set (db_events db)"
proof -
  obtain e where e: "e \<in> set (db_events db)" "ev_id e = q_event_id q" "ev_routing_result e = RoutingDeferred"
    and h: "queueHead db = Some (q, e)" using queueHead_Cons [OF inv q] by blast
  obtain x where p: "PeekDeferred db = Some x" and x: "de_Seq x = q_seq q" "de_EventID x = q_event_id q"
    using h e(2) by (simp add: PeekDeferred_def)
  obtain dec where r: "Route (mg_current m) (de_CanonicalEvent x) = Inr dec" and ds: "distinct (map nd_TargetID (rd_Deliveries dec))"
    using Route_total [OF v b] by blast
  note fin = Route_final [OF r]
  let ?digest = "gn_digest (mg_current m)" and ?db1 = "head_decided dec (gn_digest (mg_current m)) q db"
  have d1: "durable_inv uuid ?db1" using head_decided_durable [OF inv q] fin by (simp add: final_decision_def)
  have "\<exists>db'. insertDeliveries uuid (q_event_id q) (ev_received_at e) (rd_Deliveries dec) ?db1 = Some db'"
  proof (cases "rd_Deliveries dec = []")
    case False
    then have dep: "rd_RoutingResult dec = RoutingDeploy"
      using fin by (auto simp: final_decision_def validateDeliveries_def split: if_splits)
    show ?thesis
    proof (rule insertDeliveries_total [OF u d1])
      show "finalize_event dec ?digest e \<in> set (db_events ?db1)" using e by (auto simp: head_decided_def sql_simps)
      show "\<forall>nd\<in>set (rd_Deliveries dec). \<not> target_taken (q_event_id q) nd ?db1"
        using deferred_untaken [OF inv e(1,3)] e(2) by (simp add: target_taken_def head_decided_def)
    qed (simp_all add: e dep ds)
  qed simp
  then obtain db' where s: "insertDeliveries uuid (q_event_id q) (ev_received_at e) (rd_Deliveries dec) ?db1 = Some db'" by blast
  have "FinalizeDeferred uuid x dec ?digest db = (Inr True, db')"
    using FinalizeDeferred_head_eq [OF inv q fin x h e] s by simp
  then have "DrainerRunOnce uuid m db = (Inr True, m, db')" by (simp add: DrainerRunOnce_def m p r)
  moreover have "durable_inv uuid db'" "db_events db' = db_events ?db1"
    using FinalizeDeferred_inserted [OF u inv q fin s] by (simp_all add: adds_deliveries_def)
  moreover have "db_queue db' = qs" using insertDeliveries_keeps_queue [OF s] q by (simp add: head_decided_def)
  ultimately show ?thesis by (simp add: head_decided_def image_sql_update)
qed

lemma Drainer_idles:
  assumes m: "mg_state m = StateDraining" and q: "db_queue db = []"
  shows "DrainerRunOnce uuid m db = (Inr False, m\<lparr>mg_state := StateIdle, mg_recovery := False\<rparr>, db)"
  by (simp add: DrainerRunOnce_def m PeekDeferred_def queueHead_Nil [OF q] SetIdleIfQueueEmpty_def countQueuedOf_def CountQueued_def q)

section \<open>The loop\<close>

text \<open>The rounds of \<^verbatim>\<open>Run\<close> up to its first wait: it continues at once while an event was processed.\<close>

fun drainRounds :: "(nat \<Rightarrow> string) \<Rightarrow> nat \<Rightarrow> Manager \<Rightarrow> db \<Rightarrow> (worker_error + bool) \<times> Manager \<times> db" where
  "drainRounds uuid 0 m db = (Inr True, m, db)"
| "drainRounds uuid (Suc n) m db =
     (case DrainerRunOnce uuid m db of
        (Inr True, m', db') \<Rightarrow> drainRounds uuid n m' db'
      | r \<Rightarrow> r)"

lemma drainRounds_idle:
  assumes u: "inj uuid" and v: "routes_valid (mg_current m)" and b: "named_targets (mg_current m)"
  shows "durable_inv uuid db \<Longrightarrow> mg_state m = StateDraining \<Longrightarrow>
    \<exists>db'. drainRounds uuid (Suc (length (db_queue db))) m db = (Inr False, m\<lparr>mg_state := StateIdle, mg_recovery := False\<rparr>, db') \<and>
      durable_inv uuid db' \<and> db_queue db' = [] \<and> ev_id ` set (db_events db') = ev_id ` set (db_events db)"
proof (induction "db_queue db" arbitrary: db)
  case Nil
  then show ?case using Drainer_idles [of m db uuid] by simp
next
  case (Cons q qs)
  obtain db1 where r: "DrainerRunOnce uuid m db = (Inr True, m, db1)" and d: "durable_inv uuid db1" "db_queue db1 = qs"
      "ev_id ` set (db_events db1) = ev_id ` set (db_events db)"
    using Drainer_decides [OF u Cons.prems(1,2) Cons.hyps(2) [symmetric] v b] by blast
  have "drainRounds uuid (Suc (length (db_queue db))) m db = drainRounds uuid (Suc (length qs)) m db1"
    by (simp only: drainRounds.simps r Cons.hyps(2) [symmetric] list.size add_Suc_right add_0_right) (simp add: r)
  then show ?case using Cons.hyps(1) [OF d(2) [symmetric] d(1) Cons.prems(2)] d by simp
qed

text \<open>The first rounds decide the oldest events, one each.\<close>

lemma drainRounds_steps:
  assumes u: "inj uuid" and v: "routes_valid (mg_current m)" and b: "named_targets (mg_current m)" and d: "mg_state m = StateDraining"
  shows "durable_inv uuid db \<Longrightarrow> k \<le> length (db_queue db) \<Longrightarrow>
    \<exists>db'. drainRounds uuid k m db = (Inr True, m, db') \<and> durable_inv uuid db' \<and> db_queue db' = drop k (db_queue db) \<and>
      ev_id ` set (db_events db') = ev_id ` set (db_events db)"
proof (induction k arbitrary: db)
  case (Suc k)
  then obtain q qs where q: "db_queue db = q # qs" by (cases "db_queue db") auto
  obtain db1 where r: "DrainerRunOnce uuid m db = (Inr True, m, db1)" and d1: "durable_inv uuid db1" "db_queue db1 = qs"
      "ev_id ` set (db_events db1) = ev_id ` set (db_events db)"
    using Drainer_decides [OF u Suc.prems(1) d q v b] by blast
  have "k \<le> length (db_queue db1)" using Suc.prems(2) q d1(2) by simp
  from Suc.IH [OF d1(1) this] show ?case using d1 q by (simp add: r)
qed simp

text \<open>No event is left deferred when the queue is empty.\<close>

lemma no_deferred: "durable_inv uuid db \<Longrightarrow> db_queue db = [] \<Longrightarrow> e \<in> set (db_events db) \<Longrightarrow> ev_routing_result e \<noteq> RoutingDeferred"
  by (auto simp: durable_inv_def store_inv_def queue_ok_def)

text \<open>An event of the store is deferred exactly while it is queued, and the queue is in the order of acceptance.\<close>

lemma queued_deferred:
  assumes "durable_inv uuid db"
  shows "sorted_wrt (\<lambda>p q. q_seq p < q_seq q) (db_queue db)"
    and "e \<in> set (db_events db) \<Longrightarrow> ev_routing_result e = RoutingDeferred \<longleftrightarrow> ev_id e \<in> q_event_id ` set (db_queue db)"
proof -
  have q: "queue_ok db" "keys_ok db" using assms by (simp_all add: durable_inv_def store_inv_def)
  show "sorted_wrt (\<lambda>p q. q_seq p < q_seq q) (db_queue db)" using q(1) by (simp add: queue_ok_def)
  show "ev_routing_result e = RoutingDeferred \<longleftrightarrow> ev_id e \<in> q_event_id ` set (db_queue db)" if "e \<in> set (db_events db)"
    using q(1) event_unique [OF q(2) that] that unfolding queue_ok_def by auto
qed

end
