(* ===== verification/Worker_Theorems.thy ===== *)
theory Worker_Theorems
  imports Worker_Steps Sample_Data Drain_Progress
begin

text \<open>
  The properties of the workers, of start-up and of the manual operations: \<^verbatim>\<open>internal/worker\<close>, \<^verbatim>\<open>internal/app\<close>,
  \<^verbatim>\<open>internal/runtimecfg/manager.go\<close> and \<^verbatim>\<open>internal/service/attempts.go\<close>.
\<close>

section \<open>Dispatching\<close>

text \<open>Every target client records the request before it sends: whatever the remote system answers, a request leaves the
  program only after \<open>RecordDeploymentRequest\<close> has committed its evidence, and when recording fails nothing is sent.\<close>

theorem recorded_then_sent:
  "recorded_before_send rec db (HTTPDispatch u decode auth baseURL configured v rec answer db) \<and>
   recorded_before_send rec db (ForwardDispatch destination incoming body rec answer db) \<and>
   recorded_before_send rec db (DeployWithRequestEvidence apiKey endpoint ctxErr r rec answer db)"
  by (intro conjI, rule HTTPDispatch_recorded, rule ForwardDispatch_recorded, rule Deploy_recorded)

text \<open>C11. A round of the dispatcher refines the step relation: from any state that satisfies the invariant it leads, through
  single steps, to the state with the database the round leaves, and it sends at most one request, exactly when it says so.\<close>

theorem dispatcher_refines:
  assumes "inj uuid" and "reachable uuid sha canon loads s" and "sy_dispatch s = DispatchIdle"
    and "((again, err, sent), db') = DispatcherRunOnce uuid sha canon cd clients (RetentionRunOnce cutoff (mg_current (sy_manager s)))
           remote clock (mg_current (sy_manager s)) (sy_db s)"
  shows "\<exists>ids. steps uuid sha canon loads s (s\<lparr>sy_db := db', sy_dispatch := DispatchIdle, sy_sent := sy_sent s @ ids\<rparr>) \<and>
    length ids = (if sent then 1 else 0)"
  using DispatcherRunOnce_steps [OF assms(1) reachable_inv [OF assms(1,2)] assms(3) refl assms(4)]
  by (simp add: finished_def)

theorem dispatcher_refines_witness:
  "\<forall>cd clients remote clock. \<exists>ids. steps sample_uuid sample_sha sample_canon sample_loads sample_idle
     (sample_idle\<lparr>sy_db := snd (DispatcherRunOnce sample_uuid sample_sha sample_canon cd clients
         (RetentionRunOnce 0 (mg_current (sy_manager sample_idle))) remote clock (mg_current (sy_manager sample_idle)) (sy_db sample_idle)),
       sy_dispatch := DispatchIdle, sy_sent := sy_sent sample_idle @ ids\<rparr>)"
proof (intro allI)
  fix cd clients remote clock
  obtain again err sent db' where r: "((again, err, sent), db') = DispatcherRunOnce sample_uuid sample_sha sample_canon cd clients
      (RetentionRunOnce 0 (mg_current (sy_manager sample_idle))) remote clock (mg_current (sy_manager sample_idle)) (sy_db sample_idle)"
    by (metis prod.collapse)
  show "\<exists>ids. steps sample_uuid sample_sha sample_canon sample_loads sample_idle
     (sample_idle\<lparr>sy_db := snd (DispatcherRunOnce sample_uuid sample_sha sample_canon cd clients
         (RetentionRunOnce 0 (mg_current (sy_manager sample_idle))) remote clock (mg_current (sy_manager sample_idle)) (sy_db sample_idle)),
       sy_dispatch := DispatchIdle, sy_sent := sy_sent sample_idle @ ids\<rparr>)"
    using dispatcher_refines [OF inj_sample_uuid sample_idle_reachable _ r] unfolding r [symmetric]
    by (auto simp: sample_idle_def start_def)
qed

section \<open>Polling\<close>

text \<open>C12. A round of the poller refines the step relation: its claim, the completion of each claimed poll with whatever the
  remote history says, and the retention run after each terminal result are steps.\<close>

theorem poller_refines:
  assumes "sy_polls s = []"
  shows "steps uuid sha canon loads s (s\<lparr>sy_db := snd (PollerRunOnce uuid sha canon (RetentionRunOnce cutoff (mg_current (sy_manager s)))
    cancelled remote g now (sy_db s))\<rparr>)"
  by (rule PollerRunOnce_steps [OF assms refl])

theorem poller_refines_witness:
  "\<forall>remote. steps sample_uuid sample_sha sample_canon sample_loads sample_idle
     (sample_idle\<lparr>sy_db := snd (PollerRunOnce sample_uuid sample_sha sample_canon
        (RetentionRunOnce 0 (mg_current (sy_manager sample_idle))) (\<lambda>_. False) remote sample_generation 9000000 (sy_db sample_idle))\<rparr>)"
  by (intro allI poller_refines) (simp add: sample_idle_def start_def)



section \<open>Start-up\<close>

text \<open>C14. Recovery after a crash always succeeds: from any consistent database, whatever was interrupted and whatever
  configuration is loaded now, \<open>Prepare\<close> ends without error in a consistent database in which every active delivery belongs to
  a target of the new configuration, nothing is left half sent and no poll claim is left open, and with the lifecycle state
  that the queue demands.\<close>

theorem restart_recovers:
  assumes "inj uuid" and "durable_inv uuid db"
  shows "\<exists>m' db'. Prepare uuid sha canon now m db = (Inr (), m', db') \<and> durable_inv uuid db' \<and>
    active_compatible sha canon (mg_current m) db' \<and> mg_current m' = mg_current m \<and>
    (\<forall>(d, a)\<in>set (current_pairs db'). at_transport_status a \<noteq> TransportSending \<and>
       (monitored (at_deployment_status a) \<longrightarrow> at_last_polled_at a = None)) \<and>
    mg_state m' = (if db_queue db' = [] then StateIdle else if has_active db' then StateWaiting else StateDraining)"
  using Prepare_spec [OF assms, of sha canon now m] unfolding quiescent_def by (fastforce simp del: in_current_pairs)

theorem restart_recovers_witness:
  "\<exists>m' db'. Prepare sample_uuid sample_sha sample_canon 9000000 (NewManager (sample_generation\<lparr>gn_targets := []\<rparr>) 9000000) db_recorded =
      (Inr (), m', db') \<and> durable_inv sample_uuid db' \<and>
    (\<forall>(d, a)\<in>set (current_pairs db'). at_transport_status a \<noteq> TransportSending)"
  using restart_recovers [OF inj_sample_uuid durable_recorded, of sample_sha sample_canon 9000000 "NewManager (sample_generation\<lparr>gn_targets := []\<rparr>) 9000000"]
  by (fastforce simp del: in_current_pairs)

section \<open>Manual operations\<close>

text \<open>C16. A retry or redeploy creates a new attempt only if it was admitted for the expected attempt of a compatible target in a
  status that allows it, the remote history (where the outcome is not certain) says that no deployment of it is running or
  succeeded, and the attempt and its statuses are still the ones the decision was made on, whatever happened between
  the read and the write.\<close>

theorem manual_creates_checked:
  assumes "keys_ok (between db)"
    and "ar_Created (fst (fst (Execute uuid sha canon hook remote between m i e op a r now db)))"
  shows "\<exists>t c. admit sha canon m i e op db = Inr (t, c) \<and> replaceable (remote t c) t c op \<and> unchanged c (between db)"
  by (rule Execute_creates_checked [OF assms])

text \<open>The sample delivery after the target refused the connection.\<close>

definition db_unsent :: db where
  "db_unsent = snd (MarkTransportFailed sample_uuid ''aaa'' None None 7000000 db_sending)"
definition unsent_current :: CurrentAttemptRow where
  "unsent_current = projr (CurrentAttempt ''aa'' db_unsent)"
lemma db_unsent_eq [code]:
  "db_unsent = \<lparr>db_events = [row_event], db_deliveries = [row_delivery TransportFailed DeploymentNotStarted 7],
     db_attempts = [row_attempt\<lparr>at_transport_status := TransportFailed, at_response_at := Some 7\<rparr>],
     db_audits = [row_audit ''aaaa'' ''transport_sending'' TransportPending TransportSending DeploymentNotStarted 6,
       row_audit ''aaaaa'' ''transport_failed'' TransportSending TransportFailed DeploymentNotStarted 7],
     db_queue = [], db_queue_seq = 0, db_observations = [], db_uuids = 5\<rparr>"
  by code_simp
lemma unsent_current: "CurrentAttempt ''aa'' db_unsent = Inr unsent_current"
  "ca_TransportStatus unsent_current = TransportFailed" "ca_DeploymentStatus unsent_current = DeploymentNotStarted"
  "ca_AttemptID unsent_current = ''aaa''" "ca_TargetID unsent_current = ''web''" "ca_TargetSnapshot unsent_current = Some (tg_Snapshot sample_target)"
  by code_simp+
lemma unsent_admitted: "admit sample_sha sample_canon sample_manager ''aa'' ''aaa'' OperationRetry db_unsent = Inr (sample_target, unsent_current)"
  by (simp add: admit_def unsent_current sample_resolved Active_def operationAllowed_def AllowedOperations_def)
lemma unsent_created: "ar_Created (fst (fst (createManual sample_uuid unsent_current OperationRetry ''admin'' [] 9000000 db_unsent)))"
  by code_simp

theorem manual_creates_checked_witness:
  "\<exists>t c. admit sample_sha sample_canon sample_manager ''aa'' ''aaa'' OperationRetry db_unsent = Inr (t, c) \<and>
     replaceable (HistoryArray [] True) t c OperationRetry \<and> unchanged c db_unsent"
proof (rule manual_creates_checked [of "\<lambda>db. db" db_unsent sample_uuid sample_sha sample_canon "\<lambda>db. (Inr (), db)" "\<lambda>_ _. HistoryArray [] True"
      sample_manager "''aa''" "''aaa''" OperationRetry "''admin''" "[]" 9000000])
  have "durable_inv sample_uuid db_unsent" unfolding db_unsent_def by (rule Mark_durable(3) [OF inj_sample_uuid durable_sending])
  then show "keys_ok db_unsent" by (rule durable_inv_keys)
  show "ar_Created (fst (fst (Execute sample_uuid sample_sha sample_canon (\<lambda>db. (Inr (), db)) (\<lambda>_ _. HistoryArray [] True) (\<lambda>db. db)
      sample_manager ''aa'' ''aaa'' OperationRetry ''admin'' [] 9000000 db_unsent)))"
    using unsent_created
    by (cases "createManual sample_uuid unsent_current OperationRetry ''admin'' [] 9000000 db_unsent")
      (auto simp: Execute_def unsent_admitted needsReconciliation_def unsent_current)
qed

text \<open>C17. A delivery to an HTTP or forward target whose outcome is unknown can never be retried, although the status allows the
  operation: the service looks the deployment up by Compose ID, such a target has none, and every lookup without one
  fails. The answer is always \<open>ErrReconciliationUnavailable\<close>, and no attempt is created.\<close>

theorem retry_without_compose:
  assumes "admit sha canon m i e op db = Inr (t, c)" and "ca_TransportStatus c = TransportUnknown" and "tg_ComposeID t = ''''"
  shows "OperationRetry \<in> set (AllowedOperations (ca_TransportStatus c) (ca_DeploymentStatus c)) \<and>
    Execute uuid sha canon hook remote between m i e op a r now db =
      ((\<lparr>ar_AttemptID = ca_AttemptID c, ar_Created = False\<rparr>, Some ErrReconciliationUnavailable), between db)"
  using Execute_no_compose [OF assms(1) _ assms(3)] assms(2) by (simp add: needsReconciliation_def AllowedOperations_def)

definition http_connections :: Connections where
  "http_connections = \<lparr>cn_dokploy = [], cn_http = [(''main'', ''https://h'', [])], cn_tunnels = []\<rparr>"

definition http_config :: TargetConfig where
  "http_config = sample_config\<lparr>tc_Type := ''http'', tc_HTTP := sample_http\<lparr>ht_Method := ''POST'', ht_Path := ''/run''\<rparr>\<rparr>"

definition http_target :: Target where
  "http_target = withTunnel sample_sha http_connections http_config (httpTarget sample_sha second (30 * minute) http_config ''https://h'')"

definition http_manager :: Manager where
  "http_manager = NewManager (sample_generation\<lparr>gn_targets := [(''web'', http_target)]\<rparr>) 0"

definition http_command :: IngestCommand where
  "http_command = sample_command\<lparr>ic_Deliveries :=
     [\<lparr>nd_TargetID = ''web'', nd_TargetSnapshot = tg_Snapshot http_target, nd_DispatchKey = tg_Fingerprint http_target\<rparr>]\<rparr>"

definition db_http :: db where
  "db_http = snd (MarkTransportUnknownTerminal sample_uuid ''aaa'' None None 7000000
     (snd (ClaimPendingAttempt sample_uuid 6000000 (snd (Ingest sample_uuid http_command empty_db)))))"

definition http_current :: CurrentAttemptRow where
  "http_current = projr (CurrentAttempt ''aa'' db_http)"

lemma db_http_eq [code]:
  "db_http = \<lparr>db_events = [row_event],
     db_deliveries = [(row_delivery TransportUnknown DeploymentUnknown 7)\<lparr>dl_target_snapshot := Some (SnapshotDoc
       \<lparr>ts_SSH = None, ts_BindingVersion = 2, ts_ID = ''web'', ts_Type = ''http'', ts_ResourceType = [], ts_ResourceID = [],
          ts_Connection = \<lparr>cs_ID = ''main'', cs_BaseURL = ''https://h''\<rparr>, ts_HTTP = Some (tc_HTTP http_config),
          ts_Forward = None\<rparr>), dl_dispatch_key := Some ''59''\<rparr>],
     db_attempts = [row_attempt\<lparr>at_transport_status := TransportUnknown, at_deployment_status := DeploymentUnknown,
       at_response_at := Some 7\<rparr>],
     db_audits = [row_audit ''aaaa'' ''transport_sending'' TransportPending TransportSending DeploymentNotStarted 6,
       row_audit ''aaaaa'' ''transport_unknown'' TransportSending TransportUnknown DeploymentUnknown 7],
     db_queue = [], db_queue_seq = 0, db_observations = [], db_uuids = 5\<rparr>"
  by code_simp

lemma http_current:
  "CurrentAttempt ''aa'' db_http = Inr http_current" "ca_TransportStatus http_current = TransportUnknown"
  "ca_DeploymentStatus http_current = DeploymentUnknown" "ca_AttemptID http_current = ''aaa''"
  "ca_TargetID http_current = ''web''" "ca_TargetSnapshot http_current = Some (tg_Snapshot http_target)"
  by code_simp+

lemma http_resolved:
  "ResolveTarget sample_sha sample_canon (sample_generation\<lparr>gn_targets := [(''web'', http_target)]\<rparr>) ''web'' (Some (tg_Snapshot http_target)) =
     (Some http_target, BindingCompatible)"
proof -
  have "bindings_ok sample_sha sample_canon (sample_generation\<lparr>gn_targets := [(''web'', http_target)]\<rparr>)"
  proof (rule compiled_bindings_ok [of _ _ http_connections second "30 * minute" "[http_config]"])
    show "compileTargets sample_sha sample_canon http_connections (fst (pollingSettings second (30 * minute)))
        (snd (pollingSettings second (30 * minute))) [http_config] = Some (gn_targets (sample_generation\<lparr>gn_targets := [(''web'', http_target)]\<rparr>))"
      by (simp add: compileTarget_def http_config_def sample_config_def http_connections_def http_target_def pollingSettings_def time_defs)
    show "canonical_ok sample_canon http_connections (set [http_config])"
      by (simp add: canonical_ok_def sample_canon_def http_connections_def)
    show "\<forall>cfg\<in>set [http_config]. target_config_ok cfg" by (simp add: target_config_ok_def http_config_def sample_config_def)
  qed
  then show ?thesis by (simp add: bindings_ok_def)
qed

theorem retry_without_compose_witness:
  "OperationRetry \<in> set (AllowedOperations (ca_TransportStatus http_current) (ca_DeploymentStatus http_current)) \<and>
   (\<forall>remote. fst (Execute sample_uuid sample_sha sample_canon (\<lambda>db. (Inr (), db)) remote (\<lambda>db. db) http_manager ''aa'' ''aaa''
      OperationRetry ''admin'' [] 9000000 db_http) =
    (\<lparr>ar_AttemptID = ''aaa'', ar_Created = False\<rparr>, Some ErrReconciliationUnavailable))"
proof -
  have a: "admit sample_sha sample_canon http_manager ''aa'' ''aaa'' OperationRetry db_http = Inr (http_target, http_current)"
    by (simp add: admit_def http_current http_manager_def NewManager_def http_resolved Active_def operationAllowed_def AllowedOperations_def)
  have s: "ca_TransportStatus http_current = TransportUnknown" "tg_ComposeID http_target = []" "ca_AttemptID http_current = ''aaa''"
    by (simp_all add: http_current http_target_def withTunnel_def httpTarget_def baseTarget_def emptyTarget_def Let_def)
  show ?thesis using retry_without_compose [OF a s(1,2)] s(3) by auto
qed

section \<open>The reload protocol\<close>

text \<open>C18. The manager's state stays well formed (a candidate is held exactly while a reload waits for it, and its digest is the
  pending one) under every critical section that the program runs: initialisation, both sections of a reload, the advance of a
  waiting reload, and the return to idle; \<open>SetDraining\<close>, which nothing but a test calls, keeps it while no candidate is held. Only an idle
  manager starts a reload; a failed load leaves the configuration alone and the manager idle; a waiting reload is retried after
  between 250 milliseconds and 5 seconds, and the wait ends only with the candidate published (or, after a start-up, with the recovery).\<close>

theorem reload_protocol:
  assumes ok: "manager_ok m"
  shows "manager_ok (snd (Initialize queued active m)) \<and> manager_ok (snd (reloadBegin m)) \<and>
    (mg_state m = StateValidating \<longrightarrow> manager_ok (snd (reloadComplete now loaded active m))) \<and>
    manager_ok (snd (Reload now loaded active m)) \<and> manager_ok (snd (advanceWaiting now active m)) \<and>
    manager_ok (snd (SetIdleIfQueueEmpty queued m)) \<and> (mg_candidate m = None \<longrightarrow> manager_ok (SetDraining m)) \<and>
    (mg_state m = StateIdle \<longrightarrow>
       (case Reload now loaded active m of
          (Inr ReloadApplied, m') \<Rightarrow> loaded = Inr (mg_current m') \<and> mg_state m' = StateDraining \<and> active = Inr 0
        | (Inr ReloadWaiting, m') \<Rightarrow> mg_current m' = mg_current m \<and> mg_state m' = StateWaiting \<and>
            (\<exists>g. loaded = Inr g \<and> mg_candidate m' = Some g)
        | (Inl _, m') \<Rightarrow> mg_current m' = mg_current m \<and> mg_state m' = StateIdle \<and> mg_candidate m' = None)) \<and>
    (mg_state m \<noteq> StateIdle \<longrightarrow> Reload now loaded active m = (Inl ErrReloadInProgress, m)) \<and>
    (mg_state m = StateWaiting \<longrightarrow>
       (case advanceWaiting now active m of
          ((True, _), m') \<Rightarrow> mg_current m' = mg_current m \<and> mg_candidate m' = mg_candidate m \<and> mg_state m' = StateWaiting \<and> active \<noteq> Inr 0
        | ((False, _), m') \<Rightarrow> active = Inr 0 \<and> mg_state m' = StateDraining \<and> mg_candidate m' = None \<and>
            mg_current m' = (case mg_candidate m of Some g \<Rightarrow> g | None \<Rightarrow> mg_current m))) \<and>
    (retryMinimum \<le> delay \<longrightarrow> retryMinimum \<le> nextRetry delay r \<and> nextRetry delay r \<le> retryMaximum)"
proof (intro conjI impI)
  have run: "Reload now loaded active m = reloadComplete now loaded active (snd (reloadBegin m)) \<and> mg_state (snd (reloadBegin m)) = StateValidating"
    if "mg_state m = StateIdle" using that by (simp add: Reload_def reloadBegin_def)
  have busy: "Reload now loaded active m = (Inl ErrReloadInProgress, m)" if "mg_state m \<noteq> StateIdle"
    using that by (simp add: Reload_def reloadBegin_def)
  show "manager_ok (snd (Reload now loaded active m))"
    using manager_ok_steps(3) [OF manager_ok_steps(2) [OF ok]] run busy ok by (cases "mg_state m = StateIdle") simp_all
  show "manager_ok (SetDraining m)" if "mg_candidate m = None"
    using ok that by (simp add: manager_ok_def SetDraining_def)
  show "Reload now loaded active m = (Inl ErrReloadInProgress, m)" if "mg_state m \<noteq> StateIdle" by (rule busy [OF that])
  show "case Reload now loaded active m of
          (Inr ReloadApplied, m') \<Rightarrow> loaded = Inr (mg_current m') \<and> mg_state m' = StateDraining \<and> active = Inr 0
        | (Inr ReloadWaiting, m') \<Rightarrow> mg_current m' = mg_current m \<and> mg_state m' = StateWaiting \<and>
            (\<exists>g. loaded = Inr g \<and> mg_candidate m' = Some g)
        | (Inl _, m') \<Rightarrow> mg_current m' = mg_current m \<and> mg_state m' = StateIdle \<and> mg_candidate m' = None" if "mg_state m = StateIdle"
    using that unfolding conjunct1 [OF run [OF that]]
    by (cases loaded; cases active) (simp_all add: lifecycle_defs Let_def)
  show "case advanceWaiting now active m of
          ((True, _), m') \<Rightarrow> mg_current m' = mg_current m \<and> mg_candidate m' = mg_candidate m \<and> mg_state m' = StateWaiting \<and> active \<noteq> Inr 0
        | ((False, _), m') \<Rightarrow> active = Inr 0 \<and> mg_state m' = StateDraining \<and> mg_candidate m' = None \<and>
            mg_current m' = (case mg_candidate m of Some g \<Rightarrow> g | None \<Rightarrow> mg_current m)" if "mg_state m = StateWaiting"
    using that by (cases active; cases "mg_candidate m") (simp_all add: lifecycle_defs)
  show "retryMinimum \<le> nextRetry delay r" "nextRetry delay r \<le> retryMaximum" if "retryMinimum \<le> delay"
    using nextRetry_bounds [OF that, of r] by simp_all
qed (rule manager_ok_steps [OF ok], assumption?)+

theorem reload_protocol_witness:
  "fst (Reload 5 (Inr sample_generation) (Inr 0 :: unit + nat) (sample_manager\<lparr>mg_state := StateDraining\<rparr>)) = Inl ErrReloadInProgress \<and>
   manager_ok (snd (Reload 5 (Inr sample_generation) (Inr 0 :: unit + nat) sample_manager)) \<and>
   (\<exists>m. mg_state m = StateWaiting \<and> manager_ok m \<and> mg_current (snd (advanceWaiting 6 (Inr 0 :: unit + nat) m)) = sample_generation)"
proof (intro conjI exI)
  let ?w = "sample_manager\<lparr>mg_current := sample_generation\<lparr>gn_digest := ''d0''\<rparr>, mg_candidate := Some sample_generation,
    mg_pendingDigest := gn_digest sample_generation, mg_state := StateWaiting\<rparr>"
  have ok: "manager_ok sample_manager" "manager_ok (sample_manager\<lparr>mg_state := StateDraining\<rparr>)"
    by (simp_all add: sample_manager_def manager_ok_New) (simp add: manager_ok_def NewManager_def)
  note r = reload_protocol [where now = 5 and loaded = "Inr sample_generation" and active = "Inr 0 :: unit + nat" and queued = "Inr 0 :: unit + nat"
      and delay = 0 and r = "(False, None :: unit option)"]
  show "fst (Reload 5 (Inr sample_generation) (Inr 0 :: unit + nat) (sample_manager\<lparr>mg_state := StateDraining\<rparr>)) = Inl ErrReloadInProgress"
    using r [OF ok(2)] by (auto split: prod.splits)
  show "manager_ok (snd (Reload 5 (Inr sample_generation) (Inr 0 :: unit + nat) sample_manager))" using r [OF ok(1)] by blast
  show w: "mg_state ?w = StateWaiting" "manager_ok ?w" by (simp_all add: manager_ok_def)
  show "mg_current (snd (advanceWaiting 6 (Inr 0 :: unit + nat) ?w)) = sample_generation"
    using reload_protocol [OF w(2), where now = 6 and loaded = "Inr sample_generation" and active = "Inr 0 :: unit + nat" and
        queued = "Inr 0 :: unit + nat" and delay = 0 and r = "(False, None :: unit option)"] w(1)
    by (auto split: prod.splits bool.splits)
qed

end
