(* ===== verification/Net_URL.thy ===== *)
theory Net_URL
  imports Redact
begin

text \<open>
  URLs as Go's \<^verbatim>\<open>net/url\<close> (1.25) parses and prints them, as far as the configuration and the clients use it, and the canonical
  base URLs of \<^verbatim>\<open>internal/dokploy/client.go\<close>, \<^verbatim>\<open>internal/httptarget/client.go\<close> and \<^verbatim>\<open>internal/httptarget/forward.go\<close>.
  A canonical URL is part of a target's identity: it enters the binding fingerprint.
\<close>

section \<open>Splitting\<close>

text \<open>\<^verbatim>\<open>strings.Cut\<close> at the first, and splitting at the last occurrence of a byte.\<close>

definition cut :: "char \<Rightarrow> string \<Rightarrow> string \<times> string option" where
  "cut c s = (takeWhile (\<lambda>x. x \<noteq> c) s, case dropWhile (\<lambda>x. x \<noteq> c) s of [] \<Rightarrow> None | _ # r \<Rightarrow> Some r)"

definition rcut :: "char \<Rightarrow> string \<Rightarrow> (string \<times> string) option" where
  "rcut c s = (case dropWhile (\<lambda>x. x \<noteq> c) (rev s) of [] \<Rightarrow> None
     | _ # r \<Rightarrow> Some (rev r, rev (takeWhile (\<lambda>x. x \<noteq> c) (rev s))))"

definition asciiAlpha :: "char \<Rightarrow> bool" where
  "asciiAlpha c \<longleftrightarrow> (CHR ''a'' \<le> c \<and> c \<le> CHR ''z'') \<or> (CHR ''A'' \<le> c \<and> c \<le> CHR ''Z'')"

definition asciiNum :: "char \<Rightarrow> bool" where
  "asciiNum c \<longleftrightarrow> CHR ''0'' \<le> c \<and> c \<le> CHR ''9''"

section \<open>Percent encoding\<close>

datatype url_encoding = EncodePath | EncodeHost | EncodeZone | EncodeUserPassword | EncodeFragment

definition shouldEscape :: "char \<Rightarrow> url_encoding \<Rightarrow> bool" where
  "shouldEscape c mode =
     (if asciiAlpha c \<or> asciiNum c then False
      else if (mode = EncodeHost \<or> mode = EncodeZone) \<and>
              c \<in> set (CHR 0x22 # CHR 0x27 # ''!$&()*+,;=:[]<>'') then False
      else if c \<in> set ''-_.~'' then False
      else if c \<in> set ''$&+,/:;=?@'' \<and> mode = EncodePath then c = CHR ''?''
      else if c \<in> set ''$&+,/:;=?@'' \<and> mode = EncodeUserPassword then c \<in> set ''@/?:''
      else if c \<in> set ''$&+,/:;=?@'' \<and> mode = EncodeFragment then False
      else if mode = EncodeFragment \<and> c \<in> set ''!()*'' then False
      else True)"

definition isHex :: "char \<Rightarrow> bool" where
  "isHex c \<longleftrightarrow> asciiNum c \<or> (CHR ''a'' \<le> c \<and> c \<le> CHR ''f'') \<or> (CHR ''A'' \<le> c \<and> c \<le> CHR ''F'')"

definition unhex :: "char \<Rightarrow> nat" where
  "unhex c = (if asciiNum c then of_char c - 48
     else if CHR ''a'' \<le> c \<and> c \<le> CHR ''f'' then of_char c - 87 else of_char c - 55)"

definition upperHex :: "nat \<Rightarrow> char" where
  "upperHex n = ''0123456789ABCDEF'' ! n"

fun escapeURL :: "url_encoding \<Rightarrow> string \<Rightarrow> string" where
  "escapeURL mode [] = []"
| "escapeURL mode (c # cs) =
     (if shouldEscape c mode then [CHR ''%'', upperHex (of_char c div 16), upperHex (of_char c mod 16)] else [c]) @ escapeURL mode cs"

text \<open>One percent triplet is checked by the mode before it is decoded.\<close>

definition tripletOK :: "url_encoding \<Rightarrow> char \<Rightarrow> char \<Rightarrow> bool" where
  "tripletOK mode a b \<longleftrightarrow> isHex a \<and> isHex b \<and>
     (mode = EncodeHost \<longrightarrow> 8 \<le> unhex a \<or> [a, b] = ''25'') \<and>
     (mode = EncodeZone \<longrightarrow> [a, b] = ''25'' \<or> 16 * unhex a + unhex b = 32 \<or>
        \<not> shouldEscape (char_of (16 * unhex a + unhex b)) EncodeHost)"

function unescapeURL :: "url_encoding \<Rightarrow> string \<Rightarrow> string option" where
  "unescapeURL mode [] = Some []"
| "unescapeURL mode (c # cs) =
     (if c = CHR ''%'' then
        (case cs of
           a # b # rest \<Rightarrow>
             if tripletOK mode a b then map_option ((#) (char_of (16 * unhex a + unhex b))) (unescapeURL mode rest) else None
         | _ \<Rightarrow> None)
      else if (mode = EncodeHost \<or> mode = EncodeZone) \<and> (of_char c :: nat) < 128 \<and> shouldEscape c mode then None
      else map_option ((#) c) (unescapeURL mode cs))"
  by pat_completeness auto
termination
  by (relation "measure (\<lambda>(m, s). length s)") auto

section \<open>Parsing\<close>

record URL =
  ur_Scheme :: string
  ur_Opaque :: string
  ur_User :: "(string \<times> string option) option"
  ur_Host :: string
  ur_Path :: string
  ur_RawPath :: string
  ur_ForceQuery :: bool
  ur_RawQuery :: string
  ur_Fragment :: string
  ur_OmitHost :: bool

definition emptyURL :: URL where
  "emptyURL = \<lparr>ur_Scheme = '''', ur_Opaque = '''', ur_User = None, ur_Host = '''', ur_Path = '''', ur_RawPath = '''',
     ur_ForceQuery = False, ur_RawQuery = '''', ur_Fragment = '''', ur_OmitHost = False\<rparr>"

definition validOptionalPort :: "string \<Rightarrow> bool" where
  "validOptionalPort port = (case port of [] \<Rightarrow> True | c # ds \<Rightarrow> c = CHR '':'' \<and> list_all asciiNum ds)"

text \<open>\<^verbatim>\<open>getScheme\<close>: \<open>None\<close> is the missing scheme before a colon; \<open>acc\<close> is what was read, reversed.\<close>

fun getScheme :: "string \<Rightarrow> string \<Rightarrow> string \<Rightarrow> (string \<times> string) option" where
  "getScheme raw acc [] = Some ('''', raw)"
| "getScheme raw acc (c # cs) =
     (if asciiAlpha c then getScheme raw (c # acc) cs
      else if asciiNum c \<or> c \<in> set ''+-.'' then (if acc = [] then Some ('''', raw) else getScheme raw (c # acc) cs)
      else if c = CHR '':'' then (if acc = [] then None else Some (rev acc, cs))
      else Some ('''', raw))"

definition validUserinfo :: "string \<Rightarrow> bool" where
  "validUserinfo s = list_all (\<lambda>c. asciiAlpha c \<or> asciiNum c \<or> c \<in> set (CHR 0x27 # ''-._:~!$&()*+,;=%@'')) s"

text \<open>The position of the zone marker \<^verbatim>\<open>%25\<close>.\<close>

fun splitZone :: "string \<Rightarrow> (string \<times> string) option" where
  "splitZone [] = None"
| "splitZone (c # cs) =
     (if prefixOf ''%25'' (c # cs) then Some ([], c # cs)
      else map_option (\<lambda>(a, b). (c # a, b)) (splitZone cs))"

definition parseHost :: "string \<Rightarrow> string option" where
  "parseHost host =
     (if prefixOf ''['' host then
        (case rcut (CHR '']'') host of
           None \<Rightarrow> None
         | Some (before, colonPort) \<Rightarrow>
             if \<not> validOptionalPort colonPort then None
             else (case splitZone before of
                     Some (h1, zone) \<Rightarrow>
                       (case (unescapeURL EncodeHost h1, unescapeURL EncodeZone zone, unescapeURL EncodeHost ('']'' @ colonPort)) of
                          (Some a, Some b, Some c) \<Rightarrow> Some (a @ b @ c)
                        | _ \<Rightarrow> None)
                   | None \<Rightarrow> unescapeURL EncodeHost host))
      else (case rcut (CHR '':'') host of
              Some (_, port) \<Rightarrow> if validOptionalPort ('':'' @ port) then unescapeURL EncodeHost host else None
            | None \<Rightarrow> unescapeURL EncodeHost host))"

definition parseUser :: "string \<Rightarrow> (string \<times> string option) option" where
  "parseUser userinfo =
     (if \<not> validUserinfo userinfo then None
      else case cut (CHR '':'') userinfo of
        (name, None) \<Rightarrow> map_option (\<lambda>n. (n, None)) (unescapeURL EncodeUserPassword name)
      | (name, Some password) \<Rightarrow>
          (case (unescapeURL EncodeUserPassword name, unescapeURL EncodeUserPassword password) of
             (Some n, Some p) \<Rightarrow> Some (n, Some p) | _ \<Rightarrow> None))"

definition parseAuthority :: "string \<Rightarrow> ((string \<times> string option) option \<times> string) option" where
  "parseAuthority authority =
     (case rcut (CHR ''@'') authority of
        None \<Rightarrow> map_option (\<lambda>h. (None, h)) (parseHost authority)
      | Some (userinfo, host) \<Rightarrow>
          (case (parseHost host, parseUser userinfo) of
             (Some h, Some u) \<Rightarrow> Some (Some u, h) | _ \<Rightarrow> None))"

definition setPath :: "string \<Rightarrow> URL \<Rightarrow> URL option" where
  "setPath p u =
     map_option (\<lambda>path. u\<lparr>ur_Path := path, ur_RawPath := (if p = escapeURL EncodePath path then '''' else p)\<rparr>)
       (unescapeURL EncodePath p)"

definition lowerASCII :: "string \<Rightarrow> string" where
  "lowerASCII s = map (\<lambda>c. if CHR ''A'' \<le> c \<and> c \<le> CHR ''Z'' then char_of ((of_char c :: nat) + 32) else c) s"

text \<open>The query, and then the hierarchical part; \<open>viaRequest\<close> is the mode of \<^verbatim>\<open>ParseRequestURI\<close>.\<close>

definition cutQuery :: "string \<Rightarrow> URL \<Rightarrow> string \<times> URL" where
  "cutQuery rest u =
     (if rest \<noteq> [] \<and> last rest = CHR ''?'' \<and> CHR ''?'' \<notin> set (butlast rest)
      then (butlast rest, u\<lparr>ur_ForceQuery := True\<rparr>)
      else case cut (CHR ''?'') rest of (r, q) \<Rightarrow> (r, u\<lparr>ur_RawQuery := (case q of Some s \<Rightarrow> s | None \<Rightarrow> '''')\<rparr>))"

definition parseHierarchy :: "bool \<Rightarrow> string \<Rightarrow> URL \<Rightarrow> URL option" where
  "parseHierarchy viaRequest rest u =
     (let scheme = ur_Scheme u in
      if \<not> prefixOf ''/'' rest \<and> scheme \<noteq> '''' then Some (u\<lparr>ur_Opaque := rest\<rparr>)
      else if \<not> prefixOf ''/'' rest \<and> viaRequest then None
      else if \<not> prefixOf ''/'' rest \<and> CHR '':'' \<in> set (fst (cut (CHR ''/'') rest)) then None
      else if (scheme \<noteq> '''' \<or> (\<not> viaRequest \<and> \<not> prefixOf ''///'' rest)) \<and> prefixOf ''//'' rest then
        (let body = drop 2 rest; authority = takeWhile (\<lambda>c. c \<noteq> CHR ''/'') body; path = dropWhile (\<lambda>c. c \<noteq> CHR ''/'') body
         in case parseAuthority authority of
              None \<Rightarrow> None
            | Some (user, host) \<Rightarrow> setPath path (u\<lparr>ur_User := user, ur_Host := host\<rparr>))
      else setPath rest (u\<lparr>ur_OmitHost := (scheme \<noteq> '''' \<and> prefixOf ''/'' rest)\<rparr>))"

definition parseNoFragment :: "bool \<Rightarrow> string \<Rightarrow> URL option" where
  "parseNoFragment viaRequest raw =
     (if list_ex (\<lambda>c. (of_char c :: nat) < 32 \<or> (of_char c :: nat) = 127) raw then None
      else if raw = '''' \<and> viaRequest then None
      else if raw = ''*'' then Some (emptyURL\<lparr>ur_Path := ''*''\<rparr>)
      else case getScheme raw [] raw of
        None \<Rightarrow> None
      | Some (scheme, rest) \<Rightarrow>
          (case cutQuery rest (emptyURL\<lparr>ur_Scheme := lowerASCII scheme\<rparr>) of (r, u) \<Rightarrow> parseHierarchy viaRequest r u))"

definition ParseURL :: "string \<Rightarrow> URL option" where
  "ParseURL raw =
     (case cut (CHR ''#'') raw of
        (r, fragment) \<Rightarrow>
          (case parseNoFragment False r of
             None \<Rightarrow> None
           | Some u \<Rightarrow>
               (case fragment of
                  None \<Rightarrow> Some u
                | Some [] \<Rightarrow> Some u
                | Some f \<Rightarrow> map_option (\<lambda>x. u\<lparr>ur_Fragment := x\<rparr>) (unescapeURL EncodeFragment f))))"

definition ParseRequestURI :: "string \<Rightarrow> URL option" where
  "ParseRequestURI raw = parseNoFragment True raw"

section \<open>Host, port and printing\<close>

definition splitHostPort :: "string \<Rightarrow> string \<times> string" where
  "splitHostPort hostPort =
     (let (host, port) = (case rcut (CHR '':'') hostPort of
            Some (h, p) \<Rightarrow> if validOptionalPort ('':'' @ p) then (h, p) else (hostPort, '''')
          | None \<Rightarrow> (hostPort, ''''))
      in (if prefixOf ''['' host \<and> host \<noteq> [] \<and> last host = CHR '']'' then butlast (tl host) else host, port))"

definition Hostname :: "URL \<Rightarrow> string" where
  "Hostname u = fst (splitHostPort (ur_Host u))"

definition Port :: "URL \<Rightarrow> string" where
  "Port u = snd (splitHostPort (ur_Host u))"

definition JoinHostPort :: "string \<Rightarrow> string \<Rightarrow> string" where
  "JoinHostPort host port = (if CHR '':'' \<in> set host then ''['' @ host @ '']:'' @ port else host @ '':'' @ port)"

definition validEncodedPath :: "string \<Rightarrow> bool" where
  "validEncodedPath s = list_all (\<lambda>c. c \<in> set (CHR 0x27 # ''!$&()*+,;=:@[]%'') \<or> \<not> shouldEscape c EncodePath) s"

definition EscapedPath :: "URL \<Rightarrow> string" where
  "EscapedPath u =
     (if ur_RawPath u \<noteq> '''' \<and> validEncodedPath (ur_RawPath u) \<and> unescapeURL EncodePath (ur_RawPath u) = Some (ur_Path u)
      then ur_RawPath u
      else if ur_Path u = ''*'' then ''*''
      else escapeURL EncodePath (ur_Path u))"

text \<open>\<^verbatim>\<open>URL.String\<close> for a URL with a scheme and a host and without user information, opaque part and fragment, the only
  ones that are printed here.\<close>

definition URLString :: "URL \<Rightarrow> string" where
  "URLString u =
     (let path = EscapedPath u in
      ur_Scheme u @ ''://'' @ escapeURL EncodeHost (ur_Host u) @
      (if path \<noteq> '''' \<and> hd path \<noteq> CHR ''/'' then ''/'' else '''') @ path @
      (if ur_ForceQuery u \<or> ur_RawQuery u \<noteq> '''' then ''?'' @ ur_RawQuery u else ''''))"

end
