(* ===== verification/Canonical_URL.thy ===== *)
theory Canonical_URL
  imports Net_URL Providers Generation_Props
begin

text \<open>
  The canonical base URLs that the configuration compiles into targets and that a stored snapshot is compared with
  (\<^verbatim>\<open>dokploy.CanonicalBaseURL\<close>, \<^verbatim>\<open>httptarget.CanonicalBaseURL\<close>, \<^verbatim>\<open>httptarget.CanonicalForwardURL\<close>). They discharge the parameter
  \<open>canonical\<close> of the theory \<open>Generation\<close>.
\<close>

section \<open>Definitions\<close>

definition defaultPort :: "string \<Rightarrow> string \<Rightarrow> bool" where
  "defaultPort scheme port \<longleftrightarrow> (scheme = ''http'' \<and> port = ''80'') \<or> (scheme = ''https'' \<and> port = ''443'')"

definition canonicalHost :: "unicode \<Rightarrow> URL \<Rightarrow> string" where
  "canonicalHost u p =
     (let hostname = lowercase u (Hostname p);
          port = (if defaultPort (ur_Scheme p) (Port p) then '''' else Port p)
      in if port = '''' then hostname else JoinHostPort hostname port)"

definition dokployCanonicalBaseURL :: "unicode \<Rightarrow> string \<Rightarrow> string option" where
  "dokployCanonicalBaseURL u raw =
     (case ParseURL raw of
        None \<Rightarrow> None
      | Some parsed \<Rightarrow>
          if ur_Scheme parsed = '''' \<or> ur_Host parsed = '''' then None
          else let p = parsed\<lparr>ur_Scheme := lowercase u (ur_Scheme parsed)\<rparr> in
            if ur_Scheme p \<noteq> ''http'' \<and> ur_Scheme p \<noteq> ''https'' then None
            else if ur_User p \<noteq> None \<or> ur_RawQuery p \<noteq> '''' \<or> ur_ForceQuery p \<or> ur_Fragment p \<noteq> '''' then None
            else if ur_Path p \<noteq> '''' \<and> ur_Path p \<noteq> ''/'' then None
            else if lowercase u (Hostname p) = '''' then None
            else Some (URLString (p\<lparr>ur_Host := canonicalHost u p, ur_Path := '''', ur_RawPath := ''''\<rparr>)))"

definition httpCanonicalBaseURL :: "unicode \<Rightarrow> string \<Rightarrow> string option" where
  "httpCanonicalBaseURL u raw =
     (case ParseURL raw of
        None \<Rightarrow> None
      | Some parsed \<Rightarrow>
          if ur_Scheme parsed = '''' \<or> ur_Host parsed = '''' \<or> (ur_Scheme parsed \<noteq> ''http'' \<and> ur_Scheme parsed \<noteq> ''https'') \<or>
             ur_User parsed \<noteq> None \<or> ur_RawQuery parsed \<noteq> '''' \<or> ur_Fragment parsed \<noteq> '''' \<or>
             (ur_Path parsed \<noteq> '''' \<and> ur_Path parsed \<noteq> ''/'') then None
          else let p = parsed\<lparr>ur_Scheme := lowercase u (ur_Scheme parsed)\<rparr> in
            Some (URLString (p\<lparr>ur_Host := canonicalHost u p, ur_Path := '''', ur_RawPath := ''''\<rparr>)))"

definition canonicalForwardURL :: "unicode \<Rightarrow> string \<Rightarrow> URL option" where
  "canonicalForwardURL u raw =
     (case ParseURL raw of
        None \<Rightarrow> None
      | Some parsed \<Rightarrow>
          if ur_Host parsed = '''' \<or> (ur_Scheme parsed \<noteq> ''http'' \<and> ur_Scheme parsed \<noteq> ''https'') \<or> ur_User parsed \<noteq> None \<or>
             ur_RawQuery parsed \<noteq> '''' \<or> ur_Fragment parsed \<noteq> '''' then None
          else Some (parsed\<lparr>ur_Scheme := lowercase u (ur_Scheme parsed), ur_Host := lowercase u (ur_Host parsed)\<rparr>))"

definition CanonicalForwardURL :: "unicode \<Rightarrow> string \<Rightarrow> string option" where
  "CanonicalForwardURL u raw = map_option URLString (canonicalForwardURL u raw)"

text \<open>The three functions as the parameter of \<open>Generation\<close>.\<close>

definition code_canonical :: "unicode \<Rightarrow> canonical" where
  "code_canonical u =
     \<lparr>dokployURL = dokployCanonicalBaseURL u, httpURL = httpCanonicalBaseURL u, forwardURL = CanonicalForwardURL u\<rparr>"

section \<open>Lower case\<close>

definition lowerByte1 :: "char \<Rightarrow> char" where
  "lowerByte1 c = (if CHR ''A'' \<le> c \<and> c \<le> CHR ''Z'' then char_of ((of_char c :: nat) + 32) else c)"

definition ascii :: "char \<Rightarrow> bool" where
  "ascii c \<longleftrightarrow> (of_char c :: nat) < 128"

lemma char_less_eq: "c \<le> d \<longleftrightarrow> (of_char c :: nat) \<le> of_char d"
  by (simp add: less_eq_char_def)

lemma lowercase_ascii: "list_all ascii s \<Longrightarrow> lowercase u s = map lowerByte1 s"
proof (induction s)
  case (Cons c cs)
  then have n: "(of_char c :: nat) < 128" by (simp add: ascii_def)
  then have "decodeRune c cs = (of_char c, 1)" by (simp add: decodeRune.simps)
  moreover have "encodeRune (lowerRune u (of_char c)) = [lowerByte1 c]"
    using n by (simp add: encodeRune_def lowerRune_def lowerByte1_def char_less_eq)
  ultimately show ?case using Cons by simp
qed simp

lemma of_lowerByte1: "(of_char (lowerByte1 c) :: nat) =
    (if 65 \<le> (of_char c :: nat) \<and> (of_char c :: nat) \<le> 90 then of_char c + 32 else of_char c)"
  by (auto simp: lowerByte1_def char_less_eq of_char_of)

section \<open>Plain hosts\<close>

text \<open>A plain host name: letters, digits and \<^verbatim>\<open>-._~\<close>, as in a DNS name or an IPv4 address.\<close>

definition plainByte :: "char \<Rightarrow> bool" where
  "plainByte c \<longleftrightarrow> asciiAlpha c \<or> asciiNum c \<or> c \<in> set ''-._~''"

definition portSuffix :: "string \<Rightarrow> string" where
  "portSuffix port = (if port = '''' then '''' else '':'' @ port)"

lemma plainByte_range: "plainByte c \<Longrightarrow> 45 \<le> (of_char c :: nat) \<and> (of_char c :: nat) < 127 \<and>
    (of_char c :: nat) \<notin> {47, 58, 63, 64, 91, 93}"
  by (auto simp: plainByte_def asciiAlpha_def asciiNum_def char_less_eq)

lemma asciiNum_range: "asciiNum c \<Longrightarrow> 48 \<le> (of_char c :: nat) \<and> (of_char c :: nat) \<le> 57"
  by (simp add: asciiNum_def char_less_eq)

text \<open>The bytes that structure a URL; none of them is plain.\<close>

definition special :: string where
  "special = ''#%/:?@[]''"

lemma plainByte_special: "plainByte c \<Longrightarrow> c \<notin> set special"
  using plainByte_range [of c] by (auto simp: special_def)

lemma plain_ascii: "plainByte c \<Longrightarrow> ascii c"
  using plainByte_range [of c] by (simp add: ascii_def)

lemma plain_lower: "plainByte c \<Longrightarrow> plainByte (lowerByte1 c)"
  using of_lowerByte1 [of c] by (auto simp: plainByte_def asciiAlpha_def asciiNum_def char_less_eq lowerByte1_def)

lemma lower_lower: "plainByte c \<Longrightarrow> lowerByte1 (lowerByte1 c) = lowerByte1 c"
  using of_lowerByte1 [of c] by (auto simp: lowerByte1_def char_less_eq)

lemma plain_unescaped: "plainByte c \<Longrightarrow> \<not> shouldEscape c EncodeHost"
  by (auto simp: plainByte_def shouldEscape_def)


lemma cut_absent: "c \<notin> set s \<Longrightarrow> cut c s = (s, None)"
proof -
  assume c: "c \<notin> set s"
  then have "takeWhile (\<lambda>x. x \<noteq> c) s = s" "dropWhile (\<lambda>x. x \<noteq> c) s = []"
    by (auto simp: takeWhile_eq_all_conv dropWhile_eq_Nil_conv)
  then show ?thesis by (simp only: cut_def list.case)
qed

lemma rcut_absent: "c \<notin> set s \<Longrightarrow> rcut c s = None"
proof -
  assume "c \<notin> set s"
  then have "dropWhile (\<lambda>x. x \<noteq> c) (rev s) = []" by (auto simp: dropWhile_eq_Nil_conv)
  then show ?thesis by (simp only: rcut_def list.case)
qed

lemma rcut_last: "c \<notin> set t \<Longrightarrow> rcut c (s @ c # t) = Some (s, t)"
proof -
  assume "c \<notin> set t"
  then have "takeWhile (\<lambda>x. x \<noteq> c) (rev t @ c # rev s) = rev t" "dropWhile (\<lambda>x. x \<noteq> c) (rev t @ c # rev s) = c # rev s"
    by (auto simp: takeWhile_append dropWhile_append)
  then show ?thesis by (simp add: rcut_def)
qed

lemma unescape_host:
  "(\<And>c. c \<in> set s \<Longrightarrow> c \<noteq> CHR ''%'' \<and> \<not> shouldEscape c EncodeHost) \<Longrightarrow> unescapeURL EncodeHost s = Some s"
  by (induction s) auto

lemma escape_host: "(\<And>c. c \<in> set s \<Longrightarrow> \<not> shouldEscape c EncodeHost) \<Longrightarrow> escapeURL EncodeHost s = s"
  by (induction s) auto

lemma lowercase_plain:
  assumes "list_all plainByte s"
  shows "lowercase u s = map lowerByte1 s" "list_all plainByte (map lowerByte1 s)"
    "lowercase u (lowercase u s) = lowercase u s"
proof -
  have a: "list_all ascii s" using assms by (auto simp: list_all_iff plain_ascii)
  then show l: "lowercase u s = map lowerByte1 s" by (rule lowercase_ascii)
  show p: "list_all plainByte (map lowerByte1 s)" using assms by (auto simp: list_all_iff plain_lower)
  then have "list_all ascii (map lowerByte1 s)" by (auto simp: list_all_iff plain_ascii)
  then have "lowercase u (map lowerByte1 s) = map lowerByte1 (map lowerByte1 s)" by (rule lowercase_ascii)
  moreover have "map lowerByte1 (map lowerByte1 s) = map lowerByte1 s"
    using assms by (auto simp: list_all_iff lower_lower)
  ultimately show "lowercase u (lowercase u s) = lowercase u s" by (simp add: l)
qed

lemma plain_absent: "list_all plainByte s \<Longrightarrow> c \<in> set special \<Longrightarrow> c \<notin> set s"
  using plainByte_special by (auto simp: list_all_iff)

lemma digits_absent: "list_all asciiNum s \<Longrightarrow> c \<in> set special \<Longrightarrow> c \<notin> set s"
  using plain_absent [of s c] by (simp add: list_all_iff plainByte_def)

definition authorityOf :: "string \<Rightarrow> string \<Rightarrow> string" where
  "authorityOf host port = host @ portSuffix port"

lemma authority_absent:
  assumes "list_all plainByte host" "list_all asciiNum port" "c \<in> set special" "c \<noteq> CHR '':''"
  shows "c \<notin> set (authorityOf host port)"
  using plain_absent [OF assms(1)] digits_absent [OF assms(2)] assms(3,4) by (auto simp: authorityOf_def portSuffix_def)

lemma authority_unescaped:
  assumes "list_all plainByte host" "list_all asciiNum port"
  shows "unescapeURL EncodeHost (authorityOf host port) = Some (authorityOf host port)"
    "escapeURL EncodeHost (authorityOf host port) = authorityOf host port"
proof -
  have "c \<noteq> CHR ''%'' \<and> \<not> shouldEscape c EncodeHost" if c: "c \<in> set (authorityOf host port)" for c
  proof -
    have "c \<noteq> CHR ''%''" using authority_absent [OF assms, of "CHR ''%''"] c by (auto simp: special_def)
    moreover consider "plainByte c" | "asciiNum c" | "c = CHR '':''"
      using c assms by (auto simp: authorityOf_def portSuffix_def list_all_iff split: if_splits)
    then have "\<not> shouldEscape c EncodeHost"
    proof cases
      case 1
      then show ?thesis by (rule plain_unescaped)
    qed (simp_all add: shouldEscape_def)
    ultimately show ?thesis by blast
  qed
  then show "unescapeURL EncodeHost (authorityOf host port) = Some (authorityOf host port)"
    "escapeURL EncodeHost (authorityOf host port) = authorityOf host port"
    using unescape_host escape_host by blast+
qed

lemma rcut_authority:
  assumes "list_all plainByte host" "list_all asciiNum port"
  shows "rcut (CHR '':'') (authorityOf host port) = (if port = '''' then None else Some (host, port))"
  using plain_absent [OF assms(1), of "CHR '':''"] digits_absent [OF assms(2), of "CHR '':''"]
  by (simp add: special_def authorityOf_def portSuffix_def rcut_absent rcut_last)

lemma not_bracketed: "c \<notin> set s \<Longrightarrow> \<not> prefixOf [c] s"
  by (cases s) auto

lemma parseHost_authority:
  assumes "list_all plainByte host" "list_all asciiNum port"
  shows "parseHost (authorityOf host port) = Some (authorityOf host port)"
  using not_bracketed [OF authority_absent [OF assms, of "CHR ''[''", unfolded special_def, simplified]] rcut_authority [OF assms] authority_unescaped(1) [OF assms] assms(2)
  by (cases "port = []") (simp_all add: parseHost_def validOptionalPort_def)

lemma splitHostPort_authority:
  assumes "list_all plainByte host" "list_all asciiNum port"
  shows "splitHostPort (authorityOf host port) = (host, port)"
proof -
  have "\<not> prefixOf ''['' host" using not_bracketed plain_absent [OF assms(1), of "CHR ''[''"] by (simp add: special_def)
  then show ?thesis
    using rcut_authority [OF assms] assms(2)
    by (simp add: splitHostPort_def validOptionalPort_def) (simp add: authorityOf_def portSuffix_def)
qed


section \<open>Parsing a canonical URL\<close>

definition siteURL :: "string \<Rightarrow> string \<Rightarrow> string \<Rightarrow> string" where
  "siteURL scheme host port = scheme @ ''://'' @ authorityOf host port"

definition site :: "string \<Rightarrow> string \<Rightarrow> string \<Rightarrow> URL" where
  "site scheme host port = emptyURL\<lparr>ur_Scheme := scheme, ur_Host := authorityOf host port\<rparr>"

lemma authority_bytes:
  assumes "list_all plainByte host" "list_all asciiNum port" "c \<in> set (authorityOf host port)"
  shows "45 \<le> (of_char c :: nat) \<and> (of_char c :: nat) < 127"
proof -
  consider "plainByte c" | "asciiNum c" | "c = CHR '':''"
    using assms by (auto simp: authorityOf_def portSuffix_def list_all_iff split: if_splits)
  then show ?thesis
  proof cases
    case 1
    then show ?thesis using plainByte_range by blast
  next
    case 2
    then show ?thesis using asciiNum_range [of c] by simp
  qed simp
qed

lemma whole_authority: "CHR ''/'' \<notin> set s \<Longrightarrow> takeWhile (\<lambda>c. c \<noteq> CHR ''/'') s = s \<and> dropWhile (\<lambda>c. c \<noteq> CHR ''/'') s = []"
  by (auto simp: takeWhile_eq_all_conv dropWhile_eq_Nil_conv simp del: dropWhile_eq_Nil_conv takeWhile_eq_all_conv
      intro: takeWhile_eq_all_conv [THEN iffD2] dropWhile_eq_Nil_conv [THEN iffD2])

lemma parse_authority:
  assumes "list_all plainByte host" "list_all asciiNum port"
  shows "parseAuthority (authorityOf host port) = Some (None, authorityOf host port)"
proof -
  have "CHR ''@'' \<notin> set (authorityOf host port)" using authority_absent [OF assms, of "CHR ''@''"] by (simp add: special_def)
  then show ?thesis by (simp add: parseAuthority_def rcut_absent parseHost_authority [OF assms])
qed

lemma ParseURL_site:
  assumes s: "scheme = ''http'' \<or> scheme = ''https''" and h: "list_all plainByte host" "list_all asciiNum port"
  shows "ParseURL (siteURL scheme host port) = Some (site scheme host port)"
proof -
  let ?a = "authorityOf host port"
  have n: "CHR ''#'' \<notin> set ?a" "CHR ''?'' \<notin> set ?a" "CHR ''/'' \<notin> set ?a" "CHR ''@'' \<notin> set ?a"
    using authority_absent [OF h] by (simp_all add: special_def)
  have ctl: "\<not> list_ex (\<lambda>c. (of_char c :: nat) < 32 \<or> (of_char c :: nat) = 127) (siteURL scheme host port)"
  proof -
    have "\<not> ((of_char c :: nat) < 32 \<or> (of_char c :: nat) = 127)" if "c \<in> set ?a" for c
      using authority_bytes [OF h that] by linarith
    then show ?thesis using s by (auto simp: siteURL_def list_ex_iff)
  qed
  have cutf: "cut (CHR ''#'') (siteURL scheme host port) = (siteURL scheme host port, None)"
    by (rule cut_absent) (use s n(1) in \<open>auto simp: siteURL_def\<close>)
  have sch: "getScheme (siteURL scheme host port) [] (siteURL scheme host port) = Some (scheme, ''//'' @ ?a)"
    using s by (auto simp: siteURL_def asciiAlpha_def asciiNum_def)
  have q: "CHR ''?'' \<notin> set (''//'' @ ?a)" using n(2) by simp
  have last: "last (''//'' @ ?a) \<noteq> CHR ''?''" using q by (metis append_is_Nil_conv last_in_set list.distinct(1))
  have cq: "cutQuery (''//'' @ ?a) u = (''//'' @ ?a, u\<lparr>ur_RawQuery := ''''\<rparr>)" for u
    unfolding cutQuery_def using cut_absent [OF q] last by simp
  have p: "prefixOf ''/'' (''//'' @ ?a)" "prefixOf ''//'' (''//'' @ ?a)" "drop 2 (''//'' @ ?a) = ?a" "scheme \<noteq> ''''" using s by auto
  have sp: "setPath '''' v = Some (v\<lparr>ur_Path := '''', ur_RawPath := ''''\<rparr>)" for v by (simp add: setPath_def)
  have hier: "parseHierarchy False (''//'' @ ?a) u = Some (u\<lparr>ur_User := None, ur_Host := ?a, ur_Path := '''', ur_RawPath := ''''\<rparr>)"
    if u: "ur_Scheme u = scheme" for u
    unfolding parseHierarchy_def Let_def p(3) u conjunct1 [OF whole_authority [OF n(3)]] conjunct2 [OF whole_authority [OF n(3)]]
      parse_authority [OF h]
    using p(1,2,4) by (simp only: sp option.case prod.case if_True simp_thms if_False not_True_eq_False)
  have "siteURL scheme host port \<noteq> ''*''" using s by (auto simp: siteURL_def)
  moreover have "lowerASCII scheme = scheme" using s by (auto simp: lowerASCII_def)
  ultimately have "parseNoFragment False (siteURL scheme host port) = Some (site scheme host port)"
    unfolding parseNoFragment_def using ctl sch hier by (simp add: cq [simplified] site_def emptyURL_def)
  then show ?thesis by (simp add: ParseURL_def cutf)
qed


section \<open>Canonical URLs are canonical\<close>

lemma Port_digits: "list_all asciiNum (Port p)"
  by (auto simp: Port_def splitHostPort_def validOptionalPort_def Let_def split: option.splits prod.splits)

lemma site_parts:
  assumes "list_all plainByte host" "list_all asciiNum port"
  shows "Hostname (site scheme host port) = host" "Port (site scheme host port) = port"
  using splitHostPort_authority [OF assms] by (simp_all add: Hostname_def Port_def site_def)

lemma URLString_site:
  assumes "list_all plainByte host" "list_all asciiNum port"
  shows "URLString (site scheme host port) = siteURL scheme host port"
  using authority_unescaped(2) [OF assms] by (simp add: URLString_def site_def siteURL_def EscapedPath_def emptyURL_def)

definition keptPort :: "string \<Rightarrow> string \<Rightarrow> string" where
  "keptPort scheme port = (if defaultPort scheme port then '''' else port)"

lemma canonicalHost_plain:
  assumes "list_all plainByte (Hostname p)"
  shows "canonicalHost u p = authorityOf (lowercase u (Hostname p)) (keptPort (ur_Scheme p) (Port p))"
proof -
  have "CHR '':'' \<notin> set (lowercase u (Hostname p))"
    using plain_absent [OF lowercase_plain(2) [OF assms], of "CHR '':''"] lowercase_plain(1) [OF assms] by (simp add: special_def)
  then show ?thesis by (simp add: canonicalHost_def keptPort_def JoinHostPort_def authorityOf_def portSuffix_def Let_def)
qed

lemma keptPort_ok: "list_all asciiNum (keptPort scheme (Port p))" "keptPort scheme (keptPort scheme port) = keptPort scheme port"
  using Port_digits [of p] by (simp_all add: keptPort_def defaultPort_def)

lemma lower_schemes: "lowercase u ''http'' = ''http''" "lowercase u ''https'' = ''https''"
  by (subst lowercase_ascii; simp add: ascii_def lowerByte1_def)+

text \<open>What a canonical function returns for a plain host.\<close>

lemma site_canonical:
  assumes s: "scheme = ''http'' \<or> scheme = ''https''" and h: "list_all plainByte (Hostname p)" "ur_Scheme p = scheme" "lowercase u (Hostname p) \<noteq> ''''"
  defines "host \<equiv> lowercase u (Hostname p)" and "port \<equiv> keptPort scheme (Port p)"
  shows "dokployCanonicalBaseURL u (siteURL scheme host port) = Some (siteURL scheme host port)"
    "httpCanonicalBaseURL u (siteURL scheme host port) = Some (siteURL scheme host port)"
proof -
  have ok: "list_all plainByte host" "list_all asciiNum port"
    using lowercase_plain(1,2) [OF h(1)] keptPort_ok by (simp_all add: host_def port_def)
  have ne: "authorityOf host port \<noteq> ''''" "host \<noteq> ''''" using h(3) by (simp_all add: authorityOf_def host_def)
  have low: "lowercase u scheme = scheme" "lowercase u host = host"
    using s lower_schemes lowercase_plain(3) [OF h(1)] by (auto simp: host_def)
  have q: "ur_Scheme (site scheme host port) = scheme" "ur_Host (site scheme host port) = authorityOf host port"
      "ur_User (site scheme host port) = None" "ur_RawQuery (site scheme host port) = ''''" "ur_ForceQuery (site scheme host port) = False"
      "ur_Fragment (site scheme host port) = ''''" "ur_Path (site scheme host port) = ''''"
    by (simp_all add: site_def emptyURL_def)
  have c: "canonicalHost u (site scheme host port) = authorityOf host port"
    using canonicalHost_plain [of "site scheme host port" u] ok site_parts [OF ok] low(2) keptPort_ok(2) q(1)
    by (simp add: port_def)
  have same: "(site scheme host port)\<lparr>ur_Scheme := scheme\<rparr> = site scheme host port"
      "(site scheme host port)\<lparr>ur_Host := authorityOf host port, ur_Path := '''', ur_RawPath := ''''\<rparr> = site scheme host port"
    by (simp_all add: site_def emptyURL_def)
  have "scheme \<noteq> ''''" using s by auto
  then show "dokployCanonicalBaseURL u (siteURL scheme host port) = Some (siteURL scheme host port)"
    "httpCanonicalBaseURL u (siteURL scheme host port) = Some (siteURL scheme host port)"
    unfolding dokployCanonicalBaseURL_def httpCanonicalBaseURL_def ParseURL_site [OF s ok] option.case Let_def q low same c URLString_site [OF ok]
      site_parts [OF ok]
    using s ne by auto
qed


text \<open>The URLs the canonical functions are idempotent on: the host name is not empty and plain.\<close>

definition plainURL :: "string \<Rightarrow> bool" where
  "plainURL raw \<longleftrightarrow> (case ParseURL raw of None \<Rightarrow> False
     | Some p \<Rightarrow> Hostname p \<noteq> '''' \<and> list_all plainByte (Hostname p) \<and> \<not> ur_ForceQuery p)"

lemma URLString_canonical:
  assumes "list_all plainByte (Hostname p)" and "ur_RawQuery p = ''''" and "\<not> ur_ForceQuery p"
  shows "URLString (p\<lparr>ur_Host := canonicalHost u p, ur_Path := '''', ur_RawPath := ''''\<rparr>) =
    siteURL (ur_Scheme p) (lowercase u (Hostname p)) (keptPort (ur_Scheme p) (Port p))"
proof -
  have "list_all plainByte (lowercase u (Hostname p))" using lowercase_plain(1,2) [OF assms(1)] by simp
  then show ?thesis
    using authority_unescaped(2) [OF _ keptPort_ok(1)] assms
    by (simp add: URLString_def EscapedPath_def siteURL_def canonicalHost_plain)
qed

lemma dokploy_SomeD:
  assumes "dokployCanonicalBaseURL u raw = Some url" and "ParseURL raw = Some p"
  shows "(ur_Scheme (p\<lparr>ur_Scheme := lowercase u (ur_Scheme p)\<rparr>) = ''http'' \<or> ur_Scheme (p\<lparr>ur_Scheme := lowercase u (ur_Scheme p)\<rparr>) = ''https'') \<and>
    ur_RawQuery p = '''' \<and>
    url = URLString (p\<lparr>ur_Scheme := lowercase u (ur_Scheme p), ur_Host := canonicalHost u (p\<lparr>ur_Scheme := lowercase u (ur_Scheme p)\<rparr>),
      ur_Path := '''', ur_RawPath := ''''\<rparr>)"
  using assms by (simp add: dokployCanonicalBaseURL_def Let_def split: if_splits)

lemma http_SomeD:
  assumes "httpCanonicalBaseURL u raw = Some url" and "ParseURL raw = Some p"
  shows "(ur_Scheme (p\<lparr>ur_Scheme := lowercase u (ur_Scheme p)\<rparr>) = ''http'' \<or> ur_Scheme (p\<lparr>ur_Scheme := lowercase u (ur_Scheme p)\<rparr>) = ''https'') \<and>
    ur_RawQuery p = '''' \<and>
    url = URLString (p\<lparr>ur_Scheme := lowercase u (ur_Scheme p), ur_Host := canonicalHost u (p\<lparr>ur_Scheme := lowercase u (ur_Scheme p)\<rparr>),
      ur_Path := '''', ur_RawPath := ''''\<rparr>)"
  using assms lower_schemes [of u] by (auto simp: httpCanonicalBaseURL_def Let_def split: if_splits)

lemma canonical_idempotent_plain:
  assumes "plainURL raw"
  shows "dokployCanonicalBaseURL u raw = Some url \<Longrightarrow> dokployCanonicalBaseURL u url = Some url"
    "httpCanonicalBaseURL u raw = Some url \<Longrightarrow> httpCanonicalBaseURL u url = Some url"
proof -
  obtain p0 where p0: "ParseURL raw = Some p0" "Hostname p0 \<noteq> ''''" "list_all plainByte (Hostname p0)" "\<not> ur_ForceQuery p0"
    using assms by (auto simp: plainURL_def split: option.splits)
  define p where "p = p0\<lparr>ur_Scheme := lowercase u (ur_Scheme p0)\<rparr>"
  have h: "Hostname p = Hostname p0" by (simp add: p_def Hostname_def)
  have ne: "lowercase u (Hostname p) \<noteq> ''''" using p0 lowercase_plain(1) [OF p0(3), of u] h by simp
  have url: "url = siteURL (ur_Scheme p) (lowercase u (Hostname p)) (keptPort (ur_Scheme p) (Port p)) \<and>
      (ur_Scheme p = ''http'' \<or> ur_Scheme p = ''https'')"
    if "dokployCanonicalBaseURL u raw = Some url \<or> httpCanonicalBaseURL u raw = Some url"
  proof -
    have pl: "list_all plainByte (Hostname p)" using h p0(3) by simp
    have f: "(ur_Scheme p = ''http'' \<or> ur_Scheme p = ''https'') \<and> ur_RawQuery p0 = '''' \<and>
        url = URLString (p\<lparr>ur_Host := canonicalHost u p, ur_Path := '''', ur_RawPath := ''''\<rparr>)"
      using that dokploy_SomeD [OF _ p0(1)] http_SomeD [OF _ p0(1)] unfolding p_def by blast
    show ?thesis using URLString_canonical [OF pl, of u] p0(4) f by (simp add: p_def)
  qed
  have pl: "list_all plainByte (Hostname p)" using h p0(3) by simp
  show "dokployCanonicalBaseURL u raw = Some url \<Longrightarrow> dokployCanonicalBaseURL u url = Some url"
    using url site_canonical(1) [OF _ pl refl ne] by blast
  show "httpCanonicalBaseURL u raw = Some url \<Longrightarrow> httpCanonicalBaseURL u url = Some url"
    using url site_canonical(2) [OF _ pl refl ne] by blast
qed


text \<open>
  The host of an IPv6 address is written without its brackets when the URL has no port of its own
  (\<^verbatim>\<open>parsed.Host = hostname\<close>, where \<^verbatim>\<open>Hostname()\<close> has removed the brackets): the result names another host and port, and
  its own canonical form is another URL again.
\<close>

lemma lowercase_ipv6:
  "lowercase u ''http'' = ''http''" "lowercase u ''::1'' = ''::1''" "lowercase u '':'' = '':''"
  by (simp_all add: lowercase_ascii ascii_def lowerByte1_def char_less_eq del: lowercase.simps)

definition ipv6_url :: "string \<Rightarrow> URL" where
  "ipv6_url host = emptyURL\<lparr>ur_Scheme := ''http'', ur_Host := host\<rparr>"

lemma ipv6_parses:
  "ParseURL ''http://[::1]'' = Some (ipv6_url ''[::1]'')" "ParseURL ''http://::1'' = Some (ipv6_url ''::1'')"
  "Hostname (ipv6_url ''[::1]'') = ''::1''" "Port (ipv6_url ''[::1]'') = ''''"
  "Hostname (ipv6_url ''::1'') = '':''" "Port (ipv6_url ''::1'') = ''1''"
  "URLString (ipv6_url ''::1'') = ''http://::1''" "URLString (ipv6_url ''[:]:1'') = ''http://[:]:1''"
  by code_simp+

lemma ipv6_fields [simp]:
  "ur_Scheme (ipv6_url h) = ''http''" "ur_Host (ipv6_url h) = h" "ur_User (ipv6_url h) = None" "ur_RawQuery (ipv6_url h) = ''''"
  "\<not> ur_ForceQuery (ipv6_url h)" "ur_Fragment (ipv6_url h) = ''''" "ur_Path (ipv6_url h) = ''''"
  "(ipv6_url h)\<lparr>ur_Scheme := ''http''\<rparr> = ipv6_url h"
  "(ipv6_url h)\<lparr>ur_Host := h', ur_Path := '''', ur_RawPath := ''''\<rparr> = ipv6_url h'"
  by (simp_all add: ipv6_url_def emptyURL_def)

lemma ipv6_hosts:
  "canonicalHost u (ipv6_url ''[::1]'') = ''::1''" "canonicalHost u (ipv6_url ''::1'') = ''[:]:1''"
  by (simp_all add: canonicalHost_def ipv6_parses lowercase_ipv6 defaultPort_def JoinHostPort_def del: lowercase.simps)

theorem ipv6_brackets_lost:
  "dokployCanonicalBaseURL u ''http://[::1]'' = Some ''http://::1'' \<and>
   dokployCanonicalBaseURL u ''http://::1'' = Some ''http://[:]:1'' \<and>
   httpCanonicalBaseURL u ''http://[::1]'' = Some ''http://::1'' \<and>
   httpCanonicalBaseURL u ''http://::1'' = Some ''http://[:]:1''"
  by (simp add: dokployCanonicalBaseURL_def httpCanonicalBaseURL_def ipv6_parses lowercase_ipv6 ipv6_hosts Let_def del: lowercase.simps)

end
