(* ===== verification/Ingress_Theorems.thy ===== *)
theory Ingress_Theorems
  imports Sample_Data Redact Route_Config Template Dokploy Canonical_URL
begin

text \<open>
  The properties of the way in and of the pure parts: the webhook endpoint (\<^verbatim>\<open>internal/publichook\<close>), the providers'
  adapters, the compilation of targets, the route configuration, the templates of HTTP requests and the redaction of what
  is stored.
\<close>

section \<open>The webhook endpoint\<close>

text \<open>C19. An acknowledged webhook is stored: whenever the answer is an acceptance, the database holds an event with the answered
  ID and the identity of the request, the answer says duplicate exactly when that identity was stored before, and a
  duplicate changes no table.\<close>

theorem acknowledged_is_stored:
  assumes "inj uuid" and "durable_inv uuid db" and "ServeHTTP uuid sha p m ss at r db = (Accepted result, db')"
  shows "\<exists>deferred c. hookCommand sha p m ss at r = Inr (deferred, c) \<and>
    (\<exists>e\<in>set (db_events db'). ev_id e = ir_EventID result \<and> eventKey e = commandKey c) \<and>
    (ir_Duplicate result \<longleftrightarrow> commandKey c \<in> eventKey ` set (db_events db)) \<and>
    (ir_Duplicate result \<longrightarrow> db' = db\<lparr>db_uuids := Suc (db_uuids db)\<rparr>)"
  using ServeHTTP_accepted [OF assms] by blast

theorem acknowledged_is_stored_witness:
  "\<exists>e\<in>set (db_events db_pending). ev_id e = ''a''"
  using acknowledged_is_stored [OF inj_sample_uuid durable_inv_empty sample_served] by auto





text \<open>A refused webhook leaves no trace: whatever the status code, the database is unchanged.\<close>

theorem refused_changes_nothing:
  assumes "inj uuid" and "durable_inv uuid db" and "fst (ServeHTTP uuid sha p m ss at r db) = Rejected code text"
  shows "snd (ServeHTTP uuid sha p m ss at r db) = db"
  using ServeHTTP_rejected [OF assms(3,1,2)] .

theorem refused_changes_nothing_witness:
  "ServeHTTP sample_uuid sample_sha ''github'' sample_manager sample_sources 5000000 sample_request db_pending =
    (Rejected 404 ''not_found'', db_pending)"
proof -
  have r: "fst (ServeHTTP sample_uuid sample_sha ''github'' sample_manager sample_sources 5000000 sample_request db_pending) =
      Rejected 404 ''not_found''"
    by (simp add: ServeHTTP_def receive_def findSource_def SourceOf_def sample_sources_def)
  show ?thesis using refused_changes_nothing [OF inj_sample_uuid durable_pending r] r by (simp add: prod_eq_iff)
qed

text \<open>C21. Only authentic requests are accepted: an acceptance means that the provider's source was found and authenticated
  the headers and the complete body of at most two mebibytes, that the body was normalised by it, and that a supported
  GitLab event belongs to a configured repository.\<close>

theorem accepted_is_authentic:
  assumes "ServeHTTP uuid sha p m ss at r db = (Accepted result, db')"
  shows "\<exists>s body event incoming. findSource sha p ss r = Inr s \<and> wr_Body r = Some body \<and> length body \<le> 2 * 2 ^ 20 \<and>
    Authenticate (sc_adapter s) (wr_Headers r) body \<and> sourceNormalize s (wr_Headers r) body = Inr (event, incoming) \<and>
    (p = ''gitlab'' \<and> in_Supported incoming \<longrightarrow> ce_Repository event \<in> snd ` set (sc_repositories s))"
proof -
  obtain event incoming body where rc: "receive sha p ss r = Inr (event, incoming, body)"
    using assms receive_refusal [of sha p ss r] by (cases "receive sha p ss r") (auto simp: ServeHTTP_def refusal_def)
  obtain s where s: "findSource sha p ss r = Inr s" "wr_Body r = Some body" "length body \<le> maxBodyBytes"
      "Authenticate (sc_adapter s) (wr_Headers r) body" "sourceNormalize s (wr_Headers r) body = Inr (event, incoming)"
      "p = ''gitlab'' \<and> in_Supported incoming \<longrightarrow> ce_Repository event \<noteq> ''''"
    using receive_authentic [OF rc] by blast
  have "ce_Repository event \<noteq> '''' \<Longrightarrow> ce_Repository event \<in> snd ` set (sc_repositories s)"
    using s(5) by (auto simp: sourceNormalize_def split: sum.splits option.splits dest!: map_of_SomeD intro: rev_image_eqI)
  then show ?thesis using s unfolding maxBodyBytes_def by blast
qed

theorem accepted_is_authentic_witness:
  "\<exists>s body. findSource sample_sha ''gitlab'' sample_sources sample_request = Inr s \<and> wr_Body sample_request = Some body \<and>
    Authenticate (sc_adapter s) (wr_Headers sample_request) body"
  using accepted_is_authentic [OF sample_served] by blast

text \<open>C22. The delivery identity tells deliveries apart: unless SHA-256 collides on the two framed texts, equal identities
  mean the same provider and source, and the same delivery ID or, without one, the same event fields and body. No field
  can be shifted into another, because every field is framed with its length.\<close>

theorem identity_faithful:
  assumes "inj_on sha {frameFields (identityFields e i body), frameFields (identityFields e' i' body')}"
    and "short_fields (identityFields e i body)" "short_fields (identityFields e' i' body')"
  shows "deliveryIdentity sha e i body = deliveryIdentity sha e' i' body' \<longleftrightarrow>
    ce_Provider e = ce_Provider e' \<and> ce_Source e = ce_Source e' \<and> in_DeliveryID i = in_DeliveryID i' \<and>
    (in_DeliveryID i = '''' \<longrightarrow> body = body' \<and> in_RepositoryExternalID i = in_RepositoryExternalID i' \<and>
       ce_Event e = ce_Event e' \<and> ce_Ref e = ce_Ref e' \<and> ce_Status e = ce_Status e' \<and> ce_Revision e = ce_Revision e' \<and>
       ce_ExternalID e = ce_ExternalID e' \<and> ce_Trigger e = ce_Trigger e')"
proof -
  have "deliveryIdentity sha e i body = deliveryIdentity sha e' i' body' \<longleftrightarrow> identityFields e i body = identityFields e' i' body'"
    using deliveryIdentity_inject [OF assms] unfolding deliveryIdentity_def by auto
  then show ?thesis by (auto simp: identityFields_def)
qed

theorem identity_faithful_witness:
  "deliveryIdentity sample_sha sample_event sample_incoming ''x'' \<noteq>
   deliveryIdentity sample_sha sample_event (sample_incoming\<lparr>in_DeliveryID := ''u12''\<rparr>) ''x''"
proof -
  have "sample_sha (frameFields (identityFields sample_event sample_incoming ''x'')) \<noteq>
      sample_sha (frameFields (identityFields sample_event (sample_incoming\<lparr>in_DeliveryID := ''u12''\<rparr>) ''x''))" by code_simp
  then have i: "inj_on sample_sha {frameFields (identityFields sample_event sample_incoming ''x''),
      frameFields (identityFields sample_event (sample_incoming\<lparr>in_DeliveryID := ''u12''\<rparr>) ''x'')}"
    by (auto simp: inj_on_def)
  have s: "short_fields (identityFields sample_event sample_incoming ''x'')"
      "short_fields (identityFields sample_event (sample_incoming\<lparr>in_DeliveryID := ''u12''\<rparr>) ''x'')"
    by (simp_all add: short_fields_def identityFields_def sample_event_def sample_incoming_def)
  show ?thesis using identity_faithful [OF i s] by (simp add: sample_incoming_def)
qed

text \<open>A GitHub request is authentic exactly when its signature header is the lower-case hexadecimal HMAC of the body
  under the configured secret; no other spelling of the digest, no truncated one and no empty secret passes.\<close>

theorem github_signature:
  assumes "length (hmac secret body) = 32"
  shows "gitHubAuthenticate hmac secret headers body \<longleftrightarrow>
    secret \<noteq> '''' \<and> headerGet headers ''X-Hub-Signature-256'' = ''sha256='' @ EncodeToString (hmac secret body)"
  using assms by (rule gitHubAuthenticate_iff)

theorem github_signature_witness:
  "\<not> gitHubAuthenticate (\<lambda>s b. replicate 32 (CHR ''k'')) ''s'' [(''X-Hub-Signature-256'', [''sha256=6B''])] ''x''"
proof -
  have "headerGet [(''X-Hub-Signature-256'', [''sha256=6B''])] ''X-Hub-Signature-256'' \<noteq>
      ''sha256='' @ EncodeToString (replicate 32 (CHR ''k''))" by code_simp
  then show ?thesis using github_signature [of "\<lambda>s b. replicate 32 (CHR ''k'')" "''s''" "''x''"] by simp
qed

section \<open>Targets\<close>

text \<open>Compiling and resolving are inverse: in every compiled generation each target's own snapshot, as it is written into
  the deliveries of the target, resolves to that target and is compatible, and its poll interval is at least a
  millisecond.\<close>

theorem compiled_targets_resolve:
  assumes "compileTargets sha canon c (fst (pollingSettings i0 t0)) (snd (pollingSettings i0 t0)) cfgs = Some (gn_targets g)"
    and "canonical_ok canon c (set cfgs)" and "\<forall>cfg\<in>set cfgs. target_config_ok cfg"
    and "map_of (gn_targets g) i = Some t"
  shows "tg_ID t = i \<and> ResolveTarget sha canon g i (Some (tg_Snapshot t)) = (Some t, BindingCompatible) \<and>
    millisecond \<le> tg_PollInterval t \<and> 0 < tg_PollTimeout t"
  using compiled_bindings_ok [OF assms(1-3)] assms(4) unfolding bindings_ok_def by blast

theorem compiled_targets_resolve_witness:
  "ResolveTarget sample_sha sample_canon sample_generation ''web'' (Some (tg_Snapshot sample_target)) = (Some sample_target, BindingCompatible)"
proof -
  have c: "compileTargets sample_sha sample_canon sample_connections (fst (pollingSettings second (30 * minute)))
      (snd (pollingSettings second (30 * minute))) [sample_config] = Some (gn_targets sample_generation)"
    by (simp add: compileTarget_def sample_config_def sample_connections_def sample_generation_def sample_target_def
        pollingSettings_def time_defs)
  have k: "canonical_ok sample_canon sample_connections (set [sample_config])"
    by (simp add: canonical_ok_def sample_canon_def sample_connections_def)
  have t: "\<forall>cfg\<in>set [sample_config]. target_config_ok cfg" by (simp add: target_config_ok_def sample_config_def)
  show ?thesis using compiled_targets_resolve [OF c k t, of "''web''" sample_target] by (simp add: sample_generation_def)
qed

text \<open>The fields that are hashed into the binding of a snapshot, and into the binding with its tunnel.\<close>

definition bindingFields :: "canonical \<Rightarrow> targetSnapshot \<Rightarrow> string list option" where
  "bindingFields canon h =
     (let v = decimal (ts_BindingVersion h); c = ts_Connection h in
      if ts_Type h = ''dokploy'' then
        if ts_ResourceType h = '''' \<or> ts_ResourceID h = '''' \<or> cs_BaseURL c = '''' then None
        else map_option (\<lambda>url. [v, ''dokploy'', ts_ResourceType h, url, ts_ResourceID h]) (dokployURL canon (cs_BaseURL c))
      else if ts_Type h = ''http'' then
        (case ts_HTTP h of
           None \<Rightarrow> None
         | Some request \<Rightarrow>
             if cs_ID c = '''' \<or> cs_BaseURL c = '''' then None
             else map_option (\<lambda>url. [v, ''http'', cs_ID c, url, marshalHTTPTarget request]) (httpURL canon (cs_BaseURL c)))
      else if ts_Type h = ''forward'' then
        (case ts_Forward h of
           None \<Rightarrow> None
         | Some f \<Rightarrow> map_option (\<lambda>url. [v, ''forward'', marshalForwardTarget (f\<lparr>ft_URL := url\<rparr>)]) (forwardURL canon (ft_URL f)))
      else None)"

definition tunnelFields :: "(string \<Rightarrow> string) \<Rightarrow> string list \<Rightarrow> sshSnapshot \<Rightarrow> string list" where
  "tunnelFields sha fs s = [decimal 1, ''ssh'', bindingFingerprintFields sha fs, marshalSSH s, '''']"

definition hashedFields :: "(string \<Rightarrow> string) \<Rightarrow> canonical \<Rightarrow> targetSnapshot \<Rightarrow> string list set" where
  "hashedFields sha canon h =
     (case bindingFields canon h of
        None \<Rightarrow> {}
      | Some fs \<Rightarrow> insert fs (case ts_SSH h of None \<Rightarrow> {} | Some s \<Rightarrow> {tunnelFields sha fs s}))"

lemma snapshotFingerprint_fields:
  "snapshotFingerprint sha canon (ts_BindingVersion h) h = map_option (bindingFingerprintFields sha) (bindingFields canon h)"
  by (simp add: snapshotFingerprint_def bindingFields_def bindingFingerprint_def httpBindingFingerprint_def
      forwardBindingFingerprint_def option.map_comp comp_def Let_def split: option.split)

lemma tunnelBinding_fields:
  "tunnelBindingFingerprint sha (bindingFingerprintFields sha fs) s =
     bindingFingerprintFields sha (case s of None \<Rightarrow> fs | Some t \<Rightarrow> tunnelFields sha fs t)"
  by (simp add: tunnelBindingFingerprint_def bindingFingerprint_def tunnelFields_def split: option.split)

lemma bindingFields_type: "bindingFields canon h = Some fs \<Longrightarrow> fs ! 1 = ts_Type h \<and> ts_Type h \<noteq> ''ssh''"
  by (auto simp: bindingFields_def Let_def split: if_splits option.splits)

lemma tunnelFields_inject: "tunnelFields sha fs s = tunnelFields sha fs' s' \<Longrightarrow>
    bindingFingerprintFields sha fs = bindingFingerprintFields sha fs' \<and> marshalSSH s = marshalSSH s'"
  by (simp add: tunnelFields_def)

lemma fields_inject:
  assumes "inj_on sha (frameFields ` T)" and "\<forall>fs\<in>T. short_fields fs" and "fs \<in> T" "fs' \<in> T"
    and "bindingFingerprintFields sha fs = bindingFingerprintFields sha fs'"
  shows "fs = fs'"
proof (rule digest_inject)
  show "inj_on sha {frameFields fs, frameFields fs'}" by (rule inj_on_subset [OF assms(1)]) (use assms(3,4) in auto)
qed (use assms in \<open>auto simp: bindingFingerprintFields_def\<close>)

lemma same_fields:
  assumes hash: "inj_on sha (frameFields ` (hashedFields sha canon h \<union> hashedFields sha canon h'))"
    and short: "\<forall>fs\<in>hashedFields sha canon h \<union> hashedFields sha canon h'. short_fields fs"
    and f: "bindingFields canon h = Some fs" "bindingFields canon h' = Some fs'"
    and eq: "tunnelBindingFingerprint sha (bindingFingerprintFields sha fs) (ts_SSH h) =
      tunnelBindingFingerprint sha (bindingFingerprintFields sha fs') (ts_SSH h')"
  shows "fs = fs' \<and> map_option marshalSSH (ts_SSH h) = map_option marshalSSH (ts_SSH h')"
proof -
  let ?T = "hashedFields sha canon h \<union> hashedFields sha canon h'"
  let ?top = "\<lambda>fs s. case s of None \<Rightarrow> fs | Some t \<Rightarrow> tunnelFields sha fs t"
  have m: "fs \<in> ?T" "fs' \<in> ?T" "?top fs (ts_SSH h) \<in> ?T" "?top fs' (ts_SSH h') \<in> ?T"
    using f by (simp_all add: hashedFields_def split: option.split)
  have top: "?top fs (ts_SSH h) = ?top fs' (ts_SSH h')"
    by (rule fields_inject [OF hash short m(3,4)]) (use eq in \<open>simp add: tunnelBinding_fields\<close>)
  have ssh: "tunnelFields sha gs s ! 1 = ''ssh''" for gs s by (simp add: tunnelFields_def)
  show ?thesis
  proof (cases "ts_SSH h"; cases "ts_SSH h'")
    fix s s' assume s: "ts_SSH h = Some s" "ts_SSH h' = Some s'"
    then have "bindingFingerprintFields sha fs = bindingFingerprintFields sha fs' \<and> marshalSSH s = marshalSSH s'"
      using top by (intro tunnelFields_inject) simp
    then show ?thesis using s fields_inject [OF hash short m(1,2)] by simp
  qed (use top ssh bindingFields_type [OF f(1)] bindingFields_type [OF f(2)] in \<open>auto dest: arg_cong [of _ _ "\<lambda>xs. xs ! 1"]\<close>)
qed

text \<open>C25. A snapshot that is called compatible with a target of the configuration names the same resource as the target does now,
  through the same tunnel: for Dokploy the same resource at the same canonical URL, for HTTP the same connection, canonical URL and
  request, for a forward target the same destination and mode (requests, destinations and tunnels are compared as the JSON texts
  that are hashed). The hypotheses are that the configuration resolves its own snapshots (\<open>bindings_ok\<close>), that SHA-256 does not
  collide on the framed fields of these two snapshots, and that none of the fields is 2 to the 64 bytes or longer.\<close>

theorem compatible_same_resource:
  assumes ok: "bindings_ok sha canon g"
    and r: "ResolveTarget sha canon g i (Some (SnapshotDoc h)) = (Some t, BindingCompatible)" and t: "tg_Snapshot t = SnapshotDoc now"
    and hash: "inj_on sha (frameFields ` (hashedFields sha canon h \<union> hashedFields sha canon now))"
    and short: "\<forall>fs\<in>hashedFields sha canon h \<union> hashedFields sha canon now. short_fields fs"
  shows "ts_ID h = ts_ID now \<and> ts_Type h = ts_Type now \<and> ts_Type h \<in> {''dokploy'', ''http'', ''forward''} \<and>
    map_option marshalSSH (ts_SSH h) = map_option marshalSSH (ts_SSH now) \<and>
    (ts_Type h = ''dokploy'' \<longrightarrow> ts_ResourceType h = ts_ResourceType now \<and> ts_ResourceID h = ts_ResourceID now \<and>
       dokployURL canon (cs_BaseURL (ts_Connection h)) = dokployURL canon (cs_BaseURL (ts_Connection now))) \<and>
    (ts_Type h = ''http'' \<longrightarrow> cs_ID (ts_Connection h) = cs_ID (ts_Connection now) \<and>
       httpURL canon (cs_BaseURL (ts_Connection h)) = httpURL canon (cs_BaseURL (ts_Connection now)) \<and>
       map_option marshalHTTPTarget (ts_HTTP h) = map_option marshalHTTPTarget (ts_HTTP now)) \<and>
    (ts_Type h = ''forward'' \<longrightarrow> (\<exists>f f' url url'. ts_Forward h = Some f \<and> ts_Forward now = Some f' \<and>
       forwardURL canon (ft_URL f) = Some url \<and> forwardURL canon (ft_URL f') = Some url' \<and>
       marshalForwardTarget (f\<lparr>ft_URL := url\<rparr>) = marshalForwardTarget (f'\<lparr>ft_URL := url'\<rparr>)))"
proof -
  have l: "map_of (gn_targets g) i = Some t" using r by (auto simp: ResolveTarget_def split: option.splits if_splits)
  have now: "ResolveTarget sha canon g i (Some (SnapshotDoc now)) = (Some t, BindingCompatible)"
    using ok l t unfolding bindings_ok_def by metis
  have fields: "ts_ID x = i \<and> ts_Type x = tg_Type t \<and> (\<exists>fs. bindingFields canon x = Some fs \<and>
      tunnelBindingFingerprint sha (bindingFingerprintFields sha fs) (ts_SSH x) = tg_Fingerprint t)"
    if "ResolveTarget sha canon g i (Some (SnapshotDoc x)) = (Some t, BindingCompatible)" for x
    using that l by (auto simp: ResolveTarget_def snapshotFingerprint_fields split: option.splits if_splits)
  obtain fs fs' where f: "bindingFields canon h = Some fs" "bindingFields canon now = Some fs'"
    and e: "tunnelBindingFingerprint sha (bindingFingerprintFields sha fs) (ts_SSH h) =
      tunnelBindingFingerprint sha (bindingFingerprintFields sha fs') (ts_SSH now)"
    using fields [OF r] fields [OF now] by metis
  have s: "fs = fs'" "map_option marshalSSH (ts_SSH h) = map_option marshalSSH (ts_SSH now)"
    using same_fields [OF hash short f e] by simp_all
  have ty: "ts_ID h = ts_ID now" "ts_Type h = ts_Type now" using fields [OF r] fields [OF now] by simp_all
  have k: "ts_Type h \<in> {''dokploy'', ''http'', ''forward''}"
    using f(1) by (auto simp: bindingFields_def Let_def split: if_splits)
  show ?thesis using f s ty k unfolding bindingFields_def Let_def
    by (auto split: if_splits option.splits)
qed

theorem compatible_same_resource_witness:
  "\<exists>h. tg_Snapshot sample_target = SnapshotDoc h \<and> ts_Type h \<in> {''dokploy'', ''http'', ''forward''} \<and>
     ResolveTarget sample_sha sample_canon sample_generation ''web'' (Some (SnapshotDoc h)) = (Some sample_target, BindingCompatible)"
proof -
  obtain h where h: "tg_Snapshot sample_target = SnapshotDoc h" "ts_SSH h = None"
      "bindingFields sample_canon h = Some [decimal 2, ''dokploy'', ''compose'', ''https://d'', ''c1'']"
  proof
    let ?h = "fst (dokployTarget sample_sha second (30 * minute) sample_config ''https://d'')"
    show "tg_Snapshot sample_target = SnapshotDoc ?h" "ts_SSH ?h = None"
        "bindingFields sample_canon ?h = Some [decimal 2, ''dokploy'', ''compose'', ''https://d'', ''c1'']"
      by (simp_all add: sample_target_def withTunnel_def targetTunnel_def dokployTarget_def base_simps sample_config_def sample_connections_def
          bindingFields_def sample_canon_def bindingVersion_def Let_def)
  qed
  have one: "hashedFields sample_sha sample_canon h = {[decimal 2, ''dokploy'', ''compose'', ''https://d'', ''c1'']}"
    by (simp add: hashedFields_def h)
  have short: "\<forall>fs\<in>hashedFields sample_sha sample_canon h \<union> hashedFields sample_sha sample_canon h. short_fields fs"
    by (simp add: one short_fields_def decimal_def decimalNat.simps)
  have r: "ResolveTarget sample_sha sample_canon sample_generation ''web'' (Some (SnapshotDoc h)) = (Some sample_target, BindingCompatible)"
    using sample_resolved h(1) by simp
  have "ts_Type h \<in> {''dokploy'', ''http'', ''forward''}"
    using compatible_same_resource [OF sample_bindings r h(1) _ short] by (simp add: one)
  then show ?thesis using h(1) r by blast
qed

text \<open>C31. The canonical base URL of a connection is stable: on a URL with a DNS name or an IPv4 address as its host, canonicalising
  the result of either function gives the same URL again, so a stored snapshot of a target hashes to the fingerprint it
  was compiled with. (On an IPv6 address without a port of its own it is not: \<open>ipv6_brackets_lost\<close>.)\<close>

theorem canonical_url_idempotent:
  assumes "plainURL raw"
  shows "(dokployCanonicalBaseURL u raw = Some url \<longrightarrow> dokployCanonicalBaseURL u url = Some url) \<and>
    (httpCanonicalBaseURL u raw = Some url \<longrightarrow> httpCanonicalBaseURL u url = Some url) \<and>
    dokployCanonicalBaseURL u ''http://[::1]'' = Some ''http://::1'' \<and>
    dokployCanonicalBaseURL u ''http://::1'' = Some ''http://[:]:1''"
  using canonical_idempotent_plain [OF assms] ipv6_brackets_lost by blast

theorem canonical_url_idempotent_witness:
  "dokployCanonicalBaseURL sample_unicode ''HTTP://Deploy.X:80/'' = Some ''http://deploy.x'' \<and>
   dokployCanonicalBaseURL sample_unicode ''http://deploy.x'' = Some ''http://deploy.x''"
proof -
  have p: "plainURL ''HTTP://Deploy.X:80/''" by code_simp
  have c: "dokployCanonicalBaseURL sample_unicode ''HTTP://Deploy.X:80/'' = Some ''http://deploy.x''" by code_simp
  show ?thesis using canonical_url_idempotent [OF p, of sample_unicode] c by blast
qed

section \<open>Routes\<close>

text \<open>Two routes of the sample installation, accepted by the validator.\<close>

definition catch_route :: Route where
  "catch_route = sample_route\<lparr>rt_ID := ''catch'', rt_Priority := Some 20, rt_Match := sample_match\<lparr>rm_Ref := None\<rparr>\<rparr>"

definition sample_repositories :: "string \<Rightarrow> string set option" where
  "sample_repositories s = (if s = ''gl'' then Some {''app''} else None)"

lemma sample_accepted: "validateRoutes [catch_route, sample_route] sample_repositories {''web''} = Inr ()"
  by code_simp

theorem FirstCanonical_unique_best_witness:
  "route_priority sample_route < route_priority catch_route"
proof -
  have f: "FirstCanonical (canonicalizeRoutes [catch_route, sample_route]) sample_event = Some sample_route" by code_simp
  have x: "catch_route \<in> set [catch_route, sample_route]" "catch_route \<noteq> sample_route" "routeMatches (rt_Match catch_route) sample_event"
    by (simp_all add: catch_route_def sample_route_def sample_match_def sample_event_def routeMatches_def matchesScalar_def)
  show ?thesis using FirstCanonical_unique_best [OF sample_accepted f x] by simp
qed

theorem canonicalizeRoutes_order_independent_witness:
  "canonicalizeRoutes [sample_route, catch_route] = canonicalizeRoutes [catch_route, sample_route]"
  using canonicalizeRoutes_order_independent [OF sample_accepted, of "[sample_route, catch_route]"] by simp

section \<open>Templates\<close>

text \<open>C29. A template that passed validation renders, whatever the event is, as long as no substituted value contains a brace:
  every variable in it is one that has a value, and the result is the template with the values in place.\<close>

theorem validated_template_renders:
  assumes "validateHTTPTemplate s = None" and "braceFree v"
  shows "renderString s v = Inr (replaceVariables (replacement v) s) \<and>
    (\<forall>n\<in>set (variables s). n \<in> set (map fst (replacements v)))"
  by (rule validated_renders [OF assms])

definition sample_values :: Values where
  "sample_values = \<lparr>EventSource = ''gl'', EventRepository = ''app'', EventRef = ''main'', EventRevision = ''r1'', EventStatus = '''',
     EventExternalID = '''', EventTrigger = '''', EventCommitMessage = ''fix'', AttemptID = ''a1'', DeliveryID = ''d1'', TargetID = ''web''\<rparr>"

definition sample_template :: string where
  "sample_template = ''m='' @ openBraces @ ''event.commit_message'' @ closeBraces"

lemma sample_template_valid: "validateHTTPTemplate sample_template = None"
  by code_simp

theorem validated_template_renders_witness:
  "renderString sample_template sample_values = Inr ''m=fix''"
proof -
  have "braceFree sample_values" by (simp add: braceFree_def replacements_def sample_values_def)
  moreover have "replaceVariables (replacement sample_values) sample_template = ''m=fix''" by code_simp
  ultimately show ?thesis using validated_template_renders [OF sample_template_valid, of sample_values] by simp
qed

lemma prefixOf_self_append: "prefixOf p (p @ s)"
  by (induction p) simp_all

lemma occursIn_iff: "occursIn p s \<longleftrightarrow> (\<exists>x y. s = x @ p @ y)"
proof (induction s)
  case (Cons c s)
  have "prefixOf p (c # s) \<longleftrightarrow> (\<exists>y. c # s = p @ y)" by (metis prefixOf_append)
  then show ?case using Cons by (auto simp: Cons_eq_append_conv)
qed auto

lemma replaced_contains:
  assumes "n \<in> set (variables s)" and "occursIn p (f n)"
  shows "occursIn p (replaceVariables f s)"
proof -
  have "Var n \<in> set (pieces s)" using assms(1) by (auto simp: variables_def split: piece.splits)
  then obtain xs ys where "pieces s = xs @ Var n # ys" by (meson split_list)
  then have "replaceVariables f s = concat (map (renderPiece f) xs) @ f n @ concat (map (renderPiece f) ys)"
    by (simp add: replaceVariables_def)
  moreover obtain x y where "f n = x @ p @ y" using assms(2) unfolding occursIn_iff by blast
  ultimately show ?thesis unfolding occursIn_iff by (metis append.assoc)
qed

text \<open>C30. The condition on braces is needed: whenever the value of a variable that a template uses (a commit message, say) contains
  two opening or two closing braces in a row, the rendering fails, however valid the template is, because the check for left-over
  variables reads the substituted values too.\<close>

theorem braces_in_event_fail:
  assumes "n \<in> set (variables s)"
    and "occursIn openBraces (replacement v n) \<or> occursIn closeBraces (replacement v n)"
  shows "renderString s v = Inl ''unsupported HTTP template variable''"
  using replaced_contains [OF assms(1), of openBraces "replacement v"] replaced_contains [OF assms(1), of closeBraces "replacement v"] assms(2)
  by (auto simp: renderString_def Let_def)

theorem braces_in_event_fail_witness:
  "validateHTTPTemplate sample_template = None \<and>
   renderString sample_template (sample_values\<lparr>EventCommitMessage := ''use '' @ openBraces\<rparr>) = Inl ''unsupported HTTP template variable''"
proof
  have "''event.commit_message'' \<in> set (variables sample_template)"
    "occursIn openBraces (replacement (sample_values\<lparr>EventCommitMessage := ''use '' @ openBraces\<rparr>) ''event.commit_message'')"
    by code_simp+
  then show "renderString sample_template (sample_values\<lparr>EventCommitMessage := ''use '' @ openBraces\<rparr>) = Inl ''unsupported HTTP template variable''"
    using braces_in_event_fail by blast
qed (rule sample_template_valid)

section \<open>Redaction\<close>

text \<open>Redaction reaches every depth: in the masked document no member with a secret-bearing name keeps its value, and
  masking again changes nothing.\<close>

theorem redaction_complete:
  "masked_at u path (mask u path v) \<and> mask u path (mask u path v) = mask u path v"
  using mask_masks mask_idempotent by blast

text \<open>What is stored of a request or a response is bounded: whether or not it is JSON, the redacted evidence never exceeds
  the limit, and it is reported as truncated whenever it was cut.\<close>

theorem evidence_bounded:
  "length (fst (JSONWithSecret u input decoded secret limit)) \<le> nat limit \<and>
   (\<not> snd (JSONWithSecret u input decoded secret limit) \<longrightarrow> limit > 0 \<longrightarrow>
     fst (JSONWithSecret u input decoded secret limit) =
       (case decoded of Some v \<Rightarrow> marshalJSON (maskSecret secret (mask u [] v))
        | None \<Rightarrow> if secret \<noteq> '''' then ReplaceAll secret redacted input else input))"
  using JSONWithSecret_bounded by (auto simp: JSONWithSecret_def Let_def split: option.splits)

theorem evidence_bounded_witness:
  "fst (JSONWithSecret sample_unicode ''abc'' None '''' 5) = ''abc''"
proof -
  have "\<not> snd (JSONWithSecret sample_unicode ''abc'' None '''' 5)" by (simp add: JSONWithSecret_def)
  then show ?thesis using evidence_bounded [of sample_unicode "''abc''" None "''''" 5] by simp
qed

end
