(* ===== verification/Auth.thy ===== *)
theory Auth
  imports Net_URL Providers Dokploy Framing
begin

text \<open>
  Management authentication (\<^verbatim>\<open>internal/auth\<close>): the settings, the OpenID Connect login with its two cookies, the session, and
  the middleware \<^verbatim>\<open>Authenticate\<close> and \<^verbatim>\<open>Require\<close>.

  Third-party code is a field of the record \<open>AuthEnv\<close>: the cookie codecs of \<^verbatim>\<open>gorilla/securecookie\<close>, the authorization URL of
  \<^verbatim>\<open>oauth2\<close>, the remote steps of the code exchange, and SHA-256. The age limit that \<^verbatim>\<open>securecookie\<close> itself checks is part of the codec
  and left out; the expiry inside a session and a login cookie is checked by the code and modelled. A request is what \<^verbatim>\<open>net/http\<close> makes of it: the value of a
  cookie and of a query parameter by name. A handler returns a \<open>Reply\<close>: the cookies it sets, the status, the target of a
  redirect as it is handed to \<^verbatim>\<open>http.Redirect\<close>, and the body.
\<close>

section \<open>Requests and replies\<close>

record AuthRequest =
  ar_Cookie :: "string \<Rightarrow> string option"
  ar_Query :: "string \<Rightarrow> string"

datatype CookieChange = SetCookie string string duration time | ClearCookie string

datatype ReplyBody = NoBody | ErrorBody string string | DeniedPage | SessionBody string string string int

record Reply =
  rp_NoStore :: bool
  rp_Cookies :: "CookieChange list"
  rp_Status :: int
  rp_Location :: "string option"
  rp_Body :: ReplyBody

definition reply :: "CookieChange list \<Rightarrow> int \<Rightarrow> ReplyBody \<Rightarrow> Reply" where
  "reply cookies status body =
     \<lparr>rp_NoStore = True, rp_Cookies = cookies, rp_Status = status, rp_Location = None, rp_Body = body\<rparr>"

definition redirect :: "CookieChange list \<Rightarrow> string \<Rightarrow> Reply" where
  "redirect cookies location =
     \<lparr>rp_NoStore = True, rp_Cookies = cookies, rp_Status = 302, rp_Location = Some location, rp_Body = NoBody\<rparr>"

definition writeAuthenticationFailure :: "CookieChange list \<Rightarrow> int \<Rightarrow> Reply" where
  "writeAuthenticationFailure cookies status = reply cookies status (ErrorBody ''unauthorized'' ''authentication failed'')"

definition writeAuthorizationDeniedPage :: "CookieChange list \<Rightarrow> Reply" where
  "writeAuthorizationDeniedPage cookies = reply cookies 403 DeniedPage"

section \<open>Principals and permissions\<close>

definition PermissionEventsRead :: string where "PermissionEventsRead = ''events:read''"
definition PermissionEventsDelete :: string where "PermissionEventsDelete = ''events:delete''"
definition PermissionConnectionsRead :: string where "PermissionConnectionsRead = ''connections:read''"
definition PermissionDeploymentsRetry :: string where "PermissionDeploymentsRetry = ''deployments:retry''"
definition PermissionConfigReload :: string where "PermissionConfigReload = ''config:reload''"

definition allPermissions :: "string list" where
  "allPermissions = [PermissionEventsRead, PermissionEventsDelete, PermissionConnectionsRead, PermissionDeploymentsRetry,
     PermissionConfigReload]"

record Principal =
  pr_ID :: string
  pr_DisplayName :: string
  pr_Permissions :: "string list"

definition principalFor :: "string \<Rightarrow> string \<Rightarrow> Principal" where
  "principalFor i displayName = \<lparr>pr_ID = i, pr_DisplayName = displayName, pr_Permissions = allPermissions\<rparr>"

definition noAuthPrincipal :: Principal where
  "noAuthPrincipal = principalFor ''wireguard-anonymous'' ''WireGuard anonymous''"

section \<open>Sessions and logins\<close>

record sessionData =
  sd_Version :: int
  sd_ActorID :: string
  sd_DisplayName :: string
  sd_Username :: string
  sd_Provider :: string
  sd_IssuedAt :: int
  sd_ExpiresAt :: int

record loginTransaction =
  lt_Version :: int
  lt_State :: string
  lt_Nonce :: string
  lt_Verifier :: string
  lt_ReturnTo :: string
  lt_IssuedAt :: int
  lt_ExpiresAt :: int

record oidcIdentity =
  oi_TokenSubject :: string
  oi_UserInfoSubject :: string
  oi_Nonce :: string
  oi_Name :: string
  oi_Username :: string
  oi_Email :: string
  oi_Groups :: "string list"

datatype ExchangeResult = ExchangeDenied | ExchangeFailed | Exchanged oidcIdentity

record AuthEnv =
  ae_encodeSession :: "sessionData \<Rightarrow> string option"
  ae_decodeSession :: "string \<Rightarrow> sessionData option"
  ae_encodeLogin :: "loginTransaction \<Rightarrow> string option"
  ae_decodeLogin :: "string \<Rightarrow> loginTransaction option"
  ae_authorizationURL :: "string \<Rightarrow> string \<Rightarrow> string \<Rightarrow> string"
  ae_exchange :: "string \<Rightarrow> string \<Rightarrow> ExchangeResult"
  ae_sha :: "string \<Rightarrow> string"

record Settings =
  st_Mode :: string
  st_ExternalOrigin :: string
  st_Issuer :: string
  st_ClientID :: string
  st_ClientSecret :: string
  st_Scopes :: "string list"
  st_DisplayClaim :: string
  st_AllowedGroups :: "string list"
  st_SessionSecret :: bytes

definition sessionCookieName :: string where "sessionCookieName = ''hookfly_session''"
definition loginCookieName :: string where "loginCookieName = ''hookfly_login''"

definition sessionLifetime :: duration where "sessionLifetime = 480 * minute"
definition loginLifetime :: duration where "loginLifetime = 10 * minute"

text \<open>\<^verbatim>\<open>time.Time.Unix\<close>.\<close>

definition Unix :: "time \<Rightarrow> int" where
  "Unix t = t div second"

definition setCookie :: "time \<Rightarrow> string \<Rightarrow> string \<Rightarrow> duration \<Rightarrow> CookieChange" where
  "setCookie now name v lifetime = SetCookie name v lifetime (now + lifetime)"

section \<open>Safe redirects\<close>

text \<open>A range over a string visits its runes; an invalid byte is the error rune.\<close>

function anyRune :: "(nat \<Rightarrow> bool) \<Rightarrow> string \<Rightarrow> bool" where
  "anyRune p [] = False"
| "anyRune p (c # cs) = (case decodeRune c cs of (r, w) \<Rightarrow> p r \<or> anyRune p (drop (w - 1) cs))"
  by pat_completeness auto
termination
  by (relation "measure (\<lambda>(p, s). length s)") auto

definition unsafeRune :: "nat \<Rightarrow> bool" where
  "unsafeRune r \<longleftrightarrow> r = 0x5C \<or> r < 0x20 \<or> r = 0x7F"

definition unsafeRedirectText :: "string \<Rightarrow> bool" where
  "unsafeRedirectText v = anyRune unsafeRune v"

text \<open>\<^verbatim>\<open>url.PathUnescape\<close> decodes every triplet, as the mode of a path does.\<close>

definition safeReturnTo :: "string \<Rightarrow> string" where
  "safeReturnTo v =
     (if v = '''' \<or> \<not> prefixOf ''/'' v \<or> prefixOf ''//'' v \<or> unsafeRedirectText v then ''/''
      else case ParseRequestURI v of
        None \<Rightarrow> ''/''
      | Some parsed \<Rightarrow>
          if ur_Scheme parsed \<noteq> '''' \<or> ur_Host parsed \<noteq> '''' then ''/''
          else (case unescapeURL EncodePath (EscapedPath parsed) of
            None \<Rightarrow> ''/''
          | Some decodedPath \<Rightarrow>
              if prefixOf ''//'' decodedPath \<or> unsafeRedirectText decodedPath then ''/'' else v))"

section \<open>Login\<close>

definition base64URLDigit :: "nat \<Rightarrow> char" where
  "base64URLDigit n = ''ABCDEFGHIJKLMNOPQRSTUVWXYZabcdefghijklmnopqrstuvwxyz0123456789-_'' ! n"

text \<open>\<^verbatim>\<open>base64.RawURLEncoding.EncodeToString\<close>.\<close>

fun rawURLEncoding :: "bytes \<Rightarrow> string" where
  "rawURLEncoding [] = []"
| "rawURLEncoding [a] =
     (let n = of_char a :: nat in [base64URLDigit (n div 4), base64URLDigit (n mod 4 * 16)])"
| "rawURLEncoding [a, b] =
     (let n = of_char a :: nat; m = of_char b :: nat in
      [base64URLDigit (n div 4), base64URLDigit (n mod 4 * 16 + m div 16), base64URLDigit (m mod 16 * 4)])"
| "rawURLEncoding (a # b # c # rest) =
     (let n = of_char a :: nat; m = of_char b :: nat; k = of_char c :: nat in
      [base64URLDigit (n div 4), base64URLDigit (n mod 4 * 16 + m div 16), base64URLDigit (m mod 16 * 4 + k div 64),
       base64URLDigit (k mod 64)] @ rawURLEncoding rest)"

text \<open>The three random values of a login are draws of \<^verbatim>\<open>randomValue(32)\<close>; \<open>None\<close> is a failing random source.\<close>

definition Login ::
  "AuthEnv \<Rightarrow> time \<Rightarrow> string option \<Rightarrow> string option \<Rightarrow> string option \<Rightarrow> AuthRequest \<Rightarrow> Reply" where
  "Login env now stateDraw nonceDraw verifierDraw request =
     (case (stateDraw, nonceDraw, verifierDraw) of
        (Some state, Some nonce, Some verifier) \<Rightarrow>
          let transaction = \<lparr>lt_Version = 1, lt_State = state, lt_Nonce = nonce, lt_Verifier = verifier,
                lt_ReturnTo = safeReturnTo (ar_Query request ''return_to''), lt_IssuedAt = Unix now,
                lt_ExpiresAt = Unix (now + loginLifetime)\<rparr>
          in (case ae_encodeLogin env transaction of
                None \<Rightarrow> writeAuthenticationFailure [] 500
              | Some encoded \<Rightarrow>
                  redirect [setCookie now loginCookieName encoded loginLifetime]
                    (ae_authorizationURL env state nonce (rawURLEncoding (ae_sha env verifier))))
      | _ \<Rightarrow> writeAuthenticationFailure [] 500)"

section \<open>Callback\<close>

definition containsAllowedGroup :: "string list \<Rightarrow> string list \<Rightarrow> bool" where
  "containsAllowedGroup groups allowed = list_ex (\<lambda>g. g \<in> set allowed) groups"

definition displayName :: "oidcIdentity \<Rightarrow> string" where
  "displayName identity =
     (if trimSpace (oi_Username identity) \<noteq> '''' then trimSpace (oi_Username identity)
      else if trimSpace (oi_Name identity) \<noteq> '''' then trimSpace (oi_Name identity)
      else ''Authenticated user'')"

definition DisplayClaimEmail :: string where "DisplayClaimEmail = ''email''"
definition DisplayClaimPreferredUsername :: string where "DisplayClaimPreferredUsername = ''preferred_username''"

definition issuedSession :: "time \<Rightarrow> sessionData \<Rightarrow> sessionData" where
  "issuedSession now session =
     session\<lparr>sd_Version := 1, sd_IssuedAt := Unix now, sd_ExpiresAt := Unix (now + sessionLifetime)\<rparr>"

text \<open>\<^verbatim>\<open>issueSession\<close>: the cookie, or \<open>None\<close> when it cannot be encoded.\<close>

definition issueSession :: "AuthEnv \<Rightarrow> time \<Rightarrow> sessionData \<Rightarrow> CookieChange option" where
  "issueSession env now session =
     map_option (\<lambda>encoded. setCookie now sessionCookieName encoded sessionLifetime)
       (ae_encodeSession env (issuedSession now session))"

definition actorID :: "AuthEnv \<Rightarrow> Settings \<Rightarrow> string \<Rightarrow> string" where
  "actorID env settings subject =
     ''oidc:'' @ EncodeToString (ae_sha env (st_Issuer settings @ [CHR 0x00] @ subject))"

definition newSession :: "AuthEnv \<Rightarrow> Settings \<Rightarrow> oidcIdentity \<Rightarrow> sessionData option" where
  "newSession env settings identity =
     (let session = \<lparr>sd_Version = 0, sd_ActorID = actorID env settings (oi_TokenSubject identity),
            sd_DisplayName = displayName identity, sd_Username = oi_Username identity, sd_Provider = ''authentik'',
            sd_IssuedAt = 0, sd_ExpiresAt = 0\<rparr>
      in if st_DisplayClaim settings = DisplayClaimEmail
         then if trimSpace (oi_Email identity) = '''' then None
              else Some (session\<lparr>sd_DisplayName := trimSpace (oi_Email identity), sd_Username := ''''\<rparr>)
         else Some session)"

definition identityOk :: "loginTransaction \<Rightarrow> oidcIdentity \<Rightarrow> bool" where
  "identityOk transaction identity \<longleftrightarrow>
     oi_TokenSubject identity \<noteq> '''' \<and> oi_UserInfoSubject identity \<noteq> '''' \<and>
     oi_TokenSubject identity = oi_UserInfoSubject identity \<and> oi_Nonce identity = lt_Nonce transaction"

definition Callback :: "AuthEnv \<Rightarrow> Settings \<Rightarrow> time \<Rightarrow> AuthRequest \<Rightarrow> Reply" where
  "Callback env settings now request =
     (let cleared = [ClearCookie loginCookieName]; unauthorized = writeAuthenticationFailure cleared 401 in
      case ar_Cookie request loginCookieName of
        None \<Rightarrow> unauthorized
      | Some cookie \<Rightarrow>
          (case ae_decodeLogin env cookie of
             None \<Rightarrow> unauthorized
           | Some transaction \<Rightarrow>
               if lt_Version transaction \<noteq> 1 \<or> lt_ExpiresAt transaction \<le> Unix now \<or>
                  lt_State transaction \<noteq> ar_Query request ''state'' then unauthorized
               else if ar_Query request ''code'' = '''' \<or> ar_Query request ''error'' \<noteq> '''' then unauthorized
               else (case ae_exchange env (ar_Query request ''code'') (lt_Verifier transaction) of
                 ExchangeDenied \<Rightarrow> writeAuthorizationDeniedPage cleared
               | ExchangeFailed \<Rightarrow> unauthorized
               | Exchanged identity \<Rightarrow>
                   if \<not> identityOk transaction identity then unauthorized
                   else if \<not> containsAllowedGroup (oi_Groups identity) (st_AllowedGroups settings)
                     then writeAuthorizationDeniedPage cleared
                   else (case newSession env settings identity of
                     None \<Rightarrow> unauthorized
                   | Some session \<Rightarrow>
                       (case issueSession env now session of
                          None \<Rightarrow> writeAuthenticationFailure cleared 500
                        | Some cookie \<Rightarrow> redirect (cleared @ [cookie]) (safeReturnTo (lt_ReturnTo transaction)))))))"

section \<open>Sessions\<close>

definition sessionValid :: "time \<Rightarrow> sessionData \<Rightarrow> bool" where
  "sessionValid now session \<longleftrightarrow>
     sd_Version session = 1 \<and> sd_ActorID session \<noteq> '''' \<and> sd_DisplayName session \<noteq> '''' \<and> sd_Provider session \<noteq> '''' \<and>
     Unix now < sd_ExpiresAt session"

definition sessionFromRequest :: "AuthEnv \<Rightarrow> time \<Rightarrow> AuthRequest \<Rightarrow> sessionData option" where
  "sessionFromRequest env now request =
     (case ar_Cookie request sessionCookieName of
        None \<Rightarrow> None
      | Some cookie \<Rightarrow>
          (case ae_decodeSession env cookie of
             None \<Rightarrow> None
           | Some session \<Rightarrow> if sessionValid now session then Some session else None))"

definition oidcAuthenticate :: "AuthEnv \<Rightarrow> time \<Rightarrow> AuthRequest \<Rightarrow> Principal option" where
  "oidcAuthenticate env now request =
     map_option (\<lambda>s. principalFor (sd_ActorID s) (sd_DisplayName s)) (sessionFromRequest env now request)"

definition Session :: "AuthEnv \<Rightarrow> time \<Rightarrow> AuthRequest \<Rightarrow> Reply" where
  "Session env now request =
     (case sessionFromRequest env now request of
        None \<Rightarrow> reply [ClearCookie sessionCookieName] 401 (ErrorBody ''unauthorized'' ''authentication required'')
      | Some s \<Rightarrow> reply [] 200 (SessionBody (sd_DisplayName s) (sd_Username s) (sd_Provider s) (sd_ExpiresAt s)))"

definition Logout :: Reply where
  "Logout = reply [ClearCookie sessionCookieName] 204 NoBody"


section \<open>Middleware\<close>

text \<open>The providers: the OpenID Connect service, and the development service that admits everybody as one fixed actor. An
  authentication failure clears the session cookie of the former.\<close>

datatype AuthProvider = NoProvider | NoAuthProvider | OIDCProvider AuthEnv

definition authenticateWith :: "AuthProvider \<Rightarrow> time \<Rightarrow> AuthRequest \<Rightarrow> Principal option" where
  "authenticateWith provider now request =
     (case provider of
        NoProvider \<Rightarrow> None
      | NoAuthProvider \<Rightarrow> Some noAuthPrincipal
      | OIDCProvider env \<Rightarrow> oidcAuthenticate env now request)"

definition authenticationFailedCookies :: "AuthProvider \<Rightarrow> CookieChange list" where
  "authenticationFailedCookies provider =
     (case provider of OIDCProvider env \<Rightarrow> [ClearCookie sessionCookieName] | _ \<Rightarrow> [])"

text \<open>A handler behind middleware either runs, with the actor of the request, or the middleware answers.\<close>

datatype Admission = Refused Reply | Admitted Principal

definition unauthenticated :: "CookieChange list \<Rightarrow> Reply" where
  "unauthenticated cookies = reply cookies 401 (ErrorBody ''unauthorized'' ''authentication required'')"

definition Authenticate :: "AuthProvider \<Rightarrow> time \<Rightarrow> AuthRequest \<Rightarrow> (Principal \<Rightarrow> Admission) \<Rightarrow> Admission" where
  "Authenticate provider now request next =
     (case authenticateWith provider now request of
        None \<Rightarrow> Refused (unauthenticated (authenticationFailedCookies provider))
      | Some actor \<Rightarrow>
          if pr_ID actor = '''' then Refused (unauthenticated (authenticationFailedCookies provider))
          else next actor)"

definition Require :: "string \<Rightarrow> (Principal \<Rightarrow> Admission) \<Rightarrow> Principal \<Rightarrow> Admission" where
  "Require permission next actor =
     (if pr_ID actor = '''' then Refused (unauthenticated [])
      else if permission \<notin> set (pr_Permissions actor)
        then Refused (reply [] 403 (ErrorBody ''forbidden'' ''permission denied''))
      else next actor)"

section \<open>Settings\<close>

type_synonym EnvLookup = "string \<Rightarrow> string option"

definition required :: "EnvLookup \<Rightarrow> string \<Rightarrow> string option" where
  "required lookup name =
     (case lookup name of None \<Rightarrow> None | Some v \<Rightarrow> if trimSpace v = '''' then None else Some (trimSpace v))"

text \<open>\<^verbatim>\<open>URL.RequestURI\<close> of a URL without a query.\<close>

definition RequestURI :: "URL \<Rightarrow> string" where
  "RequestURI p =
     (if ur_Opaque p = '''' then (if EscapedPath p = '''' then ''/'' else EscapedPath p)
      else if prefixOf ''//'' (ur_Opaque p) then ur_Scheme p @ '':'' @ ur_Opaque p else ur_Opaque p) @
     (if ur_ForceQuery p \<or> ur_RawQuery p \<noteq> '''' then ''?'' @ ur_RawQuery p else '''')"

definition secureOrigin :: "unicode \<Rightarrow> string \<Rightarrow> string option" where
  "secureOrigin u raw =
     (case ParseURL raw of
        None \<Rightarrow> None
      | Some p \<Rightarrow>
          if ur_Scheme p \<noteq> ''https'' \<or> ur_Host p = '''' \<or> ur_User p \<noteq> None \<or> (ur_Path p \<noteq> '''' \<and> ur_Path p \<noteq> ''/'') \<or>
             ur_RawPath p \<noteq> '''' \<or> ur_RawQuery p \<noteq> '''' \<or> ur_Fragment p \<noteq> '''' \<or> ur_Opaque p \<noteq> '''' then None
          else if ParseRequestURI (RequestURI p) = None then None
          else
            let hostname = lowercase u (Hostname p);
                port = (if Port p = ''443'' then '''' else Port p);
                host = (if CHR '':'' \<in> set hostname then ''['' @ hostname @ '']'' else hostname)
            in if hostname = '''' then None
               else Some (''https://'' @ (if port \<noteq> '''' then JoinHostPort hostname port else host)))"

definition secureIssuer :: "string \<Rightarrow> bool" where
  "secureIssuer raw =
     (case ParseURL raw of
        None \<Rightarrow> False
      | Some p \<Rightarrow> ur_Scheme p = ''https'' \<and> ur_Host p \<noteq> '''' \<and> ur_User p = None \<and> ur_RawQuery p = '''' \<and>
          ur_Fragment p = '''' \<and> ur_Opaque p = '''')"

text \<open>\<^verbatim>\<open>strings.FieldsFunc\<close> at the six separators, all of them ASCII; \<open>word\<close> is the current field.\<close>

definition isSeparator :: "char \<Rightarrow> bool" where
  "isSeparator c \<longleftrightarrow> c \<in> {CHR '','', CHR '';'', CHR '' '', CHR 0x09, CHR 0x0A, CHR 0x0D}"

fun separated :: "string \<Rightarrow> string \<Rightarrow> string list" where
  "separated word [] = (if word = [] then [] else [word])"
| "separated word (c # cs) =
     (if isSeparator c then (if word = [] then [] else [word]) @ separated [] cs else separated (word @ [c]) cs)"

fun uniqueParts :: "string list \<Rightarrow> string list \<Rightarrow> string list" where
  "uniqueParts seen [] = []"
| "uniqueParts seen (part # parts) =
     (if trimSpace part = '''' \<or> trimSpace part \<in> set seen then uniqueParts seen parts
      else trimSpace part # uniqueParts (trimSpace part # seen) parts)"

definition splitUnique :: "string \<Rightarrow> string list" where
  "splitUnique raw = uniqueParts [] (separated [] raw)"

definition ModeOIDC :: string where "ModeOIDC = ''oidc''"
definition ModeNone :: string where "ModeNone = ''none''"

definition emptySettings :: Settings where
  "emptySettings = \<lparr>st_Mode = '''', st_ExternalOrigin = '''', st_Issuer = '''', st_ClientID = '''', st_ClientSecret = '''',
     st_Scopes = [], st_DisplayClaim = '''', st_AllowedGroups = [], st_SessionSecret = []\<rparr>"

definition lookupOr :: "EnvLookup \<Rightarrow> string \<Rightarrow> string \<Rightarrow> string" where
  "lookupOr lookup name fallback = (case lookup name of None \<Rightarrow> fallback | Some v \<Rightarrow> v)"

definition authMode :: "unicode \<Rightarrow> EnvLookup \<Rightarrow> string" where
  "authMode u lookup =
     (case lookup ''HOOKFLY_AUTH_MODE'' of
        None \<Rightarrow> ModeOIDC
      | Some v \<Rightarrow> if trimSpace v = '''' then ModeOIDC else lowercase u (trimSpace v))"

text \<open>The error texts are kept in short form: the name of the variable that is missing or wrong. \<open>decode64\<close> is
  \<^verbatim>\<open>base64.StdEncoding.DecodeString\<close>.\<close>

definition LoadSettings :: "unicode \<Rightarrow> (string \<Rightarrow> bytes option) \<Rightarrow> EnvLookup \<Rightarrow> string + Settings" where
  "LoadSettings u decode64 lookup =
     (let mode = authMode u lookup;
          displayClaim = lookupOr lookup ''HOOKFLY_AUTH_DISPLAY_CLAIM'' DisplayClaimPreferredUsername;
          settings = emptySettings\<lparr>st_Mode := mode, st_DisplayClaim := displayClaim\<rparr> in
      if mode \<noteq> ModeOIDC \<and> mode \<noteq> ModeNone then Inl ''HOOKFLY_AUTH_MODE''
      else if displayClaim \<noteq> DisplayClaimPreferredUsername \<and> displayClaim \<noteq> DisplayClaimEmail
        then Inl ''HOOKFLY_AUTH_DISPLAY_CLAIM''
      else if mode = ModeNone then Inr settings
      else (case Option.bind (required lookup ''HOOKFLY_EXTERNAL_URL'') (secureOrigin u) of
        None \<Rightarrow> Inl ''HOOKFLY_EXTERNAL_URL''
      | Some origin \<Rightarrow>
      (case required lookup ''AUTHENTIK_ISSUER'' of
        None \<Rightarrow> Inl ''AUTHENTIK_ISSUER''
      | Some issuer \<Rightarrow>
      if \<not> secureIssuer issuer then Inl ''AUTHENTIK_ISSUER''
      else (case required lookup ''AUTHENTIK_CLIENT_ID'' of
        None \<Rightarrow> Inl ''AUTHENTIK_CLIENT_ID''
      | Some clientID \<Rightarrow>
      (case required lookup ''AUTHENTIK_CLIENT_SECRET'' of
        None \<Rightarrow> Inl ''AUTHENTIK_CLIENT_SECRET''
      | Some clientSecret \<Rightarrow>
          let scopes = splitUnique (lookupOr lookup ''AUTHENTIK_OAUTH_SCOPES'' ''openid,profile'');
              groups = splitUnique (lookupOr lookup ''HOOKFLY_AUTH_ALLOWED_GROUPS'' ''hookfly-users'') in
          if ''openid'' \<notin> set scopes then Inl ''AUTHENTIK_OAUTH_SCOPES''
          else if displayClaim = DisplayClaimEmail \<and> ''email'' \<notin> set scopes then Inl ''AUTHENTIK_OAUTH_SCOPES''
          else if groups = [] then Inl ''HOOKFLY_AUTH_ALLOWED_GROUPS''
          else (case Option.bind (required lookup ''HOOKFLY_AUTH_SESSION_SECRET'') decode64 of
            None \<Rightarrow> Inl ''HOOKFLY_AUTH_SESSION_SECRET''
          | Some secret \<Rightarrow>
              if length secret \<noteq> 32 then Inl ''HOOKFLY_AUTH_SESSION_SECRET''
              else Inr (settings\<lparr>st_ExternalOrigin := origin, st_Issuer := issuer, st_ClientID := clientID,
                st_ClientSecret := clientSecret, st_Scopes := scopes, st_AllowedGroups := groups,
                st_SessionSecret := secret\<rparr>)))))))"

section \<open>The code exchange\<close>

text \<open>What the remote steps of \<^verbatim>\<open>Exchange\<close> give: the ID token of the token response, the claims of the verified token, and the
  decoded user info. \<open>None\<close> is an error of the step.\<close>

datatype GroupsClaim = GroupsMissing | GroupsNull | GroupsInvalid | GroupsList "string list"

record UserInfo =
  ui_Subject :: string
  ui_Name :: string
  ui_Username :: string
  ui_Email :: "string option"
  ui_Groups :: GroupsClaim

record OIDCRemote =
  or_exchange :: "string \<Rightarrow> string \<Rightarrow> string option option"
  or_verify :: "string \<Rightarrow> (string \<times> string) option"
  or_userInfo :: "UserInfo option option"

definition parseUserInfoClaims :: "UserInfo option \<Rightarrow> ExchangeResult + UserInfo \<times> string list" where
  "parseUserInfoClaims raw =
     (case raw of
        None \<Rightarrow> Inl ExchangeFailed
      | Some claims \<Rightarrow>
          if ui_Subject claims = '''' then Inl ExchangeFailed
          else (case ui_Groups claims of
            GroupsList groups \<Rightarrow> Inr (claims, groups)
          | _ \<Rightarrow> Inl ExchangeDenied))"

definition Exchange :: "OIDCRemote \<Rightarrow> string \<Rightarrow> string \<Rightarrow> ExchangeResult" where
  "Exchange remote code verifier =
     (case or_exchange remote code verifier of
        Some (Some rawIDToken) \<Rightarrow>
          if rawIDToken = '''' then ExchangeFailed
          else (case or_verify remote rawIDToken of
            None \<Rightarrow> ExchangeFailed
          | Some (subject, nonce) \<Rightarrow>
              if subject = '''' \<or> nonce = '''' then ExchangeFailed
              else (case or_userInfo remote of
                None \<Rightarrow> ExchangeFailed
              | Some raw \<Rightarrow>
                  (case parseUserInfoClaims raw of
                     Inl failure \<Rightarrow> failure
                   | Inr (claims, groups) \<Rightarrow>
                       Exchanged \<lparr>oi_TokenSubject = subject, oi_UserInfoSubject = ui_Subject claims, oi_Nonce = nonce,
                         oi_Name = ui_Name claims, oi_Username = ui_Username claims,
                         oi_Email = (case ui_Email claims of None \<Rightarrow> '''' | Some e \<Rightarrow> e), oi_Groups = groups\<rparr>)))
      | _ \<Rightarrow> ExchangeFailed)"

section \<open>What the redirect target is\<close>

lemma decodeRune_ascii: "(of_char c :: nat) < 128 \<Longrightarrow> decodeRune c cs = (of_char c, 1)"
  by (simp add: decodeRune.simps)

lemma decodeRune_continuation:
  "decodeRune c cs = (r, w) \<Longrightarrow> list_all continuation (take (w - 1) cs)"
  by (cases cs) (auto simp: decodeRune.simps Let_def list_all_iff split: if_splits)

lemma anyRune_ascii:
  "c \<in> set s \<Longrightarrow> (of_char c :: nat) < 128 \<Longrightarrow> p (of_char c) \<Longrightarrow> anyRune p s"
proof (induction p s rule: anyRune.induct)
  case (2 p a cs)
  obtain r w where rw: "decodeRune a cs = (r, w)" by fastforce
  show ?case
  proof (cases "c = a")
    case True
    then show ?thesis using 2(3,4) by (simp add: decodeRune_ascii)
  next
    case False
    have "\<not> continuation c" using 2(3) by (simp add: continuation_def)
    then have "c \<notin> set (take (w - 1) cs)" using decodeRune_continuation [OF rw] by (auto simp: list_all_iff)
    moreover have "c \<in> set (take (w - 1) cs @ drop (w - 1) cs)" using False 2(2) by simp
    ultimately have "c \<in> set (drop (w - 1) cs)" by (simp only: set_append) blast
    then show ?thesis using 2(1) [OF rw [symmetric]] 2(3,4) rw by simp
  qed
qed simp

text \<open>Bytes a browser reads as a path separator or as a control character.\<close>

definition unsafeByte :: "char \<Rightarrow> bool" where
  "unsafeByte c \<longleftrightarrow> c = CHR 0x5C \<or> (of_char c :: nat) < 0x20 \<or> c = CHR 0x7F"

text \<open>A path on the own origin: one leading slash, no second one, no byte that could act as one.\<close>

definition sameOriginPath :: "string \<Rightarrow> bool" where
  "sameOriginPath s \<longleftrightarrow> prefixOf ''/'' s \<and> \<not> prefixOf ''//'' s \<and> (\<forall>c\<in>set s. \<not> unsafeByte c)"

lemma safe_text: "\<not> unsafeRedirectText s \<Longrightarrow> c \<in> set s \<Longrightarrow> \<not> unsafeByte c"
proof
  assume n: "\<not> unsafeRedirectText s" and c: "c \<in> set s" and u: "unsafeByte c"
  have a: "(of_char c :: nat) < 128" "unsafeRune (of_char c)" using u by (auto simp: unsafeByte_def unsafeRune_def)
  show False using anyRune_ascii [of c s unsafeRune, OF c a] n by (simp add: unsafeRedirectText_def)
qed

lemma safeReturnTo_sameOrigin: "sameOriginPath (safeReturnTo v)"
proof -
  have root: "sameOriginPath ''/''" by (simp add: sameOriginPath_def unsafeByte_def)
  show ?thesis
  proof (cases "v = '''' \<or> \<not> prefixOf ''/'' v \<or> prefixOf ''//'' v \<or> unsafeRedirectText v")
    case True
    then show ?thesis using root by (auto simp: safeReturnTo_def)
  next
    case False
    then have "sameOriginPath v" using safe_text [of v] by (auto simp: sameOriginPath_def)
    then show ?thesis using root by (simp add: safeReturnTo_def split: option.split)
  qed
qed

section \<open>When a session is issued\<close>

text \<open>Everything a login has to satisfy.\<close>

definition loginAccepted :: "AuthEnv \<Rightarrow> Settings \<Rightarrow> time \<Rightarrow> AuthRequest \<Rightarrow> loginTransaction \<Rightarrow> oidcIdentity \<Rightarrow> bool" where
  "loginAccepted env settings now request transaction identity \<longleftrightarrow>
     Option.bind (ar_Cookie request loginCookieName) (ae_decodeLogin env) = Some transaction \<and>
     lt_Version transaction = 1 \<and> Unix now < lt_ExpiresAt transaction \<and>
     lt_State transaction = ar_Query request ''state'' \<and> ar_Query request ''code'' \<noteq> '''' \<and>
     ar_Query request ''error'' = '''' \<and>
     ae_exchange env (ar_Query request ''code'') (lt_Verifier transaction) = Exchanged identity \<and>
     identityOk transaction identity \<and> (\<exists>g\<in>set (oi_Groups identity). g \<in> set (st_AllowedGroups settings))"

definition setsSession :: "Reply \<Rightarrow> string \<Rightarrow> bool" where
  "setsSession r v \<longleftrightarrow> (\<exists>lifetime expires. SetCookie sessionCookieName v lifetime expires \<in> set (rp_Cookies r))"

lemma cookie_names: "sessionCookieName \<noteq> loginCookieName"
  by (simp add: sessionCookieName_def loginCookieName_def)

lemma failures_set_nothing [simp]:
  "\<not> setsSession (writeAuthenticationFailure [ClearCookie n] status) v" "\<not> setsSession (writeAuthorizationDeniedPage [ClearCookie n]) v"
  by (simp_all add: setsSession_def writeAuthenticationFailure_def writeAuthorizationDeniedPage_def reply_def)

lemma issueSession_sets:
  "issueSession env now session = Some cookie \<Longrightarrow>
   setsSession (redirect ([ClearCookie n] @ [cookie]) l) v \<longleftrightarrow> ae_encodeSession env (issuedSession now session) = Some v"
  by (auto simp: issueSession_def setsSession_def redirect_def setCookie_def)

lemma Callback_issues:
  "setsSession (Callback env settings now request) v \<longleftrightarrow>
     (\<exists>transaction identity session. loginAccepted env settings now request transaction identity \<and>
        newSession env settings identity = Some session \<and> ae_encodeSession env (issuedSession now session) = Some v)"
proof -
  have i: "issueSession env now session = None \<longleftrightarrow> ae_encodeSession env (issuedSession now session) = None" for session
    by (simp add: issueSession_def)
  show ?thesis
    using issueSession_sets [of env now] i
    by (auto simp: Callback_def Let_def loginAccepted_def containsAllowedGroup_def list_ex_iff Option.bind_eq_Some_conv
        split: option.splits ExchangeResult.splits)
qed

lemma Callback_location:
  assumes "setsSession (Callback env settings now request) v"
  shows "\<exists>l. rp_Location (Callback env settings now request) = Some l \<and> sameOriginPath l"
proof -
  have "\<exists>cookies l. Callback env settings now request = redirect cookies (safeReturnTo l)"
    using assms by (auto simp: Callback_def Let_def split: option.splits ExchangeResult.splits if_splits)
  then show ?thesis using safeReturnTo_sameOrigin by (auto simp: redirect_def)
qed

lemma newSession_fields:
  assumes "newSession env settings identity = Some session"
  shows "sd_ActorID session = actorID env settings (oi_TokenSubject identity)" and "sd_DisplayName session \<noteq> ''''"
    and "sd_Provider session \<noteq> ''''"
  using assms by (auto simp: newSession_def displayName_def Let_def split: if_splits)

lemma issued_valid:
  assumes "newSession env settings identity = Some session"
  shows "sessionValid now (issuedSession t session) \<longleftrightarrow> Unix now < Unix (t + sessionLifetime)"
  using newSession_fields [OF assms] by (auto simp: sessionValid_def issuedSession_def actorID_def)

lemma session_authenticates:
  assumes codec: "\<And>s v. ae_encodeSession env s = Some v \<Longrightarrow> ae_decodeSession env v = Some s"
    and issued: "setsSession (Callback env settings t request) v"
    and later: "ar_Cookie request' sessionCookieName = Some v"
  shows "\<exists>transaction identity name. loginAccepted env settings t request transaction identity \<and>
    oidcAuthenticate env now request' =
      (if Unix now < Unix (t + sessionLifetime)
       then Some (principalFor (actorID env settings (oi_TokenSubject identity)) name) else None)"
proof -
  obtain transaction identity session where l: "loginAccepted env settings t request transaction identity"
      "newSession env settings identity = Some session" "ae_encodeSession env (issuedSession t session) = Some v"
    using issued unfolding Callback_issues by blast
  have "oidcAuthenticate env now request' = (if Unix now < Unix (t + sessionLifetime)
      then Some (principalFor (actorID env settings (oi_TokenSubject identity)) (sd_DisplayName session)) else None)"
    using issued_valid [OF l(2), of now t] later codec [OF l(3)] newSession_fields(1) [OF l(2)]
    by (auto simp: oidcAuthenticate_def sessionFromRequest_def issuedSession_def)
  then show ?thesis using l(1) by blast
qed

text \<open>The lifetime is eight hours to the second.\<close>

lemma session_seconds: "Unix (t + sessionLifetime) = Unix t + 28800"
  by (simp add: Unix_def sessionLifetime_def minute_def second_def)

lemma Authenticate_admits:
  assumes "Authenticate provider now request (Require permission next) = Admitted actor'"
  shows "\<exists>actor. authenticateWith provider now request = Some actor \<and> pr_ID actor \<noteq> '''' \<and>
    permission \<in> set (pr_Permissions actor) \<and> next actor = Admitted actor'"
  using assms by (auto simp: Authenticate_def Require_def split: option.splits if_splits)

end
