(* ===== verification/Store_Query.thy ===== *)
theory Store_Query
  imports Store_Schema Redact "HOL-Library.Signed_Division"
begin

text \<open>
  The read side of the store (\<^verbatim>\<open>internal/store/query.go\<close>): the paged event list with its filters, the state of one event, the
  event that stands for a lifecycle, the timeline of a pipeline, and the event detail.

  A query is a filter of the event table followed by \<^verbatim>\<open>ORDER BY\<close>, \<^verbatim>\<open>LIMIT\<close> and \<^verbatim>\<open>OFFSET\<close>. A comparison with a nullable column
  is true only where the column is not null (\<open>sql_eq\<close>); \<^verbatim>\<open>IS\<close> is plain equality.
\<close>

section \<open>Types\<close>

record EventQuery =
  eq_Source :: "string option"
  eq_Repository :: "string option"
  eq_Target :: "string option"
  eq_Unmatched :: "bool option"
  eq_Ref :: "string option"
  eq_Rule :: "string option"
  eq_ID :: string
  eq_TransportStatus :: "string option"
  eq_DeploymentStatus :: "string option"
  eq_Page :: int
  eq_PageSize :: int

record DeliverySummary =
  ds_Kind :: string
  ds_Count :: nat
  ds_TransportStatus :: "TransportStatus option"
  ds_DeploymentStatus :: "DeploymentStatus option"

record DeliveryListItem =
  li_ID :: string
  li_TargetID :: string
  li_CurrentAttemptID :: string
  li_TransportStatus :: TransportStatus
  li_DeploymentStatus :: DeploymentStatus
  li_Active :: bool
  li_Attention :: bool
  li_AllowedOperations :: "Operation list"

record EventSummary =
  es_ID :: string
  es_ReceivedAt :: time
  es_EventType :: string
  es_Provider :: string
  es_SourceID :: string
  es_Repository :: string
  es_Ref :: "string option"
  es_Status :: "string option"
  es_Revision :: "string option"
  es_CommitMessage :: "string option"
  es_ExternalID :: "string option"
  es_Trigger :: "string option"
  es_RoutingResult :: RoutingResult
  es_RuleID :: "string option"
  es_DeliverySummary :: DeliverySummary
  es_Deliveries :: "DeliveryListItem list"
  es_Active :: bool
  es_Attention :: bool

record EventPage =
  pg_Items :: "EventSummary list"
  pg_Page :: int
  pg_PageSize :: int
  pg_Total :: int
  pg_HasPrevious :: bool
  pg_HasNext :: bool
  pg_Active :: bool

section \<open>Which events are listed\<close>

definition sql_eq :: "'a option \<Rightarrow> 'a option \<Rightarrow> bool" where
  "sql_eq x y \<longleftrightarrow> x \<noteq> None \<and> x = y"

text \<open>A nullable text column that is neither null nor empty.\<close>

definition nonEmpty :: "string option \<Rightarrow> bool" where
  "nonEmpty x \<longleftrightarrow> x \<noteq> None \<and> x \<noteq> Some ''''"

definition sameRepository :: "event_row \<Rightarrow> event_row \<Rightarrow> bool" where
  "sameRepository x y \<longleftrightarrow>
     ev_provider x = ev_provider y \<and> ev_source_id x = ev_source_id y \<and> ev_repository_id x = ev_repository_id y"

definition hasDelivery :: "db \<Rightarrow> event_row \<Rightarrow> bool" where
  "hasDelivery db e = list_ex (\<lambda>d. dl_event_id d = ev_id e) (db_deliveries db)"

text \<open>The subquery of the first condition: a later notification of the same pipeline.\<close>

definition newerState :: "event_row \<Rightarrow> event_row \<Rightarrow> bool" where
  "newerState e newer \<longleftrightarrow>
     sameRepository newer e \<and> ev_event newer = ev_event e \<and> sql_eq (ev_external_id newer) (ev_external_id e) \<and>
     (ev_received_at e < ev_received_at newer \<or>
      (ev_received_at newer = ev_received_at e \<and> ev_id e < ev_id newer))"

text \<open>The subquery of the second condition: a pipeline the push started. \<^verbatim>\<open>currentLifecycleEventID\<close> joins with the same
  condition.\<close>

definition startedBefore :: "db \<Rightarrow> event_row \<Rightarrow> event_row \<Rightarrow> bool" where
  "startedBefore db pipeline push =
     list_ex (\<lambda>earlier. sameRepository earlier pipeline \<and> ev_event earlier = ''pipeline'' \<and>
         sql_eq (ev_external_id earlier) (ev_external_id pipeline) \<and> ev_received_at earlier < ev_received_at push)
       (db_events db)"

definition pushPipeline :: "db \<Rightarrow> event_row \<Rightarrow> event_row \<Rightarrow> bool" where
  "pushPipeline db push pipeline \<longleftrightarrow>
     sameRepository pipeline push \<and> ev_event pipeline = ''pipeline'' \<and> ev_trigger pipeline = Some ''push'' \<and>
     nonEmpty (ev_revision pipeline) \<and> sql_eq (ev_revision pipeline) (ev_revision push) \<and> ev_ref pipeline = ev_ref push \<and>
     nonEmpty (ev_external_id pipeline) \<and> ev_received_at push \<le> ev_received_at pipeline \<and>
     \<not> startedBefore db pipeline push"

definition latestOfPipeline :: "db \<Rightarrow> event_row \<Rightarrow> bool" where
  "latestOfPipeline db e \<longleftrightarrow>
     ev_event e \<noteq> ''pipeline'' \<or> \<not> nonEmpty (ev_external_id e) \<or> \<not> list_ex (newerState e) (db_events db)"

definition pushWithoutPipeline :: "db \<Rightarrow> event_row \<Rightarrow> bool" where
  "pushWithoutPipeline db e \<longleftrightarrow>
     ev_event e \<noteq> ''push'' \<or> \<not> nonEmpty (ev_revision e) \<or> hasDelivery db e \<or>
     \<not> list_ex (pushPipeline db e) (db_events db)"

definition equalsArgument :: "string option \<Rightarrow> string option \<Rightarrow> bool" where
  "equalsArgument arg column \<longleftrightarrow> arg = None \<or> column = arg"

definition statusFilter :: "db \<Rightarrow> EventQuery \<Rightarrow> event_row \<Rightarrow> bool" where
  "statusFilter db q e \<longleftrightarrow>
     (eq_TransportStatus q = None \<and> eq_DeploymentStatus q = None) \<or>
     list_ex (\<lambda>(d, a). dl_event_id d = ev_id e \<and>
         equalsArgument (eq_TransportStatus q) (Some (transportText (at_transport_status a))) \<and>
         equalsArgument (eq_DeploymentStatus q) (Some (deploymentText (at_deployment_status a))))
       (current_pairs db)"

definition eventWhere :: "db \<Rightarrow> EventQuery \<Rightarrow> event_row \<Rightarrow> bool" where
  "eventWhere db q e \<longleftrightarrow>
     latestOfPipeline db e \<and> pushWithoutPipeline db e \<and>
     (eq_Source q \<noteq> None \<and> eq_Repository q \<noteq> None \<longrightarrow>
        eq_Source q = Some (ev_source_id e) \<and> eq_Repository q = Some (ev_repository_id e)) \<and>
     (case eq_Unmatched q of None \<Rightarrow> True
      | Some b \<Rightarrow> (ev_routing_result e = RoutingUnmatched) = b) \<and>
     (case eq_Target q of None \<Rightarrow> True
      | Some t \<Rightarrow> list_ex (\<lambda>d. dl_event_id d = ev_id e \<and> dl_target_id d = t) (db_deliveries db)) \<and>
     equalsArgument (eq_Ref q) (ev_ref e) \<and> equalsArgument (eq_Rule q) (ev_rule_id e) \<and>
     (eq_ID q \<noteq> '''' \<longrightarrow> ev_id e = eq_ID q) \<and> statusFilter db q e"

section \<open>The state of one event\<close>

definition nullableNonEmptyString :: "string option \<Rightarrow> string option" where
  "nullableNonEmptyString x = (if nonEmpty x then x else None)"

definition emptySummary :: DeliverySummary where
  "emptySummary = \<lparr>ds_Kind = '''', ds_Count = 0, ds_TransportStatus = None, ds_DeploymentStatus = None\<rparr>"

definition scanEventSummary :: "event_row \<Rightarrow> EventSummary" where
  "scanEventSummary e =
     \<lparr>es_ID = ev_id e, es_ReceivedAt = timeUnixMilli (ev_received_at e), es_EventType = ev_event e,
      es_Provider = ev_provider e, es_SourceID = ev_source_id e, es_Repository = ev_repository_id e,
      es_Ref = nullableNonEmptyString (ev_ref e), es_Status = nullableNonEmptyString (ev_status e),
      es_Revision = nullableNonEmptyString (ev_revision e), es_CommitMessage = nullableNonEmptyString (ev_commit_message e),
      es_ExternalID = nullableNonEmptyString (ev_external_id e), es_Trigger = nullableNonEmptyString (ev_trigger e),
      es_RoutingResult = ev_routing_result e, es_RuleID = ev_rule_id e, es_DeliverySummary = emptySummary,
      es_Deliveries = [], es_Active = False, es_Attention = False\<rparr>"

definition sourceStatusActive :: "string \<Rightarrow> bool" where
  "sourceStatusActive status \<longleftrightarrow>
     status \<in> {''created'', ''preparing'', ''scheduled'', ''pending'', ''queued'', ''waiting_for_resource'', ''requested'',
               ''running'', ''in_progress''}"

definition deliveryListItem :: "delivery_row \<times> attempt_row \<Rightarrow> DeliveryListItem" where
  "deliveryListItem = (\<lambda>(d, a).
     \<lparr>li_ID = dl_id d, li_TargetID = dl_target_id d, li_CurrentAttemptID = at_id a,
      li_TransportStatus = at_transport_status a, li_DeploymentStatus = at_deployment_status a,
      li_Active = Active (at_transport_status a) (at_deployment_status a),
      li_Attention = (AllowedOperations (at_transport_status a) (at_deployment_status a) \<noteq> []),
      li_AllowedOperations = AllowedOperations (at_transport_status a) (at_deployment_status a)\<rparr>)"

text \<open>The deliveries of an event with their current attempts, \<^verbatim>\<open>ORDER BY d.target_id,d.id\<close>.\<close>

definition eventPairs :: "db \<Rightarrow> string \<Rightarrow> (delivery_row \<times> attempt_row) list" where
  "eventPairs db i =
     sort_key (\<lambda>(d, a). (dl_target_id d, dl_id d)) (filter (\<lambda>(d, a). dl_event_id d = i) (current_pairs db))"

definition pipelineWaitTimeout :: duration where
  "pipelineWaitTimeout = 15 * minute"

definition deliverySummary :: "DeliveryListItem list \<Rightarrow> DeliverySummary" where
  "deliverySummary items =
     (case items of
        [] \<Rightarrow> emptySummary\<lparr>ds_Kind := ''none''\<rparr>
      | first # rest \<Rightarrow>
          if list_all (\<lambda>i. li_TransportStatus i = li_TransportStatus first \<and> li_DeploymentStatus i = li_DeploymentStatus first) rest
          then \<lparr>ds_Kind = ''uniform'', ds_Count = length items, ds_TransportStatus = Some (li_TransportStatus first),
                ds_DeploymentStatus = Some (li_DeploymentStatus first)\<rparr>
          else emptySummary\<lparr>ds_Kind := ''mixed'', ds_Count := length items\<rparr>)"

definition fillEventState :: "db \<Rightarrow> time \<Rightarrow> EventSummary \<Rightarrow> EventSummary" where
  "fillEventState db now item =
     (let items = map deliveryListItem (eventPairs db (es_ID item));
          sourceActive = (es_EventType item = ''pipeline'' \<and>
             (case es_Status item of None \<Rightarrow> False | Some s \<Rightarrow> sourceStatusActive s));
          filled = item\<lparr>es_Deliveries := items, es_Active := es_Active item \<or> sourceActive \<or> list_ex li_Active items,
             es_Attention := es_Attention item \<or> list_ex li_Attention items, es_DeliverySummary := deliverySummary items\<rparr>
      in if items = [] \<and> es_EventType item = ''push'' \<and> es_Revision item \<noteq> None
         then if es_ReceivedAt item + pipelineWaitTimeout < now
              then filled\<lparr>es_Status := Some ''pipeline_not_received'', es_Active := False\<rparr>
              else filled\<lparr>es_Status := Some ''waiting_for_pipeline'', es_Active := True\<rparr>
         else filled)"

section \<open>ListEvents\<close>

text \<open>\<^verbatim>\<open>ORDER BY received_at DESC, id DESC\<close>; the identifier is the primary key, so no two rows tie.\<close>

definition eventKeyDesc :: "event_row \<Rightarrow> millis \<times> string" where
  "eventKeyDesc e = (ev_received_at e, ev_id e)"

definition newestFirst :: "event_row list \<Rightarrow> event_row list" where
  "newestFirst es = rev (sort_key eventKeyDesc es)"

text \<open>\<^verbatim>\<open>LIMIT n OFFSET m\<close>: a negative limit is none, a negative offset is zero.\<close>

definition limitOffset :: "int \<Rightarrow> int \<Rightarrow> 'a list \<Rightarrow> 'a list" where
  "limitOffset limit offset xs =
     (let rest = drop (nat offset) xs in if limit < 0 then rest else take (nat limit) rest)"

definition ListEvents :: "db \<Rightarrow> time \<Rightarrow> EventQuery \<Rightarrow> store_error + EventPage" where
  "ListEvents db now q =
     (if (eq_Source q = None) \<noteq> (eq_Repository q = None)
      then Inl (ErrValidation ''source and repository filters must be provided together'')
      else
        let rows = filter (eventWhere db q) (db_events db);
            total = int (length rows);
            page = \<lparr>pg_Items = [], pg_Page = eq_Page q, pg_PageSize = eq_PageSize q, pg_Total = total,
                    pg_HasPrevious = 1 < eq_Page q, pg_HasNext = False, pg_Active = False\<rparr>
        in if total = 0 then Inr page
           else if eq_PageSize q = 0 then Inl (ErrValidation ''integer divide by zero'')
           else if (total - 1) sdiv eq_PageSize q < eq_Page q - 1 then Inr page
           else
             let offset = (eq_Page q - 1) * eq_PageSize q;
                 items = map (fillEventState db now \<circ> scanEventSummary)
                           (limitOffset (eq_PageSize q) offset (newestFirst rows))
             in Inr (page\<lparr>pg_HasNext := eq_PageSize q < total - offset, pg_Items := items,
                          pg_Active := list_ex es_Active items\<rparr>))"


section \<open>What a page holds\<close>

text \<open>The listed events of a query, newest first, and the items of a page.\<close>

definition visibleEvents :: "db \<Rightarrow> EventQuery \<Rightarrow> event_row list" where
  "visibleEvents db q = newestFirst (filter (eventWhere db q) (db_events db))"

definition pairedFilters :: "EventQuery \<Rightarrow> bool" where
  "pairedFilters q \<longleftrightarrow> (eq_Source q = None) = (eq_Repository q = None)"

definition onPage :: "nat \<Rightarrow> nat \<Rightarrow> EventQuery \<Rightarrow> EventQuery" where
  "onPage n per q = q\<lparr>eq_Page := int (Suc n), eq_PageSize := int per\<rparr>"

definition pageItems :: "store_error + EventPage \<Rightarrow> EventSummary list" where
  "pageItems r = (case r of Inl _ \<Rightarrow> [] | Inr p \<Rightarrow> pg_Items p)"

lemma eventWhere_onPage [simp]: "eventWhere db (onPage n per q) = eventWhere db q"
  by (rule ext) (simp add: eventWhere_def statusFilter_def onPage_def)

lemma visibleEvents_onPage [simp]: "visibleEvents db (onPage n per q) = visibleEvents db q"
  by (simp add: visibleEvents_def)

lemma length_newestFirst [simp]: "length (newestFirst es) = length es"
  by (simp add: newestFirst_def)

lemma set_newestFirst [simp]: "set (newestFirst es) = set es"
  by (simp add: newestFirst_def)

lemma newestFirst_first:
  assumes "sql_first (newestFirst es) = Some m"
  shows "m \<in> set es" and "\<And>e. e \<in> set es \<Longrightarrow> eventKeyDesc e \<le> eventKeyDesc m"
proof -
  obtain rest where r: "newestFirst es = m # rest" using assms by (cases "newestFirst es") auto
  then have s: "sort_key eventKeyDesc es = rev rest @ [m]" unfolding newestFirst_def by (metis rev.simps(2) rev_rev_ident)
  show "m \<in> set es" using r by (metis list.set_intros(1) set_newestFirst)
  fix e assume "e \<in> set es"
  then have "e \<in> set (rev rest @ [m])" by (metis s set_sort)
  moreover have "sorted (map eventKeyDesc (rev rest @ [m]))" by (metis s sorted_sort_key)
  ultimately show "eventKeyDesc e \<le> eventKeyDesc m" by (auto simp: sorted_append)
qed

lemma newestFirst_none: "sql_first (newestFirst es) = None \<longleftrightarrow> es = []"
  by (metis length_0_conv length_newestFirst sql_first_None)

lemma newestFirst_sorted: "sorted_wrt (\<lambda>x y. eventKeyDesc y \<le> eventKeyDesc x) (newestFirst es)"
  unfolding newestFirst_def sorted_wrt_rev using sorted_sort_key [of eventKeyDesc es] by (simp add: sorted_map)

lemma newestFirst_strict:
  assumes "distinct (map ev_id es)"
  shows "sorted_wrt (\<lambda>x y. eventKeyDesc y < eventKeyDesc x) (newestFirst es)"
proof -
  have "distinct (map eventKeyDesc es)" using assms by (auto simp: distinct_map inj_on_def eventKeyDesc_def)
  then have "distinct (map eventKeyDesc (sort_key eventKeyDesc es))" by (simp add: distinct_map)
  moreover have "sorted (map eventKeyDesc (sort_key eventKeyDesc es))" by simp
  ultimately have "sorted_wrt (<) (map eventKeyDesc (sort_key eventKeyDesc es))" by (simp add: strict_sorted_iff)
  then show ?thesis by (simp add: newestFirst_def sorted_wrt_rev sorted_wrt_map)
qed

lemma distinct_newestFirst: "distinct (newestFirst es) = distinct es"
  by (simp add: newestFirst_def)

lemma ListEvents_page:
  assumes "pairedFilters q" and "0 < per"
  shows "\<exists>p. ListEvents db now (onPage n per q) = Inr p \<and>
    pg_Items p = map (fillEventState db now \<circ> scanEventSummary) (take per (drop (n * per) (visibleEvents db q))) \<and>
    pg_Total p = int (length (visibleEvents db q)) \<and> (pg_HasNext p \<longleftrightarrow> Suc n * per < length (visibleEvents db q)) \<and>
    (pg_HasPrevious p \<longleftrightarrow> 0 < n) \<and> (pg_Active p \<longleftrightarrow> list_ex es_Active (pg_Items p))"
proof -
  define rows where "rows = filter (eventWhere db q) (db_events db)"
  have len: "length (visibleEvents db q) = length rows" by (simp add: visibleEvents_def rows_def)
  have v: "visibleEvents db q = newestFirst rows" by (simp add: visibleEvents_def rows_def)
  have sd: "(int (length rows) - 1) sdiv int per < int n \<longleftrightarrow> length rows \<le> n * per" if "rows \<noteq> []"
  proof -
    have "0 \<le> int (length rows) - 1" using that by (cases rows) auto
    then have "(int (length rows) - 1) sdiv int per = (int (length rows) - 1) div int per"
      using assms(2) by (cases "int (length rows) - 1 = 0") (simp_all add: signed_divide_int_def sgn_if)
    also have "\<dots> = int ((length rows - 1) div per)" using that by (cases rows) (simp_all add: zdiv_int)
    also have "\<dots> < int n \<longleftrightarrow> length rows - 1 < n * per" using assms(2) by (simp add: div_less_iff_less_mult)
    also have "\<dots> \<longleftrightarrow> length rows \<le> n * per" using that by (cases rows) auto
    finally show ?thesis .
  qed
  define page where "page = \<lparr>pg_Items = [], pg_Page = int (Suc n), pg_PageSize = int per, pg_Total = int (length rows),
      pg_HasPrevious = 0 < n, pg_HasNext = False, pg_Active = False\<rparr>"
  define items where "items = map (fillEventState db now \<circ> scanEventSummary) (take per (drop (n * per) (newestFirst rows)))"
  have q: "eq_Source (onPage n per q) = eq_Source q" "eq_Repository (onPage n per q) = eq_Repository q"
      "eq_Page (onPage n per q) = int n + 1" "eq_PageSize (onPage n per q) = int per" by (simp_all add: onPage_def)
  have lo: "limitOffset (int per) (int n * int per) (newestFirst rows) = take per (drop (n * per) (newestFirst rows))"
    by (simp add: limitOffset_def nat_mult_distrib)
  have L: "ListEvents db now (onPage n per q) =
      (if rows = [] then Inr page
       else if (int (length rows) - 1) sdiv int per < int n then Inr page
       else Inr (page\<lparr>pg_HasNext := int per < int (length rows) - int n * int per, pg_Items := items, pg_Active := list_ex es_Active items\<rparr>))"
    using assms by (simp add: ListEvents_def q lo pairedFilters_def Let_def page_def items_def flip: rows_def)
  have f: "pg_Items page = []" "pg_Total page = int (length rows)" "\<not> pg_HasNext page" "pg_HasPrevious page = (0 < n)" "\<not> pg_Active page"
    by (simp_all add: page_def)
  consider (none) "rows = []" | (beyond) "rows \<noteq> []" "length rows \<le> n * per" | (page) "rows \<noteq> []" "n * per < length rows"
    by linarith
  then show ?thesis
  proof cases
    case none
    then show ?thesis by (simp add: L f v newestFirst_def)
  next
    case beyond
    then show ?thesis by (simp add: L f v sd)
  next
    case page
    have "int per < int (length rows) - int n * int per \<longleftrightarrow> Suc n * per < length rows"
      by (simp add: algebra_simps flip: of_nat_mult) linarith
    then show ?thesis using page by (simp add: L f v sd items_def)
  qed
qed

lemma concat_pages: "concat (map (\<lambda>n. take k (drop (n * k) xs)) [0..<m]) = take (m * k) xs"
  by (induction m) (simp_all add: take_add add.commute [of k])

lemma pages_concat:
  assumes "pairedFilters q" and "0 < per"
  shows "concat (map (\<lambda>n. pageItems (ListEvents db now (onPage n per q))) [0..<m]) =
    take (m * per) (map (fillEventState db now \<circ> scanEventSummary) (visibleEvents db q))"
proof -
  have "pageItems (ListEvents db now (onPage n per q)) =
      take per (drop (n * per) (map (fillEventState db now \<circ> scanEventSummary) (visibleEvents db q)))" for n
    using ListEvents_page [OF assms, of db now n] by (auto simp: pageItems_def take_map drop_map)
  then show ?thesis by (simp add: concat_pages)
qed

end
