(* ===== verification/Deploy_Command.thy ===== *)
theory Deploy_Command
  imports Canonical_URL Send_Clients
begin

text \<open>
  The \<^verbatim>\<open>curl\<close> command that the admin interface shows for a recorded Dokploy deployment
  (\<^verbatim>\<open>internal/store/deploy_command.go\<close>). It is shown only for a request that really went to the target's own connection, and
  names the credential only as an environment variable.

  The strict JSON decoder of the recorded evidence is a parameter \<open>decodeEvidence\<close>.
\<close>

section \<open>Definitions\<close>

record deploymentRequestEvidence =
  de_Version :: int
  de_Method :: string
  de_URL :: string
  de_Headers :: "(string \<times> string) list"
  de_Body :: DeployRequest

definition quoteByte :: char where
  "quoteByte = CHR 0x27"

definition shellSingleQuote :: "string \<Rightarrow> string" where
  "shellSingleQuote value =
     quoteByte # ReplaceAll [quoteByte] [quoteByte, CHR 0x5C, quoteByte, quoteByte] value @ [quoteByte]"

definition newline :: string where
  "newline = [CHR '' '', CHR 0x5C, CHR 0x0A]"

definition curlCommand :: "string \<Rightarrow> string \<Rightarrow> string" where
  "curlCommand url body =
     ''curl --request POST'' @ newline @
     ''  --url '' @ shellSingleQuote url @ newline @
     ''  --header '' @ [quoteByte] @ ''Content-Type: application/json'' @ [quoteByte] @ newline @
     ''  --header '' @ [CHR 0x22] @ ''x-api-key: ${DOKPLOY_API_KEY}'' @ [CHR 0x22] @ newline @
     ''  --data '' @ shellSingleQuote body"

definition deployPath :: string where
  "deployPath = ''/api/compose.deploy''"

definition deployEndpointOk :: "URL \<Rightarrow> bool" where
  "deployEndpointOk endpoint \<longleftrightarrow>
     ur_User endpoint = None \<and> ur_Host endpoint \<noteq> '''' \<and> (ur_Scheme endpoint = ''http'' \<or> ur_Scheme endpoint = ''https'') \<and>
     ur_Path endpoint = deployPath \<and> ur_RawPath endpoint = '''' \<and> ur_RawQuery endpoint = '''' \<and>
     \<not> ur_ForceQuery endpoint \<and> ur_Fragment endpoint = ''''"

text \<open>\<^verbatim>\<open>evidence.Headers["Content-Type"]\<close> of a map with one member.\<close>

definition evidenceOk :: "deploymentRequestEvidence \<Rightarrow> bool" where
  "evidenceOk evidence \<longleftrightarrow>
     de_Version evidence = 1 \<and> de_Method evidence = ''POST'' \<and> dr_ComposeID (de_Body evidence) \<noteq> '''' \<and>
     length (de_Headers evidence) = 1 \<and> map_of (de_Headers evidence) ''Content-Type'' = Some ''application/json''"

definition deploymentCurl ::
  "unicode \<Rightarrow> (bytes \<Rightarrow> deploymentRequestEvidence option) \<Rightarrow> bytes \<Rightarrow> SnapshotDoc \<Rightarrow> bool \<Rightarrow> string option" where
  "deploymentCurl u decodeEvidence raw targetSnapshot recorded =
     (if \<not> recorded then None
      else case targetSnapshot of
        SnapshotDoc target \<Rightarrow>
          if ts_BindingVersion target \<noteq> 2 \<or> ts_Type target \<noteq> ''dokploy'' \<or> ts_ResourceType target \<noteq> ''compose'' \<or>
             ts_ResourceID target = '''' then None
          else (case dokployCanonicalBaseURL u (cs_BaseURL (ts_Connection target)) of
            None \<Rightarrow> None
          | Some baseURL \<Rightarrow>
              (case decodeEvidence raw of
                 None \<Rightarrow> None
               | Some evidence \<Rightarrow>
                   if \<not> evidenceOk evidence then None
                   else (case ParseURL (de_URL evidence) of
                     None \<Rightarrow> None
                   | Some endpoint \<Rightarrow>
                       if \<not> deployEndpointOk endpoint \<or> de_URL evidence \<noteq> baseURL @ deployPath \<or>
                          dr_ComposeID (de_Body evidence) \<noteq> ts_ResourceID target then None
                       else Some (curlCommand (de_URL evidence) (marshalDeployRequest (de_Body evidence))))))
      | _ \<Rightarrow> None)"

section \<open>Quoting\<close>

text \<open>How a POSIX shell reads a word of single-quoted parts and backslash escapes: inside quotes every byte up to the next quote
  is literal, outside a backslash makes the next byte literal. \<open>None\<close> is an unterminated or unquoted word.\<close>

fun shellWord :: "bool \<Rightarrow> string \<Rightarrow> string option" where
  "shellWord quotedPart [] = (if quotedPart then None else Some [])"
| "shellWord True (c # cs) = (if c = quoteByte then shellWord False cs else map_option (Cons c) (shellWord True cs))"
| "shellWord False (c # cs) =
     (if c = quoteByte then shellWord True cs
      else if c = CHR 0x5C then (case cs of [] \<Rightarrow> None | d # ds \<Rightarrow> map_option (Cons d) (shellWord False ds))
      else None)"

lemma ReplaceAll_single:
  "ReplaceAll [q] new (c # cs) = (if c = q then new @ ReplaceAll [q] new cs else c # ReplaceAll [q] new cs)"
  by simp

lemma shellWord_replaced:
  "shellWord True (ReplaceAll [quoteByte] [quoteByte, CHR 0x5C, quoteByte, quoteByte] s @ [quoteByte]) = Some s"
  by (induction s) (simp_all add: ReplaceAll_single quoteByte_def del: ReplaceAll.simps(2))

lemma shellSingleQuote_word: "shellWord False (shellSingleQuote s) = Some s"
  by (simp add: shellSingleQuote_def shellWord_replaced)

lemma deploymentCurl_SomeD:
  assumes "deploymentCurl u decodeEvidence raw doc recorded = Some command"
  shows "\<exists>target baseURL evidence. recorded \<and> doc = SnapshotDoc target \<and> ts_Type target = ''dokploy'' \<and>
    dokployCanonicalBaseURL u (cs_BaseURL (ts_Connection target)) = Some baseURL \<and> decodeEvidence raw = Some evidence \<and>
    de_URL evidence = baseURL @ deployPath \<and> dr_ComposeID (de_Body evidence) = ts_ResourceID target \<and>
    command = curlCommand (de_URL evidence) (marshalDeployRequest (de_Body evidence))"
  using assms by (auto simp: deploymentCurl_def split: if_splits option.splits SnapshotDoc.splits)

end
