(* ===== verification/Store_Detail.thy ===== *)
theory Store_Detail
  imports Store_Query Deploy_Command
begin

text \<open>
  The event detail of \<^verbatim>\<open>internal/store/query.go\<close>: which event stands for a lifecycle, the source states of a pipeline, the
  deliveries with all their attempts, and the activities. Every stored JSON document is redacted before it is shown, and
  requests, responses and audit entries lose the fields that name the infrastructure.

  A record \<open>documents\<close> holds what the standard library does with the stored bytes: the JSON decoder, and the bytes of the
  columns that the model keeps decoded.
\<close>

section \<open>Types\<close>

record SourceState =
  sst_EventID :: string
  sst_Status :: string
  sst_ReceivedAt :: time

record AttemptDetail =
  ad_ID :: string
  ad_Kind :: string
  ad_Actor :: "string option"
  ad_Current :: bool
  ad_TransportStatus :: TransportStatus
  ad_DeploymentStatus :: DeploymentStatus
  ad_DeploymentID :: "string option"
  ad_RequestSnapshot :: json
  ad_ResponseSnapshot :: json
  ad_DeployCommand :: "string option"
  ad_RequestAt :: "time option"
  ad_ResponseAt :: "time option"
  ad_EnqueuedAt :: "time option"
  ad_MonitoringDeadlineAt :: "time option"
  ad_CreatedAt :: time

record DeliveryDetail =
  dd_Item :: DeliveryListItem
  dd_TargetSnapshot :: "SnapshotDoc option"
  dd_CreatedAt :: time
  dd_UpdatedAt :: time
  dd_Attempts :: "AttemptDetail list"

record ActivityDetail =
  av_ID :: string
  av_DeliveryID :: string
  av_AttemptID :: string
  av_Actor :: string
  av_Action :: string
  av_Before :: json
  av_After :: json
  av_CreatedAt :: time

record EventDetail =
  ed_Summary :: EventSummary
  ed_Headers :: json
  ed_Payload :: json
  ed_RuleSnapshot :: json
  ed_SourceStates :: "SourceState list"
  ed_Deliveries :: "DeliveryDetail list"
  ed_Activities :: "ActivityDetail list"

record documents =
  doc_decode :: "bytes \<Rightarrow> json option"
  doc_evidence :: "bytes \<Rightarrow> deploymentRequestEvidence option"
  doc_headers :: "HeadersDoc \<Rightarrow> bytes"
  doc_rule :: "canonicalRuleSnapshot \<Rightarrow> bytes"
  doc_status :: "statusSnapshot \<Rightarrow> bytes"

section \<open>Documents\<close>

definition readSnapshotLimit :: int where
  "readSnapshotLimit = 64 * 1024"

definition infrastructureKeys :: "string list" where
  "infrastructureKeys =
     [''composeid'', ''resourceid'', ''baseurl'', ''url'', ''idempotencykey'', ''headers'', ''error'']"

definition infrastructureKey :: "unicode \<Rightarrow> string \<Rightarrow> bool" where
  "infrastructureKey u key \<longleftrightarrow>
     filter (\<lambda>c. c \<noteq> CHR ''_'' \<and> c \<noteq> CHR ''-'') (lowercase u key) \<in> set infrastructureKeys"

fun removeInfrastructureFields :: "unicode \<Rightarrow> json \<Rightarrow> json" where
  "removeInfrastructureFields u (JObject ms) =
     JObject (filter (\<lambda>(k, v). \<not> infrastructureKey u k) (map (\<lambda>(k, v). (k, removeInfrastructureFields u v)) ms))"
| "removeInfrastructureFields u (JArray vs) = JArray (map (removeInfrastructureFields u) vs)"
| "removeInfrastructureFields u v = v"

text \<open>A null column is shown as \<^verbatim>\<open>nil\<close>.\<close>

definition decodedRedacted :: "unicode \<Rightarrow> (bytes \<Rightarrow> json option) \<Rightarrow> bytes option \<Rightarrow> bool \<Rightarrow> json" where
  "decodedRedacted u decode raw removeInfrastructure =
     (case raw of
        None \<Rightarrow> JNull
      | Some bytes \<Rightarrow>
          (case decode bytes of
             None \<Rightarrow> JString ''[invalid JSON]''
           | Some v \<Rightarrow>
               (case decode (fst (redactJSON u bytes (Some v) readSnapshotLimit)) of
                  None \<Rightarrow> JString ''[invalid JSON]''
                | Some value \<Rightarrow> if removeInfrastructure then removeInfrastructureFields u value else value)))"

section \<open>The event that stands for a lifecycle\<close>

definition lifecyclePipelines :: "db \<Rightarrow> string \<Rightarrow> event_row list" where
  "lifecyclePipelines db i =
     map snd (filter (\<lambda>(current, latest). sameRepository latest current \<and> ev_event latest = ''pipeline'' \<and>
         sql_eq (ev_external_id latest) (ev_external_id current) \<and> ev_id current = i \<and> ev_event current = ''pipeline'' \<and>
         nonEmpty (ev_external_id current))
       (List.product (db_events db) (db_events db)))"

definition lifecyclePushPipelines :: "db \<Rightarrow> string \<Rightarrow> event_row list" where
  "lifecyclePushPipelines db i =
     map snd (filter (\<lambda>(push, pipeline). pushPipeline db push pipeline \<and> ev_id push = i \<and> ev_event push = ''push'' \<and>
         nonEmpty (ev_revision push) \<and> \<not> hasDelivery db push)
       (List.product (db_events db) (db_events db)))"

definition currentLifecycleEventID :: "db \<Rightarrow> string \<Rightarrow> string" where
  "currentLifecycleEventID db i =
     (case sql_first (newestFirst (lifecyclePipelines db i)) of
        Some latest \<Rightarrow> ev_id latest
      | None \<Rightarrow>
          (case sql_first (newestFirst (lifecyclePushPipelines db i)) of
             Some pipeline \<Rightarrow> ev_id pipeline
           | None \<Rightarrow> i))"

section \<open>The source states of a pipeline\<close>

definition samePlace :: "EventSummary \<Rightarrow> event_row \<Rightarrow> bool" where
  "samePlace event e \<longleftrightarrow>
     ev_provider e = es_Provider event \<and> ev_source_id e = es_SourceID event \<and> ev_repository_id e = es_Repository event"

text \<open>The push that started the pipeline: the last one received before its first notification. \<^verbatim>\<open>MIN\<close> of no rows is null,
  which the source cannot scan.\<close>

definition pipelinePush :: "db \<Rightarrow> EventSummary \<Rightarrow> string \<Rightarrow> string \<Rightarrow> store_error + SourceState list" where
  "pipelinePush db event external revision =
     (case filter (\<lambda>e. samePlace event e \<and> ev_event e = ''pipeline'' \<and> ev_external_id e = Some external) (db_events db) of
        [] \<Rightarrow> Inl ErrDriver
      | p # ps \<Rightarrow>
          let started = fold min (map ev_received_at ps) (ev_received_at p) in
          Inr (case sql_first (newestFirst (filter (\<lambda>e. samePlace event e \<and> ev_event e = ''push'' \<and>
                   ev_revision e = Some revision \<and> ev_ref e = es_Ref event \<and> ev_received_at e \<le> started \<and>
                   \<not> hasDelivery db e) (db_events db))) of
                 None \<Rightarrow> []
               | Some push \<Rightarrow> [\<lparr>sst_EventID = ev_id push, sst_Status = ''waiting_for_pipeline'',
                                sst_ReceivedAt = timeUnixMilli (ev_received_at push)\<rparr>]))"

definition notificationStates :: "db \<Rightarrow> EventSummary \<Rightarrow> string \<Rightarrow> SourceState list" where
  "notificationStates db event external =
     map (\<lambda>e. \<lparr>sst_EventID = ev_id e, sst_Status = (case ev_status e of Some s \<Rightarrow> s | None \<Rightarrow> ''''),
               sst_ReceivedAt = timeUnixMilli (ev_received_at e)\<rparr>)
       (sort_key eventKeyDesc (filter (\<lambda>e. samePlace event e \<and> ev_event e = es_EventType event \<and>
          ev_external_id e = Some external) (db_events db)))"

definition pipelineSourceStates :: "db \<Rightarrow> EventSummary \<Rightarrow> store_error + SourceState list" where
  "pipelineSourceStates db event =
     (case es_ExternalID event of
        None \<Rightarrow> Inr []
      | Some external \<Rightarrow>
          if es_EventType event \<noteq> ''pipeline'' then Inr []
          else (case (if es_Trigger event = Some ''push'' then es_Revision event else None) of
            None \<Rightarrow> Inr (notificationStates db event external)
          | Some revision \<Rightarrow>
              (case pipelinePush db event external revision of
                 Inl e \<Rightarrow> Inl e
               | Inr push \<Rightarrow> Inr (push @ notificationStates db event external))))"

section \<open>Deliveries, attempts and activities\<close>

text \<open>A missing request is an empty byte slice.\<close>

definition attemptDetail ::
  "unicode \<Rightarrow> documents \<Rightarrow> SnapshotDoc option \<Rightarrow> string \<Rightarrow> attempt_row \<Rightarrow> AttemptDetail" where
  "attemptDetail u docs snapshot currentID a =
     \<lparr>ad_ID = at_id a, ad_Kind = at_kind a, ad_Actor = at_actor a, ad_Current = (at_id a = currentID),
      ad_TransportStatus = at_transport_status a, ad_DeploymentStatus = at_deployment_status a,
      ad_DeploymentID = at_deployment_id a,
      ad_RequestSnapshot = decodedRedacted u (doc_decode docs) (at_request_json a) True,
      ad_ResponseSnapshot = decodedRedacted u (doc_decode docs) (at_response_json a) True,
      ad_DeployCommand = deploymentCurl u (doc_evidence docs) (case at_request_json a of Some r \<Rightarrow> r | None \<Rightarrow> '''')
         (case snapshot of Some s \<Rightarrow> s | None \<Rightarrow> SnapshotEmpty) (at_request_at a \<noteq> None),
      ad_RequestAt = map_option timeUnixMilli (at_request_at a), ad_ResponseAt = map_option timeUnixMilli (at_response_at a),
      ad_EnqueuedAt = map_option timeUnixMilli (at_enqueued_at a),
      ad_MonitoringDeadlineAt = map_option timeUnixMilli (at_monitoring_deadline_at a),
      ad_CreatedAt = timeUnixMilli (at_created_at a)\<rparr>"

definition deliveryAttempts ::
  "unicode \<Rightarrow> documents \<Rightarrow> db \<Rightarrow> string \<Rightarrow> string \<Rightarrow> SnapshotDoc option \<Rightarrow> AttemptDetail list" where
  "deliveryAttempts u docs db deliveryID currentID snapshot =
     map (attemptDetail u docs snapshot currentID)
       (sort_key (\<lambda>a. (at_created_at a, at_id a)) (filter (\<lambda>a. at_delivery_id a = deliveryID) (db_attempts db)))"

definition eventDeliveries :: "unicode \<Rightarrow> documents \<Rightarrow> db \<Rightarrow> string \<Rightarrow> DeliveryDetail list" where
  "eventDeliveries u docs db i =
     map (\<lambda>(d, a). \<lparr>dd_Item = deliveryListItem (d, a), dd_TargetSnapshot = dl_target_snapshot d,
              dd_CreatedAt = timeUnixMilli (dl_created_at d), dd_UpdatedAt = timeUnixMilli (dl_updated_at d),
              dd_Attempts = deliveryAttempts u docs db (dl_id d) (at_id a) (dl_target_snapshot d)\<rparr>)
       (eventPairs db i)"

definition activityDetail :: "unicode \<Rightarrow> documents \<Rightarrow> audit_row \<Rightarrow> ActivityDetail" where
  "activityDetail u docs r =
     \<lparr>av_ID = au_id r, av_DeliveryID = au_delivery_id r, av_AttemptID = au_attempt_id r, av_Actor = au_actor r,
      av_Action = au_action r,
      av_Before = decodedRedacted u (doc_decode docs) (Some (doc_status docs (au_before r))) True,
      av_After = decodedRedacted u (doc_decode docs) (Some (doc_status docs (au_after r))) True,
      av_CreatedAt = timeUnixMilli (au_created_at r)\<rparr>"

definition eventActivities :: "unicode \<Rightarrow> documents \<Rightarrow> db \<Rightarrow> string \<Rightarrow> ActivityDetail list" where
  "eventActivities u docs db i =
     map (activityDetail u docs)
       (sort_key (\<lambda>r. (au_created_at r, au_id r)) (filter (\<lambda>r. au_event_id r = i) (db_audits db)))"

definition GetEventDetail :: "unicode \<Rightarrow> documents \<Rightarrow> db \<Rightarrow> time \<Rightarrow> string \<Rightarrow> store_error + EventDetail" where
  "GetEventDetail u docs db now eventID =
     (let i = currentLifecycleEventID db eventID in
      case sql_first (filter (\<lambda>e. ev_id e = i) (db_events db)) of
        None \<Rightarrow> Inl ErrNoRows
      | Some e \<Rightarrow>
          (case pipelineSourceStates db (scanEventSummary e) of
             Inl err \<Rightarrow> Inl err
           | Inr states \<Rightarrow>
               Inr \<lparr>ed_Summary = fillEventState db now (scanEventSummary e),
                    ed_Headers = decodedRedacted u (doc_decode docs) (Some (doc_headers docs (ev_raw_headers_json e))) False,
                    ed_Payload = decodedRedacted u (doc_decode docs) (ev_raw_payload_json e) False,
                    ed_RuleSnapshot = decodedRedacted u (doc_decode docs) (map_option (doc_rule docs) (ev_rule_snapshot e)) False,
                    ed_SourceStates = states, ed_Deliveries = eventDeliveries u docs db i,
                    ed_Activities = eventActivities u docs db i\<rparr>))"


section \<open>The list and the detail agree\<close>

text \<open>A query without filters.\<close>

definition unfiltered :: "EventQuery \<Rightarrow> bool" where
  "unfiltered q \<longleftrightarrow>
     eq_Source q = None \<and> eq_Repository q = None \<and> eq_Target q = None \<and> eq_Unmatched q = None \<and> eq_Ref q = None \<and>
     eq_Rule q = None \<and> eq_ID q = '''' \<and> eq_TransportStatus q = None \<and> eq_DeploymentStatus q = None"

lemma eventWhere_unfiltered: "unfiltered q \<Longrightarrow> eventWhere db q e \<longleftrightarrow> latestOfPipeline db e \<and> pushWithoutPipeline db e"
  by (simp add: unfiltered_def eventWhere_def equalsArgument_def statusFilter_def)

lemma lifecyclePipelines_mem:
  assumes "keys_ok db" and "e \<in> set (db_events db)"
  shows "l \<in> set (lifecyclePipelines db (ev_id e)) \<longleftrightarrow>
    l \<in> set (db_events db) \<and> ev_event e = ''pipeline'' \<and> nonEmpty (ev_external_id e) \<and> sameRepository l e \<and>
    ev_event l = ''pipeline'' \<and> ev_external_id l = ev_external_id e"
proof -
  have "c = e" if "c \<in> set (db_events db)" "ev_id c = ev_id e" for c
    using event_unique [OF assms(1) that(1) assms(2)] that(2) by simp
  then show ?thesis using assms(2) by (auto simp: lifecyclePipelines_def sql_eq_def nonEmpty_def image_iff)
qed

lemma lifecyclePushPipelines_mem:
  assumes "keys_ok db" and "e \<in> set (db_events db)"
  shows "p \<in> set (lifecyclePushPipelines db (ev_id e)) \<longleftrightarrow>
    p \<in> set (db_events db) \<and> ev_event e = ''push'' \<and> nonEmpty (ev_revision e) \<and> \<not> hasDelivery db e \<and> pushPipeline db e p"
proof -
  have "c = e" if "c \<in> set (db_events db)" "ev_id c = ev_id e" for c
    using event_unique [OF assms(1) that(1) assms(2)] that(2) by simp
  then show ?thesis using assms(2) by (auto simp: lifecyclePushPipelines_def image_iff)
qed

lemma newerState_iff:
  "newerState e n \<longleftrightarrow> sameRepository n e \<and> ev_event n = ev_event e \<and> sql_eq (ev_external_id n) (ev_external_id e) \<and>
     eventKeyDesc e < eventKeyDesc n"
  by (auto simp: newerState_def eventKeyDesc_def less_prod_def)

lemma lifecycle_pipeline:
  assumes k: "keys_ok db" and e: "e \<in> set (db_events db)" and p: "ev_event e = ''pipeline''" "nonEmpty (ev_external_id e)"
  shows "currentLifecycleEventID db (ev_id e) = ev_id e \<longleftrightarrow> \<not> list_ex (newerState e) (db_events db)"
proof -
  note mem = lifecyclePipelines_mem [OF k e]
  have self: "e \<in> set (lifecyclePipelines db (ev_id e))" using e p by (simp add: mem sameRepository_def)
  then obtain l where l: "sql_first (newestFirst (lifecyclePipelines db (ev_id e))) = Some l"
    using newestFirst_none by (metis empty_iff list.set(1) not_None_eq)
  have c: "currentLifecycleEventID db (ev_id e) = ev_id l" by (simp add: currentLifecycleEventID_def l)
  have lm: "l \<in> set (lifecyclePipelines db (ev_id e))" by (rule newestFirst_first(1) [OF l])
  have ext: "ev_external_id e \<noteq> None" using p(2) by (simp add: nonEmpty_def)
  have newer: "newerState e n \<Longrightarrow> n \<in> set (db_events db) \<Longrightarrow> n \<in> set (lifecyclePipelines db (ev_id e))" for n
    using p by (simp add: mem newerState_iff sql_eq_def)
  show ?thesis
  proof
    assume "currentLifecycleEventID db (ev_id e) = ev_id e"
    then have "l = e" using event_unique [OF k _ e] lm by (simp add: c mem)
    then have "\<not> newerState e n" if "n \<in> set (db_events db)" for n
      using newestFirst_first(2) [OF l newer [OF _ that]] by (auto simp: newerState_iff)
    then show "\<not> list_ex (newerState e) (db_events db)" by (auto simp: list_ex_iff)
  next
    assume "\<not> list_ex (newerState e) (db_events db)"
    then have "\<not> newerState e l" using lm by (auto simp: list_ex_iff mem)
    then have "eventKeyDesc l \<le> eventKeyDesc e" using lm ext p(1) by (auto simp: mem newerState_iff sql_eq_def)
    then have "eventKeyDesc l = eventKeyDesc e" using newestFirst_first(2) [OF l self] by (rule antisym)
    then show "currentLifecycleEventID db (ev_id e) = ev_id e" by (simp add: c eventKeyDesc_def)
  qed
qed

lemma lifecycle_push:
  assumes k: "keys_ok db" and e: "e \<in> set (db_events db)" and n: "\<not> (ev_event e = ''pipeline'' \<and> nonEmpty (ev_external_id e))"
  shows "currentLifecycleEventID db (ev_id e) = ev_id e \<longleftrightarrow> pushWithoutPipeline db e"
proof -
  have none: "lifecyclePipelines db (ev_id e) = []" using lifecyclePipelines_mem [OF k e] n by (cases "lifecyclePipelines db (ev_id e)") force+
  note mem = lifecyclePushPipelines_mem [OF k e]
  show ?thesis
  proof (cases "sql_first (newestFirst (lifecyclePushPipelines db (ev_id e)))")
    case None
    then have "lifecyclePushPipelines db (ev_id e) = []" by (simp only: newestFirst_none)
    then have "pushWithoutPipeline db e" using mem by (auto simp: pushWithoutPipeline_def list_ex_iff)
    then show ?thesis using None by (simp add: currentLifecycleEventID_def none newestFirst_def)
  next
    case (Some p)
    then have p: "p \<in> set (db_events db)" "ev_event e = ''push''" "nonEmpty (ev_revision e)" "\<not> hasDelivery db e" "pushPipeline db e p"
      using newestFirst_first(1) [OF Some] mem by blast+
    then have "\<not> pushWithoutPipeline db e" by (auto simp: pushWithoutPipeline_def list_ex_iff)
    moreover have "ev_id p \<noteq> ev_id e" using event_unique [OF k p(1) e] p(2,5) by (auto simp: pushPipeline_def)
    ultimately show ?thesis using Some by (simp add: currentLifecycleEventID_def none newestFirst_def)
  qed
qed

lemma listed_iff_own_lifecycle:
  assumes "keys_ok db" and "e \<in> set (db_events db)" and "unfiltered q"
  shows "eventWhere db q e \<longleftrightarrow> currentLifecycleEventID db (ev_id e) = ev_id e"
proof (cases "ev_event e = ''pipeline'' \<and> nonEmpty (ev_external_id e)")
  case True
  then show ?thesis using lifecycle_pipeline [OF assms(1,2)]
    by (simp add: eventWhere_unfiltered [OF assms(3)] latestOfPipeline_def pushWithoutPipeline_def)
next
  case False
  then show ?thesis using lifecycle_push [OF assms(1,2) False]
    by (auto simp: eventWhere_unfiltered [OF assms(3)] latestOfPipeline_def)
qed

section \<open>What a detail shows\<close>

text \<open>No field that names the infrastructure, at any depth.\<close>

fun noInfrastructure :: "unicode \<Rightarrow> json \<Rightarrow> bool" where
  "noInfrastructure u (JObject ms) \<longleftrightarrow> (\<forall>(k, v)\<in>set ms. \<not> infrastructureKey u k \<and> noInfrastructure u v)"
| "noInfrastructure u (JArray vs) \<longleftrightarrow> (\<forall>v\<in>set vs. noInfrastructure u v)"
| "noInfrastructure u v \<longleftrightarrow> True"

lemma removeInfrastructureFields_clean: "noInfrastructure u (removeInfrastructureFields u v)"
  by (induction u v rule: removeInfrastructureFields.induct) auto

lemma decodedRedacted_clean: "noInfrastructure u (decodedRedacted u decode raw True)"
  by (simp add: decodedRedacted_def removeInfrastructureFields_clean split: option.splits)

lemma eventPairs_mem [simp]: "(d, a) \<in> set (eventPairs db i) \<longleftrightarrow> (d, a) \<in> set (current_pairs db) \<and> dl_event_id d = i"
  by (auto simp: eventPairs_def)

lemma filter_key_singleton:
  "distinct (map key xs) \<Longrightarrow> x \<in> set xs \<Longrightarrow> filter (\<lambda>y. key y = key x) xs = [x]"
proof (induction xs)
  case (Cons y ys)
  then show ?case
  proof (cases "y = x")
    case True
    then have "filter (\<lambda>z. key z = key x) ys = []" using Cons.prems(1) True by (simp add: filter_empty_conv) (metis image_eqI)
    then show ?thesis using True by simp
  next
    case False
    then have "x \<in> set ys" "key y \<noteq> key x" using Cons.prems by auto
    then show ?thesis using Cons by simp
  qed
qed simp

lemma deliveryAttempts_current:
  assumes k: "keys_ok db" and p: "(d, a) \<in> set (current_pairs db)"
  shows "map ad_ID (filter ad_Current (deliveryAttempts u docs db (dl_id d) (at_id a) snapshot)) = [at_id a]"
proof -
  define rows where "rows = sort_key (\<lambda>a. (at_created_at a, at_id a)) (filter (\<lambda>b. at_delivery_id b = dl_id d) (db_attempts db))"
  have d: "distinct (map at_id rows)"
    using k by (simp add: rows_def keys_ok_def distinct_map inj_on_def)
  have a: "a \<in> set rows" using p by (simp add: rows_def is_current_def)
  have "filter (\<lambda>b. at_id b = at_id a) rows = [a]" by (rule filter_key_singleton [OF d a])
  then show ?thesis
    by (simp add: deliveryAttempts_def attemptDetail_def filter_map o_def flip: rows_def)
qed

lemma GetEventDetail_InrD:
  assumes "GetEventDetail u docs db now i = Inr detail"
  shows "es_ID (ed_Summary detail) = currentLifecycleEventID db i \<and>
    ed_Deliveries detail = eventDeliveries u docs db (currentLifecycleEventID db i) \<and>
    ed_Activities detail = eventActivities u docs db (currentLifecycleEventID db i) \<and>
    es_Deliveries (ed_Summary detail) = map dd_Item (ed_Deliveries detail)"
proof -
  obtain e where e: "sql_first (filter (\<lambda>e. ev_id e = currentLifecycleEventID db i) (db_events db)) = Some e"
    using assms by (auto simp: GetEventDetail_def Let_def split: option.splits)
  have "ev_id e = currentLifecycleEventID db i" using sql_first_SomeD [OF e] by simp
  then show ?thesis using assms e
    by (auto simp: GetEventDetail_def Let_def fillEventState_def scanEventSummary_def eventDeliveries_def split: sum.splits)
qed

end
