(* ===== verification/Admin_Api.thy ===== *)
theory Admin_Api
  imports Auth Attempts_Service Startup Store_Detail
begin

text \<open>
  The management interface (\<^verbatim>\<open>internal/adminapi/handler.go\<close>): its routes with the guard each is registered behind, the
  handlers that change state, the parser of the event query, and the operations that the event detail offers.

  A handler's answer is the status with the code of \<^verbatim>\<open>writeError\<close>, or the value it writes. What the standard library makes of
  a request (the media type, the decoded body, the query values) is an argument.
\<close>

section \<open>Guards\<close>

record AdminRequest =
  am_Auth :: AuthRequest
  am_Origin :: string

text \<open>\<^verbatim>\<open>ExpectedOrigin\<close> is empty for the development service and when no service is configured.\<close>

record AdminDependencies =
  ap_Provider :: AuthProvider
  ap_ExpectedOrigin :: string

definition sameOrigin :: "AdminDependencies \<Rightarrow> AdminRequest \<Rightarrow> (Principal \<Rightarrow> Admission) \<Rightarrow> Principal \<Rightarrow> Admission" where
  "sameOrigin deps request next actor =
     (if ap_ExpectedOrigin deps \<noteq> '''' \<and> am_Origin request \<noteq> ap_ExpectedOrigin deps
      then Refused (reply [] 403 (ErrorBody ''forbidden'' ''origin not allowed''))
      else next actor)"

definition protected :: "AdminDependencies \<Rightarrow> time \<Rightarrow> AdminRequest \<Rightarrow> string \<Rightarrow> (Principal \<Rightarrow> Admission) \<Rightarrow> Admission" where
  "protected deps now request permission next =
     Authenticate (ap_Provider deps) now (am_Auth request) (Require permission next)"

definition protectedUnsafe :: "AdminDependencies \<Rightarrow> time \<Rightarrow> AdminRequest \<Rightarrow> string \<Rightarrow> (Principal \<Rightarrow> Admission) \<Rightarrow> Admission" where
  "protectedUnsafe deps now request permission next =
     Authenticate (ap_Provider deps) now (am_Auth request) (Require permission (sameOrigin deps request next))"

text \<open>The routes of \<^verbatim>\<open>New\<close>, with their methods, patterns and guards.\<close>

datatype Guard = Unguarded | OriginOnly | Protected string | ProtectedUnsafe string

definition adminRoutes :: "(string \<times> string \<times> Guard) list" where
  "adminRoutes =
     [(''GET'', ''/api/v1/health'', Unguarded),
      (''GET'', ''/api/v1/auth/login'', Unguarded),
      (''GET'', ''/api/v1/auth/callback'', Unguarded),
      (''GET'', ''/api/v1/auth/session'', Unguarded),
      (''POST'', ''/api/v1/auth/logout'', OriginOnly),
      (''GET'', ''/api/v1/repositories'', Protected PermissionEventsRead),
      (''GET'', ''/api/v1/ssh-tunnels'', Protected PermissionConnectionsRead),
      (''POST'', ''/api/v1/ssh-tunnels/{tunnel_id}/check'', ProtectedUnsafe PermissionConnectionsRead),
      (''GET'', ''/api/v1/connections'', Protected PermissionConnectionsRead),
      (''GET'', ''/api/v1/connections/{connection_id}/resources'', Protected PermissionConnectionsRead),
      (''GET'', ''/api/v1/targets'', Protected PermissionConnectionsRead),
      (''GET'', ''/api/v1/statistics'', Protected PermissionEventsRead),
      (''GET'', ''/api/v1/changes/stream'', Protected PermissionEventsRead),
      (''GET'', ''/api/v1/events'', Protected PermissionEventsRead),
      (''GET'', ''/api/v1/events/{event_id}'', Protected PermissionEventsRead),
      (''DELETE'', ''/api/v1/events'', ProtectedUnsafe PermissionEventsDelete),
      (''GET'', ''/api/v1/notifications'', Protected PermissionEventsRead),
      (''GET'', ''/api/v1/notifications/stream'', Protected PermissionEventsRead),
      (''POST'', ''/api/v1/deliveries/{delivery_id}/attempts'', ProtectedUnsafe PermissionDeploymentsRetry),
      (''GET'', ''/api/v1/config/status'', Protected PermissionEventsRead),
      (''POST'', ''/api/v1/config/reload'', ProtectedUnsafe PermissionConfigReload)]"

text \<open>A handler behind no authentication finds no principal in its context.\<close>

definition noPrincipal :: Principal where
  "noPrincipal = \<lparr>pr_ID = '''', pr_DisplayName = '''', pr_Permissions = []\<rparr>"

fun guardAdmits :: "AdminDependencies \<Rightarrow> time \<Rightarrow> AdminRequest \<Rightarrow> Guard \<Rightarrow> Admission" where
  "guardAdmits deps now request Unguarded = Admitted noPrincipal"
| "guardAdmits deps now request OriginOnly = sameOrigin deps request Admitted noPrincipal"
| "guardAdmits deps now request (Protected permission) = protected deps now request permission Admitted"
| "guardAdmits deps now request (ProtectedUnsafe permission) = protectedUnsafe deps now request permission Admitted"

section \<open>Handlers that change state\<close>

datatype AdminAnswer = AdminError int string | AdminAttempt string string | AdminCleared nat | AdminReload int ReloadOutcome

text \<open>The body of a manual request: larger than \<^verbatim>\<open>maxManualBody\<close>, rejected by the strict decoder or followed by more, or its
  three fields.\<close>

datatype ManualBody = ManualTooLarge | ManualInvalid | ManualRequest string string string

definition operationOf :: "string \<Rightarrow> Operation" where
  "operationOf s =
     (if s = operationText OperationRetry then OperationRetry
      else if s = operationText OperationRedeploy then OperationRedeploy else OperationOther s)"

fun attemptErrorAnswer :: "attempts_error \<Rightarrow> AdminAnswer" where
  "attemptErrorAnswer ErrOperationNotAllowed = AdminError 409 ''operation_not_allowed''"
| "attemptErrorAnswer ErrDeploymentStillActive = AdminError 409 ''deployment_still_active''"
| "attemptErrorAnswer ErrAlreadySucceeded = AdminError 409 ''already_succeeded''"
| "attemptErrorAnswer ErrStateChanged = AdminError 409 ''state_changed''"
| "attemptErrorAnswer ErrReconciliationUnavailable = AdminError 503 ''reconciliation_unavailable''"
| "attemptErrorAnswer ErrConfigReloadInProgress = AdminError 409 ''config_reload_in_progress''"
| "attemptErrorAnswer ErrTargetChanged = AdminError 409 ''target_changed''"
| "attemptErrorAnswer ErrTargetUnavailable = AdminError 409 ''target_unavailable''"
| "attemptErrorAnswer (AttemptsStore e) = AdminError 503 ''unavailable''"

text \<open>\<open>execute\<close> is the attempts service behind the handler, \<^verbatim>\<open>Attempts.Execute\<close>.\<close>

definition createAttempt ::
  "(string \<Rightarrow> string \<Rightarrow> Operation \<Rightarrow> string \<Rightarrow> string \<Rightarrow> db \<Rightarrow> attempts_return \<times> db) \<Rightarrow>
   string option \<Rightarrow> ManualBody \<Rightarrow> Principal \<Rightarrow> string \<Rightarrow> db \<Rightarrow> AdminAnswer \<times> db" where
  "createAttempt execute mediaType body actor deliveryID db =
     (if mediaType \<noteq> Some ''application/json'' then (AdminError 415 ''unsupported_media_type'', db)
      else case body of
        ManualTooLarge \<Rightarrow> (AdminError 413 ''payload_too_large'', db)
      | ManualInvalid \<Rightarrow> (AdminError 400 ''invalid_request'', db)
      | ManualRequest expected operation reason \<Rightarrow>
          if expected = '''' \<or> (operationOf operation \<noteq> OperationRetry \<and> operationOf operation \<noteq> OperationRedeploy)
          then (AdminError 400 ''invalid_request'', db)
          else if pr_ID actor = '''' then (AdminError 401 ''unauthorized'', db)
          else (case execute deliveryID expected (operationOf operation) (pr_ID actor) reason db of
            ((result, Some err), db1) \<Rightarrow> (attemptErrorAnswer err, db1)
          | ((result, None), db1) \<Rightarrow>
              if \<not> ar_Created result then (AdminError 409 ''state_changed'', db1)
              else (AdminAttempt deliveryID (ar_AttemptID result), db1)))"

definition clearHistory :: "db \<Rightarrow> AdminAnswer \<times> db" where
  "clearHistory db =
     (case ClearHistory db of
        (Inl ErrHistoryActive, db1) \<Rightarrow> (AdminError 409 ''history_active'', db1)
      | (Inl e, db1) \<Rightarrow> (AdminError 503 ''unavailable'', db1)
      | (Inr n, db1) \<Rightarrow> (AdminCleared n, db1))"

definition reloadConfig ::
  "time \<Rightarrow> bool + Generation \<Rightarrow> store_error + nat \<Rightarrow> Principal \<Rightarrow> Manager \<Rightarrow> AdminAnswer \<times> Manager" where
  "reloadConfig now loaded activeResult actor m =
     (if pr_ID actor = '''' then (AdminError 401 ''unauthorized'', m)
      else case Reload now loaded activeResult m of
        (Inl ErrReloadInProgress, m1) \<Rightarrow> (AdminError 409 ''reload_in_progress'', m1)
      | (Inl ErrInvalidConfig, m1) \<Rightarrow> (AdminError 422 ''invalid_config'', m1)
      | (Inl ErrPreWaitUnavailable, m1) \<Rightarrow> (AdminError 503 ''unavailable'', m1)
      | (Inr outcome, m1) \<Rightarrow> (AdminReload (if outcome = ReloadWaiting then 202 else 200) outcome, m1))"

section \<open>The event query\<close>

type_synonym urlValues = "(string \<times> string list) list"

text \<open>\<open>Some None\<close> is an absent key, \<open>None\<close> an invalid one.\<close>

definition singleValue :: "urlValues \<Rightarrow> string \<Rightarrow> string option option" where
  "singleValue vs key =
     (case map_of vs key of
        None \<Rightarrow> Some None
      | Some [v] \<Rightarrow> if v = '''' then None else Some (Some v)
      | Some _ \<Rightarrow> None)"

text \<open>\<^verbatim>\<open>strconv.Atoi\<close>.\<close>

definition Atoi :: "string \<Rightarrow> int option" where
  "Atoi s =
     (let negative = prefixOf ''-'' s; digits = (if negative \<or> prefixOf ''+'' s then tl s else s); n = numeralValue digits in
      if digits = [] \<or> \<not> list_all isDecimalDigit digits then None
      else if negative then (if n \<le> 2 ^ 63 then Some (- int n) else None)
      else if n < 2 ^ 63 then Some (int n) else None)"

definition boundedNumber :: "int \<Rightarrow> int option \<Rightarrow> int \<Rightarrow> string option \<Rightarrow> int option" where
  "boundedNumber low high fallback raw =
     (case raw of
        None \<Rightarrow> Some fallback
      | Some v \<Rightarrow>
          (case Atoi v of
             None \<Rightarrow> None
           | Some n \<Rightarrow> if n < low \<or> (case high of None \<Rightarrow> False | Some h \<Rightarrow> h < n) then None else Some n))"

definition queryKeys :: "string list" where
  "queryKeys = [''source'', ''repository'', ''target'', ''unmatched'', ''ref'', ''rule'', ''id'', ''status'', ''page'', ''page_size'']"

definition validTransport :: "string \<Rightarrow> bool" where
  "validTransport v \<longleftrightarrow> v \<in> set (map transportText [TransportPending, TransportSending, TransportEnqueued, TransportFailed, TransportUnknown])"

definition validDeployment :: "string \<Rightarrow> bool" where
  "validDeployment v \<longleftrightarrow> v \<in> set (map deploymentText [DeploymentNotStarted, DeploymentLocating, DeploymentRunning, DeploymentDone,
     DeploymentUnrecognized, DeploymentError, DeploymentCancelled, DeploymentTimeout, DeploymentUnknown])"

fun parseStatuses :: "string list \<Rightarrow> EventQuery \<Rightarrow> EventQuery option" where
  "parseStatuses [] q = Some q"
| "parseStatuses (raw # rest) q =
     (case cut CHR '':'' raw of
        (dimension, Some v) \<Rightarrow>
          if v = '''' then None
          else if dimension = ''transport'' then
            (if eq_TransportStatus q \<noteq> None \<or> \<not> validTransport v then None
             else parseStatuses rest (q\<lparr>eq_TransportStatus := Some v\<rparr>))
          else if dimension = ''deployment'' then
            (if eq_DeploymentStatus q \<noteq> None \<or> \<not> validDeployment v then None
             else parseStatuses rest (q\<lparr>eq_DeploymentStatus := Some v\<rparr>))
          else None
      | (_, None) \<Rightarrow> None)"

definition unmatchedValue :: "string option \<Rightarrow> bool option option" where
  "unmatchedValue raw =
     (case raw of
        None \<Rightarrow> Some None
      | Some v \<Rightarrow> if v \<noteq> ''true'' \<and> v \<noteq> ''false'' then None else Some (Some (v = ''true'')))"

definition queryUnmatched :: "urlValues \<Rightarrow> bool option option" where
  "queryUnmatched vs = Option.bind (singleValue vs ''unmatched'') unmatchedValue"

definition queryPage :: "urlValues \<Rightarrow> int option" where
  "queryPage vs = Option.bind (singleValue vs ''page'') (boundedNumber 1 None 1)"

definition queryPageSize :: "urlValues \<Rightarrow> int option" where
  "queryPageSize vs = Option.bind (singleValue vs ''page_size'') (boundedNumber 1 (Some 200) 50)"

text \<open>Every field but the statuses.\<close>

definition queryFields :: "urlValues \<Rightarrow> EventQuery option" where
  "queryFields vs =
     (case (singleValue vs ''source'', singleValue vs ''repository'', singleValue vs ''target'', queryUnmatched vs,
            singleValue vs ''ref'', singleValue vs ''rule'', singleValue vs ''id'', queryPage vs, queryPageSize vs) of
        (Some source, Some repository, Some target, Some unmatched, Some ref, Some rule, Some i, Some page, Some pageSize) \<Rightarrow>
          if (source = None) \<noteq> (repository = None) then None
          else Some \<lparr>eq_Source = source, eq_Repository = repository, eq_Target = target, eq_Unmatched = unmatched, eq_Ref = ref,
             eq_Rule = rule, eq_ID = (case i of None \<Rightarrow> '''' | Some v \<Rightarrow> v), eq_TransportStatus = None,
             eq_DeploymentStatus = None, eq_Page = page, eq_PageSize = pageSize\<rparr>
      | _ \<Rightarrow> None)"

definition parseEventQuery :: "urlValues \<Rightarrow> EventQuery option" where
  "parseEventQuery vs =
     (if \<not> list_all (\<lambda>(k, _). k \<in> set queryKeys) vs then None
      else case queryFields vs of
        None \<Rightarrow> None
      | Some q \<Rightarrow> parseStatuses (case map_of vs ''status'' of None \<Rightarrow> [] | Some raws \<Rightarrow> raws) q)"

section \<open>What the detail offers\<close>

record PublicDelivery =
  pd_Detail :: DeliveryDetail
  pd_Attention :: bool
  pd_TargetBindingStatus :: BindingStatus
  pd_AllowedOperations :: "Operation list"

text \<open>\<open>bindingStatus\<close> is the manager's \<^verbatim>\<open>BindingStatus\<close>, \<open>None\<close> without a controller.\<close>

definition publicDelivery ::
  "bool \<Rightarrow> (string \<Rightarrow> SnapshotDoc option \<Rightarrow> BindingStatus) option \<Rightarrow> DeliveryDetail \<Rightarrow> PublicDelivery" where
  "publicDelivery canRetry controller d =
     (let binding = (case controller of None \<Rightarrow> BindingCompatible
             | Some status \<Rightarrow> status (li_TargetID (dd_Item d)) (dd_TargetSnapshot d));
          allowed = li_AllowedOperations (dd_Item d)
      in \<lparr>pd_Detail = d, pd_Attention = li_Attention (dd_Item d) \<or> binding \<noteq> BindingCompatible, pd_TargetBindingStatus = binding,
          pd_AllowedOperations = (if \<not> canRetry \<or> binding \<noteq> BindingCompatible then [] else allowed)\<rparr>)"

definition publicDeliveries ::
  "bool \<Rightarrow> (string \<Rightarrow> SnapshotDoc option \<Rightarrow> BindingStatus) option \<Rightarrow> EventDetail \<Rightarrow> PublicDelivery list" where
  "publicDeliveries canRetry controller detail = map (publicDelivery canRetry controller) (ed_Deliveries detail)"

definition detailAttention ::
  "(string \<Rightarrow> SnapshotDoc option \<Rightarrow> BindingStatus) option \<Rightarrow> EventDetail \<Rightarrow> bool" where
  "detailAttention controller detail \<longleftrightarrow>
     es_Attention (ed_Summary detail) \<or>
     list_ex (\<lambda>p. pd_TargetBindingStatus p \<noteq> BindingCompatible) (publicDeliveries True controller detail)"

definition managerBindingStatus ::
  "(string \<Rightarrow> string) \<Rightarrow> canonical \<Rightarrow> Manager \<Rightarrow> string \<Rightarrow> SnapshotDoc option \<Rightarrow> BindingStatus" where
  "managerBindingStatus sha canon m = statusOfBinding sha canon (mg_current m)"

end
