(* ===== verification/Admin_Theorems.thy ===== *)
theory Admin_Theorems
  imports Worker_Theorems Admin_Api
begin

text \<open>
  The properties of the management side: the paged event list and the event detail (\<^verbatim>\<open>internal/store/query.go\<close>), the login and
  the sessions (\<^verbatim>\<open>internal/auth\<close>), and the guards and handlers of the management interface (\<^verbatim>\<open>internal/adminapi\<close>).
\<close>

section \<open>Lemmas\<close>

lemma parseStatuses_keeps:
  "parseStatuses raws q = Some q' \<Longrightarrow>
   eq_Source q' = eq_Source q \<and> eq_Repository q' = eq_Repository q \<and> eq_Page q' = eq_Page q \<and> eq_PageSize q' = eq_PageSize q"
proof (induction raws arbitrary: q)
  case (Cons raw raws)
  then show ?case by (fastforce split: prod.splits option.splits if_splits)
qed simp

lemma boundedNumber_bounds:
  "boundedNumber low high fallback raw = Some n \<Longrightarrow> low \<le> fallback \<Longrightarrow> low \<le> n"
  "boundedNumber low (Some h) fallback raw = Some n \<Longrightarrow> fallback \<le> h \<Longrightarrow> n \<le> h"
  by (auto simp: boundedNumber_def split: option.splits if_splits)

lemma parseEventQuery_ok:
  assumes "parseEventQuery vs = Some q"
  shows "pairedFilters q \<and> 1 \<le> eq_Page q \<and> 1 \<le> eq_PageSize q \<and> eq_PageSize q \<le> 200"
proof -
  obtain q0 where q0: "queryFields vs = Some q0"
      "parseStatuses (case map_of vs ''status'' of None \<Rightarrow> [] | Some raws \<Rightarrow> raws) q0 = Some q"
    using assms by (auto simp: parseEventQuery_def split: option.splits if_splits)
  then have q: "(eq_Source q0 = None) = (eq_Repository q0 = None)" "queryPage vs = Some (eq_Page q0)" "queryPageSize vs = Some (eq_PageSize q0)"
    by (auto simp: queryFields_def split: option.splits if_splits)
  have "1 \<le> eq_Page q0" "1 \<le> eq_PageSize q0" "eq_PageSize q0 \<le> 200"
    using q(2,3) by (auto simp: queryPage_def queryPageSize_def Option.bind_eq_Some_conv dest: boundedNumber_bounds)
  then show ?thesis using parseStatuses_keeps [OF q0(2)] q(1) by (simp add: pairedFilters_def)
qed

lemma onPage_self: "1 \<le> eq_Page q \<Longrightarrow> 1 \<le> eq_PageSize q \<Longrightarrow> onPage (nat (eq_Page q - 1)) (nat (eq_PageSize q)) q = q"
  by (simp add: onPage_def)

lemma allowed_admissible:
  assumes "valid_status t ds" and "op \<in> set (AllowedOperations t ds)"
  shows "ds \<noteq> DeploymentDone \<and> \<not> (Active t ds \<and> t \<noteq> TransportUnknown \<and> ds \<noteq> DeploymentUnknown)"
  using assms by (cases t) (auto simp: AllowedOperations_def Active_def valid_status_def split: if_splits)

lemma CurrentAttempt_eq:
  assumes k: "keys_ok db" and p: "(d, a) \<in> set (current_pairs db)"
  shows "\<exists>c. CurrentAttempt (dl_id d) db = Inr c \<and> ca_AttemptID c = at_id a \<and> ca_TargetID c = dl_target_id d \<and>
    ca_TargetSnapshot c = dl_target_snapshot d \<and> ca_TransportStatus c = at_transport_status a \<and>
    ca_DeploymentStatus c = at_deployment_status a"
  using currentRow_eq [OF k p] by (simp add: CurrentAttempt_def)

lemma offered_admitted:
  assumes inv: "store_inv uuid db" and idle: "mg_state m = StateIdle" and p: "(d, a) \<in> set (current_pairs db)"
    and b: "statusOfBinding sha canon (mg_current m) (dl_target_id d) (dl_target_snapshot d) = BindingCompatible"
    and op: "op \<in> set (AllowedOperations (at_transport_status a) (at_deployment_status a))"
  shows "\<exists>t c. admit sha canon m (dl_id d) (at_id a) op db = Inr (t, c)"
proof -
  have k: "keys_ok db" using inv by (simp add: store_inv_def)
  have v: "valid_status (at_transport_status a) (at_deployment_status a)"
    using store_inv_currentE(1) [OF inv p] by (simp add: attempt_ok_def)
  obtain t where t: "ResolveTarget sha canon (mg_current m) (dl_target_id d) (dl_target_snapshot d) = (Some t, BindingCompatible)"
    using b by (auto simp: statusOfBinding_def ResolveTarget_def split: option.splits if_splits SnapshotDoc.splits)
  obtain c where c: "CurrentAttempt (dl_id d) db = Inr c" "ca_AttemptID c = at_id a" "ca_TargetID c = dl_target_id d"
      "ca_TargetSnapshot c = dl_target_snapshot d" "ca_TransportStatus c = at_transport_status a"
      "ca_DeploymentStatus c = at_deployment_status a" using CurrentAttempt_eq [OF k p] by blast
  have "operationAllowed c op" using op c by (simp add: operationAllowed_iff)
  then show ?thesis using allowed_admissible [OF v op] t c idle by (auto simp: admit_def Let_def)
qed

lemma publicDelivery_offers:
  assumes "op \<in> set (pd_AllowedOperations (publicDelivery canRetry (Some status) x))"
  shows "canRetry \<and> status (li_TargetID (dd_Item x)) (dd_TargetSnapshot x) = BindingCompatible \<and>
    op \<in> set (li_AllowedOperations (dd_Item x))"
  using assms by (auto simp: publicDelivery_def Let_def split: if_splits)

section \<open>The event list\<close>

text \<open>C32. The pages of a query partition its events: every page exists, the pages put together are the matching events newest
  first, each exactly once, and a page has a successor exactly when events remain. Every query that the interface accepts
  is such a page, of at most 200 events.\<close>

theorem pages_partition:
  assumes "keys_ok db" and "pairedFilters q" and "0 < per"
  shows "concat (map (\<lambda>n. pageItems (ListEvents db now (onPage n per q))) [0..<Suc (length (visibleEvents db q) div per)]) =
      map (fillEventState db now \<circ> scanEventSummary) (visibleEvents db q) \<and>
    set (visibleEvents db q) = {e \<in> set (db_events db). eventWhere db q e} \<and>
    sorted_wrt (\<lambda>x y. eventKeyDesc y < eventKeyDesc x) (visibleEvents db q) \<and>
    (\<exists>p. ListEvents db now (onPage n per q) = Inr p \<and> length (pg_Items p) \<le> per \<and>
       pg_Total p = int (length (visibleEvents db q)) \<and> (pg_HasNext p \<longleftrightarrow> Suc n * per < length (visibleEvents db q))) \<and>
    (parseEventQuery vs = Some q \<longrightarrow>
       (\<exists>k size. onPage k size q = q \<and> 0 < size \<and> size \<le> 200))"
proof -
  have all: "length (visibleEvents db q) \<le> Suc (length (visibleEvents db q) div per) * per"
    using assms(3) div_mult_mod_eq [of "length (visibleEvents db q)" per] mod_less_divisor [OF assms(3), of "length (visibleEvents db q)"]
    by (simp only: mult_Suc)
  have parsed: "\<exists>k size. onPage k size q = q \<and> 0 < size \<and> size \<le> 200" if "parseEventQuery vs = Some q"
    using parseEventQuery_ok [OF that] onPage_self [of q] by (intro exI [of _ "nat (eq_Page q - 1)"] exI [of _ "nat (eq_PageSize q)"]) auto
  have strict: "sorted_wrt (\<lambda>x y. eventKeyDesc y < eventKeyDesc x) (visibleEvents db q)"
    unfolding visibleEvents_def by (rule newestFirst_strict) (use assms(1) in \<open>simp add: keys_ok_def distinct_map_filter\<close>)
  have "concat (map (\<lambda>n. pageItems (ListEvents db now (onPage n per q))) [0..<Suc (length (visibleEvents db q) div per)]) =
      map (fillEventState db now \<circ> scanEventSummary) (visibleEvents db q)"
    unfolding pages_concat [OF assms(2,3)] using all by (simp only: take_all length_map)
  moreover have "set (visibleEvents db q) = {e \<in> set (db_events db). eventWhere db q e}" by (simp add: visibleEvents_def)
  moreover have "\<exists>p. ListEvents db now (onPage n per q) = Inr p \<and> length (pg_Items p) \<le> per \<and>
      pg_Total p = int (length (visibleEvents db q)) \<and> (pg_HasNext p \<longleftrightarrow> Suc n * per < length (visibleEvents db q))"
    using ListEvents_page [OF assms(2,3), of db now n] by (elim exE conjE, intro exI conjI) (assumption | simp)+
  ultimately show ?thesis using strict parsed by blast
qed

text \<open>Two pushes that wait for their pipelines.\<close>

definition sample_query :: EventQuery where
  "sample_query = \<lparr>eq_Source = None, eq_Repository = None, eq_Target = None, eq_Unmatched = None, eq_Ref = None, eq_Rule = None,
     eq_ID = '''', eq_TransportStatus = None, eq_DeploymentStatus = None, eq_Page = 1, eq_PageSize = 1\<rparr>"

definition db_two :: db where
  "db_two = empty_db\<lparr>db_events := [row_event, row_event\<lparr>ev_id := ''b'', ev_delivery_id := ''33'', ev_received_at := 6\<rparr>]\<rparr>"

lemma db_two_keys: "keys_ok db_two"
  by (simp add: keys_ok_def db_two_def empty_db_def row_event_def)

theorem pages_partition_witness:
  "\<exists>p. ListEvents db_two 0 (onPage 0 1 sample_query) = Inr p \<and> pg_Total p = 2 \<and> pg_HasNext p"
proof -
  have v: "length (visibleEvents db_two sample_query) = 2" by code_simp
  have f: "pairedFilters sample_query" by (simp add: pairedFilters_def sample_query_def)
  show ?thesis using pages_partition [OF db_two_keys f, of 1 0 0 "[]"] v by auto
qed

text \<open>C33. The list and the detail agree on what an event has become: an event is in the unfiltered list exactly when it is the
  event that stands for its own lifecycle, and the detail of any event is that of the event that stands for it.\<close>

theorem listed_is_current:
  assumes "keys_ok db" and "e \<in> set (db_events db)" and "unfiltered q"
  shows "(e \<in> set (visibleEvents db q) \<longleftrightarrow> currentLifecycleEventID db (ev_id e) = ev_id e) \<and>
    (GetEventDetail u docs db now (ev_id e) = Inr detail \<longrightarrow>
       es_ID (ed_Summary detail) = currentLifecycleEventID db (ev_id e))"
  using listed_iff_own_lifecycle [OF assms] assms(2) GetEventDetail_InrD by (auto simp: visibleEvents_def)

text \<open>A pipeline that was reported running and then successful.\<close>

definition row_pipeline :: "string \<Rightarrow> millis \<Rightarrow> string \<Rightarrow> event_row" where
  "row_pipeline i at status = row_event\<lparr>ev_id := i, ev_delivery_id := i, ev_received_at := at, ev_event := ''pipeline'',
     ev_status := Some status, ev_external_id := Some ''17''\<rparr>"

definition db_pipeline :: db where
  "db_pipeline = empty_db\<lparr>db_events := [row_pipeline ''p'' 5 ''running'', row_pipeline ''q'' 6 ''success'']\<rparr>"

theorem listed_is_current_witness:
  "row_pipeline ''p'' 5 ''running'' \<notin> set (visibleEvents db_pipeline sample_query) \<and>
   currentLifecycleEventID db_pipeline ''p'' = ''q''"
proof -
  have k: "keys_ok db_pipeline" by (simp add: keys_ok_def db_pipeline_def empty_db_def row_pipeline_def row_event_def)
  have e: "row_pipeline ''p'' 5 ''running'' \<in> set (db_events db_pipeline)" by (simp add: db_pipeline_def)
  have i: "ev_id (row_pipeline ''p'' 5 ''running'') = ''p''" by (simp add: row_pipeline_def)
  have c: "currentLifecycleEventID db_pipeline ''p'' = ''q''" by code_simp
  show ?thesis using listed_is_current [OF k e, of sample_query] c by (simp add: i unfiltered_def sample_query_def)
qed

section \<open>The event detail\<close>

text \<open>An admitted operation on an attempt whose outcome is certain creates its attempt, if nothing comes in between.\<close>

lemma admitted_creates:
  assumes u: "inj uuid" and inv: "durable_inv uuid db" and ad: "admit sha canon m i e op db = Inr (t, c)" and n: "\<not> needsReconciliation c"
  shows "\<exists>new db'. Execute uuid sha canon hook remote (\<lambda>db. db) m i e op actor reason now db =
      ((\<lparr>ar_AttemptID = new, ar_Created = True\<rparr>, None), db') \<and> new \<notin> at_id ` set (db_attempts db)"
proof -
  obtain d a where p: "(d, a) \<in> set (current_pairs db)" and x: "expectation_met (createUpdate c op actor reason now) d a"
    using admit_InrD [OF ad] currentRow_SomeD [of i db]
    by (auto simp: CurrentAttempt_def expectation_met_def simp del: in_current_pairs split: option.splits)
  have "op \<in> {OperationRetry, OperationRedeploy}" using admit_InrD [OF ad] operationAllowed_known by blast
  then obtain kind where k: "operationAttemptKind op = Inr kind" by (auto simp: operationAttemptKind_def)
  obtain db' where "ApplyManualUpdate uuid (createUpdate c op actor reason now) db = (Inr (uuid (db_uuids db)), db')"
    using ApplyManualUpdate_eq [OF u inv p x] k by (simp add: after_correction_def)
  then show ?thesis using ad n fresh_ids(3) [OF u inv, of "db_uuids db"] by (simp add: Execute_def createManual_def commitManual_def)
qed

text \<open>C34. An operation is offered only to a principal that may retry, and, unless a reload is under way, a request for it on the
  attempt shown passes the checks of the attempts service that precede the reconciliation. Executed with nothing in between,
  it creates its attempt if the outcome of the current one is certain; if the outcome is not certain, the remote history
  decides, and a target without a Compose ID has none, so there the offered operation is always refused. Each delivery is shown
  with exactly one current attempt, and no request, response or audit entry shows a field that names the infrastructure.\<close>

theorem offered_operation_admitted:
  assumes inv: "inj uuid" "durable_inv uuid db" and idle: "mg_state m = StateIdle" and g: "GetEventDetail u docs db now i = Inr detail"
    and p: "p \<in> set (publicDeliveries canRetry (Some (managerBindingStatus sha canon m)) detail)"
  shows "(\<forall>op. op \<in> set (pd_AllowedOperations p) \<longrightarrow> canRetry \<and>
      (\<exists>t c. admit sha canon m (li_ID (dd_Item (pd_Detail p))) (li_CurrentAttemptID (dd_Item (pd_Detail p))) op db = Inr (t, c) \<and>
        (\<not> needsReconciliation c \<longrightarrow>
          (\<exists>new db'. Execute uuid sha canon hook remote (\<lambda>db. db) m (li_ID (dd_Item (pd_Detail p)))
              (li_CurrentAttemptID (dd_Item (pd_Detail p))) op actor reason at db =
            ((\<lparr>ar_AttemptID = new, ar_Created = True\<rparr>, None), db') \<and> new \<notin> at_id ` set (db_attempts db))) \<and>
        (needsReconciliation c \<longrightarrow> tg_ComposeID t = '''' \<longrightarrow>
          snd (fst (Execute uuid sha canon hook remote (\<lambda>db. db) m (li_ID (dd_Item (pd_Detail p)))
              (li_CurrentAttemptID (dd_Item (pd_Detail p))) op actor reason at db)) = Some ErrReconciliationUnavailable))) \<and>
    map ad_ID (filter ad_Current (dd_Attempts (pd_Detail p))) = [li_CurrentAttemptID (dd_Item (pd_Detail p))] \<and>
    (\<forall>x\<in>set (dd_Attempts (pd_Detail p)). noInfrastructure u (ad_RequestSnapshot x) \<and> noInfrastructure u (ad_ResponseSnapshot x)) \<and>
    (\<forall>x\<in>set (ed_Activities detail). noInfrastructure u (av_Before x) \<and> noInfrastructure u (av_After x))"
proof -
  have sinv: "store_inv uuid db" and k: "keys_ok db" using inv(2) by (simp_all add: durable_inv_def store_inv_def)
  obtain d a where da: "(d, a) \<in> set (current_pairs db)"
    and x: "pd_Detail p = \<lparr>dd_Item = deliveryListItem (d, a), dd_TargetSnapshot = dl_target_snapshot d,
              dd_CreatedAt = timeUnixMilli (dl_created_at d), dd_UpdatedAt = timeUnixMilli (dl_updated_at d),
              dd_Attempts = deliveryAttempts u docs db (dl_id d) (at_id a) (dl_target_snapshot d)\<rparr>"
    and pp: "p = publicDelivery canRetry (Some (managerBindingStatus sha canon m)) (pd_Detail p)"
    using p GetEventDetail_InrD [OF g] by (auto simp: publicDeliveries_def eventDeliveries_def publicDelivery_def Let_def)
  have item: "dd_Item (pd_Detail p) = deliveryListItem (d, a)" "dd_TargetSnapshot (pd_Detail p) = dl_target_snapshot d"
      "dd_Attempts (pd_Detail p) = deliveryAttempts u docs db (dl_id d) (at_id a) (dl_target_snapshot d)" using x by simp_all
  have ids: "li_ID (dd_Item (pd_Detail p)) = dl_id d" "li_CurrentAttemptID (dd_Item (pd_Detail p)) = at_id a"
    by (simp_all add: item deliveryListItem_def)
  have offer: "canRetry \<and> (\<exists>t c. admit sha canon m (dl_id d) (at_id a) op db = Inr (t, c) \<and>
        (\<not> needsReconciliation c \<longrightarrow>
          (\<exists>new db'. Execute uuid sha canon hook remote (\<lambda>db. db) m (dl_id d) (at_id a) op actor reason at db =
            ((\<lparr>ar_AttemptID = new, ar_Created = True\<rparr>, None), db') \<and> new \<notin> at_id ` set (db_attempts db))) \<and>
        (needsReconciliation c \<longrightarrow> tg_ComposeID t = '''' \<longrightarrow>
          snd (fst (Execute uuid sha canon hook remote (\<lambda>db. db) m (dl_id d) (at_id a) op actor reason at db)) =
            Some ErrReconciliationUnavailable))" if "op \<in> set (pd_AllowedOperations p)" for op
  proof -
    have "canRetry \<and> (\<exists>t c. admit sha canon m (dl_id d) (at_id a) op db = Inr (t, c))"
      using publicDelivery_offers [of op canRetry "managerBindingStatus sha canon m" "pd_Detail p"] that pp
        offered_admitted [OF sinv idle da, of sha canon op] by (simp add: item managerBindingStatus_def deliveryListItem_def)
    then obtain t c where ad: "canRetry" "admit sha canon m (dl_id d) (at_id a) op db = Inr (t, c)" by blast
    show ?thesis using ad admitted_creates [OF inv ad(2)] Execute_no_compose [OF ad(2)]
      by (intro conjI exI [of _ t] exI [of _ c] impI) simp_all
  qed
  have rest: "map ad_ID (filter ad_Current (dd_Attempts (pd_Detail p))) = [li_CurrentAttemptID (dd_Item (pd_Detail p))]"
    "\<forall>x\<in>set (dd_Attempts (pd_Detail p)). noInfrastructure u (ad_RequestSnapshot x) \<and> noInfrastructure u (ad_ResponseSnapshot x)"
    "\<forall>x\<in>set (ed_Activities detail). noInfrastructure u (av_Before x) \<and> noInfrastructure u (av_After x)"
    using deliveryAttempts_current [OF k da] GetEventDetail_InrD [OF g]
    by (auto simp: item deliveryListItem_def deliveryAttempts_def attemptDetail_def eventActivities_def activityDetail_def decodedRedacted_clean)
  show ?thesis unfolding ids using offer rest unfolding ids by blast
qed

definition sample_docs :: documents where
  "sample_docs = \<lparr>doc_decode = (\<lambda>_. None), doc_evidence = (\<lambda>_. None), doc_headers = (\<lambda>_. ''{}''), doc_rule = (\<lambda>_. ''{}''),
     doc_status = (\<lambda>_. ''{}'')\<rparr>"

text \<open>What the detail of the failed delivery of \<open>db_unsent\<close> offers.\<close>

definition unsent_delivery :: delivery_row where
  "unsent_delivery = row_delivery TransportFailed DeploymentNotStarted 7"

definition unsent_attempt :: attempt_row where
  "unsent_attempt = row_attempt\<lparr>at_transport_status := TransportFailed, at_response_at := Some 7\<rparr>"

lemma unsent_detail:
  "currentLifecycleEventID db_unsent ''a'' = ''a''" "sql_first (filter (\<lambda>e. ev_id e = ''a'') (db_events db_unsent)) = Some row_event"
  "pipelineSourceStates db_unsent (scanEventSummary row_event) = Inr []"
  "eventPairs db_unsent ''a'' = [(unsent_delivery, unsent_attempt)]"
  "dl_target_snapshot unsent_delivery = Some (tg_Snapshot sample_target)"
  by code_simp+

lemma unsent_fields:
  "dl_id unsent_delivery = ''aa''" "dl_target_id unsent_delivery = ''web''" "at_id unsent_attempt = ''aaa''"
  "at_transport_status unsent_attempt = TransportFailed" "at_deployment_status unsent_attempt = DeploymentNotStarted"
  by (simp_all add: unsent_delivery_def unsent_attempt_def row_delivery_def row_attempt_def)

theorem offered_operation_admitted_witness:
  "\<exists>new db'. Execute sample_uuid sample_sha sample_canon (\<lambda>db. (Inr (), db)) (\<lambda>_ _. HistoryArray [] True) (\<lambda>db. db) sample_manager ''aa'' ''aaa''
     OperationRetry ''admin'' [] 9000000 db_unsent = ((\<lparr>ar_AttemptID = new, ar_Created = True\<rparr>, None), db')"
proof -
  have inv: "durable_inv sample_uuid db_unsent" unfolding db_unsent_def by (rule Mark_durable(3) [OF inj_sample_uuid durable_sending])
  have idle: "mg_state sample_manager = StateIdle" by (simp add: sample_manager_def NewManager_def)
  have "isl (GetEventDetail sample_unicode sample_docs db_unsent 0 ''a'') = False"
    by (simp add: GetEventDetail_def unsent_detail(1-3) Let_def)
  then obtain detail where d: "GetEventDetail sample_unicode sample_docs db_unsent 0 ''a'' = Inr detail"
    by (cases "GetEventDetail sample_unicode sample_docs db_unsent 0 ''a''") auto
  define x where "x = hd (eventDeliveries sample_unicode sample_docs db_unsent ''a'')"
  define p where "p = publicDelivery True (Some (managerBindingStatus sample_sha sample_canon sample_manager)) x"
  have "ed_Deliveries detail = [x]"
    using GetEventDetail_InrD [OF d] by (simp add: unsent_detail(1,4) x_def eventDeliveries_def)
  then have m: "p \<in> set (publicDeliveries True (Some (managerBindingStatus sample_sha sample_canon sample_manager)) detail)"
    by (simp add: publicDeliveries_def p_def)
  have "managerBindingStatus sample_sha sample_canon sample_manager ''web'' (Some (tg_Snapshot sample_target)) = BindingCompatible"
    by (simp add: managerBindingStatus_def statusOfBinding_def sample_resolved)
  then have "pd_AllowedOperations p = [OperationRetry]" "li_ID (dd_Item (pd_Detail p)) = ''aa''" "li_CurrentAttemptID (dd_Item (pd_Detail p)) = ''aaa''"
    by (simp_all add: p_def x_def publicDelivery_def eventDeliveries_def unsent_detail(4,5) deliveryListItem_def unsent_fields AllowedOperations_def Let_def)
  then obtain t c where "admit sample_sha sample_canon sample_manager ''aa'' ''aaa'' OperationRetry db_unsent = Inr (t, c)"
      "\<not> needsReconciliation c \<longrightarrow> (\<exists>new db'. Execute sample_uuid sample_sha sample_canon (\<lambda>db. (Inr (), db)) (\<lambda>_ _. HistoryArray [] True)
        (\<lambda>db. db) sample_manager ''aa'' ''aaa'' OperationRetry ''admin'' [] 9000000 db_unsent = ((\<lparr>ar_AttemptID = new, ar_Created = True\<rparr>, None), db') \<and>
        new \<notin> at_id ` set (db_attempts db_unsent))"
    using offered_operation_admitted [OF inj_sample_uuid inv idle d m, where hook = "\<lambda>db. (Inr (), db)" and remote = "\<lambda>_ _. HistoryArray [] True" and
        actor = "''admin''" and reason = "[]" and at = 9000000] by fastforce
  moreover have "\<not> needsReconciliation unsent_current" by (simp add: needsReconciliation_def unsent_current)
  ultimately show ?thesis using unsent_admitted by auto
qed

section \<open>Login and sessions\<close>

text \<open>C38. A session is issued only at the end of a login: the browser brought back an unexpired login cookie with the state of the
  request, the provider exchanged the code with that cookie's verifier, the identity token answers that cookie's nonce and
  names the subject of the user info, and the subject is in an allowed group. The browser is then sent to a path on the own
  origin, whatever \<^verbatim>\<open>return_to\<close> was.\<close>

theorem login_sound:
  assumes "setsSession (Callback env settings now request) v"
  shows "(\<exists>transaction identity. Option.bind (ar_Cookie request loginCookieName) (ae_decodeLogin env) = Some transaction \<and>
      Unix now < lt_ExpiresAt transaction \<and> lt_State transaction = ar_Query request ''state'' \<and>
      ae_exchange env (ar_Query request ''code'') (lt_Verifier transaction) = Exchanged identity \<and>
      oi_Nonce identity = lt_Nonce transaction \<and> oi_TokenSubject identity = oi_UserInfoSubject identity \<and>
      (\<exists>g. g \<in> set (oi_Groups identity) \<and> g \<in> set (st_AllowedGroups settings))) \<and>
    (\<exists>l. rp_Location (Callback env settings now request) = Some l \<and> sameOriginPath l)"
proof -
  obtain transaction identity where "loginAccepted env settings now request transaction identity"
    using assms unfolding Callback_issues by blast
  then show ?thesis using Callback_location [OF assms] unfolding loginAccepted_def identityOk_def by blast
qed

definition sample_login :: loginTransaction where
  "sample_login = \<lparr>lt_Version = 1, lt_State = ''s'', lt_Nonce = ''n'', lt_Verifier = ''v'', lt_ReturnTo = ''//evil'', lt_IssuedAt = 0,
     lt_ExpiresAt = 600\<rparr>"

definition sample_identity :: oidcIdentity where
  "sample_identity = \<lparr>oi_TokenSubject = ''u1'', oi_UserInfoSubject = ''u1'', oi_Nonce = ''n'', oi_Name = ''Ann'', oi_Username = ''ann'',
     oi_Email = '''', oi_Groups = [''hookfly-users'']\<rparr>"

definition sample_settings :: Settings where
  "sample_settings = emptySettings\<lparr>st_Mode := ModeOIDC, st_DisplayClaim := DisplayClaimPreferredUsername, st_Issuer := ''i'',
     st_AllowedGroups := [''hookfly-users'']\<rparr>"

definition sample_session :: sessionData where
  "sample_session = \<lparr>sd_Version = 1, sd_ActorID = ''oidc:04'', sd_DisplayName = ''ann'', sd_Username = ''ann'',
     sd_Provider = ''authentik'', sd_IssuedAt = 1, sd_ExpiresAt = 28801\<rparr>"

definition sample_env :: AuthEnv where
  "sample_env = \<lparr>ae_encodeSession = (\<lambda>s. if s = sample_session then Some ''cookie'' else None),
     ae_decodeSession = (\<lambda>v. if v = ''cookie'' then Some sample_session else None),
     ae_encodeLogin = (\<lambda>t. Some ''login''), ae_decodeLogin = (\<lambda>v. if v = ''login'' then Some sample_login else None),
     ae_authorizationURL = (\<lambda>_ _ _. ''''), ae_exchange = (\<lambda>_ _. Exchanged sample_identity), ae_sha = sample_sha\<rparr>"

definition sample_callback :: AuthRequest where
  "sample_callback = \<lparr>ar_Cookie = (\<lambda>n. if n = loginCookieName then Some ''login'' else None),
     ar_Query = (\<lambda>k. if k = ''state'' then ''s'' else if k = ''code'' then ''c'' else '''')\<rparr>"

definition sample_visit :: AuthRequest where
  "sample_visit = \<lparr>ar_Cookie = (\<lambda>n. if n = sessionCookieName then Some ''cookie'' else None), ar_Query = (\<lambda>_. '''')\<rparr>"

lemma sample_login_accepted: "setsSession (Callback sample_env sample_settings second sample_callback) ''cookie''"
proof -
  have "Callback sample_env sample_settings second sample_callback =
      redirect [ClearCookie loginCookieName, SetCookie sessionCookieName ''cookie'' sessionLifetime (second + sessionLifetime)] ''/''"
    by code_simp
  then show ?thesis by (simp add: setsSession_def redirect_def)
qed

theorem login_sound_witness:
  "\<exists>l. rp_Location (Callback sample_env sample_settings second sample_callback) = Some l \<and> sameOriginPath l"
  using login_sound [OF sample_login_accepted] by blast

text \<open>C39. A session lasts eight hours to the second: with the cookie of an accepted login a request is authenticated, as the
  principal of that login's subject, exactly while fewer than 28800 seconds have passed.\<close>

theorem session_lifetime:
  assumes codec: "\<And>s v. ae_encodeSession env s = Some v \<Longrightarrow> ae_decodeSession env v = Some s"
    and issued: "setsSession (Callback env settings t request) v"
    and later: "ar_Cookie request' sessionCookieName = Some v"
  shows "(oidcAuthenticate env now request' = None \<longleftrightarrow> Unix t + 28800 \<le> Unix now) \<and>
    (\<exists>transaction identity. loginAccepted env settings t request transaction identity \<and>
       (\<forall>actor. oidcAuthenticate env now request' = Some actor \<longrightarrow>
          pr_ID actor = actorID env settings (oi_TokenSubject identity)))"
proof -
  obtain transaction identity name where l: "loginAccepted env settings t request transaction identity"
      "oidcAuthenticate env now request' = (if Unix now < Unix t + 28800
         then Some (principalFor (actorID env settings (oi_TokenSubject identity)) name) else None)"
    using session_authenticates [OF codec issued later, of now] unfolding session_seconds by blast
  then have "\<forall>actor. oidcAuthenticate env now request' = Some actor \<longrightarrow> pr_ID actor = actorID env settings (oi_TokenSubject identity)"
    by (simp add: principalFor_def split: if_splits)
  then show ?thesis using l by (auto simp: not_less)
qed

theorem session_lifetime_witness:
  "oidcAuthenticate sample_env (28801 * second) sample_visit = None \<and> oidcAuthenticate sample_env (28800 * second) sample_visit \<noteq> None"
proof -
  have codec: "ae_decodeSession sample_env v = Some s" if "ae_encodeSession sample_env s = Some v" for s v
    using that by (simp add: sample_env_def split: if_splits)
  have v: "ar_Cookie sample_visit sessionCookieName = Some ''cookie''" by (simp add: sample_visit_def)
  show ?thesis using session_lifetime [OF codec sample_login_accepted v] by (simp add: Unix_def second_def)
qed

section \<open>Guards\<close>

lemma adminRoutes_guards:
  "list_all (\<lambda>(method, path, guard). (method = ''GET'' \<or> (case guard of OriginOnly \<Rightarrow> True | ProtectedUnsafe p \<Rightarrow> True | _ \<Rightarrow> False)) \<and>
     (path = ''/api/v1/health'' \<or> prefixOf ''/api/v1/auth/'' path \<or>
      (case guard of Protected p \<Rightarrow> True | ProtectedUnsafe p \<Rightarrow> True | _ \<Rightarrow> False))) adminRoutes"
  by code_simp

lemma guardAdmits_origin:
  "guardAdmits deps now request guard = Admitted actor \<Longrightarrow> (case guard of OriginOnly \<Rightarrow> True | ProtectedUnsafe p \<Rightarrow> True | _ \<Rightarrow> False) \<Longrightarrow>
   ap_ExpectedOrigin deps = '''' \<or> am_Origin request = ap_ExpectedOrigin deps"
  by (cases guard) (auto simp: sameOrigin_def protectedUnsafe_def dest!: Authenticate_admits split: if_splits)

lemma guardAdmits_permission:
  "guardAdmits deps now request guard = Admitted actor \<Longrightarrow> guard = Protected p \<or> guard = ProtectedUnsafe p \<Longrightarrow>
   authenticateWith (ap_Provider deps) now (am_Auth request) = Some actor \<and> pr_ID actor \<noteq> '''' \<and> p \<in> set (pr_Permissions actor)"
  by (auto simp: sameOrigin_def protected_def protectedUnsafe_def dest!: Authenticate_admits split: if_splits)

text \<open>C40. Nothing of the management interface is open by accident: outside the health check and the login itself a handler runs only
  for an authenticated principal that has the permission of the route, and every route that is not a GET runs only for a
  request from the configured origin.\<close>

theorem admin_routes_guarded:
  assumes "(method, path, guard) \<in> set adminRoutes" and "guardAdmits deps now request guard = Admitted actor"
  shows "(method \<noteq> ''GET'' \<longrightarrow> ap_ExpectedOrigin deps = '''' \<or> am_Origin request = ap_ExpectedOrigin deps) \<and>
    (path \<noteq> ''/api/v1/health'' \<longrightarrow> \<not> prefixOf ''/api/v1/auth/'' path \<longrightarrow>
      (\<exists>permission. (guard = Protected permission \<or> guard = ProtectedUnsafe permission) \<and> permission \<in> set (pr_Permissions actor)) \<and>
      authenticateWith (ap_Provider deps) now (am_Auth request) = Some actor \<and> pr_ID actor \<noteq> '''')"
proof -
  have g: "method = ''GET'' \<or> (case guard of OriginOnly \<Rightarrow> True | ProtectedUnsafe p \<Rightarrow> True | _ \<Rightarrow> False)"
      "path = ''/api/v1/health'' \<or> prefixOf ''/api/v1/auth/'' path \<or> (case guard of Protected p \<Rightarrow> True | ProtectedUnsafe p \<Rightarrow> True | _ \<Rightarrow> False)"
    using adminRoutes_guards assms(1) by (auto simp: list_all_iff)
  show ?thesis using g guardAdmits_origin [OF assms(2)] guardAdmits_permission [OF assms(2)] by (cases guard) auto
qed

theorem admin_routes_guarded_witness:
  "\<exists>actor. authenticateWith (OIDCProvider sample_env) (2 * second) sample_visit = Some actor \<and>
     PermissionEventsDelete \<in> set (pr_Permissions actor)"
proof -
  define deps where "deps = \<lparr>ap_Provider = OIDCProvider sample_env, ap_ExpectedOrigin = ''https://h''\<rparr>"
  define request where "request = \<lparr>am_Auth = sample_visit, am_Origin = ''https://h''\<rparr>"
  have a: "oidcAuthenticate sample_env (2 * second) sample_visit = Some (principalFor ''oidc:04'' ''ann'')" by code_simp
  then have g: "guardAdmits deps (2 * second) request (ProtectedUnsafe PermissionEventsDelete) = Admitted (principalFor ''oidc:04'' ''ann'')"
    by (simp add: deps_def request_def protectedUnsafe_def Authenticate_def authenticateWith_def Require_def sameOrigin_def
        principalFor_def allPermissions_def)
  have r: "(''DELETE'', ''/api/v1/events'', ProtectedUnsafe PermissionEventsDelete) \<in> set adminRoutes" by (simp add: adminRoutes_def)
  show ?thesis using admin_routes_guarded [OF r g] by (auto simp: deps_def request_def)
qed

end
