(* ===== verification/Notifications.thy ===== *)
theory Notifications
  imports Store_Ingest "HOL-Library.Sublist"
begin

text \<open>
  The notification feed: \<^verbatim>\<open>internal/store/notifications.go\<close>, which reads facts off the events, the deliveries and the audit log,
  and \<^verbatim>\<open>notificationsStream\<close> of \<^verbatim>\<open>internal/adminapi/handler.go\<close>, which sends them to a browser as they appear.

  \<^item> A cursor is base64 text of a JSON object. As with the other documents of the store the model keeps what the text decodes
    to: nothing, an object, or text that is none.
  \<^item> The stream is a function of the database it opens on and of the databases it finds at each later wake-up or heartbeat;
    an interrupted connection is a shorter list. Headers, heartbeats and the JSON of a fact are not part of the model.
\<close>

section \<open>Definitions\<close>

record fact_row =
  fa_id :: string
  fa_category :: string
  fa_outcome :: string
  fa_event_id :: string
  fa_delivery_id :: "string option"
  fa_target_id :: "string option"
  fa_provider :: string
  fa_source_id :: string
  fa_repository :: string
  fa_summary :: string
  fa_occurred_at :: millis

datatype NotificationCursor = NoCursor | BadCursor | CursorOf millis string

record NotificationFact =
  nf_ID :: string
  nf_Cursor :: NotificationCursor
  nf_Category :: string
  nf_Outcome :: string
  nf_EventID :: string
  nf_DeliveryID :: string
  nf_TargetID :: string
  nf_Provider :: string
  nf_SourceID :: string
  nf_Repository :: string
  nf_Summary :: string
  nf_OccurredAt :: time

record NotificationPage =
  np_Items :: "NotificationFact list"
  np_LatestCursor :: NotificationCursor

datatype notification_error = ErrInvalidNotificationCursor

text \<open>The columns of \<^verbatim>\<open>notificationFactsUnionSQL\<close>. \<^verbatim>\<open>TRIM\<close> removes spaces only.\<close>

definition sqlTrim :: "string \<Rightarrow> string" where
  "sqlTrim s = rev (dropWhile (\<lambda>c. c = CHR '' '') (rev (dropWhile (\<lambda>c. c = CHR '' '') s)))"

definition factSummary :: "string option \<Rightarrow> string \<Rightarrow> string" where
  "factSummary message fallback =
     (case message of None \<Rightarrow> fallback | Some m \<Rightarrow> if sqlTrim m = '''' then fallback else sqlTrim m)"

text \<open>The outcome of a pipeline status and its name in the default summary.\<close>

definition pipelineOutcome :: "string \<Rightarrow> (string \<times> string) option" where
  "pipelineOutcome status =
     (if status \<in> {''created'', ''preparing'', ''scheduled''} then Some (''initializing'', ''initializing'')
      else if status \<in> {''pending'', ''queued'', ''waiting_for_resource'', ''requested''} then Some (''waiting'', ''waiting'')
      else if status \<in> {''running'', ''in_progress''} then Some (''running'', ''running'')
      else if status = ''success'' then Some (''success'', ''succeeded'')
      else if status \<in> {''failed'', ''failure''} then Some (''failure'', ''failed'')
      else if status \<in> {''canceled'', ''cancelled''} then Some (''cancelled'', ''cancelled'')
      else None)"

definition eventFact :: "string \<Rightarrow> string \<Rightarrow> string \<Rightarrow> string \<Rightarrow> event_row \<Rightarrow> fact_row" where
  "eventFact ident category outcome summary e =
     \<lparr>fa_id = ident, fa_category = category, fa_outcome = outcome, fa_event_id = ev_id e, fa_delivery_id = None, fa_target_id = None,
      fa_provider = ev_provider e, fa_source_id = ev_source_id e, fa_repository = ev_repository_id e,
      fa_summary = factSummary (ev_commit_message e) summary, fa_occurred_at = ev_received_at e\<rparr>"

definition pipelineFacts :: "event_row \<Rightarrow> fact_row list" where
  "pipelineFacts e =
     (if ev_event e = ''pipeline'' \<and> ev_repository_id e \<noteq> '''' \<and> ev_routing_result e \<noteq> RoutingUnmatched
      then case ev_status e of
             None \<Rightarrow> []
           | Some status \<Rightarrow>
               (case pipelineOutcome status of
                  None \<Rightarrow> []
                | Some p \<Rightarrow> [eventFact (''0:event:'' @ ev_id e) ''pipeline'' (fst p) (''Pipeline '' @ snd p) e])
      else [])"

definition pushFacts :: "event_row \<Rightarrow> fact_row list" where
  "pushFacts e =
     (if (ev_event e = ''push'' \<or> ev_event e = ''artifact_push'') \<and> ev_repository_id e \<noteq> ''''
      then [eventFact (''0:push:'' @ ev_id e) ''push'' ''received''
              (if ev_event e = ''artifact_push'' then ''Artifact push received'' else ''Push received'') e]
      else [])"

definition deliveryFact :: "string \<Rightarrow> string \<Rightarrow> string \<Rightarrow> millis \<Rightarrow> delivery_row \<Rightarrow> event_row \<Rightarrow> fact_row" where
  "deliveryFact ident outcome summary at d e =
     (eventFact ident ''deployment'' outcome summary e)
       \<lparr>fa_delivery_id := Some (dl_id d), fa_target_id := Some (dl_target_id d), fa_occurred_at := at\<rparr>"

definition pendingFacts :: "event_row list \<Rightarrow> delivery_row \<Rightarrow> fact_row list" where
  "pendingFacts events d =
     map (deliveryFact (''1:delivery:'' @ dl_target_id d @ '':'' @ dl_id d) ''pending'' ''Deployment waiting to trigger'' (dl_created_at d) d)
       (filter (\<lambda>e. ev_id e = dl_event_id d) events)"

text \<open>The status of a transition. Every status pair has one, so the columns are never null.\<close>

definition transitionStatus :: "statusSnapshot \<Rightarrow> string" where
  "transitionStatus s =
     (let transport = ss_TransportStatus s; deployment = ss_DeploymentStatus s in
      if deployment = DeploymentDone then ''success''
      else if deployment = DeploymentTimeout then ''timeout''
      else if deployment = DeploymentCancelled then ''cancelled''
      else if deployment \<in> {DeploymentError, DeploymentUnknown, DeploymentUnrecognized} \<or> transport \<in> {TransportFailed, TransportUnknown}
        then ''failure''
      else if deployment = DeploymentRunning then ''running''
      else if deployment = DeploymentLocating \<or> transport \<in> {TransportSending, TransportEnqueued} then ''triggering''
      else ''pending'')"

definition transitionSummary :: "string \<Rightarrow> string" where
  "transitionSummary status =
     (if status = ''triggering'' then ''Deployment triggering''
      else if status = ''running'' then ''Deployment running''
      else if status = ''success'' then ''Deployment succeeded''
      else if status = ''failure'' then ''Deployment failed''
      else if status = ''timeout'' then ''Deployment timed out''
      else if status = ''cancelled'' then ''Deployment cancelled''
      else ''Deployment waiting to trigger'')"

definition transitionFacts :: "event_row list \<Rightarrow> delivery_row list \<Rightarrow> audit_row \<Rightarrow> fact_row list" where
  "transitionFacts events deliveries u =
     (let status = transitionStatus (au_after u) in
      if status = transitionStatus (au_before u) then []
      else map (\<lambda>(e, d). deliveryFact (''2:audit:'' @ au_id u) status (transitionSummary status) (au_created_at u) d e)
             (filter (\<lambda>(e, d). ev_id e = au_event_id u \<and> dl_id d = au_delivery_id u) (List.product events deliveries)))"

definition notificationFacts :: "db \<Rightarrow> fact_row list" where
  "notificationFacts db =
     concat (map pipelineFacts (db_events db)) @ concat (map pushFacts (db_events db)) @
     concat (map (pendingFacts (db_events db)) (db_deliveries db)) @
     concat (map (transitionFacts (db_events db) (db_deliveries db)) (db_audits db))"

text \<open>\<^verbatim>\<open>ORDER BY occurred_at, id\<close>.\<close>

definition factKey :: "fact_row \<Rightarrow> millis \<times> string" where
  "factKey r = (fa_occurred_at r, fa_id r)"

definition orderedFacts :: "db \<Rightarrow> fact_row list" where
  "orderedFacts db = sort_key factKey (notificationFacts db)"

definition factsAfter :: "millis \<times> string \<Rightarrow> db \<Rightarrow> fact_row list" where
  "factsAfter key db = filter (\<lambda>r. key < factKey r) (orderedFacts db)"

definition scanFact :: "fact_row \<Rightarrow> NotificationFact" where
  "scanFact r =
     \<lparr>nf_ID = fa_id r, nf_Cursor = CursorOf (fa_occurred_at r) (fa_id r), nf_Category = fa_category r, nf_Outcome = fa_outcome r,
      nf_EventID = fa_event_id r, nf_DeliveryID = (case fa_delivery_id r of None \<Rightarrow> '''' | Some i \<Rightarrow> i),
      nf_TargetID = (case fa_target_id r of None \<Rightarrow> '''' | Some i \<Rightarrow> i), nf_Provider = fa_provider r, nf_SourceID = fa_source_id r,
      nf_Repository = fa_repository r, nf_Summary = fa_summary r, nf_OccurredAt = timeUnixMilli (fa_occurred_at r)\<rparr>"

fun decodeCursor :: "NotificationCursor \<Rightarrow> (millis \<times> string) option" where
  "decodeCursor NoCursor = Some (0, '''')"
| "decodeCursor BadCursor = None"
| "decodeCursor (CursorOf at ident) = (if at < 0 \<or> ident = '''' then None else Some (at, ident))"

definition ListNotifications :: "db \<Rightarrow> NotificationCursor \<Rightarrow> int \<Rightarrow> notification_error + NotificationPage" where
  "ListNotifications db after Limit =
     (let limit = (if Limit \<le> 0 then 50 else if 100 < Limit then 100 else Limit) in
      case decodeCursor after of
        None \<Rightarrow> Inl ErrInvalidNotificationCursor
      | Some key \<Rightarrow>
          let items = map scanFact (take (nat limit) (factsAfter key db));
              newest = (if items = [] then NoCursor else nf_Cursor (last items));
              latest = (if after \<noteq> NoCursor then newest
                        else case sql_first (rev (orderedFacts db)) of
                               None \<Rightarrow> newest
                             | Some r \<Rightarrow> CursorOf (fa_occurred_at r) (fa_id r))
          in Inr \<lparr>np_Items = items, np_LatestCursor = latest\<rparr>)"

text \<open>One pass of the loop of \<^verbatim>\<open>notificationsStream\<close>: what is sent, and the cursor it leaves.\<close>

definition streamRound :: "bool \<Rightarrow> NotificationCursor \<Rightarrow> NotificationPage \<Rightarrow> NotificationFact list \<times> NotificationCursor" where
  "streamRound first cursor page =
     (if first \<and> cursor = NoCursor then ([], np_LatestCursor page)
      else (np_Items page, if np_Items page = [] then cursor else nf_Cursor (last (np_Items page))))"

fun streamRounds :: "bool \<Rightarrow> NotificationCursor \<Rightarrow> NotificationPage \<Rightarrow> db list \<Rightarrow> NotificationFact list" where
  "streamRounds first cursor page [] = fst (streamRound first cursor page)"
| "streamRounds first cursor page (db # dbs) =
     (let (sent, cursor') = streamRound first cursor page in
      sent @ (case ListNotifications db cursor' 100 of Inl _ \<Rightarrow> [] | Inr page' \<Rightarrow> streamRounds False cursor' page' dbs))"

text \<open>The opening: a \<^verbatim>\<open>Last-Event-ID\<close> header wins over the query, and starts afresh if it is not a cursor.\<close>

definition streamStart :: "db \<Rightarrow> NotificationCursor \<Rightarrow> NotificationCursor \<Rightarrow> notification_error + (NotificationCursor \<times> NotificationPage)" where
  "streamStart db after lastEventID =
     (let resumed = (lastEventID \<noteq> NoCursor); cursor = (if resumed then lastEventID else after) in
      case ListNotifications db cursor 100 of
        Inr page \<Rightarrow> Inr (cursor, page)
      | Inl e \<Rightarrow>
          if resumed then (case ListNotifications db NoCursor 100 of Inl e' \<Rightarrow> Inl e' | Inr page \<Rightarrow> Inr (NoCursor, page))
          else Inl e)"

definition notificationsStream ::
  "db \<Rightarrow> NotificationCursor \<Rightarrow> NotificationCursor \<Rightarrow> db list \<Rightarrow> notification_error + NotificationFact list" where
  "notificationsStream db after lastEventID dbs =
     (case streamStart db after lastEventID of
        Inl e \<Rightarrow> Inl e
      | Inr (cursor, page) \<Rightarrow> Inr (streamRounds True cursor page dbs))"

section \<open>The facts\<close>

definition noticeKey :: "NotificationFact \<Rightarrow> millis \<times> string" where
  "noticeKey f = (UnixMilli (nf_OccurredAt f), nf_ID f)"

lemma noticeKey_scanFact [simp]: "noticeKey (scanFact r) = factKey r"
  by (simp add: noticeKey_def scanFact_def factKey_def)

lemma nf_Cursor_scanFact [simp]: "nf_Cursor (scanFact r) = CursorOf (fst (factKey r)) (snd (factKey r))"
  by (simp add: scanFact_def factKey_def)

lemma fa_id_deliveryFact [simp]: "fa_id (deliveryFact ident outcome summary at d e) = ident"
  by (simp add: deliveryFact_def eventFact_def)

lemma fa_id_eventFact [simp]: "fa_id (eventFact ident category outcome summary e) = ident"
  by (simp add: eventFact_def)

lemma pipelineFacts_cases: "pipelineFacts e = [] \<or> (\<exists>c r s. pipelineFacts e = [eventFact (''0:event:'' @ ev_id e) c r s e])"
proof (cases "ev_status e")
  case (Some status)
  show ?thesis
  proof (cases "pipelineOutcome status")
    case p: (Some p)
    have "pipelineFacts e = [] \<or> pipelineFacts e = [eventFact (''0:event:'' @ ev_id e) ''pipeline'' (fst p) (''Pipeline '' @ snd p) e]"
      by (simp add: pipelineFacts_def Some p del: append_Cons)
    then show ?thesis by blast
  qed (simp add: pipelineFacts_def Some)
qed (simp add: pipelineFacts_def)

lemma pipelineFacts_id: "r \<in> set (pipelineFacts e) \<Longrightarrow> fa_id r = ''0:event:'' @ ev_id e"
  using pipelineFacts_cases[of e] by auto

lemma pipelineFacts_single: "length (pipelineFacts e) \<le> Suc 0"
  using pipelineFacts_cases[of e] by auto

lemma pushFacts_single: "length (pushFacts e) \<le> Suc 0"
  by (simp add: pushFacts_def)

lemma pushFacts_id: "r \<in> set (pushFacts e) \<Longrightarrow> fa_id r = ''0:push:'' @ ev_id e"
  by (auto simp: pushFacts_def split: if_splits)

lemma pendingFacts_id: "r \<in> set (pendingFacts events d) \<Longrightarrow> fa_id r = ''1:delivery:'' @ dl_target_id d @ '':'' @ dl_id d"
  by (auto simp: pendingFacts_def)

lemma transitionFacts_id: "r \<in> set (transitionFacts events deliveries u) \<Longrightarrow> fa_id r = ''2:audit:'' @ au_id u"
  by (auto simp: transitionFacts_def Let_def split: if_splits)

lemmas fact_ids = pipelineFacts_id pushFacts_id pendingFacts_id transitionFacts_id

lemma fact_id_nonempty: "r \<in> set (notificationFacts db) \<Longrightarrow> fa_id r \<noteq> ''''"
  by (auto simp: notificationFacts_def dest: fact_ids)

text \<open>A table whose rows give at most one fact each, named after their keys, gives facts with distinct names.\<close>

lemma distinct_fact_ids:
  assumes "distinct (map key xs)" "inj_on name (key ` set xs)"
    and "\<And>x. x \<in> set xs \<Longrightarrow> length (g x) \<le> 1" "\<And>x r. x \<in> set xs \<Longrightarrow> r \<in> set (g x) \<Longrightarrow> fa_id r = name (key x)"
  shows "distinct (map fa_id (concat (map g xs)))"
  using assms
proof (induction xs)
  case (Cons x xs)
  have one: "distinct (map fa_id (g x))" using Cons.prems(3)[of x] by (cases "g x") auto
  have "fa_id r \<noteq> fa_id r'" if "r \<in> set (g x)" "y \<in> set xs" "r' \<in> set (g y)" for r r' y
  proof -
    have "key x \<noteq> key y" using Cons.prems(1) that(2) by auto
    then show ?thesis using Cons.prems(2) Cons.prems(4)[of x r] Cons.prems(4)[of y r'] that by (auto simp: inj_on_def)
  qed
  moreover have "distinct (map fa_id (concat (map g xs)))"
    using Cons.prems by (intro Cons.IH) (auto simp: inj_on_def)
  ultimately show ?case using one by fastforce
qed simp

lemma filter_unique_length:
  assumes "distinct xs" "\<And>x y. x \<in> set xs \<Longrightarrow> y \<in> set xs \<Longrightarrow> P x \<Longrightarrow> P y \<Longrightarrow> x = y"
  shows "length (filter P xs) \<le> 1"
proof (rule ccontr)
  assume "\<not> length (filter P xs) \<le> 1"
  then obtain a b rest where ab: "filter P xs = a # b # rest"
    by (metis One_nat_def Suc_leI le_eq_less_or_eq length_0_conv length_Suc_conv list.exhaust list.size(3) not_less_eq_eq zero_le)
  then have "a \<in> set (filter P xs)" "b \<in> set (filter P xs)" by simp_all
  then have "a = b" using assms(2) by simp
  then show False using distinct_filter[OF assms(1), of P] ab by simp
qed

text \<open>Four tables whose names carry different tags have no name in common.\<close>

lemma distinct_tagged:
  assumes "distinct (map f as)" "distinct (map f bs)" "distinct (map f cs)" "distinct (map f ds)"
    and "\<And>r. r \<in> set as \<Longrightarrow> tag (f r) = ta" "\<And>r. r \<in> set bs \<Longrightarrow> tag (f r) = tb"
      "\<And>r. r \<in> set cs \<Longrightarrow> tag (f r) = tc" "\<And>r. r \<in> set ds \<Longrightarrow> tag (f r) = td"
    and "distinct [ta, tb, tc, td]"
  shows "distinct (map f (as @ bs @ cs @ ds))"
proof -
  have apart: "f ` set xs \<inter> f ` set ys = {}"
    if "\<And>r. r \<in> set xs \<Longrightarrow> tag (f r) = x" "\<And>r. r \<in> set ys \<Longrightarrow> tag (f r) = y" "x \<noteq> y" for xs ys x y
    using that by fastforce
  have "f ` set as \<inter> f ` set bs = {}" by (rule apart[OF assms(5,6)]) (use assms(9) in simp_all)
  moreover have "f ` set as \<inter> f ` set cs = {}" by (rule apart[OF assms(5,7)]) (use assms(9) in simp_all)
  moreover have "f ` set as \<inter> f ` set ds = {}" by (rule apart[OF assms(5,8)]) (use assms(9) in simp_all)
  moreover have "f ` set bs \<inter> f ` set cs = {}" by (rule apart[OF assms(6,7)]) (use assms(9) in simp_all)
  moreover have "f ` set bs \<inter> f ` set ds = {}" by (rule apart[OF assms(6,8)]) (use assms(9) in simp_all)
  moreover have "f ` set cs \<inter> f ` set ds = {}" by (rule apart[OF assms(7,8)]) (use assms(9) in simp_all)
  ultimately show ?thesis using assms(1-4) by (simp add: Int_Un_distrib)
qed

definition plainDeliveryIds :: "db \<Rightarrow> bool" where
  "plainDeliveryIds db \<longleftrightarrow> (\<forall>d\<in>set (db_deliveries db). CHR '':'' \<notin> set (dl_id d))"

lemma last_field: "CHR '':'' \<notin> set i \<Longrightarrow> takeWhile (\<lambda>c. c \<noteq> CHR '':'') (rev (s @ CHR '':'' # i)) = rev i"
  by (subst rev_append, subst rev.simps, subst append_assoc, subst takeWhile_append2) auto

lemma last_field_unique:
  assumes "s @ CHR '':'' # i = t @ CHR '':'' # j" "CHR '':'' \<notin> set i" "CHR '':'' \<notin> set j"
  shows "i = j"
proof -
  have "rev i = rev j" using last_field[OF assms(2), of s] last_field[OF assms(3), of t] assms(1) by simp
  then show ?thesis by simp
qed

text \<open>The names of all facts are distinct: the union tags each table's names, and within a table they contain its key.\<close>

lemma fact_ids_distinct:
  assumes "keys_ok db" "plainDeliveryIds db"
  shows "distinct (map fa_id (notificationFacts db))"
proof -
  have k: "distinct (map ev_id (db_events db))" "distinct (map dl_id (db_deliveries db))" "distinct (map au_id (db_audits db))"
    using assms(1) by (simp_all add: keys_ok_def)
  have events: "distinct (map fa_id (concat (map pipelineFacts (db_events db))))"
    by (rule distinct_fact_ids[OF k(1), where name = "\<lambda>i. ''0:event:'' @ i"])
       (auto simp: inj_on_def pipelineFacts_single dest: pipelineFacts_id)
  have pushes: "distinct (map fa_id (concat (map pushFacts (db_events db))))"
    by (rule distinct_fact_ids[OF k(1), where name = "\<lambda>i. ''0:push:'' @ i"])
       (auto simp: inj_on_def pushFacts_single dest: pushFacts_id)
  have deliveries: "distinct (map fa_id (concat (map (pendingFacts (db_events db)) (db_deliveries db))))"
  proof (rule distinct_fact_ids[where key = "\<lambda>d. (dl_target_id d, dl_id d)" and name = "\<lambda>(t, i). ''1:delivery:'' @ t @ '':'' @ i"])
    show "distinct (map (\<lambda>d. (dl_target_id d, dl_id d)) (db_deliveries db))" using k(2) by (auto simp: distinct_map inj_on_def)
    show "inj_on (\<lambda>(t, i). ''1:delivery:'' @ t @ '':'' @ i) ((\<lambda>d. (dl_target_id d, dl_id d)) ` set (db_deliveries db))"
    proof (rule inj_onI)
      fix x y
      assume "x \<in> (\<lambda>d. (dl_target_id d, dl_id d)) ` set (db_deliveries db)" "y \<in> (\<lambda>d. (dl_target_id d, dl_id d)) ` set (db_deliveries db)"
        and eq: "(\<lambda>(t, i). ''1:delivery:'' @ t @ '':'' @ i) x = (\<lambda>(t, i). ''1:delivery:'' @ t @ '':'' @ i) y"
      then have plain: "CHR '':'' \<notin> set (snd x)" "CHR '':'' \<notin> set (snd y)" using assms(2) by (auto simp: plainDeliveryIds_def)
      have "fst x @ CHR '':'' # snd x = fst y @ CHR '':'' # snd y" using eq by (simp add: case_prod_beta)
      with last_field_unique[OF this plain] show "x = y" by (simp add: prod_eq_iff)
    qed
    show "length (pendingFacts (db_events db) d) \<le> 1" for d
      using k(1) unfolding pendingFacts_def length_map by (intro filter_unique_length) (auto simp: distinct_map inj_on_def)
  qed (auto dest: pendingFacts_id)
  have audits: "distinct (map fa_id (concat (map (transitionFacts (db_events db) (db_deliveries db)) (db_audits db))))"
  proof (rule distinct_fact_ids[OF k(3), where name = "\<lambda>i. ''2:audit:'' @ i"])
    have one: "length (filter (\<lambda>(e, d). ev_id e = au_event_id u \<and> dl_id d = au_delivery_id u)
        (List.product (db_events db) (db_deliveries db))) \<le> 1" for u
    proof (rule filter_unique_length)
      show "distinct (List.product (db_events db) (db_deliveries db))"
        using k(1,2) by (intro distinct_product) (simp_all add: distinct_map)
      show "x = y" if "x \<in> set (List.product (db_events db) (db_deliveries db))" "y \<in> set (List.product (db_events db) (db_deliveries db))"
        "case x of (e, d) \<Rightarrow> ev_id e = au_event_id u \<and> dl_id d = au_delivery_id u"
        "case y of (e, d) \<Rightarrow> ev_id e = au_event_id u \<and> dl_id d = au_delivery_id u" for x y
        using that by (auto intro: event_unique[OF assms(1)] delivery_unique[OF assms(1)])
    qed
    show "length (transitionFacts (db_events db) (db_deliveries db) u) \<le> 1" for u
      using one[of u] by (simp add: transitionFacts_def Let_def)
  qed (auto simp: inj_on_def dest: transitionFacts_id)
  have t1: "take 3 (fa_id r) = ''0:e''" if "r \<in> set (concat (map pipelineFacts (db_events db)))" for r
    using that by (auto simp: pipelineFacts_id)
  have t2: "take 3 (fa_id r) = ''0:p''" if "r \<in> set (concat (map pushFacts (db_events db)))" for r
    using that by (auto simp: pushFacts_id)
  have t3: "take 3 (fa_id r) = ''1:d''" if "r \<in> set (concat (map (pendingFacts (db_events db)) (db_deliveries db)))" for r
    using that by (auto simp: pendingFacts_id)
  have t4: "take 3 (fa_id r) = ''2:a''"
    if "r \<in> set (concat (map (transitionFacts (db_events db) (db_deliveries db)) (db_audits db)))" for r
    using that by (auto simp: transitionFacts_id)
  show ?thesis unfolding notificationFacts_def
  proof (rule distinct_tagged[where f = fa_id and tag = "take 3" and ta = "''0:e''" and tb = "''0:p''" and tc = "''1:d''" and td = "''2:a''"])
    show "distinct [''0:e'', ''0:p'', ''1:d'', ''2:a'']" by simp
  qed (fact events pushes deliveries audits | (erule t1 t2 t3 t4))+
qed


section \<open>Pages\<close>

lemma orderedFacts_sorted: "sorted (map factKey (orderedFacts db))"
  by (simp add: orderedFacts_def)

lemma orderedFacts_strict:
  assumes "keys_ok db" "plainDeliveryIds db"
  shows "sorted_wrt (\<lambda>r r'. factKey r < factKey r') (orderedFacts db)"
proof -
  have "distinct (map fa_id (orderedFacts db))"
    using fact_ids_distinct[OF assms] by (simp add: orderedFacts_def distinct_map)
  then have "distinct (map factKey (orderedFacts db))" by (auto simp: distinct_map inj_on_def factKey_def)
  with orderedFacts_sorted[of db] have "sorted_wrt (<) (map factKey (orderedFacts db))" by (simp add: strict_sorted_iff)
  then show ?thesis by (simp add: sorted_wrt_map)
qed

lemma set_factsAfter [simp]: "set (factsAfter key db) = {r \<in> set (notificationFacts db). key < factKey r}"
  by (simp add: factsAfter_def orderedFacts_def)

lemma factsAfter_sorted: "sorted_wrt (\<lambda>r r'. factKey r \<le> factKey r') (factsAfter key db)"
  using orderedFacts_sorted[of db] by (simp add: factsAfter_def sorted_map sorted_wrt_filter)

lemma factsAfter_strict:
  "keys_ok db \<Longrightarrow> plainDeliveryIds db \<Longrightarrow> sorted_wrt (\<lambda>r r'. factKey r < factKey r') (factsAfter key db)"
  by (simp add: factsAfter_def orderedFacts_strict sorted_wrt_filter)

text \<open>A page of the stream is the next hundred facts after its cursor.\<close>

lemma ListNotifications_after:
  "decodeCursor cursor = Some key \<Longrightarrow>
     \<exists>page. ListNotifications db cursor 100 = Inr page \<and> np_Items page = map scanFact (take 100 (factsAfter key db))"
  by (simp add: ListNotifications_def Let_def)

lemma decode_fact_cursor:
  assumes "decodeCursor cursor = Some key" "r \<in> set (factsAfter key db)"
  shows "decodeCursor (nf_Cursor (scanFact r)) = Some (factKey r)"
proof -
  have "0 \<le> fst key" using assms(1) by (cases cursor) (auto split: if_splits)
  moreover have "fst key \<le> fst (factKey r)" using assms(2) by (auto simp: less_prod_def)
  moreover have "fa_id r \<noteq> ''''" using assms(2) by (intro fact_id_nonempty[of r db]) simp
  ultimately show ?thesis by (simp add: factKey_def)
qed

text \<open>The cursor a round leaves: the old one, or the key of the last fact it sent.\<close>

definition roundKey :: "millis \<times> string \<Rightarrow> fact_row list \<Rightarrow> millis \<times> string" where
  "roundKey key sent = (if sent = [] then key else factKey (last sent))"

lemma round_cursor:
  assumes "decodeCursor cursor = Some key" "sent = take 100 (factsAfter key db)"
  shows "decodeCursor (if map scanFact sent = [] then cursor else nf_Cursor (last (map scanFact sent))) = Some (roundKey key sent)"
proof (cases "sent = []")
  case False
  then have "last sent \<in> set (factsAfter key db)" using assms(2) last_in_set[OF False] in_set_takeD by fastforce
  then have "decodeCursor (nf_Cursor (scanFact (last sent))) = Some (factKey (last sent))" by (rule decode_fact_cursor[OF assms(1)])
  then show ?thesis using False by (simp only: last_map[OF False] roundKey_def list.map_disc_iff if_False)
qed (use assms in \<open>simp add: roundKey_def\<close>)

text \<open>The rounds after the first as a function of the key they stand at.\<close>

fun rounds :: "millis \<times> string \<Rightarrow> db list \<Rightarrow> fact_row list" where
  "rounds key [] = []"
| "rounds key (db # dbs) = (let sent = take 100 (factsAfter key db) in sent @ rounds (roundKey key sent) dbs)"

lemma streamRounds_rounds:
  assumes "decodeCursor cursor = Some key" "np_Items page = map scanFact (take 100 (factsAfter key db))"
    and "\<not> (first \<and> cursor = NoCursor)"
  shows "streamRounds first cursor page dbs = map scanFact (rounds key (db # dbs))"
  using assms
proof (induction dbs arbitrary: first cursor key page db)
  case Nil
  then show ?case by (auto simp: streamRound_def)
next
  case (Cons d dbs)
  let ?sent = "take 100 (factsAfter key db)"
  define cursor' where "cursor' = (if map scanFact ?sent = [] then cursor else nf_Cursor (last (map scanFact ?sent)))"
  have key': "decodeCursor cursor' = Some (roundKey key ?sent)"
    unfolding cursor'_def by (rule round_cursor[OF Cons.prems(1) refl])
  obtain page' where page': "ListNotifications d cursor' 100 = Inr page'"
      "np_Items page' = map scanFact (take 100 (factsAfter (roundKey key ?sent) d))"
    using ListNotifications_after[OF key'] by blast
  have "streamRound first cursor page = (map scanFact ?sent, cursor')"
    by (simp only: streamRound_def cursor'_def Cons.prems(2) Cons.prems(3)[THEN eq_False[THEN iffD2]] if_False)
  then show ?case using Cons.IH[OF key' page'(2), of False] page'(1) by (simp add: Let_def)
qed

text \<open>A stream that resumes at a cursor sends the rounds after its key.\<close>

lemma stream_resumed:
  assumes "decodeCursor cursor = Some key" "cursor \<noteq> NoCursor"
  shows "notificationsStream db cursor NoCursor dbs = Inr (map scanFact (rounds key (db # dbs)))"
    and "notificationsStream db after cursor dbs = Inr (map scanFact (rounds key (db # dbs)))"
proof -
  obtain page where page: "ListNotifications db cursor 100 = Inr page" "np_Items page = map scanFact (take 100 (factsAfter key db))"
    using ListNotifications_after[OF assms(1)] by blast
  have "streamRounds True cursor page dbs = map scanFact (rounds key (db # dbs))"
    by (rule streamRounds_rounds[OF assms(1) page(2)]) (simp add: assms(2))
  then show "notificationsStream db cursor NoCursor dbs = Inr (map scanFact (rounds key (db # dbs)))"
    "notificationsStream db after cursor dbs = Inr (map scanFact (rounds key (db # dbs)))"
    using page(1) assms(2) by (simp_all add: notificationsStream_def streamStart_def Let_def)
qed


section \<open>The order of the stream\<close>

lemma roundKey_ge: "sent = take n (factsAfter key db) \<Longrightarrow> key \<le> roundKey key sent"
proof -
  assume sent: "sent = take n (factsAfter key db)"
  have "last sent \<in> set (factsAfter key db)" if "sent \<noteq> []" using last_in_set[OF that] sent in_set_takeD by fast
  then show ?thesis by (auto simp: roundKey_def)
qed

lemma roundKey_last:
  assumes "sent = take n (factsAfter key db)" "r \<in> set sent"
  shows "factKey r \<le> roundKey key sent"
proof -
  have ne: "sent \<noteq> []" using assms(2) by auto
  have "sorted (map factKey sent)"
    using factsAfter_sorted[of key db] assms(1) by (simp add: sorted_map sorted_wrt_take)
  then have "factKey r \<le> factKey (last sent)"
    using assms(2) by (cases sent rule: rev_cases) (auto simp: sorted_append)
  then show ?thesis using ne by (simp add: roundKey_def)
qed

lemma rounds_after: "r \<in> set (rounds key dbs) \<Longrightarrow> key < factKey r \<and> (\<exists>db\<in>set dbs. r \<in> set (notificationFacts db))"
proof (induction dbs arbitrary: key)
  case (Cons db dbs)
  let ?sent = "take 100 (factsAfter key db)"
  from Cons.prems consider "r \<in> set ?sent" | "r \<in> set (rounds (roundKey key ?sent) dbs)" by (auto simp: Let_def)
  then show ?case
  proof cases
    case 1
    then have "r \<in> set (factsAfter key db)" by (rule in_set_takeD)
    then show ?thesis by simp
  next
    case 2
    then show ?thesis using Cons.IH[OF 2] roundKey_ge[OF refl, of key 100 db] by auto
  qed
qed simp

lemma rounds_strict:
  assumes "\<forall>db\<in>set dbs. keys_ok db \<and> plainDeliveryIds db"
  shows "sorted_wrt (\<lambda>r r'. factKey r < factKey r') (rounds key dbs)"
  using assms
proof (induction dbs arbitrary: key)
  case (Cons db dbs)
  let ?sent = "take 100 (factsAfter key db)"
  have "sorted_wrt (\<lambda>r r'. factKey r < factKey r') ?sent"
    using Cons.prems by (auto intro!: sorted_wrt_take factsAfter_strict)
  moreover have "factKey r < factKey r'" if "r \<in> set ?sent" "r' \<in> set (rounds (roundKey key ?sent) dbs)" for r r'
    using roundKey_last[OF refl that(1)] rounds_after[OF that(2)] by auto
  ultimately show ?case using Cons by (simp add: Let_def sorted_wrt_append)
qed simp

lemma rounds_append:
  "\<exists>key'. rounds key (dbs @ later) = rounds key dbs @ rounds key' later \<and> key \<le> key' \<and> (\<forall>r\<in>set (rounds key dbs). factKey r \<le> key')"
proof (induction dbs arbitrary: key)
  case (Cons db dbs)
  let ?sent = "take 100 (factsAfter key db)"
  obtain key' where k: "rounds (roundKey key ?sent) (dbs @ later) = rounds (roundKey key ?sent) dbs @ rounds key' later"
      "roundKey key ?sent \<le> key'" "\<forall>r\<in>set (rounds (roundKey key ?sent) dbs). factKey r \<le> key'"
    using Cons.IH by blast
  have "\<forall>r\<in>set ?sent. factKey r \<le> key'" using roundKey_last[OF refl] k(2) order_trans by blast
  moreover have "key \<le> key'" using roundKey_ge[OF refl, of key 100 db] k(2) by (rule order_trans)
  ultimately show ?case using k by (intro exI[of _ key']) (auto simp: Let_def)
qed auto


section \<open>A store that grows in the order of the cursor\<close>

fun growing :: "db list \<Rightarrow> bool" where
  "growing (db # db' # dbs) \<longleftrightarrow> prefix (orderedFacts db) (orderedFacts db') \<and> growing (db' # dbs)"
| "growing _ \<longleftrightarrow> True"

fun paced :: "db list \<Rightarrow> bool" where
  "paced (db # db' # dbs) \<longleftrightarrow> length (orderedFacts db') \<le> length (orderedFacts db) + 100 \<and> paced (db' # dbs)"
| "paced _ \<longleftrightarrow> True"

definition strictlyOrdered :: "db \<Rightarrow> bool" where
  "strictlyOrdered db \<longleftrightarrow> sorted_wrt (\<lambda>r r'. factKey r < factKey r') (orderedFacts db)"

lemma growing_last: "growing (db # dbs) \<Longrightarrow> prefix (orderedFacts db) (orderedFacts (last (db # dbs)))"
  by (induction dbs arbitrary: db) (auto intro: prefix_order.order_trans)

lemma strictlyOrdered_prefix: "strictlyOrdered db' \<Longrightarrow> prefix (orderedFacts db) (orderedFacts db') \<Longrightarrow> strictlyOrdered db"
  by (auto simp: strictlyOrdered_def prefix_def sorted_wrt_append)

lemma factsAfter_prefix: "prefix (orderedFacts db) (orderedFacts db') \<Longrightarrow> prefix (factsAfter key db) (factsAfter key db')"
  by (auto simp: factsAfter_def prefix_def)

text \<open>What lies after the last of the first facts is the rest of them.\<close>

lemma factsAfter_rest:
  assumes "strictlyOrdered db" "sent = take n (factsAfter key db)"
  shows "factsAfter (roundKey key sent) db = drop n (factsAfter key db)"
proof (cases "sent = []")
  case True
  then show ?thesis using assms(2) by (auto simp: roundKey_def)
next
  case False
  let ?k = "factKey (last sent)"
  have split: "factsAfter key db = sent @ drop n (factsAfter key db)" using assms(2) by simp
  have "last sent \<in> set (factsAfter key db)" using last_in_set[OF False] assms(2) in_set_takeD by fast
  then have "key < ?k" by simp
  then have "factsAfter ?k db = filter (\<lambda>r. ?k < factKey r) (factsAfter key db)"
    unfolding factsAfter_def filter_filter by (intro filter_cong) auto
  also have "\<dots> = filter (\<lambda>r. ?k < factKey r) sent @ filter (\<lambda>r. ?k < factKey r) (drop n (factsAfter key db))"
    by (subst split) (simp only: filter_append)
  also have "filter (\<lambda>r. ?k < factKey r) sent = []"
    using roundKey_last[OF assms(2)] False by (auto simp: roundKey_def filter_empty_conv not_less)
  also have "filter (\<lambda>r. ?k < factKey r) (drop n (factsAfter key db)) = drop n (factsAfter key db)"
  proof -
    have "sorted_wrt (\<lambda>r r'. factKey r < factKey r') (sent @ drop n (factsAfter key db))"
      using assms(1) split by (metis factsAfter_def sorted_wrt_filter strictlyOrdered_def)
    then show ?thesis using last_in_set[OF False] by (auto simp: filter_id_conv sorted_wrt_append)
  qed
  finally show ?thesis using False by (simp add: roundKey_def)
qed

lemma rounds_prefix:
  "growing (db # dbs) \<Longrightarrow> strictlyOrdered (last (db # dbs)) \<Longrightarrow>
     \<exists>n. rounds key (db # dbs) = take n (factsAfter key (last (db # dbs)))"
proof (induction dbs arbitrary: db key)
  case (Cons db' dbs)
  let ?sent = "take 100 (factsAfter key db)" and ?final = "last (db' # dbs)"
  have "prefix (orderedFacts db) (orderedFacts ?final)" using growing_last[OF Cons.prems(1)] by simp
  then have "prefix ?sent (factsAfter key ?final)"
    using factsAfter_prefix take_is_prefix prefix_order.order_trans by blast
  then have sent: "?sent = take (length ?sent) (factsAfter key ?final)" by (metis append_eq_conv_conj prefix_def)
  obtain n where "rounds (roundKey key ?sent) (db' # dbs) = take n (factsAfter (roundKey key ?sent) ?final)"
    using Cons.IH[of db' "roundKey key ?sent"] Cons.prems by auto
  also have "factsAfter (roundKey key ?sent) ?final = drop (length ?sent) (factsAfter key ?final)"
    using factsAfter_rest[OF _ sent] Cons.prems(2) by simp
  finally have "rounds key (db # db' # dbs) = take (length ?sent) (factsAfter key ?final) @ take n (drop (length ?sent) (factsAfter key ?final))"
    using sent by (simp only: rounds.simps(2)[of key db] Let_def)
  then show ?case by (auto simp: take_add[symmetric])
qed auto

lemma rounds_complete:
  "growing (db # dbs) \<Longrightarrow> strictlyOrdered (last (db # dbs)) \<Longrightarrow> paced (db # dbs) \<Longrightarrow> length (factsAfter key db) \<le> 100 \<Longrightarrow>
     rounds key (db # dbs) = factsAfter key (last (db # dbs))"
proof (induction dbs arbitrary: db key)
  case (Cons db' dbs)
  let ?sent = "factsAfter key db" and ?final = "last (db' # dbs)"
  have all: "take 100 ?sent = ?sent" using Cons.prems(4) by simp
  have grow: "prefix (orderedFacts db) (orderedFacts db')" "prefix (orderedFacts db) (orderedFacts ?final)"
    using Cons.prems(1) growing_last[OF Cons.prems(1)] by simp_all
  then have sent: "?sent = take (length ?sent) (factsAfter key db')" "?sent = take (length ?sent) (factsAfter key ?final)"
    using factsAfter_prefix by (metis append_eq_conv_conj prefix_def)+
  have ordered: "strictlyOrdered db'" "strictlyOrdered ?final"
    using Cons.prems(1,2) strictlyOrdered_prefix growing_last[of db' dbs] by auto
  note rest = factsAfter_rest[OF ordered(1) sent(1)] factsAfter_rest[OF ordered(2) sent(2)]
  obtain new where new: "orderedFacts db' = orderedFacts db @ new" using grow(1) by (auto simp: prefix_def)
  then have "length new \<le> 100" using Cons.prems(3) by simp
  then have "length (factsAfter (roundKey key ?sent) db') \<le> 100"
    unfolding rest(1) using new le_trans[OF length_filter_le[of _ new]] by (simp add: factsAfter_def)
  then have "rounds (roundKey key ?sent) (db' # dbs) = factsAfter (roundKey key ?sent) ?final"
    using Cons.IH Cons.prems by simp
  then have "rounds key (db # db' # dbs) = ?sent @ drop (length ?sent) (factsAfter key ?final)"
    unfolding rest(2)[symmetric] by (simp only: rounds.simps(2)[of key db] Let_def all)
  then show ?case using sent(2) by (metis append_take_drop_id last_ConsR list.distinct(1))
qed simp

end
