(* ===== verification/Feed_Theorems.thy ===== *)
theory Feed_Theorems
  imports Sample_Data Notifications
begin

text \<open>
  The properties of the notification feed: what a stream sends, in which order, when it is complete, and which fact it never
  sends. Each is applied to a stream over the stages of the sample delivery.
\<close>

section \<open>What a stream sends\<close>

text \<open>C36. A stream that resumes at a cursor sends facts of the databases it saw, all after the cursor, in strictly increasing order
  of time and name, so none twice. If the store grows in that order, what was sent is an initial part of the facts after the
  cursor; if moreover no more than a hundred appear between two rounds, it is all of them.\<close>

theorem stream_exactly_once:
  assumes "decodeCursor cursor = Some key" and "cursor \<noteq> NoCursor"
    and keys: "\<forall>d\<in>set (db # dbs). keys_ok d \<and> plainDeliveryIds d"
  shows "\<exists>sent. notificationsStream db cursor NoCursor dbs = Inr sent \<and>
    sorted_wrt (\<lambda>f g. noticeKey f < noticeKey g) sent \<and>
    (\<forall>f\<in>set sent. key < noticeKey f \<and> (\<exists>d\<in>set (db # dbs). \<exists>r\<in>set (notificationFacts d). f = scanFact r)) \<and>
    (growing (db # dbs) \<longrightarrow> prefix sent (map scanFact (factsAfter key (last (db # dbs))))) \<and>
    (growing (db # dbs) \<and> paced (db # dbs) \<and> length (factsAfter key db) \<le> 100 \<longrightarrow>
       sent = map scanFact (factsAfter key (last (db # dbs))))"
proof -
  let ?rows = "rounds key (db # dbs)"
  have final: "strictlyOrdered (last (db # dbs))"
    unfolding strictlyOrdered_def using keys last_in_set[of "db # dbs"] by (blast intro: orderedFacts_strict)
  have "prefix (map scanFact ?rows) (map scanFact (factsAfter key (last (db # dbs))))" if "growing (db # dbs)"
    using rounds_prefix[OF that final, of key] by (metis map_mono_prefix take_is_prefix)
  moreover have "sorted_wrt (\<lambda>f g. noticeKey f < noticeKey g) (map scanFact ?rows)"
    using rounds_strict[OF keys] by (simp only: sorted_wrt_map noticeKey_scanFact)
  moreover have "key < noticeKey f \<and> (\<exists>d\<in>set (db # dbs). \<exists>r\<in>set (notificationFacts d). f = scanFact r)"
    if f: "f \<in> set (map scanFact ?rows)" for f
  proof -
    obtain r where r: "r \<in> set ?rows" "f = scanFact r" using f unfolding set_map by blast
    show ?thesis using rounds_after[OF r(1)] r(2) by auto
  qed
  moreover have "growing (db # dbs) \<and> paced (db # dbs) \<and> length (factsAfter key db) \<le> 100 \<longrightarrow>
      map scanFact ?rows = map scanFact (factsAfter key (last (db # dbs)))"
    using rounds_complete[OF _ final, of key] by metis
  ultimately show ?thesis using stream_resumed(1)[OF assms(1,2), of db dbs] by metis
qed

definition sample_cursor :: NotificationCursor where
  "sample_cursor = CursorOf 0 ''x''"

lemma sample_cursor_ok: "decodeCursor sample_cursor = Some (0, ''x'')" "sample_cursor \<noteq> NoCursor"
  by (simp_all add: sample_cursor_def)

lemma sample_feed_keys: "\<forall>d\<in>set [empty_db, db_pending, db_sending]. keys_ok d \<and> plainDeliveryIds d"
proof -
  have "keys_ok empty_db" "keys_ok db_pending" "keys_ok db_sending"
    using durable_inv_keys[OF durable_inv_empty] durable_inv_keys[OF durable_pending] durable_inv_keys[OF durable_sending] .
  moreover have "list_all plainDeliveryIds [empty_db, db_pending, db_sending]" by code_simp
  ultimately show ?thesis by simp
qed

lemma sample_feed_grows:
  "growing [empty_db, db_pending, db_sending]" "paced [empty_db, db_pending, db_sending]" "length (factsAfter (0, ''x'') empty_db) \<le> 100"
  "map fa_id (factsAfter (0, ''x'') db_sending) = [''0:push:a'', ''1:delivery:web:aa'', ''2:audit:aaaa'']"
  by code_simp+

theorem stream_exactly_once_witness:
  "\<exists>sent. notificationsStream empty_db sample_cursor NoCursor [db_pending, db_sending] = Inr sent \<and>
     map nf_ID sent = [''0:push:a'', ''1:delivery:web:aa'', ''2:audit:aaaa'']"
proof -
  have "notificationsStream empty_db sample_cursor NoCursor [db_pending, db_sending] = Inr (map scanFact (factsAfter (0, ''x'') db_sending))"
    using stream_exactly_once[OF sample_cursor_ok sample_feed_keys] sample_feed_grows(1-3) by auto
  moreover have "map nf_ID (map scanFact (factsAfter (0, ''x'') db_sending)) = map fa_id (factsAfter (0, ''x'') db_sending)"
    by (simp add: scanFact_def)
  ultimately show ?thesis using sample_feed_grows(4) by simp
qed

section \<open>What a stream never sends\<close>

text \<open>C37. A fact that appears after the stream has sent a newer one is never sent on that connection: if the databases so far had
  no fact of its key, and a fact with a greater key was sent, then no continuation sends it. An event's key is the time it was
  received, and an event received earlier can be committed later.\<close>

theorem late_fact_never_sent:
  assumes "decodeCursor cursor = Some key" and "cursor \<noteq> NoCursor"
    and sent: "notificationsStream db cursor NoCursor before = Inr sent" and f: "f \<in> set sent"
    and new: "\<forall>d\<in>set (db # before). factKey late \<notin> factKey ` set (notificationFacts d)"
    and late: "factKey late < noticeKey f"
  shows "\<exists>rest. notificationsStream db cursor NoCursor (before @ later) = Inr (sent @ rest) \<and>
    factKey late \<notin> noticeKey ` set (sent @ rest)"
proof -
  have s: "sent = map scanFact (rounds key (db # before))" using sent stream_resumed(1)[OF assms(1,2)] by simp
  obtain key' where k: "rounds key ((db # before) @ later) = rounds key (db # before) @ rounds key' later"
      "\<forall>r\<in>set (rounds key (db # before)). factKey r \<le> key'"
    using rounds_append by blast
  have "notificationsStream db cursor NoCursor (before @ later) = Inr (sent @ map scanFact (rounds key' later))"
    using stream_resumed(1)[OF assms(1,2)] k(1) s by simp
  moreover have "factKey late \<noteq> noticeKey g" if "g \<in> set sent" for g
  proof -
    obtain r where r: "r \<in> set (rounds key (db # before))" "g = scanFact r" using \<open>g \<in> set sent\<close> s by auto
    show ?thesis using rounds_after[OF r(1)] new r(2) by auto
  qed
  moreover have "factKey late \<noteq> noticeKey g" if g: "g \<in> set (map scanFact (rounds key' later))" for g
  proof -
    obtain r where r: "r \<in> set (rounds key' later)" "g = scanFact r" using g unfolding set_map by blast
    have "noticeKey f \<le> key'" using f s k(2) by auto
    then show ?thesis using rounds_after[OF r(1)] late r(2) by auto
  qed
  ultimately show ?thesis by (intro exI[of _ "map scanFact (rounds key' later)"]) auto
qed

text \<open>Two pushes: the first to be received is the last to be committed, and is not sent.\<close>

definition late_command :: IngestCommand where
  "late_command = sample_command\<lparr>ic_DeliveryID := ''u2'', ic_ReceivedAt := 4000000\<rparr>"

definition db_late :: db where
  "db_late = snd (Ingest sample_uuid late_command db_pending)"

definition late_fact :: fact_row where
  "late_fact = hd (orderedFacts db_late)"

lemma late_fact_facts:
  "fa_occurred_at late_fact = 4" "list_all (\<lambda>d. factKey late_fact \<notin> factKey ` set (notificationFacts d)) [empty_db, db_pending]"
  "length (notificationFacts db_late) = 4" "orderedFacts db_late \<noteq> []"
  by code_simp+

theorem late_fact_never_sent_witness:
  "late_fact \<in> set (notificationFacts db_late) \<and> growing [empty_db, db_pending] \<and>
   (\<exists>sent. notificationsStream empty_db sample_cursor NoCursor [db_pending, db_late, db_late] = Inr sent \<and>
      factKey late_fact \<notin> noticeKey ` set sent)"
proof -
  have member: "late_fact \<in> set (notificationFacts db_late)"
    using hd_in_set[OF late_fact_facts(4)] by (simp add: late_fact_def orderedFacts_def)
  have fresh: "\<forall>d\<in>set (empty_db # [db_pending]). factKey late_fact \<notin> factKey ` set (notificationFacts d)"
    using late_fact_facts(2) by (simp only: list_all_iff)
  define sent where "sent = map scanFact (rounds (0, ''x'') [empty_db, db_pending])"
  have start: "notificationsStream empty_db sample_cursor NoCursor [db_pending] = Inr sent"
    unfolding sent_def by (rule stream_resumed(1)[OF sample_cursor_ok])
  have "list_ex (\<lambda>r. factKey late_fact < factKey r) (rounds (0, ''x'') [empty_db, db_pending])" by code_simp
  then obtain r where r: "r \<in> set (rounds (0, ''x'') [empty_db, db_pending])" "factKey late_fact < factKey r"
    unfolding list_ex_iff by blast
  have f: "scanFact r \<in> set sent" "factKey late_fact < noticeKey (scanFact r)"
    using r by (simp_all only: sent_def set_map noticeKey_scanFact image_eqI)
  have "\<exists>rest. notificationsStream empty_db sample_cursor NoCursor ([db_pending] @ [db_late, db_late]) = Inr (sent @ rest) \<and>
      factKey late_fact \<notin> noticeKey ` set (sent @ rest)"
    by (rule late_fact_never_sent[OF sample_cursor_ok start f(1) fresh f(2)])
  moreover have "growing [empty_db, db_pending]" by code_simp
  ultimately show ?thesis using member by auto
qed

end
