(* ===== verification/Statistics.thy ===== *)
theory Statistics
  imports Store_Schema "HOL-Library.AList" "HOL-Library.Signed_Division"
begin

text \<open>
  The statistics of pipeline runs (\<^verbatim>\<open>internal/store/statistics.go\<close>): the observations of a pipeline, in the order they were
  received, drive a small state machine whose phases are timed. A run counts as complete only if its start was seen, it ran,
  and it ended without a gap.

  The map of the source is an association list in the order of first observation; the order of its traversal is arbitrary
  there; since the runs are sorted afterwards, it only decides the order of runs first received in the same instant.
\<close>

section \<open>Definitions\<close>

record PipelineRun =
  pn_Provider :: string
  pn_Source :: string
  pn_Repository :: string
  pn_PipelineID :: string
  pn_Ref :: string
  pn_Status :: string
  pn_FirstReceived :: time
  pn_LastReceived :: time
  pn_InitializationMS :: int
  pn_WaitingMS :: int
  pn_RunningMS :: int
  pn_TotalMS :: "int option"
  pn_Complete :: bool
  pn_Restarts :: nat

record PipelineStatisticsResult =
  ps_ServerNow :: time
  ps_RetentionDays :: int
  ps_Runs :: "PipelineRun list"
  ps_Active :: bool

datatype Phase = PhaseInitialization | PhaseWaiting | PhaseRunning | PhaseTerminal | PhaseUnknown

definition pipelinePhase :: "string \<Rightarrow> Phase" where
  "pipelinePhase status =
     (if status \<in> {''created'', ''preparing'', ''scheduled''} then PhaseInitialization
      else if status \<in> {''pending'', ''queued'', ''waiting_for_resource'', ''requested''} then PhaseWaiting
      else if status \<in> {''running'', ''in_progress''} then PhaseRunning
      else if status \<in> {''success'', ''failed'', ''failure'', ''canceled'', ''cancelled'', ''skipped'', ''neutral'', ''timed_out'',
                        ''action_required''} then PhaseTerminal
      else PhaseUnknown)"

text \<open>The state of one run, with its entry in \<^verbatim>\<open>boundaries\<close>.\<close>

record runState =
  rn_run :: PipelineRun
  rn_phase :: Phase
  rn_knownStart :: bool
  rn_ran :: bool
  rn_invalid :: bool
  rn_boundary :: time

text \<open>\<^verbatim>\<open>Duration.Milliseconds\<close>.\<close>

definition Milliseconds :: "duration \<Rightarrow> int" where
  "Milliseconds d = d sdiv nanos_per_milli"

definition addPhase :: "Phase \<Rightarrow> int \<Rightarrow> PipelineRun \<Rightarrow> PipelineRun" where
  "addPhase phase delta run =
     (case phase of
        PhaseInitialization \<Rightarrow> run\<lparr>pn_InitializationMS := pn_InitializationMS run + delta\<rparr>
      | PhaseWaiting \<Rightarrow> run\<lparr>pn_WaitingMS := pn_WaitingMS run + delta\<rparr>
      | PhaseRunning \<Rightarrow> run\<lparr>pn_RunningMS := pn_RunningMS run + delta\<rparr>
      | _ \<Rightarrow> run)"

definition newRun :: "observation_row \<Rightarrow> runState" where
  "newRun ob =
     \<lparr>rn_run = \<lparr>pn_Provider = ob_provider ob, pn_Source = ob_source_id ob, pn_Repository = ob_repository_id ob,
        pn_PipelineID = ob_external_id ob, pn_Ref = ob_ref ob, pn_Status = '''', pn_FirstReceived = timeUnixMilli (ob_received_at ob),
        pn_LastReceived = 0, pn_InitializationMS = 0, pn_WaitingMS = 0, pn_RunningMS = 0, pn_TotalMS = None, pn_Complete = False,
        pn_Restarts = 0\<rparr>,
      rn_phase = PhaseUnknown,
      rn_knownStart = (pipelinePhase (ob_status ob) = PhaseInitialization \<or> pipelinePhase (ob_status ob) = PhaseWaiting),
      rn_ran = False, rn_invalid = False, rn_boundary = 0\<rparr>"

text \<open>The change to another phase: the time of the old one, and what makes a run unusable.\<close>

definition changePhase :: "time \<Rightarrow> Phase \<Rightarrow> runState \<Rightarrow> runState" where
  "changePhase received phase s =
     (let delta = Milliseconds (received - rn_boundary s);
          back = (rn_phase s = PhaseRunning \<and> (phase = PhaseInitialization \<or> phase = PhaseWaiting)) in
      s\<lparr>rn_run := (addPhase (rn_phase s) delta (rn_run s))
            \<lparr>pn_Restarts := pn_Restarts (rn_run s) + (if rn_phase s = PhaseTerminal then 1 else 0)\<rparr>,
        rn_invalid := rn_invalid s \<or> back \<or> delta = 0 \<or> rn_phase s = PhaseTerminal\<rparr>)"

text \<open>The end of the loop body.\<close>

definition enterPhase :: "time \<Rightarrow> string \<Rightarrow> Phase \<Rightarrow> runState \<Rightarrow> runState" where
  "enterPhase received status phase s =
     s\<lparr>rn_run := (rn_run s)\<lparr>pn_Status := status, pn_LastReceived := received\<rparr>,
       rn_phase := phase, rn_ran := rn_ran s \<or> phase = PhaseRunning, rn_invalid := rn_invalid s \<or> phase = PhaseUnknown,
       rn_boundary := received\<rparr>"

text \<open>A repeated notification of the same phase keeps its boundary.\<close>

definition repeatPhase :: "time \<Rightarrow> string \<Rightarrow> runState \<Rightarrow> runState" where
  "repeatPhase received status s =
     s\<lparr>rn_run := (rn_run s)\<lparr>pn_Status := status, pn_LastReceived := received\<rparr>,
       rn_invalid := rn_invalid s \<or> (rn_phase s = PhaseTerminal \<and> pn_Status (rn_run s) \<noteq> status)\<rparr>"

definition observe :: "runState option \<Rightarrow> observation_row \<Rightarrow> runState" where
  "observe current ob =
     (let received = timeUnixMilli (ob_received_at ob); status = ob_status ob; phase = pipelinePhase status in
      case current of
        None \<Rightarrow> enterPhase received status phase (newRun ob)
      | Some s \<Rightarrow>
          if phase \<noteq> rn_phase s then enterPhase received status phase (changePhase received phase s)
          else repeatPhase received status s)"

type_synonym runIdentity = "string \<times> string \<times> string \<times> string"

definition runKey :: "observation_row \<Rightarrow> runIdentity" where
  "runKey ob = (ob_provider ob, ob_source_id ob, ob_repository_id ob, ob_external_id ob)"

definition observeRow :: "(runIdentity \<times> runState) list \<Rightarrow> observation_row \<Rightarrow> (runIdentity \<times> runState) list" where
  "observeRow states ob = AList.update (runKey ob) (observe (map_of states (runKey ob)) ob) states"

definition retentionDays :: int where
  "retentionDays = 90"

definition observationsOf :: "db \<Rightarrow> time \<Rightarrow> string \<Rightarrow> string \<Rightarrow> time \<Rightarrow> observation_row list" where
  "observationsOf db now source repository to =
     sort_key (\<lambda>ob. (ob_received_at ob, ob_event_id ob))
       (filter (\<lambda>ob. UnixMilli (now - retentionDays * 1440 * minute) \<le> ob_received_at ob \<and> ob_received_at ob < UnixMilli to \<and>
            (source = '''' \<or> ob_source_id ob = source) \<and> (repository = '''' \<or> ob_repository_id ob = repository))
         (db_observations db))"

definition complete :: "runState \<Rightarrow> bool" where
  "complete s \<longleftrightarrow> rn_knownStart s \<and> rn_ran s \<and> rn_phase s = PhaseTerminal \<and> \<not> rn_invalid s"

definition openPhase :: "runState \<Rightarrow> bool" where
  "openPhase s \<longleftrightarrow> rn_phase s \<noteq> PhaseTerminal \<and> rn_phase s \<noteq> PhaseUnknown"

definition finishRun :: "time \<Rightarrow> time \<Rightarrow> runState \<Rightarrow> PipelineRun" where
  "finishRun now to s =
     (let run = rn_run s;
          closed = (if complete s
            then run\<lparr>pn_Complete := True, pn_TotalMS := Some (pn_InitializationMS run + pn_WaitingMS run + pn_RunningMS run)\<rparr>
            else run\<lparr>pn_Complete := False\<rparr>);
          delta = Milliseconds ((if to < now then to else now) - rn_boundary s)
      in if openPhase s \<and> 0 < delta then addPhase (rn_phase s) delta closed else closed)"

definition PipelineStatistics :: "db \<Rightarrow> time \<Rightarrow> string \<Rightarrow> string \<Rightarrow> time \<Rightarrow> time \<Rightarrow> PipelineStatisticsResult" where
  "PipelineStatistics db now source repository since to =
     (let states = foldl observeRow [] (observationsOf db now source repository to);
          kept = filter (\<lambda>s. since \<le> pn_FirstReceived (rn_run s)) (map snd states)
      in \<lparr>ps_ServerNow = now, ps_RetentionDays = retentionDays,
          ps_Runs = rev (sort_key pn_FirstReceived (map (finishRun now to) kept)), ps_Active = list_ex openPhase kept\<rparr>)"

text \<open>
  The time range of the handler \<^verbatim>\<open>statistics\<close> (\<^verbatim>\<open>internal/adminapi/statistics.go\<close>): \<open>None\<close> is an absent bound, \<open>Some None\<close> one that
  is not an RFC 3339 time. Without bounds it is the last seven days.
\<close>

definition statisticsRange :: "time \<Rightarrow> time option option \<Rightarrow> time option option \<Rightarrow> (time \<times> time) option" where
  "statisticsRange now rawFrom rawTo =
     (let since = (case rawFrom of None \<Rightarrow> Some (now - 7 * 1440 * minute) | Some parsed \<Rightarrow> parsed);
          to = (case rawTo of None \<Rightarrow> Some now | Some parsed \<Rightarrow> parsed) in
      case (since, to) of
        (Some f, Some t) \<Rightarrow>
          if \<not> f < t \<or> 90 * 1440 * minute < t - f \<or> now + minute < t then None else Some (f, t)
      | _ \<Rightarrow> None)"

section \<open>The state of one pipeline\<close>

text \<open>The fold over all observations gives each pipeline the fold over its own.\<close>

definition runStateOf :: "observation_row list \<Rightarrow> runState option" where
  "runStateOf obs = foldl (\<lambda>s ob. Some (observe s ob)) None obs"

lemma runStateOf_snoc [simp]: "runStateOf (obs @ [ob]) = Some (observe (runStateOf obs) ob)"
  by (simp add: runStateOf_def)

lemma runStateOf_Nil [simp]: "runStateOf [] = None"
  by (simp add: runStateOf_def)

lemma runStateOf_single [simp]: "runStateOf [ob] = Some (observe None ob)"
  by (simp add: runStateOf_def)

lemma observeRow_states:
  "map_of (foldl observeRow [] obs) key = runStateOf (filter (\<lambda>ob. runKey ob = key) obs)"
  by (induction obs rule: rev_induct) (auto simp: observeRow_def update_conv')

lemma distinct_states: "distinct (map fst (foldl observeRow [] obs))"
  by (induction obs rule: rev_induct) (auto simp: observeRow_def distinct_update)

section \<open>What a complete run is\<close>

definition phaseOf :: "observation_row \<Rightarrow> Phase" where
  "phaseOf ob = pipelinePhase (ob_status ob)"

definition phaseTotal :: "PipelineRun \<Rightarrow> int" where
  "phaseTotal run = pn_InitializationMS run + pn_WaitingMS run + pn_RunningMS run"

definition working :: "Phase \<Rightarrow> bool" where
  "working p \<longleftrightarrow> p = PhaseInitialization \<or> p = PhaseWaiting \<or> p = PhaseRunning"

text \<open>A usable history: before its end only working phases, afterwards one terminal status.\<close>

definition usable :: "observation_row list \<Rightarrow> observation_row list \<Rightarrow> bool" where
  "usable before after \<longleftrightarrow>
     (\<forall>ob\<in>set before. working (phaseOf ob)) \<and> (\<forall>ob\<in>set after. phaseOf ob = PhaseTerminal) \<and>
     (\<forall>ob\<in>set after. \<forall>ob'\<in>set after. ob_status ob = ob_status ob')"

lemma Milliseconds_diff [simp]: "Milliseconds (timeUnixMilli a - timeUnixMilli b) = a - b"
proof -
  have "timeUnixMilli a - timeUnixMilli b = (a - b) * nanos_per_milli" by (simp add: timeUnixMilli_def algebra_simps)
  then show ?thesis by (simp add: Milliseconds_def signed_divide_int_def nanos_per_milli_def abs_mult sgn_mult sgn_mult_abs del: left_diff_distrib_numeral)
qed

lemma phaseTotal_addPhase: "phaseTotal (addPhase p delta run) = phaseTotal run + (if working p then delta else 0)"
  by (cases p) (simp_all add: addPhase_def phaseTotal_def working_def)


lemmas observe_parts =
  observe_def enterPhase_def changePhase_def repeatPhase_def newRun_def Let_def phaseOf_def

lemma pn_addPhase [simp]:
  "pn_FirstReceived (addPhase p d run) = pn_FirstReceived run"
  "pn_Status (addPhase p d run) = pn_Status run"
  "pn_TotalMS (addPhase p d run) = pn_TotalMS run"
  "pn_Complete (addPhase p d run) = pn_Complete run"
  "pn_Provider (addPhase p d run) = pn_Provider run"
  "pn_Source (addPhase p d run) = pn_Source run"
  "pn_Repository (addPhase p d run) = pn_Repository run"
  "pn_PipelineID (addPhase p d run) = pn_PipelineID run"
  by (cases p; simp add: addPhase_def)+

definition identityOf :: "PipelineRun \<Rightarrow> runIdentity" where
  "identityOf run = (pn_Provider run, pn_Source run, pn_Repository run, pn_PipelineID run)"

text \<open>What the state of a pipeline records of its observations: its ends, its phase and whether it ran.\<close>

definition recorded :: "observation_row list \<Rightarrow> runState \<Rightarrow> bool" where
  "recorded obs s \<longleftrightarrow>
     identityOf (rn_run s) = runKey (hd obs) \<and>
     pn_FirstReceived (rn_run s) = timeUnixMilli (ob_received_at (hd obs)) \<and>
     pn_Status (rn_run s) = ob_status (last obs) \<and> pn_TotalMS (rn_run s) = None \<and>
     rn_phase s = phaseOf (last obs) \<and>
     (rn_knownStart s \<longleftrightarrow> phaseOf (hd obs) = PhaseInitialization \<or> phaseOf (hd obs) = PhaseWaiting) \<and>
     (rn_ran s \<longleftrightarrow> (\<exists>ob\<in>set obs. phaseOf ob = PhaseRunning))"

text \<open>How its time is divided: the phases add up to the last change of phase, and none is negative.\<close>

definition divided :: "observation_row list \<Rightarrow> runState \<Rightarrow> bool" where
  "divided obs s \<longleftrightarrow>
     0 \<le> pn_InitializationMS (rn_run s) \<and> 0 \<le> pn_WaitingMS (rn_run s) \<and> 0 \<le> pn_RunningMS (rn_run s) \<and>
     (\<exists>at. rn_boundary s = timeUnixMilli at \<and> at \<le> ob_received_at (last obs))"

definition uninterrupted :: "observation_row list \<Rightarrow> runState \<Rightarrow> bool" where
  "uninterrupted obs s \<longleftrightarrow>
     (\<exists>before after. obs = before @ after \<and> usable before after \<and>
        (\<exists>at. rn_boundary s = timeUnixMilli at \<and> phaseTotal (rn_run s) = at - ob_received_at (hd obs) \<and>
           (after \<noteq> [] \<longrightarrow> at = ob_received_at (hd after))))"

lemma recorded_first: "recorded [ob] (observe None ob)"
  by (auto simp: recorded_def observe_parts identityOf_def runKey_def)

lemma recorded_next:
  assumes "recorded obs s" "obs \<noteq> []"
  shows "recorded (obs @ [ob]) (observe (Some s) ob)"
proof -
  have "\<exists>o'\<in>set obs. o' = last obs" using assms(2) by auto
  with assms show ?thesis
    by (auto simp: recorded_def observe_parts identityOf_def)
qed

lemma runStateOf_recorded: "obs \<noteq> [] \<Longrightarrow> \<exists>s. runStateOf obs = Some s \<and> recorded obs s"
proof (induction obs rule: rev_induct)
  case (snoc ob obs)
  then show ?case by (cases "obs = []") (auto simp: recorded_first intro: recorded_next)
qed simp

lemma addPhase_nonneg:
  "0 \<le> d \<Longrightarrow> 0 \<le> pn_InitializationMS run \<Longrightarrow> 0 \<le> pn_InitializationMS (addPhase p d run)"
  "0 \<le> d \<Longrightarrow> 0 \<le> pn_WaitingMS run \<Longrightarrow> 0 \<le> pn_WaitingMS (addPhase p d run)"
  "0 \<le> d \<Longrightarrow> 0 \<le> pn_RunningMS run \<Longrightarrow> 0 \<le> pn_RunningMS (addPhase p d run)"
  by (cases p; simp add: addPhase_def)+

lemma divided_next:
  assumes "divided obs s" "ob_received_at (last obs) \<le> ob_received_at ob"
  shows "divided (obs @ [ob]) (observe (Some s) ob)"
proof -
  from assms(1) obtain at where at: "rn_boundary s = timeUnixMilli at" "at \<le> ob_received_at (last obs)"
    by (auto simp: divided_def)
  with assms have "0 \<le> ob_received_at ob - at" "at \<le> ob_received_at ob" by auto
  with assms(1) at(1) show ?thesis
    by (auto simp: divided_def observe_parts intro: addPhase_nonneg)
qed

lemma runStateOf_divided:
  "obs \<noteq> [] \<Longrightarrow> sorted (map ob_received_at obs) \<Longrightarrow> runStateOf obs = Some s \<Longrightarrow> divided obs s"
proof (induction obs arbitrary: s rule: rev_induct)
  case (snoc ob obs)
  show ?case
  proof (cases "obs = []")
    case True
    with snoc.prems show ?thesis by (auto simp: divided_def observe_parts)
  next
    case False
    then obtain s0 where s0: "runStateOf obs = Some s0" using runStateOf_recorded by blast
    have "ob_received_at (last obs) \<le> ob_received_at ob"
      using snoc.prems(2) last_in_set[OF False] by (auto simp: sorted_append)
    with snoc.IH[OF False _ s0] snoc.prems s0 show ?thesis
      by (auto simp: sorted_append intro: divided_next)
  qed
qed simp

lemma usable_working: "usable before after \<Longrightarrow> after = [] \<Longrightarrow> working (phaseOf ob) \<Longrightarrow> usable (before @ [ob]) []"
  by (auto simp: usable_def)

lemma usable_terminal:
  assumes "usable before after" "phaseOf ob = PhaseTerminal" "after = [] \<or> ob_status (last after) = ob_status ob"
  shows "usable before (after @ [ob])"
proof -
  have "ob_status ob' = ob_status ob" if "ob' \<in> set after" for ob'
    using that assms(1,3) last_in_set[of after] unfolding usable_def by (metis empty_iff list.set(1))
  with assms(1,2) show ?thesis unfolding usable_def by (simp add: ball_Un)
qed

lemma working_phases: "working p \<longleftrightarrow> p \<noteq> PhaseTerminal \<and> p \<noteq> PhaseUnknown"
  by (cases p) (simp_all add: working_def)

lemma invalid_stays: "rn_invalid s \<Longrightarrow> rn_invalid (observe (Some s) ob)"
  by (simp add: observe_parts)

text \<open>The three continuations of an uninterrupted history: a working phase, the first terminal status, a repeated status.\<close>

lemma uninterrupted_next:
  assumes rec: "recorded obs s" "obs \<noteq> []" and un: "uninterrupted obs s"
    and ok: "\<not> rn_invalid (observe (Some s) ob)"
  shows "uninterrupted (obs @ [ob]) (observe (Some s) ob)"
proof -
  from un obtain before after at where h: "obs = before @ after" "usable before after" "rn_boundary s = timeUnixMilli at"
      "phaseTotal (rn_run s) = at - ob_received_at (hd obs)" "after \<noteq> [] \<longrightarrow> at = ob_received_at (hd after)"
    by (auto simp: uninterrupted_def)
  have ph: "rn_phase s = phaseOf (last obs)" and st: "pn_Status (rn_run s) = ob_status (last obs)"
    using rec(1) by (simp_all add: recorded_def)
  have known: "phaseOf ob \<noteq> PhaseUnknown" if "phaseOf ob \<noteq> rn_phase s"
    using ok that by (auto simp: observe_parts)
  show ?thesis
  proof (cases "after = []")
    case True
    then have w: "working (rn_phase s)" using h(1,2) rec(2) ph by (auto simp: usable_def)
    show ?thesis
    proof (cases "phaseOf ob = rn_phase s")
      case same: True
      then have "usable (obs @ [ob]) []" using usable_working[OF h(2) True] w h(1) True by simp
      moreover have "rn_boundary (observe (Some s) ob) = timeUnixMilli at \<and>
          phaseTotal (rn_run (observe (Some s) ob)) = at - ob_received_at (hd (obs @ [ob]))"
        using same h(3,4) rec(2) by (auto simp: observe_parts phaseTotal_def)
      ultimately show ?thesis unfolding uninterrupted_def
        by (intro exI[of _ "obs @ [ob]"] exI[of _ "[]"]) auto
    next
      case new: False
      have total: "rn_boundary (observe (Some s) ob) = timeUnixMilli (ob_received_at ob) \<and>
          phaseTotal (rn_run (observe (Some s) ob)) = ob_received_at ob - ob_received_at (hd (obs @ [ob]))"
        using new w h(3,4) rec(2) phaseTotal_addPhase[of "rn_phase s" _ "rn_run s"]
        by (simp add: observe_parts phaseTotal_def)
      have "usable (obs @ [ob]) [] \<or> usable obs [ob]"
        using known[OF new] usable_working[OF h(2) True, of ob] usable_terminal[OF h(2), of ob] h(1) True
        by (cases "phaseOf ob = PhaseTerminal") (auto simp: working_phases)
      then show ?thesis
      proof
        assume "usable (obs @ [ob]) []"
        with total show ?thesis unfolding uninterrupted_def
          by (intro exI[of _ "obs @ [ob]"] exI[of _ "[]"]) auto
      next
        assume "usable obs [ob]"
        with total show ?thesis unfolding uninterrupted_def
          by (intro exI[of _ obs] exI[of _ "[ob]"]) auto
      qed
    qed
  next
    case False
    then have t: "rn_phase s = PhaseTerminal" "last obs = last after" using h(1,2) ph by (auto simp: usable_def)
    then have "phaseOf ob = PhaseTerminal" "ob_status (last after) = ob_status ob"
      using ok st by (auto simp: observe_parts split: if_splits)
    then have "usable before (after @ [ob])" using h(2) by (auto intro: usable_terminal)
    moreover have "rn_boundary (observe (Some s) ob) = timeUnixMilli at \<and>
        phaseTotal (rn_run (observe (Some s) ob)) = at - ob_received_at (hd (obs @ [ob]))"
      using h(3,4) t(1) \<open>phaseOf ob = PhaseTerminal\<close> rec(2) by (auto simp: observe_parts phaseTotal_def)
    moreover have "at = ob_received_at (hd (after @ [ob]))" using h(5) False by auto
    ultimately show ?thesis using h(1) unfolding uninterrupted_def
      by (intro exI[of _ before] exI[of _ "after @ [ob]"]) auto
  qed
qed

lemma runStateOf_uninterrupted:
  "obs \<noteq> [] \<Longrightarrow> runStateOf obs = Some s \<Longrightarrow> \<not> rn_invalid s \<Longrightarrow> uninterrupted obs s"
proof (induction obs arbitrary: s rule: rev_induct)
  case (snoc ob obs)
  show ?case
  proof (cases "obs = []")
    case True
    have "working (phaseOf ob) \<or> phaseOf ob = PhaseTerminal" using snoc.prems True by (auto simp: observe_parts working_phases)
    then have "usable [ob] [] \<or> usable [] [ob]" by (auto simp: usable_def)
    moreover have "rn_boundary s = timeUnixMilli (ob_received_at ob) \<and> phaseTotal (rn_run s) = 0"
      using snoc.prems(2) True by (auto simp: observe_parts phaseTotal_def)
    ultimately show ?thesis using True unfolding uninterrupted_def
      by (auto intro: exI[of _ "[ob]"] exI[of _ "[]"])
  next
    case False
    then obtain s0 where s0: "runStateOf obs = Some s0" "recorded obs s0" using runStateOf_recorded by blast
    then have s: "s = observe (Some s0) ob" using snoc.prems(2) by simp
    then have "uninterrupted obs s0" using snoc.IH[OF False s0(1)] invalid_stays[of s0 ob] snoc.prems(3) by auto
    then show ?thesis using uninterrupted_next[OF s0(2) False] snoc.prems(3) s by simp
  qed
qed simp

text \<open>The history of a complete run: working phases, of which one ran, and then a single terminal status.\<close>

lemma complete_history:
  assumes "obs \<noteq> []" "runStateOf obs = Some s" "complete s"
  shows "\<exists>before t after. obs = before @ t # after \<and> before \<noteq> [] \<and> usable before (t # after) \<and>
    (\<exists>ob\<in>set before. phaseOf ob = PhaseRunning) \<and> phaseTotal (rn_run s) = ob_received_at t - ob_received_at (hd before)"
proof -
  obtain s' where "runStateOf obs = Some s'" "recorded obs s'" using runStateOf_recorded[OF assms(1)] by blast
  then have rec: "recorded obs s" using assms(2) by simp
  have "uninterrupted obs s" using runStateOf_uninterrupted assms by (simp add: complete_def)
  then obtain before after at where h: "obs = before @ after" "usable before after"
      "phaseTotal (rn_run s) = at - ob_received_at (hd obs)" "after \<noteq> [] \<longrightarrow> at = ob_received_at (hd after)"
    by (auto simp: uninterrupted_def)
  have last: "phaseOf (last obs) = PhaseTerminal" and first: "phaseOf (hd obs) \<noteq> PhaseTerminal"
    and ran: "\<exists>ob\<in>set obs. phaseOf ob = PhaseRunning"
    using rec assms(3) by (auto simp: recorded_def complete_def)
  have "after \<noteq> []"
  proof
    assume "after = []"
    then have "working (phaseOf (last obs))" using h(1,2) assms(1) by (auto simp: usable_def)
    with last show False by (simp add: working_def)
  qed
  then obtain t rest where a: "after = t # rest" by (cases after) auto
  have "before \<noteq> []" using first h(1,2) a by (auto simp: usable_def)
  moreover have "\<exists>ob\<in>set before. phaseOf ob = PhaseRunning"
    using ran h(1,2) by (auto simp: usable_def)
  ultimately show ?thesis using h a by (intro exI[of _ before] exI[of _ t] exI[of _ rest]) auto
qed

section \<open>The reported runs\<close>

definition historyOf :: "observation_row list \<Rightarrow> runIdentity \<Rightarrow> observation_row list" where
  "historyOf obs key = filter (\<lambda>ob. runKey ob = key) obs"

lemma identityOf_finishRun: "identityOf (finishRun now to s) = identityOf (rn_run s)"
  by (simp add: finishRun_def Let_def identityOf_def)

lemma finishRun_complete:
  "pn_Complete (finishRun now to s) = complete s"
  "pn_TotalMS (rn_run s) = None \<Longrightarrow>
     pn_TotalMS (finishRun now to s) = (if complete s then Some (phaseTotal (rn_run s)) else None)"
  by (auto simp: finishRun_def Let_def phaseTotal_def)

lemma finishRun_closed:
  "complete s \<Longrightarrow> phaseTotal (finishRun now to s) = phaseTotal (rn_run s)"
  by (simp add: finishRun_def Let_def complete_def openPhase_def phaseTotal_def)

lemma finishRun_nonneg:
  assumes "divided obs s"
  shows "0 \<le> pn_InitializationMS (finishRun now to s) \<and> 0 \<le> pn_WaitingMS (finishRun now to s) \<and>
    0 \<le> pn_RunningMS (finishRun now to s)"
  using assms by (auto simp: finishRun_def Let_def divided_def intro!: addPhase_nonneg)

text \<open>Each reported run is the end of the fold over the history of its identity.\<close>

lemma reported_run:
  assumes "run \<in> set (ps_Runs (PipelineStatistics db now source repository since to))"
  obtains obs s where "obs = historyOf (observationsOf db now source repository to) (identityOf run)" "obs \<noteq> []"
    "runStateOf obs = Some s" "recorded obs s" "run = finishRun now to s"
proof -
  let ?all = "observationsOf db now source repository to"
  from assms obtain key s where s: "(key, s) \<in> set (foldl observeRow [] ?all)" "run = finishRun now to s"
    by (auto simp: PipelineStatistics_def Let_def)
  then have st: "runStateOf (historyOf ?all key) = Some s"
    using map_of_is_SomeI[OF distinct_states] by (simp add: observeRow_states[symmetric] historyOf_def)
  then have ne: "historyOf ?all key \<noteq> []" by auto
  then have rec: "recorded (historyOf ?all key) s" using runStateOf_recorded st by fastforce
  have "runKey (hd (historyOf ?all key)) = key" using hd_in_set[OF ne] by (simp add: historyOf_def)
  then have "identityOf run = key" using rec s(2) by (simp add: recorded_def identityOf_finishRun)
  with st ne rec s(2) that show thesis by blast
qed

lemma historyOf_sorted: "sorted (map ob_received_at (historyOf (observationsOf db now source repository to) key))"
proof -
  let ?all = "observationsOf db now source repository to"
  have "sorted (map (\<lambda>ob. (ob_received_at ob, ob_event_id ob)) ?all)" by (simp add: observationsOf_def)
  then have "sorted_wrt (\<lambda>a b. ob_received_at a \<le> ob_received_at b) ?all"
    unfolding sorted_map by (rule sorted_wrt_mono_rel[rotated]) auto
  then show ?thesis unfolding historyOf_def sorted_map by (rule sorted_wrt_filter)
qed


section \<open>The property\<close>

text \<open>C35. What the statistics say of a run is true of the notifications the store kept. None of the three times of a reported run
  is negative, and a total is given exactly for the runs marked complete. The history of a complete run is a stretch of
  working phases, one of them running, followed by notifications that all give one terminal status; its total is the time
  from the first notification to the first terminal one, and the three times add up to it.\<close>

lemma complete_run_accounts:
  assumes "run \<in> set (ps_Runs (PipelineStatistics db now source repository since to))"
  defines "history \<equiv> historyOf (observationsOf db now source repository to) (identityOf run)"
  shows "0 \<le> pn_InitializationMS run \<and> 0 \<le> pn_WaitingMS run \<and> 0 \<le> pn_RunningMS run \<and>
    pn_FirstReceived run = timeUnixMilli (ob_received_at (hd history)) \<and>
    (pn_TotalMS run = None \<longleftrightarrow> \<not> pn_Complete run) \<and>
    (pn_Complete run \<longrightarrow> (\<exists>before t after.
       history = before @ t # after \<and> before \<noteq> [] \<and> usable before (t # after) \<and>
       (\<exists>ob\<in>set before. phaseOf ob = PhaseRunning) \<and>
       pn_TotalMS run = Some (ob_received_at t - ob_received_at (hd before)) \<and>
       phaseTotal run = ob_received_at t - ob_received_at (hd before)))"
proof -
  obtain s where s: "history \<noteq> []" "runStateOf history = Some s" "recorded history s" "run = finishRun now to s"
    using reported_run[OF assms(1)] unfolding history_def by metis
  then have total: "pn_TotalMS (rn_run s) = None" and first: "pn_FirstReceived run = timeUnixMilli (ob_received_at (hd history))"
    by (simp_all add: recorded_def finishRun_def Let_def)
  have "divided history s"
    using runStateOf_divided[OF s(1) _ s(2)] historyOf_sorted unfolding history_def by simp
  note pos = finishRun_nonneg[OF this, of now to]
  have "\<exists>before t after. history = before @ t # after \<and> before \<noteq> [] \<and> usable before (t # after) \<and>
       (\<exists>ob\<in>set before. phaseOf ob = PhaseRunning) \<and>
       pn_TotalMS run = Some (ob_received_at t - ob_received_at (hd before)) \<and>
       phaseTotal run = ob_received_at t - ob_received_at (hd before)" if "pn_Complete run"
  proof -
    from that have c: "complete s" using s(4) finishRun_complete(1) by simp
    then show ?thesis
      using complete_history[OF s(1,2) c] s(4) finishRun_complete(2)[OF total] finishRun_closed[OF c] by fastforce
  qed
  then show ?thesis using pos first s(4) finishRun_complete(1)[of now to s] finishRun_complete(2)[OF total, of now to] by auto
qed

text \<open>A run created at 1000, running from 2000 and successful at 5000 with a repeated notification in between.\<close>

definition sampleObservation :: "string \<Rightarrow> string \<Rightarrow> millis \<Rightarrow> observation_row" where
  "sampleObservation ident status at =
     \<lparr>ob_event_id = ident, ob_provider = ''gitlab'', ob_source_id = ''gl'', ob_repository_id = ''app'', ob_external_id = ''7'',
      ob_ref = ''main'', ob_status = status, ob_received_at = at\<rparr>"

definition sampleStatisticsDb :: db where
  "sampleStatisticsDb = empty_db\<lparr>db_observations :=
     [sampleObservation ''e1'' ''created'' 1000, sampleObservation ''e2'' ''running'' 2000,
      sampleObservation ''e3'' ''running'' 3000, sampleObservation ''e4'' ''success'' 5000]\<rparr>"

definition sampleRun :: PipelineRun where
  "sampleRun = hd (ps_Runs (PipelineStatistics sampleStatisticsDb (timeUnixMilli 9000) '''' '''' 0 (timeUnixMilli 9000)))"

lemma sampleRun_reported:
  "sampleRun \<in> set (ps_Runs (PipelineStatistics sampleStatisticsDb (timeUnixMilli 9000) '''' '''' 0 (timeUnixMilli 9000)))"
  "pn_Complete sampleRun" "pn_TotalMS sampleRun = Some 4000"
  by code_simp+

lemma complete_run_accounts_witness:
  "pn_Complete sampleRun \<and> pn_TotalMS sampleRun = Some 4000 \<and> phaseTotal sampleRun = 4000"
  using complete_run_accounts[OF sampleRun_reported(1)] sampleRun_reported(2,3) by auto

end
