(* ===== verification/Net_Addr.thy ===== *)
theory Net_Addr
  imports Net_URL Providers Send_Clients
begin

text \<open>
  Which hosts count as private. The check of \<^verbatim>\<open>internal/config/validate.go\<close> (\<^verbatim>\<open>unsafeHTTPHost\<close>), its copy for forward clients, and the
  check of each resolved address when the guarded transport of \<^verbatim>\<open>internal/httptarget/client.go\<close> dials, over what they use of Go's
  \<^verbatim>\<open>net/netip\<close>.

  The five predicates of an address read an IPv4-mapped IPv6 address as the IPv4 address it maps, except \<^verbatim>\<open>IsUnspecified\<close>, which
  compares with the two unspecified addresses as they are.
\<close>

section \<open>net/netip\<close>

text \<open>Four bytes, or eight groups of sixteen bits and a zone.\<close>

datatype Addr = Addr4 int int int int | Addr6 "int list" string

fun splitOn :: "char \<Rightarrow> string \<Rightarrow> string list" where
  "splitOn c [] = [[]]"
| "splitOn c (x # xs) =
     (if x = c then [] # splitOn c xs else case splitOn c xs of [] \<Rightarrow> [[x]] | f # fs \<Rightarrow> (x # f) # fs)"

definition ipv4Field :: "string \<Rightarrow> bool" where
  "ipv4Field f \<longleftrightarrow>
     f \<noteq> [] \<and> list_all isDecimalDigit f \<and> (length f = 1 \<or> hd f \<noteq> CHR ''0'') \<and> numeralValue f \<le> 255"

definition parseIPv4 :: "string \<Rightarrow> (int \<times> int \<times> int \<times> int) option" where
  "parseIPv4 s =
     (case splitOn (CHR ''.'') s of
        [a, b, c, d] \<Rightarrow>
          if list_all ipv4Field [a, b, c, d] 
          then Some (int (numeralValue a), int (numeralValue b), int (numeralValue c), int (numeralValue d)) else None
      | _ \<Rightarrow> None)"

definition groupValue :: "string \<Rightarrow> int" where
  "groupValue s = foldl (\<lambda>n c. 16 * n + int (unhex c)) 0 s"

text \<open>
  The loop of \<^verbatim>\<open>parseIPv6\<close>: at most \<open>n\<close> more groups, those read so far, and where an ellipsis stands. The result is what is left
  to expand.
\<close>

fun ipv6Groups :: "nat \<Rightarrow> int list \<Rightarrow> nat option \<Rightarrow> string \<Rightarrow> (int list \<times> nat option) option" where
  "ipv6Groups 0 groups ellipsis s = (if s = [] then Some (groups, ellipsis) else None)"
| "ipv6Groups (Suc n) groups ellipsis s =
     (let hex = takeWhile isHex s; rest = drop (length hex) s; groups' = groups @ [groupValue hex] in
      if hex = [] \<or> 4 < length hex then None
      else case rest of
        [] \<Rightarrow> Some (groups', ellipsis)
      | c # later \<Rightarrow>
          if c = CHR ''.'' then
            (if (ellipsis = None \<and> length groups \<noteq> 6) \<or> 6 < length groups then None
             else case parseIPv4 s of
               None \<Rightarrow> None
             | Some (a, b, x, y) \<Rightarrow> Some (groups @ [256 * a + b, 256 * x + y], ellipsis))
          else if c \<noteq> CHR '':'' then None
          else case later of
            [] \<Rightarrow> None
          | d # after \<Rightarrow>
              if d \<noteq> CHR '':'' then ipv6Groups n groups' ellipsis later
              else if ellipsis \<noteq> None then None
              else if after = [] then Some (groups', Some (length groups'))
              else ipv6Groups n groups' (Some (length groups')) after)"

definition expandGroups :: "int list \<Rightarrow> nat option \<Rightarrow> int list option" where
  "expandGroups groups ellipsis =
     (if length groups < 8
      then map_option (\<lambda>k. take k groups @ replicate (8 - length groups) 0 @ drop k groups) ellipsis
      else if ellipsis \<noteq> None then None else Some groups)"

definition parseIPv6 :: "string \<Rightarrow> Addr option" where
  "parseIPv6 input =
     (case cut (CHR ''%'') input of
        (s, zone) \<Rightarrow>
          if zone = Some '''' then None
          else let leading = prefixOf ''::'' s; text = (if leading then drop 2 s else s); z = (case zone of None \<Rightarrow> '''' | Some t \<Rightarrow> t) in
            if leading \<and> text = '''' then Some (Addr6 (replicate 8 0) z)
            else case ipv6Groups 8 [] (if leading then Some 0 else None) text of
              None \<Rightarrow> None
            | Some (groups, ellipsis) \<Rightarrow> map_option (\<lambda>fs. Addr6 fs z) (expandGroups groups ellipsis))"

definition ParseAddr :: "string \<Rightarrow> Addr option" where
  "ParseAddr s =
     (case find (\<lambda>c. c = CHR ''.'' \<or> c = CHR '':'' \<or> c = CHR ''%'') s of
        None \<Rightarrow> None
      | Some c \<Rightarrow>
          if c = CHR ''.'' then map_option (\<lambda>(a, b, x, y). Addr4 a b x y) (parseIPv4 s)
          else if c = CHR '':'' then parseIPv6 s
          else None)"

definition Unmap :: "Addr \<Rightarrow> Addr" where
  "Unmap addr =
     (case addr of
        Addr4 a b c d \<Rightarrow> addr
      | Addr6 ws z \<Rightarrow>
          if take 6 ws = [0, 0, 0, 0, 0, 65535] \<and> length ws = 8
          then Addr4 (ws ! 6 div 256) (ws ! 6 mod 256) (ws ! 7 div 256) (ws ! 7 mod 256) else addr)"

definition firstGroup :: "int list \<Rightarrow> int" where
  "firstGroup ws = (case ws of [] \<Rightarrow> 0 | w # _ \<Rightarrow> w)"

definition IsLoopback :: "Addr \<Rightarrow> bool" where
  "IsLoopback addr = (case Unmap addr of Addr4 a b c d \<Rightarrow> a = 127 | Addr6 ws z \<Rightarrow> ws = [0, 0, 0, 0, 0, 0, 0, 1])"

definition IsLinkLocalUnicast :: "Addr \<Rightarrow> bool" where
  "IsLinkLocalUnicast addr =
     (case Unmap addr of Addr4 a b c d \<Rightarrow> a = 169 \<and> b = 254 | Addr6 ws z \<Rightarrow> firstGroup ws div 64 = 65152 div 64)"

definition IsPrivate :: "Addr \<Rightarrow> bool" where
  "IsPrivate addr =
     (case Unmap addr of
        Addr4 a b c d \<Rightarrow> a = 10 \<or> (a = 172 \<and> b div 16 = 1) \<or> (a = 192 \<and> b = 168)
      | Addr6 ws z \<Rightarrow> firstGroup ws div 512 = 64512 div 512)"

definition IsUnspecified :: "Addr \<Rightarrow> bool" where
  "IsUnspecified addr \<longleftrightarrow> addr = Addr4 0 0 0 0 \<or> addr = Addr6 (replicate 8 0) ''''"

definition IsMulticast :: "Addr \<Rightarrow> bool" where
  "IsMulticast addr =
     (case Unmap addr of Addr4 a b c d \<Rightarrow> a div 16 = 14 | Addr6 ws z \<Rightarrow> firstGroup ws div 256 = 255)"

section \<open>Private hosts\<close>

definition unsafeAddress :: "Addr \<Rightarrow> bool" where
  "unsafeAddress addr \<longleftrightarrow>
     IsLoopback addr \<or> IsLinkLocalUnicast addr \<or> IsPrivate addr \<or> IsUnspecified addr \<or> IsMulticast addr"

text \<open>
  \<^verbatim>\<open>strings.EqualFold(host, "localhost")\<close>: of these letters only \<open>s\<close> folds with a letter outside ASCII, the long s, which is two
  bytes.
\<close>

fun foldLongS :: "string \<Rightarrow> string" where
  "foldLongS (a # b # s) =
     (if (of_char a :: nat) = 197 \<and> (of_char b :: nat) = 191 then CHR ''s'' # foldLongS s else a # foldLongS (b # s))"
| "foldLongS s = s"

definition isLocalhost :: "string \<Rightarrow> bool" where
  "isLocalhost host \<longleftrightarrow> lowerASCII (foldLongS host) = ''localhost''"

definition unsafeHTTPHost :: "string \<Rightarrow> bool" where
  "unsafeHTTPHost host =
     (isLocalhost host \<or> (case ParseAddr host of None \<Rightarrow> False | Some addr \<Rightarrow> unsafeAddress addr))"

text \<open>
  The dial function of \<^verbatim>\<open>privateNetworkSafeTransport\<close>: of the addresses a name resolves to, the first that is not private is
  connected to, and none if there is no such address.
\<close>

definition guardedDial :: "Addr list option \<Rightarrow> Addr option" where
  "guardedDial lookup = (case lookup of None \<Rightarrow> None | Some addresses \<Rightarrow> find (\<lambda>a. \<not> unsafeAddress a) addresses)"

section \<open>The blocks\<close>

text \<open>The address blocks that are private by registration, as first address and prefix length.\<close>

definition address32 :: "int \<Rightarrow> int \<Rightarrow> int \<Rightarrow> int \<Rightarrow> int" where
  "address32 a b c d = ((a * 256 + b) * 256 + c) * 256 + d"

definition inBlock :: "int \<Rightarrow> int \<times> nat \<Rightarrow> bool" where
  "inBlock n = (\<lambda>(base, len). n div 2 ^ (32 - len) = base div 2 ^ (32 - len))"

definition privateBlocks :: "(int \<times> nat) list" where
  "privateBlocks =
     [(address32 127 0 0 0, 8), (address32 10 0 0 0, 8), (address32 172 16 0 0, 12), (address32 192 168 0 0, 16),
      (address32 169 254 0 0, 16), (address32 224 0 0 0, 4), (address32 0 0 0 0, 32)]"

definition mapped :: "int \<Rightarrow> int \<Rightarrow> int \<Rightarrow> int \<Rightarrow> Addr" where
  "mapped a b c d = Addr6 [0, 0, 0, 0, 0, 65535, 256 * a + b, 256 * c + d] ''''"

lemma eight_groups: "replicate 8 (0 :: int) = [0, 0, 0, 0, 0, 0, 0, 0]"
  by code_simp

definition byte :: "int \<Rightarrow> bool" where
  "byte n \<longleftrightarrow> 0 \<le> n \<and> n < 256"

lemma Unmap_mapped: "byte b \<Longrightarrow> byte d \<Longrightarrow> Unmap (mapped a b c d) = Addr4 a b c d"
  by (simp add: mapped_def byte_def Unmap_def)

lemma byte_digits:
  assumes "0 \<le> v" "v < k" "0 \<le> y" "y < (k :: int)"
  shows "(u * k + v) div k = u" "u * k + v = x * k + y \<longleftrightarrow> u = x \<and> v = y"
proof -
  have q: "(u * k + v) div k = u" "(u * k + v) mod k = v" "(x * k + y) div k = x" "(x * k + y) mod k = y"
    using assms by simp_all
  then show "(u * k + v) div k = u" "u * k + v = x * k + y \<longleftrightarrow> u = x \<and> v = y" by metis+
qed

lemma address32_div:
  assumes "byte b" "byte c" "byte d"
  shows "address32 a b c d div 2 ^ 24 = a" "address32 a b c d div 2 ^ 16 = a * 256 + b"
    "address32 a b c d div 2 ^ 20 = a * 16 + b div 16" "address32 a b c d div 2 ^ 28 = a div 16"
proof -
  have "address32 a b c d = (a * 256 + b) * 65536 + (c * 256 + d)" by (simp add: address32_def)
  moreover have "0 \<le> c * 256 + d" "c * 256 + d < 65536" using assms by (simp_all add: byte_def)
  ultimately have h: "address32 a b c d div 65536 = a * 256 + b" using byte_digits(1)[of "c * 256 + d" 65536 0 "a * 256 + b"] by simp
  then show "address32 a b c d div 2 ^ 16 = a * 256 + b" by simp
  have split: "address32 a b c d div (65536 * k) = address32 a b c d div 65536 div k" if "0 < k" for k :: int
    using that by (simp add: zdiv_zmult2_eq)
  have top: "(a * 256 + b) div 256 = a" using assms(1) byte_digits(1)[of b 256 0 a] by (simp add: byte_def)
  show *: "address32 a b c d div 2 ^ 24 = a" using split[of 256] h top by simp
  show "address32 a b c d div 2 ^ 28 = a div 16"
    using split[of 4096] h top zdiv_zmult2_eq[of 16 "a * 256 + b" 256] by simp
  have "(a * 256 + b) div 16 = a * 16 + b div 16" using div_mult_self3[of 16 "a * 16" b] by simp
  then show "address32 a b c d div 2 ^ 20 = a * 16 + b div 16" using split[of 16] h by simp
qed

lemma inBlock_simps:
  assumes "byte b" "byte c" "byte d"
  shows "(\<exists>blk\<in>set privateBlocks. inBlock (address32 a b c d) blk) \<longleftrightarrow>
    a = 127 \<or> a = 10 \<or> (a = 172 \<and> b div 16 = 1) \<or> (a = 192 \<and> b = 168) \<or> (a = 169 \<and> b = 254) \<or> a div 16 = 14 \<or> address32 a b c d = 0"
proof -
  have z: "byte 0" "byte 16" "byte 168" "byte 254" by (simp_all add: byte_def)
  have wide: "inBlock (address32 a b c d) (address32 x 0 0 0, 8) \<longleftrightarrow> a = x" for x
    using address32_div(1)[OF assms, of a] address32_div(1)[OF z(1) z(1) z(1), of x] by (simp add: inBlock_def)
  have middle: "inBlock (address32 a b c d) (address32 x y 0 0, 16) \<longleftrightarrow> a = x \<and> b = y" if y: "byte y" for x y
    using address32_div(2)[OF assms, of a] address32_div(2)[OF y z(1) z(1), of x] byte_digits(2)[of b 256 y a x] assms(1) y
    by (simp add: inBlock_def byte_def)
  have "0 \<le> b div 16" "b div 16 < 16" using assms(1) by (auto simp: byte_def)
  then have twelve: "inBlock (address32 a b c d) (address32 172 16 0 0, 12) \<longleftrightarrow> a = 172 \<and> b div 16 = 1"
    using address32_div(3)[OF assms, of a] address32_div(3)[OF z(2) z(1) z(1), of 172] byte_digits(2)[of "b div 16" 16 1 a 172]
    by (simp add: inBlock_def)
  have four: "inBlock (address32 a b c d) (address32 224 0 0 0, 4) \<longleftrightarrow> a div 16 = 14"
    using address32_div(4)[OF assms, of a] address32_div(4)[OF z(1) z(1) z(1), of 224] by (simp add: inBlock_def)
  have zero: "inBlock (address32 a b c d) (address32 0 0 0 0, 32) \<longleftrightarrow> address32 a b c d = 0"
    by (simp add: inBlock_def address32_def)
  show ?thesis unfolding privateBlocks_def by (simp add: wide middle[OF z(3)] middle[OF z(4)] twelve four zero)
qed

text \<open>An address that reads as IPv4 is unsafe iff it lies in a block, save for the mapped unspecified address.\<close>

lemma unsafeAddress_blocks:
  assumes v4: "Unmap addr = Addr4 a b c d" and bytes: "byte a" "byte b" "byte c" "byte d"
  shows "unsafeAddress addr \<longleftrightarrow>
    (\<exists>blk\<in>set privateBlocks. inBlock (address32 a b c d) blk) \<and> (addr = Addr4 a b c d \<or> address32 a b c d \<noteq> 0)"
proof -
  have zero: "address32 a b c d = 0 \<longleftrightarrow> a = 0 \<and> b = 0 \<and> c = 0 \<and> d = 0"
  proof
    assume "address32 a b c d = 0"
    then have "16777216 * a + 65536 * b + 256 * c + d = 0" by (simp add: address32_def algebra_simps)
    with bytes show "a = 0 \<and> b = 0 \<and> c = 0 \<and> d = 0" unfolding byte_def by linarith
  qed (simp add: address32_def)
  have six: "addr \<noteq> Addr6 (replicate 8 0) ''''" using v4 by (auto simp: eight_groups Unmap_def)
  have four: "addr = Addr4 x y z w \<Longrightarrow> x = a \<and> y = b \<and> z = c \<and> w = d" for x y z w using v4 by (simp add: Unmap_def)
  have "IsUnspecified addr \<longleftrightarrow> addr = Addr4 a b c d \<and> address32 a b c d = 0"
    using six four by (auto simp: IsUnspecified_def zero)
  then show ?thesis
    unfolding inBlock_simps[OF bytes(2-4)] unsafeAddress_def
    by (auto simp: IsLoopback_def IsLinkLocalUnicast_def IsPrivate_def IsMulticast_def v4 zero)
qed

section \<open>Bytes of a parsed address\<close>

lemma unhex_bound: "isHex c \<Longrightarrow> unhex c < 16"
  by (auto simp: isHex_def unhex_def asciiNum_def less_eq_char_def)

lemma groupValue_snoc: "groupValue (s @ [c]) = 16 * groupValue s + int (unhex c)"
  by (simp add: groupValue_def)

lemma groupValue_bound: "list_all isHex s \<Longrightarrow> 0 \<le> groupValue s \<and> groupValue s < 16 ^ length s"
proof (induction s rule: rev_induct)
  case (snoc c s)
  then show ?case using unhex_bound[of c] by (simp add: groupValue_snoc)
qed (simp add: groupValue_def)

lemma parseIPv4_bytes: "parseIPv4 s = Some (a, b, c, d) \<Longrightarrow> byte a \<and> byte b \<and> byte c \<and> byte d"
  by (auto simp: byte_def parseIPv4_def ipv4Field_def split: list.splits if_splits)

definition group :: "int \<Rightarrow> bool" where
  "group n \<longleftrightarrow> 0 \<le> n \<and> n < 65536"

lemma hex_group:
  assumes "\<not> 4 < length (takeWhile isHex s)"
  shows "group (groupValue (takeWhile isHex s))"
proof -
  have "list_all isHex (takeWhile isHex s)" by (auto simp: list_all_iff dest: set_takeWhileD)
  then have v: "0 \<le> groupValue (takeWhile isHex s)" "groupValue (takeWhile isHex s) < 16 ^ length (takeWhile isHex s)"
    using groupValue_bound by blast+
  note v(2)
  also have "(16 :: int) ^ length (takeWhile isHex s) \<le> 16 ^ 4" using assms by (intro power_increasing) auto
  finally show ?thesis using v(1) by (simp add: group_def)
qed


lemma ipv6Groups_bound:
  "ipv6Groups n groups ellipsis s = Some (gs, e) \<Longrightarrow> list_all group groups \<Longrightarrow> list_all group gs"
proof (induction n groups ellipsis s rule: ipv6Groups.induct)
  case (2 n groups ellipsis s)
  let ?hex = "takeWhile isHex s" and ?rest = "drop (length (takeWhile isHex s)) s"
  have ok: "?hex \<noteq> []" "\<not> 4 < length ?hex" using "2.prems"(1) by (auto simp: Let_def split: if_splits)
  have grown: "list_all group (groups @ [groupValue ?hex])"
    using "2.prems"(2) hex_group[OF ok(2)] by simp
  show ?case
  proof (cases ?rest)
    case Nil
    then show ?thesis using "2.prems"(1) ok grown by (simp add: Let_def)
  next
    case (Cons c later)
    show ?thesis
    proof (cases "c = CHR ''.''")
      case True
      then obtain a b x y where q: "parseIPv4 s = Some (a, b, x, y)" "gs = groups @ [256 * a + b, 256 * x + y]"
        using "2.prems"(1) ok Cons by (auto simp: Let_def split: if_splits option.splits)
      then show ?thesis using parseIPv4_bytes[OF q(1)] "2.prems"(2) by (simp add: group_def byte_def)
    next
      case False
      then have colon: "c = CHR '':''" using "2.prems"(1) ok Cons by (auto simp: Let_def split: if_splits)
      then obtain d follow where later: "later = d # follow"
        using "2.prems"(1) ok Cons by (cases later) (auto simp: Let_def)
      show ?thesis
        using "2.prems"(1) "2.IH" ok Cons False colon later grown
        by (auto simp: Let_def split: if_splits)
    qed
  qed
qed (auto split: if_splits)

lemma ParseAddr_bytes:
  assumes "ParseAddr host = Some addr" "Unmap addr = Addr4 a b c d"
  shows "byte a \<and> byte b \<and> byte c \<and> byte d"
proof (cases addr)
  case (Addr4 x y z w)
  then have "parseIPv4 host = Some (x, y, z, w)"
    using assms(1) by (auto simp: ParseAddr_def parseIPv6_def Let_def split: option.splits if_splits prod.splits)
  then show ?thesis using parseIPv4_bytes[of host x y z w] Addr4 assms(2) by (simp add: Unmap_def)
next
  case (Addr6 ws z)
  have "take 6 ws = [0, 0, 0, 0, 0, 65535]" "length ws = 8"
    and v: "a = ws ! 6 div 256" "b = ws ! 6 mod 256" "c = ws ! 7 div 256" "d = ws ! 7 mod 256"
    using assms(2) Addr6 by (auto simp: Unmap_def split: if_splits)
  have "list_all group ws"
  proof -
    have "parseIPv6 host = Some (Addr6 ws z)" using assms(1) Addr6 by (auto simp: ParseAddr_def split: option.splits if_splits)
    then consider "ws = replicate 8 0" | t gs e n where "ipv6Groups 8 [] n t = Some (gs, e)" "expandGroups gs e = Some ws"
      by (auto simp: parseIPv6_def Let_def split: option.splits if_splits prod.splits)
    then show ?thesis
    proof cases
      case 2
      then have "list_all group gs" using ipv6Groups_bound by fastforce
      moreover have "set ws \<subseteq> insert 0 (set gs)"
        using 2(2) set_take_subset set_drop_subset by (fastforce simp: expandGroups_def split: if_splits)
      ultimately show ?thesis by (auto simp: list_all_iff group_def)
    qed (simp add: list_all_iff group_def)
  qed
  then have "group (ws ! 6)" "group (ws ! 7)" using \<open>length ws = 8\<close> by (simp_all add: list_all_length)
  then show ?thesis using v by (auto simp: group_def byte_def)
qed

lemma localhost_no_address: "isLocalhost host \<Longrightarrow> ParseAddr host = None"
proof -
  have kept: "c \<in> set s \<Longrightarrow> (of_char c :: nat) < 128 \<Longrightarrow> c \<in> set (foldLongS s)" for c :: char and s
    by (induction s rule: foldLongS.induct) auto
  have low: "c \<in> set s \<Longrightarrow> c \<in> set ''.:%'' \<Longrightarrow> c \<in> set (lowerASCII s)" for c :: char and s
    by (force simp: lowerASCII_def less_eq_char_def image_iff)
  assume "isLocalhost host"
  then have "c \<notin> set host" if "c \<in> set ''.:%''" for c
    using kept[of c host] low[of c "foldLongS host"] that by (auto simp: isLocalhost_def)
  then have "find (\<lambda>c. c = CHR ''.'' \<or> c = CHR '':'' \<or> c = CHR ''%'') host = None" by (auto simp: find_None_iff)
  then show "ParseAddr host = None" by (simp add: ParseAddr_def)
qed


section \<open>Which addresses are refused\<close>

text \<open>The private addresses: an IPv4 address, directly or mapped into IPv6, in one of the blocks; an IPv6 address that is \<open>::1\<close>
  or \<open>::\<close>, or in fe80::/10, fc00::/7 or ff00::/8.\<close>

definition privateAddress :: "Addr \<Rightarrow> bool" where
  "privateAddress addr =
     (case Unmap addr of
        Addr4 a b c d \<Rightarrow> \<exists>blk\<in>set privateBlocks. inBlock (address32 a b c d) blk
      | Addr6 ws z \<Rightarrow> ws = [0, 0, 0, 0, 0, 0, 0, 1] \<or> ws = [0, 0, 0, 0, 0, 0, 0, 0] \<or>
          firstGroup ws \<in> {0xFE80..0xFEBF} \<or> firstGroup ws \<in> {0xFC00..0xFDFF} \<or> firstGroup ws \<in> {0xFF00..0xFFFF})"

text \<open>The unspecified addresses in a form that \<^verbatim>\<open>IsUnspecified\<close> does not know: mapped into IPv6, or with a zone.\<close>

definition disguised :: "Addr \<Rightarrow> bool" where
  "disguised addr \<longleftrightarrow>
     (\<exists>z. addr = Addr6 [0, 0, 0, 0, 0, 65535, 0, 0] z \<or> (z \<noteq> '''' \<and> addr = Addr6 [0, 0, 0, 0, 0, 0, 0, 0] z))"

definition wellFormed :: "Addr \<Rightarrow> bool" where
  "wellFormed addr = (case addr of Addr4 a b c d \<Rightarrow> byte a \<and> byte b \<and> byte c \<and> byte d | Addr6 ws z \<Rightarrow> length ws = 8 \<and> list_all group ws)"

lemma mapped_bytes:
  assumes "list_all group ws" "length ws = 8"
  shows "byte (ws ! 6 div 256)" "byte (ws ! 6 mod 256)" "byte (ws ! 7 div 256)" "byte (ws ! 7 mod 256)"
proof -
  have "group (ws ! 6)" "group (ws ! 7)" using assms by (simp_all add: list_all_length)
  then show "byte (ws ! 6 div 256)" "byte (ws ! 6 mod 256)" "byte (ws ! 7 div 256)" "byte (ws ! 7 mod 256)"
    by (auto simp: group_def byte_def)
qed

lemma wellFormed_bytes: "wellFormed addr \<Longrightarrow> Unmap addr = Addr4 a b c d \<Longrightarrow> byte a \<and> byte b \<and> byte c \<and> byte d"
  using mapped_bytes by (auto simp: wellFormed_def Unmap_def split: Addr.splits if_splits)

lemma disguised_mapped:
  assumes v4: "Unmap addr = Addr4 a b c d" and bytes: "byte a" "byte b" "byte c" "byte d"
  shows "disguised addr \<longleftrightarrow> \<not> (addr = Addr4 a b c d \<or> address32 a b c d \<noteq> 0)"
proof (cases addr)
  case (Addr4 x y z w)
  then show ?thesis using v4 by (simp add: disguised_def Unmap_def)
next
  case (Addr6 ws z)
  have h: "take 6 ws = [0, 0, 0, 0, 0, 65535]" "length ws = 8"
    and v: "a = ws ! 6 div 256" "b = ws ! 6 mod 256" "c = ws ! 7 div 256" "d = ws ! 7 mod 256"
    using v4 Addr6 by (auto simp: Unmap_def split: if_splits)
  have "drop 6 ws = [ws ! 6, ws ! 7]" using h(2) by (simp add: Cons_nth_drop_Suc [symmetric])
  then have ws: "ws = [0, 0, 0, 0, 0, 65535, ws ! 6, ws ! 7]" using append_take_drop_id [of 6 ws] h(1) by simp
  have "address32 a b c d = 65536 * (256 * a + b) + (256 * c + d)" by (simp add: address32_def)
  also have "\<dots> = 65536 * (ws ! 6) + ws ! 7" unfolding v by simp
  finally have n: "address32 a b c d = 65536 * (ws ! 6) + ws ! 7" .
  have "0 \<le> ws ! 6" "0 \<le> ws ! 7" using bytes unfolding v byte_def by (simp_all add: pos_imp_zdiv_nonneg_iff)
  then have "address32 a b c d = 0 \<longleftrightarrow> ws ! 6 = 0 \<and> ws ! 7 = 0" unfolding n by linarith
  also have "\<dots> \<longleftrightarrow> ws = [0, 0, 0, 0, 0, 65535, 0, 0]" by (subst (3) ws) simp
  finally show ?thesis using h(1) unfolding Addr6 disguised_def by auto
qed

lemma unsafeAddress_private:
  assumes bytes: "\<And>a b c d. Unmap addr = Addr4 a b c d \<Longrightarrow> byte a \<and> byte b \<and> byte c \<and> byte d"
  shows "unsafeAddress addr \<longleftrightarrow> privateAddress addr \<and> \<not> disguised addr"
proof (cases "Unmap addr")
  case (Addr4 a b c d)
  have b: "byte a" "byte b" "byte c" "byte d" using bytes [OF Addr4] by simp_all
  show ?thesis unfolding unsafeAddress_blocks [OF Addr4 b] disguised_mapped [OF Addr4 b] by (simp add: privateAddress_def Addr4)
next
  case (Addr6 ws z)
  then have a: "addr = Addr6 ws z" by (auto simp: Unmap_def split: Addr.splits if_splits)
  have m: "ws \<noteq> [0, 0, 0, 0, 0, 65535, 0, 0]" using Addr6 unfolding a by (auto simp: Unmap_def)
  have "w div 64 = 1018 \<longleftrightarrow> w \<in> {0xFE80..0xFEBF}" "w div 512 = 126 \<longleftrightarrow> w \<in> {0xFC00..0xFDFF}" "w div 256 = 255 \<longleftrightarrow> w \<in> {0xFF00..0xFFFF}"
    for w :: int by auto
  then show ?thesis using Addr6 m unfolding a
    by (auto simp: unsafeAddress_def privateAddress_def disguised_def IsLoopback_def IsLinkLocalUnicast_def IsPrivate_def IsMulticast_def
        IsUnspecified_def eight_groups firstGroup_def)
qed

section \<open>The property\<close>

text \<open>C27. What the private-network check refuses. A host written as an address is refused by the configuration exactly if the
  address is private, with the exception of the unspecified address mapped into IPv6 or with a zone, which is let through. When a
  delivery connects, the guarded connection goes to the first of all the resolved addresses that is not refused in this sense
  (which is the address checked), and nowhere if each of them is refused.\<close>

theorem private_hosts_refused:
  assumes host: "ParseAddr host = Some addr" and resolved: "\<forall>x\<in>set resolved. wellFormed x"
  shows "(unsafeHTTPHost host \<longleftrightarrow> privateAddress addr \<and> \<not> disguised addr) \<and>
    (case guardedDial (Some resolved) of
       None \<Rightarrow> \<forall>x\<in>set resolved. privateAddress x \<and> \<not> disguised x
     | Some x \<Rightarrow> \<exists>before after. resolved = before @ x # after \<and> \<not> (privateAddress x \<and> \<not> disguised x) \<and>
         (\<forall>y\<in>set before. privateAddress y \<and> \<not> disguised y))"
proof
  have "unsafeHTTPHost host \<longleftrightarrow> unsafeAddress addr"
    using localhost_no_address[of host] host by (auto simp: unsafeHTTPHost_def)
  then show "unsafeHTTPHost host \<longleftrightarrow> privateAddress addr \<and> \<not> disguised addr"
    using unsafeAddress_private[of addr] ParseAddr_bytes[OF host] by simp
  have u: "unsafeAddress x \<longleftrightarrow> privateAddress x \<and> \<not> disguised x" if "x \<in> set resolved" for x
    using unsafeAddress_private[of x] wellFormed_bytes[of x] that resolved by blast
  show "case guardedDial (Some resolved) of
       None \<Rightarrow> \<forall>x\<in>set resolved. privateAddress x \<and> \<not> disguised x
     | Some x \<Rightarrow> \<exists>before after. resolved = before @ x # after \<and> \<not> (privateAddress x \<and> \<not> disguised x) \<and>
         (\<forall>y\<in>set before. privateAddress y \<and> \<not> disguised y)"
  proof (cases "guardedDial (Some resolved)")
    case None
    then have "\<forall>x\<in>set resolved. unsafeAddress x" by (auto simp: guardedDial_def find_None_iff)
    then show ?thesis using u by (simp add: None)
  next
    case (Some x)
    then obtain i where i: "i < length resolved" "\<not> unsafeAddress (resolved ! i)" "x = resolved ! i" "\<forall>j<i. unsafeAddress (resolved ! j)"
      by (auto simp: guardedDial_def find_Some_iff)
    have "resolved = take i resolved @ x # drop (Suc i) resolved" using i(1,3) by (simp add: id_take_nth_drop)
    moreover have "\<forall>y\<in>set (take i resolved). privateAddress y \<and> \<not> disguised y"
    proof
      fix y assume "y \<in> set (take i resolved)"
      then obtain j where j: "j < i" "y = resolved ! j" using i(1) by (auto simp: in_set_conv_nth)
      then have "y \<in> set resolved" "unsafeAddress y" using i(1,4) by simp_all
      then show "privateAddress y \<and> \<not> disguised y" using u by blast
    qed
    moreover have "\<not> (privateAddress x \<and> \<not> disguised x)" using u[of x] i by simp
    ultimately show ?thesis using Some by auto
  qed
qed

theorem private_hosts_refused_witness:
  "unsafeHTTPHost ''::ffff:10.1.2.3'' \<and> \<not> unsafeHTTPHost ''::ffff:0.0.0.0'' \<and>
   guardedDial (Some [Addr4 10 0 0 1, Addr4 93 184 216 34, Addr4 1 1 1 1]) = Some (Addr4 93 184 216 34)"
proof -
  let ?l = "[Addr4 10 0 0 1, Addr4 93 184 216 34, Addr4 1 1 1 1]"
  have p: "ParseAddr ''::ffff:10.1.2.3'' = Some (mapped 10 1 2 3)" "ParseAddr ''::ffff:0.0.0.0'' = Some (mapped 0 0 0 0)" by code_simp+
  have w: "\<forall>x\<in>set ?l. wellFormed x" by (simp add: wellFormed_def byte_def)
  have "inBlock (address32 10 1 2 3) (address32 10 0 0 0, 8)" "inBlock (address32 10 0 0 1) (address32 10 0 0 0, 8)" by code_simp+
  then have "privateAddress (mapped 10 1 2 3)" "privateAddress (Addr4 10 0 0 1)"
    by (auto simp: privateAddress_def mapped_def Unmap_def privateBlocks_def)
  moreover have "disguised (mapped 0 0 0 0)" "\<not> disguised (mapped 10 1 2 3)" "\<not> disguised (Addr4 x y z v)" for x y z v
    by (simp_all add: disguised_def mapped_def)
  moreover have "\<not> privateAddress (Addr4 93 184 216 34)"
    using inBlock_simps[of 184 216 34 93] by (simp add: privateAddress_def Unmap_def byte_def address32_def)
  ultimately show ?thesis
    using private_hosts_refused[OF p(1) w] private_hosts_refused[OF p(2) w]
    by (cases "guardedDial (Some ?l)") (auto simp: Cons_eq_append_conv)
qed

end
