(* ===== verification/Config_Validate.thy ===== *)
theory Config_Validate
  imports Net_Addr Route_Config Generation_Props
begin

text \<open>
  The validation of a decoded configuration (\<^verbatim>\<open>internal/config/validate.go\<close> and \<^verbatim>\<open>ssh.go\<close>): sources and their repositories,
  connections, targets, tunnels, and with the theory \<open>Route_Config\<close> the routes.

  \<^item> A source of any provider has an identifier, a secret and repositories, so the three Go types are one record.
  \<^item> A check returns \<open>None\<close>, or its error. The checks of one object are pure, so the first failing one of a list is the early
    return of the source.
  \<^item> \<^verbatim>\<open>mime.ParseMediaType\<close> is the argument \<open>mediaType\<close>, SHA-256 the argument \<open>sha\<close>.
\<close>

section \<open>Data\<close>

record Repository =
  rp_ID :: string
  rp_Name :: string
  rp_ExternalID :: string
  rp_HistoryLimit :: "int option"
  rp_Location :: SourceLocation

record ConfiguredSource =
  cf_ID :: string
  cf_Secret :: string
  cf_Repositories :: "Repository list"
  cf_Location :: SourceLocation

record HTTPAuthentication =
  ha_Type :: string
  ha_Value :: string
  ha_Header :: string

record DokployConnection =
  dc_SSHTunnel :: string
  dc_ID :: string
  dc_BaseURL :: string
  dc_APIKey :: string
  dc_Location :: SourceLocation

record HTTPConnection =
  hc_SSHTunnel :: string
  hc_ID :: string
  hc_BaseURL :: string
  hc_AllowPrivateNetwork :: bool
  hc_Auth :: HTTPAuthentication
  hc_Location :: SourceLocation

record SSHTunnel =
  st_ConfigurationError :: string
  st_ID :: string
  st_Host :: string
  st_Port :: int
  st_User :: string
  st_PrivateKeyFile :: string
  st_KnownHostsFile :: string
  st_HostKeyPolicy :: string

record Bundle =
  bn_SSHTunnels :: "SSHTunnel list"
  bn_GlobalLimit :: int
  bn_DefaultRepositoryLimit :: int
  bn_Interval :: duration
  bn_Timeout :: duration
  bn_GitLabSources :: "ConfiguredSource list"
  bn_GitHubSources :: "ConfiguredSource list"
  bn_HarborSources :: "ConfiguredSource list"
  bn_DokployConnections :: "DokployConnection list"
  bn_HTTPConnections :: "HTTPConnection list"
  bn_Targets :: "(TargetConfig \<times> SourceLocation) list"
  bn_Routes :: "Route list"

datatype bundle_error = ConfigFailure config_error | BundleRejected string

fun firstOf :: "'e option list \<Rightarrow> 'e option" where
  "firstOf [] = None"
| "firstOf (Some e # es) = Some e"
| "firstOf (None # es) = firstOf es"

definition rejectIf :: "bool \<Rightarrow> string \<Rightarrow> bundle_error option" where
  "rejectIf b message = (if b then Some (BundleRejected message) else None)"

definition identifierCheck :: "string \<Rightarrow> string \<Rightarrow> bundle_error option" where
  "identifierCheck kind i = (if identifierPattern i then None else Some (ConfigFailure (InvalidIdentifier kind i)))"

definition uniqueCheck :: "(string \<rightharpoonup> SourceLocation) \<Rightarrow> string \<Rightarrow> string \<Rightarrow> SourceLocation \<Rightarrow> bundle_error option" where
  "uniqueCheck locations kind i location =
     (case addUniqueLocation locations kind i location of Inl e \<Rightarrow> Some (ConfigFailure e) | Inr _ \<Rightarrow> None)"

section \<open>Sources\<close>

definition validPositiveExternalID :: "string \<Rightarrow> bool" where
  "validPositiveExternalID i \<longleftrightarrow> positiveInt64 i \<noteq> None"

text \<open>The pattern \<^verbatim>\<open>^[^/\s]+(?:/[^/\s]+)+$\<close>.\<close>

definition regexSpace :: "char \<Rightarrow> bool" where
  "regexSpace c \<longleftrightarrow> (of_char c :: nat) \<in> {9, 10, 12, 13, 32}"

definition validHarborRepository :: "string \<Rightarrow> bool" where
  "validHarborRepository s \<longleftrightarrow>
     (let fs = splitOn (CHR ''/'') s in 2 \<le> length fs \<and> list_all (\<lambda>f. f \<noteq> [] \<and> \<not> list_ex regexSpace f) fs)"

text \<open>The loop over the repositories of one source, with the two location maps; the result is the known ones.\<close>

fun validateRepositories ::
  "(string \<Rightarrow> bool) \<Rightarrow> (string \<rightharpoonup> SourceLocation) \<Rightarrow> (string \<times> SourceLocation) list \<Rightarrow> Repository list \<Rightarrow>
   bundle_error + (string \<times> SourceLocation) list" where
  "validateRepositories valid externalIDs known [] = Inr known"
| "validateRepositories valid externalIDs known (r # rs) =
     (case firstOf [identifierCheck ''repository'' (rp_ID r), rejectIf (\<not> valid (rp_ExternalID r)) ''external ID'',
                    uniqueCheck externalIDs ''repository external'' (rp_ExternalID r) (rp_Location r),
                    uniqueCheck (map_of known) ''repository'' (rp_ID r) (rp_Location r)] of
        Some e \<Rightarrow> Inl e
      | None \<Rightarrow> validateRepositories valid (externalIDs(rp_ExternalID r \<mapsto> rp_Location r)) ((rp_ID r, rp_Location r) # known) rs)"

type_synonym source_state = "(string \<rightharpoonup> SourceLocation) \<times> (string \<rightharpoonup> string set)"

definition validateSource :: "(string \<Rightarrow> bool) \<Rightarrow> ConfiguredSource \<Rightarrow> source_state \<Rightarrow> bundle_error + source_state" where
  "validateSource valid s = (\<lambda>(locations, repositories).
     case firstOf [identifierCheck ''source'' (cf_ID s), uniqueCheck locations ''source'' (cf_ID s) (cf_Location s)] of
       Some e \<Rightarrow> Inl e
     | None \<Rightarrow>
         (case validateRepositories valid (\<lambda>_. None) [] (cf_Repositories s) of
            Inl e \<Rightarrow> Inl e
          | Inr known \<Rightarrow> Inr (locations(cf_ID s \<mapsto> cf_Location s), repositories(cf_ID s \<mapsto> fst ` set known))))"

fun validateSourceList ::
  "(ConfiguredSource \<Rightarrow> bundle_error option) \<Rightarrow> (string \<Rightarrow> bool) \<Rightarrow> ConfiguredSource list \<Rightarrow> source_state \<Rightarrow>
   bundle_error + source_state" where
  "validateSourceList secret valid [] st = Inr st"
| "validateSourceList secret valid (s # ss) st =
     (case secret s of
        Some e \<Rightarrow> Inl e
      | None \<Rightarrow> (case validateSource valid s st of Inl e \<Rightarrow> Inl e | Inr st' \<Rightarrow> validateSourceList secret valid ss st'))"

text \<open>A GitLab source needs a token of its own, since a GitLab request is attributed by its token.\<close>

fun validateGitLabSources ::
  "(string \<Rightarrow> string) \<Rightarrow> (string \<rightharpoonup> SourceLocation) \<Rightarrow> ConfiguredSource list \<Rightarrow> source_state \<Rightarrow>
   bundle_error + source_state" where
  "validateGitLabSources sha tokens [] st = Inr st"
| "validateGitLabSources sha tokens (s # ss) st =
     (case firstOf [rejectIf (cf_Secret s = '''') ''GitLab source requires token'',
                    rejectIf (tokens (sha (cf_Secret s)) \<noteq> None) ''duplicate GitLab source token''] of
        Some e \<Rightarrow> Inl e
      | None \<Rightarrow>
          (case validateSource validPositiveExternalID s st of
             Inl e \<Rightarrow> Inl e
           | Inr st' \<Rightarrow> validateGitLabSources sha (tokens(sha (cf_Secret s) \<mapsto> cf_Location s)) ss st'))"

definition validateSources :: "(string \<Rightarrow> string) \<Rightarrow> Bundle \<Rightarrow> bundle_error + (string \<rightharpoonup> string set)" where
  "validateSources sha b =
     (case validateGitLabSources sha (\<lambda>_. None) (bn_GitLabSources b) ((\<lambda>_. None), (\<lambda>_. None)) of
        Inl e \<Rightarrow> Inl e
      | Inr st \<Rightarrow>
          (case validateSourceList (\<lambda>s. rejectIf (cf_Secret s = '''') ''GitHub source requires secret'') validPositiveExternalID
                  (bn_GitHubSources b) st of
             Inl e \<Rightarrow> Inl e
           | Inr st' \<Rightarrow>
               map_sum id snd (validateSourceList (\<lambda>s. rejectIf (cf_Secret s = '''') ''Harbor source requires authorization'')
                 validHarborRepository (bn_HarborSources b) st')))"

section \<open>Connections\<close>

definition httpScheme :: "URL \<Rightarrow> bool" where
  "httpScheme p \<longleftrightarrow> ur_Scheme p = ''http'' \<or> ur_Scheme p = ''https''"

definition validateDokployURL :: "string \<Rightarrow> bundle_error option" where
  "validateDokployURL raw =
     (case ParseRequestURI raw of
        None \<Rightarrow> Some (BundleRejected ''invalid Dokploy URL'')
      | Some p \<Rightarrow> rejectIf (ur_Host p = '''' \<or> \<not> httpScheme p) ''invalid Dokploy URL'')"

definition validateHTTPURL :: "string \<Rightarrow> bool \<Rightarrow> bundle_error option" where
  "validateHTTPURL raw allowPrivateNetwork =
     (case ParseRequestURI raw of
        None \<Rightarrow> Some (BundleRejected ''invalid HTTP URL'')
      | Some p \<Rightarrow>
          firstOf [rejectIf (ur_Host p = '''' \<or> \<not> httpScheme p \<or> ur_User p \<noteq> None \<or> ur_RawQuery p \<noteq> '''' \<or> ur_Fragment p \<noteq> '''' \<or>
                     (ur_Path p \<noteq> '''' \<and> ur_Path p \<noteq> ''/'')) ''invalid HTTP URL'',
                   rejectIf (\<not> allowPrivateNetwork \<and> unsafeHTTPHost (Hostname p)) ''private HTTP URL requires allow_private_network''])"

definition validateForwardURL :: "string \<Rightarrow> bool \<Rightarrow> bundle_error option" where
  "validateForwardURL raw allowPrivateNetwork =
     (case ParseURL raw of
        None \<Rightarrow> Some (BundleRejected ''invalid forward URL'')
      | Some p \<Rightarrow>
          firstOf [rejectIf (ur_Host p = '''' \<or> \<not> httpScheme p \<or> ur_User p \<noteq> None \<or> ur_RawQuery p \<noteq> '''' \<or> ur_Fragment p \<noteq> '''')
                     ''invalid forward URL'',
                   rejectIf (\<not> allowPrivateNetwork \<and> unsafeHTTPHost (Hostname p)) ''private forward URL requires allow_private_network''])"

definition headerNameByte :: "char \<Rightarrow> bool" where
  "headerNameByte c \<longleftrightarrow> asciiAlpha c \<or> asciiNum c \<or> c = CHR 0x27 \<or> c = CHR 0x60 \<or> c \<in> set ''!#$%&*+-.^_|~''"

definition validHTTPHeaderName :: "string \<Rightarrow> bool" where
  "validHTTPHeaderName name \<longleftrightarrow> name \<noteq> '''' \<and> list_all headerNameByte name"

text \<open>It is asked only of a valid name, where lower case is that of ASCII.\<close>

definition isReservedHTTPHeader :: "string \<Rightarrow> bool" where
  "isReservedHTTPHeader name \<longleftrightarrow>
     lowerASCII name \<in> {''authorization'', ''content-type'', ''host'', ''idempotency-key''}"

definition validateHTTPAuthentication :: "HTTPAuthentication \<Rightarrow> bundle_error option" where
  "validateHTTPAuthentication auth =
     (if ha_Value auth = '''' then Some (BundleRejected ''HTTP authentication requires value'')
      else if ha_Type auth = ''bearer'' then rejectIf (ha_Header auth \<noteq> '''') ''bearer HTTP authentication must not set header''
      else if ha_Type auth = ''api_key''
        then rejectIf (\<not> validHTTPHeaderName (ha_Header auth) \<or> isReservedHTTPHeader (ha_Header auth))
               ''api_key HTTP authentication requires a non-reserved header''
      else Some (BundleRejected ''unsupported HTTP authentication type''))"

type_synonym connection_state = "(string \<rightharpoonup> SourceLocation) \<times> (string \<rightharpoonup> string)"

fun validateDokployConnections :: "DokployConnection list \<Rightarrow> connection_state \<Rightarrow> bundle_error + connection_state" where
  "validateDokployConnections [] st = Inr st"
| "validateDokployConnections (c # cs) (locations, known) =
     (case firstOf [identifierCheck ''connection'' (dc_ID c), uniqueCheck locations ''connection'' (dc_ID c) (dc_Location c),
                    rejectIf (dc_APIKey c = '''') ''Dokploy connection requires api_key'', validateDokployURL (dc_BaseURL c)] of
        Some e \<Rightarrow> Inl e
      | None \<Rightarrow> validateDokployConnections cs (locations(dc_ID c \<mapsto> dc_Location c), known(dc_ID c \<mapsto> ''dokploy'')))"

fun validateHTTPConnections :: "HTTPConnection list \<Rightarrow> connection_state \<Rightarrow> bundle_error + connection_state" where
  "validateHTTPConnections [] st = Inr st"
| "validateHTTPConnections (c # cs) (locations, known) =
     (case firstOf [identifierCheck ''connection'' (hc_ID c), uniqueCheck locations ''connection'' (hc_ID c) (hc_Location c),
                    validateHTTPURL (hc_BaseURL c) (hc_AllowPrivateNetwork c \<or> hc_SSHTunnel c \<noteq> ''''),
                    validateHTTPAuthentication (hc_Auth c)] of
        Some e \<Rightarrow> Inl e
      | None \<Rightarrow> validateHTTPConnections cs (locations(hc_ID c \<mapsto> hc_Location c), known(hc_ID c \<mapsto> ''http'')))"

definition validateConnections :: "DokployConnection list \<Rightarrow> HTTPConnection list \<Rightarrow> bundle_error + (string \<rightharpoonup> string)" where
  "validateConnections ds hs =
     (case validateDokployConnections ds ((\<lambda>_. None), (\<lambda>_. None)) of
        Inl e \<Rightarrow> Inl e
      | Inr st \<Rightarrow> map_sum id snd (validateHTTPConnections hs st))"

section \<open>Targets\<close>

definition connectionCheck :: "(string \<rightharpoonup> string) \<Rightarrow> string \<Rightarrow> TargetConfig \<Rightarrow> bundle_error option" where
  "connectionCheck connections kind t =
     (case connections (tc_Connection t) of
        None \<Rightarrow> Some (BundleRejected ''target references unknown connection'')
      | Some k \<Rightarrow> rejectIf (k \<noteq> kind) ''target references incompatible connection'')"

definition textCheck :: "string option \<Rightarrow> bundle_error option" where
  "textCheck e = map_option BundleRejected e"

definition validateHTTPMethod :: "string \<Rightarrow> bundle_error option" where
  "validateHTTPMethod m = rejectIf (m \<notin> {''GET'', ''POST'', ''PUT'', ''PATCH'', ''DELETE''}) ''unsupported HTTP method''"

definition validateHTTPPath :: "string \<Rightarrow> bundle_error option" where
  "validateHTTPPath path =
     (case ParseRequestURI path of
        None \<Rightarrow> Some (BundleRejected ''invalid HTTP path'')
      | Some p \<Rightarrow> rejectIf (\<not> prefixOf ''/'' path \<or> ur_Scheme p \<noteq> '''' \<or> ur_Host p \<noteq> '''' \<or> ur_RawQuery p \<noteq> '''' \<or> ur_Fragment p \<noteq> '''' \<or>
            occursIn ''..'' path) ''invalid HTTP path'')"

definition headerCheck :: "string \<times> string \<Rightarrow> bundle_error option" where
  "headerCheck = (\<lambda>(name, text).
     firstOf [rejectIf (\<not> validHTTPHeaderName name) ''invalid HTTP header'', rejectIf (isReservedHTTPHeader name) ''reserved HTTP header'',
              textCheck (validateHTTPText text)])"

definition validateHTTPBody :: "(string \<Rightarrow> bool) \<Rightarrow> string \<Rightarrow> httpBodySnapshot option \<Rightarrow> bundle_error option" where
  "validateHTTPBody mediaType method body =
     (case body of
        None \<Rightarrow> None
      | Some b \<Rightarrow>
          if method = ''GET'' then Some (BundleRejected ''GET HTTP target must not set body'')
          else if hb_ContentType b \<noteq> '''' \<and> \<not> mediaType (hb_ContentType b) then Some (BundleRejected ''invalid HTTP content_type'')
          else if hb_Type b = ''json'' then textCheck (validateHTTPJSONBody (hb_Value b))
          else if hb_Type b = ''form''
            then (case formFields (hb_Value b) of
                    None \<Rightarrow> Some (BundleRejected ''HTTP form body requires key-value fields'')
                  | Some form \<Rightarrow> textCheck (validateHTTPQuery form))
          else if hb_Type b = ''raw''
            then (case hb_Value b of
                    JString s \<Rightarrow> textCheck (validateHTTPText s)
                  | _ \<Rightarrow> Some (BundleRejected ''HTTP raw body requires string value''))
          else Some (BundleRejected ''unsupported HTTP body type''))"

definition forwardingFields :: "TargetConfig \<Rightarrow> bool" where
  "forwardingFields t \<longleftrightarrow> tc_URL t \<noteq> '''' \<or> tc_Host t \<noteq> '''' \<or> tc_AllowPrivateNetwork t"

definition requestFields :: "TargetConfig \<Rightarrow> bool" where
  "requestFields t \<longleftrightarrow>
     tc_ResourceType t \<noteq> '''' \<or> tc_ResourceID t \<noteq> '''' \<or> tc_PollTimeout t \<noteq> None \<or> ht_Method (tc_HTTP t) \<noteq> '''' \<or>
     ht_Path (tc_HTTP t) \<noteq> '''' \<or> ht_Query (tc_HTTP t) \<noteq> [] \<or> ht_Headers (tc_HTTP t) \<noteq> [] \<or> ht_Body (tc_HTTP t) \<noteq> None \<or>
     ht_SuccessStatuses (tc_HTTP t) \<noteq> []"

text \<open>A forward target without a host mode gets the default one.\<close>

definition defaultHost :: "TargetConfig \<Rightarrow> TargetConfig" where
  "defaultHost t = (if tc_Type t = ''forward'' \<and> tc_Host t = '''' then t\<lparr>tc_Host := ''target''\<rparr> else t)"

definition validateTargetFields :: "(string \<Rightarrow> bool) \<Rightarrow> (string \<rightharpoonup> string) \<Rightarrow> TargetConfig \<Rightarrow> bundle_error option" where
  "validateTargetFields mediaType connections t =
     (if tc_Type t = ''dokploy'' then
        firstOf [rejectIf (forwardingFields t) ''unsupported Dokploy forwarding fields'', connectionCheck connections ''dokploy'' t,
                 rejectIf (tc_ResourceType t \<noteq> ''compose'') ''unsupported resource type'',
                 identifierCheck ''target resource'' (tc_ResourceID t)]
      else if tc_Type t = ''http'' then
        firstOf [rejectIf (forwardingFields t) ''unsupported HTTP forwarding fields'', connectionCheck connections ''http'' t,
                 validateHTTPMethod (ht_Method (tc_HTTP t)), validateHTTPPath (ht_Path (tc_HTTP t)),
                 textCheck (validateHTTPQuery (ht_Query (tc_HTTP t))), firstOf (map headerCheck (ht_Headers (tc_HTTP t))),
                 validateHTTPBody mediaType (ht_Method (tc_HTTP t)) (ht_Body (tc_HTTP t)),
                 rejectIf (list_ex (\<lambda>s. s < 200 \<or> 300 \<le> s) (ht_SuccessStatuses (tc_HTTP t))) ''invalid HTTP success status'']
      else if tc_Type t = ''forward'' then
        firstOf [rejectIf (tc_Connection t \<noteq> '''') ''forward target must not reference a connection'',
                 rejectIf (requestFields t) ''unsupported forward request fields'',
                 validateForwardURL (tc_URL t) (tc_AllowPrivateNetwork t \<or> tc_SSHTunnel t \<noteq> ''''),
                 rejectIf (tc_Host t \<noteq> '''' \<and> tc_Host t \<noteq> ''target'' \<and> tc_Host t \<noteq> ''origin'') ''unsupported forward host mode'']
      else Some (BundleRejected ''unsupported target type''))"

text \<open>The loop over the targets, which fills in the host mode.\<close>

fun validateTargets ::
  "(string \<Rightarrow> bool) \<Rightarrow> (string \<rightharpoonup> string) \<Rightarrow> (string \<rightharpoonup> SourceLocation) \<Rightarrow> (TargetConfig \<times> SourceLocation) list \<Rightarrow>
   bundle_error + (TargetConfig \<times> SourceLocation) list" where
  "validateTargets mediaType connections locations [] = Inr []"
| "validateTargets mediaType connections locations ((t, location) # ts) =
     (case firstOf [identifierCheck ''target'' (tc_ID t), uniqueCheck locations ''target'' (tc_ID t) location,
                    validateTargetFields mediaType connections t] of
        Some e \<Rightarrow> Inl e
      | None \<Rightarrow>
          map_sum id (Cons (defaultHost t, location))
            (validateTargets mediaType connections (locations(tc_ID t \<mapsto> location)) ts))"

section \<open>Tunnels\<close>

text \<open>
  \<^verbatim>\<open>filepath.IsAbs\<close> and \<^verbatim>\<open>filepath.Clean\<close> on Unix: two absolute paths are cleaned to the same path iff they have the same
  components once the dots are resolved.
\<close>

definition isAbs :: "string \<Rightarrow> bool" where
  "isAbs path \<longleftrightarrow> prefixOf ''/'' path"

definition cleanComponents :: "string \<Rightarrow> string list" where
  "cleanComponents path =
     foldl (\<lambda>acc c. if c = '''' \<or> c = ''.'' then acc else if c = ''..'' then butlast acc else acc @ [c]) [] (splitOn (CHR ''/'') path)"

definition ParseIP :: "string \<Rightarrow> bool" where
  "ParseIP s = (case ParseAddr s of None \<Rightarrow> False | Some (Addr4 a b c d) \<Rightarrow> True | Some (Addr6 ws z) \<Rightarrow> z = '''')"

definition tunnelInvalid :: "SSHTunnel \<Rightarrow> bool" where
  "tunnelInvalid t \<longleftrightarrow>
     st_Host t = '''' \<or> list_ex (\<lambda>c. c \<in> set '' /[]'' \<or> c = CHR 0x5C \<or> (of_char c :: nat) \<in> {0, 9, 10, 13}) (st_Host t) \<or>
     (CHR '':'' \<in> set (st_Host t) \<and> \<not> ParseIP (st_Host t)) \<or> st_Port t < 1 \<or> 65535 < st_Port t \<or> trimLeft (st_User t) = '''' \<or>
     list_ex (\<lambda>c. (of_char c :: nat) \<in> {0, 10, 13}) (st_User t) \<or> \<not> isAbs (st_PrivateKeyFile t) \<or> \<not> isAbs (st_KnownHostsFile t) \<or>
     cleanComponents (st_PrivateKeyFile t) = cleanComponents (st_KnownHostsFile t) \<or> st_HostKeyPolicy t \<noteq> ''accept_new''"

text \<open>
  One tunnel, after those already seen: it gets a name, it is a duplicate or not, its defaults are filled in. A broken tunnel is
  marked and not an error, so that it does not block a reload.
\<close>

definition nameTunnel :: "nat \<Rightarrow> SSHTunnel \<Rightarrow> SSHTunnel" where
  "nameTunnel position t =
     (if identifierPattern (st_ID t) then t
      else t\<lparr>st_ID := ''invalid-ssh-'' @ decimal (int position), st_ConfigurationError := ''invalid_configuration''\<rparr>)"

definition checkTunnel :: "unicode \<Rightarrow> bool \<Rightarrow> SSHTunnel \<Rightarrow> SSHTunnel" where
  "checkTunnel u duplicate t0 =
     (let t1 = (if duplicate then t0\<lparr>st_ConfigurationError := ''duplicate_id''\<rparr> else t0);
          t2 = t1\<lparr>st_Host := lowercase u (st_Host t1), st_Port := (if st_Port t1 = 0 then 22 else st_Port t1),
                  st_HostKeyPolicy := (if st_HostKeyPolicy t1 = '''' then ''accept_new'' else st_HostKeyPolicy t1)\<rparr>
      in if tunnelInvalid t2 then t2\<lparr>st_ConfigurationError := ''invalid_configuration''\<rparr> else t2)"

definition markDuplicate :: "string \<Rightarrow> SSHTunnel \<Rightarrow> SSHTunnel" where
  "markDuplicate i t = (if st_ID t = i then t\<lparr>st_ConfigurationError := ''duplicate_id''\<rparr> else t)"

definition validateTunnel :: "unicode \<Rightarrow> SSHTunnel list \<Rightarrow> SSHTunnel \<Rightarrow> SSHTunnel list" where
  "validateTunnel u earlier t0 =
     (let t = nameTunnel (length earlier + 1) t0
      in map (markDuplicate (st_ID t)) earlier @ [checkTunnel u (st_ID t \<in> st_ID ` set earlier) t])"

definition validateSSHTunnels :: "unicode \<Rightarrow> Bundle \<Rightarrow> bundle_error + Bundle" where
  "validateSSHTunnels u b =
     (if list_ex (\<lambda>(t, _). tc_SSHTunnel t \<noteq> '''' \<and> tc_Type t \<noteq> ''forward'') (bn_Targets b)
      then Inl (BundleRejected ''SSH tunnel belongs on the connection'')
      else Inr (b\<lparr>bn_SSHTunnels := sort_key st_ID (foldl (validateTunnel u) [] (bn_SSHTunnels b))\<rparr>))"

section \<open>The bundle\<close>

definition sortSource :: "ConfiguredSource \<Rightarrow> ConfiguredSource" where
  "sortSource s = s\<lparr>cf_Repositories := sort_key rp_ID (cf_Repositories s)\<rparr>"

definition canonicalize :: "Bundle \<Rightarrow> Bundle" where
  "canonicalize b =
     b\<lparr>bn_GitLabSources := map sortSource (sort_key cf_ID (bn_GitLabSources b)),
       bn_GitHubSources := map sortSource (sort_key cf_ID (bn_GitHubSources b)),
       bn_HarborSources := map sortSource (sort_key cf_ID (bn_HarborSources b)),
       bn_DokployConnections := sort_key dc_ID (bn_DokployConnections b),
       bn_HTTPConnections := sort_key hc_ID (bn_HTTPConnections b),
       bn_Targets := sort_key (\<lambda>(t, _). tc_ID t) (bn_Targets b),
       bn_Routes := canonicalizeRoutes (bn_Routes b)\<rparr>"

definition ValidateAndCanonicalize :: "unicode \<Rightarrow> (string \<Rightarrow> string) \<Rightarrow> (string \<Rightarrow> bool) \<Rightarrow> Bundle \<Rightarrow> bundle_error + Bundle" where
  "ValidateAndCanonicalize u sha mediaType bundle =
     (case validateSSHTunnels u bundle of
        Inl e \<Rightarrow> Inl e
      | Inr b \<Rightarrow>
          (case validateSources sha b of
             Inl e \<Rightarrow> Inl e
           | Inr repositories \<Rightarrow>
               (case validateConnections (bn_DokployConnections b) (bn_HTTPConnections b) of
                  Inl e \<Rightarrow> Inl e
                | Inr connections \<Rightarrow>
                    (case validateTargets mediaType connections (\<lambda>_. None) (bn_Targets b) of
                       Inl e \<Rightarrow> Inl e
                     | Inr targets \<Rightarrow>
                         (case validateRoutes (bn_Routes b) repositories ((\<lambda>(t, _). tc_ID t) ` set targets) of
                            Inl e \<Rightarrow> Inl (ConfigFailure e)
                          | Inr _ \<Rightarrow> Inr (canonicalize (b\<lparr>bn_Targets := targets\<rparr>)))))))"

section \<open>What validation establishes\<close>

lemma firstOf_None [simp]: "firstOf es = None \<longleftrightarrow> set es \<subseteq> {None}"
  by (induction es rule: firstOf.induct) auto

lemma rejectIf_None [simp]: "rejectIf b m = None \<longleftrightarrow> \<not> b"
  by (simp add: rejectIf_def)

lemma uniqueCheck_None [simp]: "uniqueCheck locations kind i l = None \<longleftrightarrow> locations i = None"
  by (simp add: uniqueCheck_def addUniqueLocation_def split: option.splits)

text \<open>Every target of the result is one of the input with its host mode filled in, has passed its checks, and has an
  identifier of its own.\<close>

definition target_checked :: "(string \<Rightarrow> bool) \<Rightarrow> (string \<rightharpoonup> string) \<Rightarrow> TargetConfig \<Rightarrow> bool" where
  "target_checked mediaType connections t \<longleftrightarrow>
     (\<exists>t0. t = defaultHost t0 \<and> identifierPattern (tc_ID t0) \<and> validateTargetFields mediaType connections t0 = None)"

lemma defaultHost_keeps [simp]:
  "tc_ID (defaultHost t) = tc_ID t" "tc_Type (defaultHost t) = tc_Type t" "tc_Connection (defaultHost t) = tc_Connection t"
  "tc_ResourceType (defaultHost t) = tc_ResourceType t" "tc_ResourceID (defaultHost t) = tc_ResourceID t"
  "tc_URL (defaultHost t) = tc_URL t" "tc_SSHTunnel (defaultHost t) = tc_SSHTunnel t"
  "tc_AllowPrivateNetwork (defaultHost t) = tc_AllowPrivateNetwork t"
  by (simp_all add: defaultHost_def)

lemma identifierCheck_None [simp]: "identifierCheck kind i = None \<longleftrightarrow> identifierPattern i"
  by (simp add: identifierCheck_def)

lemma validateTargets_checked:
  "validateTargets mediaType connections locations ts = Inr rs \<Longrightarrow>
     (\<forall>(t, l)\<in>set rs. target_checked mediaType connections t \<and> locations (tc_ID t) = None) \<and> distinct (map (\<lambda>(t, _). tc_ID t) rs)"
proof (induction ts arbitrary: locations rs)
  case (Cons x ts)
  obtain t l where x: "x = (t, l)" by (cases x)
  obtain rest where rest: "rs = (defaultHost t, l) # rest"
      "validateTargets mediaType connections (locations(tc_ID t \<mapsto> l)) ts = Inr rest"
      "identifierPattern (tc_ID t)" "locations (tc_ID t) = None" "validateTargetFields mediaType connections t = None"
    using Cons.prems x by (auto split: option.splits sum.splits if_splits simp: map_sum_def)
  note ih = Cons.IH[OF rest(2)]
  have "target_checked mediaType connections (defaultHost t)"
    unfolding target_checked_def using rest(3,5) by blast
  moreover have "tc_ID t \<notin> (\<lambda>(t, _). tc_ID t) ` set rest" using ih by force
  ultimately show ?case using ih rest(1,4) by (fastforce split: if_splits)
qed simp

end
