(* ===== verification/Compile.thy ===== *)
theory Compile
  imports Config_Validate Canonical_URL Public_Hook Drain_Progress
begin

text \<open>
  \<^verbatim>\<open>compileBundle\<close> of \<^verbatim>\<open>internal/runtimecfg/generation.go\<close>: a configuration is validated, its connections and forward targets get
  canonical URLs and clients, its sources become adapters, its targets are compiled. The result is what the rest of the program
  is run with, so this theory closes the gap between a configuration file and the hypothesis \<open>bindings_ok\<close> of the system.

  \<^item> Opening an SSH tunnel reads key files; \<open>keys t\<close> says whether \<^verbatim>\<open>sshtunnel.New\<close> succeeds for the tunnel \<open>t\<close>. The digest of the
    bundle, which only status reports show, is the argument \<open>digest\<close>.
  \<^item> A client is not a value of the model; only whether its constructor fails is.
\<close>

section \<open>Definitions\<close>

definition tunnelReady :: "(SSHTunnel \<Rightarrow> bool) \<Rightarrow> Bundle \<Rightarrow> string \<Rightarrow> bool" where
  "tunnelReady keys b i \<longleftrightarrow> list_ex (\<lambda>t. st_ID t = i \<and> st_ConfigurationError t = '''' \<and> keys t) (bn_SSHTunnels b)"

text \<open>\<^verbatim>\<open>Tunnel.HTTPClient\<close> and the function \<^verbatim>\<open>clientFor\<close>: a client through a tunnel that is ready needs a plain HTTP destination.\<close>

definition tunnelDestination :: "string \<Rightarrow> bool" where
  "tunnelDestination raw =
     (case ParseURL raw of None \<Rightarrow> False | Some p \<Rightarrow> Hostname p \<noteq> '''' \<and> httpScheme p \<and> ur_User p = None)"

definition clientFor :: "(SSHTunnel \<Rightarrow> bool) \<Rightarrow> Bundle \<Rightarrow> string \<Rightarrow> string \<Rightarrow> bool \<Rightarrow> bundle_error option" where
  "clientFor keys b i destination allowed =
     rejectIf (i \<noteq> '''' \<and> tunnelReady keys b i \<and> allowed \<and> \<not> tunnelDestination destination) ''invalid SSH HTTP destination''"

fun compileDokployConnections ::
  "unicode \<Rightarrow> (SSHTunnel \<Rightarrow> bool) \<Rightarrow> Bundle \<Rightarrow> DokployConnection list \<Rightarrow> bundle_error + (string \<times> string \<times> string) list" where
  "compileDokployConnections u keys b [] = Inr []"
| "compileDokployConnections u keys b (c # cs) =
     (case dokployCanonicalBaseURL u (dc_BaseURL c) of
        None \<Rightarrow> Inl (BundleRejected ''compile Dokploy connection'')
      | Some url \<Rightarrow>
          (case firstOf [clientFor keys b (dc_SSHTunnel c) url True,
                         rejectIf (dokployCanonicalBaseURL u url = None \<or> dc_APIKey c = '''') ''compile Dokploy connection''] of
             Some e \<Rightarrow> Inl e
           | None \<Rightarrow> map_sum id (Cons (dc_ID c, url, dc_SSHTunnel c)) (compileDokployConnections u keys b cs)))"

fun compileHTTPConnections ::
  "unicode \<Rightarrow> (SSHTunnel \<Rightarrow> bool) \<Rightarrow> Bundle \<Rightarrow> HTTPConnection list \<Rightarrow> bundle_error + (string \<times> string \<times> string) list" where
  "compileHTTPConnections u keys b [] = Inr []"
| "compileHTTPConnections u keys b (c # cs) =
     (case httpCanonicalBaseURL u (hc_BaseURL c) of
        None \<Rightarrow> Inl (BundleRejected ''compile HTTP connection'')
      | Some url \<Rightarrow>
          (case firstOf [clientFor keys b (hc_SSHTunnel c) url (hc_AllowPrivateNetwork c),
                         rejectIf (httpCanonicalBaseURL u url = None \<or> ha_Value (hc_Auth c) = '''') ''compile HTTP connection''] of
             Some e \<Rightarrow> Inl e
           | None \<Rightarrow> map_sum id (Cons (hc_ID c, url, hc_SSHTunnel c)) (compileHTTPConnections u keys b cs)))"

text \<open>\<^verbatim>\<open>httptarget.NewForwardClient\<close>, and the forward case of the target loop up to it.\<close>

definition NewForwardClient :: "unicode \<Rightarrow> string \<Rightarrow> string \<Rightarrow> bool \<Rightarrow> bundle_error option" where
  "NewForwardClient u destination hostMode allowPrivateNetwork =
     (case canonicalForwardURL u destination of
        None \<Rightarrow> Some (BundleRejected ''compile forward target'')
      | Some p \<Rightarrow>
          firstOf [rejectIf (hostMode \<noteq> '''' \<and> hostMode \<noteq> ''target'' \<and> hostMode \<noteq> ''origin'') ''unsupported forward host mode'',
                   rejectIf (\<not> allowPrivateNetwork \<and> unsafeHTTPHost (Hostname p)) ''private forward URL requires allow_private_network''])"

definition forwardClient :: "unicode \<Rightarrow> (SSHTunnel \<Rightarrow> bool) \<Rightarrow> Bundle \<Rightarrow> TargetConfig \<Rightarrow> bundle_error option" where
  "forwardClient u keys b t =
     (if tc_Type t \<noteq> ''forward'' then None
      else case CanonicalForwardURL u (tc_URL t) of
        None \<Rightarrow> Some (BundleRejected ''compile forward target'')
      | Some url \<Rightarrow>
          firstOf [clientFor keys b (tc_SSHTunnel t) url (tc_AllowPrivateNetwork t),
                   NewForwardClient u url (tc_Host t) (tc_AllowPrivateNetwork t \<or> tc_SSHTunnel t \<noteq> '''')])"

text \<open>\<^verbatim>\<open>addSource\<close> for every source, with the adapter of its provider.\<close>

definition addSource :: "string \<Rightarrow> (string \<Rightarrow> Adapter) \<Rightarrow> ConfiguredSource \<Rightarrow> (string \<times> string) \<times> Source" where
  "addSource provider adapter s =
     ((provider, cf_ID s),
      \<lparr>sc_provider = provider, sc_id = cf_ID s, sc_adapter = adapter (cf_Secret s),
       sc_repositories = map (\<lambda>r. (rp_ExternalID r, rp_ID r)) (cf_Repositories s)\<rparr>)"

definition repositoryLimits :: "ConfiguredSource \<Rightarrow> ((string \<times> string) \<times> int) list" where
  "repositoryLimits s =
     concat (map (\<lambda>r. case rp_HistoryLimit r of None \<Rightarrow> [] | Some n \<Rightarrow> [((cf_ID s, rp_ID r), n)]) (cf_Repositories s))"

definition allSources :: "Bundle \<Rightarrow> ConfiguredSource list" where
  "allSources b = bn_GitLabSources b @ bn_GitHubSources b @ bn_HarborSources b"

definition compileSources ::
  "unicode \<Rightarrow> (string \<Rightarrow> string) \<Rightarrow> (string \<Rightarrow> bytes \<Rightarrow> bytes) \<Rightarrow> (bytes \<Rightarrow> json option) \<Rightarrow> (bytes \<Rightarrow> envelope option) \<Rightarrow>
   Bundle \<Rightarrow> Sources" where
  "compileSources u sha hmac decode decodeEnvelope b =
     \<lparr>so_sources = map (addSource ''gitlab'' (gitLabAdapter u decode)) (bn_GitLabSources b) @
                   map (addSource ''github'' (gitHubAdapter u decode hmac)) (bn_GitHubSources b) @
                   map (addSource ''harbor'' (harborAdapter u decodeEnvelope)) (bn_HarborSources b),
      so_gitLab = map (\<lambda>s. (sha (cf_Secret s), snd (addSource ''gitlab'' (gitLabAdapter u decode) s))) (bn_GitLabSources b)\<rparr>"

definition tunnelSnapshot :: "SSHTunnel \<Rightarrow> string \<times> sshSnapshot" where
  "tunnelSnapshot t = (st_ID t, \<lparr>sh_ID = st_ID t, sh_Host = st_Host t, sh_Port = st_Port t, sh_User = st_User t\<rparr>)"

definition compileBundle ::
  "unicode \<Rightarrow> (string \<Rightarrow> string) \<Rightarrow> (string \<Rightarrow> bytes \<Rightarrow> bytes) \<Rightarrow> (bytes \<Rightarrow> json option) \<Rightarrow> (bytes \<Rightarrow> envelope option) \<Rightarrow>
   (string \<Rightarrow> bool) \<Rightarrow> (SSHTunnel \<Rightarrow> bool) \<Rightarrow> string \<Rightarrow> Bundle \<Rightarrow> bundle_error + (Connections \<times> Sources \<times> Generation)" where
  "compileBundle u sha hmac decode decodeEnvelope mediaType keys digest bundle =
     (case ValidateAndCanonicalize u sha mediaType bundle of
        Inl e \<Rightarrow> Inl e
      | Inr b \<Rightarrow>
          (case compileDokployConnections u keys b (bn_DokployConnections b) of
             Inl e \<Rightarrow> Inl e
           | Inr ds \<Rightarrow>
               (case compileHTTPConnections u keys b (bn_HTTPConnections b) of
                  Inl e \<Rightarrow> Inl e
                | Inr hs \<Rightarrow>
                    let polling = pollingSettings (bn_Interval b) (bn_Timeout b);
                        c = \<lparr>cn_dokploy = ds, cn_http = hs, cn_tunnels = map tunnelSnapshot (bn_SSHTunnels b)\<rparr>;
                        ts = map fst (bn_Targets b)
                    in case firstOf (map (forwardClient u keys b) ts) of
                         Some e \<Rightarrow> Inl e
                       | None \<Rightarrow>
                           (case compileTargets sha (code_canonical u) c (fst polling) (snd polling) ts of
                              None \<Rightarrow> Inl (BundleRejected ''target without a connection'')
                            | Some targets \<Rightarrow>
                                Inr (c, compileSources u sha hmac decode decodeEnvelope b,
                                  \<lparr>gn_digest = digest, gn_targets = targets, gn_routes = bn_Routes b, gn_pollInterval = fst polling,
                                   gn_pollTimeout = snd polling,
                                   gn_repositoryLimits = concat (map repositoryLimits (allSources b)),
                                   gn_defaultRepositoryLimit = bn_DefaultRepositoryLimit b,
                                   gn_globalLimit = bn_GlobalLimit b\<rparr>)))))"

section \<open>What a compiled configuration guarantees\<close>

lemma sources_known:
  "validateSource valid s (locations, repositories) = Inr (locations', repositories') \<Longrightarrow>
     \<exists>known. repositories' = repositories(cf_ID s \<mapsto> known) \<and> known = rp_ID ` set (cf_Repositories s)"
proof -
  have loop: "validateRepositories valid ex known rs = Inr k \<Longrightarrow> fst ` set k = fst ` set known \<union> rp_ID ` set rs" for ex known rs k
    by (induction rs arbitrary: ex known) (auto split: option.splits simp del: firstOf_None)
  assume "validateSource valid s (locations, repositories) = Inr (locations', repositories')"
  then show ?thesis by (auto simp: validateSource_def split: option.splits sum.splits dest!: loop simp del: firstOf_None)
qed

definition knownIn :: "(string \<rightharpoonup> string set) \<Rightarrow> ConfiguredSource list \<Rightarrow> bool" where
  "knownIn repositories ss \<longleftrightarrow>
     (\<forall>i known. repositories i = Some known \<longrightarrow> (\<exists>s\<in>set ss. cf_ID s = i \<and> known = rp_ID ` set (cf_Repositories s)))"

lemma knownIn_step:
  "validateSource valid s st = Inr st' \<Longrightarrow> knownIn (snd st) ss \<Longrightarrow> knownIn (snd st') (ss @ [s])"
  using sources_known[of valid s "fst st" "snd st" "fst st'" "snd st'"] by (auto simp: knownIn_def split: if_splits)

lemma validateSourceList_known:
  "validateSourceList secret valid ss st = Inr st' \<Longrightarrow> knownIn (snd st) earlier \<Longrightarrow> knownIn (snd st') (earlier @ ss)"
proof (induction ss arbitrary: st earlier)
  case (Cons s ss)
  obtain mid where "validateSource valid s st = Inr mid" "validateSourceList secret valid ss mid = Inr st'"
    using Cons.prems(1) by (auto split: option.splits sum.splits)
  then show ?case using Cons.IH[of mid "earlier @ [s]"] knownIn_step Cons.prems(2) by fastforce
qed simp

lemma validateGitLabSources_known:
  "validateGitLabSources sha tokens ss st = Inr st' \<Longrightarrow> knownIn (snd st) earlier \<Longrightarrow> knownIn (snd st') (earlier @ ss)"
proof (induction ss arbitrary: tokens st earlier)
  case (Cons s ss)
  obtain mid where "validateSource validPositiveExternalID s st = Inr mid"
      "validateGitLabSources sha (tokens(sha (cf_Secret s) \<mapsto> cf_Location s)) ss mid = Inr st'"
    using Cons.prems(1) by (auto split: option.splits sum.splits simp del: firstOf_None)
  then show ?case using Cons.IH[of _ mid "earlier @ [s]"] knownIn_step Cons.prems(2) by fastforce
qed simp

lemma validateSources_known: "validateSources sha b = Inr repositories \<Longrightarrow> knownIn repositories (allSources b)"
proof -
  assume "validateSources sha b = Inr repositories"
  note ok = this
  obtain st where s1: "validateGitLabSources sha (\<lambda>_. None) (bn_GitLabSources b) ((\<lambda>_. None), (\<lambda>_. None)) = Inr st"
    using ok by (auto simp: validateSources_def split: sum.splits)
  obtain st' where s2: "validateSourceList (\<lambda>s. rejectIf (cf_Secret s = '''') ''GitHub source requires secret'') validPositiveExternalID
      (bn_GitHubSources b) st = Inr st'"
    using ok s1 by (auto simp: validateSources_def split: sum.splits)
  have "map_sum id snd (validateSourceList (\<lambda>s. rejectIf (cf_Secret s = '''') ''Harbor source requires authorization'')
      validHarborRepository (bn_HarborSources b) st') = Inr repositories"
    using ok s1 s2 by (simp add: validateSources_def)
  then obtain st'' where s3: "validateSourceList (\<lambda>s. rejectIf (cf_Secret s = '''') ''Harbor source requires authorization'')
      validHarborRepository (bn_HarborSources b) st' = Inr st''" "repositories = snd st''"
    by (cases "validateSourceList (\<lambda>s. rejectIf (cf_Secret s = '''') ''Harbor source requires authorization'') validHarborRepository
      (bn_HarborSources b) st'") auto
  have "knownIn (snd st) ([] @ bn_GitLabSources b)"
    by (rule validateGitLabSources_known[OF s1]) (simp add: knownIn_def)
  from validateSourceList_known[OF s3(1) validateSourceList_known[OF s2 this]] s3(2)
  show ?thesis by (simp add: allSources_def)
qed

text \<open>The parts of a successful validation.\<close>

lemma ValidateAndCanonicalize_Inr:
  assumes "ValidateAndCanonicalize u sha mediaType bundle = Inr b"
  obtains b0 repositories connections targets where
    "validateSSHTunnels u bundle = Inr b0" "validateSources sha b0 = Inr repositories"
    "validateConnections (bn_DokployConnections b0) (bn_HTTPConnections b0) = Inr connections"
    "validateTargets mediaType connections (\<lambda>_. None) (bn_Targets b0) = Inr targets"
    "validateRoutes (bn_Routes b0) repositories ((\<lambda>(t, _). tc_ID t) ` set targets) = Inr ()"
    "b = canonicalize (b0\<lparr>bn_Targets := targets\<rparr>)"
proof -
  obtain b0 where b0: "validateSSHTunnels u bundle = Inr b0"
    using assms by (cases "validateSSHTunnels u bundle") (simp_all add: ValidateAndCanonicalize_def)
  obtain repositories where r: "validateSources sha b0 = Inr repositories"
    using assms b0 by (cases "validateSources sha b0") (simp_all add: ValidateAndCanonicalize_def)
  obtain connections where c: "validateConnections (bn_DokployConnections b0) (bn_HTTPConnections b0) = Inr connections"
    using assms b0 r by (cases "validateConnections (bn_DokployConnections b0) (bn_HTTPConnections b0)")
      (simp_all add: ValidateAndCanonicalize_def)
  obtain targets where t: "validateTargets mediaType connections (\<lambda>_. None) (bn_Targets b0) = Inr targets"
    using assms b0 r c by (cases "validateTargets mediaType connections (\<lambda>_. None) (bn_Targets b0)")
      (simp_all add: ValidateAndCanonicalize_def)
  have "validateRoutes (bn_Routes b0) repositories ((\<lambda>(t, _). tc_ID t) ` set targets) = Inr () \<and>
      b = canonicalize (b0\<lparr>bn_Targets := targets\<rparr>)"
    using assms b0 r c t by (cases "validateRoutes (bn_Routes b0) repositories ((\<lambda>(t, _). tc_ID t) ` set targets)")
      (simp_all add: ValidateAndCanonicalize_def)
  then show thesis using that b0 r c t by blast
qed

lemma canonicalize_sets [simp]:
  "set (bn_Targets (canonicalize b)) = set (bn_Targets b)" "bn_Routes (canonicalize b) = canonicalizeRoutes (bn_Routes b)"
  by (simp_all add: canonicalize_def)

lemma compileTargets_ids: "compileTargets sha canon c i t cfgs = Some ts \<Longrightarrow> map fst ts = map tc_ID cfgs"
  by (induction cfgs arbitrary: ts) (auto split: option.splits)

lemma compileBundle_Inr:
  assumes "compileBundle u sha hmac decode decodeEnvelope mediaType keys digest bundle = Inr (c, ss, g)"
  obtains b where "ValidateAndCanonicalize u sha mediaType bundle = Inr b"
    "compileTargets sha (code_canonical u) c (fst (pollingSettings (bn_Interval b) (bn_Timeout b)))
       (snd (pollingSettings (bn_Interval b) (bn_Timeout b))) (map fst (bn_Targets b)) = Some (gn_targets g)"
    "gn_routes g = bn_Routes b" "ss = compileSources u sha hmac decode decodeEnvelope b"
    "firstOf (map (forwardClient u keys b) (map fst (bn_Targets b))) = None"
  using assms by (auto simp: compileBundle_def Let_def split: sum.splits option.splits simp del: firstOf_None)

lemma checked_config_ok: "target_checked mediaType connections t \<Longrightarrow> target_config_ok t"
  by (auto simp: target_checked_def target_config_ok_def validateTargetFields_def identifierPattern_def)

lemma compiled_routes_valid:
  assumes "compileBundle u sha hmac decode decodeEnvelope mediaType keys digest bundle = Inr (c, ss, g)"
    and v: "ValidateAndCanonicalize u sha mediaType bundle = Inr b"
  shows "routes_valid g" "canonical_ok (code_canonical u) c (fst ` set (bn_Targets b)) \<Longrightarrow> bindings_ok sha (code_canonical u) g"
proof -
  have b: "compileTargets sha (code_canonical u) c (fst (pollingSettings (bn_Interval b) (bn_Timeout b)))
         (snd (pollingSettings (bn_Interval b) (bn_Timeout b))) (map fst (bn_Targets b)) = Some (gn_targets g)"
      "gn_routes g = bn_Routes b"
    using compileBundle_Inr[OF assms(1)] v by auto
  obtain b0 repositories connections targets where w: "validateTargets mediaType connections (\<lambda>_. None) (bn_Targets b0) = Inr targets"
      "validateRoutes (bn_Routes b0) repositories ((\<lambda>(t, _). tc_ID t) ` set targets) = Inr ()"
      "b = canonicalize (b0\<lparr>bn_Targets := targets\<rparr>)"
    using ValidateAndCanonicalize_Inr[OF v] by metis
  have "fst ` set (gn_targets g) = tc_ID ` fst ` set targets"
    using arg_cong[OF compileTargets_ids[OF b(1)], of set] w(3) by (simp add: image_image)
  also have "\<dots> = (\<lambda>(t, _). tc_ID t) ` set targets" by (simp add: image_image case_prod_beta)
  finally have ids: "fst ` set (gn_targets g) = (\<lambda>(t, _). tc_ID t) ` set targets" .
  have "distinct (map rt_ID (canonicalizeRoutes (bn_Routes b0))) \<longleftrightarrow> distinct (map rt_ID (bn_Routes b0))"
    by (rule mset_eq_imp_distinct_iff) (simp add: canonicalizeRoutes_def)
  then have "validateRoutes (bn_Routes b) repositories ((\<lambda>(t, _). tc_ID t) ` set targets) = Inr ()"
    using w(2,3) by (simp add: validateRoutes_set_iff) (simp add: canonicalizeRoutes_def)
  then show "routes_valid g" unfolding routes_valid_def using ids b(2) by auto
  have "\<forall>cfg\<in>set (map fst (bn_Targets b)). target_config_ok cfg"
    using validateTargets_checked[OF w(1)] checked_config_ok w(3) by fastforce
  then show "canonical_ok (code_canonical u) c (fst ` set (bn_Targets b)) \<Longrightarrow> bindings_ok sha (code_canonical u) g"
    using compiled_bindings_ok[OF b(1)] by simp
qed

section \<open>Connections of a compiled configuration\<close>

lemma compileDokployConnections_Inr:
  "compileDokployConnections u keys b cs = Inr ds \<Longrightarrow>
     map fst ds = map dc_ID cs \<and> (\<forall>d\<in>set ds. \<exists>c\<in>set cs. dokployCanonicalBaseURL u (dc_BaseURL c) = Some (fst (snd d)))"
proof (induction cs arbitrary: ds)
  case (Cons c cs)
  obtain url rest where "dokployCanonicalBaseURL u (dc_BaseURL c) = Some url" "compileDokployConnections u keys b cs = Inr rest"
      "ds = (dc_ID c, url, dc_SSHTunnel c) # rest"
    using Cons.prems by (auto split: option.splits sum.splits simp: map_sum_def simp del: firstOf_None)
  then show ?case using Cons.IH[of rest] by auto
qed simp

lemma compileHTTPConnections_Inr:
  "compileHTTPConnections u keys b cs = Inr hs \<Longrightarrow>
     map fst hs = map hc_ID cs \<and> (\<forall>d\<in>set hs. \<exists>c\<in>set cs. httpCanonicalBaseURL u (hc_BaseURL c) = Some (fst (snd d)))"
proof (induction cs arbitrary: hs)
  case (Cons c cs)
  obtain url rest where "httpCanonicalBaseURL u (hc_BaseURL c) = Some url" "compileHTTPConnections u keys b cs = Inr rest"
      "hs = (hc_ID c, url, hc_SSHTunnel c) # rest"
    using Cons.prems by (auto split: option.splits sum.splits simp: map_sum_def simp del: firstOf_None)
  then show ?case using Cons.IH[of rest] by auto
qed simp

lemma validateDokployConnections_Inr:
  "validateDokployConnections cs (l, k) = Inr st \<Longrightarrow> \<forall>i kind. snd st i = Some kind \<longrightarrow> k i = Some kind \<or> (kind = ''dokploy'' \<and> i \<in> dc_ID ` set cs)"
proof (induction cs arbitrary: l k)
  case (Cons c cs)
  then have "validateDokployConnections cs (l(dc_ID c \<mapsto> dc_Location c), k(dc_ID c \<mapsto> ''dokploy'')) = Inr st"
    by (auto split: option.splits simp del: firstOf_None)
  from Cons.IH[OF this] show ?case by (auto split: if_splits)
qed auto

lemma validateHTTPConnections_Inr:
  "validateHTTPConnections cs (l, k) = Inr st \<Longrightarrow>
     (\<forall>i kind. snd st i = Some kind \<longrightarrow> k i = Some kind \<or> (kind = ''http'' \<and> i \<in> hc_ID ` set cs)) \<and>
     (\<forall>c\<in>set cs. identifierPattern (hc_ID c))"
proof (induction cs arbitrary: l k)
  case (Cons c cs)
  then have "validateHTTPConnections cs (l(hc_ID c \<mapsto> hc_Location c), k(hc_ID c \<mapsto> ''http'')) = Inr st" "identifierPattern (hc_ID c)"
    by (auto split: option.splits)
  with Cons.IH[OF this(1)] show ?case by (auto split: if_splits)
qed auto

lemma validateConnections_Inr:
  assumes "validateConnections ds hs = Inr connections"
  shows "connections i = Some ''dokploy'' \<Longrightarrow> i \<in> dc_ID ` set ds" "connections i = Some ''http'' \<Longrightarrow> i \<in> hc_ID ` set hs"
    "\<forall>c\<in>set hs. identifierPattern (hc_ID c)"
proof -
  obtain l k where d: "validateDokployConnections ds ((\<lambda>_. None), (\<lambda>_. None)) = Inr (l, k)"
    using assms by (cases "validateDokployConnections ds ((\<lambda>_. None), (\<lambda>_. None))") (auto simp: validateConnections_def)
  then obtain st where h: "validateHTTPConnections hs (l, k) = Inr st" "connections = snd st"
    using assms by (cases "validateHTTPConnections hs (l, k)") (auto simp: validateConnections_def)
  note D = validateDokployConnections_Inr[OF d] and H = validateHTTPConnections_Inr[OF h(1)]
  show "connections i = Some ''dokploy'' \<Longrightarrow> i \<in> dc_ID ` set ds" "connections i = Some ''http'' \<Longrightarrow> i \<in> hc_ID ` set hs"
    "\<forall>c\<in>set hs. identifierPattern (hc_ID c)"
    using D H h(2) by fastforce+
qed

text \<open>The source looks a target's connection up without a check; validation has made sure that it is there.\<close>

lemma checked_target_compiles:
  assumes t: "target_checked mediaType connections t" and v: "validateConnections ds hs = Inr connections"
    and c: "fst ` set (cn_dokploy c) = dc_ID ` set ds" "fst ` set (cn_http c) = hc_ID ` set hs"
    and f: "forwardClient u keys b t = None"
  shows "compileTarget sha (code_canonical u) c interval timeout t \<noteq> None"
proof -
  obtain t0 where t0: "t = defaultHost t0" "validateTargetFields mediaType connections t0 = None"
    using t by (auto simp: target_checked_def)
  consider "tc_Type t = ''dokploy''" "connections (tc_Connection t) = Some ''dokploy''"
    | "tc_Type t = ''http''" "connections (tc_Connection t) = Some ''http''" | "tc_Type t = ''forward''"
    using t0 by (auto simp: validateTargetFields_def connectionCheck_def split: if_splits option.splits)
  then show ?thesis
  proof cases
    case 1
    then have "map_of (cn_dokploy c) (tc_Connection t) \<noteq> None"
      using validateConnections_Inr(1)[OF v] c(1) by (simp add: map_of_eq_None_iff)
    then show ?thesis using 1(1) by (simp add: compileTarget_def)
  next
    case 2
    then have "map_of (cn_http c) (tc_Connection t) \<noteq> None"
      using validateConnections_Inr(2)[OF v] c(2) by (simp add: map_of_eq_None_iff)
    then show ?thesis using 2(1) by (simp add: compileTarget_def)
  next
    case 3
    then have "CanonicalForwardURL u (tc_URL t) \<noteq> None" using f by (auto simp: forwardClient_def split: option.splits)
    then show ?thesis using 3 by (simp add: compileTarget_def code_canonical_def)
  qed
qed

lemma compileTargets_total:
  "(\<forall>t\<in>set ts. compileTarget sha canon c i p t \<noteq> None) \<Longrightarrow> compileTargets sha canon c i p ts \<noteq> None"
  by (induction ts) auto

lemma canonicalize_connections [simp]:
  "set (bn_DokployConnections (canonicalize b)) = set (bn_DokployConnections b)"
  "set (bn_HTTPConnections (canonicalize b)) = set (bn_HTTPConnections b)"
  by (simp_all add: canonicalize_def)

lemma validated_targets_compile:
  assumes v: "ValidateAndCanonicalize u sha mediaType bundle = Inr b"
    and ds: "compileDokployConnections u keys b (bn_DokployConnections b) = Inr (cn_dokploy c)"
    and hs: "compileHTTPConnections u keys b (bn_HTTPConnections b) = Inr (cn_http c)"
    and f: "firstOf (map (forwardClient u keys b) (map fst (bn_Targets b))) = None"
  shows "compileTargets sha (code_canonical u) c interval timeout (map fst (bn_Targets b)) \<noteq> None"
proof -
  obtain b0 connections targets where w: "validateConnections (bn_DokployConnections b0) (bn_HTTPConnections b0) = Inr connections"
      "validateTargets mediaType connections (\<lambda>_. None) (bn_Targets b0) = Inr targets" "b = canonicalize (b0\<lparr>bn_Targets := targets\<rparr>)"
    using ValidateAndCanonicalize_Inr[OF v] by metis
  have "set (map fst (cn_dokploy c)) = set (map dc_ID (bn_DokployConnections b))" "set (map fst (cn_http c)) = set (map hc_ID (bn_HTTPConnections b))"
    using compileDokployConnections_Inr[OF ds] compileHTTPConnections_Inr[OF hs] by simp_all
  then have keys: "fst ` set (cn_dokploy c) = dc_ID ` set (bn_DokployConnections b0)"
      "fst ` set (cn_http c) = hc_ID ` set (bn_HTTPConnections b0)"
    using w(3) by simp_all
  have "compileTarget sha (code_canonical u) c interval timeout t \<noteq> None" if t: "t \<in> set (map fst (bn_Targets b))" for t
  proof (rule checked_target_compiles[OF _ w(1) keys])
    show "target_checked mediaType connections t" using validateTargets_checked[OF w(2)] t w(3) by fastforce
    show "forwardClient u keys b t = None" using f t by auto
  qed
  then show ?thesis by (intro compileTargets_total) blast
qed

section \<open>Plain URLs\<close>

text \<open>If every connection is at a plain host, and the URLs of forward targets are canonical once canonicalised, the hypothesis of the
  compiled bindings holds.\<close>

definition plainBundle :: "unicode \<Rightarrow> Bundle \<Rightarrow> bool" where
  "plainBundle u b \<longleftrightarrow>
     (\<forall>c\<in>set (bn_DokployConnections b). plainURL (dc_BaseURL c)) \<and> (\<forall>c\<in>set (bn_HTTPConnections b). plainURL (hc_BaseURL c)) \<and>
     (\<forall>(t, _)\<in>set (bn_Targets b). \<forall>url. CanonicalForwardURL u (tc_URL t) = Some url \<longrightarrow> CanonicalForwardURL u url = Some url)"

lemma canonical_nonempty: "dokployCanonicalBaseURL u '''' = None" "httpCanonicalBaseURL u '''' = None"
proof -
  have "case ParseURL '''' of None \<Rightarrow> True | Some p \<Rightarrow> ur_Scheme p = ''''" by code_simp
  then show "dokployCanonicalBaseURL u '''' = None" "httpCanonicalBaseURL u '''' = None"
    by (auto simp: dokployCanonicalBaseURL_def httpCanonicalBaseURL_def split: option.splits)
qed

lemma plainBundle_canonical:
  assumes p: "plainBundle u b" and ds: "compileDokployConnections u keys b (bn_DokployConnections b) = Inr (cn_dokploy c)"
    and hs: "compileHTTPConnections u keys b (bn_HTTPConnections b) = Inr (cn_http c)"
    and ids: "\<forall>h\<in>set (bn_HTTPConnections b). identifierPattern (hc_ID h)"
  shows "canonical_ok (code_canonical u) c (fst ` set (bn_Targets b))"
  unfolding canonical_ok_def
proof (intro conjI allI impI ballI)
  fix i url s assume "map_of (cn_dokploy c) i = Some (url, s)"
  then have "(i, url, s) \<in> set (cn_dokploy c)" by (rule map_of_SomeD)
  then obtain d where d: "d \<in> set (bn_DokployConnections b)" "dokployCanonicalBaseURL u (dc_BaseURL d) = Some url"
    using compileDokployConnections_Inr[OF ds] by fastforce
  then have "dokployCanonicalBaseURL u url = Some url" using canonical_idempotent_plain(1) p unfolding plainBundle_def by blast
  then show "dokployURL (code_canonical u) url = Some url" "url \<noteq> ''''"
    using canonical_nonempty(1)[of u] by (auto simp: code_canonical_def)
next
  fix i url s assume "map_of (cn_http c) i = Some (url, s)"
  then have m: "(i, url, s) \<in> set (cn_http c)" by (rule map_of_SomeD)
  then obtain d where d: "d \<in> set (bn_HTTPConnections b)" "httpCanonicalBaseURL u (hc_BaseURL d) = Some url"
    using compileHTTPConnections_Inr[OF hs] by fastforce
  then have "httpCanonicalBaseURL u url = Some url" using canonical_idempotent_plain(2) p unfolding plainBundle_def by blast
  then show "httpURL (code_canonical u) url = Some url" "url \<noteq> ''''"
    using canonical_nonempty(2)[of u] by (auto simp: code_canonical_def)
  have "i \<in> set (map hc_ID (bn_HTTPConnections b))" using m compileHTTPConnections_Inr[OF hs] by (metis fst_conv image_eqI set_map)
  then show "i \<noteq> ''''" using ids by (auto simp: identifierPattern_def)
next
  fix cfg url assume "cfg \<in> fst ` set (bn_Targets b)" "forwardURL (code_canonical u) (tc_URL cfg) = Some url"
  then show "forwardURL (code_canonical u) url = Some url" using p by (auto simp: plainBundle_def code_canonical_def)
qed

lemma plainBundle_canonicalize: "plainBundle u (canonicalize b) \<longleftrightarrow> plainBundle u b"
  by (simp add: plainBundle_def)

section \<open>The guarantee\<close>

text \<open>Every route's source and repository are among the compiled sources, whatever their provider.\<close>

definition routed_sources :: "Sources \<Rightarrow> Generation \<Rightarrow> bool" where
  "routed_sources ss g \<longleftrightarrow>
     (\<forall>r\<in>set (gn_routes g). \<exists>(key, source)\<in>set (so_sources ss).
        snd key = rm_Source (rt_Match r) \<and> rm_Repository (rt_Match r) \<in> snd ` set (sc_repositories source))"

lemma allSources_compiled:
  assumes "s \<in> set (allSources b)"
  shows "\<exists>provider adapter. addSource provider adapter s \<in> set (so_sources (compileSources u sha hmac decode decodeEnvelope b))"
proof -
  consider "s \<in> set (bn_GitLabSources b)" | "s \<in> set (bn_GitHubSources b)" | "s \<in> set (bn_HarborSources b)"
    using assms by (auto simp: allSources_def)
  then show ?thesis
    by cases (simp_all add: compileSources_def, (metis imageI)+)
qed

lemma addSource_parts:
  "snd (fst (addSource provider adapter s)) = cf_ID s"
  "snd ` set (sc_repositories (snd (addSource provider adapter s))) = rp_ID ` set (cf_Repositories s)"
  by (simp_all add: addSource_def image_image)

lemma allSources_canonicalize: "s \<in> set (allSources b) \<Longrightarrow> sortSource s \<in> set (allSources (canonicalize b))"
  by (auto simp: allSources_def canonicalize_def)

lemma compiled_sources:
  assumes v: "ValidateAndCanonicalize u sha mediaType bundle = Inr b" and ss: "ss = compileSources u sha hmac decode decodeEnvelope b"
    and g: "gn_routes g = bn_Routes b"
  shows "routed_sources ss g"
  unfolding routed_sources_def
proof
  fix r assume "r \<in> set (gn_routes g)"
  obtain b0 repositories targets where w: "validateSources sha b0 = Inr repositories" "b = canonicalize (b0\<lparr>bn_Targets := targets\<rparr>)"
      "validateRoutes (bn_Routes b0) repositories ((\<lambda>(t, _). tc_ID t) ` set targets) = Inr ()"
    using ValidateAndCanonicalize_Inr[OF v] by metis
  have "r \<in> set (bn_Routes b0)" using \<open>r \<in> set (gn_routes g)\<close> g w(2) by (simp add: canonicalizeRoutes_def)
  then have "match_ok repositories (rt_Match r)" using w(3) by (simp add: validateRoutes_set_iff route_ok_def)
  then obtain known where known: "repositories (rm_Source (rt_Match r)) = Some known" "rm_Repository (rt_Match r) \<in> known"
    by (auto simp: match_ok_def)
  then obtain s where s: "s \<in> set (allSources b0)" "cf_ID s = rm_Source (rt_Match r)" "known = rp_ID ` set (cf_Repositories s)"
    using validateSources_known[OF w(1)] unfolding knownIn_def by blast
  have "s \<in> set (allSources (b0\<lparr>bn_Targets := targets\<rparr>))" using s(1) by (simp add: allSources_def)
  then have "sortSource s \<in> set (allSources b)" using allSources_canonicalize w(2) by simp
  then obtain p a where "addSource p a (sortSource s) \<in> set (so_sources ss)"
    using allSources_compiled ss by blast
  then show "\<exists>(key, source)\<in>set (so_sources ss). snd key = rm_Source (rt_Match r) \<and>
      rm_Repository (rt_Match r) \<in> snd ` set (sc_repositories source)"
    using s(2,3) known(2) addSource_parts[of p a "sortSource s"]
    by (intro bexI[of _ "addSource p a (sortSource s)"]) (auto simp: sortSource_def case_prod_beta)
qed

end
