(* ===== verification/Config_Theorems.thy ===== *)
theory Config_Theorems
  imports Compile Sample_Data
begin

text \<open>
  The properties of a compiled configuration: what \<^verbatim>\<open>compileBundle\<close> accepts can be served, and the events that a reload has queued are
  decided by it. They are applied to the configuration of the sample installation.
\<close>

section \<open>Lemmas\<close>

lemma validateTargets_from:
  "validateTargets mediaType connections locations ts = Inr rs \<Longrightarrow> \<forall>(t, l)\<in>set rs. \<exists>t0. (t0, l) \<in> set ts \<and> t = defaultHost t0"
proof (induction ts arbitrary: locations rs)
  case (Cons x ts)
  obtain t l where x: "x = (t, l)" by (cases x)
  obtain rest where rest: "rs = (defaultHost t, l) # rest"
      "validateTargets mediaType connections (locations(tc_ID t \<mapsto> l)) ts = Inr rest"
    using Cons.prems x by (auto split: option.splits sum.splits if_splits simp: map_sum_def simp del: firstOf_None)
  then show ?case using Cons.IH[OF rest(2)] x by fastforce
qed simp

lemma validateSSHTunnels_keeps:
  "validateSSHTunnels u bundle = Inr b \<Longrightarrow>
     bn_DokployConnections b = bn_DokployConnections bundle \<and> bn_HTTPConnections b = bn_HTTPConnections bundle \<and> bn_Targets b = bn_Targets bundle"
  by (auto simp: validateSSHTunnels_def split: if_splits)

lemma validated_plain:
  assumes v: "ValidateAndCanonicalize u sha mediaType bundle = Inr b" and p: "plainBundle u bundle"
  shows "plainBundle u b" "\<forall>h\<in>set (bn_HTTPConnections b). identifierPattern (hc_ID h)"
proof -
  obtain b0 connections targets where w: "validateSSHTunnels u bundle = Inr b0"
      "validateConnections (bn_DokployConnections b0) (bn_HTTPConnections b0) = Inr connections"
      "validateTargets mediaType connections (\<lambda>_. None) (bn_Targets b0) = Inr targets" "b = canonicalize (b0\<lparr>bn_Targets := targets\<rparr>)"
    using ValidateAndCanonicalize_Inr[OF v] by metis
  note k = validateSSHTunnels_keeps[OF w(1)]
  have "\<forall>(t, l)\<in>set targets. \<forall>url. CanonicalForwardURL u (tc_URL t) = Some url \<longrightarrow> CanonicalForwardURL u url = Some url"
    using validateTargets_from[OF w(3)] p k unfolding plainBundle_def by fastforce
  then show "plainBundle u b" using p k w(4) by (simp add: plainBundle_canonicalize) (simp add: plainBundle_def)
  show "\<forall>h\<in>set (bn_HTTPConnections b). identifierPattern (hc_ID h)"
    using validateConnections_Inr(3)[OF w(2)] w(4) by simp
qed

lemma compileBundle_connections:
  assumes "compileBundle u sha hmac decode decodeEnvelope mediaType keys digest bundle = Inr (c, ss, g)"
    and "ValidateAndCanonicalize u sha mediaType bundle = Inr b"
  shows "compileDokployConnections u keys b (bn_DokployConnections b) = Inr (cn_dokploy c) \<and>
    compileHTTPConnections u keys b (bn_HTTPConnections b) = Inr (cn_http c)"
  using assms by (auto simp: compileBundle_def Let_def split: sum.splits option.splits simp del: firstOf_None)

section \<open>The property\<close>

text \<open>C24. A configuration that compiles can be served. Routing decides every event, and each delivery it creates is for a target of
  its own that the new configuration resolves from the delivery's snapshot; every route is about a repository of a configured
  source; and every compiled target is bound to its own snapshot, which is what the system is started with. The hypothesis is
  that the connections are at plain hosts (no IPv6 literals) and that canonical forward URLs are canonical.\<close>

theorem compiled_bundle_serves:
  assumes c: "compileBundle u sha hmac decode decodeEnvelope mediaType keys digest bundle = Inr (c, ss, g)"
    and plain: "plainBundle u bundle"
  shows "(\<forall>event. \<exists>dec. Route g event = Inr dec \<and> distinct (map nd_TargetID (rd_Deliveries dec)) \<and>
       (\<forall>d\<in>set (rd_Deliveries dec). \<exists>t.
          ResolveTarget sha (code_canonical u) g (nd_TargetID d) (Some (nd_TargetSnapshot d)) = (Some t, BindingCompatible))) \<and>
    routed_sources ss g \<and> bindings_ok sha (code_canonical u) g"
proof -
  obtain b where b: "ValidateAndCanonicalize u sha mediaType bundle = Inr b" "gn_routes g = bn_Routes b"
      "ss = compileSources u sha hmac decode decodeEnvelope b"
    using compileBundle_Inr[OF c] by metis
  have "canonical_ok (code_canonical u) c (fst ` set (bn_Targets b))"
    using plainBundle_canonical validated_plain[OF b(1) plain] compileBundle_connections[OF c b(1)] by blast
  note ok = compiled_routes_valid(1)[OF c b(1)] compiled_routes_valid(2)[OF c b(1) this]
  have "\<exists>dec. Route g event = Inr dec \<and> distinct (map nd_TargetID (rd_Deliveries dec)) \<and>
       (\<forall>d\<in>set (rd_Deliveries dec). \<exists>t.
          ResolveTarget sha (code_canonical u) g (nd_TargetID d) (Some (nd_TargetSnapshot d)) = (Some t, BindingCompatible))" for event
  proof -
    obtain dec where "Route g event = Inr dec" "distinct (map nd_TargetID (rd_Deliveries dec))"
      using Route_total[OF ok(1) bindings_named[OF ok(2)]] by blast
    then show ?thesis using Route_compatible[OF ok(2)] by blast
  qed
  then show ?thesis using compiled_sources[OF b(1,3,2)] ok(2) by blast
qed

definition sample_location :: SourceLocation where
  "sample_location = \<lparr>sl_Path = ''hookfly.yaml'', sl_Field = ''0''\<rparr>"

definition sample_bundle :: Bundle where
  "sample_bundle = \<lparr>bn_SSHTunnels = [], bn_GlobalLimit = 100, bn_DefaultRepositoryLimit = 10, bn_Interval = second,
     bn_Timeout = 30 * minute,
     bn_GitLabSources = [\<lparr>cf_ID = ''gl'', cf_Secret = ''t0'',
       cf_Repositories = [\<lparr>rp_ID = ''app'', rp_Name = ''App'', rp_ExternalID = ''7'', rp_HistoryLimit = None, rp_Location = sample_location\<rparr>],
       cf_Location = sample_location\<rparr>],
     bn_GitHubSources = [], bn_HarborSources = [],
     bn_DokployConnections = [\<lparr>dc_SSHTunnel = '''', dc_ID = ''main'', dc_BaseURL = ''https://d.x'', dc_APIKey = ''k'',
       dc_Location = sample_location\<rparr>],
     bn_HTTPConnections = [], bn_Targets = [(sample_config, sample_location)], bn_Routes = [sample_route]\<rparr>"

definition sample_compiled :: "bundle_error + (Connections \<times> Sources \<times> Generation)" where
  "sample_compiled =
     compileBundle sample_unicode sample_sha (\<lambda>_ _. '''') (\<lambda>_. None) (\<lambda>_. None) (\<lambda>_. True) (\<lambda>_. True) ''d1'' sample_bundle"

lemma sample_identifiers:
  "identifierPattern ''gl''" "identifierPattern ''app''" "identifierPattern ''main''" "identifierPattern ''web''" "identifierPattern ''c1''"
  "identifierPattern ''deploy-main''"
  by code_simp+

lemma sample_urls:
  "validateDokployURL ''https://d.x'' = None" "dokployCanonicalBaseURL sample_unicode ''https://d.x'' = Some ''https://d.x''"
  by code_simp+

lemma sample_external: "validPositiveExternalID ''7''"
proof -
  have "numeralValue ''7'' = 7" by code_simp
  then show ?thesis by (simp add: validPositiveExternalID_def positiveInt64_def isDecimalDigit_def)
qed

lemma sample_validates: "ValidateAndCanonicalize sample_unicode sample_sha (\<lambda>_. True) sample_bundle = Inr sample_bundle"
proof -
  have one: "validateSSHTunnels sample_unicode sample_bundle = Inr sample_bundle"
    by (simp add: validateSSHTunnels_def sample_bundle_def sample_config_def)
  have two: "validateSources sample_sha sample_bundle = Inr ((\<lambda>_. None)(''gl'' \<mapsto> {''app''}))"
    by (simp add: validateSources_def sample_bundle_def validateSource_def sample_identifiers sample_external identifierCheck_def rejectIf_def
        uniqueCheck_def addUniqueLocation_def)
  have three: "validateConnections (bn_DokployConnections sample_bundle) (bn_HTTPConnections sample_bundle) = Inr ((\<lambda>_. None)(''main'' \<mapsto> ''dokploy''))"
    by (simp add: validateConnections_def sample_bundle_def sample_identifiers sample_urls identifierCheck_def rejectIf_def
        uniqueCheck_def addUniqueLocation_def)
  have four: "validateTargets (\<lambda>_. True) ((\<lambda>_. None)(''main'' \<mapsto> ''dokploy'')) (\<lambda>_. None) (bn_Targets sample_bundle) = Inr (bn_Targets sample_bundle)"
    by (simp add: sample_bundle_def sample_config_def sample_identifiers identifierCheck_def rejectIf_def uniqueCheck_def addUniqueLocation_def
        validateTargetFields_def forwardingFields_def connectionCheck_def defaultHost_def)
  have five: "validateRoutes (bn_Routes sample_bundle) ((\<lambda>_. None)(''gl'' \<mapsto> {''app''})) ((\<lambda>(t, _). tc_ID t) ` set (bn_Targets sample_bundle)) = Inr ()"
    by (simp add: validateRoutes_iff sample_bundle_def sample_route_def sample_match_def sample_config_def route_ok_def match_ok_def
        action_ok_def sample_identifiers canonicalEvents_def)
  have "canonicalize (sample_bundle\<lparr>bn_Targets := bn_Targets sample_bundle\<rparr>) = sample_bundle"
    by (simp add: canonicalize_def sample_bundle_def sortSource_def canonicalizeRoutes_def)
  then show ?thesis by (simp only: ValidateAndCanonicalize_def one two three four five sum.case)
qed

lemma sample_compiles: "\<not> isl sample_compiled"
proof -
  have d: "compileDokployConnections sample_unicode (\<lambda>_. True) sample_bundle (bn_DokployConnections sample_bundle) =
      Inr [(''main'', ''https://d.x'', '''')]"
    by (simp add: sample_bundle_def sample_urls clientFor_def rejectIf_def)
  have h: "compileHTTPConnections sample_unicode (\<lambda>_. True) sample_bundle (bn_HTTPConnections sample_bundle) = Inr []"
    by (simp add: sample_bundle_def)
  have f: "firstOf (map (forwardClient sample_unicode (\<lambda>_. True) sample_bundle) (map fst (bn_Targets sample_bundle))) = None"
    by (simp add: sample_bundle_def forwardClient_def sample_config_def)
  show ?thesis
    using validated_targets_compile[OF sample_validates, of "\<lambda>_. True"
        "\<lparr>cn_dokploy = [(''main'', ''https://d.x'', '''')], cn_http = [], cn_tunnels = map tunnelSnapshot (bn_SSHTunnels sample_bundle)\<rparr>"] d h f
    by (auto simp: sample_compiled_def compileBundle_def sample_validates Let_def split: option.splits simp del: firstOf_None)
qed

lemma sample_bundle_plain: "plainBundle sample_unicode sample_bundle"
proof -
  have "case ParseURL ''https://d.x'' of None \<Rightarrow> False | Some p \<Rightarrow> Hostname p = ''d.x'' \<and> \<not> ur_ForceQuery p" by code_simp
  then have "plainURL ''https://d.x''"
    by (auto simp: plainURL_def plainByte_def asciiAlpha_def split: option.splits)
  moreover have "CanonicalForwardURL sample_unicode '''' = None" by code_simp
  ultimately show ?thesis by (simp add: plainBundle_def sample_bundle_def sample_config_def)
qed

theorem compiled_bundle_serves_witness:
  "\<exists>c ss g dec. sample_compiled = Inr (c, ss, g) \<and> Route g sample_event = Inr dec \<and> routed_sources ss g \<and>
     bindings_ok sample_sha (code_canonical sample_unicode) g"
proof -
  obtain c ss g where c: "sample_compiled = Inr (c, ss, g)" using sample_compiles using sample_compiles by (metis isl_def obj_sumE prod_cases3)
  show ?thesis using compiled_bundle_serves[OF c[unfolded sample_compiled_def] sample_bundle_plain] c by blast
qed

section \<open>Draining under a compiled configuration\<close>

lemma compiled_named:
  assumes "compileBundle u sha hmac decode decodeEnvelope mediaType keys digest bundle = Inr (c, ss, g)"
  shows "named_targets g"
  unfolding named_targets_def
proof (intro allI impI)
  fix i t assume l: "map_of (gn_targets g) i = Some t"
  obtain b :: Bundle where "compileTargets sha (code_canonical u) c (fst (pollingSettings (bn_Interval b) (bn_Timeout b)))
       (snd (pollingSettings (bn_Interval b) (bn_Timeout b))) (map fst (bn_Targets b)) = Some (gn_targets g)"
    by (rule compileBundle_Inr[OF assms])
  then obtain cfg where "tc_ID cfg = i" "compileTarget sha (code_canonical u) c (fst (pollingSettings (bn_Interval b) (bn_Timeout b)))
       (snd (pollingSettings (bn_Interval b) (bn_Timeout b))) cfg = Some t"
    using compileTargets_lookup[OF _ l] by blast
  then show "tg_ID t = i"
    by (auto simp: compileTarget_def dokployTarget_def httpTarget_def forwardTarget_def base_simps withTunnel_keeps Let_def split: if_splits option.splits)
qed

text \<open>C15. A reload completes: with any configuration that compiled, the drainer decides the queued events one per round, oldest
  first (after \<open>k\<close> rounds exactly the first \<open>k\<close> events of the queue, which is in the order of acceptance, are no longer deferred),
  and after as many rounds as there are events, and one more, the queue is empty, no event is left deferred, no event was
  lost, and the lifecycle is idle again.\<close>

theorem draining_completes:
  assumes u: "inj uuid" and inv: "durable_inv uuid db" and m: "mg_state m = StateDraining"
    and c: "compileBundle cu sha hmac decode decodeEnvelope mediaType keys digest bundle = Inr (c, ss, mg_current m)"
  shows "sorted_wrt (\<lambda>p q. q_seq p < q_seq q) (db_queue db) \<and>
    (\<forall>k \<le> length (db_queue db). \<exists>db'. drainRounds uuid k m db = (Inr True, m, db') \<and> db_queue db' = drop k (db_queue db) \<and>
       (\<forall>e\<in>set (db_events db'). ev_routing_result e = RoutingDeferred \<longleftrightarrow> ev_id e \<in> q_event_id ` set (drop k (db_queue db))) \<and>
       ev_id ` set (db_events db') = ev_id ` set (db_events db)) \<and>
    (\<exists>db'. drainRounds uuid (Suc (length (db_queue db))) m db = (Inr False, m\<lparr>mg_state := StateIdle, mg_recovery := False\<rparr>, db') \<and>
       durable_inv uuid db' \<and> db_queue db' = [] \<and> (\<forall>e\<in>set (db_events db'). ev_routing_result e \<noteq> RoutingDeferred) \<and>
       ev_id ` set (db_events db') = ev_id ` set (db_events db))"
proof -
  obtain b where "ValidateAndCanonicalize cu sha mediaType bundle = Inr b" using compileBundle_Inr[OF c] by metis
  then have g: "routes_valid (mg_current m)" "named_targets (mg_current m)"
    using compiled_routes_valid(1)[OF c] compiled_named[OF c] by blast+
  have "\<exists>db'. drainRounds uuid k m db = (Inr True, m, db') \<and> db_queue db' = drop k (db_queue db) \<and>
       (\<forall>e\<in>set (db_events db'). ev_routing_result e = RoutingDeferred \<longleftrightarrow> ev_id e \<in> q_event_id ` set (drop k (db_queue db))) \<and>
       ev_id ` set (db_events db') = ev_id ` set (db_events db)" if k: "k \<le> length (db_queue db)" for k
  proof -
    obtain db' where r: "drainRounds uuid k m db = (Inr True, m, db')" "durable_inv uuid db'" "db_queue db' = drop k (db_queue db)"
        "ev_id ` set (db_events db') = ev_id ` set (db_events db)" using drainRounds_steps[OF u g m inv k] by blast
    then show ?thesis using queued_deferred(2)[OF r(2)] by (intro exI[of _ db'] conjI ballI) simp_all
  qed
  moreover obtain db' where f: "drainRounds uuid (Suc (length (db_queue db))) m db = (Inr False, m\<lparr>mg_state := StateIdle, mg_recovery := False\<rparr>, db')"
      "durable_inv uuid db'" "db_queue db' = []" "ev_id ` set (db_events db') = ev_id ` set (db_events db)"
    using drainRounds_idle[OF u g inv m] by blast
  moreover have "\<forall>e\<in>set (db_events db'). ev_routing_result e \<noteq> RoutingDeferred" using no_deferred[OF f(2,3)] by blast
  ultimately show ?thesis using queued_deferred(1)[OF inv] by (intro conjI allI impI) blast+
qed

definition draining_db :: db where
  "draining_db = snd (IngestDeferred sample_uuid (sample_command\<lparr>ic_RoutingResult := RoutingDeferred, ic_Deliveries := []\<rparr>) empty_db)"

theorem draining_completes_witness:
  "\<exists>m db'. \<not> isl sample_compiled \<and> mg_state m = StateDraining \<and> length (db_queue draining_db) = 1 \<and>
     drainRounds sample_uuid 2 m draining_db = (Inr False, m\<lparr>mg_state := StateIdle, mg_recovery := False\<rparr>, db') \<and> db_queue db' = []"
proof -
  obtain c ss g where c: "sample_compiled = Inr (c, ss, g)" using sample_compiles by (metis isl_def obj_sumE prod_cases3)
  have d: "durable_inv sample_uuid draining_db"
    unfolding draining_db_def by (rule IngestDeferred_durable[OF inj_sample_uuid durable_inv_empty])
  have q: "length (db_queue draining_db) = 1" by code_simp
  let ?m = "sample_manager\<lparr>mg_current := g, mg_state := StateDraining\<rparr>"
  have "compileBundle sample_unicode sample_sha (\<lambda>_ _. '''') (\<lambda>_. None) (\<lambda>_. None) (\<lambda>_. True) (\<lambda>_. True) ''d1'' sample_bundle =
      Inr (c, ss, mg_current ?m)" using c by (simp add: sample_compiled_def)
  from draining_completes[OF inj_sample_uuid d _ this] have "\<exists>db'. drainRounds sample_uuid (Suc (length (db_queue draining_db))) ?m draining_db =
      (Inr False, ?m\<lparr>mg_state := StateIdle, mg_recovery := False\<rparr>, db') \<and> db_queue db' = []" by auto
  moreover have "Suc (length (db_queue draining_db)) = 2" using q by simp
  ultimately have "\<exists>db'. drainRounds sample_uuid 2 ?m draining_db = (Inr False, ?m\<lparr>mg_state := StateIdle, mg_recovery := False\<rparr>, db') \<and> db_queue db' = []"
    by simp
  then show ?thesis using q sample_compiles by (intro exI[of _ ?m]) simp
qed

end
