(* ===== verification/Config_Decode.thy ===== *)
theory Config_Decode
  imports Compile
begin

text \<open>
  From files to a configuration: \<^verbatim>\<open>internal/config/discovery.go\<close> and \<^verbatim>\<open>decode.go\<close>, and \<^verbatim>\<open>Load\<close> of
  \<^verbatim>\<open>internal/runtimecfg/generation.go\<close>.

  \<^item> The YAML library is a parameter: \<open>parse\<close> gives the documents of a text and the error after them, if any; the record \<open>Decoders\<close>
    holds the strict decoding of a node into each Go type. The file system is a parameter too (\<open>Filesystem\<close>): a directory is listed
    twice, and the two listings may differ.
  \<^item> \<open>Node\<close> is \<^verbatim>\<open>yaml.Node\<close> with the fields the code looks at. A path of mapping keys is kept with the innermost key first.
  \<^item> GitLab and GitHub name a repository by a number, Harbor by a path, so there are two document types.
\<close>

section \<open>Documents\<close>

datatype Node =
    DocumentNode "Node list"
  | SequenceNode "Node list"
  | MappingNode "(Node \<times> Node) list"
  | ScalarNode string string
  | AliasNode string

text \<open>The field \<^verbatim>\<open>Value\<close> of a node.\<close>

fun nodeValue :: "Node \<Rightarrow> string" where
  "nodeValue (ScalarNode v tag) = v"
| "nodeValue (AliasNode name) = name"
| "nodeValue (DocumentNode ns) = ''''"
| "nodeValue (SequenceNode ns) = ''''"
| "nodeValue (MappingNode ps) = ''''"

record SourceFile =
  sf_Path :: string
  sf_Content :: string

record Candidate =
  ca_Global :: SourceFile
  ca_Resources :: "SourceFile list"

record Global =
  gl_Kind :: string
  gl_ConfigDir :: string
  gl_GlobalLimit :: int
  gl_DefaultRepositoryLimit :: int
  gl_Interval :: duration
  gl_Timeout :: duration

record NumberedRepository =
  nr_ID :: string
  nr_Name :: string
  nr_Number :: int
  nr_HistoryLimit :: "int option"

record PathRepository =
  pr_ID :: string
  pr_Name :: string
  pr_Repository :: string
  pr_HistoryLimit :: "int option"

record 'r SourceDocument =
  doc_ID :: string
  doc_Secret :: string
  doc_Repositories :: "'r list"

record Decoders =
  de_Header :: "Node \<Rightarrow> string option"
  de_GlobalHeader :: "Node \<Rightarrow> string option"
  de_Global :: "Node \<Rightarrow> Global option"
  de_Numbered :: "Node \<Rightarrow> NumberedRepository SourceDocument list option"
  de_Harbor :: "Node \<Rightarrow> PathRepository SourceDocument list option"
  de_Dokploy :: "Node \<Rightarrow> (DokployConnection list \<times> TargetConfig list) option"
  de_Tunnels :: "Node \<Rightarrow> Node list option"
  de_Tunnel :: "Node \<Rightarrow> SSHTunnel \<times> bool"
  de_EntryID :: "Node \<Rightarrow> string"
  de_HTTPConnections :: "Node \<Rightarrow> HTTPConnection list option"
  de_Targets :: "Node \<Rightarrow> TargetConfig list option"
  de_Routes :: "Node \<Rightarrow> Route list option"

type_synonym yaml_parser = "string \<Rightarrow> Node list \<times> string option"

section \<open>One document\<close>

fun rejectDuplicateMappingKeys :: "Node \<Rightarrow> string option"
  and rejectNodes :: "Node list \<Rightarrow> string option"
  and rejectPairs :: "string list \<Rightarrow> (Node \<times> Node) list \<Rightarrow> string option" where
  "rejectDuplicateMappingKeys (DocumentNode ns) = rejectNodes ns"
| "rejectDuplicateMappingKeys (SequenceNode ns) = rejectNodes ns"
| "rejectDuplicateMappingKeys (MappingNode ps) = rejectPairs [] ps"
| "rejectDuplicateMappingKeys (ScalarNode v tag) = None"
| "rejectDuplicateMappingKeys (AliasNode name) = None"
| "rejectNodes [] = None"
| "rejectNodes (n # ns) = (case rejectDuplicateMappingKeys n of Some e \<Rightarrow> Some e | None \<Rightarrow> rejectNodes ns)"
| "rejectPairs seen [] = None"
| "rejectPairs seen ((k, v) # ps) =
     (case k of
        ScalarNode name tag \<Rightarrow>
          if name \<in> set seen then Some (''duplicate mapping key '' @ name)
          else (case rejectDuplicateMappingKeys v of Some e \<Rightarrow> Some e | None \<Rightarrow> rejectPairs (name # seen) ps)
      | _ \<Rightarrow> Some ''mapping keys must be scalars'')"

definition sourceDecodeError :: "SourceFile \<Rightarrow> string \<Rightarrow> string" where
  "sourceDecodeError f message = ''decode configuration '' @ sf_Path f @ '': '' @ message"

definition strictSourceDecodeError :: "SourceFile \<Rightarrow> string" where
  "strictSourceDecodeError f = sourceDecodeError f ''invalid configuration fields''"

definition parseDocument :: "yaml_parser \<Rightarrow> SourceFile \<Rightarrow> string + Node" where
  "parseDocument parse f =
     (case parse (sf_Content f) of
        ([], e) \<Rightarrow> Inl (sourceDecodeError f (case e of None \<Rightarrow> ''EOF'' | Some m \<Rightarrow> m))
      | (n # later, e) \<Rightarrow>
          if later \<noteq> [] then Inl (sourceDecodeError f ''multiple YAML documents are not supported'')
          else (case e of
                  Some m \<Rightarrow> Inl (sourceDecodeError f m)
                | None \<Rightarrow> (case rejectDuplicateMappingKeys n of
                             Some m \<Rightarrow> Inl (sourceDecodeError f m) | None \<Rightarrow> Inr n)))"

section \<open>Environment references\<close>

definition secretEnvironmentPath :: "string list \<Rightarrow> bool" where
  "secretEnvironmentPath path =
     (case path of
        [] \<Rightarrow> False
      | key # outer \<Rightarrow>
          if key \<in> {''token'', ''secret'', ''authorization'', ''api_key'', ''private_key_passphrase''} then True
          else if key = ''value'' then (case outer of [] \<Rightarrow> False | k # _ \<Rightarrow> k = ''auth'')
          else False)"

text \<open>A scalar: its new value and tag, or why it has none. A passphrase may be missing.\<close>

definition expandScalar ::
  "(string \<Rightarrow> string option) \<Rightarrow> string list \<Rightarrow> string \<Rightarrow> string \<Rightarrow> (string \<times> string) \<times> string option" where
  "expandScalar lookup path v tag =
     (if \<not> secretEnvironmentPath path then ((v, tag), None)
      else case exactEnvironmentReference v of
        None \<Rightarrow> ((v, tag), None)
      | Some name \<Rightarrow>
          let w = (case lookup name of None \<Rightarrow> '''' | Some w \<Rightarrow> w) in
          if w = ''''
          then ((v, tag), if path \<noteq> [] \<and> hd path = ''private_key_passphrase'' then None
                          else Some (''environment variable '' @ name @ '' is missing or empty''))
          else ((w, ''!!str''), None))"

text \<open>The nodes are changed in place, so a failure leaves the ones before it expanded.\<close>

fun expandExactEnvironmentReferences :: "(string \<Rightarrow> string option) \<Rightarrow> string list \<Rightarrow> Node \<Rightarrow> Node \<times> string option"
  and expandNodes :: "(string \<Rightarrow> string option) \<Rightarrow> string list \<Rightarrow> Node list \<Rightarrow> Node list \<times> string option"
  and expandPairs :: "(string \<Rightarrow> string option) \<Rightarrow> string list \<Rightarrow> (Node \<times> Node) list \<Rightarrow> (Node \<times> Node) list \<times> string option" where
  "expandExactEnvironmentReferences lookup path (DocumentNode ns) = apfst DocumentNode (expandNodes lookup path ns)"
| "expandExactEnvironmentReferences lookup path (SequenceNode ns) = apfst SequenceNode (expandNodes lookup path ns)"
| "expandExactEnvironmentReferences lookup path (MappingNode ps) = apfst MappingNode (expandPairs lookup path ps)"
| "expandExactEnvironmentReferences lookup path (ScalarNode v tag) =
     apfst (\<lambda>(w, t). ScalarNode w t) (expandScalar lookup path v tag)"
| "expandExactEnvironmentReferences lookup path (AliasNode name) = (AliasNode name, None)"
| "expandNodes lookup path [] = ([], None)"
| "expandNodes lookup path (n # ns) =
     (case expandExactEnvironmentReferences lookup path n of
        (m, Some e) \<Rightarrow> (m # ns, Some e)
      | (m, None) \<Rightarrow> apfst (Cons m) (expandNodes lookup path ns))"
| "expandPairs lookup path [] = ([], None)"
| "expandPairs lookup path ((k, v) # ps) =
     (case expandExactEnvironmentReferences lookup (nodeValue k # path) v of
        (w, Some e) \<Rightarrow> ((k, w) # ps, Some e)
      | (w, None) \<Rightarrow> apfst (Cons (k, w)) (expandPairs lookup path ps))"

definition expandSecretEnvironmentReferences :: "(string \<Rightarrow> string option) \<Rightarrow> Node \<Rightarrow> Node \<times> string option" where
  "expandSecretEnvironmentReferences lookup n = expandExactEnvironmentReferences lookup [] n"

text \<open>The entries of a file of tunnels are expanded one by one later.\<close>

definition expandResourceSecrets :: "(string \<Rightarrow> string option) \<Rightarrow> string \<Rightarrow> Node \<Rightarrow> Node \<times> string option" where
  "expandResourceSecrets lookup kind n =
     (if kind = ''SSHTunnels'' then (n, None) else expandSecretEnvironmentReferences lookup n)"

section \<open>Sources\<close>

definition repositoryLocation :: "string \<Rightarrow> nat \<Rightarrow> SourceLocation" where
  "repositoryLocation path i = \<lparr>sl_Path = path, sl_Field = ''repositories['' @ decimal (int i) @ '']''\<rparr>"

definition orID :: "string \<Rightarrow> string \<Rightarrow> string" where
  "orID name i = (if name = '''' then i else name)"

definition toRepository :: "string \<Rightarrow> string \<Rightarrow> nat \<Rightarrow> NumberedRepository \<Rightarrow> string + Repository" where
  "toRepository message path i r =
     (if nr_Number r \<le> 0 then Inl message
      else Inr \<lparr>rp_ID = nr_ID r, rp_Name = orID (nr_Name r) (nr_ID r), rp_ExternalID = decimal (nr_Number r),
                rp_HistoryLimit = nr_HistoryLimit r, rp_Location = repositoryLocation path i\<rparr>)"

fun toRepositories :: "string \<Rightarrow> string \<Rightarrow> nat \<Rightarrow> NumberedRepository list \<Rightarrow> string + Repository list" where
  "toRepositories message path i [] = Inr []"
| "toRepositories message path i (r # rs) =
     (case toRepository message path i r of
        Inl e \<Rightarrow> Inl e
      | Inr x \<Rightarrow> map_sum id (Cons x) (toRepositories message path (Suc i) rs))"

text \<open>\<^verbatim>\<open>toGitLabSource\<close> and \<^verbatim>\<open>toGitHubSource\<close>, which differ in their messages.\<close>

definition toNumberedSource ::
  "string \<Rightarrow> string \<Rightarrow> SourceFile \<Rightarrow> NumberedRepository SourceDocument \<Rightarrow> string + ConfiguredSource" where
  "toNumberedSource secretMessage numberMessage f d =
     (if doc_Secret d = '''' then Inl (sourceDecodeError f secretMessage)
      else map_sum id (\<lambda>rs. \<lparr>cf_ID = doc_ID d, cf_Secret = doc_Secret d, cf_Repositories = rs,
                             cf_Location = \<lparr>sl_Path = sf_Path f, sl_Field = ''sources''\<rparr>\<rparr>)
             (toRepositories (sourceDecodeError f numberMessage) (sf_Path f) 0 (doc_Repositories d)))"

definition toGitLabSource :: "SourceFile \<Rightarrow> NumberedRepository SourceDocument \<Rightarrow> string + ConfiguredSource" where
  "toGitLabSource = toNumberedSource ''sources token is required'' ''repository project_id must be positive''"

definition toGitHubSource :: "SourceFile \<Rightarrow> NumberedRepository SourceDocument \<Rightarrow> string + ConfiguredSource" where
  "toGitHubSource = toNumberedSource ''sources secret is required'' ''repository_id must be positive''"

definition toHarborSource :: "SourceFile \<Rightarrow> PathRepository SourceDocument \<Rightarrow> string + ConfiguredSource" where
  "toHarborSource f d =
     (if doc_Secret d = '''' then Inl (sourceDecodeError f ''sources authorization is required'')
      else Inr \<lparr>cf_ID = doc_ID d, cf_Secret = doc_Secret d,
                cf_Repositories =
                  map (\<lambda>(i, r). \<lparr>rp_ID = pr_ID r, rp_Name = orID (pr_Name r) (pr_ID r), rp_ExternalID = pr_Repository r,
                                 rp_HistoryLimit = pr_HistoryLimit r, rp_Location = repositoryLocation (sf_Path f) i\<rparr>)
                    (List.enumerate 0 (doc_Repositories d)),
                cf_Location = \<lparr>sl_Path = sf_Path f, sl_Field = ''sources''\<rparr>\<rparr>)"

fun convertAll :: "('d \<Rightarrow> string + 's) \<Rightarrow> 'd list \<Rightarrow> string + 's list" where
  "convertAll convert [] = Inr []"
| "convertAll convert (d # ds) =
     (case convert d of Inl e \<Rightarrow> Inl e | Inr s \<Rightarrow> map_sum id (Cons s) (convertAll convert ds))"

section \<open>Resources\<close>

text \<open>
  The pattern \<^verbatim>\<open>(?m)^kind:\s*([A-Za-z]+)\s*(?:#.*)?$\<close>, which tells that a file that cannot be parsed was meant to hold tunnels. The
  spaces of the pattern include line ends.
\<close>

definition newline :: char where
  "newline = CHR 0x0A"

definition kindAt :: "string \<Rightarrow> string option" where
  "kindAt s =
     (let rest = dropWhile regexSpace (drop 5 s); name = takeWhile asciiLetter rest;
          after = drop (length name) rest; gap = takeWhile regexSpace after; tail = dropWhile regexSpace after
      in if prefixOf ''kind:'' s \<and> name \<noteq> '''' \<and> (tail = '''' \<or> hd tail = CHR ''#'' \<or> newline \<in> set gap) then Some name else None)"

fun kindLine :: "bool \<Rightarrow> string \<Rightarrow> string option" where
  "kindLine lineStart [] = None"
| "kindLine lineStart (c # s) =
     (case if lineStart then kindAt (c # s) else None of Some kind \<Rightarrow> Some kind | None \<Rightarrow> kindLine (c = newline) s)"

definition emptyTunnel :: SSHTunnel where
  "emptyTunnel =
     \<lparr>st_ConfigurationError = '''', st_ID = '''', st_Host = '''', st_Port = 0, st_User = '''', st_PrivateKeyFile = '''',
      st_KnownHostsFile = '''', st_HostKeyPolicy = ''''\<rparr>"

text \<open>What stands for a file of tunnels that cannot be read.\<close>

definition invalidTunnels :: "Bundle \<Rightarrow> Bundle" where
  "invalidTunnels b =
     b\<lparr>bn_SSHTunnels := bn_SSHTunnels b @
        [emptyTunnel\<lparr>st_ID := ''invalid-ssh-document-'' @ decimal (int (length (bn_SSHTunnels b)) + 1),
                     st_ConfigurationError := ''invalid_configuration''\<rparr>]\<rparr>"

text \<open>One entry of such a file. An entry that cannot be expanded or decoded keeps its identifier and is marked.\<close>

definition decodeTunnel :: "Decoders \<Rightarrow> (string \<Rightarrow> string option) \<Rightarrow> Node \<Rightarrow> SSHTunnel" where
  "decodeTunnel de lookup entry =
     (case expandSecretEnvironmentReferences lookup entry of
        (entry', expandError) \<Rightarrow>
          (case de_Tunnel de entry' of
             (tunnel, ok) \<Rightarrow>
               if \<not> ok \<or> expandError \<noteq> None
               then tunnel\<lparr>st_ID := de_EntryID de entry', st_ConfigurationError := ''invalid_configuration''\<rparr> else tunnel))"

definition atTargets :: "SourceFile \<Rightarrow> TargetConfig list \<Rightarrow> (TargetConfig \<times> SourceLocation) list" where
  "atTargets f ts = map (\<lambda>t. (t, \<lparr>sl_Path = sf_Path f, sl_Field = ''targets''\<rparr>)) ts"

definition decodeKind :: "Decoders \<Rightarrow> (string \<Rightarrow> string option) \<Rightarrow> Bundle \<Rightarrow> SourceFile \<Rightarrow> string \<Rightarrow> Node \<Rightarrow> string + Bundle" where
  "decodeKind de lookup b f kind n =
     (let strict = Inl (strictSourceDecodeError f) in
      if kind = ''GitLabSources'' then
        (case de_Numbered de n of
           None \<Rightarrow> strict
         | Some ds \<Rightarrow> map_sum id (\<lambda>ss. b\<lparr>bn_GitLabSources := bn_GitLabSources b @ ss\<rparr>) (convertAll (toGitLabSource f) ds))
      else if kind = ''GitHubSources'' then
        (case de_Numbered de n of
           None \<Rightarrow> strict
         | Some ds \<Rightarrow> map_sum id (\<lambda>ss. b\<lparr>bn_GitHubSources := bn_GitHubSources b @ ss\<rparr>) (convertAll (toGitHubSource f) ds))
      else if kind = ''HarborSources'' then
        (case de_Harbor de n of
           None \<Rightarrow> strict
         | Some ds \<Rightarrow> map_sum id (\<lambda>ss. b\<lparr>bn_HarborSources := bn_HarborSources b @ ss\<rparr>) (convertAll (toHarborSource f) ds))
      else if kind = ''DokployTargets'' then
        (case de_Dokploy de n of
           None \<Rightarrow> strict
         | Some (cs, ts) \<Rightarrow>
             if list_ex (\<lambda>c. dc_APIKey c = '''') cs then Inl (sourceDecodeError f ''connections api_key is required'')
             else Inr (b\<lparr>bn_DokployConnections := bn_DokployConnections b @
                           map (\<lambda>c. c\<lparr>dc_Location := \<lparr>sl_Path = sf_Path f, sl_Field = ''connections''\<rparr>\<rparr>) cs,
                         bn_Targets := bn_Targets b @ atTargets f ts\<rparr>))
      else if kind = ''SSHTunnels'' then
        (case de_Tunnels de n of
           None \<Rightarrow> Inr (invalidTunnels b)
         | Some entries \<Rightarrow> Inr (b\<lparr>bn_SSHTunnels := bn_SSHTunnels b @ map (decodeTunnel de lookup) entries\<rparr>))
      else if kind = ''HTTPConnections'' then
        (case de_HTTPConnections de n of
           None \<Rightarrow> strict
         | Some cs \<Rightarrow> Inr (b\<lparr>bn_HTTPConnections := bn_HTTPConnections b @
                                map (\<lambda>c. c\<lparr>hc_Location := \<lparr>sl_Path = sf_Path f, sl_Field = ''connections''\<rparr>\<rparr>) cs\<rparr>))
      else if kind = ''HTTPTargets'' \<or> kind = ''ForwardTargets'' then
        (case de_Targets de n of
           None \<Rightarrow> strict
         | Some ts \<Rightarrow> Inr (b\<lparr>bn_Targets := bn_Targets b @ atTargets f ts\<rparr>))
      else if kind = ''Routes'' then
        (case de_Routes de n of
           None \<Rightarrow> strict
         | Some rs \<Rightarrow>
             if list_ex (\<lambda>r. rt_Priority r = None) rs then Inl (sourceDecodeError f ''routes priority is required'')
             else Inr (b\<lparr>bn_Routes := bn_Routes b @ map (\<lambda>r. r\<lparr>rt_Location := \<lparr>sl_Path = sf_Path f, sl_Field = ''routes''\<rparr>\<rparr>) rs\<rparr>))
      else Inl (''unsupported configuration resource '' @ sf_Path f))"

definition decodeResource ::
  "yaml_parser \<Rightarrow> Decoders \<Rightarrow> (string \<Rightarrow> string option) \<Rightarrow> Bundle \<Rightarrow> SourceFile \<Rightarrow> string + Bundle" where
  "decodeResource parse de lookup b f =
     (case parseDocument parse f of
        Inl e \<Rightarrow>
          if kindLine True (sf_Content f) = Some ''SSHTunnels'' \<and> \<not> occursIn ''multiple YAML documents'' e
          then Inr (invalidTunnels b) else Inl e
      | Inr n \<Rightarrow>
          (case de_Header de n of
             None \<Rightarrow> Inl (sourceDecodeError f ''kind'')
           | Some kind \<Rightarrow>
               (case expandResourceSecrets lookup kind n of
                  (n', Some e) \<Rightarrow> Inl (sourceDecodeError f e)
                | (n', None) \<Rightarrow> decodeKind de lookup b f kind n')))"

fun decodeResources ::
  "yaml_parser \<Rightarrow> Decoders \<Rightarrow> (string \<Rightarrow> string option) \<Rightarrow> Bundle \<Rightarrow> SourceFile list \<Rightarrow> string + Bundle" where
  "decodeResources parse de lookup b [] = Inr b"
| "decodeResources parse de lookup b (f # fs) =
     (case decodeResource parse de lookup b f of Inl e \<Rightarrow> Inl e | Inr b' \<Rightarrow> decodeResources parse de lookup b' fs)"

definition decodeGlobal :: "yaml_parser \<Rightarrow> Decoders \<Rightarrow> SourceFile \<Rightarrow> string + Global" where
  "decodeGlobal parse de f =
     (case parseDocument parse f of
        Inl e \<Rightarrow> Inl e
      | Inr n \<Rightarrow>
          (case de_Global de n of
             None \<Rightarrow> Inl (strictSourceDecodeError f)
           | Some g \<Rightarrow> if gl_Kind g \<noteq> ''Hookfly'' then Inl (''unsupported global configuration '' @ sf_Path f) else Inr g))"

definition emptyBundle :: "Global \<Rightarrow> Bundle" where
  "emptyBundle g =
     \<lparr>bn_SSHTunnels = [], bn_GlobalLimit = gl_GlobalLimit g, bn_DefaultRepositoryLimit = gl_DefaultRepositoryLimit g,
      bn_Interval = gl_Interval g, bn_Timeout = gl_Timeout g, bn_GitLabSources = [], bn_GitHubSources = [], bn_HarborSources = [],
      bn_DokployConnections = [], bn_HTTPConnections = [], bn_Targets = [], bn_Routes = []\<rparr>"

definition Decode :: "yaml_parser \<Rightarrow> Decoders \<Rightarrow> (string \<Rightarrow> string option) \<Rightarrow> Candidate \<Rightarrow> string + Bundle" where
  "Decode parse de lookup candidate =
     (case decodeGlobal parse de (ca_Global candidate) of
        Inl e \<Rightarrow> Inl e
      | Inr g \<Rightarrow> decodeResources parse de lookup (emptyBundle g) (ca_Resources candidate))"

section \<open>Discovery\<close>

text \<open>\<^verbatim>\<open>filepath.Clean\<close>, \<^verbatim>\<open>Dir\<close> and \<^verbatim>\<open>Join\<close> of two parts on Unix.\<close>

fun joinSlash :: "string list \<Rightarrow> string" where
  "joinSlash [] = ''''"
| "joinSlash [c] = c"
| "joinSlash (c # d # cs) = c @ ''/'' @ joinSlash (d # cs)"

definition cleanStep :: "bool \<Rightarrow> string list \<Rightarrow> string \<Rightarrow> string list" where
  "cleanStep rooted acc c =
     (if c = '''' \<or> c = ''.'' then acc
      else if c \<noteq> ''..'' then acc @ [c]
      else if acc = [] \<or> last acc = ''..'' then (if rooted then acc else acc @ [''..''])
      else butlast acc)"

definition cleanPath :: "string \<Rightarrow> string" where
  "cleanPath path =
     (let cs = foldl (cleanStep (isAbs path)) [] (splitOn (CHR ''/'') path)
      in if isAbs path then ''/'' @ joinSlash cs else if cs = [] then ''.'' else joinSlash cs)"

definition dirPath :: "string \<Rightarrow> string" where
  "dirPath path = cleanPath (rev (dropWhile (\<lambda>c. c \<noteq> CHR ''/'') (rev path)))"

definition joinPath :: "string \<Rightarrow> string \<Rightarrow> string" where
  "joinPath a b = cleanPath (if a = '''' then b else if b = '''' then a else a @ ''/'' @ b)"

text \<open>A directory: its two listings (a name, and whether it is a regular file) and its files.\<close>

record Directory =
  di_First :: "(string \<times> bool) list option"
  di_Second :: "(string \<times> bool) list option"
  di_File :: "string \<Rightarrow> string option"

datatype opened = DirectoryAbsent | DirectoryFailed | DirectoryOpened Directory

record Filesystem =
  fs_File :: "string \<Rightarrow> string option"
  fs_Directory :: "string \<Rightarrow> opened"

definition yamlName :: "string \<Rightarrow> bool" where
  "yamlName name \<longleftrightarrow> drop (length name - 5) name = ''.yaml''"

definition resourceNames :: "(string \<times> bool) list option \<Rightarrow> string list option" where
  "resourceNames listing = map_option (\<lambda>entries. sort (map fst (filter (\<lambda>(name, regular). regular \<and> yamlName name) entries))) listing"

definition decodeGlobalHeader :: "yaml_parser \<Rightarrow> Decoders \<Rightarrow> SourceFile \<Rightarrow> string + string" where
  "decodeGlobalHeader parse de f =
     (let failed = (\<lambda>m. Inl (''decode global configuration '' @ sf_Path f @ '': '' @ m)) in
      case parse (sf_Content f) of
        ([], e) \<Rightarrow> failed (case e of None \<Rightarrow> ''EOF'' | Some m \<Rightarrow> m)
      | (n # later, e) \<Rightarrow>
          (case de_GlobalHeader de n of
             None \<Rightarrow> failed ''fields''
           | Some configDir \<Rightarrow>
               if later \<noteq> [] then failed ''multiple YAML documents are not supported''
               else (case e of Some m \<Rightarrow> failed m | None \<Rightarrow> Inr configDir)))"

fun readResources :: "Directory \<Rightarrow> string \<Rightarrow> string list \<Rightarrow> string + SourceFile list" where
  "readResources d path [] = Inr []"
| "readResources d path (name # names) =
     (case di_File d name of
        None \<Rightarrow> Inl (''read configuration resource '' @ joinPath path name)
      | Some content \<Rightarrow>
          map_sum id (Cons \<lparr>sf_Path = joinPath path name, sf_Content = content\<rparr>) (readResources d path names))"

definition discoverDirectory :: "SourceFile \<Rightarrow> string \<Rightarrow> Directory \<Rightarrow> string + Candidate" where
  "discoverDirectory global path d =
     (case resourceNames (di_First d) of
        None \<Rightarrow> Inl (''read configuration directory '' @ path)
      | Some names \<Rightarrow>
          (case readResources d path names of
             Inl e \<Rightarrow> Inl e
           | Inr resources \<Rightarrow>
               if resourceNames (di_Second d) \<noteq> Some names
               then Inl (''configuration directory changed during discovery: '' @ path)
               else Inr \<lparr>ca_Global = global, ca_Resources = resources\<rparr>))"

definition Discover :: "yaml_parser \<Rightarrow> Decoders \<Rightarrow> Filesystem \<Rightarrow> string \<Rightarrow> string + Candidate" where
  "Discover parse de fs path0 =
     (let path = cleanPath path0 in
      case fs_File fs path of
        None \<Rightarrow> Inl (''read global configuration '' @ path)
      | Some content \<Rightarrow>
          let global = \<lparr>sf_Path = path, sf_Content = content\<rparr> in
          (case decodeGlobalHeader parse de global of
             Inl e \<Rightarrow> Inl e
           | Inr configDir \<Rightarrow>
               let directory = (if configDir = '''' then ''conf.d'' else configDir);
                   resourceDirectory = cleanPath (if isAbs directory then directory else joinPath (dirPath path) directory)
               in (case fs_Directory fs resourceDirectory of
                     DirectoryAbsent \<Rightarrow> Inr \<lparr>ca_Global = global, ca_Resources = []\<rparr>
                   | DirectoryFailed \<Rightarrow> Inl (''read configuration directory '' @ resourceDirectory)
                   | DirectoryOpened d \<Rightarrow> discoverDirectory global resourceDirectory d)))"

text \<open>\<^verbatim>\<open>Load\<close>. The validation inside \<^verbatim>\<open>compileBundle\<close> is a second one, of the bundle that the first has brought into canonical order.\<close>

definition Load ::
  "unicode \<Rightarrow> (string \<Rightarrow> string) \<Rightarrow> (string \<Rightarrow> bytes \<Rightarrow> bytes) \<Rightarrow> (bytes \<Rightarrow> json option) \<Rightarrow> (bytes \<Rightarrow> envelope option) \<Rightarrow>
   (string \<Rightarrow> bool) \<Rightarrow> (SSHTunnel \<Rightarrow> bool) \<Rightarrow> (Bundle \<Rightarrow> string) \<Rightarrow> yaml_parser \<Rightarrow> Decoders \<Rightarrow> (string \<Rightarrow> string option) \<Rightarrow>
   Filesystem \<Rightarrow> string \<Rightarrow> bundle_error + (Connections \<times> Sources \<times> Generation)" where
  "Load u sha hmac decode decodeEnvelope mediaType keys digest parse de lookup fs path =
     (case Discover parse de fs path of
        Inl e \<Rightarrow> Inl (BundleRejected e)
      | Inr candidate \<Rightarrow>
          (case Decode parse de lookup candidate of
             Inl e \<Rightarrow> Inl (BundleRejected e)
           | Inr bundle \<Rightarrow>
               (case ValidateAndCanonicalize u sha mediaType bundle of
                  Inl e \<Rightarrow> Inl e
                | Inr b \<Rightarrow> compileBundle u sha hmac decode decodeEnvelope mediaType keys (digest b) b)))"

end
