(* ===== verification/Decode_Theorems.thy ===== *)
theory Decode_Theorems
  imports Config_Decode Config_Theorems
begin

text \<open>
  Properties of the way from files to a configuration: which environment references are replaced, and that tunnels that cannot be
  read do no harm to the rest of the configuration.
\<close>

section \<open>Environment references\<close>

text \<open>The scalars of a document in their order, each with its path, and the document with every scalar replaced.\<close>

fun scalars :: "string list \<Rightarrow> Node \<Rightarrow> (string list \<times> string) list" where
  "scalars path (DocumentNode ns) = concat (map (scalars path) ns)"
| "scalars path (SequenceNode ns) = concat (map (scalars path) ns)"
| "scalars path (MappingNode ps) = concat (map (\<lambda>(k, v). scalars (nodeValue k # path) v) ps)"
| "scalars path (ScalarNode v tag) = [(path, v)]"
| "scalars path (AliasNode name) = []"

fun mapScalars :: "(string list \<Rightarrow> string \<Rightarrow> string option) \<Rightarrow> string list \<Rightarrow> Node \<Rightarrow> Node" where
  "mapScalars f path (DocumentNode ns) = DocumentNode (map (mapScalars f path) ns)"
| "mapScalars f path (SequenceNode ns) = SequenceNode (map (mapScalars f path) ns)"
| "mapScalars f path (MappingNode ps) = MappingNode (map (\<lambda>(k, v). (k, mapScalars f (nodeValue k # path) v)) ps)"
| "mapScalars f path (ScalarNode v tag) = (case f path v of None \<Rightarrow> ScalarNode v tag | Some w \<Rightarrow> ScalarNode w ''!!str'')"
| "mapScalars f path (AliasNode name) = AliasNode name"

definition secretReference :: "string list \<times> string \<Rightarrow> string option" where
  "secretReference = (\<lambda>(path, v). if secretEnvironmentPath path then exactEnvironmentReference v else None)"

definition environmentValue :: "(string \<Rightarrow> string option) \<Rightarrow> string list \<Rightarrow> string \<Rightarrow> string option" where
  "environmentValue lookup path v =
     (case secretReference (path, v) of
        None \<Rightarrow> None | Some name \<Rightarrow> (case lookup name of None \<Rightarrow> None | Some w \<Rightarrow> if w = '''' then None else Some w))"

definition missingReference :: "(string \<Rightarrow> string option) \<Rightarrow> string list \<times> string \<Rightarrow> bool" where
  "missingReference lookup = (\<lambda>(path, v).
     secretReference (path, v) \<noteq> None \<and> environmentValue lookup path v = None \<and> hd path \<noteq> ''private_key_passphrase'')"

lemma secretEnvironmentPath_nonempty: "secretEnvironmentPath path \<Longrightarrow> path \<noteq> []"
  by (auto simp: secretEnvironmentPath_def)

lemma expandScalar_ok:
  "\<not> missingReference lookup (path, v) \<Longrightarrow>
   expandScalar lookup path v tag = (case environmentValue lookup path v of None \<Rightarrow> (v, tag) | Some w \<Rightarrow> (w, ''!!str''), None)"
  by (auto simp: expandScalar_def missingReference_def environmentValue_def secretReference_def Let_def
      dest: secretEnvironmentPath_nonempty split: option.splits if_splits)

lemma expandScalar_missing: "missingReference lookup (path, v) \<Longrightarrow> snd (expandScalar lookup path v tag) \<noteq> None"
  by (auto simp: expandScalar_def missingReference_def environmentValue_def secretReference_def Let_def split: option.splits if_splits)

lemma expansion_ok:
  "list_all (\<lambda>s. \<not> missingReference lookup s) (scalars path n) \<Longrightarrow>
     expandExactEnvironmentReferences lookup path n = (mapScalars (environmentValue lookup) path n, None)"
  "list_all (\<lambda>s. \<not> missingReference lookup s) (concat (map (scalars path) ns)) \<Longrightarrow>
     expandNodes lookup path ns = (map (mapScalars (environmentValue lookup) path) ns, None)"
  "list_all (\<lambda>s. \<not> missingReference lookup s) (concat (map (\<lambda>(k, v). scalars (nodeValue k # path) v) ps)) \<Longrightarrow>
     expandPairs lookup path ps = (map (\<lambda>(k, v). (k, mapScalars (environmentValue lookup) (nodeValue k # path) v)) ps, None)"
  by (induction lookup path n and lookup path ns and lookup path ps
      rule: expandExactEnvironmentReferences_expandNodes_expandPairs.induct)
    (auto simp: expandScalar_ok split: option.splits)

lemma expansion_missing:
  "list_ex (missingReference lookup) (scalars path n) \<Longrightarrow> snd (expandExactEnvironmentReferences lookup path n) \<noteq> None"
  "list_ex (missingReference lookup) (concat (map (scalars path) ns)) \<Longrightarrow> snd (expandNodes lookup path ns) \<noteq> None"
  "list_ex (missingReference lookup) (concat (map (\<lambda>(k, v). scalars (nodeValue k # path) v) ps)) \<Longrightarrow>
     snd (expandPairs lookup path ps) \<noteq> None"
proof (induction lookup path n and lookup path ns and lookup path ps
    rule: expandExactEnvironmentReferences_expandNodes_expandPairs.induct)
  case (4 lookup path v tag)
  then show ?case using expandScalar_missing[of lookup path v tag] by simp
qed (fastforce split: option.splits prod.splits)+

section \<open>Tunnels\<close>

definition faulty :: "SSHTunnel \<Rightarrow> bool" where
  "faulty t \<longleftrightarrow> st_ConfigurationError t \<noteq> ''''"

text \<open>Tunnels that share an identifier are all faulty or none is.\<close>

definition isolated :: "SSHTunnel list \<Rightarrow> bool" where
  "isolated ts \<longleftrightarrow> (\<forall>e\<in>set ts. \<forall>t\<in>set ts. st_ID e = st_ID t \<longrightarrow> faulty e \<longrightarrow> faulty t)"

lemma nameTunnel_simps:
  "identifierPattern (st_ID t) \<Longrightarrow> nameTunnel i t = t" "faulty t \<Longrightarrow> faulty (nameTunnel i t)"
  by (simp_all add: nameTunnel_def faulty_def)

lemma checkTunnel_simps:
  "st_ID (checkTunnel u duplicate t) = st_ID t" "faulty (checkTunnel u True t)" "faulty t \<Longrightarrow> faulty (checkTunnel u duplicate t)"
  by (simp_all add: checkTunnel_def faulty_def Let_def)

lemma markDuplicate_simps: "st_ID (markDuplicate i t) = st_ID t" "faulty (markDuplicate i t) \<longleftrightarrow> st_ID t = i \<or> faulty t"
  by (simp_all add: markDuplicate_def faulty_def)

lemmas tunnel_simps = nameTunnel_simps checkTunnel_simps markDuplicate_simps

lemma isolatedD: "isolated ts \<Longrightarrow> e \<in> set ts \<Longrightarrow> t \<in> set ts \<Longrightarrow> st_ID e = st_ID t \<Longrightarrow> faulty e \<Longrightarrow> faulty t"
  unfolding isolated_def by blast

lemma validateTunnel_isolated:
  assumes "isolated earlier"
  shows "isolated (validateTunnel u earlier t0)"
proof -
  define i where "i = st_ID (nameTunnel (length earlier + 1) t0)"
  define l where "l = checkTunnel u (i \<in> st_ID ` set earlier) (nameTunnel (length earlier + 1) t0)"
  have l: "st_ID l = i" "i \<in> st_ID ` set earlier \<Longrightarrow> faulty l" by (simp_all add: l_def i_def tunnel_simps)
  have "faulty t"
    if e: "e \<in> set (map (markDuplicate i) earlier @ [l])" "faulty e" and t: "t \<in> set (map (markDuplicate i) earlier @ [l])"
      and same: "st_ID e = st_ID t" for e t
  proof (cases "st_ID t = i")
    case True
    have "i \<in> st_ID ` set earlier" if other: "e \<noteq> l"
    proof -
      obtain x where "x \<in> set earlier" "e = markDuplicate i x" using e(1) other by auto
      then show ?thesis using True same markDuplicate_simps(1) by (metis imageI)
    qed
    then have "faulty l" if "t = l" using e(2) l(2) that by blast
    moreover have "faulty t" if marked: "t \<in> set (map (markDuplicate i) earlier)"
    proof -
      obtain y where "t = markDuplicate i y" using marked by auto
      then show ?thesis using True markDuplicate_simps by metis
    qed
    ultimately show ?thesis using t by auto
  next
    case False
    then obtain x y where "x \<in> set earlier" "e = markDuplicate i x" "y \<in> set earlier" "t = markDuplicate i y"
      using e(1) t same l(1) by auto
    then show ?thesis using isolatedD[OF assms, of x y] e(2) same False by (simp add: tunnel_simps)
  qed
  then show ?thesis unfolding isolated_def validateTunnel_def Let_def i_def[symmetric] l_def[symmetric] by blast
qed

lemma validateTunnel_keeps:
  "e \<in> set earlier \<Longrightarrow> faulty e \<Longrightarrow> \<exists>e'\<in>set (validateTunnel u earlier t0). st_ID e' = st_ID e \<and> faulty e'"
  by (auto simp: validateTunnel_def Let_def tunnel_simps)

lemma validateTunnel_marks:
  "faulty t0 \<Longrightarrow> identifierPattern (st_ID t0) \<Longrightarrow> \<exists>e\<in>set (validateTunnel u earlier t0). st_ID e = st_ID t0 \<and> faulty e"
  by (simp add: validateTunnel_def Let_def tunnel_simps)

lemma validated_isolated: "isolated earlier \<Longrightarrow> isolated (foldl (validateTunnel u) earlier ts)"
  by (induction ts arbitrary: earlier) (simp_all add: validateTunnel_isolated)

lemma validated_keeps:
  "\<exists>e\<in>set earlier. st_ID e = i \<and> faulty e \<Longrightarrow> \<exists>e\<in>set (foldl (validateTunnel u) earlier ts). st_ID e = i \<and> faulty e"
proof (induction ts arbitrary: earlier)
  case (Cons t ts)
  then show ?case using Cons.IH[of "validateTunnel u earlier t"] validateTunnel_keeps[where earlier = earlier and u = u and ?t0.0 = t] by fastforce
qed simp

lemma validated_marks:
  "t \<in> set ts \<Longrightarrow> faulty t \<Longrightarrow> identifierPattern (st_ID t) \<Longrightarrow>
   \<exists>e\<in>set (foldl (validateTunnel u) earlier ts). st_ID e = st_ID t \<and> faulty e"
proof (induction ts arbitrary: earlier)
  case (Cons x ts)
  then show ?case using validated_keeps[where earlier = "validateTunnel u earlier x" and i = "st_ID t"] validateTunnel_marks[of x] by auto
qed simp

lemma faulty_tunnel_not_ready:
  assumes v: "validateSSHTunnels u b = Inr b'" and t: "t \<in> set (bn_SSHTunnels b)" "faulty t" "identifierPattern (st_ID t)"
  shows "\<not> tunnelReady keys b' (st_ID t)"
proof -
  have s: "set (bn_SSHTunnels b') = set (foldl (validateTunnel u) [] (bn_SSHTunnels b))"
    using v by (auto simp: validateSSHTunnels_def split: if_splits)
  have "isolated (foldl (validateTunnel u) [] (bn_SSHTunnels b))" by (rule validated_isolated) (simp add: isolated_def)
  then have "isolated (bn_SSHTunnels b')" unfolding isolated_def s .
  moreover obtain e where "e \<in> set (bn_SSHTunnels b')" "st_ID e = st_ID t" "faulty e" using validated_marks[OF t] unfolding s by blast
  ultimately have "faulty x" if "x \<in> set (bn_SSHTunnels b')" "st_ID x = st_ID t" for x using isolatedD that by metis
  then have "list_all (\<lambda>x. \<not> (st_ID x = st_ID t \<and> st_ConfigurationError x = '''' \<and> keys x)) (bn_SSHTunnels b')"
    unfolding list_all_iff faulty_def by blast
  then show ?thesis unfolding tunnelReady_def by (simp add: list_ex_iff list_all_iff)
qed

section \<open>Tunnels do not decide whether a configuration compiles\<close>

text \<open>Each canonical URL is one that a tunnel can serve.\<close>

definition destinationsNamed :: "unicode \<Rightarrow> Bundle \<Rightarrow> bool" where
  "destinationsNamed u b \<longleftrightarrow>
     (\<forall>c\<in>set (bn_DokployConnections b). \<forall>url. dokployCanonicalBaseURL u (dc_BaseURL c) = Some url \<longrightarrow> tunnelDestination url) \<and>
     (\<forall>h\<in>set (bn_HTTPConnections b). \<forall>url. httpCanonicalBaseURL u (hc_BaseURL h) = Some url \<longrightarrow> tunnelDestination url) \<and>
     (\<forall>(t, l)\<in>set (bn_Targets b). \<forall>url. CanonicalForwardURL u (tc_URL t) = Some url \<longrightarrow> tunnelDestination url)"

lemma clientFor_named: "tunnelDestination url \<Longrightarrow> clientFor keys b i url allowed = None"
  by (simp add: clientFor_def)

lemma dokploy_any_tunnels:
  "\<forall>c\<in>set cs. \<forall>url. dokployCanonicalBaseURL u (dc_BaseURL c) = Some url \<longrightarrow> tunnelDestination url \<Longrightarrow>
   compileDokployConnections u keys b cs = compileDokployConnections u keys b' cs"
  by (induction cs) (auto simp: clientFor_named rejectIf_def split: option.split)

lemma http_any_tunnels:
  "\<forall>c\<in>set cs. \<forall>url. httpCanonicalBaseURL u (hc_BaseURL c) = Some url \<longrightarrow> tunnelDestination url \<Longrightarrow>
   compileHTTPConnections u keys b cs = compileHTTPConnections u keys b' cs"
  by (induction cs) (auto simp: clientFor_named rejectIf_def split: option.split)

lemma forward_any_tunnels:
  "\<forall>url. CanonicalForwardURL u (tc_URL t) = Some url \<longrightarrow> tunnelDestination url \<Longrightarrow>
   forwardClient u keys b t = forwardClient u keys b' t"
  by (auto simp: forwardClient_def clientFor_named split: option.split)

definition same_targets :: "(string \<times> Target) list \<Rightarrow> (string \<times> Target) list \<Rightarrow> bool" where
  "same_targets = list_all2 (\<lambda>(i, t) (j, t'). i = j \<and> (tg_SSHTunnel t = '''' \<longrightarrow> t' = t))"

lemma same_targets_lookup:
  "same_targets ts ts' \<Longrightarrow> map fst ts' = map fst ts \<and> (\<forall>i t. map_of ts i = Some t \<longrightarrow> tg_SSHTunnel t = '''' \<longrightarrow> map_of ts' i = Some t)"
  unfolding same_targets_def by (induction rule: list_all2_induct) auto

lemma compileTarget_any_tunnels:
  "case compileTarget sha canon c i t cfg of
     None \<Rightarrow> compileTarget sha canon (c\<lparr>cn_tunnels := tunnels\<rparr>) i t cfg = None
   | Some x \<Rightarrow> \<exists>y. compileTarget sha canon (c\<lparr>cn_tunnels := tunnels\<rparr>) i t cfg = Some y \<and> (tg_SSHTunnel x = '''' \<longrightarrow> y = x)"
  by (auto simp: compileTarget_def withTunnel_def targetTunnel_def Let_def split: option.splits prod.splits)

lemma compileTargets_any_tunnels:
  "case compileTargets sha canon c i t cfgs of
     None \<Rightarrow> compileTargets sha canon (c\<lparr>cn_tunnels := tunnels\<rparr>) i t cfgs = None
   | Some xs \<Rightarrow> \<exists>ys. compileTargets sha canon (c\<lparr>cn_tunnels := tunnels\<rparr>) i t cfgs = Some ys \<and> same_targets xs ys"
proof (induction cfgs)
  case (Cons cfg cfgs)
  then show ?case using compileTarget_any_tunnels[where sha = sha and canon = canon and c = c and i = i and t = t and cfg = cfg and tunnels = tunnels]
    by (fastforce simp: same_targets_def split: option.splits)
qed (simp add: same_targets_def)

lemma validated_any_tunnels:
  "ValidateAndCanonicalize u sha mediaType (b\<lparr>bn_SSHTunnels := xs\<rparr>) =
     map_sum id (\<lambda>b'. b'\<lparr>bn_SSHTunnels := sort_key st_ID (foldl (validateTunnel u) [] xs)\<rparr>) (ValidateAndCanonicalize u sha mediaType b)"
  by (auto simp: ValidateAndCanonicalize_def validateSSHTunnels_def validateSources_def canonicalize_def split: sum.splits)

lemma validated_named:
  assumes v: "ValidateAndCanonicalize u sha mediaType bundle = Inr b" and p: "destinationsNamed u bundle"
  shows "destinationsNamed u b"
proof -
  obtain b0 connections targets where w: "validateSSHTunnels u bundle = Inr b0"
      "validateTargets mediaType connections (\<lambda>_. None) (bn_Targets b0) = Inr targets" "b = canonicalize (b0\<lparr>bn_Targets := targets\<rparr>)"
    using ValidateAndCanonicalize_Inr[OF v] by metis
  note k = validateSSHTunnels_keeps[OF w(1)]
  have "\<forall>(t, l)\<in>set targets. \<forall>url. CanonicalForwardURL u (tc_URL t) = Some url \<longrightarrow> tunnelDestination url"
  proof -
    have "tc_URL (defaultHost t) = tc_URL t" for t by (simp add: defaultHost_def)
    then show ?thesis using validateTargets_from[OF w(2)] p k unfolding destinationsNamed_def by fastforce
  qed
  then show ?thesis using p k w(3) by (simp add: destinationsNamed_def canonicalize_def)
qed

lemma tunnels_harmless:
  assumes named: "destinationsNamed u b"
  shows "case (compileBundle u sha hmac decode decodeEnvelope mediaType keys digest b,
           compileBundle u sha hmac decode decodeEnvelope mediaType keys digest' (b\<lparr>bn_SSHTunnels := xs\<rparr>)) of
       (Inr (c, ss, g), Inr (c', ss', g')) \<Rightarrow> ss' = ss \<and> gn_routes g' = gn_routes g \<and>
         map fst (gn_targets g') = map fst (gn_targets g) \<and>
         (\<forall>i t. map_of (gn_targets g) i = Some t \<longrightarrow> tg_SSHTunnel t = '''' \<longrightarrow> map_of (gn_targets g') i = Some t)
     | (Inl e, Inl e') \<Rightarrow> True
     | _ \<Rightarrow> False"
proof (cases "ValidateAndCanonicalize u sha mediaType b")
  case (Inl e)
  then show ?thesis by (simp add: compileBundle_def validated_any_tunnels)
next
  case (Inr b1)
  define b2 where "b2 = b1\<lparr>bn_SSHTunnels := sort_key st_ID (foldl (validateTunnel u) [] xs)\<rparr>"
  have v2: "ValidateAndCanonicalize u sha mediaType (b\<lparr>bn_SSHTunnels := xs\<rparr>) = Inr b2"
    by (simp add: validated_any_tunnels Inr b2_def)
  have n: "destinationsNamed u b1" by (rule validated_named[OF Inr named])
  have d: "compileDokployConnections u keys b2 (bn_DokployConnections b1) = compileDokployConnections u keys b1 (bn_DokployConnections b1)"
    by (rule dokploy_any_tunnels) (use n in \<open>simp add: destinationsNamed_def\<close>)
  have h: "compileHTTPConnections u keys b2 (bn_HTTPConnections b1) = compileHTTPConnections u keys b1 (bn_HTTPConnections b1)"
    by (rule http_any_tunnels) (use n in \<open>simp add: destinationsNamed_def\<close>)
  have f: "map (forwardClient u keys b2) (map fst (bn_Targets b1)) = map (forwardClient u keys b1) (map fst (bn_Targets b1))"
  proof (rule map_cong[OF refl])
    fix t assume "t \<in> set (map fst (bn_Targets b1))"
    then obtain l where "(t, l) \<in> set (bn_Targets b1)" by auto
    then show "forwardClient u keys b2 t = forwardClient u keys b1 t"
      by (intro forward_any_tunnels) (use n in \<open>fastforce simp: destinationsNamed_def\<close>)
  qed
  have s: "compileSources u sha hmac decode decodeEnvelope b2 = compileSources u sha hmac decode decodeEnvelope b1"
    "bn_DokployConnections b2 = bn_DokployConnections b1" "bn_HTTPConnections b2 = bn_HTTPConnections b1" "bn_Targets b2 = bn_Targets b1"
    "bn_Routes b2 = bn_Routes b1" "bn_Interval b2 = bn_Interval b1" "bn_Timeout b2 = bn_Timeout b1"
    by (simp_all add: b2_def compileSources_def)
  show ?thesis
  proof (cases "isl (compileDokployConnections u keys b1 (bn_DokployConnections b1)) \<or>
      isl (compileHTTPConnections u keys b1 (bn_HTTPConnections b1)) \<or>
      firstOf (map (forwardClient u keys b1) (map fst (bn_Targets b1))) \<noteq> None")
    case True
    then show ?thesis unfolding compileBundle_def Inr v2 sum.case s d h f Let_def
      by (auto split: sum.split option.split simp del: firstOf_None)
  next
    case False
    then obtain ds hs where o: "compileDokployConnections u keys b1 (bn_DokployConnections b1) = Inr ds"
        "compileHTTPConnections u keys b1 (bn_HTTPConnections b1) = Inr hs"
        "firstOf (map (forwardClient u keys b1) (map fst (bn_Targets b1))) = None"
      by (metis isl_def obj_sumE)
    let ?polling = "pollingSettings (bn_Interval b1) (bn_Timeout b1)"
    let ?c = "\<lambda>b. \<lparr>cn_dokploy = ds, cn_http = hs, cn_tunnels = map tunnelSnapshot (bn_SSHTunnels b)\<rparr>"
    have c: "?c b2 = (?c b1)\<lparr>cn_tunnels := map tunnelSnapshot (bn_SSHTunnels b2)\<rparr>" by simp
    show ?thesis
      using compileTargets_any_tunnels[where sha = sha and canon = "code_canonical u" and c = "?c b1" and i = "fst ?polling" and t = "snd ?polling" and
          cfgs = "map fst (bn_Targets b1)" and tunnels = "map tunnelSnapshot (bn_SSHTunnels b2)", folded c] same_targets_lookup
      unfolding compileBundle_def Inr v2 sum.case s d h f o Let_def option.case
      by (cases "compileTargets sha (code_canonical u) (?c b1) (fst ?polling) (snd ?polling) (map fst (bn_Targets b1))") auto
  qed
qed

section \<open>The properties\<close>

text \<open>C26. Environment references are replaced exactly in the scalars whose key is one of the secret names, wherever in the document
  they stand: if each of these references has a value, the expansion is the document with these values in place and nothing else
  changed; if one of them, other than a passphrase, is missing or empty, it fails. What kind of document it is plays no part, so a
  query parameter of an HTTP target that is called \<open>token\<close> is expanded too.\<close>

theorem environment_expansion:
  "if \<exists>s\<in>set (scalars [] n). missingReference lookup s
   then snd (expandSecretEnvironmentReferences lookup n) \<noteq> None
   else expandSecretEnvironmentReferences lookup n = (mapScalars (environmentValue lookup) [] n, None)"
proof (cases "list_ex (missingReference lookup) (scalars [] n)")
  case True
  then show ?thesis using expansion_missing(1) by (auto simp: expandSecretEnvironmentReferences_def list_ex_iff)
next
  case False
  then have "list_all (\<lambda>s. \<not> missingReference lookup s) (scalars [] n)" "\<not> (\<exists>s\<in>set (scalars [] n). missingReference lookup s)"
    by (auto simp: list_ex_iff list_all_iff)
  then show ?thesis by (simp add: expandSecretEnvironmentReferences_def expansion_ok(1))
qed


definition sample_query :: Node where
  "sample_query =
     DocumentNode [MappingNode
       [(ScalarNode ''kind'' ''!!str'', ScalarNode ''HTTPTargets'' ''!!str''),
        (ScalarNode ''targets'' ''!!str'',
         SequenceNode [MappingNode
           [(ScalarNode ''path'' ''!!str'', ScalarNode ''${REGION}'' ''!!str''),
            (ScalarNode ''query'' ''!!str'', MappingNode [(ScalarNode ''token'' ''!!str'', ScalarNode ''${KEY}'' ''!!str'')])]])]]"

theorem environment_expansion_witness:
  "expandSecretEnvironmentReferences [''KEY'' \<mapsto> ''k-1''] sample_query =
     (DocumentNode [MappingNode
       [(ScalarNode ''kind'' ''!!str'', ScalarNode ''HTTPTargets'' ''!!str''),
        (ScalarNode ''targets'' ''!!str'',
         SequenceNode [MappingNode
           [(ScalarNode ''path'' ''!!str'', ScalarNode ''${REGION}'' ''!!str''),
            (ScalarNode ''query'' ''!!str'', MappingNode [(ScalarNode ''token'' ''!!str'', ScalarNode ''k-1'' ''!!str'')])]])]], None) \<and>
   snd (expandSecretEnvironmentReferences (\<lambda>_. None) sample_query) \<noteq> None"
proof -
  have "exactEnvironmentReference ''${KEY}'' = Some ''KEY''" by code_simp
  moreover have "\<exists>s\<in>set (scalars [] sample_query). missingReference (\<lambda>_. None) s"
    using calculation by (simp add: sample_query_def missingReference_def environmentValue_def secretReference_def secretEnvironmentPath_def)
  moreover have "\<not> (\<exists>s\<in>set (scalars [] sample_query). missingReference [''KEY'' \<mapsto> ''k-1''] s)"
    using calculation by (simp add: sample_query_def missingReference_def environmentValue_def secretReference_def secretEnvironmentPath_def)
  ultimately show ?thesis
    using environment_expansion[of sample_query "[''KEY'' \<mapsto> ''k-1'']"] environment_expansion[of sample_query "\<lambda>_. None"]
    by (simp add: sample_query_def environmentValue_def secretReference_def secretEnvironmentPath_def)
qed

text \<open>C23. Nothing that stands in a file of tunnels makes a reload fail. A file whose header says so, or one that cannot be parsed but has
  such a kind line (unless it holds several documents), only adds tunnels to the configuration. A tunnel that is marked as faulty
  stays unusable under its identifier after validation, even if another entry with the same identifier is in order. And the
  configuration with the added tunnels compiles exactly if the one without them does, with the same sources, routes and targets,
  of which those that go through no tunnel are unchanged. The hypothesis is that the canonical URLs name a host; a base URL
  like \<^verbatim>\<open>http://:8080\<close> does not, and a tunnel that is in order is refused for it.\<close>

theorem broken_tunnels_isolated:
  assumes header: "(\<exists>n. parseDocument parse f = Inr n \<and> de_Header de n = Some ''SSHTunnels'') \<or>
      (\<exists>e. parseDocument parse f = Inl e \<and> kindLine True (sf_Content f) = Some ''SSHTunnels'' \<and> \<not> occursIn ''multiple YAML documents'' e)"
    and named: "destinationsNamed u b"
  shows "\<exists>ts. decodeResource parse de lookup b f = Inr (b\<lparr>bn_SSHTunnels := bn_SSHTunnels b @ ts\<rparr>) \<and>
    (\<forall>t\<in>set ts. st_ConfigurationError t \<noteq> '''' \<longrightarrow> identifierPattern (st_ID t) \<longrightarrow>
       (\<forall>b' b'' keys. t \<in> set (bn_SSHTunnels b') \<longrightarrow> validateSSHTunnels u b' = Inr b'' \<longrightarrow> \<not> tunnelReady keys b'' (st_ID t))) \<and>
    (case (compileBundle u sha hmac decode decodeEnvelope mediaType keys digest b,
           compileBundle u sha hmac decode decodeEnvelope mediaType keys digest' (b\<lparr>bn_SSHTunnels := bn_SSHTunnels b @ ts\<rparr>)) of
       (Inr (c, ss, g), Inr (c', ss', g')) \<Rightarrow> ss' = ss \<and> gn_routes g' = gn_routes g \<and>
         map fst (gn_targets g') = map fst (gn_targets g) \<and>
         (\<forall>i t. map_of (gn_targets g) i = Some t \<longrightarrow> tg_SSHTunnel t = '''' \<longrightarrow> map_of (gn_targets g') i = Some t)
     | (Inl e, Inl e') \<Rightarrow> True
     | _ \<Rightarrow> False)"
proof -
  have "\<exists>ts. decodeResource parse de lookup b f = Inr (b\<lparr>bn_SSHTunnels := bn_SSHTunnels b @ ts\<rparr>)"
  proof (cases "parseDocument parse f")
    case (Inl e)
    then show ?thesis using header by (auto simp: decodeResource_def invalidTunnels_def)
  next
    case (Inr n)
    then show ?thesis using header
      by (cases "de_Tunnels de n") (auto simp: decodeResource_def expandResourceSecrets_def decodeKind_def Let_def invalidTunnels_def)
  qed
  then show ?thesis using faulty_tunnel_not_ready tunnels_harmless[OF named] unfolding faulty_def by blast
qed

definition sample_tunnel :: SSHTunnel where
  "sample_tunnel = emptyTunnel\<lparr>st_ID := ''jump'', st_Host := ''h'', st_User := ''u'', st_PrivateKeyFile := ''/k'', st_KnownHostsFile := ''/n''\<rparr>"

text \<open>Two entries with the same identifier, the first of them with fields that do not exist.\<close>

definition sample_decoders :: Decoders where
  "sample_decoders =
     \<lparr>de_Header = (\<lambda>_. Some ''SSHTunnels''), de_GlobalHeader = (\<lambda>_. None), de_Global = (\<lambda>_. None), de_Numbered = (\<lambda>_. None),
      de_Harbor = (\<lambda>_. None), de_Dokploy = (\<lambda>_. None), de_Tunnels = (\<lambda>_. Some [AliasNode ''a'', AliasNode ''b'']),
      de_Tunnel = (\<lambda>n. if n = AliasNode ''a'' then (emptyTunnel, False) else (sample_tunnel, True)), de_EntryID = (\<lambda>_. ''jump''),
      de_HTTPConnections = (\<lambda>_. None), de_Targets = (\<lambda>_. None), de_Routes = (\<lambda>_. None)\<rparr>"

definition sample_file :: SourceFile where
  "sample_file = \<lparr>sf_Path = ''ssh.yaml'', sf_Content = ''''\<rparr>"

definition sample_parse :: yaml_parser where
  "sample_parse = (\<lambda>_. ([DocumentNode []], None))"

lemma sample_named: "destinationsNamed sample_unicode sample_bundle"
proof -
  have "tunnelDestination ''https://d.x''" by code_simp
  moreover have "CanonicalForwardURL sample_unicode '''' = None" by code_simp
  ultimately show ?thesis by (simp add: destinationsNamed_def sample_bundle_def sample_urls sample_config_def)
qed

theorem broken_tunnels_isolated_witness:
  "\<exists>b b'. decodeResource sample_parse sample_decoders (\<lambda>_. None) sample_bundle sample_file = Inr b \<and>
     bn_SSHTunnels b = [emptyTunnel\<lparr>st_ID := ''jump'', st_ConfigurationError := ''invalid_configuration''\<rparr>, sample_tunnel] \<and>
     validateSSHTunnels sample_unicode b = Inr b' \<and> \<not> tunnelReady (\<lambda>_. True) b' ''jump'' \<and>
     \<not> isl (compileBundle sample_unicode sample_sha (\<lambda>_ _. '''') (\<lambda>_. None) (\<lambda>_. None) (\<lambda>_. True) (\<lambda>_. True) ''d2'' b)"
proof -
  let ?t = "emptyTunnel\<lparr>st_ID := ''jump'', st_ConfigurationError := ''invalid_configuration''\<rparr>"
  let ?b = "sample_bundle\<lparr>bn_SSHTunnels := [?t, sample_tunnel]\<rparr>"
  have p: "parseDocument sample_parse sample_file = Inr (DocumentNode [])"
    by (simp add: parseDocument_def sample_parse_def)
  have k: "de_Header sample_decoders (DocumentNode []) = Some ''SSHTunnels''" by (simp add: sample_decoders_def)
  have d: "decodeResource sample_parse sample_decoders (\<lambda>_. None) sample_bundle sample_file = Inr ?b"
    by (simp add: decodeResource_def p k expandResourceSecrets_def decodeKind_def)
      (simp add: sample_decoders_def decodeTunnel_def expandSecretEnvironmentReferences_def sample_bundle_def)
  have i: "identifierPattern ''jump''" by code_simp
  let ?compile = "\<lambda>digest. compileBundle sample_unicode sample_sha (\<lambda>_ _. '''') (\<lambda>_. None) (\<lambda>_. None) (\<lambda>_. True) (\<lambda>_. True) digest"
  have header: "(\<exists>n. parseDocument sample_parse sample_file = Inr n \<and> de_Header sample_decoders n = Some ''SSHTunnels'') \<or>
      (\<exists>e. parseDocument sample_parse sample_file = Inl e \<and> kindLine True (sf_Content sample_file) = Some ''SSHTunnels'' \<and>
        \<not> occursIn ''multiple YAML documents'' e)" using p k by blast
  obtain ts where ts: "decodeResource sample_parse sample_decoders (\<lambda>_. None) sample_bundle sample_file =
        Inr (sample_bundle\<lparr>bn_SSHTunnels := bn_SSHTunnels sample_bundle @ ts\<rparr>)"
      and q: "\<forall>t\<in>set ts. st_ConfigurationError t \<noteq> '''' \<longrightarrow> identifierPattern (st_ID t) \<longrightarrow>
        (\<forall>b' b'' keys. t \<in> set (bn_SSHTunnels b') \<longrightarrow> validateSSHTunnels sample_unicode b' = Inr b'' \<longrightarrow> \<not> tunnelReady keys b'' (st_ID t))"
      and h: "case (?compile ''d1'' sample_bundle, ?compile ''d2'' (sample_bundle\<lparr>bn_SSHTunnels := bn_SSHTunnels sample_bundle @ ts\<rparr>)) of
       (Inr (c, ss, g), Inr (c', ss', g')) \<Rightarrow> ss' = ss \<and> gn_routes g' = gn_routes g \<and>
         map fst (gn_targets g') = map fst (gn_targets g) \<and>
         (\<forall>i t. map_of (gn_targets g) i = Some t \<longrightarrow> tg_SSHTunnel t = '''' \<longrightarrow> map_of (gn_targets g') i = Some t)
     | (Inl e, Inl e') \<Rightarrow> True
     | _ \<Rightarrow> False"
    using broken_tunnels_isolated[OF header sample_named] by blast
  have same: "sample_bundle\<lparr>bn_SSHTunnels := bn_SSHTunnels sample_bundle @ ts\<rparr> = ?b" using ts unfolding d by simp
  have c: "\<not> isl (?compile ''d2'' ?b)"
  proof (cases "?compile ''d2'' ?b")
    case (Inl e)
    then show ?thesis using h sample_compiles unfolding same sample_compiled_def by (auto split: sum.splits prod.splits)
  qed simp
  have two: "ts = [?t, sample_tunnel]" using same by (simp add: sample_bundle_def)
  obtain b' where v: "validateSSHTunnels sample_unicode ?b = Inr b'"
    by (simp add: validateSSHTunnels_def sample_bundle_def sample_config_def)
  have "\<forall>b' b'' keys. ?t \<in> set (bn_SSHTunnels b') \<longrightarrow> validateSSHTunnels sample_unicode b' = Inr b'' \<longrightarrow> \<not> tunnelReady keys b'' ''jump''"
    using bspec[OF q, of ?t] two i by simp
  moreover have "?t \<in> set (bn_SSHTunnels ?b)" by simp
  ultimately have "\<not> tunnelReady (\<lambda>_. True) b' ''jump''" using v by blast
  then show ?thesis using d v c by (intro exI[of _ ?b] exI[of _ b'] conjI) simp_all
qed

end
