(* ===== verification/Inventory.thy ===== *)
theory Inventory
  imports Compile Send_Clients
begin

text \<open>
  What the administrators see of the remote systems: the discovery of \<^verbatim>\<open>internal/dokploy/client.go\<close>, the connections and the target
  inventory of \<^verbatim>\<open>internal/runtimecfg/connections.go\<close> and \<^verbatim>\<open>targets.go\<close>, and the checks of SSH tunnels of \<^verbatim>\<open>ssh.go\<close>.

  \<^item> A Dokploy server is a function \<open>get\<close> from a path and a query to an answer, or none if the request failed or ran out of time.
    The decoding of a text into a Go type is an argument; it gives a value only if the text is exactly one JSON value of the type.
  \<^item> The requests of an inventory run concurrently under one deadline, and each writes a result of its own, so the inventory is a
    function of their results. A request that never got its turn counts as failed.
\<close>

section \<open>Discovery\<close>

record Answer =
  gr_StatusCode :: int
  gr_JSON :: bool
  gr_ReadFailed :: bool
  gr_Body :: RemoteBody

type_synonym remote = "string \<Rightarrow> (string \<times> string) list \<Rightarrow> Answer option"

definition maxDiscoveryBody :: nat where
  "maxDiscoveryBody = 1048576"

definition getJSON :: "(bytes \<Rightarrow> 'a option) \<Rightarrow> Answer option \<Rightarrow> 'a option" where
  "getJSON decode answer =
     (case answer of
        None \<Rightarrow> None
      | Some r \<Rightarrow>
          if gr_StatusCode r \<noteq> 200 \<or> \<not> gr_JSON r \<or> gr_ReadFailed r then None
          else (case readBounded (gr_Body r) maxDiscoveryBody of (body, truncated) \<Rightarrow> if truncated then None else decode body))"

record ComposeDocument =
  cd_ComposeID :: string
  cd_Name :: string
  cd_AppName :: "string option"
  cd_ComposeStatus :: "string option"

type_synonym EnvironmentDocument = "string \<times> ComposeDocument list"
type_synonym ProjectDocument = "string \<times> EnvironmentDocument list"

record ComposeResource =
  co_ProjectName :: string
  co_EnvironmentName :: string
  co_Name :: string
  co_AppName :: string
  co_ResourceID :: string
  co_Status :: string

definition composeResource :: "string \<times> string \<times> ComposeDocument \<Rightarrow> ComposeResource option" where
  "composeResource = (\<lambda>(project, environment, compose).
     if project = '''' \<or> environment = '''' \<or> cd_Name compose = '''' \<or> cd_ComposeID compose = '''' then None
     else Some \<lparr>co_ProjectName = project, co_EnvironmentName = environment, co_Name = cd_Name compose,
                co_AppName = (case cd_AppName compose of None \<Rightarrow> '''' | Some a \<Rightarrow> a), co_ResourceID = cd_ComposeID compose,
                co_Status = (case cd_ComposeStatus compose of None \<Rightarrow> '''' | Some s \<Rightarrow> s)\<rparr>)"

fun allOrNone :: "'a option list \<Rightarrow> 'a list option" where
  "allOrNone [] = Some []"
| "allOrNone (None # xs) = None"
| "allOrNone (Some x # xs) = map_option (Cons x) (allOrNone xs)"

definition resourceOrder :: "ComposeResource \<Rightarrow> string list" where
  "resourceOrder r = [co_ProjectName r, co_EnvironmentName r, co_Name r, co_ResourceID r]"

definition composeTriples :: "ProjectDocument list \<Rightarrow> (string \<times> string \<times> ComposeDocument) list" where
  "composeTriples projects =
     concat (map (\<lambda>(project, environments).
       concat (map (\<lambda>(environment, composes). map (\<lambda>c. (project, environment, c)) composes) environments)) projects)"

definition decodeComposeResources :: "(bytes \<Rightarrow> ProjectDocument list option) \<Rightarrow> bytes \<Rightarrow> ComposeResource list option" where
  "decodeComposeResources decode body =
     (let trimmed = trimSpace body in
      if length trimmed < 2 \<or> hd trimmed \<noteq> CHR ''['' \<or> last trimmed \<noteq> CHR '']'' then None
      else case decode trimmed of
        None \<Rightarrow> None
      | Some projects \<Rightarrow> map_option (sort_key resourceOrder) (allOrNone (map composeResource (composeTriples projects))))"

definition DiscoverComposeResources :: "(bytes \<Rightarrow> ProjectDocument list option) \<Rightarrow> remote \<Rightarrow> ComposeResource list option" where
  "DiscoverComposeResources decode get = getJSON (decodeComposeResources decode) (get ''/api/project.all'' [])"

record ContainerConfig =
  cc_Name :: string
  cc_Status :: string
  cc_Health :: "string option"
  cc_RestartCount :: int

record TargetContainer =
  tn_Name :: string
  tn_State :: string
  tn_Health :: string
  tn_RestartCount :: int

text \<open>One listed container, an identifier and a name: its configuration is read and its safe part kept.\<close>

definition discoverContainer :: "(bytes \<Rightarrow> ContainerConfig option) \<Rightarrow> remote \<Rightarrow> string \<times> string \<Rightarrow> TargetContainer option" where
  "discoverContainer decode get = (\<lambda>(containerID, listedName).
     if containerID = '''' \<or> listedName = '''' then None
     else map_option (\<lambda>c.
       let name = (if prefixOf ''/'' (cc_Name c) then tl (cc_Name c) else cc_Name c) in
       \<lparr>tn_Name = (if name = '''' then listedName else name), tn_State = cc_Status c,
        tn_Health = (case cc_Health c of None \<Rightarrow> '''' | Some h \<Rightarrow> h), tn_RestartCount = cc_RestartCount c\<rparr>)
       (getJSON decode (get ''/api/docker.getConfig'' [(''containerId'', containerID)])))"

definition DiscoverComposeContainers ::
  "(bytes \<Rightarrow> (string \<times> string) list option) \<Rightarrow> (bytes \<Rightarrow> ContainerConfig option) \<Rightarrow> remote \<Rightarrow> string \<Rightarrow>
   TargetContainer list option" where
  "DiscoverComposeContainers decodeList decode get appName =
     (if appName = '''' then None
      else case getJSON decodeList (get ''/api/docker.getContainersByAppNameMatch'' [(''appName'', appName), (''appType'', ''docker-compose'')]) of
        None \<Rightarrow> None
      | Some listed \<Rightarrow> map_option (sort_key tn_Name) (allOrNone (map (discoverContainer decode get) listed)))"

definition DiscoverComposeAppName :: "(bytes \<Rightarrow> (string \<times> string) option) \<Rightarrow> remote \<Rightarrow> string \<Rightarrow> string option" where
  "DiscoverComposeAppName decode get composeID =
     (if composeID = '''' then None
      else case getJSON decode (get ''/api/compose.one'' [(''composeId'', composeID)]) of
        None \<Rightarrow> None
      | Some (foundID, appName) \<Rightarrow> if foundID \<noteq> composeID \<or> appName = '''' then None else Some appName)"

section \<open>Connections\<close>

record ConnectionSummary =
  cs_SSHTunnel :: string
  cs_ID :: string
  cs_Type :: string
  cs_Capabilities :: "string list"

definition connectionSummaries :: "Connections \<Rightarrow> ConnectionSummary list" where
  "connectionSummaries c =
     sort_key cs_ID
       (map (\<lambda>(i, url, tunnel). \<lparr>cs_SSHTunnel = tunnel, cs_ID = i, cs_Type = ''dokploy'', cs_Capabilities = [''resource_discovery'']\<rparr>)
          (cn_dokploy c) @
        map (\<lambda>(i, url, tunnel). \<lparr>cs_SSHTunnel = tunnel, cs_ID = i, cs_Type = ''http'', cs_Capabilities = []\<rparr>) (cn_http c))"

datatype discovery_error = ConnectionNotFound | CapabilityUnavailable | UpstreamUnavailable

text \<open>The resources of one connection; \<open>discover\<close> is \<^verbatim>\<open>DiscoverComposeResources\<close> of its client.\<close>

definition DiscoverConnectionResources ::
  "Connections \<Rightarrow> (string \<Rightarrow> ComposeResource list option) \<Rightarrow> string \<Rightarrow> discovery_error + ComposeResource list" where
  "DiscoverConnectionResources c discover i =
     (if map_of (cn_dokploy c) i \<noteq> None
      then (case discover i of None \<Rightarrow> Inl UpstreamUnavailable | Some rs \<Rightarrow> Inr rs)
      else Inl (if map_of (cn_http c) i \<noteq> None then CapabilityUnavailable else ConnectionNotFound))"

section \<open>The inventory\<close>

datatype TargetCondition = ConditionAvailable | ConditionUnavailable | ConditionRefreshFailed

datatype RuntimeStatus = RuntimeAllRunning | RuntimeDegraded | RuntimeStopped | RuntimeEmpty | RuntimeUnknown

record InventoryItem =
  ti_ID :: string
  ti_ConnectionID :: string
  ti_ResourceType :: string
  ti_ResourceID :: string
  ti_ProjectName :: string
  ti_EnvironmentName :: string
  ti_Name :: string
  ti_AppName :: string
  ti_Status :: string
  ti_Condition :: TargetCondition
  ti_RuntimeStatus :: "RuntimeStatus option"
  ti_Containers :: "TargetContainer list"

definition isRunning :: "TargetContainer \<Rightarrow> bool" where
  "isRunning c \<longleftrightarrow> tn_State c = ''running'' \<and> tn_Health c \<noteq> ''unhealthy''"

definition isTransitional :: "TargetContainer \<Rightarrow> bool" where
  "isTransitional c \<longleftrightarrow> tn_State c = ''created'' \<or> tn_State c = ''restarting''"

fun countContainers :: "TargetContainer list \<Rightarrow> nat \<times> nat \<Rightarrow> nat \<times> nat" where
  "countContainers [] counts = counts"
| "countContainers (c # cs) (running, transitional) =
     countContainers cs (if isRunning c then (Suc running, transitional)
                         else if isTransitional c then (running, Suc transitional) else (running, transitional))"

definition summarizeTargetRuntime :: "TargetContainer list \<Rightarrow> RuntimeStatus" where
  "summarizeTargetRuntime cs =
     (if cs = [] then RuntimeEmpty
      else case countContainers cs (0, 0) of
        (running, transitional) \<Rightarrow>
          if running = length cs then RuntimeAllRunning
          else if 0 < running \<or> 0 < transitional then RuntimeDegraded else RuntimeStopped)"

text \<open>What the requests of one inventory returned: the resources of a connection, the name of a compose and its containers.\<close>

record Discovered =
  dv_Resources :: "string \<Rightarrow> ComposeResource list option"
  dv_AppName :: "string \<Rightarrow> string \<Rightarrow> string option"
  dv_Containers :: "string \<Rightarrow> string \<Rightarrow> TargetContainer list option"

definition inventoryConnections :: "Connections \<Rightarrow> Target list \<Rightarrow> string list" where
  "inventoryConnections c ts = filter (\<lambda>i. map_of (cn_dokploy c) i \<noteq> None) (sort (remdups (map tg_ConnectionID ts)))"

definition resourceKey :: "string \<Rightarrow> string \<Rightarrow> string" where
  "resourceKey resourceType i = resourceType @ [CHR 0x00] @ i"

text \<open>A later resource with the same key replaces an earlier one.\<close>

definition findResource :: "ComposeResource list \<Rightarrow> Target \<Rightarrow> ComposeResource option" where
  "findResource rs t = map_of (rev (map (\<lambda>r. (resourceKey ''compose'' (co_ResourceID r), r)) rs)) (resourceKey (tg_ResourceType t) (tg_ComposeID t))"

definition targetRuntime :: "Discovered \<Rightarrow> Target \<Rightarrow> string \<times> RuntimeStatus \<times> TargetContainer list" where
  "targetRuntime d t =
     (case dv_AppName d (tg_ConnectionID t) (tg_ComposeID t) of
        None \<Rightarrow> ('''', RuntimeUnknown, [])
      | Some app \<Rightarrow>
          (case dv_Containers d (tg_ConnectionID t) app of
             None \<Rightarrow> (app, RuntimeUnknown, [])
           | Some cs \<Rightarrow> (app, summarizeTargetRuntime cs, cs)))"

definition bareItem :: "Target \<Rightarrow> InventoryItem" where
  "bareItem t =
     \<lparr>ti_ID = tg_ID t, ti_ConnectionID = tg_ConnectionID t, ti_ResourceType = tg_ResourceType t, ti_ResourceID = tg_ComposeID t,
      ti_ProjectName = '''', ti_EnvironmentName = '''', ti_Name = '''', ti_AppName = '''', ti_Status = '''',
      ti_Condition = ConditionUnavailable, ti_RuntimeStatus = None, ti_Containers = []\<rparr>"

definition inventoryItem :: "Connections \<Rightarrow> Discovered \<Rightarrow> Target \<Rightarrow> InventoryItem" where
  "inventoryItem c d t =
     (let item = bareItem t in
      if tg_Type t = ''http'' \<or> tg_Type t = ''forward'' then item\<lparr>ti_Name := tg_ID t, ti_Condition := ConditionAvailable\<rparr>
      else if map_of (cn_dokploy c) (tg_ConnectionID t) = None then item
      else case dv_Resources d (tg_ConnectionID t) of
        None \<Rightarrow> item\<lparr>ti_Condition := ConditionRefreshFailed\<rparr>
      | Some rs \<Rightarrow>
          (case findResource rs t of
             None \<Rightarrow> item
           | Some r \<Rightarrow>
               (case targetRuntime d t of
                  (app, status, containers) \<Rightarrow>
                    item\<lparr>ti_ProjectName := co_ProjectName r, ti_EnvironmentName := co_EnvironmentName r, ti_Name := co_Name r,
                         ti_AppName := (if app \<noteq> '''' then app else co_AppName r), ti_Status := co_Status r,
                         ti_Condition := ConditionAvailable, ti_RuntimeStatus := Some status, ti_Containers := containers\<rparr>)))"

definition TargetInventory :: "Connections \<Rightarrow> Generation \<Rightarrow> Discovered \<Rightarrow> InventoryItem list \<times> string list" where
  "TargetInventory c g d =
     (map (inventoryItem c d) (Targets g), filter (\<lambda>i. dv_Resources d i = None) (inventoryConnections c (Targets g)))"

section \<open>Tunnels\<close>

datatype TunnelStatus = TunnelNotChecked | TunnelConfigurationError | TunnelConnectionError | TunnelConnected | TunnelOnly

record TunnelRuntime =
  tr_ID :: string
  tr_Status :: TunnelStatus
  tr_Error :: string
  tr_CheckedAt :: "time option"
  tr_Ready :: bool
  tr_Destinations :: "string list"
  tr_Checking :: bool

datatype check_start = CheckInProgress | CheckSkipped | CheckStarted TunnelRuntime

text \<open>The two critical sections of \<^verbatim>\<open>CheckSSHTunnel\<close>, around \<^verbatim>\<open>Tunnel.Check\<close>, whose outcome is \<open>ok\<close>.\<close>

definition beginCheck :: "TunnelRuntime \<Rightarrow> check_start" where
  "beginCheck r =
     (if tr_Checking r then CheckInProgress
      else if \<not> tr_Ready r \<or> tr_Status r = TunnelConfigurationError then CheckSkipped
      else CheckStarted (r\<lparr>tr_Checking := True\<rparr>))"

definition endCheck :: "bool \<Rightarrow> time \<Rightarrow> TunnelRuntime \<Rightarrow> TunnelRuntime" where
  "endCheck ok now r =
     (let r1 = r\<lparr>tr_Checking := False, tr_CheckedAt := Some now\<rparr> in
      if \<not> ok then r1\<lparr>tr_Status := TunnelConnectionError, tr_Error := ''connection_failed''\<rparr>
      else r1\<lparr>tr_Error := '''', tr_Status := (if tr_Destinations r = [] then TunnelOnly else TunnelConnected)\<rparr>)"

text \<open>\<^verbatim>\<open>Tunnel.Check\<close>: every address behind the destinations is opened once, in order, up to the first failure.\<close>

definition destinationAddress :: "string \<Rightarrow> string option" where
  "destinationAddress raw =
     (case ParseURL raw of
        None \<Rightarrow> None
      | Some p \<Rightarrow>
          if Hostname p = '''' then None
          else let port = (if Port p \<noteq> '''' then Port p else if ur_Scheme p = ''https'' then ''443'' else ''80'')
               in Some (JoinHostPort (Hostname p) port))"

fun checkDestinations :: "(string \<Rightarrow> bool) \<Rightarrow> string list \<Rightarrow> string list \<Rightarrow> bool" where
  "checkDestinations dial seen [] = True"
| "checkDestinations dial seen (raw # later) =
     (case destinationAddress raw of
        None \<Rightarrow> False
      | Some address \<Rightarrow>
          if address \<in> set seen then checkDestinations dial seen later
          else dial address \<and> checkDestinations dial (address # seen) later)"

definition checkTunnelDestinations :: "(string \<Rightarrow> bool) \<Rightarrow> string list \<Rightarrow> bool" where
  "checkTunnelDestinations dial destinations = (if destinations = [] then dial '''' else checkDestinations dial [] destinations)"

section \<open>Facts\<close>

lemma countContainers_counts:
  "countContainers cs (r, t) = (r + length (filter isRunning cs), t + length (filter (\<lambda>c. \<not> isRunning c \<and> isTransitional c) cs))"
  by (induction cs "(r, t)" arbitrary: r t rule: countContainers.induct) auto

lemma filter_all_length: "length (filter P xs) = length xs \<longleftrightarrow> (\<forall>x\<in>set xs. P x)"
  by (metis filter_id_conv length_filter_less nat_neq_iff)

lemma summarizeTargetRuntime_cases:
  "summarizeTargetRuntime cs = RuntimeAllRunning \<longleftrightarrow> cs \<noteq> [] \<and> (\<forall>c\<in>set cs. isRunning c)"
  "summarizeTargetRuntime cs = RuntimeStopped \<longleftrightarrow> cs \<noteq> [] \<and> (\<forall>c\<in>set cs. \<not> isRunning c \<and> \<not> isTransitional c)"
proof -
  show "summarizeTargetRuntime cs = RuntimeAllRunning \<longleftrightarrow> cs \<noteq> [] \<and> (\<forall>c\<in>set cs. isRunning c)"
    by (simp add: summarizeTargetRuntime_def countContainers_counts filter_all_length)
  have "cs \<noteq> [] \<Longrightarrow> (\<forall>c\<in>set cs. \<not> isRunning c) \<Longrightarrow> \<not> (\<forall>c\<in>set cs. isRunning c)" by (cases cs) auto
  then show "summarizeTargetRuntime cs = RuntimeStopped \<longleftrightarrow> cs \<noteq> [] \<and> (\<forall>c\<in>set cs. \<not> isRunning c \<and> \<not> isTransitional c)"
    by (auto simp: summarizeTargetRuntime_def countContainers_counts filter_all_length filter_empty_conv)
qed

lemma checkDestinations_iff:
  "checkDestinations dial seen ds \<longleftrightarrow>
     (\<forall>d\<in>set ds. \<exists>a. destinationAddress d = Some a \<and> (a \<in> set seen \<or> dial a))"
  by (induction dial seen ds rule: checkDestinations.induct) (auto split: option.splits)


text \<open>Every target is listed once, in order; a failed connection shows at its own targets and nowhere else.\<close>

definition sameConnection :: "string \<Rightarrow> Discovered \<Rightarrow> Discovered \<Rightarrow> bool" where
  "sameConnection i d d' \<longleftrightarrow>
     dv_Resources d i = dv_Resources d' i \<and> dv_AppName d i = dv_AppName d' i \<and> dv_Containers d i = dv_Containers d' i"

theorem inventory_isolates_failures:
  assumes t: "t \<in> set (Targets g)" and remote: "tg_Type t \<noteq> ''http''" "tg_Type t \<noteq> ''forward''"
  shows "map ti_ID (fst (TargetInventory c g d)) = map tg_ID (Targets g)"
    and "ti_Condition (inventoryItem c d t) = ConditionRefreshFailed \<longleftrightarrow> tg_ConnectionID t \<in> set (snd (TargetInventory c g d))"
    and "sameConnection (tg_ConnectionID t) d d' \<Longrightarrow> inventoryItem c d t = inventoryItem c d' t"
    and "ti_RuntimeStatus (inventoryItem c d t) = Some RuntimeAllRunning \<Longrightarrow>
      ti_Containers (inventoryItem c d t) \<noteq> [] \<and> (\<forall>x\<in>set (ti_Containers (inventoryItem c d t)). isRunning x)"
proof -
  show "map ti_ID (fst (TargetInventory c g d)) = map tg_ID (Targets g)"
    by (simp add: TargetInventory_def inventoryItem_def bareItem_def Let_def split: option.splits prod.splits)
  show "ti_Condition (inventoryItem c d t) = ConditionRefreshFailed \<longleftrightarrow> tg_ConnectionID t \<in> set (snd (TargetInventory c g d))"
    using t remote
    by (auto simp: TargetInventory_def inventoryItem_def bareItem_def Let_def inventoryConnections_def split: option.splits prod.splits)
  show "inventoryItem c d t = inventoryItem c d' t" if same: "sameConnection (tg_ConnectionID t) d d'"
  proof -
    have e: "dv_Resources d (tg_ConnectionID t) = dv_Resources d' (tg_ConnectionID t)" "dv_AppName d (tg_ConnectionID t) = dv_AppName d' (tg_ConnectionID t)"
        "dv_Containers d (tg_ConnectionID t) = dv_Containers d' (tg_ConnectionID t)"
      using same by (simp_all add: sameConnection_def)
    show ?thesis unfolding inventoryItem_def targetRuntime_def by (simp only: e)
  qed
  show "ti_RuntimeStatus (inventoryItem c d t) = Some RuntimeAllRunning \<Longrightarrow>
      ti_Containers (inventoryItem c d t) \<noteq> [] \<and> (\<forall>x\<in>set (ti_Containers (inventoryItem c d t)). isRunning x)"
    using remote
    by (auto simp: inventoryItem_def bareItem_def Let_def targetRuntime_def summarizeTargetRuntime_cases(1)
        split: option.splits prod.splits if_splits)
qed

end
