(* ===== verification/Spec2Isabelle.thy ===== *)
theory Spec2Isabelle
  imports Store_Theorems Worker_Theorems Ingress_Theorems Admin_Theorems Feed_Theorems Statistics Config_Theorems
    Decode_Theorems Inventory
begin

text \<open>
  A verification library of Hookfly, a server that receives webhooks from GitLab, GitHub and Harbor, decides by configured
  routes which targets an event is for, and delivers it there: to Dokploy (a deployment that is then polled until it ends),
  to an HTTP endpoint built from a template, or to a service that gets the original request. Everything between is durable:
  an SQLite database holds events, deliveries, attempts and an audit trail, and the program recovers from it after a crash.
  The sources named below are under \<^verbatim>\<open>src/\<close>.

  \<^bold>\<open>The program.\<close> A webhook enters through \<^verbatim>\<open>internal/publichook/handler.go\<close>, is authenticated and normalised by an adapter
  (\<^verbatim>\<open>internal/gitlab\<close>, \<^verbatim>\<open>github\<close>, \<^verbatim>\<open>harbor\<close>), routed by the compiled configuration (\<^verbatim>\<open>internal/runtimecfg\<close>) or queued while a
  reload is under way, and stored (\<^verbatim>\<open>internal/store\<close>). The dispatcher claims pending attempts and sends them, the poller follows
  the deployments, the drainer decides queued events (\<^verbatim>\<open>internal/worker\<close>); administrators retry and redeploy
  (\<^verbatim>\<open>internal/service/attempts.go\<close>); retention prunes the history. The lifecycle manager
  (\<^verbatim>\<open>internal/runtimecfg/manager.go\<close>) replaces the configuration only while nothing is active.

  \<^bold>\<open>The theories\<close>, in the order of their imports:
  \<^item> \<open>Hookfly_Prelude\<close>: times, results, lists as SQL tables (\<open>sql_first\<close>, \<open>sql_update\<close>, \<open>sql_affected\<close>), the collections
    \<open>sql_simps\<close> and \<open>time_defs\<close>, and the locale \<open>keyed_table\<close>, interpreted for the tables in \<open>Store_Schema\<close>.
  \<^item> \<open>Documents\<close>, \<open>Marshal\<close>, \<open>Framing\<close>: the JSON documents the program stores, their marshalling, and the
    length-prefixed framing under the SHA-256 identities.
  \<^item> \<open>Domain\<close>, \<open>Matcher\<close>, \<open>Route_Config\<close>, \<open>Generation\<close>, \<open>Generation_Props\<close>: statuses and events, route predicates and
    their overlap, validation of the routes, compiled targets with their fingerprints, routing, and the resolution of an old
    snapshot (\<open>ResolveTarget\<close>).
  \<^item> \<open>Store_Schema\<close>: one record per table row, the database as a record of row lists, and its invariants: \<open>store_inv\<close>
    (keys, references, row checks, queue), \<open>audit_inv\<close> (every status is the last audited one), \<open>serialized\<close> (one attempt in
    flight per remote resource). \<open>durable_inv\<close> (\<open>Store_Write\<close>) is their conjunction. A transaction is a function from the
    database to a result and a database; a rollback returns the old one.
  \<^item> \<open>Store_Work\<close>, \<open>Store_Ingest\<close>, \<open>Store_Manual\<close>, \<open>Store_Restart\<close>, \<open>Store_Retention\<close> and their \<open>_Props\<close>: one definition per
    store operation, each with its effect as an equation and the preservation of \<open>durable_inv\<close>. \<open>Store_Evolution\<close> and
    \<open>Compatibility\<close> say what every operation keeps for the others: rows are only ever carried on, active deliveries stay
    compatible with the configuration, and an attempt in the dispatcher's hands stays sending.
  \<^item> \<open>Lifecycle\<close>, \<open>Retention_Service\<close>, \<open>Poller\<close>, \<open>Startup\<close>, \<open>Attempts_Service\<close>: the manager's critical sections, the
    retention trigger, one round of the poller, \<open>Prepare\<close>, and the manual operations.
  \<^item> \<open>Net_URL\<close>, \<open>Canonical_URL\<close>: what the code uses of Go's \<^verbatim>\<open>net/url\<close>, and the canonical base URLs over it.
    \<open>Net_Addr\<close>: addresses (\<^verbatim>\<open>net/netip\<close>) and the check that keeps requests out of private networks, when the configuration is read
    and when a request connects.
  \<^item> \<open>Config_Validate\<close>: the validation of a decoded configuration (\<^verbatim>\<open>internal/config/validate.go\<close>, \<^verbatim>\<open>ssh.go\<close>): sources, repositories,
    connections, targets, tunnels and the canonical order. \<open>Compile\<close>: \<^verbatim>\<open>compileBundle\<close> of \<^verbatim>\<open>internal/runtimecfg/generation.go\<close>, from
    such a configuration to the connections, sources and generation the other theories start from.
    \<open>Config_Decode\<close>: the way from files to such a configuration (\<^verbatim>\<open>discovery.go\<close>, \<^verbatim>\<open>decode.go\<close>) and \<^verbatim>\<open>Load\<close>.
  \<^item> \<open>Inventory\<close>: the discovery of Dokploy resources, the connections, the inventory of the targets and the checks of SSH tunnels
    (\<^verbatim>\<open>internal/runtimecfg/connections.go\<close>, \<^verbatim>\<open>targets.go\<close>, \<^verbatim>\<open>ssh.go\<close>).
  \<^item> \<open>Dokploy\<close>, \<open>Redact\<close>, \<open>Template\<close>, \<open>Send_Clients\<close>: the deployment history and its correlation, redaction, the templates
    of HTTP requests, and the three clients with the evidence they record before they send.
  \<^item> \<open>Providers\<close>, \<open>Public_Hook\<close>: the adapters (locale \<open>adapter_contract\<close>, interpreted for all three) and the endpoint.
  \<^item> \<open>System\<close>: the whole program as a step relation. A step is one transaction, one critical section of the manager, one
    request sent, or a crash with restart; the components interleave in every order. \<open>sys_inv\<close> is its invariant.
  \<^item> \<open>Dispatcher\<close>, \<open>Worker_Steps\<close>, \<open>Drain_Progress\<close>: a complete round of the dispatcher, of the poller and of a manual
    operation refines the step relation; draining ends.
  \<^item> \<open>Store_Query\<close>, \<open>Store_Detail\<close>, \<open>Deploy_Command\<close>: the read side (\<^verbatim>\<open>internal/store/query.go\<close>, \<^verbatim>\<open>deploy_command.go\<close>): pages,
    filters, the event that stands for a lifecycle, the detail with its redaction, the \<^verbatim>\<open>curl\<close> command.
  \<^item> \<open>Statistics\<close>: the durations of pipeline runs (\<^verbatim>\<open>internal/store/statistics.go\<close>) and what a complete run is. \<open>Notifications\<close>: the
    facts of \<^verbatim>\<open>internal/store/notifications.go\<close>, their pages and the stream of \<^verbatim>\<open>internal/adminapi/handler.go\<close>; its rounds are shown to be
    a function of a key, strictly increasing, and complete for a store that grows in the order of the cursor.
  \<^item> \<open>Auth\<close>, \<open>Admin_Api\<close>: settings, login, sessions and middleware (\<^verbatim>\<open>internal/auth\<close>); the guarded routes, the handlers that change
    state, the event query and the offered operations (\<^verbatim>\<open>internal/adminapi\<close>).
  \<^item> \<open>Sample_Data\<close>: a small installation at which the properties are applied. \<open>Store_Theorems\<close>, \<open>Worker_Theorems\<close>,
    \<open>Ingress_Theorems\<close>, \<open>Admin_Theorems\<close>, \<open>Feed_Theorems\<close>, \<open>Config_Theorems\<close>, \<open>Decode_Theorems\<close>, \<open>Statistics\<close>, \<open>Net_Addr\<close> and this theory
    hold the properties.

  \<^bold>\<open>Parameters.\<close> Code outside the repository is an argument: \<open>uuid n\<close> is the n-th random identifier (hypothesis: injective),
  \<open>sha\<close> is SHA-256 (where distinctness matters, the hypothesis is that it does not collide on the two texts at hand),
  \<open>hmac\<close> is HMAC-SHA256, \<open>u\<close> the Unicode tables beyond ASCII, decoders are functions from bytes to a JSON value, the answer
  of a remote system is any value, clocks are arbitrary. The canonical form of a base URL (\<open>canon\<close>) is a parameter of three
  functions with the hypothesis \<open>canonical_ok\<close>: a canonical URL that the configuration uses is its own canonical form. \<open>Canonical_URL\<close>
  defines the code's three functions and shows where they have this property and where not; \<open>compiled_bundle_serves\<close> derives the
  hypothesis for a configuration whose connections are at plain hosts. \<open>loads\<close> are the configurations that a run may load: any
  at all, and a property that needs them to resolve their own snapshots (\<open>bindings_ok\<close>) has this as a premise. A request is one call of
  the HTTP client; \<^verbatim>\<open>net/http\<close> may send an idempotent request again when a reused connection breaks. \<open>mediaType\<close> stands for \<^verbatim>\<open>mime.ParseMediaType\<close>, \<open>keys\<close> for
  whether the key files of a tunnel can be read, \<open>parse\<close> and the record \<open>Decoders\<close> for the YAML library, \<open>Filesystem\<close> for the files.

  \<^bold>\<open>Bounds.\<close> Times are integers (nanoseconds) and \<open>UnixMilli\<close> divides as Go does; the 64-bit lengths of the framing are
  kept at their width (\<open>short_fields\<close> is the condition under which it is exact). The body limit, snapshot limits and batch
  sizes are the constants of the code. No definition uses fuel except \<open>drainRounds\<close>, whose bound, one round more than there
  are queued events, is proved sufficient (\<open>draining_completes\<close>).

  \<^bold>\<open>Not modelled.\<close> The rendering of JSON answers, the JSON and base64 text of a notification cursor, heartbeats, the traffic through SSH tunnels, logging, the
  digest of a configuration (an argument of \<open>compileBundle\<close>), the precision that a large number of a JSON body loses when
  \<^verbatim>\<open>cloneJSONValue\<close> reads it as a floating point number (a body is handed on as it is), the clients as values (only whether their construction fails), and the timers that trigger the rounds. A transaction is
  atomic and transactions do not overlap, because the pool of \<^verbatim>\<open>store.Open\<close> has one connection; a database error that SQLite
  itself raises appears as an error branch only where the code reacts to it.
\<close>

section \<open>Properties that span components\<close>

text \<open>C1. Whatever webhooks, clocks, remote answers, reloads, manual operations and crashes happen, no delivery attempt is handed to
  the HTTP client twice, and an attempt that was sent has its request recorded in the database (as long as its row has not been pruned).\<close>

theorem sent_at_most_once:
  assumes "inj uuid" and "reachable uuid sha canon loads s"
  shows "distinct (sy_sent s) \<and>
    (\<forall>i\<in>set (sy_sent s). \<forall>a\<in>set (db_attempts (sy_db s)). at_id a = i \<longrightarrow> at_request_at a \<noteq> None)"
  using sys_invD(6) [OF reachable_inv [OF assms]] by (simp add: sent_ok_def marked_def)

theorem sent_at_most_once_witness:
  "sy_sent sample_sent = [''aaa''] \<and> distinct (sy_sent sample_sent) \<and>
    (\<exists>a\<in>set (db_attempts (sy_db sample_sent)). at_id a = ''aaa'' \<and> at_request_at a \<noteq> None)"
proof -
  have d: "sy_sent sample_sent = [''aaa'']" "sy_db sample_sent = db_recorded"
    by (simp_all add: sample_sent_def sample_recorded_def)
  have "list_ex (\<lambda>a. at_id a = ''aaa'') (db_attempts db_recorded)" by code_simp
  then obtain a where "a \<in> set (db_attempts db_recorded)" "at_id a = ''aaa''" by (auto simp: list_ex_iff)
  then show ?thesis using sent_at_most_once [OF inj_sample_uuid sample_sent_reachable] unfolding d by auto
qed

text \<open>C2. In every reachable state the database is consistent: keys, references and the routing queue are intact, every status
  is the last one its audit trail records, and two current attempts in flight never belong to the same remote resource.\<close>

theorem reachable_consistent:
  assumes "inj uuid" and "reachable uuid sha canon loads s"
  shows "store_inv uuid (sy_db s) \<and> audit_inv (sy_db s) \<and>
    (\<forall>d a d' a'. (d, a) \<in> set (current_pairs (sy_db s)) \<longrightarrow> (d', a') \<in> set (current_pairs (sy_db s)) \<longrightarrow>
       in_flight a \<longrightarrow> in_flight a' \<longrightarrow> same_resource d d' \<longrightarrow> dl_id d = dl_id d')"
  using sys_invD(1) [OF reachable_inv [OF assms]] unfolding durable_inv_def serialized_def by blast

theorem reachable_consistent_witness:
  "store_inv sample_uuid (sy_db sample_sent) \<and> audit_inv (sy_db sample_sent) \<and> serialized (sy_db sample_sent)"
  using reachable_consistent [OF inj_sample_uuid sample_sent_reachable] unfolding serialized_def by blast

text \<open>C3. The dispatcher never works with an outdated configuration: in every reachable state the attempt in its hands is the
  current one of its delivery, it is being sent, and the target is what the current configuration resolves its snapshot to,
  whatever reloads happened before. If every configuration that was ever loaded resolves the snapshots it makes
  (\<open>bindings_ok\<close>; \<open>compiled_bundle_serves\<close> shows it for connections at plain hosts, an IPv6 literal is the known exception), the
  resolution of a claimed attempt moreover never fails.\<close>

theorem dispatch_current_target:
  assumes u: "inj uuid" and r: "reachable uuid sha canon loads s"
    and d: "sy_dispatch s = DispatchClaimed w ot \<or> (\<exists>t. ot = Some t \<and> (sy_dispatch s = DispatchRecorded w t \<or> sy_dispatch s = DispatchAnswered w t))"
  shows "\<exists>d a. (d, a) \<in> set (current_pairs (sy_db s)) \<and> at_id a = pa_AttemptID w \<and> at_transport_status a = TransportSending \<and>
    ot = fst (ResolveTarget sha canon (mg_current (sy_manager s)) (dl_target_id d) (dl_target_snapshot d)) \<and>
    ((\<forall>g. loads g \<longrightarrow> bindings_ok sha canon g) \<longrightarrow>
      (\<exists>t. ot = Some t \<and>
        ResolveTarget sha canon (mg_current (sy_manager s)) (dl_target_id d) (dl_target_snapshot d) = (Some t, BindingCompatible)))"
proof -
  note i = reachable_inv [OF u r]
  have "in_hand sha canon (mg_current (sy_manager s)) (sy_db s) w ot"
    using sys_invD(8) [OF i] d by (auto simp: dispatch_ok_def Let_def)
  then obtain x a where x: "(x, a) \<in> set (current_pairs (sy_db s))" "at_id a = pa_AttemptID w" "at_transport_status a = TransportSending"
      "ot = fst (ResolveTarget sha canon (mg_current (sy_manager s)) (dl_target_id x) (dl_target_snapshot x))"
    unfolding in_hand_def by blast
  have "pair_compatible sha canon (mg_current (sy_manager s)) x" if "\<forall>g. loads g \<longrightarrow> bindings_ok sha canon g"
    using sys_inv_sound [OF i that] x(1,3) unfolding active_compatible_def by (fastforce simp: Active_def simp del: in_current_pairs)
  then show ?thesis using x unfolding pair_compatible_def by fastforce
qed

theorem dispatch_current_target_witness:
  "\<exists>d a. (d, a) \<in> set (current_pairs (sy_db sample_sent)) \<and> at_id a = pa_AttemptID sample_work \<and>
    at_transport_status a = TransportSending \<and>
    ResolveTarget sample_sha sample_canon (mg_current (sy_manager sample_sent)) (dl_target_id d) (dl_target_snapshot d) =
      (Some sample_target, BindingCompatible)"
proof -
  have d: "sy_dispatch sample_sent = DispatchAnswered sample_work sample_target" by (simp add: sample_sent_def)
  show ?thesis using dispatch_current_target [OF inj_sample_uuid sample_sent_reachable, of sample_work "Some sample_target"] d sample_loaded(3)
    by (auto simp del: in_current_pairs)
qed

text \<open>C4. A reload never changes the target under a running delivery: every step other than a restart that replaces the
  configuration happens while nothing is active and no manual operation is in progress. If every configuration that was ever
  loaded resolves the snapshots it makes (\<open>bindings_ok\<close>), each active delivery of a reachable state resolves to a target of the
  current configuration.\<close>

theorem reload_waits:
  assumes u: "inj uuid" and r: "reachable uuid sha canon loads s" and st: "step uuid sha canon loads s s'"
  shows "((\<forall>g. loads g \<longrightarrow> bindings_ok sha canon g) \<longrightarrow>
      active_compatible sha canon (mg_current (sy_manager s)) (sy_db s)) \<and>
    (mg_current (sy_manager s') = mg_current (sy_manager s) \<or> (\<not> has_active (sy_db s) \<and> sy_manual s = []) \<or>
     (\<exists>now g at db'. loads g \<and> Prepare uuid sha canon now (NewManager g at) (sy_db s) = (Inr (), sy_manager s', db') \<and> sy_db s' = db'))"
proof
  show "(\<forall>g. loads g \<longrightarrow> bindings_ok sha canon g) \<longrightarrow> active_compatible sha canon (mg_current (sy_manager s)) (sy_db s)"
    using sys_inv_sound [OF reachable_inv [OF u r]] by blast
  show "mg_current (sy_manager s') = mg_current (sy_manager s) \<or> (\<not> has_active (sy_db s) \<and> sy_manual s = []) \<or>
     (\<exists>now g at db'. loads g \<and> Prepare uuid sha canon now (NewManager g at) (sy_db s) = (Inr (), sy_manager s', db') \<and> sy_db s' = db')"
    using st
  proof cases
    case (drain r m' db')
    then show ?thesis using Drainer_cases [OF drain(2)] by (auto simp: SetIdle_keeps)
  next
    case (reload_complete loaded now)
    then show ?thesis using store.complete_publishes_idle [of now loaded "sy_db s" "sy_manager s"] by auto
  next
    case (reload_advance now)
    then show ?thesis using store.advance_publishes_idle [of now "sy_db s" "sy_manager s"] by auto
  next
    case (restart g now loadedAt m' db')
    then show ?thesis by (intro disjI2 exI [of _ now] exI [of _ g] exI [of _ loadedAt]) (simp add: start_def)
  qed (auto simp: reloadBegin_def)
qed

text \<open>The sample installation before its first webhook, when a reload has begun and when it has ended; and the delivery being sent.\<close>

definition reload_begun :: system where
  "reload_begun = (start empty_db sample_manager [])\<lparr>sy_manager := snd (reloadBegin sample_manager)\<rparr>"

definition reload_ended :: system where
  "reload_ended = reload_begun\<lparr>sy_manager := snd (reloadComplete 7 (Inr other_generation) (countActiveOf empty_db) (sy_manager reload_begun))\<rparr>"

lemma reload_begun_reachable: "reachable sample_uuid sample_sha sample_canon sample_loads reload_begun"
proof -
  have "reachable sample_uuid sample_sha sample_canon sample_loads (start empty_db sample_manager [])"
    unfolding sample_manager_def by (rule reachable.initial) (rule sample_loaded(1))
  moreover have "step sample_uuid sample_sha sample_canon sample_loads (start empty_db sample_manager []) reload_begun"
    using step.reload_begin [of "start empty_db sample_manager []"] by (simp add: reload_begun_def start_def)
  ultimately show ?thesis by (rule reachable.further)
qed

lemma reload_ended_step: "step sample_uuid sample_sha sample_canon sample_loads reload_begun reload_ended"
proof -
  have "sy_manual reload_begun = []" "sy_db reload_begun = empty_db" "mg_state (sy_manager reload_begun) = StateValidating"
    by (simp_all add: reload_begun_def start_def reloadBegin_def)
  then show ?thesis
    using step.reload_complete [of reload_begun "Inr other_generation" sample_loads] sample_loaded(2) by (simp add: reload_ended_def)
qed

lemma Prepare_no_result: "Prepare uuid sha canon now (NewManager g at) db = (Inr (), m', db') \<Longrightarrow> mg_lastResult m' = None"
  by (auto simp: Prepare_def Initialize_def NewManager_def split: prod.splits sum.splits if_splits)

lemma reload_ended_manager:
  "mg_current (sy_manager reload_begun) = sample_generation" "mg_current (sy_manager reload_ended) = other_generation"
  "mg_lastResult (sy_manager reload_ended) \<noteq> None"
  by (simp_all add: reload_ended_def reload_begun_def start_def reloadBegin_def reloadComplete_def publishCandidate_def setLastResult_def
      countActiveOf_def CountActive_def current_pairs_def empty_db_def)

theorem reload_waits_witness:
  "mg_current (sy_manager reload_ended) \<noteq> mg_current (sy_manager reload_begun) \<and>
   \<not> has_active (sy_db reload_begun) \<and> sy_manual reload_begun = [] \<and>
   has_active (sy_db sample_sent) \<and> active_compatible sample_sha sample_canon (mg_current (sy_manager sample_sent)) (sy_db sample_sent)"
proof (intro conjI)
  show n: "mg_current (sy_manager reload_ended) \<noteq> mg_current (sy_manager reload_begun)"
    by (simp add: reload_ended_manager other_generation_def sample_generation_def)
  have "\<not> has_active (sy_db reload_begun) \<and> sy_manual reload_begun = []"
    using conjunct2 [OF reload_waits [OF inj_sample_uuid reload_begun_reachable reload_ended_step]] n reload_ended_manager(3)
    by (elim disjE exE conjE) (simp_all add: Prepare_no_result)
  then show "\<not> has_active (sy_db reload_begun)" "sy_manual reload_begun = []" by simp_all
  show "has_active (sy_db sample_sent)"
    using sys_invD(8) [OF reachable_inv [OF inj_sample_uuid sample_sent_reachable]]
    by (auto simp: dispatch_ok_def Let_def sample_sent_def intro: in_hand_active)
  show "active_compatible sample_sha sample_canon (mg_current (sy_manager sample_sent)) (sy_db sample_sent)"
    using reload_waits [OF inj_sample_uuid sample_sent_reachable step.dispatch_error] sample_loaded(3) by blast
qed

end
